(* ===== verification/Prelude.thy ===== *)
theory Prelude imports Main "HOL-Library.AList" "HOL-Library.List_Lexorder" "HOL-Library.Char_ord" begin

text \<open>
  What every component shares. A Go call that may hit a nil dereference returns a value of
  type \<open>go\<close>: \<open>Panic\<close> is the run-time panic, \<open>Return v\<close> an ordinary return. A Go
  error return is a sum (\<open>Inl\<close> the error). A Go map is an association list with distinct
  keys in some iteration order: Go leaves that order open, and every lemma quantifies over all
  lists, so over all orders. A set (\<open>map[T]struct{}\<close>) is a distinct list, again in
  iteration order. The collections \<open>model_simps\<close> and \<open>keeps\<close> gather the equations
  and the preservation lemmas that the component proofs share.
\<close>

named_theorems model_simps
named_theorems keeps

section \<open>Outcomes of Go calls\<close>

datatype 'a go = Panic | Return 'a

fun bind_go :: "'a go \<Rightarrow> ('a \<Rightarrow> 'b go) \<Rightarrow> 'b go" where
  "bind_go Panic f = Panic"
| "bind_go (Return x) f = f x"

fun returns :: "'a go \<Rightarrow> bool" where
  "returns Panic = False"
| "returns (Return x) = True"

lemma bind_go_Return_iff:
  "bind_go m f = Return y \<longleftrightarrow> (\<exists>x. m = Return x \<and> f x = Return y)"
  by (cases m) auto

lemma bind_go_Panic_iff:
  "bind_go m f = Panic \<longleftrightarrow> m = Panic \<or> (\<exists>x. m = Return x \<and> f x = Panic)"
  by (cases m) auto

lemma returns_iff: "returns m \<longleftrightarrow> (\<exists>x. m = Return x)"
  by (cases m) auto

lemma returns_not_Panic: "returns m \<longleftrightarrow> m \<noteq> Panic"
  by (cases m) auto

text \<open>Running an effect over a list, left to right, stopping at the first panic.\<close>

fun traverse :: "('a \<Rightarrow> 'b go) \<Rightarrow> 'a list \<Rightarrow> 'b list go" where
  "traverse f [] = Return []"
| "traverse f (x # xs) = bind_go (f x) (\<lambda>y. bind_go (traverse f xs) (\<lambda>ys. Return (y # ys)))"

lemma traverse_Return_length: "traverse f xs = Return ys \<Longrightarrow> length ys = length xs"
  by (induction xs arbitrary: ys) (auto simp: bind_go_Return_iff)

lemma traverse_Return_list_all2:
  "traverse f xs = Return ys \<longleftrightarrow> list_all2 (\<lambda>x y. f x = Return y) xs ys"
proof (induction xs arbitrary: ys)
  case Nil
  then show ?case by auto
next
  case (Cons x xs)
  then show ?case by (cases ys) (auto simp: bind_go_Return_iff)
qed

lemma traverse_Panic_iff: "traverse f xs = Panic \<longleftrightarrow> (\<exists>x\<in>set xs. f x = Panic)"
  by (induction xs) (auto simp: bind_go_Panic_iff, (metis go.exhaust)+)

section \<open>Sets kept as distinct lists\<close>

definition adjoin :: "'a \<Rightarrow> 'a list \<Rightarrow> 'a list" where
  "adjoin x xs = (if x \<in> set xs then xs else xs @ [x])"

lemma set_adjoin [simp]: "set (adjoin x xs) = insert x (set xs)"
  by (auto simp: adjoin_def)

lemma distinct_adjoin [simp]: "distinct (adjoin x xs) = distinct xs"
  by (auto simp: adjoin_def)

lemma adjoin_member: "x \<in> set xs \<Longrightarrow> adjoin x xs = xs"
  by (simp add: adjoin_def)

definition adjoin_all :: "'a list \<Rightarrow> 'a list \<Rightarrow> 'a list" where
  "adjoin_all ys xs = fold adjoin ys xs"

lemma adjoin_all_simps [simp]:
  "adjoin_all [] xs = xs"
  "adjoin_all (y # ys) xs = adjoin_all ys (adjoin y xs)"
  by (simp_all add: adjoin_all_def)

lemma set_adjoin_all [simp]: "set (adjoin_all ys xs) = set xs \<union> set ys"
  by (induction ys arbitrary: xs) auto

lemma distinct_adjoin_all [simp]: "distinct (adjoin_all ys xs) = distinct xs"
  by (induction ys arbitrary: xs) auto

definition remove_all :: "'a list \<Rightarrow> 'a list \<Rightarrow> 'a list" where
  "remove_all ys xs = fold removeAll ys xs"

lemma set_remove_all [simp]: "set (remove_all ys xs) = set xs - set ys"
  by (induction ys arbitrary: xs) (auto simp: remove_all_def)

lemma distinct_remove_all: "distinct xs \<Longrightarrow> distinct (remove_all ys xs)"
  by (induction ys arbitrary: xs) (auto simp: remove_all_def distinct_removeAll)

lemma list_empty_iff_set: "xs = [] \<longleftrightarrow> set xs = {}"
  by simp

lemma find_SomeD: "find P xs = Some x \<Longrightarrow> P x \<and> x \<in> set xs"
  by (auto simp: find_Some_iff)

section \<open>Maps kept as association lists\<close>

text \<open>\<open>map_of\<close> reads, \<open>AList.update\<close> and \<open>AList.delete\<close> write.\<close>

abbreviation keys_of :: "('k \<times> 'v) list \<Rightarrow> 'k list" where
  "keys_of m \<equiv> map fst m"

lemma map_of_aupdate [model_simps, simp]:
  "map_of (AList.update k v m) = (map_of m)(k \<mapsto> v)"
  by (simp add: update_conv')

lemma map_of_adelete [model_simps, simp]:
  "map_of (AList.delete k m) = (map_of m)(k := None)"
  by (simp add: delete_conv')

lemma distinct_keys_update [simp, intro]:
  "distinct (keys_of m) \<Longrightarrow> distinct (keys_of (AList.update k v m))"
  by (rule distinct_update)

lemma distinct_keys_delete [simp, intro]:
  "distinct (keys_of m) \<Longrightarrow> distinct (keys_of (AList.delete k m))"
  by (rule distinct_delete)

lemma set_keys_update [simp]: "set (keys_of (AList.update k v m)) = insert k (set (keys_of m))"
  by (induction m) auto

lemma fst_set_update [simp]: "fst ` set (AList.update k v m) = insert k (fst ` set m)"
  using set_keys_update[of k v m] by simp

lemma map_of_None_keys: "map_of m k = None \<longleftrightarrow> k \<notin> set (keys_of m)"
  by (simp add: map_of_eq_None_iff)

lemma length_update_new:
  "k \<notin> set (keys_of m) \<Longrightarrow> length (AList.update k v m) = Suc (length m)"
  by (induction m) auto

lemma length_update_old:
  "k \<in> set (keys_of m) \<Longrightarrow> length (AList.update k v m) = length m"
  by (induction m) auto

lemma length_update_le: "length (AList.update k v m) \<le> Suc (length m)"
  by (induction m) auto

lemma length_adelete_le: "length (AList.delete k m) \<le> length m"
  by (simp add: AList.delete_eq)

lemma length_delete_present:
  "k \<in> set (keys_of m) \<Longrightarrow> length (AList.delete k m) < length m"
  by (induction m) (auto simp: AList.delete_eq intro: le_imp_less_Suc)

lemma length_delete_distinct:
  "distinct (keys_of m) \<Longrightarrow> k \<in> set (keys_of m) \<Longrightarrow> Suc (length (AList.delete k m)) = length m"
proof (induction m)
  case (Cons p m)
  show ?case
  proof (cases "fst p = k")
    case True
    with Cons.prems have "k \<notin> fst ` set m" by auto
    then have "AList.delete k m = m" by (simp add: delete_idem)
    with True show ?thesis by (cases p) (simp add: AList.delete_eq)
  next
    case False
    with Cons show ?thesis by (auto simp: AList.delete_eq)
  qed
qed simp

section \<open>Runs of a step function\<close>

text \<open>
  Several components are a state with operations, and their main lemma says that a property
  kept by every operation holds after every sequence of them. The locale states that once.
\<close>

locale step_system =
  fixes step :: "'op \<Rightarrow> 's \<Rightarrow> 's"
    and ok :: "'s \<Rightarrow> bool"
  assumes step_ok: "ok s \<Longrightarrow> ok (step x s)"
begin

lemma run_ok: "ok s \<Longrightarrow> ok (fold step xs s)"
  by (induction xs arbitrary: s) (auto intro: step_ok)

lemma run_take_ok: "ok s \<Longrightarrow> ok (fold step (take n xs) s)"
  by (rule run_ok)

end

end
