(* ===== verification/Util.thy ===== *)
theory Util imports GoStrings begin

text \<open>
  The shared helpers of \<open>internal/util\<close>: de-duplication, unique validation, the first
  duplicate, sorted keys, the positive-or-default idiom and the consecutive-failure counter,
  and Go's time arithmetic (\<open>time.Time\<close> as nanoseconds since the zero time, so that the zero
  time is 0; \<open>time.Duration\<close> as nanoseconds in the range of a 64-bit integer).
\<close>

section \<open>Time\<close>

type_synonym time = int
type_synonym duration = int

definition min_duration :: duration where "min_duration = - (2 ^ 63)"
definition max_duration :: duration where "max_duration = 2 ^ 63 - 1"

abbreviation is_zero_time :: "time \<Rightarrow> bool" where "is_zero_time t \<equiv> t = 0"

text \<open>\<open>Time.Sub\<close> saturates at the bounds of a duration.\<close>

definition time_sub :: "time \<Rightarrow> time \<Rightarrow> duration" where
  "time_sub t u = max min_duration (min max_duration (t - u))"

definition second :: duration where "second = 1000000000"

text \<open>64-bit integer arithmetic wraps; \<open>time.Duration(n) * time.Second\<close> is such a product.\<close>

definition wrap64 :: "int \<Rightarrow> int" where
  "wrap64 x = (x + 2 ^ 63) mod 2 ^ 64 - 2 ^ 63"

definition duration_of_seconds :: "int \<Rightarrow> duration" where
  "duration_of_seconds n = wrap64 (n * second)"

lemma wrap64_id: "- (2 ^ 63) \<le> x \<Longrightarrow> x < 2 ^ 63 \<Longrightarrow> wrap64 x = x"
  by (simp add: wrap64_def)

lemma wrap64_bounds: "min_duration \<le> wrap64 x \<and> wrap64 x \<le> max_duration"
  using pos_mod_bound[of "2 ^ 64" "x + 2 ^ 63"] pos_mod_sign[of "2 ^ 64" "x + 2 ^ 63"]
  by (simp add: wrap64_def min_duration_def max_duration_def)

lemma time_sub_exact:
  "min_duration \<le> t - u \<Longrightarrow> t - u \<le> max_duration \<Longrightarrow> time_sub t u = t - u"
  by (simp add: time_sub_def)

lemma time_sub_greater_iff:
  "0 \<le> d \<Longrightarrow> d < max_duration \<Longrightarrow> time_sub t u > d \<longleftrightarrow> t - u > d"
  by (auto simp: time_sub_def min_duration_def max_duration_def)

section \<open>Collections\<close>

text \<open>\<open>DeduplicateStrings\<close>: the loop keeps what it has seen and what it has kept.\<close>

fun dedup_loop :: "string list \<Rightarrow> string list \<Rightarrow> string list \<Rightarrow> string list" where
  "dedup_loop seen out [] = out"
| "dedup_loop seen out (s # ss) =
     (let t = trim_space s
      in if t = [] then dedup_loop seen out ss
         else if t \<in> set seen then dedup_loop seen out ss
         else dedup_loop (t # seen) (out @ [t]) ss)"

definition DeduplicateStrings :: "string list \<Rightarrow> bool \<Rightarrow> string list" where
  "DeduplicateStrings input sorted_flag =
     (let out = dedup_loop [] [] input in if sorted_flag then sort out else out)"

definition trimmed_entries :: "string list \<Rightarrow> string list" where
  "trimmed_entries input = filter (\<lambda>t. t \<noteq> []) (map trim_space input)"

lemma dedup_loop_spec:
  assumes "set seen = set out" and "distinct out"
  shows "distinct (dedup_loop seen out ss)"
    and "set (dedup_loop seen out ss) = set out \<union> set (trimmed_entries ss)"
    and "prefix out (dedup_loop seen out ss)"
  using assms
proof (induction seen out ss rule: dedup_loop.induct)
  case (1 seen out)
  { case 1 then show ?case by simp next
    case 2 then show ?case by (simp add: trimmed_entries_def) next
    case 3 then show ?case by simp }
next
  case (2 seen out s ss)
  let ?t = "trim_space s"
  consider (empty) "?t = []" | (seen) "?t \<noteq> []" "?t \<in> set seen" | (new) "?t \<noteq> []" "?t \<notin> set seen" by blast
  note cases = this
  { case 1 from cases show ?case using "2.IH"(1,4,7) 1 by cases (auto simp: Let_def) next
    case 2 from cases show ?case using "2.IH"(2,5,8) 2 by cases (auto simp: Let_def trimmed_entries_def) next
    case 3 from cases show ?case using "2.IH"(3,6,9) 3 by cases (auto simp: Let_def prefix_def) }
qed

lemma DeduplicateStrings_distinct: "distinct (DeduplicateStrings input b)"
  using dedup_loop_spec(1)[of "[]" "[]" input] by (simp add: DeduplicateStrings_def Let_def)

lemma DeduplicateStrings_set: "set (DeduplicateStrings input b) = set (trimmed_entries input)"
  using dedup_loop_spec(2)[of "[]" "[]" input] by (simp add: DeduplicateStrings_def Let_def)

lemma DeduplicateStrings_sorted: "sorted (DeduplicateStrings input True)"
  by (simp add: DeduplicateStrings_def Let_def)

lemma trimmed_entries_trimmed: "t \<in> set (trimmed_entries input) \<Longrightarrow> trim_space t = t \<and> t \<noteq> []"
  by (auto simp: trimmed_entries_def)

lemma dedup_loop_clean:
  assumes "distinct ss" and "\<forall>s\<in>set ss. trim_space s = s \<and> s \<noteq> []" and "set seen \<inter> set ss = {}"
  shows "dedup_loop seen out ss = out @ ss"
  using assms by (induction ss arbitrary: seen out) auto

text \<open>De-duplicating twice changes nothing.\<close>

lemma DeduplicateStrings_idem:
  "DeduplicateStrings (DeduplicateStrings input b) b = DeduplicateStrings input b"
proof -
  let ?d = "DeduplicateStrings input b"
  have "\<forall>s\<in>set ?d. trim_space s = s \<and> s \<noteq> []"
    using DeduplicateStrings_set[of input b] trimmed_entries_trimmed by blast
  then have "dedup_loop [] [] ?d = ?d"
    using dedup_loop_clean[of ?d "[]" "[]"] DeduplicateStrings_distinct[of input b] by simp
  moreover have "b \<Longrightarrow> sort ?d = ?d"
    using DeduplicateStrings_sorted[of input] by (simp add: sorted_sort_id)
  ultimately show ?thesis by (simp add: DeduplicateStrings_def[of ?d] Let_def)
qed

text \<open>\<open>FindDuplicate\<close>: the first item that was seen before.\<close>

fun find_dup_loop :: "'a list \<Rightarrow> 'a list \<Rightarrow> 'a option" where
  "find_dup_loop seen [] = None"
| "find_dup_loop seen (x # xs) = (if x \<in> set seen then Some x else find_dup_loop (x # seen) xs)"

definition FindDuplicate :: "'a list \<Rightarrow> 'a option" where
  "FindDuplicate xs = find_dup_loop [] xs"

lemma find_dup_loop_None: "find_dup_loop seen xs = None \<longleftrightarrow> distinct xs \<and> set seen \<inter> set xs = {}"
  by (induction xs arbitrary: seen) auto

lemma FindDuplicate_None: "FindDuplicate xs = None \<longleftrightarrow> distinct xs"
  by (simp add: FindDuplicate_def find_dup_loop_None)

text \<open>
  \<open>ValidateUnique\<close>: each item is validated before its key is checked; the result is the
  first error, if any.
\<close>

fun validate_unique_loop ::
  "'k list \<Rightarrow> ('a \<Rightarrow> 'e option) \<Rightarrow> ('a \<Rightarrow> 'k) \<Rightarrow> ('a \<Rightarrow> 'e) \<Rightarrow> 'a list \<Rightarrow> 'e option" where
  "validate_unique_loop seen validate key dup [] = None"
| "validate_unique_loop seen validate key dup (x # xs) =
     (case validate x of
        Some e \<Rightarrow> Some e
      | None \<Rightarrow>
          (if key x \<in> set seen then Some (dup x)
           else validate_unique_loop (key x # seen) validate key dup xs))"

definition ValidateUnique ::
  "'a list \<Rightarrow> ('a \<Rightarrow> 'e option) \<Rightarrow> ('a \<Rightarrow> 'k) \<Rightarrow> ('a \<Rightarrow> 'e) \<Rightarrow> 'e option" where
  "ValidateUnique xs validate key dup = validate_unique_loop [] validate key dup xs"

lemma validate_unique_loop_None:
  "validate_unique_loop seen validate key dup xs = None \<longleftrightarrow>
     (\<forall>x\<in>set xs. validate x = None) \<and> distinct (map key xs) \<and> set seen \<inter> key ` set xs = {}"
  by (induction xs arbitrary: seen) (auto split: option.splits)

lemma ValidateUnique_None:
  "ValidateUnique xs validate key dup = None \<longleftrightarrow>
     (\<forall>x\<in>set xs. validate x = None) \<and> distinct (map key xs)"
  by (simp add: ValidateUnique_def validate_unique_loop_None)

text \<open>\<open>SortedSetKeys\<close>, on a set in its iteration order.\<close>

definition SortedSetKeys :: "string list \<Rightarrow> string list" where
  "SortedSetKeys s = sort s"

text \<open>\<open>PositiveOrDefault\<close>.\<close>

definition PositiveOrDefault :: "int \<Rightarrow> int \<Rightarrow> int" where
  "PositiveOrDefault value fallback = (if value > 0 then value else fallback)"

lemma PositiveOrDefault_pos: "0 < fallback \<Longrightarrow> 0 < PositiveOrDefault value fallback"
  by (simp add: PositiveOrDefault_def)

section \<open>The consecutive-failure counter\<close>

record 'k failure_counter =
  counts :: "('k \<times> nat) list"

definition NewFailureCounter :: "'k failure_counter" where
  "NewFailureCounter = \<lparr>counts = []\<rparr>"

text \<open>A missing key reads as 0, Go's zero value.\<close>

definition fc_Get :: "'k failure_counter \<Rightarrow> 'k \<Rightarrow> nat" where
  "fc_Get fc k = (case map_of (counts fc) k of None \<Rightarrow> 0 | Some n \<Rightarrow> n)"

definition fc_Increment :: "'k failure_counter \<Rightarrow> 'k \<Rightarrow> nat \<times> 'k failure_counter" where
  "fc_Increment fc k =
     (let n = Suc (fc_Get fc k) in (n, fc\<lparr>counts := AList.update k n (counts fc)\<rparr>))"

definition fc_Reset :: "'k failure_counter \<Rightarrow> 'k \<Rightarrow> nat \<times> 'k failure_counter" where
  "fc_Reset fc k = (fc_Get fc k, fc\<lparr>counts := AList.delete k (counts fc)\<rparr>)"

lemma fc_Get_New [simp]: "fc_Get NewFailureCounter k = 0"
  by (simp add: fc_Get_def NewFailureCounter_def)

lemma fc_Increment_Get:
  "fst (fc_Increment fc k) = Suc (fc_Get fc k)"
  "fc_Get (snd (fc_Increment fc k)) k' = (if k' = k then Suc (fc_Get fc k) else fc_Get fc k')"
  by (auto simp: fc_Increment_def fc_Get_def Let_def)

lemma fc_Reset_Get:
  "fst (fc_Reset fc k) = fc_Get fc k"
  "fc_Get (snd (fc_Reset fc k)) k' = (if k' = k then 0 else fc_Get fc k')"
  by (auto simp: fc_Reset_def fc_Get_def)

end
