(* ===== verification/Registry.thy ===== *)
theory Registry imports Util begin

text \<open>
  \<open>internal/syncutil\<close>: the generic registry and the TTL cache with an LRU cap. Every exported
  method takes the lock for its whole body, so a method is one step; \<open>GetOrCreate\<close> on the
  registry is two (a read-locked look, then the write-locked double check), and both are
  definitions here so that an interleaving between them can be stated. A \<open>create\<close> callback
  runs under the lock and may change other state, which is passed through.
\<close>

section \<open>The interface\<close>

text \<open>What the clients of a registry rely on, in terms of the finite map it stands for.\<close>

locale registry_adt =
  fixes lookup :: "'r \<Rightarrow> 'k \<Rightarrow> 'v option"
    and store :: "'k \<Rightarrow> 'v \<Rightarrow> 'r \<Rightarrow> 'r"
    and drop_key :: "'k \<Rightarrow> 'r \<Rightarrow> 'r"
    and size_of :: "'r \<Rightarrow> nat"
    and key_list :: "'r \<Rightarrow> 'k list"
    and invar :: "'r \<Rightarrow> bool"
  assumes lookup_store: "invar r \<Longrightarrow> lookup (store k v r) = (lookup r)(k \<mapsto> v)"
    and lookup_drop: "invar r \<Longrightarrow> lookup (drop_key k r) = (lookup r)(k := None)"
    and key_list_dom: "invar r \<Longrightarrow> set (key_list r) = dom (lookup r)"
    and key_list_distinct: "invar r \<Longrightarrow> distinct (key_list r)"
    and size_key_list: "invar r \<Longrightarrow> size_of r = length (key_list r)"
    and invar_store: "invar r \<Longrightarrow> invar (store k v r)"
    and invar_drop: "invar r \<Longrightarrow> invar (drop_key k r)"
begin

lemma size_card: "invar r \<Longrightarrow> size_of r = card (dom (lookup r))"
  by (metis distinct_card key_list_distinct key_list_dom size_key_list)

lemma finite_dom: "invar r \<Longrightarrow> finite (dom (lookup r))"
  by (metis List.finite_set key_list_dom)

lemma size_store:
  "invar r \<Longrightarrow> size_of (store k v r) = (if lookup r k = None then Suc (size_of r) else size_of r)"
  by (auto simp: size_card invar_store lookup_store finite_dom insert_absorb dom_def[symmetric]
      domIff intro: arg_cong[where f = card])

lemma size_drop:
  "invar r \<Longrightarrow> size_of (drop_key k r) = (if lookup r k = None then size_of r else size_of r - 1)"
  by (auto simp: size_card invar_drop lookup_drop finite_dom domIff card_Diff_singleton_if)

lemma lookup_store_same: "invar r \<Longrightarrow> lookup (store k v r) k = Some v"
  by (simp add: lookup_store)

lemma lookup_store_other: "invar r \<Longrightarrow> k' \<noteq> k \<Longrightarrow> lookup (store k v r) k' = lookup r k'"
  by (simp add: lookup_store)

lemma lookup_drop_same: "invar r \<Longrightarrow> lookup (drop_key k r) k = None"
  by (simp add: lookup_drop)

lemma in_key_list: "invar r \<Longrightarrow> k \<in> set (key_list r) \<longleftrightarrow> lookup r k \<noteq> None"
  by (simp add: key_list_dom domIff)

end

section \<open>Registry\<close>

record ('k, 'v) registry =
  entries :: "('k \<times> 'v) list"

definition NewRegistry :: "('k, 'v) registry" where
  "NewRegistry = \<lparr>entries = []\<rparr>"

definition reg_Set :: "'k \<Rightarrow> 'v \<Rightarrow> ('k, 'v) registry \<Rightarrow> ('k, 'v) registry" where
  "reg_Set k v r = r\<lparr>entries := AList.update k v (entries r)\<rparr>"

definition reg_Get :: "('k, 'v) registry \<Rightarrow> 'k \<Rightarrow> 'v option" where
  "reg_Get r k = map_of (entries r) k"

definition reg_Has :: "('k, 'v) registry \<Rightarrow> 'k \<Rightarrow> bool" where
  "reg_Has r k = (map_of (entries r) k \<noteq> None)"

definition reg_getOrCreateAfterMiss ::
  "'k \<Rightarrow> ('s \<Rightarrow> 'v \<times> 's) \<Rightarrow> ('k, 'v) registry \<Rightarrow> 's \<Rightarrow> 'v \<times> ('k, 'v) registry \<times> 's" where
  "reg_getOrCreateAfterMiss k create r s =
     (case map_of (entries r) k of
        Some v \<Rightarrow> (v, r, s)
      | None \<Rightarrow> (let (v, s') = create s in (v, reg_Set k v r, s')))"

definition reg_GetOrCreate ::
  "'k \<Rightarrow> ('s \<Rightarrow> 'v \<times> 's) \<Rightarrow> ('k, 'v) registry \<Rightarrow> 's \<Rightarrow> 'v \<times> ('k, 'v) registry \<times> 's" where
  "reg_GetOrCreate k create r s =
     (case map_of (entries r) k of
        Some v \<Rightarrow> (v, r, s)
      | None \<Rightarrow> reg_getOrCreateAfterMiss k create r s)"

definition reg_Remove :: "'k \<Rightarrow> ('k, 'v) registry \<Rightarrow> ('k, 'v) registry" where
  "reg_Remove k r = r\<lparr>entries := AList.delete k (entries r)\<rparr>"

definition reg_Keys :: "('k, 'v) registry \<Rightarrow> 'k list" where
  "reg_Keys r = keys_of (entries r)"

text \<open>\<open>Range\<close> visits a snapshot and stops when the callback says so.\<close>

fun range_loop :: "('k \<Rightarrow> 'v \<Rightarrow> 's \<Rightarrow> bool \<times> 's) \<Rightarrow> ('k \<times> 'v) list \<Rightarrow> 's \<Rightarrow> 's" where
  "range_loop f [] s = s"
| "range_loop f ((k, v) # es) s =
     (let (continue, s') = f k v s in if continue then range_loop f es s' else s')"

definition reg_Range :: "('k \<Rightarrow> 'v \<Rightarrow> 's \<Rightarrow> bool \<times> 's) \<Rightarrow> ('k, 'v) registry \<Rightarrow> 's \<Rightarrow> 's" where
  "reg_Range f r s = range_loop f (entries r) s"

definition reg_Len :: "('k, 'v) registry \<Rightarrow> nat" where
  "reg_Len r = length (entries r)"

definition reg_ok :: "('k, 'v) registry \<Rightarrow> bool" where
  "reg_ok r \<longleftrightarrow> distinct (keys_of (entries r))"

interpretation reg: registry_adt reg_Get reg_Set reg_Remove reg_Len reg_Keys reg_ok
  by unfold_locales
     (auto simp: reg_Get_def reg_Set_def reg_Remove_def reg_Len_def reg_Keys_def reg_ok_def
       map_of_eq_None_iff fun_eq_iff dom_map_of_conv_image_fst update_conv' delete_conv'
       distinct_update distinct_delete intro: rev_image_eqI)

lemma reg_ok_New [keeps, simp]: "reg_ok NewRegistry"
  by (simp add: reg_ok_def NewRegistry_def)

lemma reg_Get_New [simp]: "reg_Get NewRegistry k = None"
  by (simp add: reg_Get_def NewRegistry_def)

lemma reg_Has_Get: "reg_Has r k \<longleftrightarrow> reg_Get r k \<noteq> None"
  by (simp add: reg_Has_def reg_Get_def)

lemma reg_GetOrCreate_hit:
  "reg_Get r k = Some v \<Longrightarrow> reg_GetOrCreate k create r s = (v, r, s)"
  by (simp add: reg_GetOrCreate_def reg_Get_def)

lemma reg_GetOrCreate_miss:
  "reg_Get r k = None \<Longrightarrow>
     reg_GetOrCreate k create r s = (fst (create s), reg_Set k (fst (create s)) r, snd (create s))"
  by (simp add: reg_GetOrCreate_def reg_getOrCreateAfterMiss_def reg_Get_def Let_def split_beta)

lemma reg_GetOrCreate_ok:
  "reg_ok r \<Longrightarrow> reg_GetOrCreate k create r s = (v, r', s') \<Longrightarrow> reg_ok r' \<and> reg_Get r' k = Some v"
  by (cases "reg_Get r k")
     (auto simp: reg_GetOrCreate_miss reg_GetOrCreate_hit reg.invar_store reg.lookup_store)

text \<open>
  The double check: a caller that missed under the read lock and finds the key present when it
  takes the write lock returns the winner's value and changes nothing.
\<close>

lemma reg_after_miss_present:
  "reg_Get r k = Some v \<Longrightarrow> reg_getOrCreateAfterMiss k create r s = (v, r, s)"
  by (simp add: reg_getOrCreateAfterMiss_def reg_Get_def)

lemma range_loop_all:
  "(\<And>k v s. fst (f k v s)) \<Longrightarrow> range_loop f es s = fold (\<lambda>(k, v). snd \<circ> f k v) es s"
  by (induction es arbitrary: s) (auto simp: Let_def split_beta)

section \<open>The single-key cache helper\<close>

text \<open>\<open>MapGetOrCreate\<close>: the entry is stored only when the callback succeeds.\<close>

definition MapGetOrCreate ::
  "'k \<Rightarrow> ('s \<Rightarrow> ('e + 'v) \<times> 's) \<Rightarrow> ('k \<times> 'v) list \<Rightarrow> 's \<Rightarrow> ('e + 'v) \<times> ('k \<times> 'v) list \<times> 's" where
  "MapGetOrCreate k create m s =
     (case map_of m k of
        Some v \<Rightarrow> (Inr v, m, s)
      | None \<Rightarrow>
          (case create s of
             (Inr v, s') \<Rightarrow> (Inr v, AList.update k v m, s')
           | (Inl e, s') \<Rightarrow> (Inl e, m, s')))"

lemma MapGetOrCreate_error_not_cached:
  "MapGetOrCreate k create m s = (Inl e, m', s') \<Longrightarrow> m' = m \<and> map_of m k = None"
  by (auto simp: MapGetOrCreate_def split: option.splits sum.splits prod.splits)

lemma MapGetOrCreate_value_cached:
  "MapGetOrCreate k create m s = (Inr v, m', s') \<Longrightarrow> map_of m' k = Some v"
  by (auto simp: MapGetOrCreate_def update_conv' split: option.splits sum.splits prod.splits)

end
