(* ===== verification/Labels.thy ===== *)
theory Labels imports Registry begin

text \<open>
  \<open>internal/difc\<close>: tag sets (\<open>tagset.go\<close>), labels (\<open>labels.go\<close>), the global capability set
  (\<open>capabilities.go\<close>) and the two flow orders (\<open>flow_labels.go\<close>). A Go map of tags is the list
  of its keys in iteration order; \<open>flow_label\<close> is a \<open>*flowLabel\<close> with its \<open>Label\<close> pointer,
  \<open>None\<close> when either is nil (\<open>getLabel\<close> makes the code treat both alike).
\<close>

type_synonym tag = string

definition WildcardTag :: tag where "WildcardTag = ''*''"

section \<open>The interface of a tag set\<close>

text \<open>\<open>Label\<close> and \<open>Capabilities\<close> both embed the same tag set; what they rely on is stated here.\<close>

locale tag_store =
  fixes new :: 's
    and put :: "tag \<Rightarrow> 's \<Rightarrow> 's"
    and drop_tag :: "tag \<Rightarrow> 's \<Rightarrow> 's"
    and has :: "'s \<Rightarrow> tag \<Rightarrow> bool"
    and listing :: "'s \<Rightarrow> tag list"
    and size_of :: "'s \<Rightarrow> nat"
    and empty_p :: "'s \<Rightarrow> bool"
    and invar :: "'s \<Rightarrow> bool"
  assumes invar_new: "invar new"
    and invar_put: "invar s \<Longrightarrow> invar (put t s)"
    and invar_drop: "invar s \<Longrightarrow> invar (drop_tag t s)"
    and has_new: "\<not> has new t"
    and has_put: "invar s \<Longrightarrow> has (put t s) u \<longleftrightarrow> u = t \<or> has s u"
    and has_drop: "invar s \<Longrightarrow> has (drop_tag t s) u \<longleftrightarrow> u \<noteq> t \<and> has s u"
    and listing_has: "invar s \<Longrightarrow> t \<in> set (listing s) \<longleftrightarrow> has s t"
    and listing_distinct: "invar s \<Longrightarrow> distinct (listing s)"
    and size_listing: "invar s \<Longrightarrow> size_of s = length (listing s)"
    and empty_size: "invar s \<Longrightarrow> empty_p s \<longleftrightarrow> size_of s = 0"
begin

lemma invar_put_all: "invar s \<Longrightarrow> invar (fold put ts s)"
  by (induction ts arbitrary: s) (auto intro: invar_put)

lemma has_put_all: "invar s \<Longrightarrow> has (fold put ts s) u \<longleftrightarrow> u \<in> set ts \<or> has s u"
  by (induction ts arbitrary: s) (auto simp: has_put invar_put)

lemma invar_drop_all: "invar s \<Longrightarrow> invar (fold drop_tag ts s)"
  by (induction ts arbitrary: s) (auto intro: invar_drop)

lemma has_drop_all: "invar s \<Longrightarrow> has (fold drop_tag ts s) u \<longleftrightarrow> u \<notin> set ts \<and> has s u"
  by (induction ts arbitrary: s) (auto simp: has_drop invar_drop)

lemma size_card: "invar s \<Longrightarrow> size_of s = card {t. has s t}"
  by (metis Collect_cong Collect_mem_eq distinct_card listing_distinct listing_has size_listing)

lemma empty_iff: "invar s \<Longrightarrow> empty_p s \<longleftrightarrow> (\<forall>t. \<not> has s t)"
  by (metis empty_size length_0_conv list.set_intros(1) listing_has neq_Nil_conv set_empty2 size_listing empty_iff)

lemma put_all_from_new: "has (fold put ts new) u \<longleftrightarrow> u \<in> set ts"
  by (simp add: has_put_all invar_new has_new)

end

section \<open>Tag sets\<close>

record tag_set =
  tag_list :: "tag list"

definition newTagSet :: tag_set where
  "newTagSet = \<lparr>tag_list = []\<rparr>"

definition ts_add :: "tag \<Rightarrow> tag_set \<Rightarrow> tag_set" where
  "ts_add t s = s\<lparr>tag_list := adjoin t (tag_list s)\<rparr>"

definition ts_addAll :: "tag list \<Rightarrow> tag_set \<Rightarrow> tag_set" where
  "ts_addAll ts s = s\<lparr>tag_list := adjoin_all ts (tag_list s)\<rparr>"

definition ts_remove :: "tag \<Rightarrow> tag_set \<Rightarrow> tag_set" where
  "ts_remove t s = s\<lparr>tag_list := removeAll t (tag_list s)\<rparr>"

definition ts_removeAll :: "tag list \<Rightarrow> tag_set \<Rightarrow> tag_set" where
  "ts_removeAll ts s = s\<lparr>tag_list := remove_all ts (tag_list s)\<rparr>"

definition ts_contains :: "tag_set \<Rightarrow> tag \<Rightarrow> bool" where
  "ts_contains s t = (t \<in> set (tag_list s))"

definition ts_getAll :: "tag_set \<Rightarrow> tag list" where
  "ts_getAll s = tag_list s"

definition ts_clear :: "tag_set \<Rightarrow> tag_set" where
  "ts_clear s = s\<lparr>tag_list := []\<rparr>"

definition ts_count :: "tag_set \<Rightarrow> nat" where
  "ts_count s = length (tag_list s)"

definition ts_isEmpty :: "tag_set \<Rightarrow> bool" where
  "ts_isEmpty s = (tag_list s = [])"

definition ts_ok :: "tag_set \<Rightarrow> bool" where
  "ts_ok s \<longleftrightarrow> distinct (tag_list s)"

interpretation ts: tag_store newTagSet ts_add ts_remove ts_contains ts_getAll ts_count ts_isEmpty ts_ok
  by unfold_locales
     (auto simp: newTagSet_def ts_add_def ts_remove_def ts_contains_def ts_getAll_def ts_count_def
       ts_isEmpty_def ts_ok_def distinct_removeAll)

lemma fold_ts_add: "fold ts_add tags s = ts_addAll tags s"
  by (induction tags arbitrary: s) (simp_all add: ts_addAll_def ts_add_def)

lemma fold_ts_remove: "fold ts_remove tags s = ts_removeAll tags s"
  by (induction tags arbitrary: s) (simp_all add: ts_removeAll_def ts_remove_def remove_all_def)

lemmas ts_addAll_fold = fold_ts_add [symmetric]
lemmas ts_removeAll_fold = fold_ts_remove [symmetric]

section \<open>Labels\<close>

type_synonym label = tag_set

abbreviation tags_of :: "label \<Rightarrow> tag set" where
  "tags_of l \<equiv> set (tag_list l)"

definition NewLabel :: label where
  "NewLabel = newTagSet"

definition newLabelWithTags :: "tag list \<Rightarrow> label" where
  "newLabelWithTags ts = ts_addAll ts NewLabel"

definition lab_Add :: "tag \<Rightarrow> label \<Rightarrow> label" where "lab_Add = ts_add"
definition lab_AddAll :: "tag list \<Rightarrow> label \<Rightarrow> label" where "lab_AddAll = ts_addAll"
definition lab_Remove :: "tag \<Rightarrow> label \<Rightarrow> label" where "lab_Remove = ts_remove"
definition lab_RemoveAll :: "tag list \<Rightarrow> label \<Rightarrow> label" where "lab_RemoveAll = ts_removeAll"
definition lab_Contains :: "label \<Rightarrow> tag \<Rightarrow> bool" where "lab_Contains = ts_contains"
definition lab_GetTags :: "label \<Rightarrow> tag list" where "lab_GetTags = ts_getAll"
definition lab_IsEmpty :: "label \<Rightarrow> bool" where "lab_IsEmpty = ts_isEmpty"

text \<open>\<open>Union\<close> merges the other label's tags, \<open>Intersect\<close> keeps the common ones (none when nil).\<close>

definition lab_Union :: "label option \<Rightarrow> label \<Rightarrow> label" where
  "lab_Union other l =
     (case other of None \<Rightarrow> l | Some m \<Rightarrow> l\<lparr>tag_list := adjoin_all (tag_list m) (tag_list l)\<rparr>)"

definition lab_Intersect :: "label option \<Rightarrow> label \<Rightarrow> label" where
  "lab_Intersect other l =
     (case other of
        None \<Rightarrow> l\<lparr>tag_list := []\<rparr>
      | Some m \<Rightarrow> l\<lparr>tag_list := filter (\<lambda>t. t \<in> set (tag_list m)) (tag_list l)\<rparr>)"

definition lab_Clone :: "label \<Rightarrow> label" where
  "lab_Clone l = fold ts_add (tag_list l) NewLabel"

definition cloneLabelOrNew :: "label option \<Rightarrow> label" where
  "cloneLabelOrNew inner = (case inner of None \<Rightarrow> NewLabel | Some l \<Rightarrow> lab_Clone l)"

definition StringsToTags :: "string list \<Rightarrow> tag list" where
  "StringsToTags values = filter (\<lambda>t. t \<noteq> []) (map trim_space values)"

definition TagsToStrings :: "tag list \<Rightarrow> string list" where
  "TagsToStrings tags = map (\<lambda>t. t) tags"

lemma tags_NewLabel [simp]: "tag_list NewLabel = []"
  by (simp add: NewLabel_def newTagSet_def)

lemma tags_newLabelWithTags [simp]: "tags_of (newLabelWithTags ts) = set ts"
  by (simp add: newLabelWithTags_def ts_addAll_def)

lemma label_tags [simp]:
  "tags_of (lab_Add t l) = insert t (tags_of l)"
  "tags_of (lab_AddAll ts l) = tags_of l \<union> set ts"
  "tags_of (lab_Remove t l) = tags_of l - {t}"
  "tags_of (lab_RemoveAll ts l) = tags_of l - set ts"
  "set (lab_GetTags l) = tags_of l"
  "lab_Contains l t \<longleftrightarrow> t \<in> tags_of l"
  "lab_IsEmpty l \<longleftrightarrow> tags_of l = {}"
  by (auto simp: lab_Add_def lab_AddAll_def lab_Remove_def lab_RemoveAll_def lab_GetTags_def
      lab_Contains_def lab_IsEmpty_def ts_add_def ts_addAll_def ts_remove_def ts_removeAll_def
      ts_getAll_def ts_contains_def ts_isEmpty_def)

lemma tags_Union [simp]: "tags_of (lab_Union (Some m) l) = tags_of l \<union> tags_of m"
  by (simp add: lab_Union_def)

lemma lab_Union_None [simp]: "lab_Union None l = l"
  by (simp add: lab_Union_def)

lemma tags_Intersect [simp]:
  "tags_of (lab_Intersect (Some m) l) = tags_of l \<inter> tags_of m"
  "tags_of (lab_Intersect None l) = {}"
  by (auto simp: lab_Intersect_def)

lemma tags_Clone [simp]: "tags_of (lab_Clone l) = tags_of l"
  using ts.put_all_from_new[of "tag_list l"] by (auto simp: lab_Clone_def NewLabel_def ts_contains_def)

lemma label_ok [keeps, simp]:
  "ts_ok NewLabel" "ts_ok (newLabelWithTags ts)"
  "ts_ok (lab_Clone l)"
  by (simp_all add: ts_ok_def newLabelWithTags_def ts_addAll_def lab_Clone_def
      ts.invar_put_all[unfolded ts_ok_def] NewLabel_def newTagSet_def)

lemma label_keeps [keeps]:
  "ts_ok l \<Longrightarrow> ts_ok (lab_AddAll ts l)" "ts_ok l \<Longrightarrow> ts_ok (lab_Add t l)"
  "ts_ok l \<Longrightarrow> ts_ok (lab_RemoveAll ts l)" "ts_ok l \<Longrightarrow> ts_ok (lab_Remove t l)"
  "ts_ok l \<Longrightarrow> ts_ok (lab_Union m l)" "ts_ok l \<Longrightarrow> ts_ok (lab_Intersect m l)"
  by (auto simp: ts_ok_def lab_AddAll_def lab_Add_def lab_RemoveAll_def lab_Remove_def ts_add_def
      ts_addAll_def ts_remove_def ts_removeAll_def distinct_removeAll distinct_remove_all
      lab_Union_def lab_Intersect_def split: option.split)

lemma StringsToTags_trimmed: "set (StringsToTags vs) = set (trimmed_entries vs)"
  by (simp add: StringsToTags_def trimmed_entries_def)

section \<open>Capabilities\<close>

type_synonym capabilities = tag_set

definition NewCapabilities :: capabilities where "NewCapabilities = newTagSet"
definition cap_Add :: "tag \<Rightarrow> capabilities \<Rightarrow> capabilities" where "cap_Add = ts_add"
definition cap_AddAll :: "tag list \<Rightarrow> capabilities \<Rightarrow> capabilities" where "cap_AddAll = ts_addAll"
definition cap_Contains :: "capabilities \<Rightarrow> tag \<Rightarrow> bool" where "cap_Contains = ts_contains"
definition cap_GetAll :: "capabilities \<Rightarrow> tag list" where "cap_GetAll = ts_getAll"
definition cap_Remove :: "tag \<Rightarrow> capabilities \<Rightarrow> capabilities" where "cap_Remove = ts_remove"
definition cap_Clear :: "capabilities \<Rightarrow> capabilities" where "cap_Clear = ts_clear"
definition cap_Count :: "capabilities \<Rightarrow> nat" where "cap_Count = ts_count"

lemma cap_Contains_AddAll:
  "ts_ok c \<Longrightarrow> cap_Contains (cap_AddAll ts c) t \<longleftrightarrow> t \<in> set ts \<or> cap_Contains c t"
  by (simp add: cap_Contains_def cap_AddAll_def ts_addAll_fold ts.has_put_all)

lemma cap_Count_card: "ts_ok c \<Longrightarrow> cap_Count c = card {t. cap_Contains c t}"
  by (simp add: cap_Count_def cap_Contains_def ts.size_card)

end
