(* ===== verification/FlowLabels.thy ===== *)
theory FlowLabels imports Labels begin

text \<open>
  \<open>internal/difc/flow_labels.go\<close>: secrecy and integrity labels and the check whether one may
  flow to another. The phantom type parameter of \<open>flowLabel[T]\<close> is a value here.
\<close>

type_synonym flow_label = "label option"

datatype label_kind = secrecyKind | integrityKind

fun isSubset :: "label_kind \<Rightarrow> bool" where
  "isSubset secrecyKind = True"
| "isSubset integrityKind = False"

fun typeName :: "label_kind \<Rightarrow> string" where
  "typeName secrecyKind = ''Secrecy''"
| "typeName integrityKind = ''Integrity''"

text \<open>\<open>NewSecrecyLabel\<close> and \<open>NewIntegrityLabel\<close> build the same label.\<close>

definition NewFlowLabel :: "tag list \<Rightarrow> flow_label" where
  "NewFlowLabel tags = (if tags = [] then Some NewLabel else Some (newLabelWithTags tags))"

definition checkFlowHelper :: "label option \<Rightarrow> label option \<Rightarrow> bool \<Rightarrow> bool \<times> tag list" where
  "checkFlowHelper srcLabel targetLabel checkSubset =
     (case srcLabel of
        None \<Rightarrow>
          (if checkSubset then (True, [])
           else (case targetLabel of
                   None \<Rightarrow> (True, [])
                 | Some t \<Rightarrow> if lab_IsEmpty t then (True, []) else (False, lab_GetTags t)))
      | Some s \<Rightarrow>
          (case targetLabel of
             None \<Rightarrow>
               (if checkSubset
                then (if lab_IsEmpty s then (True, []) else (False, lab_GetTags s))
                else (True, []))
           | Some t \<Rightarrow>
               (if checkSubset \<and> WildcardTag \<in> set (tag_list t) then (True, [])
                else if \<not> checkSubset \<and> WildcardTag \<in> set (tag_list s) then (True, [])
                else
                  (let violatingTags =
                         (if checkSubset
                          then filter (\<lambda>x. x \<notin> set (tag_list t)) (tag_list s)
                          else filter (\<lambda>x. x \<notin> set (tag_list s)) (tag_list t))
                   in (violatingTags = [], violatingTags)))))"

definition CanFlowTo :: "label_kind \<Rightarrow> flow_label \<Rightarrow> flow_label \<Rightarrow> bool" where
  "CanFlowTo k l target = fst (checkFlowHelper l target (isSubset k))"

definition CheckFlow :: "label_kind \<Rightarrow> flow_label \<Rightarrow> flow_label \<Rightarrow> bool \<times> tag list" where
  "CheckFlow k l target = checkFlowHelper l target (isSubset k)"

definition flow_Clone :: "flow_label \<Rightarrow> flow_label" where
  "flow_Clone l = Some (cloneLabelOrNew l)"

section \<open>What the check decides\<close>

text \<open>The tags a flow label stands for: none when it is nil.\<close>

definition ftags :: "flow_label \<Rightarrow> tag set" where
  "ftags l = (case l of None \<Rightarrow> {} | Some x \<Rightarrow> tags_of x)"

lemma ftags_simps [simp]: "ftags None = {}" "ftags (Some l) = tags_of l"
  by (simp_all add: ftags_def)

lemma ftags_NewFlowLabel [simp]: "ftags (NewFlowLabel tags) = set tags"
  by (simp add: NewFlowLabel_def)

text \<open>The abstract order: inclusion, unless the wider side holds the wildcard.\<close>

definition flows_within :: "tag set \<Rightarrow> tag set \<Rightarrow> bool" where
  "flows_within A B \<longleftrightarrow> A \<subseteq> B \<or> WildcardTag \<in> B"

lemma checkFlowHelper_subset:
  "fst (checkFlowHelper s t True) \<longleftrightarrow> flows_within (ftags s) (ftags t)"
  by (auto simp: checkFlowHelper_def flows_within_def filter_empty_conv Let_def split: option.splits)

lemma checkFlowHelper_superset:
  "fst (checkFlowHelper s t False) \<longleftrightarrow> flows_within (ftags t) (ftags s)"
  by (auto simp: checkFlowHelper_def flows_within_def filter_empty_conv Let_def split: option.splits)

lemma CanFlowTo_secrecy: "CanFlowTo secrecyKind l t \<longleftrightarrow> flows_within (ftags l) (ftags t)"
  by (simp add: CanFlowTo_def checkFlowHelper_subset)

lemma CanFlowTo_integrity: "CanFlowTo integrityKind l t \<longleftrightarrow> flows_within (ftags t) (ftags l)"
  by (simp add: CanFlowTo_def checkFlowHelper_superset)

lemmas CanFlowTo_iff [model_simps] = CanFlowTo_secrecy CanFlowTo_integrity

lemma fst_CheckFlow [model_simps]: "fst (CheckFlow k l t) = CanFlowTo k l t"
  by (simp add: CheckFlow_def CanFlowTo_def)

text \<open>The violating tags are exactly the difference, and there are some just when the flow is denied.\<close>

definition flow_gap :: "label_kind \<Rightarrow> flow_label \<Rightarrow> flow_label \<Rightarrow> tag set" where
  "flow_gap k l t = (if isSubset k then ftags l - ftags t else ftags t - ftags l)"

lemma CheckFlow_violations:
  "set (snd (CheckFlow k l t)) = (if CanFlowTo k l t then {} else flow_gap k l t)"
  by (cases k)
     (auto simp: CheckFlow_def CanFlowTo_def checkFlowHelper_def flow_gap_def filter_empty_conv Let_def lab_GetTags_def ts_getAll_def
       split: option.splits)

lemma CheckFlow_allowed_iff: "fst (CheckFlow k l t) \<longleftrightarrow> snd (CheckFlow k l t) = []"
  by (cases k)
     (auto simp: CheckFlow_def checkFlowHelper_def Let_def lab_GetTags_def ts_getAll_def split: option.splits)

lemma CheckFlow_allowed_nil: "CanFlowTo k l t \<Longrightarrow> snd (CheckFlow k l t) = []"
  using CheckFlow_allowed_iff fst_CheckFlow by blast

section \<open>Both checks are preorders\<close>

locale flow_order =
  fixes flows :: "'l \<Rightarrow> 'l \<Rightarrow> bool"
  assumes flow_refl: "flows a a"
    and flow_trans: "flows a b \<Longrightarrow> flows b c \<Longrightarrow> flows a c"
begin

text \<open>A chain of allowed flows is itself an allowed flow: nothing is gained by going through intermediaries.\<close>

lemma flow_chain: "successively flows (x # xs) \<Longrightarrow> y \<in> set (x # xs) \<Longrightarrow> flows x y"
proof (induction xs arbitrary: x)
  case Nil
  then show ?case by (simp add: flow_refl)
next
  case (Cons z zs)
  show ?case
  proof (cases "y = x")
    case True
    then show ?thesis by (simp add: flow_refl)
  next
    case False
    with Cons have "flows z y" by simp
    moreover have "flows x z" using Cons.prems(1) by simp
    ultimately show ?thesis by (blast intro: flow_trans)
  qed
qed

lemma flow_chain_last: "successively flows (x # xs) \<Longrightarrow> flows x (last (x # xs))"
  by (rule flow_chain) auto

end

lemma flows_within_refl [simp]: "flows_within A A"
  by (simp add: flows_within_def)

lemma flows_within_trans: "flows_within A B \<Longrightarrow> flows_within B C \<Longrightarrow> flows_within A C"
  by (auto simp: flows_within_def)

lemma flows_within_union [simp]: "flows_within A (B \<union> A)"
  by (auto simp: flows_within_def)

lemma flows_within_inter [simp]: "flows_within (A \<inter> B) B"
  by (auto simp: flows_within_def)

interpretation secrecy: flow_order "CanFlowTo secrecyKind"
  by unfold_locales (auto simp: CanFlowTo_secrecy intro: flows_within_trans)

interpretation integrity: flow_order "CanFlowTo integrityKind"
  by unfold_locales (auto simp: CanFlowTo_integrity intro: flows_within_trans)

lemma CanFlowTo_refl: "CanFlowTo k a a"
  by (cases k) (simp_all add: secrecy.flow_refl integrity.flow_refl)

lemma CanFlowTo_trans: "CanFlowTo k a b \<Longrightarrow> CanFlowTo k b c \<Longrightarrow> CanFlowTo k a c"
  by (cases k) (auto intro: secrecy.flow_trans integrity.flow_trans)

lemma ftags_Clone [simp]: "ftags (flow_Clone l) = ftags l"
  by (simp add: flow_Clone_def cloneLabelOrNew_def split: option.split)

lemma CanFlowTo_Clone:
  "CanFlowTo k (flow_Clone a) b = CanFlowTo k a b" "CanFlowTo k a (flow_Clone b) = CanFlowTo k a b"
  by (cases k; simp add: CanFlowTo_iff)+

end
