(* ===== verification/JsonPointer.thy ===== *)
theory JsonPointer imports GoStrings begin

text \<open>
  JSON values as \<open>encoding/json\<close> decodes them into \<open>interface{}\<close>, and the JSON-pointer
  routines of \<open>internal/difc/path_labels.go\<close> and \<open>path_collections.go\<close>: splitting and
  escaping, navigation, replacing a collection, pruning denied subtrees. A Go map is a list of
  key-value pairs in iteration order; numbers are never inspected and are kept as their text.
\<close>

datatype json =
    JNull
  | JBool bool
  | JNum string
  | JStr string
  | JArr "json list"
  | JObj "(string \<times> json) list"

text \<open>\<open>util.DeepCloneJSON\<close> copies maps and slices; on values it is the identity (below).\<close>

fun DeepCloneJSON :: "json \<Rightarrow> json" where
  "DeepCloneJSON (JObj fs) = JObj (map (\<lambda>(k, v). (k, DeepCloneJSON v)) fs)"
| "DeepCloneJSON (JArr xs) = JArr (map DeepCloneJSON xs)"
| "DeepCloneJSON JNull = JNull"
| "DeepCloneJSON (JBool b) = JBool b"
| "DeepCloneJSON (JNum n) = JNum n"
| "DeepCloneJSON (JStr s) = JStr s"

lemma DeepCloneJSON_id [simp]: "DeepCloneJSON j = j"
  by (induction j rule: DeepCloneJSON.induct) (auto intro!: map_idI)

section \<open>Pointers\<close>

definition unescape_token :: "string \<Rightarrow> string" where
  "unescape_token part = replace_all ''~0'' ''~'' (replace_all ''~1'' ''/'' part)"

definition splitJSONPointer :: "string \<Rightarrow> string list" where
  "splitJSONPointer path =
     (if path = [] \<or> path = ''/'' then []
      else map unescape_token (split_on CHR ''/'' (trim_prefix ''/'' path)))"

definition escapeJSONPointerToken :: "string \<Rightarrow> string" where
  "escapeJSONPointerToken token = replace_all ''/'' ''~1'' (replace_all ''~'' ''~0'' token)"

text \<open>The loop that rebuilds a pointer from its tokens (\<open>canonical\<close> in \<open>resolveCollections\<close>).\<close>

definition join_pointer :: "string list \<Rightarrow> string" where
  "join_pointer parts = concat (map (\<lambda>p. ''/'' @ escapeJSONPointerToken p) parts)"

definition canonical_pointer :: "string \<Rightarrow> string" where
  "canonical_pointer path = join_pointer (splitJSONPointer path)"

text \<open>Escaping works character by character, and unescaping undoes it.\<close>

definition esc_char :: "char \<Rightarrow> string" where
  "esc_char c = (if c = CHR ''~'' then ''~0'' else if c = CHR ''/'' then ''~1'' else [c])"

lemma escape_concat: "escapeJSONPointerToken t = concat (map esc_char t)"
proof -
  have "replace_all ''/'' ''~1'' (concat (map (\<lambda>x. if x = CHR ''~'' then ''~0'' else [x]) t)) =
      concat (map esc_char t)"
    by (induction t) (auto simp: replace_all_single esc_char_def)
  then show ?thesis by (simp add: escapeJSONPointerToken_def replace_all_single)
qed

lemma escape_no_slash: "CHR ''/'' \<notin> set (escapeJSONPointerToken t)"
  by (induction t) (auto simp: escape_concat esc_char_def)

lemma unescape_slashes:
  "replace_all ''~1'' ''/'' (concat (map esc_char t)) =
     concat (map (\<lambda>c. if c = CHR ''~'' then ''~0'' else [c]) t)"
proof (induction t)
  case (Cons c t)
  consider "c = CHR ''~''" | "c = CHR ''/''" | "c \<noteq> CHR ''~''" "c \<noteq> CHR ''/''" by blast
  then show ?case
    using Cons replace_all_hit[of "''~1''" "''/''"]
    by cases (simp_all add: esc_char_def replace_all_miss)
qed simp

lemma unescape_tildes:
  "replace_all ''~0'' ''~'' (concat (map (\<lambda>c. if c = CHR ''~'' then ''~0'' else [c]) t)) = t"
proof (induction t)
  case (Cons c t)
  then show ?case
    using replace_all_hit[of "''~0''" "''~''"]
    by (cases "c = CHR ''~''") (simp_all add: replace_all_miss)
qed simp

lemma unescape_escape [simp]: "unescape_token (escapeJSONPointerToken t) = t"
  by (simp add: unescape_token_def escape_concat unescape_slashes unescape_tildes)

lemma escape_inject [simp]: "escapeJSONPointerToken s = escapeJSONPointerToken t \<longleftrightarrow> s = t"
  by (metis unescape_escape)

lemma join_pointer_join:
  "parts \<noteq> [] \<Longrightarrow> join_pointer parts = ''/'' @ join_with ''/'' (map escapeJSONPointerToken parts)"
proof (induction parts)
  case (Cons p ps)
  then show ?case by (cases ps) (auto simp: join_pointer_def)
qed simp

text \<open>
  Splitting a pointer built from tokens gives the tokens back. The one exception is the pointer
  to the empty key: \<open>/\<close> is read as the whole document.
\<close>

lemma split_join_pointer:
  assumes "parts \<noteq> [[]]"
  shows "splitJSONPointer (join_pointer parts) = parts"
proof (cases "parts = []")
  case True
  then show ?thesis by (simp add: join_pointer_def splitJSONPointer_def)
next
  case False
  let ?es = "map escapeJSONPointerToken parts"
  have "join_with ''/'' ?es \<noteq> []"
  proof
    assume e: "join_with ''/'' ?es = []"
    have "split_on CHR ''/'' (join_with ''/'' ?es) = ?es"
      using False by (intro split_on_join) (auto simp: escape_no_slash)
    with e have "map unescape_token [[]] = map unescape_token ?es" by simp
    then have "parts = [unescape_token []]" by (simp add: comp_def)
    with assms show False by (simp add: unescape_token_def)
  qed
  moreover have "split_on CHR ''/'' (join_with ''/'' ?es) = ?es"
    using False by (intro split_on_join) (auto simp: escape_no_slash)
  ultimately show ?thesis
    using False by (simp add: splitJSONPointer_def join_pointer_join trim_prefix_def comp_def)
qed

lemma join_pointer_inject:
  assumes "join_pointer ps = join_pointer qs" shows "ps = qs"
proof (cases "ps = [[]] \<or> qs = [[]]")
  case False
  with assms show ?thesis by (metis split_join_pointer)
next
  case True
  have "join_pointer rs = join_pointer [[]] \<Longrightarrow> rs = [[]]" for rs
  proof (rule ccontr)
    assume "join_pointer rs = join_pointer [[]]" and "rs \<noteq> [[]]"
    then have "rs = splitJSONPointer (join_pointer [[]])" by (metis split_join_pointer)
    then have "rs = []" by (simp add: join_pointer_def splitJSONPointer_def escape_concat)
    with \<open>join_pointer rs = join_pointer [[]]\<close> show False by (simp add: join_pointer_def)
  qed
  with True assms show ?thesis by metis
qed

lemma split_canonical [simp]:
  "canonical_pointer path = path \<Longrightarrow> join_pointer (splitJSONPointer path) = path"
  by (simp add: canonical_pointer_def)

section \<open>Navigation\<close>

datatype path_error =
    PathNotFound string
  | ExpectedIndex string string
  | IndexOutOfBounds int
  | NonCanonicalIndex string
  | CannotNavigate string string
  | InvalidIndex string string
  | CannotReplace string
  | NotAnArray string

text \<open>
  The loop of \<open>extractValueAtPath\<close>. \<open>strict\<close> is \<open>ItemsPaths != nil\<close>: then empty tokens are
  keys and array indices must be in canonical form; otherwise empty tokens are skipped. The
  first argument is the whole path, for the errors.
\<close>

primrec value_at :: "bool \<Rightarrow> string \<Rightarrow> json \<Rightarrow> string list \<Rightarrow> path_error + json" where
  "value_at strict path current [] = Inr current"
| "value_at strict path current (part # parts) =
     (if part = [] \<and> \<not> strict then value_at strict path current parts
      else
        (case current of
           JObj fs \<Rightarrow>
             (case map_of fs part of
                None \<Rightarrow> Inl (PathNotFound path)
              | Some v \<Rightarrow> value_at strict path v parts)
         | JArr xs \<Rightarrow>
             (case atoi part of
                None \<Rightarrow> Inl (ExpectedIndex path part)
              | Some idx \<Rightarrow>
                  (if idx < 0 \<or> idx \<ge> int (length xs) then Inl (IndexOutOfBounds idx)
                   else if strict \<and> part \<noteq> itoa (nat idx) then Inl (NonCanonicalIndex part)
                   else value_at strict path (xs ! nat idx) parts))
         | _ \<Rightarrow> Inl (CannotNavigate path part)))"

text \<open>
  The body of \<open>replaceCollectionAtPath\<close> after the split: walk to the parent of the last token,
  then overwrite. The Go code writes into a deep clone; here the updated value is rebuilt.
\<close>

definition overwrite :: "string \<Rightarrow> json \<Rightarrow> string \<Rightarrow> json \<Rightarrow> path_error + json" where
  "overwrite path data final replacement =
     (case data of
        JObj fs \<Rightarrow>
          (case map_of fs final of
             None \<Rightarrow> Inl (PathNotFound path)
           | Some v \<Rightarrow> Inr (JObj (AList.update final replacement fs)))
      | JArr xs \<Rightarrow>
          (case atoi final of
             None \<Rightarrow> Inl (InvalidIndex final path)
           | Some idx \<Rightarrow>
               (if idx < 0 \<or> idx \<ge> int (length xs) then Inl (InvalidIndex final path)
                else Inr (JArr (xs[nat idx := replacement]))))
      | _ \<Rightarrow> Inl (CannotReplace path))"

primrec replace_at :: "string \<Rightarrow> json \<Rightarrow> string list \<Rightarrow> json \<Rightarrow> path_error + json" where
  "replace_at path data [] replacement = Inr replacement"
| "replace_at path data (part # parts) replacement =
     (if parts = [] then overwrite path data part replacement
      else
        (case data of
           JObj fs \<Rightarrow>
             (case map_of fs part of
                None \<Rightarrow> Inl (PathNotFound path)
              | Some v \<Rightarrow>
                  map_sum id (\<lambda>v'. JObj (AList.update part v' fs)) (replace_at path v parts replacement))
         | JArr xs \<Rightarrow>
             (case atoi part of
                None \<Rightarrow> Inl (InvalidIndex part path)
              | Some idx \<Rightarrow>
                  (if idx < 0 \<or> idx \<ge> int (length xs) then Inl (InvalidIndex part path)
                   else map_sum id (\<lambda>v'. JArr (xs[nat idx := v']))
                          (replace_at path (xs ! nat idx) parts replacement)))
         | _ \<Rightarrow> Inl (CannotNavigate path part)))"

definition replaceCollectionAtPath :: "json \<Rightarrow> string \<Rightarrow> json list \<Rightarrow> path_error + json" where
  "replaceCollectionAtPath data path replacement =
     replace_at path data (splitJSONPointer path) (JArr replacement)"

lemma map_sum_Inr_iff: "map_sum id f r = Inr y \<longleftrightarrow> (\<exists>x. r = Inr x \<and> y = f x)"
  by (cases r) auto

text \<open>A replacement that succeeds puts the new value exactly where navigation finds it.\<close>

lemma value_at_replace_at:
  assumes "replace_at path data parts r = Inr data'" and "\<forall>p\<in>set parts. p \<noteq> []"
  shows "value_at False path' data' parts = Inr r"
  using assms
proof (induction parts arbitrary: data data')
  case (Cons p ps)
  then show ?case
    by (auto simp: overwrite_def map_sum_Inr_iff split: json.splits option.splits if_splits)
qed simp

text \<open>\<dots> and succeeds only where there was something to replace.\<close>

lemma replace_at_defined:
  assumes "replace_at path data parts r = Inr data'" and "\<forall>p\<in>set parts. p \<noteq> []"
  shows "\<exists>old. value_at False path' data parts = Inr old"
  using assms
proof (induction parts arbitrary: data data')
  case (Cons p ps)
  then show ?case
    by (auto simp: overwrite_def map_sum_Inr_iff split: json.splits option.splits if_splits)
qed simp

end
