(* ===== verification/Resource.thy ===== *)
theory Resource imports FlowLabels JsonPointer begin

text \<open>
  \<open>internal/difc/resource.go\<close>: labelled resources, labelled data and the labels of a whole
  collection. A pointer that may be nil is an option. \<open>ResourceStructure\<close> (per-field labels) is
  declared in the source but no code reads it, and it is left out.
\<close>

record labeled_resource =
  description :: string
  secrecy :: flow_label
  integrity :: flow_label

definition NewLabeledResource :: "string \<Rightarrow> labeled_resource" where
  "NewLabeledResource d = \<lparr>description = d, secrecy = NewFlowLabel [], integrity = NewFlowLabel []\<rparr>"

record labeled_item =
  item_data :: json
  item_labels :: "labeled_resource option"
  item_path :: string

record filtered_item_detail =
  filtered_item :: labeled_item
  filtered_reason :: string
  is_secrecy_violation :: bool

datatype data_error = PathError path_error | EncodeError

record simple_labeled_data =
  simple_data :: json
  simple_labels :: "labeled_resource option"

record collection_labeled_data =
  items :: "labeled_item list"
  original_data :: json
  items_path :: string
  preserve_envelope :: bool
  rebuild :: "(filtered_item_detail list \<Rightarrow> (data_error + json) go) option"

record filtered_collection =
  accessible :: "labeled_item list"
  filtered :: "filtered_item_detail list"
  total_count :: nat
  filter_reason :: string
  f_original_data :: json
  f_items_path :: string
  f_preserve_envelope :: bool

section \<open>The labels of a collection\<close>

fun aggregate_loop :: "labeled_item list \<Rightarrow> label \<Rightarrow> label \<Rightarrow> label \<times> label" where
  "aggregate_loop [] s i = (s, i)"
| "aggregate_loop (item # rest) s i =
     (case item_labels item of
        Some r \<Rightarrow> aggregate_loop rest (lab_Union (secrecy r) s) (lab_Union (integrity r) i)
      | None \<Rightarrow> aggregate_loop rest s i)"

definition aggregateLabels :: "labeled_item list \<Rightarrow> string \<Rightarrow> string \<Rightarrow> labeled_resource" where
  "aggregateLabels its emptyDescription descr =
     (if its = [] then NewLabeledResource emptyDescription
      else
        (let (s, i) = aggregate_loop its NewLabel NewLabel
         in \<lparr>description = descr, secrecy = Some s, integrity = Some i\<rparr>))"

definition itemsToResult :: "labeled_item list \<Rightarrow> json list" where
  "itemsToResult its = map item_data its"

definition simple_Overall :: "simple_labeled_data \<Rightarrow> labeled_resource option" where
  "simple_Overall d = simple_labels d"

definition simple_ToResult :: "simple_labeled_data \<Rightarrow> data_error + json" where
  "simple_ToResult d = Inr (simple_data d)"

definition collection_Overall :: "collection_labeled_data \<Rightarrow> labeled_resource" where
  "collection_Overall c = aggregateLabels (items c) ''empty collection'' ''collection''"

definition filtered_Overall :: "filtered_collection \<Rightarrow> labeled_resource" where
  "filtered_Overall f =
     aggregateLabels (accessible f) ''empty filtered collection'' ''filtered collection''"

text \<open>Both \<open>ToResult\<close> methods replace the collection in a deep clone of the envelope.\<close>

definition envelope_result :: "labeled_item list \<Rightarrow> bool \<Rightarrow> json \<Rightarrow> string \<Rightarrow> data_error + json" where
  "envelope_result its preserve original path =
     (if preserve
      then map_sum PathError id (replaceCollectionAtPath (DeepCloneJSON original) path (itemsToResult its))
      else Inr (JArr (itemsToResult its)))"

definition collection_ToResult :: "collection_labeled_data \<Rightarrow> data_error + json" where
  "collection_ToResult c =
     envelope_result (items c) (preserve_envelope c) (original_data c) (items_path c)"

definition filtered_ToResult :: "filtered_collection \<Rightarrow> data_error + json" where
  "filtered_ToResult f =
     envelope_result (accessible f) (f_preserve_envelope f) (f_original_data f) (f_items_path f)"

definition GetAccessibleCount :: "filtered_collection \<Rightarrow> nat" where
  "GetAccessibleCount f = length (accessible f)"

definition GetFilteredCount :: "filtered_collection \<Rightarrow> nat" where
  "GetFilteredCount f = length (filtered f)"

text \<open>The implementations of the \<open>LabeledData\<close> interface that reach the pipeline.\<close>

datatype labeled_data =
    SimpleData simple_labeled_data
  | CollectionData collection_labeled_data
  | FilteredData filtered_collection

definition data_Overall :: "labeled_data \<Rightarrow> labeled_resource option" where
  "data_Overall d =
     (case d of
        SimpleData s \<Rightarrow> simple_Overall s
      | CollectionData c \<Rightarrow> Some (collection_Overall c)
      | FilteredData f \<Rightarrow> Some (filtered_Overall f))"

definition data_ToResult :: "labeled_data \<Rightarrow> data_error + json" where
  "data_ToResult d =
     (case d of
        SimpleData s \<Rightarrow> simple_ToResult s
      | CollectionData c \<Rightarrow> collection_ToResult c
      | FilteredData f \<Rightarrow> filtered_ToResult f)"

section \<open>What the aggregate holds\<close>

definition item_secrecy :: "labeled_item \<Rightarrow> tag set" where
  "item_secrecy it = (case item_labels it of None \<Rightarrow> {} | Some r \<Rightarrow> ftags (secrecy r))"

definition item_integrity :: "labeled_item \<Rightarrow> tag set" where
  "item_integrity it = (case item_labels it of None \<Rightarrow> {} | Some r \<Rightarrow> ftags (integrity r))"

lemma tags_Union_option: "tags_of (lab_Union m l) = tags_of l \<union> ftags m"
  by (cases m) simp_all

lemma aggregate_loop_tags:
  assumes "aggregate_loop its s i = (s', i')"
  shows "tags_of s' = tags_of s \<union> (\<Union>it\<in>set its. item_secrecy it)"
    and "tags_of i' = tags_of i \<union> (\<Union>it\<in>set its. item_integrity it)"
  using assms
  by (induction its arbitrary: s i)
     (auto simp: item_secrecy_def item_integrity_def tags_Union_option split: option.splits)

lemma ftags_New [simp]:
  "ftags (secrecy (NewLabeledResource d)) = {}" "ftags (integrity (NewLabeledResource d)) = {}"
  by (simp_all add: NewLabeledResource_def)

lemma aggregateLabels_secrecy:
  "ftags (secrecy (aggregateLabels its e d)) = (\<Union>it\<in>set its. item_secrecy it)"
  using aggregate_loop_tags(1)[of its NewLabel NewLabel]
  by (auto simp: aggregateLabels_def split: prod.splits)

lemma aggregateLabels_integrity:
  "ftags (integrity (aggregateLabels its e d)) = (\<Union>it\<in>set its. item_integrity it)"
  using aggregate_loop_tags(2)[of its NewLabel NewLabel]
  by (auto simp: aggregateLabels_def split: prod.splits)

lemma aggregateLabels_nonnil:
  "secrecy (aggregateLabels its e d) \<noteq> None" "integrity (aggregateLabels its e d) \<noteq> None"
  by (auto simp: aggregateLabels_def NewLabeledResource_def NewFlowLabel_def split: prod.splits)

lemma envelope_result_plain: "envelope_result its False original path = Inr (JArr (map item_data its))"
  by (simp add: envelope_result_def itemsToResult_def)

lemma envelope_result_at:
  assumes "envelope_result its True original path = Inr r"
    and "\<forall>p\<in>set (splitJSONPointer path). p \<noteq> []"
  shows "value_at False path' r (splitJSONPointer path) = Inr (JArr (map item_data its))"
proof -
  have "replace_at path original (splitJSONPointer path) (JArr (map item_data its)) = Inr r"
    using assms(1)
    by (cases "replaceCollectionAtPath original path (itemsToResult its)")
       (auto simp: envelope_result_def replaceCollectionAtPath_def itemsToResult_def)
  then show ?thesis using assms(2) by (rule value_at_replace_at)
qed

end
