(* ===== verification/Violations.thy ===== *)
theory Violations imports FlowLabels begin

text \<open>
  The human-readable part of \<open>internal/difc/violations.go\<close>: how a tag list is turned into the
  level or scope that the denial reasons name, and the violation error. Go's string escapes are
  spelled out: \<open>dq\<close> and \<open>sq\<close> are the quotes, \<open>nl\<close> the newline.
\<close>

definition dq :: string where "dq = [CHR 0x22]"
definition sq :: string where "sq = [CHR 0x27]"
definition nl :: string where "nl = [CHR 0x0A]"

text \<open>A colon in first position does not split.\<close>

definition splitTagScope :: "tag \<Rightarrow> string \<times> string" where
  "splitTagScope t =
     (case cut CHR '':'' t of
        Some (a, b) \<Rightarrow> if a = [] then (t, []) else (a, b)
      | None \<Rightarrow> (t, []))"

text \<open>The loop of \<open>formatIntegrityLevel\<close>: \<open>Inl\<close> is the early return on a merged tag.\<close>

fun integrity_loop :: "string \<Rightarrow> tag list \<Rightarrow> string + string" where
  "integrity_loop highest [] = Inr highest"
| "integrity_loop highest (t # ts) =
     (let s = fst (splitTagScope t)
      in if s = ''merged'' then Inl (dq @ ''merged'' @ dq)
         else if s = ''approved'' then integrity_loop (dq @ ''approved'' @ dq) ts
         else if s = ''unapproved''
              then integrity_loop (if highest = [] then dq @ ''unapproved'' @ dq else highest) ts
         else integrity_loop highest ts)"

definition formatIntegrityLevel :: "tag list \<Rightarrow> string" where
  "formatIntegrityLevel tags =
     (if tags = [] then ''none''
      else
        (case integrity_loop [] tags of
           Inl r \<Rightarrow> r
         | Inr highest \<Rightarrow> if highest \<noteq> [] then highest else show_list tags))"

fun secrecy_loop :: "string \<Rightarrow> bool \<Rightarrow> tag list \<Rightarrow> string \<times> bool" where
  "secrecy_loop bestScope hasPrivate [] = (bestScope, hasPrivate)"
| "secrecy_loop bestScope hasPrivate (t # ts) =
     (let (base, scope) = splitTagScope t
      in if base \<noteq> ''private'' then secrecy_loop bestScope hasPrivate ts
         else if scope \<noteq> []
              then secrecy_loop (if length scope > length bestScope then scope else bestScope) hasPrivate ts
         else secrecy_loop bestScope (hasPrivate \<or> t = ''private'') ts)"

definition formatSecrecyLevel :: "tag list \<Rightarrow> string" where
  "formatSecrecyLevel tags =
     (if tags = [] then ''public''
      else
        (let (bestScope, hasPrivate) = secrecy_loop [] False tags
         in if bestScope \<noteq> [] then ''private ('' @ bestScope @ '')''
            else if hasPrivate then ''private''
            else show_list tags))"

datatype violation_type = SecrecyViolation | IntegrityViolation

fun violation_name :: "violation_type \<Rightarrow> string" where
  "violation_name SecrecyViolation = ''secrecy''"
| "violation_name IntegrityViolation = ''integrity''"

record violation_error =
  v_type :: violation_type
  v_resource :: string
  v_is_write :: bool
  v_missing :: "tag list"
  v_extra :: "tag list"
  v_agent :: "tag list"
  v_resource_tags :: "tag list"

definition violation_Error :: "violation_error \<Rightarrow> string" where
  "violation_Error e =
     (if v_type e = SecrecyViolation
      then ''Secrecy violation for resource '' @ sq @ v_resource e @ sq @ '': '' @
           (if v_extra e \<noteq> []
            then ''the agent is not authorized to access data with secrecy level '' @
                 formatSecrecyLevel (v_extra e) @ ''.''
            else [])
      else if v_is_write e
      then ''Integrity violation for write to resource '' @ sq @ v_resource e @ sq @ '': '' @
           (if v_missing e \<noteq> []
            then ''the agent'' @ sq @ ''s integrity level is insufficient; it needs '' @
                 formatIntegrityLevel (v_missing e) @ '' integrity.''
            else [])
      else ''Integrity violation for read from resource '' @ sq @ v_resource e @ sq @ '': '' @
           (if v_missing e \<noteq> []
            then ''the agent cannot read data with integrity below '' @
                 formatIntegrityLevel (v_missing e) @ ''.''
            else []))"

definition violation_Detailed :: "violation_error \<Rightarrow> string" where
  "violation_Detailed e =
     violation_Error e @
     nl @ ''  Agent '' @ violation_name (v_type e) @ '' tags: '' @ show_list (v_agent e) @
     nl @ ''  Resource '' @ violation_name (v_type e) @ '' tags: '' @ show_list (v_resource_tags e)"

section \<open>The level named is the highest one present\<close>

abbreviation tag_base :: "tag \<Rightarrow> string" where
  "tag_base t \<equiv> fst (splitTagScope t)"

definition has_base :: "string \<Rightarrow> tag list \<Rightarrow> bool" where
  "has_base b ts \<longleftrightarrow> (\<exists>t\<in>set ts. tag_base t = b)"

lemma has_base_simps [simp]:
  "\<not> has_base b []" "has_base b (t # ts) \<longleftrightarrow> tag_base t = b \<or> has_base b ts"
  by (auto simp: has_base_def)

lemma integrity_loop_eq:
  "integrity_loop h ts =
     (if has_base ''merged'' ts then Inl (dq @ ''merged'' @ dq)
      else if has_base ''approved'' ts then Inr (dq @ ''approved'' @ dq)
      else if h = [] \<and> has_base ''unapproved'' ts then Inr (dq @ ''unapproved'' @ dq)
      else Inr h)"
  by (induction h ts rule: integrity_loop.induct) (auto simp: Let_def dq_def)

lemma formatIntegrityLevel_eq:
  "tags \<noteq> [] \<Longrightarrow>
   formatIntegrityLevel tags =
     (if has_base ''merged'' tags then dq @ ''merged'' @ dq
      else if has_base ''approved'' tags then dq @ ''approved'' @ dq
      else if has_base ''unapproved'' tags then dq @ ''unapproved'' @ dq
      else show_list tags)"
  by (simp add: formatIntegrityLevel_def integrity_loop_eq dq_def)

lemma splitTagScope_join:
  "splitTagScope t = (a, b) \<Longrightarrow> t = a \<or> t = a @ '':'' @ b"
  by (auto simp: splitTagScope_def cut_Some_iff split: option.splits if_splits)

lemma secrecy_loop_best:
  assumes "secrecy_loop b h ts = (b', h')"
  shows "length b \<le> length b'"
    and "t \<in> set ts \<Longrightarrow> tag_base t = ''private'' \<Longrightarrow> length (snd (splitTagScope t)) \<le> length b'"
    and "b' = b \<or> (\<exists>t\<in>set ts. splitTagScope t = (''private'', b'))"
  using assms
proof (induction b h ts rule: secrecy_loop.induct)
  case (2 b h t' ts)
  obtain base scope where sp: "splitTagScope t' = (base, scope)" by force
  { case 1 then show ?case using 2 sp by (fastforce simp: Let_def split: if_splits)
  next case 2 then show ?case using "2.IH" sp by (fastforce simp: Let_def split: if_splits)
  next case 3 then show ?case using "2.IH" sp by (fastforce simp: Let_def split: if_splits) }
qed simp_all

end
