(* ===== verification/Evaluator.thy ===== *)
theory Evaluator imports Resource Violations begin

text \<open>
  \<open>internal/difc/evaluator.go\<close>: enforcement modes, the access decision for one operation on one
  resource, and the filtering of a collection; with \<open>FormatViolationError\<close> of
  \<open>violations.go\<close>. Every nil dereference of the source is the outcome \<open>Panic\<close>: an agent label,
  the resource or (for a read) the resource's integrity label may be nil.
\<close>

section \<open>Modes, operations, decisions\<close>

datatype operation = OperationRead | OperationWrite | OperationReadWrite

fun operation_String :: "operation \<Rightarrow> string" where
  "operation_String OperationRead = ''read''"
| "operation_String OperationWrite = ''write''"
| "operation_String OperationReadWrite = ''read-write''"

datatype enforcement_mode = EnforcementStrict | EnforcementFilter | EnforcementPropagate

definition ModeStrict :: string where "ModeStrict = ''strict''"
definition ModeFilter :: string where "ModeFilter = ''filter''"
definition ModePropagate :: string where "ModePropagate = ''propagate''"

fun mode_String :: "enforcement_mode \<Rightarrow> string" where
  "mode_String EnforcementStrict = ModeStrict"
| "mode_String EnforcementFilter = ModeFilter"
| "mode_String EnforcementPropagate = ModePropagate"

definition ValidModes :: "string list" where
  "ValidModes = [ModeStrict, ModeFilter, ModePropagate]"

lemmas mode_strings = ModeStrict_def ModeFilter_def ModePropagate_def

text \<open>The error value of \<open>ParseEnforcementMode\<close> carries the string it was given.\<close>

datatype mode_error = UnknownMode string

definition ParseEnforcementMode :: "string \<Rightarrow> mode_error + enforcement_mode" where
  "ParseEnforcementMode s =
     (let l = to_lower s
      in if l = ModeStrict \<or> l = [] then Inr EnforcementStrict
         else if l = ModeFilter then Inr EnforcementFilter
         else if l = ModePropagate then Inr EnforcementPropagate
         else Inl (UnknownMode s))"

text \<open>\<open>os.Getenv\<close> gives the empty string for an unset variable.\<close>

definition DefaultEnforcementMode :: "string \<Rightarrow> string" where
  "DefaultEnforcementMode envMode =
     (if envMode \<noteq> []
      then (let mode = to_lower envMode
            in case ParseEnforcementMode mode of Inr _ \<Rightarrow> mode | Inl _ \<Rightarrow> ModeStrict)
      else ModeStrict)"

datatype access_decision = AccessAllow | AccessDeny | AccessAllowWithPropagate

fun decision_String :: "access_decision \<Rightarrow> string" where
  "decision_String AccessAllow = ''allow''"
| "decision_String AccessDeny = ''deny''"
| "decision_String AccessAllowWithPropagate = ''allow-with-propagate''"

record evaluation_result =
  decision :: access_decision
  secrecyToAdd :: "tag list"
  integrityToDrop :: "tag list"
  reason :: string
  hardDeny :: bool

definition IsAllowed :: "evaluation_result \<Rightarrow> bool" where
  "IsAllowed r = (decision r = AccessAllow \<or> decision r = AccessAllowWithPropagate)"

definition RequiresPropagation :: "evaluation_result \<Rightarrow> bool" where
  "RequiresPropagation r = (decision r = AccessAllowWithPropagate)"

definition MustDeny :: "evaluation_result \<Rightarrow> bool" where
  "MustDeny r = hardDeny r"

record evaluator =
  mode :: enforcement_mode
  secrecyPropagationMax :: flow_label

definition NewEvaluator :: evaluator where
  "NewEvaluator = \<lparr>mode = EnforcementStrict, secrecyPropagationMax = None\<rparr>"

definition NewEvaluatorWithMode :: "enforcement_mode \<Rightarrow> evaluator" where
  "NewEvaluatorWithMode m = \<lparr>mode = m, secrecyPropagationMax = None\<rparr>"

definition WithSecrecyPropagationMax :: "tag list \<Rightarrow> evaluator \<Rightarrow> evaluator" where
  "WithSecrecyPropagationMax tags e = \<lparr>mode = mode e, secrecyPropagationMax = NewFlowLabel tags\<rparr>"

definition SetMode :: "enforcement_mode \<Rightarrow> evaluator \<Rightarrow> evaluator" where
  "SetMode m e = e\<lparr>mode := m\<rparr>"

definition GetMode :: "evaluator \<Rightarrow> enforcement_mode" where
  "GetMode e = mode e"

definition newEmptyEvaluationResult :: evaluation_result where
  "newEmptyEvaluationResult =
     \<lparr>decision = AccessAllow, secrecyToAdd = [], integrityToDrop = [], reason = [], hardDeny = False\<rparr>"

section \<open>Evaluating one access\<close>

definition is_blocked_tag :: "tag \<Rightarrow> bool" where
  "is_blocked_tag t \<longleftrightarrow> t = ''blocked'' \<or> prefix ''blocked:'' t \<or> prefix ''integrity=blocked;scopes='' t"

definition quoted :: "string \<Rightarrow> string" where "quoted s = sq @ s @ sq"

text \<open>The seven reasons, as the \<open>fmt.Sprintf\<close> calls build them from the description and the tags.\<close>

definition reasonBlocked :: "string \<Rightarrow> string" where
  "reasonBlocked d = ''Resource '' @ quoted d @ '' is explicitly blocked.''"

definition reasonCapability :: "string \<Rightarrow> string" where
  "reasonCapability d =
     ''Resource '' @ quoted d @ '' requires secrecy tags outside the invocation capability.''"

definition reasonPropagation :: "bool \<Rightarrow> tag list \<Rightarrow> bool \<Rightarrow> tag list \<Rightarrow> string" where
  "reasonPropagation secrecyOk extra integrityOk missing =
     ''Read allowed with label propagation: '' @ join_with '' and ''
       ((if \<not> secrecyOk then [''adding secrecy tags '' @ show_list extra] else []) @
        (if \<not> integrityOk then [''dropping integrity tags '' @ show_list missing] else []))"

definition reasonReadIntegrity :: "string \<Rightarrow> tag list \<Rightarrow> string" where
  "reasonReadIntegrity d missing =
     ''Resource '' @ quoted d @ '' has lower integrity than agent requires. '' @
     ''The agent cannot read data with integrity below '' @ formatIntegrityLevel missing @ ''.''"

definition reasonReadSecrecy :: "string \<Rightarrow> tag list \<Rightarrow> string" where
  "reasonReadSecrecy d extra =
     ''Resource '' @ quoted d @ '' has secrecy requirements that agent doesn'' @ sq @ ''t meet. '' @
     ''The agent is not authorized to access '' @ formatSecrecyLevel extra @ ''-scoped data.''"

definition reasonWriteIntegrity :: "string \<Rightarrow> tag list \<Rightarrow> string" where
  "reasonWriteIntegrity d missing =
     ''Agent lacks required integrity to write to '' @ quoted d @ ''. '' @
     ''The agent'' @ sq @ ''s integrity level is insufficient; it needs '' @
     formatIntegrityLevel missing @ '' integrity.''"

definition reasonWriteSecrecy :: "string \<Rightarrow> tag list \<Rightarrow> string" where
  "reasonWriteSecrecy d extra =
     ''Agent carries '' @ formatSecrecyLevel extra @ ''-scoped data that cannot be written to '' @
     quoted d @ '' due to secrecy constraints. '' @
     ''The target resource is not authorized to receive this sensitive data.''"

definition evaluateRead ::
  "evaluator \<Rightarrow> flow_label \<Rightarrow> flow_label \<Rightarrow> labeled_resource \<Rightarrow> evaluation_result go" where
  "evaluateRead e agentSecrecy agentIntegrity res =
     (case (agentSecrecy, agentIntegrity, integrity res) of
        (Some _, Some _, Some ri) \<Rightarrow>
          (let result = newEmptyEvaluationResult;
               d = description res;
               (integrityOk, integrityMissingTags) = CheckFlow integrityKind (integrity res) agentIntegrity;
               (secrecyOk, secrecyExtraTags) = CheckFlow secrecyKind (secrecy res) agentSecrecy
           in Return
             (if list_ex is_blocked_tag (lab_GetTags ri)
              then result\<lparr>decision := AccessDeny,
                     reason := reasonBlocked d,
                     hardDeny := True\<rparr>
              else if mode e = EnforcementPropagate
              then
                (if secrecyPropagationMax e \<noteq> None \<and>
                    \<not> fst (CheckFlow secrecyKind (secrecy res) (secrecyPropagationMax e))
                 then result\<lparr>decision := AccessDeny,
                        secrecyToAdd := snd (CheckFlow secrecyKind (secrecy res) (secrecyPropagationMax e)),
                        reason := reasonCapability d,
                        hardDeny := True\<rparr>
                 else if \<not> integrityOk \<or> \<not> secrecyOk
                 then result\<lparr>decision := AccessAllowWithPropagate,
                        integrityToDrop := integrityMissingTags,
                        secrecyToAdd := secrecyExtraTags,
                        reason := reasonPropagation secrecyOk secrecyExtraTags integrityOk integrityMissingTags\<rparr>
                 else result)
              else if \<not> integrityOk
              then result\<lparr>decision := AccessDeny,
                     integrityToDrop := integrityMissingTags,
                     reason := reasonReadIntegrity d integrityMissingTags\<rparr>
              else if \<not> secrecyOk
              then result\<lparr>decision := AccessDeny,
                     secrecyToAdd := secrecyExtraTags,
                     reason := reasonReadSecrecy d secrecyExtraTags\<rparr>
              else result))
      | _ \<Rightarrow> Panic)"

definition evaluateWrite ::
  "evaluator \<Rightarrow> flow_label \<Rightarrow> flow_label \<Rightarrow> labeled_resource \<Rightarrow> evaluation_result go" where
  "evaluateWrite e agentSecrecy agentIntegrity res =
     (case (agentSecrecy, agentIntegrity) of
        (Some _, Some _) \<Rightarrow>
          (let result = newEmptyEvaluationResult;
               d = description res;
               (integrityOk, missingTags) = CheckFlow integrityKind agentIntegrity (integrity res);
               (secrecyOk, extraTags) = CheckFlow secrecyKind agentSecrecy (secrecy res)
           in Return
             (if \<not> integrityOk
              then result\<lparr>decision := AccessDeny,
                     integrityToDrop := missingTags,
                     reason := reasonWriteIntegrity d missingTags\<rparr>
              else if \<not> secrecyOk
              then result\<lparr>decision := AccessDeny,
                     secrecyToAdd := extraTags,
                     reason := reasonWriteSecrecy d extraTags\<rparr>
              else result))
      | _ \<Rightarrow> Panic)"

definition Evaluate ::
  "evaluator \<Rightarrow> flow_label \<Rightarrow> flow_label \<Rightarrow> labeled_resource option \<Rightarrow> operation \<Rightarrow> evaluation_result go" where
  "Evaluate e agentSecrecy agentIntegrity resource op =
     (case resource of
        None \<Rightarrow> Panic
      | Some res \<Rightarrow>
          (case op of
             OperationRead \<Rightarrow> evaluateRead e agentSecrecy agentIntegrity res
           | OperationWrite \<Rightarrow> evaluateWrite e agentSecrecy agentIntegrity res
           | OperationReadWrite \<Rightarrow>
               bind_go (evaluateRead e agentSecrecy agentIntegrity res) (\<lambda>readResult.
                 if \<not> IsAllowed readResult then Return readResult
                 else bind_go (evaluateWrite e agentSecrecy agentIntegrity res) (\<lambda>writeResult.
                   if \<not> IsAllowed writeResult then Return writeResult
                   else Return newEmptyEvaluationResult))))"

section \<open>Filtering a collection\<close>

fun filter_loop ::
  "evaluator \<Rightarrow> flow_label \<Rightarrow> flow_label \<Rightarrow> operation \<Rightarrow> labeled_item list \<Rightarrow>
   (labeled_item list \<times> filtered_item_detail list) go" where
  "filter_loop e agS agI op [] = Return ([], [])"
| "filter_loop e agS agI op (item # rest) =
     bind_go (Evaluate e agS agI (item_labels item) op) (\<lambda>result.
     bind_go (filter_loop e agS agI op rest) (\<lambda>(acc, fil).
       if IsAllowed result then Return (item # acc, fil)
       else Return (acc, \<lparr>filtered_item = item, filtered_reason = reason result,
                          is_secrecy_violation = (secrecyToAdd result \<noteq> [])\<rparr> # fil)))"

definition FilterCollection ::
  "evaluator \<Rightarrow> flow_label \<Rightarrow> flow_label \<Rightarrow> collection_labeled_data \<Rightarrow> operation \<Rightarrow> filtered_collection go" where
  "FilterCollection e agS agI c op =
     bind_go (filter_loop e agS agI op (items c)) (\<lambda>(acc, fil).
       Return \<lparr>accessible = acc, filtered = fil, total_count = length (items c),
               filter_reason = ''DIFC policy'', f_original_data = original_data c,
               f_items_path = items_path c, f_preserve_envelope = preserve_envelope c\<rparr>)"

section \<open>The violation report\<close>

definition FormatViolationError ::
  "evaluation_result \<Rightarrow> flow_label \<Rightarrow> flow_label \<Rightarrow> labeled_resource \<Rightarrow> string option go" where
  "FormatViolationError result agentSecrecy agentIntegrity res =
     (if decision result = AccessAllow then Return None
      else
        (case (agentSecrecy, agentIntegrity, secrecy res, integrity res) of
           (Some as, Some ai, Some rs, Some ri) \<Rightarrow>
             Return (Some
               (''DIFC Violation: '' @ reason result @ nl @ nl @
                (if secrecyToAdd result \<noteq> []
                 then ''Required Action: Add secrecy tags '' @ show_list (secrecyToAdd result) @ nl @
                      nl @ ''Implications of adding secrecy tags:'' @ nl @
                      ''  - Agent will be restricted from writing to resources that lack these tags'' @ nl @
                      ''  - This includes public resources (e.g., public repositories, public internet)'' @ nl @
                      ''  - Agent will be marked as handling sensitive information'' @ nl @
                      ''  - Future writes must target resources with tags: '' @ show_list (secrecyToAdd result) @ nl
                 else []) @
                (if integrityToDrop result \<noteq> []
                 then nl @ ''Required Action: Drop integrity tags '' @ show_list (integrityToDrop result) @ nl @
                      nl @ ''Implications of dropping integrity tags:'' @ nl @
                      ''  - Agent will no longer be able to write to high-integrity resources'' @ nl @
                      ''  - Specifically, agent cannot write to resources requiring tags: '' @
                      show_list (integrityToDrop result) @ nl @
                      ''  - This action acknowledges that agent has been influenced by lower-integrity data'' @ nl @
                      ''  - Agent'' @ sq @ ''s outputs will be considered less trustworthy'' @ nl
                 else []) @
                nl @ ''Current Agent Labels:'' @ nl @
                ''  Secrecy: '' @ show_list (lab_GetTags as) @ nl @
                ''  Integrity: '' @ show_list (lab_GetTags ai) @ nl @
                nl @ ''Resource Requirements:'' @ nl @
                ''  Secrecy: '' @ show_list (lab_GetTags rs) @ nl @
                ''  Integrity: '' @ show_list (lab_GetTags ri) @ nl))
         | _ \<Rightarrow> Panic))"

end
