(* ===== verification/AccessControl.thy ===== *)
theory AccessControl imports Evaluator begin

text \<open>
  What the evaluator decides, stated on the sets of tags: an abstract access-control policy
  (\<open>read_permitted\<close>, \<open>write_permitted\<close>) and the lemmas that \<open>Evaluate\<close> implements it in
  every mode, on every branch, and that \<open>FilterCollection\<close> partitions a collection by it.
\<close>

section \<open>The abstract policy\<close>

definition blocked :: "labeled_resource \<Rightarrow> bool" where
  "blocked res \<longleftrightarrow> (\<exists>t\<in>ftags (integrity res). is_blocked_tag t)"

definition secrecy_cleared :: "flow_label \<Rightarrow> labeled_resource \<Rightarrow> bool" where
  "secrecy_cleared agS res \<longleftrightarrow> flows_within (ftags (secrecy res)) (ftags agS)"

definition integrity_trusted :: "flow_label \<Rightarrow> labeled_resource \<Rightarrow> bool" where
  "integrity_trusted agI res \<longleftrightarrow> flows_within (ftags agI) (ftags (integrity res))"

definition read_permitted :: "flow_label \<Rightarrow> flow_label \<Rightarrow> labeled_resource \<Rightarrow> bool" where
  "read_permitted agS agI res \<longleftrightarrow>
     \<not> blocked res \<and> secrecy_cleared agS res \<and> integrity_trusted agI res"

definition write_permitted :: "flow_label \<Rightarrow> flow_label \<Rightarrow> labeled_resource \<Rightarrow> bool" where
  "write_permitted agS agI res \<longleftrightarrow>
     flows_within (ftags (integrity res)) (ftags agI) \<and> flows_within (ftags agS) (ftags (secrecy res))"

definition within_max :: "evaluator \<Rightarrow> labeled_resource \<Rightarrow> bool" where
  "within_max e res \<longleftrightarrow>
     secrecyPropagationMax e = None \<or>
     flows_within (ftags (secrecy res)) (ftags (secrecyPropagationMax e))"

lemma CheckFlow_pair: "CheckFlow k l t = (CanFlowTo k l t, snd (CheckFlow k l t))"
  by (simp add: prod_eq_iff fst_CheckFlow)

lemma list_ex_blocked:
  "integrity res = Some ri \<Longrightarrow> list_ex is_blocked_tag (lab_GetTags ri) \<longleftrightarrow> blocked res"
  by (auto simp: blocked_def list_ex_iff)

section \<open>Reads\<close>

lemma evaluateRead_Panic_iff:
  "evaluateRead e agS agI res = Panic \<longleftrightarrow> agS = None \<or> agI = None \<or> integrity res = None"
  by (auto simp: evaluateRead_def Let_def split: option.splits prod.splits)

lemma evaluateRead_decision:
  assumes "evaluateRead e agS agI res = Return r"
  shows "decision r =
    (if blocked res then AccessDeny
     else if mode e = EnforcementPropagate
     then (if \<not> within_max e res then AccessDeny
           else if secrecy_cleared agS res \<and> integrity_trusted agI res then AccessAllow
           else AccessAllowWithPropagate)
     else if secrecy_cleared agS res \<and> integrity_trusted agI res then AccessAllow
     else AccessDeny)"
    and "hardDeny r \<longleftrightarrow> blocked res \<or> (mode e = EnforcementPropagate \<and> \<not> within_max e res)"
proof -
  obtain s i ri where l: "agS = Some s" "agI = Some i" "integrity res = Some ri"
    using assms evaluateRead_Panic_iff[of e agS agI res] by auto
  note facts = CheckFlow_pair[of integrityKind "integrity res" agI]
    CheckFlow_pair[of secrecyKind "secrecy res" agS]
  have sc: "CanFlowTo secrecyKind (secrecy res) agS \<longleftrightarrow> secrecy_cleared agS res"
    and it: "CanFlowTo integrityKind (integrity res) agI \<longleftrightarrow> integrity_trusted agI res"
    by (simp_all add: CanFlowTo_iff secrecy_cleared_def integrity_trusted_def)
  have wm: "within_max e res \<longleftrightarrow> \<not> (secrecyPropagationMax e \<noteq> None \<and>
      \<not> fst (CheckFlow secrecyKind (secrecy res) (secrecyPropagationMax e)))"
    by (auto simp: within_max_def fst_CheckFlow CanFlowTo_iff)
  show "decision r =
    (if blocked res then AccessDeny
     else if mode e = EnforcementPropagate
     then (if \<not> within_max e res then AccessDeny
           else if secrecy_cleared agS res \<and> integrity_trusted agI res then AccessAllow
           else AccessAllowWithPropagate)
     else if secrecy_cleared agS res \<and> integrity_trusted agI res then AccessAllow
     else AccessDeny)"
    using assms facts unfolding evaluateRead_def l(1,2) l(3)
    by (auto simp: Let_def list_ex_blocked[OF l(3)] sc[unfolded l] it[unfolded l] wm newEmptyEvaluationResult_def
        split: prod.splits if_splits)
  show "hardDeny r \<longleftrightarrow> blocked res \<or> (mode e = EnforcementPropagate \<and> \<not> within_max e res)"
    using assms facts unfolding evaluateRead_def l(1,2) l(3)
    by (auto simp: Let_def list_ex_blocked[OF l(3)] wm newEmptyEvaluationResult_def
        split: prod.splits if_splits)
qed

text \<open>The tags reported are the gap the decision is about.\<close>

lemma evaluateRead_tags:
  assumes "evaluateRead e agS agI res = Return r" and "mode e \<noteq> EnforcementPropagate \<or> within_max e res"
    and "\<not> blocked res"
  shows "mode e = EnforcementPropagate \<Longrightarrow>
      set (secrecyToAdd r) = set (snd (CheckFlow secrecyKind (secrecy res) agS)) \<and>
      set (integrityToDrop r) = set (snd (CheckFlow integrityKind (integrity res) agI))"
    and "secrecyToAdd r \<noteq> [] \<Longrightarrow> \<not> secrecy_cleared agS res"
proof -
  obtain s i ri where l: "agS = Some s" "agI = Some i" "integrity res = Some ri"
    using assms evaluateRead_Panic_iff[of e agS agI res] by auto
  note facts = CheckFlow_pair[of integrityKind "integrity res" agI]
    CheckFlow_pair[of secrecyKind "secrecy res" agS]
  note nils = CheckFlow_allowed_nil[of integrityKind "integrity res" agI]
    CheckFlow_allowed_nil[of secrecyKind "secrecy res" agS]
  have wm: "within_max e res \<longleftrightarrow> \<not> (secrecyPropagationMax e \<noteq> None \<and>
      \<not> fst (CheckFlow secrecyKind (secrecy res) (secrecyPropagationMax e)))"
    by (auto simp: within_max_def fst_CheckFlow CanFlowTo_iff)
  show "mode e = EnforcementPropagate \<Longrightarrow>
      set (secrecyToAdd r) = set (snd (CheckFlow secrecyKind (secrecy res) agS)) \<and>
      set (integrityToDrop r) = set (snd (CheckFlow integrityKind (integrity res) agI))"
    using assms facts nils unfolding evaluateRead_def l(1,2) l(3)
    by (auto simp: Let_def list_ex_blocked[OF l(3)] wm newEmptyEvaluationResult_def
        split: prod.splits if_splits)
  show "secrecyToAdd r \<noteq> [] \<Longrightarrow> \<not> secrecy_cleared agS res"
    using assms facts nils unfolding evaluateRead_def l(1,2) l(3)
    by (auto simp: Let_def list_ex_blocked[OF l(3)] wm newEmptyEvaluationResult_def
        secrecy_cleared_def CanFlowTo_iff split: prod.splits if_splits)
qed

section \<open>Writes\<close>

lemma evaluateWrite_Panic_iff: "evaluateWrite e agS agI res = Panic \<longleftrightarrow> agS = None \<or> agI = None"
  by (auto simp: evaluateWrite_def Let_def split: option.splits prod.splits)

lemma evaluateWrite_decision:
  assumes "evaluateWrite e agS agI res = Return r"
  shows "decision r = (if write_permitted agS agI res then AccessAllow else AccessDeny)"
    and "\<not> hardDeny r"
proof -
  obtain s i where l: "agS = Some s" "agI = Some i"
    using assms evaluateWrite_Panic_iff[of e agS agI res] by auto
  note facts = CheckFlow_pair[of integrityKind agI "integrity res"]
    CheckFlow_pair[of secrecyKind agS "secrecy res"]
  have wp: "write_permitted agS agI res \<longleftrightarrow>
      CanFlowTo integrityKind agI (integrity res) \<and> CanFlowTo secrecyKind agS (secrecy res)"
    by (simp add: write_permitted_def CanFlowTo_iff)
  show "decision r = (if write_permitted agS agI res then AccessAllow else AccessDeny)"
    using assms facts unfolding evaluateWrite_def l wp[unfolded l]
    by (auto simp: Let_def newEmptyEvaluationResult_def split: prod.splits if_splits)
  show "\<not> hardDeny r"
    using assms unfolding evaluateWrite_def l
    by (auto simp: Let_def newEmptyEvaluationResult_def split: prod.splits if_splits)
qed

section \<open>Any operation\<close>

definition reads :: "operation \<Rightarrow> bool" where "reads op \<longleftrightarrow> op \<noteq> OperationWrite"
definition writes :: "operation \<Rightarrow> bool" where "writes op \<longleftrightarrow> op \<noteq> OperationRead"

definition permitted :: "operation \<Rightarrow> flow_label \<Rightarrow> flow_label \<Rightarrow> labeled_resource \<Rightarrow> bool" where
  "permitted op agS agI res \<longleftrightarrow>
     (reads op \<longrightarrow> read_permitted agS agI res) \<and> (writes op \<longrightarrow> write_permitted agS agI res)"

text \<open>The policy of propagate mode: a read needs only not to be blocked and to stay within the capability.\<close>

definition propagatable :: "evaluator \<Rightarrow> labeled_resource \<Rightarrow> bool" where
  "propagatable e res \<longleftrightarrow> \<not> blocked res \<and> within_max e res"

lemma Evaluate_returns_iff:
  "returns (Evaluate e agS agI (Some res) OperationRead) \<longleftrightarrow> agS \<noteq> None \<and> agI \<noteq> None \<and> integrity res \<noteq> None"
  "returns (Evaluate e agS agI (Some res) OperationWrite) \<longleftrightarrow> agS \<noteq> None \<and> agI \<noteq> None"
  by (simp_all add: Evaluate_def returns_not_Panic evaluateRead_Panic_iff evaluateWrite_Panic_iff)

lemma IsAllowed_read:
  assumes "evaluateRead e agS agI res = Return r"
  shows "IsAllowed r \<longleftrightarrow>
    (if mode e = EnforcementPropagate then propagatable e res else read_permitted agS agI res)"
  using evaluateRead_decision(1)[OF assms]
  by (auto simp: IsAllowed_def propagatable_def read_permitted_def split: if_splits)

lemma IsAllowed_write:
  "evaluateWrite e agS agI res = Return r \<Longrightarrow> IsAllowed r \<longleftrightarrow> write_permitted agS agI res"
  using evaluateWrite_decision(1)[of e agS agI res r] by (auto simp: IsAllowed_def split: if_splits)

lemma IsAllowed_empty [simp]: "IsAllowed newEmptyEvaluationResult"
  by (simp add: IsAllowed_def newEmptyEvaluationResult_def)

text \<open>The refinement: \<open>Evaluate\<close> decides exactly the abstract policy of the mode.\<close>

lemma Evaluate_IsAllowed:
  assumes "Evaluate e agS agI (Some res) op = Return r"
  shows "IsAllowed r \<longleftrightarrow>
    (if mode e = EnforcementPropagate
     then (reads op \<longrightarrow> propagatable e res) \<and> (writes op \<longrightarrow> write_permitted agS agI res)
     else permitted op agS agI res)"
proof (cases op)
  case OperationRead
  with assms IsAllowed_read[of e agS agI res r] show ?thesis
    by (simp add: Evaluate_def reads_def writes_def permitted_def)
next
  case OperationWrite
  with assms IsAllowed_write[of e agS agI res r] show ?thesis
    by (simp add: Evaluate_def reads_def writes_def permitted_def)
next
  case OperationReadWrite
  with assms obtain rr where rr: "evaluateRead e agS agI res = Return rr"
    by (auto simp: Evaluate_def bind_go_Return_iff)
  show ?thesis
  proof (cases "IsAllowed rr")
    case False
    with assms OperationReadWrite rr IsAllowed_read[OF rr] show ?thesis
      by (auto simp: Evaluate_def reads_def permitted_def split: if_splits)
  next
    case True
    with assms OperationReadWrite rr obtain wr where wr: "evaluateWrite e agS agI res = Return wr"
      by (auto simp: Evaluate_def bind_go_Return_iff)
    with True assms OperationReadWrite rr have "r = (if IsAllowed wr then newEmptyEvaluationResult else wr)"
      by (simp add: Evaluate_def split: if_splits)
    with True OperationReadWrite IsAllowed_read[OF rr] IsAllowed_write[OF wr] show ?thesis
      by (auto simp: reads_def writes_def permitted_def)
  qed
qed

lemma Evaluate_hard_denied:
  assumes "Evaluate e agS agI (Some res) op = Return r" and "MustDeny r"
  shows "\<not> IsAllowed r" and "reads op"
proof -
  have read: "hardDeny rr \<Longrightarrow> \<not> IsAllowed rr" if "evaluateRead e agS agI res = Return rr" for rr
    using evaluateRead_decision[OF that] by (auto simp: IsAllowed_def)
  have "\<not> IsAllowed r \<and> reads op"
    using assms read evaluateWrite_decision(2)
    by (cases op) (fastforce simp: Evaluate_def MustDeny_def reads_def bind_go_Return_iff
        newEmptyEvaluationResult_def split: if_splits)+
  then show "\<not> IsAllowed r" and "reads op" by auto
qed

text \<open>A denial of well-formed labels always has a report.\<close>

lemma FormatViolationError_Some:
  assumes "decision r \<noteq> AccessAllow" and "sl \<noteq> None" "il \<noteq> None" "secrecy res \<noteq> None" "integrity res \<noteq> None"
  shows "\<exists>msg. FormatViolationError r sl il res = Return (Some msg)"
proof -
  obtain a b c d where l: "sl = Some a" "il = Some b" "secrecy res = Some c" "integrity res = Some d"
    using assms(2-5) by auto
  show ?thesis
    by (simp only: FormatViolationError_def l assms(1) if_False prod.case option.case go.inject option.inject ex_simps
        simp_thms)
qed

section \<open>Collections\<close>

definition item_allowed :: "evaluator \<Rightarrow> flow_label \<Rightarrow> flow_label \<Rightarrow> operation \<Rightarrow> labeled_item \<Rightarrow> bool" where
  "item_allowed e agS agI op it \<longleftrightarrow>
     (case Evaluate e agS agI (item_labels it) op of Panic \<Rightarrow> False | Return r \<Rightarrow> IsAllowed r)"

lemma filter_loop_Panic_iff:
  "filter_loop e agS agI op its = Panic \<longleftrightarrow>
     (\<exists>it\<in>set its. Evaluate e agS agI (item_labels it) op = Panic)"
proof (induction its)
  case (Cons it its)
  then show ?case
    by (cases "Evaluate e agS agI (item_labels it) op")
       (auto simp: bind_go_Panic_iff split: if_splits)
qed simp

lemma filter_loop_Return:
  assumes "filter_loop e agS agI op its = Return (acc, fil)"
  shows "acc = filter (item_allowed e agS agI op) its"
    and "map filtered_item fil = filter (\<lambda>it. \<not> item_allowed e agS agI op it) its"
  using assms
proof (induction its arbitrary: acc fil)
  case (Cons it its)
  { case 1
    then show ?case using Cons.IH(1)
      by (auto simp: bind_go_Return_iff item_allowed_def split: if_splits) }
  { case 2
    then show ?case using Cons.IH(2)
      by (auto simp: bind_go_Return_iff item_allowed_def split: if_splits) }
qed simp_all

lemma FilterCollection_Panic_iff:
  "FilterCollection e agS agI c op = Panic \<longleftrightarrow>
     (\<exists>it\<in>set (items c). Evaluate e agS agI (item_labels it) op = Panic)"
  by (auto simp: FilterCollection_def bind_go_Panic_iff filter_loop_Panic_iff)

lemma FilterCollection_Return:
  assumes "FilterCollection e agS agI c op = Return f"
  shows "accessible f = filter (item_allowed e agS agI op) (items c)"
    and "map filtered_item (filtered f) = filter (\<lambda>it. \<not> item_allowed e agS agI op it) (items c)"
    and "total_count f = length (items c)"
  using assms filter_loop_Return[of e agS agI op "items c"]
  by (auto simp: FilterCollection_def bind_go_Return_iff)

lemma FilterCollection_counts:
  assumes "FilterCollection e agS agI c op = Return f"
  shows "GetAccessibleCount f + GetFilteredCount f = total_count f"
proof -
  note F = FilterCollection_Return[OF assms]
  have "length (filtered f) = length (filter (\<lambda>it. \<not> item_allowed e agS agI op it) (items c))"
    by (metis F(2) length_map)
  then show ?thesis
    by (simp add: GetAccessibleCount_def GetFilteredCount_def F sum_length_filter_compl)
qed

lemma item_allowed_permitted:
  assumes "Evaluate e agS agI (item_labels it) op \<noteq> Panic" and "mode e \<noteq> EnforcementPropagate"
    and "item_labels it = Some res"
  shows "item_allowed e agS agI op it \<longleftrightarrow> permitted op agS agI res"
proof -
  from assms(1) obtain r where r: "Evaluate e agS agI (Some res) op = Return r"
    using assms(3) by (cases "Evaluate e agS agI (Some res) op") auto
  from Evaluate_IsAllowed[OF this] r assms show ?thesis by (simp add: item_allowed_def)
qed

end
