(* ===== verification/Agent.thy ===== *)
theory Agent imports AccessControl begin

text \<open>
  \<open>internal/difc/agent.go\<close> and \<open>reflect.go\<close>: the labels of one agent, what reading does to
  them, and the registry of all agents. The registry maps agent IDs to pointers, and callers keep
  such a pointer across calls, so the model has a heap: \<open>agents\<close> maps IDs to references and
  \<open>cells\<close> holds the objects. An agent's two labels are never nil: every constructor installs
  fresh ones.
\<close>

record agent_labels =
  agentID :: string
  agSecrecy :: label
  agIntegrity :: label

definition agS :: "agent_labels \<Rightarrow> flow_label" where "agS a = Some (agSecrecy a)"
definition agI :: "agent_labels \<Rightarrow> flow_label" where "agI a = Some (agIntegrity a)"

lemma ftags_ag [simp]: "ftags (agS a) = tags_of (agSecrecy a)" "ftags (agI a) = tags_of (agIntegrity a)"
  by (simp_all add: agS_def agI_def)

lemma ag_nonnil [simp]: "agS a \<noteq> None" "agI a \<noteq> None"
  by (simp_all add: agS_def agI_def)

definition NewAgentLabels :: "string \<Rightarrow> agent_labels" where
  "NewAgentLabels aid = \<lparr>agentID = aid, agSecrecy = NewLabel, agIntegrity = NewLabel\<rparr>"

text \<open>\<open>NewSecrecyLabel(tags...)\<close> on an empty tag list is \<open>NewLabel\<close>, as in \<open>NewFlowLabel\<close>.\<close>

definition NewAgentLabelsWithTags :: "string \<Rightarrow> tag list \<Rightarrow> tag list \<Rightarrow> agent_labels" where
  "NewAgentLabelsWithTags aid secrecyTags integrityTags =
     \<lparr>agentID = aid,
      agSecrecy = the (NewFlowLabel secrecyTags),
      agIntegrity = the (NewFlowLabel integrityTags)\<rparr>"

definition AddSecrecyTag :: "tag \<Rightarrow> agent_labels \<Rightarrow> agent_labels" where
  "AddSecrecyTag t a = a\<lparr>agSecrecy := lab_Add t (agSecrecy a)\<rparr>"

definition AddIntegrityTag :: "tag \<Rightarrow> agent_labels \<Rightarrow> agent_labels" where
  "AddIntegrityTag t a = a\<lparr>agIntegrity := lab_Add t (agIntegrity a)\<rparr>"

definition DropIntegrityTag :: "tag \<Rightarrow> agent_labels \<Rightarrow> agent_labels" where
  "DropIntegrityTag t a = a\<lparr>agIntegrity := lab_Remove t (agIntegrity a)\<rparr>"

definition DropIntegrityTags :: "tag list \<Rightarrow> agent_labels \<Rightarrow> agent_labels" where
  "DropIntegrityTags ts a = a\<lparr>agIntegrity := lab_RemoveAll ts (agIntegrity a)\<rparr>"

definition AddSecrecyTags :: "tag list \<Rightarrow> agent_labels \<Rightarrow> agent_labels" where
  "AddSecrecyTags ts a = a\<lparr>agSecrecy := lab_AddAll ts (agSecrecy a)\<rparr>"

definition AddIntegrityTags :: "tag list \<Rightarrow> agent_labels \<Rightarrow> agent_labels" where
  "AddIntegrityTags ts a = a\<lparr>agIntegrity := lab_AddAll ts (agIntegrity a)\<rparr>"

text \<open>\<open>ApplyPropagation\<close>: the flag tells whether anything was changed.\<close>

definition ApplyPropagation :: "evaluation_result option \<Rightarrow> agent_labels \<Rightarrow> bool \<times> agent_labels" where
  "ApplyPropagation result a =
     (case result of
        None \<Rightarrow> (False, a)
      | Some r \<Rightarrow>
          (if \<not> RequiresPropagation r then (False, a)
           else
             (let (c1, a1) = (if secrecyToAdd r \<noteq> [] then (True, AddSecrecyTags (secrecyToAdd r) a) else (False, a));
                  (c2, a2) = (if integrityToDrop r \<noteq> [] then (True, DropIntegrityTags (integrityToDrop r) a1) else (c1, a1))
              in (c2, a2))))"

text \<open>\<open>AccumulateFromRead\<close>: secrecy by union, integrity by intersection; a nil resource panics.\<close>

definition AccumulateFromRead :: "labeled_resource option \<Rightarrow> agent_labels \<Rightarrow> agent_labels go" where
  "AccumulateFromRead resource a =
     (case resource of
        None \<Rightarrow> Panic
      | Some res \<Rightarrow>
          (let a1 = (case secrecy res of
                       None \<Rightarrow> a
                     | Some l \<Rightarrow> if lab_IsEmpty l then a else a\<lparr>agSecrecy := lab_Union (Some l) (agSecrecy a)\<rparr>);
               a2 = (case integrity res of
                       None \<Rightarrow> a1
                     | Some l \<Rightarrow> a1\<lparr>agIntegrity := lab_Intersect (Some l) (agIntegrity a1)\<rparr>)
           in Return a2))"

definition agent_Clone :: "agent_labels \<Rightarrow> agent_labels" where
  "agent_Clone a = \<lparr>agentID = agentID a, agSecrecy = cloneLabelOrNew (Some (agSecrecy a)),
                    agIntegrity = cloneLabelOrNew (Some (agIntegrity a))\<rparr>"

definition getTagsLocked :: "label option \<Rightarrow> tag list" where
  "getTagsLocked l = (case l of None \<Rightarrow> [] | Some x \<Rightarrow> lab_GetTags x)"

definition GetSecrecyTags :: "agent_labels \<Rightarrow> tag list" where
  "GetSecrecyTags a = getTagsLocked (Some (agSecrecy a))"

definition GetIntegrityTags :: "agent_labels \<Rightarrow> tag list" where
  "GetIntegrityTags a = getTagsLocked (Some (agIntegrity a))"

section \<open>What reading does to the labels\<close>

lemma agent_New_tags [simp]:
  "tags_of (agSecrecy (NewAgentLabelsWithTags aid s i)) = set s"
  "tags_of (agIntegrity (NewAgentLabelsWithTags aid s i)) = set i"
  "agentID (NewAgentLabelsWithTags aid s i) = aid"
  by (simp_all add: NewAgentLabelsWithTags_def NewFlowLabel_def)

lemma AccumulateFromRead_Return:
  assumes "AccumulateFromRead (Some res) a = Return a'"
  shows "tags_of (agSecrecy a') = tags_of (agSecrecy a) \<union> ftags (secrecy res)"
    and "tags_of (agIntegrity a') =
      (if integrity res = None then tags_of (agIntegrity a) else tags_of (agIntegrity a) \<inter> ftags (integrity res))"
    and "agentID a' = agentID a"
  using assms by (auto simp: AccumulateFromRead_def Let_def split: option.splits if_splits)

lemma AccumulateFromRead_total: "\<exists>a'. AccumulateFromRead (Some res) a = Return a'"
  by (simp add: AccumulateFromRead_def Let_def)

text \<open>An agent that is tainted may read what it could not before, and may write less.\<close>

definition no_cleaner :: "agent_labels \<Rightarrow> agent_labels \<Rightarrow> bool" where
  "no_cleaner a b \<longleftrightarrow> tags_of (agSecrecy a) \<subseteq> tags_of (agSecrecy b) \<and>
     tags_of (agIntegrity b) \<subseteq> tags_of (agIntegrity a)"

lemma no_cleaner_refl [simp]: "no_cleaner a a"
  by (simp add: no_cleaner_def)

lemma no_cleaner_trans: "no_cleaner a b \<Longrightarrow> no_cleaner b c \<Longrightarrow> no_cleaner a c"
  by (auto simp: no_cleaner_def)

lemma AccumulateFromRead_no_cleaner:
  "AccumulateFromRead (Some res) a = Return a' \<Longrightarrow> no_cleaner a a'"
  by (auto simp: no_cleaner_def AccumulateFromRead_Return)

lemma ApplyPropagation_tags:
  assumes "ApplyPropagation (Some r) a = (c, a')" and "RequiresPropagation r"
  shows "tags_of (agSecrecy a') = tags_of (agSecrecy a) \<union> set (secrecyToAdd r)"
    and "tags_of (agIntegrity a') = tags_of (agIntegrity a) - set (integrityToDrop r)"
    and "c \<longleftrightarrow> secrecyToAdd r \<noteq> [] \<or> integrityToDrop r \<noteq> []"
  using assms
  by (auto simp: ApplyPropagation_def AddSecrecyTags_def DropIntegrityTags_def split: if_splits)

lemma ApplyPropagation_no_cleaner: "no_cleaner a (snd (ApplyPropagation r a))"
  by (auto simp: ApplyPropagation_def no_cleaner_def AddSecrecyTags_def DropIntegrityTags_def
      split: option.splits)

text \<open>Applying what the evaluator asked for makes the read satisfy the strict policy.\<close>

lemma ApplyPropagation_permits:
  assumes eval: "evaluateRead e (agS a) (agI a) res = Return r"
    and req: "RequiresPropagation r"
    and app: "ApplyPropagation (Some r) a = (c, a')"
  shows "read_permitted (agS a') (agI a') res"
proof -
  have d: "decision r = AccessAllowWithPropagate" using req by (simp add: RequiresPropagation_def)
  with evaluateRead_decision(1)[OF eval]
  have m: "mode e = EnforcementPropagate" "within_max e res" "\<not> blocked res"
    by (auto split: if_splits)
  have add: "set (secrecyToAdd r) = set (snd (CheckFlow secrecyKind (secrecy res) (agS a)))"
    and drop: "set (integrityToDrop r) = set (snd (CheckFlow integrityKind (integrity res) (agI a)))"
    using evaluateRead_tags(1)[OF eval _ m(3) m(1)] m by auto
  have "secrecy_cleared (agS a') res"
    using ApplyPropagation_tags(1)[OF app req] add
      CheckFlow_violations[of secrecyKind "secrecy res" "agS a"]
    by (auto simp: secrecy_cleared_def flows_within_def CanFlowTo_iff flow_gap_def split: if_splits)
  moreover have "integrity_trusted (agI a') res"
    using ApplyPropagation_tags(2)[OF app req] drop
      CheckFlow_violations[of integrityKind "integrity res" "agI a"]
    by (auto simp: integrity_trusted_def flows_within_def CanFlowTo_iff flow_gap_def split: if_splits)
  ultimately show ?thesis using m(3) by (simp add: read_permitted_def)
qed

lemma AccumulateFromRead_permits:
  assumes "AccumulateFromRead (Some res) a = Return a'" and "integrity res \<noteq> None" and "\<not> blocked res"
  shows "read_permitted (agS a') (agI a') res"
  using assms AccumulateFromRead_Return[OF assms(1)]
  by (auto simp: read_permitted_def secrecy_cleared_def integrity_trusted_def flows_within_def)

lemma write_antimono:
  assumes "no_cleaner a b" and "write_permitted (agS b) (agI b) res"
    and "WildcardTag \<notin> tags_of (agIntegrity b)"
  shows "write_permitted (agS a) (agI a) res"
  using assms by (auto simp: no_cleaner_def write_permitted_def flows_within_def)

end
