(* ===== verification/AgentRegistry.thy ===== *)
theory AgentRegistry imports Agent begin

text \<open>
  The \<open>AgentRegistry\<close> of \<open>internal/difc/agent.go\<close>, \<open>NewComponents\<close> of \<open>evaluator.go\<close> and
  \<open>reflect.go\<close>. The registry maps agent IDs to pointers, and a request keeps the pointer it was
  given while other requests run; so the model has a heap: \<open>agents\<close> maps IDs to references
  (indices into \<open>heap\<close>) and every label operation goes through a reference.
\<close>

type_synonym agent_ref = nat

record agent_registry =
  agents :: "(string, agent_ref) registry"
  heap :: "agent_labels list"
  defaultSecrecy :: "tag list"
  defaultIntegrity :: "tag list"

definition NewAgentRegistryWithDefaults :: "tag list \<Rightarrow> tag list \<Rightarrow> agent_registry" where
  "NewAgentRegistryWithDefaults s i =
     \<lparr>agents = NewRegistry, heap = [], defaultSecrecy = s, defaultIntegrity = i\<rparr>"

definition NewAgentRegistry :: agent_registry where
  "NewAgentRegistry = NewAgentRegistryWithDefaults [] []"

text \<open>The closure that \<open>GetOrCreate\<close> passes allocates the new labels.\<close>

definition new_agent :: "string \<Rightarrow> tag list \<Rightarrow> tag list \<Rightarrow> agent_labels list \<Rightarrow> agent_ref \<times> agent_labels list" where
  "new_agent aid s i h = (length h, h @ [NewAgentLabelsWithTags aid s i])"

definition ar_GetOrCreate :: "string \<Rightarrow> agent_registry \<Rightarrow> agent_ref \<times> agent_registry" where
  "ar_GetOrCreate aid r =
     (let (ref, reg, h) =
        reg_GetOrCreate aid (new_agent aid (defaultSecrecy r) (defaultIntegrity r)) (agents r) (heap r)
      in (ref, r\<lparr>agents := reg, heap := h\<rparr>))"

definition ar_Get :: "agent_registry \<Rightarrow> string \<Rightarrow> agent_ref option" where
  "ar_Get r aid = reg_Get (agents r) aid"

definition ar_Register :: "string \<Rightarrow> tag list \<Rightarrow> tag list \<Rightarrow> agent_registry \<Rightarrow> agent_ref \<times> agent_registry" where
  "ar_Register aid s i r =
     (let (ref, h) = new_agent aid s i (heap r)
      in (ref, r\<lparr>agents := reg_Set aid ref (agents r), heap := h\<rparr>))"

definition ar_Remove :: "string \<Rightarrow> agent_registry \<Rightarrow> agent_registry" where
  "ar_Remove aid r = r\<lparr>agents := reg_Remove aid (agents r)\<rparr>"

definition ar_Count :: "agent_registry \<Rightarrow> nat" where
  "ar_Count r = reg_Len (agents r)"

definition GetAllAgentIDs :: "agent_registry \<Rightarrow> string list" where
  "GetAllAgentIDs r = reg_Keys (agents r)"

definition SetDefaultLabels :: "tag list \<Rightarrow> tag list \<Rightarrow> agent_registry \<Rightarrow> agent_registry" where
  "SetDefaultLabels s i r = r\<lparr>defaultSecrecy := s, defaultIntegrity := i\<rparr>"

text \<open>A method call through a pointer.\<close>

definition on_agent :: "(agent_labels \<Rightarrow> agent_labels) \<Rightarrow> agent_ref \<Rightarrow> agent_registry \<Rightarrow> agent_registry" where
  "on_agent f ref r = r\<lparr>heap := (heap r)[ref := f (heap r ! ref)]\<rparr>"

section \<open>The component set and the reflect endpoint\<close>

record difc_components =
  c_Mode :: enforcement_mode
  c_AgentRegistry :: "agent_registry option"
  c_Capabilities :: capabilities
  c_Evaluator :: evaluator

text \<open>The second component is the parse error, reported next to the default components.\<close>

definition NewComponents :: "string \<Rightarrow> enforcement_mode \<Rightarrow> difc_components \<times> mode_error option" where
  "NewComponents modeStr defaultMode =
     (let (m, err) =
        (if modeStr \<noteq> []
         then (case ParseEnforcementMode modeStr of
                 Inl e \<Rightarrow> (defaultMode, Some e)
               | Inr parsed \<Rightarrow> (parsed, None))
         else (defaultMode, None))
      in (\<lparr>c_Mode = m, c_AgentRegistry = Some (NewAgentRegistryWithDefaults [] []),
           c_Capabilities = NewCapabilities, c_Evaluator = NewEvaluatorWithMode m\<rparr>, err))"

record reflected_labels =
  r_Secrecy :: "string list"
  r_Integrity :: "string list"

record reflect_response =
  r_Agents :: "(string \<times> reflected_labels) list"
  r_Mode :: string
  r_Timestamp :: string

fun reflect_loop :: "agent_registry \<Rightarrow> string list \<Rightarrow> (string \<times> reflected_labels) list \<Rightarrow> (string \<times> reflected_labels) list" where
  "reflect_loop r [] out = out"
| "reflect_loop r (aid # ids) out =
     (case ar_Get r aid of
        None \<Rightarrow> reflect_loop r ids out
      | Some ref \<Rightarrow>
          (let a = heap r ! ref
           in reflect_loop r ids (AList.update aid
                \<lparr>r_Secrecy = sort (TagsToStrings (GetSecrecyTags a)),
                 r_Integrity = sort (TagsToStrings (GetIntegrityTags a))\<rparr> out)))"

text \<open>The formatted current time is an argument.\<close>

definition BuildReflectResponse :: "difc_components \<Rightarrow> string \<Rightarrow> reflect_response" where
  "BuildReflectResponse c now =
     \<lparr>r_Agents = (case c_AgentRegistry c of
                    None \<Rightarrow> []
                  | Some r \<Rightarrow> reflect_loop r (GetAllAgentIDs r) []),
      r_Mode = mode_String (c_Mode c), r_Timestamp = now\<rparr>"

section \<open>The invariant\<close>

text \<open>Every registered reference is allocated and leads to the labels of its own agent.\<close>

definition ar_ok :: "agent_registry \<Rightarrow> bool" where
  "ar_ok r \<longleftrightarrow> reg_ok (agents r) \<and>
     (\<forall>aid ref. ar_Get r aid = Some ref \<longrightarrow> ref < length (heap r) \<and> agentID (heap r ! ref) = aid)"

text \<open>The labels registered for an agent, if any.\<close>

definition labels_of :: "agent_registry \<Rightarrow> string \<Rightarrow> agent_labels option" where
  "labels_of r aid = map_option (\<lambda>ref. heap r ! ref) (ar_Get r aid)"

lemma ar_ok_New [keeps, simp]: "ar_ok (NewAgentRegistryWithDefaults s i)"
  by (simp add: ar_ok_def NewAgentRegistryWithDefaults_def ar_Get_def)

lemma ar_GetOrCreate_hit:
  "ar_Get r aid = Some ref \<Longrightarrow> ar_GetOrCreate aid r = (ref, r)"
  by (simp add: ar_Get_def ar_GetOrCreate_def reg_GetOrCreate_hit)

lemma ar_GetOrCreate_miss:
  "ar_Get r aid = None \<Longrightarrow>
     ar_GetOrCreate aid r =
       (length (heap r),
        r\<lparr>agents := reg_Set aid (length (heap r)) (agents r),
          heap := heap r @ [NewAgentLabelsWithTags aid (defaultSecrecy r) (defaultIntegrity r)]\<rparr>)"
  by (simp add: ar_Get_def ar_GetOrCreate_def reg_GetOrCreate_miss new_agent_def)

lemma ar_alloc_ok:
  assumes "ar_ok r" and "agentID a = aid"
  shows "ar_ok (r\<lparr>agents := reg_Set aid (length (heap r)) (agents r), heap := heap r @ [a]\<rparr>)"
  using assms
  by (auto simp: ar_ok_def ar_Get_def reg.invar_store reg.lookup_store nth_append less_Suc_eq)

lemma ar_GetOrCreate_ok [keeps]: "ar_ok r \<Longrightarrow> ar_ok (snd (ar_GetOrCreate aid r))"
  by (cases "ar_Get r aid")
     (simp_all add: ar_GetOrCreate_hit ar_GetOrCreate_miss ar_alloc_ok)

lemma ar_Register_ok [keeps]: "ar_ok r \<Longrightarrow> ar_ok (snd (ar_Register aid s i r))"
  by (simp add: ar_Register_def new_agent_def ar_alloc_ok)

lemma ar_Remove_ok [keeps]: "ar_ok r \<Longrightarrow> ar_ok (ar_Remove aid r)"
  by (auto simp: ar_ok_def ar_Get_def ar_Remove_def reg.invar_drop reg.lookup_drop split: if_splits)

lemma SetDefaultLabels_ok [keeps]: "ar_ok r \<Longrightarrow> ar_ok (SetDefaultLabels s i r)"
  by (auto simp: ar_ok_def ar_Get_def SetDefaultLabels_def)

lemma length_heap_on_agent [simp]: "length (heap (on_agent f ref r)) = length (heap r)"
  by (simp add: on_agent_def)

lemma ar_Get_on_agent [simp]: "ar_Get (on_agent f ref r) = ar_Get r"
  by (simp add: ar_Get_def on_agent_def fun_eq_iff)

lemma heap_on_agent:
  "heap (on_agent f ref r) ! k = (if k = ref \<and> ref < length (heap r) then f (heap r ! ref) else heap r ! k)"
  by (cases "k = ref") (simp_all add: on_agent_def list_update_beyond)

lemma on_agent_ok [keeps]:
  assumes "ar_ok r" and "\<And>a. agentID (f a) = agentID a"
  shows "ar_ok (on_agent f ref r)"
proof -
  have "agents (on_agent f ref r) = agents r" "length (heap (on_agent f ref r)) = length (heap r)"
    by (simp_all add: on_agent_def)
  with assms show ?thesis by (auto simp: ar_ok_def heap_on_agent)
qed

lemma ar_GetOrCreate_registered:
  assumes "ar_ok r" and "ar_GetOrCreate aid r = (ref, r')"
  shows "ar_Get r' aid = Some ref" and "ref < length (heap r')"
    and "labels_of r' aid = Some (case labels_of r aid of Some a \<Rightarrow> a
           | None \<Rightarrow> NewAgentLabelsWithTags aid (defaultSecrecy r) (defaultIntegrity r))"
    and "aid' \<noteq> aid \<Longrightarrow> labels_of r' aid' = labels_of r aid'"
proof -
  have reg: "reg_ok (agents r)"
    and refs: "\<And>x k. reg_Get (agents r) x = Some k \<Longrightarrow> k < length (heap r)"
    using assms(1) by (auto simp: ar_ok_def ar_Get_def)
  have "ar_Get r' aid = Some ref \<and> ref < length (heap r') \<and>
    labels_of r' aid = Some (case labels_of r aid of Some a \<Rightarrow> a
           | None \<Rightarrow> NewAgentLabelsWithTags aid (defaultSecrecy r) (defaultIntegrity r))"
  proof (cases "ar_Get r aid")
    case None
    with assms(2) have "ref = length (heap r)" and r': "r' = r\<lparr>agents := reg_Set aid (length (heap r)) (agents r),
          heap := heap r @ [NewAgentLabelsWithTags aid (defaultSecrecy r) (defaultIntegrity r)]\<rparr>"
      by (auto simp: ar_GetOrCreate_miss)
    with None show ?thesis by (simp add: ar_Get_def labels_of_def reg.lookup_store[OF reg])
  next
    case (Some k)
    with assms(2) refs[of aid k] show ?thesis
      by (simp add: ar_GetOrCreate_hit labels_of_def ar_Get_def)
  qed
  then show "ar_Get r' aid = Some ref" and "ref < length (heap r')"
    and "labels_of r' aid = Some (case labels_of r aid of Some a \<Rightarrow> a
           | None \<Rightarrow> NewAgentLabelsWithTags aid (defaultSecrecy r) (defaultIntegrity r))"
    by blast+
  show "labels_of r' aid' = labels_of r aid'" if "aid' \<noteq> aid"
  proof (cases "ar_Get r aid")
    case None
    with assms(2) that show ?thesis
      by (cases "reg_Get (agents r) aid'")
         (auto simp: ar_GetOrCreate_miss labels_of_def ar_Get_def reg.lookup_store[OF reg] nth_append dest: refs)
  next
    case (Some k)
    with assms(2) show ?thesis by (simp add: ar_GetOrCreate_hit)
  qed
qed

text \<open>Different agents never share an object: what one reads does not taint another.\<close>

lemma ar_refs_inject:
  "ar_ok r \<Longrightarrow> ar_Get r a = Some ref \<Longrightarrow> ar_Get r b = Some ref \<Longrightarrow> a = b"
  by (auto simp: ar_ok_def)

lemma on_agent_other:
  "ar_ok r \<Longrightarrow> ar_Get r a = Some ref \<Longrightarrow> b \<noteq> a \<Longrightarrow> labels_of (on_agent f ref r) b = labels_of r b"
  using ar_refs_inject[of r a ref b]
  by (cases "ar_Get r b") (auto simp: labels_of_def heap_on_agent)

lemma on_agent_same:
  "ar_ok r \<Longrightarrow> ar_Get r a = Some ref \<Longrightarrow> labels_of (on_agent f ref r) a = map_option f (labels_of r a)"
  by (auto simp: labels_of_def heap_on_agent ar_ok_def)

section \<open>Requests against the registry\<close>

text \<open>
  The steps that serving requests takes. A read or a propagation goes through the reference
  the request was given earlier, which may be stale by now. A call that panics changes nothing.
\<close>

datatype registry_op =
    GetOrCreateOp string
  | RegisterOp string "tag list" "tag list"
  | RemoveOp string
  | SetDefaultsOp "tag list" "tag list"
  | ReadOp agent_ref "labeled_resource option"
  | PropagateOp agent_ref "evaluation_result option"

definition read_labels :: "labeled_resource option \<Rightarrow> agent_labels \<Rightarrow> agent_labels" where
  "read_labels res a = (case AccumulateFromRead res a of Panic \<Rightarrow> a | Return a' \<Rightarrow> a')"

fun registry_step :: "registry_op \<Rightarrow> agent_registry \<Rightarrow> agent_registry" where
  "registry_step (GetOrCreateOp aid) r = snd (ar_GetOrCreate aid r)"
| "registry_step (RegisterOp aid s i) r = snd (ar_Register aid s i r)"
| "registry_step (RemoveOp aid) r = ar_Remove aid r"
| "registry_step (SetDefaultsOp s i) r = SetDefaultLabels s i r"
| "registry_step (ReadOp ref res) r = on_agent (read_labels res) ref r"
| "registry_step (PropagateOp ref res) r = on_agent (\<lambda>a. snd (ApplyPropagation res a)) ref r"

lemma AccumulateFromRead_nil [simp]: "AccumulateFromRead None a = Panic"
  by (simp add: AccumulateFromRead_def)

lemma read_labels_no_cleaner: "no_cleaner a (read_labels res a)"
  by (cases res)
     (auto simp: read_labels_def AccumulateFromRead_no_cleaner split: go.split)

lemma read_labels_ID [simp]: "agentID (read_labels res a) = agentID a"
  by (cases res)
     (auto simp: read_labels_def AccumulateFromRead_Return(3) split: go.split)

lemma ApplyPropagation_ID [simp]: "agentID (snd (ApplyPropagation res a)) = agentID a"
  by (auto simp: ApplyPropagation_def AddSecrecyTags_def DropIntegrityTags_def split: option.split)

interpretation agent_steps: step_system registry_step ar_ok
proof unfold_locales
  fix r x assume "ar_ok r"
  then show "ar_ok (registry_step x r)"
    by (cases x) (auto intro: keeps)
qed

text \<open>
  Through a reference an agent's labels only get dirtier, whatever else happens in between; and
  so do the labels registered under an ID while nobody registers or removes that ID.
\<close>

lemma registry_step_heap:
  "ref < length (heap r) \<Longrightarrow>
     ref < length (heap (registry_step x r)) \<and> no_cleaner (heap r ! ref) (heap (registry_step x r) ! ref)"
proof (cases x)
  case (GetOrCreateOp aid)
  assume "ref < length (heap r)"
  with GetOrCreateOp show ?thesis
    by (cases "ar_Get r aid") (auto simp: ar_GetOrCreate_hit ar_GetOrCreate_miss nth_append)
qed (auto simp: ar_Register_def new_agent_def nth_append ar_Remove_def SetDefaultLabels_def heap_on_agent
      read_labels_no_cleaner ApplyPropagation_no_cleaner)

lemma registry_run_heap:
  "ref < length (heap r) \<Longrightarrow>
     ref < length (heap (fold registry_step xs r)) \<and>
     no_cleaner (heap r ! ref) (heap (fold registry_step xs r) ! ref)"
proof (induction xs arbitrary: r)
  case (Cons x xs)
  then show ?case
    using registry_step_heap[of ref r x] by (auto intro: no_cleaner_trans)
qed simp

fun replaces :: "string \<Rightarrow> registry_op \<Rightarrow> bool" where
  "replaces aid (RegisterOp a _ _) = (a = aid)"
| "replaces aid (RemoveOp a) = (a = aid)"
| "replaces aid _ = False"

lemma registry_step_Get:
  assumes "ar_ok r" and "ar_Get r aid = Some ref" and "\<not> replaces aid x"
  shows "ar_Get (registry_step x r) aid = Some ref"
proof (cases x)
  case (GetOrCreateOp a)
  with assms show ?thesis
    by (cases "ar_Get r a")
       (auto simp: ar_GetOrCreate_hit ar_GetOrCreate_miss ar_Get_def ar_ok_def reg.lookup_store)
qed (use assms in \<open>auto simp: ar_Register_def new_agent_def ar_Get_def ar_ok_def reg.lookup_store reg.lookup_drop
      ar_Remove_def SetDefaultLabels_def on_agent_def\<close>)

lemma registry_run_Get:
  "ar_ok r \<Longrightarrow> ar_Get r aid = Some ref \<Longrightarrow> list_all (\<lambda>x. \<not> replaces aid x) xs \<Longrightarrow>
     ar_Get (fold registry_step xs r) aid = Some ref"
proof (induction xs arbitrary: r)
  case (Cons x xs)
  then show ?case
    using registry_step_Get[of r aid ref x] agent_steps.step_ok[of r x] by simp
qed simp

section \<open>The reflect snapshot\<close>

definition reflected :: "agent_labels \<Rightarrow> reflected_labels" where
  "reflected a = \<lparr>r_Secrecy = sort (tag_list (agSecrecy a)), r_Integrity = sort (tag_list (agIntegrity a))\<rparr>"

lemma reflect_loop_map:
  "map_of (reflect_loop r ids out) aid =
     (if aid \<in> set ids \<and> labels_of r aid \<noteq> None then map_option reflected (labels_of r aid)
      else map_of out aid)"
  by (induction ids arbitrary: out)
     (auto simp: labels_of_def reflected_def Let_def TagsToStrings_def GetSecrecyTags_def
       GetIntegrityTags_def getTagsLocked_def lab_GetTags_def ts_getAll_def split: option.splits)

lemma BuildReflectResponse_agents:
  assumes "c_AgentRegistry c = Some r" and "ar_ok r"
  shows "map_of (r_Agents (BuildReflectResponse c now)) aid = map_option reflected (labels_of r aid)"
  using assms reg.in_key_list[of "agents r" aid]
  by (auto simp: BuildReflectResponse_def reflect_loop_map GetAllAgentIDs_def labels_of_def
      ar_Get_def ar_ok_def)

end
