(* ===== verification/McpResult.thy ===== *)
theory McpResult imports JsonPointer begin

text \<open>
  \<open>internal/mcpresult\<close>: the raw MCP tool result map, as the DIFC filter reads it. A Go map is
  its list of pairs; reading is \<open>map_of\<close>. The second accepted Go type of \<open>content\<close>,
  \<open>[]map[string]interface{}\<close>, is on JSON values the case that every element is an object.
\<close>

type_synonym json_object = "(string \<times> json) list"

definition IsErrorResult :: "json_object \<Rightarrow> bool" where
  "IsErrorResult result = (map_of result ''isError'' = Some (JBool True))"

fun as_object :: "json \<Rightarrow> json_object option" where
  "as_object (JObj fs) = Some fs"
| "as_object _ = None"

text \<open>A type assertion \<open>v, _ := m[key].(string)\<close>: the empty string when absent or not a string.\<close>

definition string_field :: "json_object \<Rightarrow> string \<Rightarrow> string" where
  "string_field m key = (case map_of m key of Some (JStr s) \<Rightarrow> s | _ \<Rightarrow> [])"

definition NormalizeContentItems :: "json \<Rightarrow> json_object list option" where
  "NormalizeContentItems contentVal =
     (case contentVal of JArr xs \<Rightarrow> Some (List.map_filter as_object xs) | _ \<Rightarrow> None)"

definition NonTextTypes :: "string list" where
  "NonTextTypes = [''image'', ''audio'', ''resource'']"

definition item_text :: "json_object \<Rightarrow> string" where
  "item_text item =
     (if string_field item ''type'' \<in> set NonTextTypes then [] else string_field item ''text'')"

definition ExtractTextContent :: "json_object \<Rightarrow> string" where
  "ExtractTextContent result =
     (case map_of result ''content'' of
        None \<Rightarrow> []
      | Some contentVal \<Rightarrow>
          (if contentVal = JNull then []
           else (case NormalizeContentItems contentVal of
                   None \<Rightarrow> []
                 | Some its \<Rightarrow> concat (map item_text its))))"

lemma NormalizeContentItems_objects:
  "NormalizeContentItems (JArr (map JObj its)) = Some its"
  by (simp add: NormalizeContentItems_def map_filter_def comp_def)

text \<open>The text of the single text block that the gateway itself writes.\<close>

lemma ExtractTextContent_single:
  assumes "map_of result ''content'' = Some (JArr [JObj [(''type'', JStr ''text''), (''text'', JStr t)]])"
  shows "ExtractTextContent result = t"
  using assms
  by (simp add: ExtractTextContent_def NormalizeContentItems_def map_filter_def item_text_def
      string_field_def NonTextTypes_def)

end
