(* ===== verification/PathCollections.thy ===== *)
theory PathCollections imports JsonPointer begin

text \<open>
  The pruning of \<open>internal/difc/path_collections.go\<close> and what it guarantees: the pruned
  document does not depend on anything below a denied path.
\<close>

function pruneJSONPaths :: "string list \<Rightarrow> string \<Rightarrow> json \<Rightarrow> json" where
  "pruneJSONPaths denied path (JObj fs) =
     (if path \<in> set denied then JNull
      else JObj (map (\<lambda>(key, child).
             (key, pruneJSONPaths denied (path @ ''/'' @ escapeJSONPointerToken key) child)) fs))"
| "pruneJSONPaths denied path (JArr xs) =
     (if path \<in> set denied then JNull
      else JArr (concat (map (\<lambda>(index, child).
             if path @ ''/'' @ itoa index \<in> set denied then []
             else [pruneJSONPaths denied (path @ ''/'' @ itoa index) child]) (enumerate 0 xs))))"
| "pruneJSONPaths denied path JNull = JNull"
| "pruneJSONPaths denied path (JBool b) = (if path \<in> set denied then JNull else JBool b)"
| "pruneJSONPaths denied path (JNum n) = (if path \<in> set denied then JNull else JNum n)"
| "pruneJSONPaths denied path (JStr s) = (if path \<in> set denied then JNull else JStr s)"
  by pat_completeness auto
termination
proof (relation "measure (\<lambda>(_, _, v). size v)", goal_cases)
  case (2 denied path fs z k c)
  then have "(k, c) \<in> set fs" by simp
  then have "size c < size (JObj fs)" by (induction fs) auto
  then show ?case by simp
next
  case (3 denied path xs z i c)
  then have "c \<in> set xs" by (auto simp: in_set_enumerate_eq)
  then have "size c < size (JArr xs)" by (induction xs) auto
  then show ?case using 3 by simp
qed auto

lemma prune_denied [simp]: "path \<in> set denied \<Longrightarrow> pruneJSONPaths denied path v = JNull"
  by (cases v) auto

text \<open>With nothing denied nothing changes.\<close>

lemma concat_enumerate_singletons: "concat (map (\<lambda>(i, c). [g c]) (enumerate n xs)) = map g xs"
  by (induction xs arbitrary: n) auto

lemma prune_nothing: "pruneJSONPaths [] path v = v"
proof (induction "[]::string list" path v rule: pruneJSONPaths.induct)
  case (1 path fs)
  then show ?case by (auto intro!: map_idI)
next
  case (2 path xs)
  have "concat (map (\<lambda>(i, c). [pruneJSONPaths [] (path @ ''/'' @ itoa i) c]) (enumerate 0 xs)) =
      concat (map (\<lambda>(i, c). [c]) (enumerate 0 xs))"
    using 2 by (intro arg_cong[where f = concat] map_cong) auto
  then show ?case using concat_enumerate_singletons[of "\<lambda>c. c" 0 xs] by simp
qed simp_all

section \<open>Noninterference\<close>

text \<open>Changing one member or one element leaves a mapped list alone when the images agree.\<close>

lemma map_pairs_update:
  assumes "map_of fs k = Some v" and "g k v' = g k v"
  shows "map (\<lambda>(a, c). (a, g a c)) (AList.update k v' fs) = map (\<lambda>(a, c). (a, g a c)) fs"
  using assms by (induction fs) (auto split: if_splits)

lemma concat_enumerate_update:
  assumes "i < length xs" and "h (n + i) v' = h (n + i) (xs ! i)"
  shows "concat (map (\<lambda>(a, c). h a c) (enumerate n (xs[i := v']))) =
    concat (map (\<lambda>(a, c). h a c) (enumerate n xs))"
  using assms
proof (induction xs arbitrary: i n)
  case (Cons x xs)
  then show ?case by (cases i) auto
qed simp

lemma escape_itoa [simp]: "escapeJSONPointerToken (itoa n) = itoa n"
proof -
  have "CHR ''~'' \<notin> set (itoa n)" "CHR ''/'' \<notin> set (itoa n)"
    by (rule itoa_no_sep; simp add: is_digit_def)+
  then have e: "map esc_char (itoa n) = map (\<lambda>c. [c]) (itoa n)" by (auto simp: esc_char_def)
  show ?thesis unfolding escape_concat e by (induction "itoa n") auto
qed

lemma join_pointer_Cons: "join_pointer (p # ps) = ''/'' @ escapeJSONPointerToken p @ join_pointer ps"
  by (simp add: join_pointer_def)

text \<open>
  The two stages of replacing at a path with at least one token: the head token selects a child,
  and the child is replaced or updated.
\<close>

lemma replace_at_child:
  assumes "replace_at pth data (p # ps) r = Inr data'"
    and "value_at True pth' data (p # ps) = Inr old"
  obtains fs v v' where "data = JObj fs" "map_of fs p = Some v" "data' = JObj (AList.update p v' fs)"
      "replace_at pth v ps r = Inr v'" "value_at True pth' v ps = Inr old"
    | xs i v' where "data = JArr xs" "p = itoa i" "i < length xs" "data' = JArr (xs[i := v'])"
      "replace_at pth (xs ! i) ps r = Inr v'" "value_at True pth' (xs ! i) ps = Inr old"
proof (cases data)
  case (JObj fs)
  with assms obtain v where v: "map_of fs p = Some v" "value_at True pth' v ps = Inr old"
    by (auto split: option.splits)
  with assms JObj obtain v' where "data' = JObj (AList.update p v' fs)" "replace_at pth v ps r = Inr v'"
    by (auto simp: overwrite_def map_sum_Inr_iff split: if_splits)
  with JObj v that(1) show ?thesis by blast
next
  case (JArr xs)
  with assms(2) obtain idx where idx: "atoi p = Some idx" "0 \<le> idx" "idx < int (length xs)"
      "p = itoa (nat idx)" "value_at True pth' (xs ! nat idx) ps = Inr old"
    by (auto split: option.splits if_splits)
  with assms JArr obtain v' where "data' = JArr (xs[nat idx := v'])" "replace_at pth (xs ! nat idx) ps r = Inr v'"
    by (auto simp: overwrite_def map_sum_Inr_iff split: if_splits)
  with JArr idx that(2)[of xs "nat idx" v'] show ?thesis by auto
qed (use assms in auto)

lemma prune_replace_denied:
  assumes "replace_at pth data parts r = Inr data'"
    and "value_at True pth' data parts = Inr old"
    and "path @ join_pointer parts \<in> set denied"
  shows "pruneJSONPaths denied path data' = pruneJSONPaths denied path data"
  using assms
proof (induction parts arbitrary: data data' path)
  case Nil
  then show ?case by (simp add: join_pointer_def)
next
  case (Cons p ps)
  show ?case
  proof (cases "path \<in> set denied")
    case False
    from Cons.prems(1,2) show ?thesis
    proof (cases rule: replace_at_child)
      case (1 fs v v')
      have "pruneJSONPaths denied (path @ ''/'' @ escapeJSONPointerToken p) v' =
          pruneJSONPaths denied (path @ ''/'' @ escapeJSONPointerToken p) v"
        using 1 Cons.prems(3) by (intro Cons.IH) (auto simp: join_pointer_Cons)
      with 1 False show ?thesis
        by (simp add: map_pairs_update[where g = "\<lambda>k. pruneJSONPaths denied (path @ CHR ''/'' # escapeJSONPointerToken k)"])
    next
      case (2 xs i v')
      have "pruneJSONPaths denied (path @ ''/'' @ itoa i) v' =
          pruneJSONPaths denied (path @ ''/'' @ itoa i) (xs ! i)"
        using 2 Cons.prems(3) by (intro Cons.IH) (auto simp: join_pointer_Cons)
      then have "concat (map (\<lambda>(a, c). if path @ ''/'' @ itoa a \<in> set denied then []
             else [pruneJSONPaths denied (path @ ''/'' @ itoa a) c]) (enumerate 0 (xs[i := v']))) =
          concat (map (\<lambda>(a, c). if path @ ''/'' @ itoa a \<in> set denied then []
             else [pruneJSONPaths denied (path @ ''/'' @ itoa a) c]) (enumerate 0 xs))"
        using 2 by (intro concat_enumerate_update) auto
      with 2 False show ?thesis by (simp only: pruneJSONPaths.simps if_False)
    qed
  qed simp
qed

text \<open>
  Two documents are alike outside the denied paths when one becomes the other by replacing, any
  number of times, what a denied pointer leads to.
\<close>

inductive alike_outside :: "string list \<Rightarrow> json \<Rightarrow> json \<Rightarrow> bool" for denied where
  same: "alike_outside denied v v"
| replaced: "alike_outside denied v w \<Longrightarrow> value_at True p w parts = Inr old \<Longrightarrow>
    join_pointer parts \<in> set denied \<Longrightarrow> replace_at p w parts r = Inr w' \<Longrightarrow> alike_outside denied v w'"

lemma prune_alike_outside: "alike_outside denied v w \<Longrightarrow> pruneJSONPaths denied [] w = pruneJSONPaths denied [] v"
  by (induction rule: alike_outside.induct) (auto dest: prune_replace_denied[where path = "[]"])

end
