(* ===== verification/PathLabels.thy ===== *)
theory PathLabels imports Resource McpResult PathCollections begin

text \<open>
  \<open>internal/difc/path_labels.go\<close> and the resolution and rebuilding half of
  \<open>path_collections.go\<close>: a guard names JSON pointers into a response together with labels; the
  gateway resolves them to labelled items and later rebuilds the response without the denied
  ones. \<open>json.Unmarshal\<close> and \<open>json.Marshal\<close> are the arguments \<open>unmarshal\<close> and \<open>marshal\<close>
  (None an error). \<open>ItemsPaths\<close> is None when the Go slice is nil.
\<close>

record path_entry =
  pe_Description :: string
  pe_Secrecy :: "string list"
  pe_Integrity :: "string list"

record path_label =
  pl_Path :: string
  pl_Labels :: path_entry

record path_labels =
  LabeledPaths :: "path_label list"
  DefaultLabels :: "path_entry option"
  ItemsPath :: string
  ItemsPaths :: "string list option"

record path_labeled_data =
  p_OriginalData :: json
  p_UnwrappedData :: json
  p_IsMCPWrapped :: bool
  p_PathLabels :: path_labels
  p_resolvedItems :: "labeled_item list"

datatype resolve_error =
    BadLabelPath string
  | BadCollectionPath string
  | OverlappingPaths string string
  | ExtractFailed path_error
  | MissingLabels string

definition unwrapMCPResponse :: "(string \<Rightarrow> json option) \<Rightarrow> json \<Rightarrow> json \<times> bool" where
  "unwrapMCPResponse unmarshal data =
     (case data of
        JObj dataMap \<Rightarrow>
          (let text = ExtractTextContent dataMap;
               inner = (if text \<noteq> [] then unmarshal text else None)
           in case inner of
                Some v \<Rightarrow> (v, True)
              | None \<Rightarrow>
                  (case map_of dataMap ''structuredContent'' of
                     Some s \<Rightarrow> if s \<noteq> JNull then (s, True) else (data, False)
                   | None \<Rightarrow> (data, False)))
      | _ \<Rightarrow> (data, False))"

definition pathEntryToResource :: "path_entry option \<Rightarrow> labeled_resource" where
  "pathEntryToResource entry =
     (case entry of
        None \<Rightarrow> NewLabeledResource ''unlabeled''
      | Some e \<Rightarrow>
          \<lparr>description = pe_Description e,
           secrecy = Some (fold lab_Add (pe_Secrecy e) NewLabel),
           integrity = Some (fold lab_Add (pe_Integrity e) NewLabel)\<rparr>)"

definition extractValueAtPath :: "path_labels \<Rightarrow> json \<Rightarrow> string \<Rightarrow> path_error + json" where
  "extractValueAtPath pl unwrapped path =
     value_at (ItemsPaths pl \<noteq> None) path unwrapped (splitJSONPointer path)"

text \<open>The result None is Go's nil slice: the data is not a collection.\<close>

definition extractItemsAtPath :: "path_labels \<Rightarrow> json \<Rightarrow> string \<Rightarrow> path_error + json list option" where
  "extractItemsAtPath pl unwrapped path =
     (if path = [] then Inr (case unwrapped of JArr xs \<Rightarrow> Some xs | _ \<Rightarrow> None)
      else
        (case extractValueAtPath pl unwrapped path of
           Inl e \<Rightarrow> Inl e
         | Inr current \<Rightarrow>
             (case current of JArr xs \<Rightarrow> Inr (Some xs) | _ \<Rightarrow> Inl (NotAnArray path))))"

definition with_slash :: "string \<Rightarrow> string" where
  "with_slash p = (if prefix ''/'' p then p else ''/'' @ p)"

definition extractIndexFromPath :: "string \<Rightarrow> string \<Rightarrow> int option" where
  "extractIndexFromPath path0 itemsPath0 =
     (let path = with_slash path0;
          itemsPath = (if itemsPath0 = [] then [] else with_slash itemsPath0);
          remainder = (if itemsPath = [] then Some path
                       else if prefix (itemsPath @ ''/'') path then Some (trim_prefix itemsPath path)
                       else None)
      in case remainder of
           None \<Rightarrow> None
         | Some r \<Rightarrow>
             (case splitJSONPointer r of [] \<Rightarrow> None | part # _ \<Rightarrow> atoi part))"

section \<open>Resolving: the single collection\<close>

text \<open>Paths without an index are skipped; a later label for the same index wins.\<close>

fun index_labels :: "string \<Rightarrow> path_label list \<Rightarrow> (int \<times> path_entry) list \<Rightarrow> (int \<times> path_entry) list" where
  "index_labels itemsPath [] m = m"
| "index_labels itemsPath (pl # pls) m =
     (case extractIndexFromPath (pl_Path pl) itemsPath of
        None \<Rightarrow> index_labels itemsPath pls m
      | Some idx \<Rightarrow> index_labels itemsPath pls (AList.update idx (pl_Labels pl) m))"

definition resolve_single :: "path_labels \<Rightarrow> json \<Rightarrow> json \<Rightarrow> resolve_error + labeled_item list" where
  "resolve_single pl original unwrapped =
     (case extractItemsAtPath pl unwrapped (ItemsPath pl) of
        Inl e \<Rightarrow> Inl (ExtractFailed e)
      | Inr None \<Rightarrow>
          Inr [\<lparr>item_data = original, item_labels = Some (pathEntryToResource (DefaultLabels pl)), item_path = []\<rparr>]
      | Inr (Some its) \<Rightarrow>
          (let indexLabels = index_labels (ItemsPath pl) (LabeledPaths pl) []
           in Inr (map (\<lambda>(i, item).
                \<lparr>item_data = item,
                 item_labels = Some (pathEntryToResource
                   (case map_of indexLabels (int i) of Some e \<Rightarrow> Some e | None \<Rightarrow> DefaultLabels pl)),
                 item_path = []\<rparr>) (enumerate 0 its))))"

section \<open>Resolving: several collections\<close>

fun collect_labels :: "path_label list \<Rightarrow> (string \<times> path_entry) list \<Rightarrow> resolve_error + (string \<times> path_entry) list" where
  "collect_labels [] m = Inr m"
| "collect_labels (l # ls) m =
     (if canonical_pointer (pl_Path l) \<noteq> pl_Path l \<or> map_of m (pl_Path l) \<noteq> None
      then Inl (BadLabelPath (pl_Path l))
      else collect_labels ls (AList.update (pl_Path l) (pl_Labels l) m))"

fun check_collection_paths :: "string list \<Rightarrow> string list \<Rightarrow> resolve_error option" where
  "check_collection_paths seen [] = None"
| "check_collection_paths seen (p # ps) =
     (if \<not> prefix ''/'' p \<or> canonical_pointer p \<noteq> p \<or> p \<in> set seen
      then Some (BadCollectionPath p)
      else check_collection_paths (p # seen) ps)"

text \<open>\<open>ancestor[:strings.LastIndex(ancestor, "/")]\<close> while the index is positive.\<close>

definition parent_path :: "string \<Rightarrow> string option" where
  "parent_path p =
     (case last_index CHR ''/'' p of
        Some i \<Rightarrow> if i > 0 then Some (take i p) else None
      | None \<Rightarrow> None)"

function seen_ancestor :: "string list \<Rightarrow> string \<Rightarrow> string option" where
  "seen_ancestor seen p =
     (case parent_path p of
        None \<Rightarrow> None
      | Some a \<Rightarrow> if a \<in> set seen then Some a else seen_ancestor seen a)"
  by pat_completeness auto
termination
  by (relation "measure (\<lambda>(_, p). length p)")
     (auto simp: parent_path_def dest: last_index_less split: option.splits if_splits)

declare seen_ancestor.simps [simp del]

fun label_items ::
  "path_entry option \<Rightarrow> string \<Rightarrow> nat \<Rightarrow> json list \<Rightarrow> (string \<times> path_entry) list \<Rightarrow> labeled_item list \<Rightarrow>
   resolve_error + (string \<times> path_entry) list \<times> labeled_item list" where
  "label_items dflt path index [] labels acc = Inr (labels, acc)"
| "label_items dflt path index (item # rest) labels acc =
     (let itemPath = path @ ''/'' @ itoa index;
          entry = (case map_of labels itemPath of Some e \<Rightarrow> Some e | None \<Rightarrow> dflt)
      in if entry = None then Inl (MissingLabels itemPath)
         else label_items dflt path (Suc index) rest (AList.delete itemPath labels)
                (acc @ [\<lparr>item_data = item, item_labels = Some (pathEntryToResource entry),
                         item_path = itemPath\<rparr>]))"

fun label_collections ::
  "path_labels \<Rightarrow> json \<Rightarrow> string list \<Rightarrow> string list \<Rightarrow> (string \<times> path_entry) list \<Rightarrow> labeled_item list \<Rightarrow>
   resolve_error + (string \<times> path_entry) list \<times> labeled_item list" where
  "label_collections pl unwrapped seen [] labels acc = Inr (labels, acc)"
| "label_collections pl unwrapped seen (path # paths) labels acc =
     (case seen_ancestor seen path of
        Some a \<Rightarrow> Inl (OverlappingPaths a path)
      | None \<Rightarrow>
          (case extractItemsAtPath pl unwrapped path of
             Inl e \<Rightarrow> Inl (ExtractFailed e)
           | Inr its \<Rightarrow>
               (case label_items (DefaultLabels pl) path 0 (case its of None \<Rightarrow> [] | Some xs \<Rightarrow> xs) labels acc of
                  Inl e \<Rightarrow> Inl e
                | Inr (labels', acc') \<Rightarrow> label_collections pl unwrapped seen paths labels' acc')))"

fun label_subtrees ::
  "path_labels \<Rightarrow> json \<Rightarrow> (string \<times> path_entry) list \<Rightarrow> path_label list \<Rightarrow> labeled_item list \<Rightarrow>
   resolve_error + labeled_item list" where
  "label_subtrees pl unwrapped labels [] acc = Inr acc"
| "label_subtrees pl unwrapped labels (l # ls) acc =
     (if map_of labels (pl_Path l) = None then label_subtrees pl unwrapped labels ls acc
      else
        (case extractValueAtPath pl unwrapped (pl_Path l) of
           Inl e \<Rightarrow> Inl (ExtractFailed e)
         | Inr current \<Rightarrow>
             label_subtrees pl unwrapped labels ls
               (acc @ [\<lparr>item_data = current, item_labels = Some (pathEntryToResource (Some (pl_Labels l))),
                        item_path = pl_Path l\<rparr>])))"

definition resolveCollections :: "path_labels \<Rightarrow> string list \<Rightarrow> json \<Rightarrow> resolve_error + labeled_item list" where
  "resolveCollections pl paths unwrapped =
     (case collect_labels (LabeledPaths pl) [] of
        Inl e \<Rightarrow> Inl e
      | Inr labels \<Rightarrow>
          (case check_collection_paths [] paths of
             Some e \<Rightarrow> Inl e
           | None \<Rightarrow>
               (case label_collections pl unwrapped paths paths labels [] of
                  Inl e \<Rightarrow> Inl e
                | Inr (rest, acc) \<Rightarrow> label_subtrees pl unwrapped rest (LabeledPaths pl) acc)))"

definition resolve :: "path_labels \<Rightarrow> json \<Rightarrow> json \<Rightarrow> resolve_error + labeled_item list" where
  "resolve pl original unwrapped =
     (case ItemsPaths pl of
        Some paths \<Rightarrow> resolveCollections pl paths unwrapped
      | None \<Rightarrow> resolve_single pl original unwrapped)"

definition NewPathLabeledData ::
  "(string \<Rightarrow> json option) \<Rightarrow> json \<Rightarrow> path_labels \<Rightarrow> resolve_error + path_labeled_data" where
  "NewPathLabeledData unmarshal original pl =
     (let (unwrapped, wrapped) = unwrapMCPResponse unmarshal original
      in map_sum id (\<lambda>its. \<lparr>p_OriginalData = original, p_UnwrappedData = unwrapped,
              p_IsMCPWrapped = wrapped, p_PathLabels = pl, p_resolvedItems = its\<rparr>)
           (resolve pl original unwrapped))"

section \<open>Aggregation and conversion\<close>

fun path_overall_loop :: "labeled_item list \<Rightarrow> label \<Rightarrow> label \<Rightarrow> bool \<Rightarrow> label \<times> label" where
  "path_overall_loop [] s i hasIntegrity = (s, i)"
| "path_overall_loop (item # rest) s i hasIntegrity =
     (case item_labels item of
        None \<Rightarrow> path_overall_loop rest s i hasIntegrity
      | Some r \<Rightarrow>
          path_overall_loop rest (lab_Union (secrecy r) s)
            (if \<not> hasIntegrity then lab_Union (integrity r) i else lab_Intersect (integrity r) i) True)"

definition path_Overall :: "path_labeled_data \<Rightarrow> labeled_resource" where
  "path_Overall p =
     (if p_resolvedItems p = [] then NewLabeledResource ''empty path-labeled data''
      else
        (let (s, i) = path_overall_loop (p_resolvedItems p) NewLabel NewLabel False
         in \<lparr>description = ''path-labeled collection'', secrecy = Some s, integrity = Some i\<rparr>))"

definition path_ToResult :: "path_labeled_data \<Rightarrow> data_error + json" where
  "path_ToResult p = Inr (p_OriginalData p)"

definition GetItems :: "path_labeled_data \<Rightarrow> labeled_item list" where
  "GetItems p = p_resolvedItems p"

definition rebuildCollections ::
  "(json \<Rightarrow> string option) \<Rightarrow> path_labeled_data \<Rightarrow> filtered_item_detail list \<Rightarrow> (data_error + json) go" where
  "rebuildCollections marshal p fil =
     (let denied = map (\<lambda>d. item_path (filtered_item d)) fil;
          result = pruneJSONPaths denied [] (p_UnwrappedData p)
      in if \<not> p_IsMCPWrapped p then Return (Inr result)
         else
           (case p_OriginalData p of
              JObj original \<Rightarrow>
                (let envelope = (if map_of original ''structuredContent'' \<notin> {None, Some JNull}
                                 then AList.update ''structuredContent'' result original else original)
                 in if map_of original ''content'' \<noteq> None
                    then (case marshal result of
                            None \<Rightarrow> Return (Inl EncodeError)
                          | Some text \<Rightarrow>
                              Return (Inr (JObj (AList.update ''content''
                                (JArr [JObj [(''type'', JStr ''text''), (''text'', JStr text)]]) envelope))))
                    else Return (Inr (JObj envelope)))
            | _ \<Rightarrow> Panic))"

definition ToCollectionLabeledData :: "(json \<Rightarrow> string option) \<Rightarrow> path_labeled_data \<Rightarrow> collection_labeled_data" where
  "ToCollectionLabeledData marshal p =
     \<lparr>items = p_resolvedItems p, original_data = p_UnwrappedData p,
      items_path = ItemsPath (p_PathLabels p),
      preserve_envelope = (ItemsPath (p_PathLabels p) \<noteq> []),
      rebuild = (if ItemsPaths (p_PathLabels p) \<noteq> None then Some (rebuildCollections marshal p) else None)\<rparr>"

end
