(* ===== verification/PipelineDecisions.thy ===== *)
theory PipelineDecisions imports AgentRegistry PathLabels begin

text \<open>
  \<open>internal/difc/pipeline_decisions.go\<close> and \<open>sink_server_ids.go\<close>: how the pipeline turns one
  evaluation into a coarse outcome, when responses are labelled, blocked and accumulated, and how
  labelled data becomes the response.
\<close>

datatype coarse_outcome = CoarseAllowed | CoarseBypassForRead | CoarseDenied

definition ShouldBypassCoarseDeny :: "operation \<Rightarrow> bool" where
  "ShouldBypassCoarseDeny op = (op = OperationRead)"

definition EvaluateCoarseAccess ::
  "evaluator \<Rightarrow> flow_label \<Rightarrow> flow_label \<Rightarrow> labeled_resource option \<Rightarrow> operation \<Rightarrow>
   (coarse_outcome \<times> evaluation_result) go" where
  "EvaluateCoarseAccess e sl il resource op =
     bind_go (Evaluate e sl il resource op) (\<lambda>result.
       Return
         (if IsAllowed result then (CoarseAllowed, result)
          else if MustDeny result then (CoarseDenied, result)
          else if ShouldBypassCoarseDeny op then (CoarseBypassForRead, result)
          else (CoarseDenied, result)))"

definition ShouldCallLabelResponse :: "operation \<Rightarrow> enforcement_mode \<Rightarrow> bool" where
  "ShouldCallLabelResponse op m =
     (let isPureWrite = (op = OperationWrite)
      in \<not> isPureWrite \<and> (op \<noteq> OperationReadWrite \<or> m \<noteq> EnforcementStrict))"

definition ShouldBlockFilteredResponse :: "enforcement_mode \<Rightarrow> nat \<Rightarrow> bool" where
  "ShouldBlockFilteredResponse m filteredCount = (m = EnforcementStrict \<and> filteredCount > 0)"

definition ShouldAccumulateReadLabels :: "operation \<Rightarrow> enforcement_mode \<Rightarrow> bool" where
  "ShouldAccumulateReadLabels op m = (op \<noteq> OperationWrite \<and> m = EnforcementPropagate)"

record filter_result =
  FinalResult :: "json option"
  Filtered :: "filtered_collection option"
  Blocked :: bool

definition emptyFilterResult :: filter_result where
  "emptyFilterResult = \<lparr>FinalResult = None, Filtered = None, Blocked = False\<rparr>"

definition FilterAndConvertLabeledData ::
  "evaluator \<Rightarrow> flow_label \<Rightarrow> flow_label \<Rightarrow> operation \<Rightarrow> labeled_data option \<Rightarrow> enforcement_mode \<Rightarrow>
   (data_error + filter_result) go" where
  "FilterAndConvertLabeledData e sl il op labeledData m =
     (let result = emptyFilterResult
      in case labeledData of
           None \<Rightarrow> Return (Inr result)
         | Some (CollectionData c) \<Rightarrow>
             bind_go (FilterCollection e sl il c op) (\<lambda>fil.
               (let result1 = result\<lparr>Filtered := Some fil\<rparr>
                in if ShouldBlockFilteredResponse m (GetFilteredCount fil)
                   then Return (Inr (result1\<lparr>Blocked := True\<rparr>))
                   else
                     (case filtered_ToResult fil of
                        Inl err \<Rightarrow> Return (Inl err)
                      | Inr finalResult \<Rightarrow>
                          (case rebuild c of
                             None \<Rightarrow> Return (Inr (result1\<lparr>FinalResult := Some finalResult\<rparr>))
                           | Some rb \<Rightarrow>
                               bind_go (rb (filtered fil)) (\<lambda>r.
                                 (case r of
                                    Inl err \<Rightarrow> Return (Inl err)
                                  | Inr v \<Rightarrow> Return (Inr (result1\<lparr>FinalResult := Some v\<rparr>))))))))
         | Some other \<Rightarrow>
             (case data_ToResult other of
                Inl err \<Rightarrow> Return (Inl err)
              | Inr finalResult \<Rightarrow> Return (Inr (result\<lparr>FinalResult := Some finalResult\<rparr>))))"

section \<open>Sink server IDs\<close>

text \<open>The package-level slice is the state; nil and empty do not differ to a reader.\<close>

type_synonym sink_state = "string list"

definition SetSinkServerIDs :: "string list \<Rightarrow> sink_state \<Rightarrow> sink_state" where
  "SetSinkServerIDs serverIDs st =
     (if serverIDs = [] then [] else DeduplicateStrings serverIDs True)"

definition IsSinkServerID :: "sink_state \<Rightarrow> string \<Rightarrow> bool" where
  "IsSinkServerID st serverID = list_ex (\<lambda>s. serverID = s) st"

text \<open>The loop of \<open>ParseSinkServerIDs\<close>; the error carries the offending value.\<close>

fun parse_sink_loop :: "string list \<Rightarrow> string list \<Rightarrow> string + string list" where
  "parse_sink_loop [] validated = Inr validated"
| "parse_sink_loop (part # parts) validated =
     (let v = trim_space part
      in if v = [] then parse_sink_loop parts validated
         else if list_ex (\<lambda>c. c \<in> {CHR 0x20, CHR 0x09, CHR 0x0A, CHR 0x0D}) v then Inl v
         else parse_sink_loop parts (validated @ [v]))"

definition ParseSinkServerIDs :: "string \<Rightarrow> string + string list" where
  "ParseSinkServerIDs input =
     (if trim_space input = [] then Inr []
      else map_sum id (\<lambda>v. DeduplicateStrings v False) (parse_sink_loop (split_on CHR '','' input) []))"

section \<open>What the decisions guarantee\<close>

text \<open>Only an access the evaluator allows, or a plain read that was not hard-denied, gets past the coarse check.\<close>

lemma EvaluateCoarseAccess_outcome:
  assumes "EvaluateCoarseAccess e sl il resource op = Return (c, r)"
  shows "Evaluate e sl il resource op = Return r"
    and "c = CoarseAllowed \<longleftrightarrow> IsAllowed r"
    and "c = CoarseBypassForRead \<longleftrightarrow> \<not> IsAllowed r \<and> \<not> MustDeny r \<and> op = OperationRead"
    and "c = CoarseDenied \<longleftrightarrow> \<not> IsAllowed r \<and> (MustDeny r \<or> op \<noteq> OperationRead)"
  using assms
  by (auto simp: EvaluateCoarseAccess_def bind_go_Return_iff ShouldBypassCoarseDeny_def split: if_splits)

lemma EvaluateCoarseAccess_Panic_iff:
  "EvaluateCoarseAccess e sl il resource op = Panic \<longleftrightarrow> Evaluate e sl il resource op = Panic"
  by (auto simp: EvaluateCoarseAccess_def bind_go_Panic_iff)

lemma coarse_blocked_never_passes:
  assumes "EvaluateCoarseAccess e sl il (Some res) op = Return (c, r)"
    and "reads op" and "blocked res"
  shows "c = CoarseDenied"
proof -
  note o = EvaluateCoarseAccess_outcome[OF assms(1)]
  obtain rr where rr: "evaluateRead e sl il res = Return rr"
    using o(1) assms(2) by (cases op) (auto simp: Evaluate_def reads_def bind_go_Return_iff)
  from evaluateRead_decision[OF rr] assms(3) have d: "\<not> IsAllowed rr" "MustDeny rr"
    by (auto simp: IsAllowed_def MustDeny_def)
  have "r = rr" using o(1) assms(2) rr d by (cases op) (auto simp: Evaluate_def reads_def)
  with d o show ?thesis by simp
qed

text \<open>
  What Phase 5 lets through. In strict mode a response with a denied item is never converted;
  in the other modes the plain result holds exactly the allowed items, in their order.
\<close>

definition converted :: "collection_labeled_data \<Rightarrow> filtered_collection \<Rightarrow> (data_error + json) go" where
  "converted c fil =
     (case (filtered_ToResult fil, rebuild c) of
        (Inl err, _) \<Rightarrow> Return (Inl err)
      | (Inr v, None) \<Rightarrow> Return (Inr v)
      | (Inr v, Some rb) \<Rightarrow> rb (filtered fil))"

lemma FilterAndConvert_collection:
  "FilterAndConvertLabeledData e sl il op (Some (CollectionData c)) m =
     bind_go (FilterCollection e sl il c op) (\<lambda>fil.
       if m = EnforcementStrict \<and> filtered fil \<noteq> []
       then Return (Inr \<lparr>FinalResult = None, Filtered = Some fil, Blocked = True\<rparr>)
       else bind_go (converted c fil) (\<lambda>r. Return
         (map_sum id (\<lambda>v. \<lparr>FinalResult = Some v, Filtered = Some fil, Blocked = False\<rparr>) r)))"
proof (cases "FilterCollection e sl il c op")
  case (Return fil)
  show ?thesis
  proof (cases "m = EnforcementStrict \<and> filtered fil \<noteq> []")
    case True
    with Return show ?thesis
      by (simp add: FilterAndConvertLabeledData_def emptyFilterResult_def Let_def
          ShouldBlockFilteredResponse_def GetFilteredCount_def)
  next
    case False
    then have nb: "\<not> ShouldBlockFilteredResponse m (GetFilteredCount fil)"
      by (auto simp: ShouldBlockFilteredResponse_def GetFilteredCount_def)
    have step: "bind_go g (\<lambda>r. case r of Inl err \<Rightarrow> Return (Inl err)
        | Inr v \<Rightarrow> Return (Inr \<lparr>FinalResult = Some v, Filtered = Some fil, Blocked = False\<rparr>)) =
      bind_go g (\<lambda>r. Return (map_sum id (\<lambda>v. \<lparr>FinalResult = Some v, Filtered = Some fil, Blocked = False\<rparr>) r))" for g
      by (cases g) (auto split: sum.splits)
    show ?thesis
      unfolding Return bind_go.simps if_not_P[OF False]
      using Return nb
      by (cases "filtered_ToResult fil"; cases "rebuild c")
         (simp_all add: FilterAndConvertLabeledData_def emptyFilterResult_def Let_def converted_def step)
  qed
qed (simp add: FilterAndConvertLabeledData_def Let_def)

lemma FilterAndConvert_items:
  assumes "FilterAndConvertLabeledData e sl il op (Some (CollectionData c)) m = Return (Inr fr)"
    and "rebuild c = None" and "\<not> preserve_envelope c"
  shows "FinalResult fr =
    (if m = EnforcementStrict \<and> (\<exists>it\<in>set (items c). \<not> item_allowed e sl il op it) then None
     else Some (JArr (map item_data (filter (item_allowed e sl il op) (items c)))))"
proof -
  from assms(1) obtain fil where f: "FilterCollection e sl il c op = Return fil"
    by (auto simp: FilterAndConvert_collection bind_go_Return_iff)
  note F = FilterCollection_Return[OF f]
  have ne: "filtered fil \<noteq> [] \<longleftrightarrow> (\<exists>it\<in>set (items c). \<not> item_allowed e sl il op it)"
    using arg_cong[OF F(2), of "\<lambda>xs. xs = []"] by (simp add: filter_empty_conv)
  have "f_preserve_envelope fil = preserve_envelope c"
    using f by (auto simp: FilterCollection_def bind_go_Return_iff)
  then have "converted c fil = Return (Inr (JArr (map item_data (accessible fil))))"
    using assms(2,3) by (simp add: converted_def filtered_ToResult_def envelope_result_plain)
  then show ?thesis
    using assms(1) f F(1) unfolding FilterAndConvert_collection ne[symmetric]
    by (cases "m = EnforcementStrict \<and> filtered fil \<noteq> []") auto
qed

lemma FilterAndConvert_Inr:
  assumes "FilterAndConvertLabeledData e sl il op (Some (CollectionData c)) m = Return (Inr fr)"
  shows "Filtered fr \<noteq> None \<and> (Blocked fr \<longleftrightarrow> FinalResult fr = None)"
proof -
  from assms obtain fil where f: "FilterCollection e sl il c op = Return fil"
    by (auto simp: FilterAndConvert_collection bind_go_Return_iff)
  show ?thesis
  proof (cases "m = EnforcementStrict \<and> filtered fil \<noteq> []")
    case True
    with assms f show ?thesis by (auto simp: FilterAndConvert_collection)
  next
    case False
    with assms f obtain r where "converted c fil = Return r"
        "map_sum id (\<lambda>v. \<lparr>FinalResult = Some v, Filtered = Some fil, Blocked = False\<rparr>) r = Inr fr"
      unfolding FilterAndConvert_collection f bind_go.simps if_not_P[OF False] by (auto simp: bind_go_Return_iff)
    then show ?thesis by (cases r) auto
  qed
qed

lemma IsSinkServerID_Set:
  "IsSinkServerID (SetSinkServerIDs ids st) s \<longleftrightarrow> s \<in> set (trimmed_entries ids)"
  by (auto simp: IsSinkServerID_def SetSinkServerIDs_def list_ex_iff DeduplicateStrings_set trimmed_entries_def)

lemma parse_sink_loop_Inr:
  "parse_sink_loop parts acc = Inr ids \<Longrightarrow> ids = acc @ trimmed_entries parts"
proof (induction parts arbitrary: acc)
  case (Cons part parts)
  show ?case
    using Cons.prems Cons.IH[of acc] Cons.IH[of "acc @ [trim_space part]"]
    by (simp add: trimmed_entries_def Let_def split: if_splits)
qed (simp add: trimmed_entries_def)

lemma ParseSinkServerIDs_Inr:
  assumes "ParseSinkServerIDs input = Inr ids"
  shows "distinct ids" and "set ids \<subseteq> set (trimmed_entries (split_on CHR '','' input))"
  using assms parse_sink_loop_Inr[of "split_on CHR '','' input" "[]"]
  by (auto simp: ParseSinkServerIDs_def map_sum_Inr_iff DeduplicateStrings_distinct DeduplicateStrings_set
      trimmed_entries_def split: if_splits)

end
