(* ===== verification/FlowProperties.thy ===== *)
theory FlowProperties imports AgentRegistry PipelineDecisions begin

text \<open>
  The properties of the information-flow core: flow checks, the evaluator, collection filtering,
  propagation, accumulated taint and the agent registry. The example values below are the inputs
  of the witnesses.
\<close>

section \<open>Example values\<close>

definition private_issue :: labeled_resource where
  "private_issue = \<lparr>description = ''issue'', secrecy = NewFlowLabel [''private:a/b''], integrity = NewFlowLabel [''approved'']\<rparr>"

definition blocked_issue :: labeled_resource where
  "blocked_issue = \<lparr>description = ''issue'', secrecy = NewFlowLabel [], integrity = NewFlowLabel [''blocked'']\<rparr>"

definition public_repo :: labeled_resource where
  "public_repo = \<lparr>description = ''repo'', secrecy = NewFlowLabel [], integrity = NewFlowLabel []\<rparr>"

definition triager :: agent_labels where
  "triager = NewAgentLabelsWithTags ''triager'' [] [''approved'', ''merged'']"

definition issue_item :: labeled_item where
  "issue_item = \<lparr>item_data = JStr ''secret'', item_labels = Some private_issue, item_path = []\<rparr>"

definition repo_item :: labeled_item where
  "repo_item = \<lparr>item_data = JStr ''readme'', item_labels = Some public_repo, item_path = []\<rparr>"

definition two_items :: collection_labeled_data where
  "two_items = \<lparr>items = [issue_item, repo_item], original_data = JNull, items_path = [], preserve_envelope = False, rebuild = None\<rparr>"

definition one_agent :: agent_registry where
  "one_agent = snd (ar_GetOrCreate ''triager'' (NewAgentRegistryWithDefaults [] [''approved'']))"

section \<open>Flow checks\<close>

text \<open>A flow check succeeds exactly when it reports no violating tag, and the tags it reports are
  exactly those by which the two labels differ in the direction of the flow: for secrecy the tags the
  target lacks, for integrity the tags the source lacks.\<close>

lemma check_flow_exact:
  "CheckFlow k l t = (CanFlowTo k l t, snd (CheckFlow k l t)) \<and>
   (CanFlowTo k l t \<longleftrightarrow> snd (CheckFlow k l t) = []) \<and>
   set (snd (CheckFlow k l t)) = {x \<in> flow_gap k l t. \<not> CanFlowTo k l t}"
  using CheckFlow_allowed_iff[of k l t]
  by (auto simp: prod_eq_iff fst_CheckFlow CheckFlow_violations)

text \<open>The flow relation of each kind is reflexive and transitive, so a chain of permitted flows
  never moves data where a direct flow would be refused.\<close>

lemma flow_chain_sound:
  "(\<forall>l. CanFlowTo k l l) \<and>
   (\<forall>l ls. successively (CanFlowTo k) (l # ls) \<longrightarrow> CanFlowTo k l (last (l # ls)))"
  using CanFlowTo_refl secrecy.flow_chain_last integrity.flow_chain_last by (cases k) blast+

lemma flow_chain_sound_example:
  "successively (CanFlowTo secrecyKind) [NewFlowLabel [''a''], NewFlowLabel [''b'', ''a''], NewFlowLabel [''*'']] \<and>
   CanFlowTo secrecyKind (NewFlowLabel [''a'']) (NewFlowLabel [''*''])"
proof -
  have s: "successively (CanFlowTo secrecyKind) [NewFlowLabel [''a''], NewFlowLabel [''b'', ''a''], NewFlowLabel [''*'']]"
    by (simp add: CanFlowTo_secrecy flows_within_def WildcardTag_def)
  with flow_chain_sound[of secrecyKind] show ?thesis by (metis last.simps list.distinct(1))
qed

section \<open>The evaluator\<close>

text \<open>C17: Whenever \<open>Evaluate\<close> returns, it allows the access exactly when the policy does: in the strict
  and filter modes a read needs the agent's clearance and a resource that is not less trusted than
  the agent, a write the converse flows; in propagate mode a read only has to avoid blocked
  resources and the invocation capability, a write still needs the flows.\<close>

theorem evaluate_implements_policy:
  assumes "Evaluate e sl il (Some res) op = Return r"
  shows "IsAllowed r \<longleftrightarrow>
    (reads op \<longrightarrow> \<not> blocked res \<and>
       (if mode e = EnforcementPropagate then within_max e res
        else flows_within (ftags (secrecy res)) (ftags sl) \<and> flows_within (ftags il) (ftags (integrity res)))) \<and>
    (writes op \<longrightarrow>
       flows_within (ftags (integrity res)) (ftags il) \<and> flows_within (ftags sl) (ftags (secrecy res)))"
  using Evaluate_IsAllowed[OF assms]
  by (auto simp: permitted_def propagatable_def read_permitted_def write_permitted_def secrecy_cleared_def
      integrity_trusted_def reads_def writes_def)

lemma evaluate_implements_policy_witness:
  "\<exists>r. Evaluate NewEvaluator (agS triager) (agI triager) (Some private_issue) OperationRead = Return r \<and> \<not> IsAllowed r"
proof -
  have "returns (Evaluate NewEvaluator (agS triager) (agI triager) (Some private_issue) OperationRead)" by code_simp
  then obtain r where r: "Evaluate NewEvaluator (agS triager) (agI triager) (Some private_issue) OperationRead = Return r"
    by (cases "Evaluate NewEvaluator (agS triager) (agI triager) (Some private_issue) OperationRead") auto
  with evaluate_implements_policy[OF r] show ?thesis
    by (simp add: reads_def NewEvaluator_def private_issue_def triager_def flows_within_def WildcardTag_def)
qed

text \<open>A resource that carries a blocked integrity tag is never read, in any mode and whatever the
  agent's labels: the coarse check denies every operation that reads it, without the bypass that
  lets other denied reads reach the response filter.\<close>

lemma blocked_resource_denied:
  assumes "EvaluateCoarseAccess e sl il (Some res) op = Return (c, r)"
    and "reads op" and "\<exists>t\<in>ftags (integrity res). is_blocked_tag t"
  shows "c = CoarseDenied \<and> \<not> IsAllowed r"
proof -
  have "c = CoarseDenied" using coarse_blocked_never_passes[OF assms(1,2)] assms(3) by (simp add: blocked_def)
  then show ?thesis using EvaluateCoarseAccess_outcome(4)[OF assms(1)] by simp
qed

lemma blocked_resource_denied_example:
  "\<exists>c r. EvaluateCoarseAccess (NewEvaluatorWithMode EnforcementPropagate) (agS triager) (agI triager)
      (Some blocked_issue) OperationRead = Return (c, r) \<and> c = CoarseDenied"
proof -
  let ?x = "EvaluateCoarseAccess (NewEvaluatorWithMode EnforcementPropagate) (agS triager) (agI triager)
      (Some blocked_issue) OperationRead"
  have "returns ?x" by code_simp
  then obtain c r where cr: "?x = Return (c, r)" by (cases ?x) auto
  have "\<exists>t\<in>ftags (integrity blocked_issue). is_blocked_tag t"
    by (simp add: blocked_issue_def is_blocked_tag_def)
  from blocked_resource_denied[OF cr _ this] cr show ?thesis by (simp add: reads_def)
qed

text \<open>Filtering a collection keeps the order and loses no item: the accessible items are exactly the
  items whose evaluation allows the operation, the filtered details are exactly the others, and
  the counts add up to the size of the collection.\<close>

lemma filter_partitions_collection:
  assumes "FilterCollection e sl il c op = Return f"
  shows "accessible f = filter (item_allowed e sl il op) (items c) \<and>
    map filtered_item (filtered f) = filter (\<lambda>it. \<not> item_allowed e sl il op it) (items c) \<and>
    GetAccessibleCount f + GetFilteredCount f = length (items c)"
  using FilterCollection_Return[OF assms] FilterCollection_counts[OF assms] by simp

lemma filter_partitions_collection_example:
  "\<exists>f. FilterCollection NewEvaluator (agS triager) (agI triager) two_items OperationWrite = Return f \<and>
     accessible f = filter (item_allowed NewEvaluator (agS triager) (agI triager) OperationWrite) [issue_item, repo_item]"
proof -
  let ?x = "FilterCollection NewEvaluator (agS triager) (agI triager) two_items OperationWrite"
  have "returns ?x" by code_simp
  then obtain f where f: "?x = Return f" by (cases ?x) auto
  from filter_partitions_collection[OF f] f show ?thesis by (simp add: two_items_def)
qed

section \<open>Labels of agents\<close>

text \<open>When a read is allowed with propagation, applying the evaluation result to the agent gives
  labels under which the read is permitted without propagation.\<close>

lemma propagation_repairs_read:
  assumes "evaluateRead e (agS a) (agI a) res = Return r" and "RequiresPropagation r"
    and "ApplyPropagation (Some r) a = (changed, a')"
  shows "flows_within (ftags (secrecy res)) (ftags (agS a')) \<and>
    flows_within (ftags (agI a')) (ftags (integrity res)) \<and> changed"
proof -
  have "read_permitted (agS a') (agI a') res" by (rule ApplyPropagation_permits[OF assms])
  moreover have changed
  proof (rule ccontr)
    assume "\<not> changed"
    then have "secrecyToAdd r = []" "integrityToDrop r = []" using ApplyPropagation_tags(3)[OF assms(3,2)] by auto
    moreover have "decision r = AccessAllowWithPropagate" using assms(2) by (simp add: RequiresPropagation_def)
    moreover have "mode e = EnforcementPropagate" "within_max e res" "\<not> blocked res"
      "\<not> (secrecy_cleared (agS a) res \<and> integrity_trusted (agI a) res)"
      using evaluateRead_decision(1)[OF assms(1)] calculation(3) by (auto split: if_splits)
    ultimately show False
      using evaluateRead_tags(1)[OF assms(1)] CheckFlow_allowed_iff[of secrecyKind "secrecy res" "agS a"]
        CheckFlow_allowed_iff[of integrityKind "integrity res" "agI a"]
      by (auto simp: fst_CheckFlow CanFlowTo_iff secrecy_cleared_def integrity_trusted_def)
  qed
  ultimately show ?thesis by (simp add: read_permitted_def secrecy_cleared_def integrity_trusted_def)
qed

lemma propagation_repairs_read_example:
  "\<exists>r. evaluateRead (NewEvaluatorWithMode EnforcementPropagate) (agS triager) (agI triager) private_issue = Return r \<and>
     flows_within {''private:a/b''} (ftags (agS (snd (ApplyPropagation (Some r) triager))))"
proof -
  let ?x = "evaluateRead (NewEvaluatorWithMode EnforcementPropagate) (agS triager) (agI triager) private_issue"
  have "returns ?x" by code_simp
  then obtain r where r: "?x = Return r" by (cases ?x) auto
  have "(case ?x of Panic \<Rightarrow> False | Return y \<Rightarrow> RequiresPropagation y)" by code_simp
  then have "RequiresPropagation r" using r by simp
  from propagation_repairs_read[OF r this, of "fst (ApplyPropagation (Some r) triager)" "snd (ApplyPropagation (Some r) triager)"] r
  show ?thesis by (simp add: private_issue_def)
qed

text \<open>Taint only grows: over any sequence of registry operations, reads and propagations, a label
  object that must not write a resource can still not write it afterwards.\<close>

lemma lost_write_stays_lost:
  assumes "ref < length (heap r)" and "WildcardTag \<notin> ftags (agI (heap (fold registry_step ops r) ! ref))"
    and "\<not> write_permitted (agS (heap r ! ref)) (agI (heap r ! ref)) res"
  shows "\<not> write_permitted (agS (heap (fold registry_step ops r) ! ref)) (agI (heap (fold registry_step ops r) ! ref)) res"
  using write_antimono[of "heap r ! ref" "heap (fold registry_step ops r) ! ref" res] registry_run_heap[OF assms(1), of ops] assms(2,3)
  by auto

lemma lost_write_stays_lost_example:
  "\<not> write_permitted (agS (heap (fold registry_step [ReadOp 0 (Some private_issue), RegisterOp ''triager'' [] []] one_agent) ! 0))
     (agI (heap (fold registry_step [ReadOp 0 (Some private_issue), RegisterOp ''triager'' [] []] one_agent) ! 0))
     \<lparr>description = ''main'', secrecy = NewFlowLabel [], integrity = NewFlowLabel [''merged'']\<rparr>"
proof (rule lost_write_stays_lost)
  show "0 < length (heap one_agent)" by code_simp
  have "\<not> lab_Contains (agIntegrity (heap (fold registry_step [ReadOp 0 (Some private_issue), RegisterOp ''triager'' [] []] one_agent) ! 0)) WildcardTag"
    by code_simp
  then show "WildcardTag \<notin> ftags (agI (heap (fold registry_step [ReadOp 0 (Some private_issue), RegisterOp ''triager'' [] []] one_agent) ! 0))"
    by simp
  have "heap one_agent = [NewAgentLabelsWithTags ''triager'' [] [''approved'']]"
    by (simp add: one_agent_def ar_GetOrCreate_miss NewAgentRegistryWithDefaults_def ar_Get_def)
  then show "\<not> write_permitted (agS (heap one_agent ! 0)) (agI (heap one_agent ! 0))
     \<lparr>description = ''main'', secrecy = NewFlowLabel [], integrity = NewFlowLabel [''merged'']\<rparr>"
    by (simp add: write_permitted_def flows_within_def WildcardTag_def)
qed

text \<open>Agents are isolated: in a well-formed registry, changing the labels of one agent's object leaves
  the labels that every other agent sees as they are, and that agent sees exactly the change.\<close>

lemma agents_isolated:
  assumes "ar_ok r" and "ar_Get r a = Some ref"
  shows "labels_of (on_agent f ref r) b = (if b = a then map_option f (labels_of r a) else labels_of r b)"
  using on_agent_other[OF assms] on_agent_same[OF assms] by simp

lemma agents_isolated_example:
  "labels_of (on_agent (AddSecrecyTag ''private'') 0 one_agent) ''other'' = labels_of one_agent ''other''"
proof -
  have "ar_ok one_agent" unfolding one_agent_def by (intro ar_GetOrCreate_ok ar_ok_New)
  moreover have "ar_Get one_agent ''triager'' = Some 0" by code_simp
  ultimately show ?thesis by (simp add: agents_isolated)
qed

text \<open>The reflect endpoint reports exactly the registered agents, each with its current tags, sorted.\<close>

lemma reflect_snapshot_exact:
  assumes "c_AgentRegistry c = Some r" and "ar_ok r"
  shows "map_of (r_Agents (BuildReflectResponse c now)) aid =
    map_option (\<lambda>a. \<lparr>r_Secrecy = sort (tag_list (agSecrecy a)), r_Integrity = sort (tag_list (agIntegrity a))\<rparr>) (labels_of r aid)"
  using BuildReflectResponse_agents[OF assms] by (simp add: reflected_def[abs_def])

lemma reflect_snapshot_exact_example:
  "map_of (r_Agents (BuildReflectResponse \<lparr>c_Mode = EnforcementStrict, c_AgentRegistry = Some one_agent,
      c_Capabilities = NewCapabilities, c_Evaluator = NewEvaluator\<rparr> ''now'')) ''nobody'' = None"
proof -
  have ok: "ar_ok one_agent" unfolding one_agent_def by (intro ar_GetOrCreate_ok ar_ok_New)
  have "labels_of one_agent ''nobody'' = None" by code_simp
  then show ?thesis
    using reflect_snapshot_exact[OF _ ok, of "\<lparr>c_Mode = EnforcementStrict, c_AgentRegistry = Some one_agent,
      c_Capabilities = NewCapabilities, c_Evaluator = NewEvaluator\<rparr>" "''now''" "''nobody''"] by simp
qed

end
