(* ===== verification/Guards.thy ===== *)
theory Guards imports PipelineDecisions begin

text \<open>
  \<open>internal/guard\<close>: the guard interface and the three guards. A guard is a record of its answers;
  the backend it may consult and the capabilities it is shown are fixed for one request and are
  part of those functions. \<open>wasm_parse.go\<close> and \<open>wasm_labels.go\<close> are translated; the call into
  the WebAssembly module (\<open>callWasmGuardFunction\<close>) and \<open>encoding/json\<close> are arguments.
\<close>

record label_agent_result =
  lar_Secrecy :: "string list"
  lar_Integrity :: "string list"
  lar_DIFCMode :: string

text \<open>What \<open>wasm_payload.go\<close> can reject a policy for.\<close>

datatype payload_error =
    PolicyRequired
  | PolicyStringEmpty
  | PolicyStringNotObject
  | PayloadNotObject
  | LegacyPolicyEnvelope
  | AllowOnlyKeyMissing
  | UnexpectedKey string
  | AllowOnlyNotObject
  | MissingReposOrIntegrity
  | UnexpectedAllowOnlyKey string
  | InvalidRepos
  | InvalidIntegrity string
  | InvalidStringArray string
  | InvalidLabelList string

datatype guard_error =
    CallFailed string
  | InvalidPayload payload_error
  | ResponseNotJSON string
  | InvalidResourceFormat
  | EmptyResponse
  | PolicyRejected string
  | NonSuccessStatus
  | ReturnedError string
  | MissingMode
  | InvalidMode mode_error
  | BadPathLabels
  | PathLabelsNotApplicable resolve_error

record guard =
  g_Name :: string
  g_LabelAgent :: "json \<Rightarrow> guard_error + label_agent_result option"
  g_LabelResource :: "string \<Rightarrow> json \<Rightarrow> guard_error + labeled_resource option \<times> operation"
  g_LabelResponse :: "string \<Rightarrow> json \<Rightarrow> json \<Rightarrow> guard_error + labeled_data option"

definition emptyAgentLabelsResult :: "string \<Rightarrow> label_agent_result" where
  "emptyAgentLabelsResult m = \<lparr>lar_Secrecy = [], lar_Integrity = [], lar_DIFCMode = m\<rparr>"

section \<open>The noop guard\<close>

definition NoopGuard :: guard where
  "NoopGuard =
     \<lparr>g_Name = ''noop'',
      g_LabelAgent = (\<lambda>policy. Inr (Some (emptyAgentLabelsResult ModeStrict))),
      g_LabelResource = (\<lambda>toolName args.
        Inr (Some (NewLabeledResource ''noop resource (no restrictions)''), OperationReadWrite)),
      g_LabelResponse = (\<lambda>toolName args result. Inr None)\<rparr>"

section \<open>The write-sink guard\<close>

definition lowercaseASCII :: "string \<Rightarrow> string" where
  "lowercaseASCII s = map lower_char s"

definition NormalizeWriteSinkAcceptEntry :: "string \<Rightarrow> string" where
  "NormalizeWriteSinkAcceptEntry entry0 =
     (let entry = trim_space entry0
      in case cut CHR '':'' entry of
           Some (visibility, scope) \<Rightarrow> visibility @ '':'' @ lowercaseASCII scope
         | None \<Rightarrow> lowercaseASCII entry)"

definition NormalizeStringCI :: "string \<Rightarrow> string" where
  "NormalizeStringCI s = to_lower (trim_space s)"

definition SinkVisibilityPublic :: string where "SinkVisibilityPublic = ''public''"

record write_sink_guard =
  acceptTags :: "tag list"
  sinkVisibility :: string

definition NewWriteSinkGuardWithVisibility :: "string list \<Rightarrow> string \<Rightarrow> write_sink_guard" where
  "NewWriteSinkGuardWithVisibility accept visibility =
     \<lparr>acceptTags = map NormalizeWriteSinkAcceptEntry accept,
      sinkVisibility = NormalizeStringCI visibility\<rparr>"

definition NewWriteSinkGuard :: "string list \<Rightarrow> write_sink_guard" where
  "NewWriteSinkGuard accept = NewWriteSinkGuardWithVisibility accept []"

definition ws_NewSessionGuard :: "write_sink_guard \<Rightarrow> write_sink_guard" where
  "ws_NewSessionGuard g = NewWriteSinkGuardWithVisibility (map (\<lambda>t. t) (acceptTags g)) (sinkVisibility g)"

definition ws_LabelResource :: "write_sink_guard \<Rightarrow> string \<Rightarrow> labeled_resource \<times> operation" where
  "ws_LabelResource g toolName =
     (if sinkVisibility g = SinkVisibilityPublic
      then (NewLabeledResource (''write-sink:public ('' @ toolName @ '')''), OperationWrite)
      else (NewLabeledResource (''write-sink ('' @ toolName @ '')'')\<lparr>secrecy := NewFlowLabel (acceptTags g)\<rparr>,
            OperationWrite))"

definition WriteSinkGuard :: "write_sink_guard \<Rightarrow> guard" where
  "WriteSinkGuard g =
     \<lparr>g_Name = ''write-sink'',
      g_LabelAgent = (\<lambda>policy. Inr (Some (emptyAgentLabelsResult ModeFilter))),
      g_LabelResource = (\<lambda>toolName args.
        (let (r, op) = ws_LabelResource g toolName in Inr (Some r, op))),
      g_LabelResponse = (\<lambda>toolName args result. Inr None)\<rparr>"

section \<open>Reading the WebAssembly guard's answers\<close>

text \<open>A failed \<open>.(string)\<close> assertion leaves the field out.\<close>

definition parseDIFCTagsFromAny :: "json option \<Rightarrow> tag list" where
  "parseDIFCTagsFromAny raw =
     (case raw of
        Some (JArr xs) \<Rightarrow> List.map_filter (\<lambda>j. case j of JStr s \<Rightarrow> Some s | _ \<Rightarrow> None) xs
      | _ \<Rightarrow> [])"

definition fillLabeledResourceFromMap :: "json_object \<Rightarrow> labeled_resource \<Rightarrow> labeled_resource" where
  "fillLabeledResourceFromMap rawData res =
     \<lparr>description = (case map_of rawData ''description'' of Some (JStr d) \<Rightarrow> d | _ \<Rightarrow> description res),
      secrecy = NewFlowLabel (parseDIFCTagsFromAny (map_of rawData ''secrecy'')),
      integrity = NewFlowLabel (parseDIFCTagsFromAny (map_of rawData ''integrity''))\<rparr>"

definition emptyLabeledResource :: labeled_resource where
  "emptyLabeledResource = \<lparr>description = [], secrecy = None, integrity = None\<rparr>"

definition parseOperation :: "json option \<Rightarrow> operation" where
  "parseOperation j =
     (case j of
        Some (JStr opStr) \<Rightarrow>
          (if opStr = ''read'' then OperationRead
           else if opStr = ''write'' then OperationWrite
           else if opStr = ''read-write'' then OperationReadWrite
           else OperationWrite)
      | _ \<Rightarrow> OperationWrite)"

definition parseResourceResponse :: "json_object \<Rightarrow> guard_error + labeled_resource option \<times> operation" where
  "parseResourceResponse response =
     (case map_of response ''resource'' of
        Some (JObj resourceData) \<Rightarrow>
          Inr (Some (fillLabeledResourceFromMap resourceData emptyLabeledResource),
               parseOperation (map_of response ''operation''))
      | _ \<Rightarrow> Inl InvalidResourceFormat)"

text \<open>An item without \<open>labels\<close> keeps a nil label; a missing \<open>data\<close> is the nil interface.\<close>

definition parse_item :: "json_object \<Rightarrow> labeled_item" where
  "parse_item itemMap =
     \<lparr>item_data = (case map_of itemMap ''data'' of Some d \<Rightarrow> d | None \<Rightarrow> JNull),
      item_labels = (case map_of itemMap ''labels'' of
          Some (JObj l) \<Rightarrow> Some (fillLabeledResourceFromMap l emptyLabeledResource)
        | _ \<Rightarrow> None),
      item_path = []\<rparr>"

definition parseCollectionLabeledData :: "json list \<Rightarrow> collection_labeled_data" where
  "parseCollectionLabeledData its =
     \<lparr>items = map parse_item (List.map_filter as_object its),
      original_data = JNull, items_path = [], preserve_envelope = False, rebuild = None\<rparr>"

definition checkBoolFailure :: "json_object \<Rightarrow> string \<Rightarrow> guard_error option" where
  "checkBoolFailure raw key =
     (case map_of raw key of
        Some (JBool False) \<Rightarrow>
          (let message = string_field raw ''error''
           in if trim_space message \<noteq> [] then Some (PolicyRejected message) else Some NonSuccessStatus)
      | _ \<Rightarrow> None)"

text \<open>
  \<open>unmarshalObject\<close> and \<open>decodeResult\<close> are the two \<open>json.Unmarshal\<close> calls on the response.
\<close>

definition parseLabelAgentResponse ::
  "(string \<Rightarrow> json_object option) \<Rightarrow> (string \<Rightarrow> label_agent_result option) \<Rightarrow> string \<Rightarrow>
   guard_error + label_agent_result" where
  "parseLabelAgentResponse unmarshalObject decodeResult resultJSON =
     (case unmarshalObject resultJSON of
        None \<Rightarrow> Inl (ResponseNotJSON resultJSON)
      | Some raw \<Rightarrow>
          (case checkBoolFailure raw ''success'' of
             Some e \<Rightarrow> Inl e
           | None \<Rightarrow>
               (case checkBoolFailure raw ''ok'' of
                  Some e \<Rightarrow> Inl e
                | None \<Rightarrow>
                    (let message = string_field raw ''error''
                     in if trim_space message \<noteq> [] then Inl (ReturnedError message)
                        else
                          (case decodeResult resultJSON of
                             None \<Rightarrow> Inl (ResponseNotJSON resultJSON)
                           | Some result \<Rightarrow>
                               (if trim_space (lar_DIFCMode result) = [] then Inl MissingMode
                                else
                                  (case ParseEnforcementMode (lar_DIFCMode result) of
                                     Inl e \<Rightarrow> Inl (InvalidMode e)
                                   | Inr _ \<Rightarrow> Inr result)))))))"

section \<open>The WebAssembly guard\<close>

text \<open>
  \<open>wasm_call\<close> is \<open>callWasmGuardFunction\<close>: the function's name and the input give the response
  bytes or an error.
\<close>

record json_codec =
  unmarshal_value :: "string \<Rightarrow> json option"
  unmarshal_object :: "string \<Rightarrow> json_object option"
  unmarshal_result :: "string \<Rightarrow> label_agent_result option"
  unmarshal_path_labels :: "string \<Rightarrow> path_labels option"
  marshal_value :: "json \<Rightarrow> string option"

type_synonym wasm_call = "string \<Rightarrow> json \<Rightarrow> guard_error + string"

definition parsePathLabeledResponse :: "json_codec \<Rightarrow> string \<Rightarrow> json \<Rightarrow> guard_error + labeled_data" where
  "parsePathLabeledResponse cd responseJSON original =
     (case unmarshal_path_labels cd responseJSON of
        None \<Rightarrow> Inl BadPathLabels
      | Some pl \<Rightarrow>
          (case NewPathLabeledData (unmarshal_value cd) original pl of
             Inl e \<Rightarrow> Inl (PathLabelsNotApplicable e)
           | Inr p \<Rightarrow> Inr (CollectionData (ToCollectionLabeledData (marshal_value cd) p))))"

definition wasm_LabelResource ::
  "json_codec \<Rightarrow> wasm_call \<Rightarrow> string \<Rightarrow> json \<Rightarrow> guard_error + labeled_resource option \<times> operation" where
  "wasm_LabelResource cd call toolName args =
     (case call ''label_resource'' (JObj [(''tool_name'', JStr toolName), (''tool_args'', args)]) of
        Inl e \<Rightarrow> Inl e
      | Inr resultJSON \<Rightarrow>
          (case unmarshal_object cd resultJSON of
             None \<Rightarrow> Inl (ResponseNotJSON resultJSON)
           | Some response \<Rightarrow> parseResourceResponse response))"

definition wasm_LabelResponse ::
  "json_codec \<Rightarrow> wasm_call \<Rightarrow> string \<Rightarrow> json \<Rightarrow> json \<Rightarrow> guard_error + labeled_data option" where
  "wasm_LabelResponse cd call toolName args result =
     (case call ''label_response''
             (JObj [(''tool_name'', JStr toolName), (''tool_result'', result), (''tool_args'', args)]) of
        Inl e \<Rightarrow> Inl e
      | Inr resultJSON \<Rightarrow>
          (if resultJSON = [] then Inr None
           else
             (case unmarshal_object cd resultJSON of
                None \<Rightarrow> Inl (ResponseNotJSON resultJSON)
              | Some responseMap \<Rightarrow>
                  (if map_of responseMap ''labeled_paths'' \<noteq> None
                   then map_sum id Some (parsePathLabeledResponse cd resultJSON result)
                   else
                     (case map_of responseMap ''items'' of
                        Some (JArr its) \<Rightarrow>
                          (if its \<noteq> [] then Inr (Some (CollectionData (parseCollectionLabeledData its)))
                           else Inr None)
                      | _ \<Rightarrow> Inr None)))))"

text \<open>\<open>agent_input\<close> is the normalized policy payload of \<open>wasm_payload.go\<close>.\<close>

definition wasm_LabelAgent ::
  "json_codec \<Rightarrow> wasm_call \<Rightarrow> (json \<Rightarrow> guard_error + json) \<Rightarrow> json \<Rightarrow> guard_error + label_agent_result option" where
  "wasm_LabelAgent cd call agent_input policy =
     (case agent_input policy of
        Inl e \<Rightarrow> Inl e
      | Inr input \<Rightarrow>
          (case call ''label_agent'' input of
             Inl e \<Rightarrow> Inl e
           | Inr resultJSON \<Rightarrow>
               (if resultJSON = [] then Inl EmptyResponse
                else map_sum id Some
                  (parseLabelAgentResponse (unmarshal_object cd) (unmarshal_result cd) resultJSON))))"

definition WasmGuard ::
  "string \<Rightarrow> json_codec \<Rightarrow> wasm_call \<Rightarrow> (json \<Rightarrow> guard_error + json) \<Rightarrow> guard" where
  "WasmGuard name cd call agent_input =
     \<lparr>g_Name = name,
      g_LabelAgent = wasm_LabelAgent cd call agent_input,
      g_LabelResource = wasm_LabelResource cd call,
      g_LabelResponse = wasm_LabelResponse cd call\<rparr>"

section \<open>Initializing an agent's labels\<close>

datatype init_error = LabelAgentFailed guard_error | NilLabelAgentResult | BadLabelAgentMode mode_error

definition ApplyLabelAgentResult ::
  "label_agent_result \<Rightarrow> enforcement_mode \<Rightarrow> agent_labels \<Rightarrow> (mode_error + enforcement_mode) \<times> agent_labels" where
  "ApplyLabelAgentResult result defaultMode a =
     (let parsed = (if lar_DIFCMode result \<noteq> [] then ParseEnforcementMode (lar_DIFCMode result)
                    else Inr defaultMode)
      in case parsed of
           Inl e \<Rightarrow> (Inl e, a)
         | Inr m \<Rightarrow>
             (Inr m, AddIntegrityTags (StringsToTags (lar_Integrity result))
                       (AddSecrecyTags (StringsToTags (lar_Secrecy result)) a)))"

definition RunLabelAgent ::
  "guard \<Rightarrow> json \<Rightarrow> enforcement_mode \<Rightarrow> agent_labels \<Rightarrow>
   (init_error + enforcement_mode \<times> label_agent_result) \<times> agent_labels" where
  "RunLabelAgent g payload defaultMode a =
     (case g_LabelAgent g payload of
        Inl e \<Rightarrow> (Inl (LabelAgentFailed e), a)
      | Inr None \<Rightarrow> (Inl NilLabelAgentResult, a)
      | Inr (Some result) \<Rightarrow>
          (case ApplyLabelAgentResult result defaultMode a of
             (Inl e, a') \<Rightarrow> (Inl (BadLabelAgentMode e), a')
           | (Inr m, a') \<Rightarrow> (Inr (m, result), a')))"

definition RunLabelAgentForAgent ::
  "guard \<Rightarrow> json \<Rightarrow> string \<Rightarrow> enforcement_mode \<Rightarrow> agent_registry \<Rightarrow>
   (init_error + enforcement_mode \<times> label_agent_result) \<times> agent_registry" where
  "RunLabelAgentForAgent g payload aid defaultMode r =
     (let (ref, r1) = ar_GetOrCreate aid r;
          (res, a) = RunLabelAgent g payload defaultMode (heap r1 ! ref)
      in (res, r1\<lparr>heap := (heap r1)[ref := a]\<rparr>))"

section \<open>What a guard promises\<close>

text \<open>
  The pipeline dereferences the resource and its two labels: a guard must not return nil ones.
  A guard is total when in addition every response label is a collection of labelled items.
\<close>

definition wf_resource :: "labeled_resource option \<Rightarrow> bool" where
  "wf_resource r = (case r of None \<Rightarrow> False | Some res \<Rightarrow> secrecy res \<noteq> None \<and> integrity res \<noteq> None)"

lemma wf_resource_iff: "wf_resource r \<longleftrightarrow> (\<exists>res. r = Some res \<and> secrecy res \<noteq> None \<and> integrity res \<noteq> None)"
  by (simp add: wf_resource_def split: option.split)

definition wf_items :: "labeled_item list \<Rightarrow> bool" where
  "wf_items its \<longleftrightarrow> (\<forall>it\<in>set its. wf_resource (item_labels it))"

locale labelling_guard =
  fixes label_resource :: "string \<Rightarrow> json \<Rightarrow> guard_error + labeled_resource option \<times> operation"
  assumes resource_wf: "label_resource t args = Inr (r, op) \<Longrightarrow> wf_resource r"
begin

lemma evaluation_returns:
  assumes "label_resource t args = Inr (r, op)"
  shows "returns (Evaluate e (agS a) (agI a) r op)"
proof -
  from resource_wf[OF assms] obtain res where "r = Some res" "integrity res \<noteq> None"
    by (auto simp: wf_resource_iff)
  then show ?thesis
    by (cases op) (auto simp: Evaluate_def returns_not_Panic evaluateRead_Panic_iff
        evaluateWrite_Panic_iff bind_go_Panic_iff split: if_splits)
qed

end

locale total_guard = labelling_guard label_resource
  for label_resource :: "string \<Rightarrow> json \<Rightarrow> guard_error + labeled_resource option \<times> operation" +
  fixes label_response :: "string \<Rightarrow> json \<Rightarrow> json \<Rightarrow> guard_error + labeled_data option"
  assumes response_wf: "label_response t args v = Inr (Some d) \<Longrightarrow> \<exists>c. d = CollectionData c \<and> wf_items (items c)"
begin

lemma filtering_returns:
  assumes "label_response t args v = Inr (Some (CollectionData c))"
  shows "FilterCollection e (agS a) (agI a) c op \<noteq> Panic"
proof -
  from response_wf[OF assms] have wf: "wf_items (items c)" by simp
  show ?thesis
  proof
    assume "FilterCollection e (agS a) (agI a) c op = Panic"
    then obtain it where it: "it \<in> set (items c)" "Evaluate e (agS a) (agI a) (item_labels it) op = Panic"
      by (auto simp: FilterCollection_Panic_iff)
    with wf obtain res where "item_labels it = Some res" "integrity res \<noteq> None"
      by (auto simp: wf_items_def wf_resource_iff)
    with it(2) show False
      by (cases op) (auto simp: Evaluate_def evaluateRead_Panic_iff evaluateWrite_Panic_iff
          bind_go_Panic_iff split: if_splits)
  qed
qed

end

lemma wf_NewLabeledResource [simp]: "wf_resource (Some (NewLabeledResource d))"
  by (simp add: wf_resource_iff NewLabeledResource_def NewFlowLabel_def)

lemma wf_fill [simp]: "wf_resource (Some (fillLabeledResourceFromMap m res))"
  by (simp add: wf_resource_iff fillLabeledResourceFromMap_def NewFlowLabel_def)

lemma wf_pathEntry [simp]: "wf_resource (Some (pathEntryToResource e))"
  by (simp add: pathEntryToResource_def wf_resource_iff NewLabeledResource_def NewFlowLabel_def split: option.split)

interpretation noop: total_guard "g_LabelResource NoopGuard" "g_LabelResponse NoopGuard"
  by unfold_locales (auto simp: NoopGuard_def)

interpretation write_sink: total_guard "g_LabelResource (WriteSinkGuard g)" "g_LabelResponse (WriteSinkGuard g)"
  for g
  by unfold_locales
     (auto simp: WriteSinkGuard_def ws_LabelResource_def wf_resource_iff NewLabeledResource_def
       NewFlowLabel_def split: if_splits)

interpretation wasm: labelling_guard "g_LabelResource (WasmGuard name cd call inp)" for name cd call inp
  by unfold_locales
     (auto simp: WasmGuard_def wasm_LabelResource_def parseResourceResponse_def
       split: sum.splits option.splits json.splits)

text \<open>
  The WebAssembly guard is not total: the legacy collection format lets an item come without
  labels, and filtering it dereferences nil.
\<close>

lemma parse_item_unlabelled:
  "map_of m ''labels'' = None \<Longrightarrow> item_labels (parse_item m) = None"
  by (simp add: parse_item_def)

lemma legacy_unlabelled_panics:
  assumes "JObj m \<in> set its" and "map_of m ''labels'' = None"
  shows "FilterCollection e sl il (parseCollectionLabeledData its) op = Panic"
proof -
  have "parse_item m \<in> set (items (parseCollectionLabeledData its))"
    using assms(1) by (auto simp: parseCollectionLabeledData_def map_filter_def intro!: rev_image_eqI)
  then show ?thesis
    using parse_item_unlabelled[OF assms(2)]
    by (auto simp: FilterCollection_Panic_iff Evaluate_def intro!: bexI[of _ "parse_item m"])
qed

section \<open>The write sink\<close>

text \<open>A public sink takes writes from agents without secrecy tags only, whatever it accepts.\<close>

lemma flows_within_empty [simp]: "flows_within A {} \<longleftrightarrow> A = {}" "flows_within {} A"
  by (auto simp: flows_within_def)

lemma ws_labels:
  "ftags (integrity (fst (ws_LabelResource g t))) = {}"
  "ftags (secrecy (fst (ws_LabelResource g t))) =
     (if sinkVisibility g = SinkVisibilityPublic then {} else set (acceptTags g))"
  "snd (ws_LabelResource g t) = OperationWrite"
  by (simp_all add: ws_LabelResource_def)

lemma ws_write_permitted:
  "write_permitted sl il (fst (ws_LabelResource g t)) \<longleftrightarrow>
     (if sinkVisibility g = SinkVisibilityPublic then ftags sl = {}
      else flows_within (ftags sl) (set (acceptTags g)))"
  by (simp add: write_permitted_def ws_labels)

text \<open>Cloning a guard for a session changes nothing: the normalizations are idempotent.\<close>

lemma lower_char_idem [simp]: "lower_char (lower_char c) = lower_char c"
proof (cases "is_upper_ascii c")
  case True
  then have "(of_char (char_of (of_char c + (32::nat))) :: nat) = of_char c + 32"
    by (simp add: is_upper_ascii_def)
  with True show ?thesis by (simp add: lower_char_def is_upper_ascii_def)
qed (simp add: lower_char_def)

lemma lowercaseASCII_idem [simp]: "lowercaseASCII (lowercaseASCII s) = lowercaseASCII s"
  by (simp add: lowercaseASCII_def comp_def)

section \<open>Initialization\<close>

lemma ApplyLabelAgentResult_error:
  "ApplyLabelAgentResult result m a = (Inl e, a') \<Longrightarrow> a' = a"
  by (auto simp: ApplyLabelAgentResult_def Let_def split: sum.splits)

lemma ApplyLabelAgentResult_ok:
  assumes "ApplyLabelAgentResult result d a = (Inr m, a')"
  shows "tags_of (agSecrecy a') = tags_of (agSecrecy a) \<union> set (trimmed_entries (lar_Secrecy result))"
    and "tags_of (agIntegrity a') = tags_of (agIntegrity a) \<union> set (trimmed_entries (lar_Integrity result))"
    and "m = (if lar_DIFCMode result = [] then d else projr (ParseEnforcementMode (lar_DIFCMode result)))"
  using assms
  by (auto simp: ApplyLabelAgentResult_def Let_def AddIntegrityTags_def AddSecrecyTags_def StringsToTags_trimmed
      split: sum.splits if_splits)

text \<open>A failed initialization leaves the agent's labels as they were.\<close>

lemma RunLabelAgent_error: "RunLabelAgent g payload m a = (Inl e, a') \<Longrightarrow> a' = a"
  by (auto simp: RunLabelAgent_def dest: ApplyLabelAgentResult_error split: sum.splits option.splits prod.splits)

end
