(* ===== verification/Pipeline.thy ===== *)
theory Pipeline imports Guards begin

text \<open>
  \<open>internal/guard/pipeline.go\<close>: phases 0 to 2, 4 and 6 of the enforcement pipeline, shared by the
  MCP server and the HTTP proxy. The registry is the state; an agent is the reference that
  phase 0 obtained. Logging reads labels, and a nil label panics there: that is kept.
\<close>

definition issueArtifactWriteToolName :: string where
  "issueArtifactWriteToolName = ''issue_artifact_write''"

record pipeline_input =
  in_AgentID :: string
  in_ToolName :: string
  in_Args :: json
  in_Guard :: guard
  in_Evaluator :: evaluator
  in_EnforcementMode :: enforcement_mode

record pre_result =
  pre_AgentLabels :: agent_ref
  pre_Resource :: "labeled_resource option"
  pre_Operation :: operation
  pre_CoarseOutcome :: coarse_outcome
  pre_EvalResult :: evaluation_result

record access_denied =
  d_EvalResult :: evaluation_result
  d_Resource :: "labeled_resource option"
  d_AgentLabels :: agent_ref

datatype pre_error = ResourceLabelingFailed guard_error | PipelineAccessDenied access_denied

text \<open>\<open>hash\<close> is \<open>util.HashForLog\<close> with its 16 digits and the prefix \<open>tag:\<close>.\<close>

definition logSafeTags :: "(string \<Rightarrow> string) \<Rightarrow> tag list \<Rightarrow> bool \<Rightarrow> tag list" where
  "logSafeTags hash tags sensitive = (if \<not> sensitive \<or> tags = [] then tags else map hash tags)"

definition RunPipelinePrePhases ::
  "pipeline_input \<Rightarrow> agent_registry \<Rightarrow> ((pre_error + pre_result) \<times> agent_registry) go" where
  "RunPipelinePrePhases inp r =
     (let (ref, r1) = ar_GetOrCreate (in_AgentID inp) r;
          a = heap r1 ! ref
      in case g_LabelResource (in_Guard inp) (in_ToolName inp) (in_Args inp) of
           Inl e \<Rightarrow> Return (Inl (ResourceLabelingFailed e), r1)
         | Inr (resource, operation) \<Rightarrow>
             (if \<not> wf_resource resource then Panic
              else
                bind_go (EvaluateCoarseAccess (in_Evaluator inp) (agS a) (agI a) resource operation)
                  (\<lambda>(coarseOutcome, evalResult).
                    Return
                      (if coarseOutcome = CoarseDenied
                       then (Inl (PipelineAccessDenied \<lparr>d_EvalResult = evalResult, d_Resource = resource,
                                    d_AgentLabels = ref\<rparr>), r1)
                       else (Inr \<lparr>pre_AgentLabels = ref, pre_Resource = resource, pre_Operation = operation,
                                  pre_CoarseOutcome = coarseOutcome, pre_EvalResult = evalResult\<rparr>, r1)))))"

definition HandlePrePhaseError ::
  "pre_error \<Rightarrow> agent_registry \<Rightarrow> (access_denied \<times> string option) option go" where
  "HandlePrePhaseError err r =
     (case err of
        ResourceLabelingFailed _ \<Rightarrow> Return None
      | PipelineAccessDenied d \<Rightarrow>
          (let a = heap r ! d_AgentLabels d
           in case d_Resource d of
                None \<Rightarrow> Panic
              | Some res \<Rightarrow>
                  bind_go (FormatViolationError (d_EvalResult d) (agS a) (agI a) res)
                    (\<lambda>msg. Return (Some (d, msg)))))"

definition RunPipelinePhase4 :: "pipeline_input \<Rightarrow> pre_result \<Rightarrow> json \<Rightarrow> guard_error + labeled_data option" where
  "RunPipelinePhase4 inp pre responseData =
     (if \<not> ShouldCallLabelResponse (pre_Operation pre) (in_EnforcementMode inp) \<and>
         in_ToolName inp \<noteq> issueArtifactWriteToolName
      then Inr None
      else g_LabelResponse (in_Guard inp) (in_ToolName inp) (in_Args inp) responseData)"

text \<open>A call through a pointer that may panic.\<close>

definition on_agent_go ::
  "(agent_labels \<Rightarrow> agent_labels go) \<Rightarrow> agent_ref \<Rightarrow> agent_registry \<Rightarrow> agent_registry go" where
  "on_agent_go f ref r = bind_go (f (heap r ! ref)) (\<lambda>a. Return (r\<lparr>heap := (heap r)[ref := a]\<rparr>))"

definition RunPipelinePhase6 ::
  "pre_result \<Rightarrow> labeled_data option \<Rightarrow> enforcement_mode \<Rightarrow> agent_registry \<Rightarrow> agent_registry go" where
  "RunPipelinePhase6 pre labeledData m r =
     (if \<not> ShouldAccumulateReadLabels (pre_Operation pre) m then Return r
      else
        (case labeledData of
           Some d \<Rightarrow> on_agent_go (AccumulateFromRead (data_Overall d)) (pre_AgentLabels pre) r
         | None \<Rightarrow> on_agent_go (AccumulateFromRead (pre_Resource pre)) (pre_AgentLabels pre) r))"

section \<open>The pre-phases\<close>

text \<open>With a guard that keeps its promise the pre-phases never panic.\<close>

lemma EvaluateCoarseAccess_returns:
  assumes "wf_resource resource"
  shows "\<exists>c er. EvaluateCoarseAccess e (agS a) (agI a) resource op = Return (c, er)"
proof (cases "EvaluateCoarseAccess e (agS a) (agI a) resource op")
  case Panic
  with assms show ?thesis
    by (cases op) (auto simp: EvaluateCoarseAccess_Panic_iff Evaluate_def wf_resource_iff
        evaluateRead_Panic_iff evaluateWrite_Panic_iff bind_go_Panic_iff split: if_splits)
qed auto

lemma PrePhases_returns:
  assumes "\<And>t args r op. g_LabelResource (in_Guard inp) t args = Inr (r, op) \<Longrightarrow> wf_resource r"
  shows "RunPipelinePrePhases inp r \<noteq> Panic"
proof -
  obtain ref r1 where "ar_GetOrCreate (in_AgentID inp) r = (ref, r1)" by fastforce
  moreover have "EvaluateCoarseAccess e (agS a) (agI a) res op = Panic \<Longrightarrow> wf_resource res \<Longrightarrow> False" for e a res op
    using EvaluateCoarseAccess_returns[of res e a op] by auto
  ultimately show ?thesis
    using assms by (auto simp: RunPipelinePrePhases_def Let_def bind_go_Panic_iff split: sum.splits) blast+
qed

text \<open>What it means to have passed, or to have been stopped.\<close>

lemma PrePhases_Return:
  assumes "RunPipelinePrePhases inp r = Return (Inr pre, r1)"
  obtains ref res where "ar_GetOrCreate (in_AgentID inp) r = (ref, r1)" "pre_AgentLabels pre = ref"
    "g_LabelResource (in_Guard inp) (in_ToolName inp) (in_Args inp) = Inr (Some res, pre_Operation pre)"
    "pre_Resource pre = Some res" "secrecy res \<noteq> None" "integrity res \<noteq> None"
    "EvaluateCoarseAccess (in_Evaluator inp) (agS (heap r1 ! ref)) (agI (heap r1 ! ref)) (Some res)
       (pre_Operation pre) = Return (pre_CoarseOutcome pre, pre_EvalResult pre)"
    "pre_CoarseOutcome pre \<noteq> CoarseDenied"
proof -
  obtain ref where g: "ar_GetOrCreate (in_AgentID inp) r = (ref, r1)"
    using assms by (cases "ar_GetOrCreate (in_AgentID inp) r")
      (auto simp: RunPipelinePrePhases_def Let_def bind_go_Return_iff split: sum.splits if_splits)
  with assms that show thesis
    by (auto simp: RunPipelinePrePhases_def Let_def bind_go_Return_iff wf_resource_iff split: sum.splits if_splits)
qed

lemma PrePhases_denied:
  assumes "RunPipelinePrePhases inp r = Return (Inl (PipelineAccessDenied d), r1)"
  obtains res where "ar_GetOrCreate (in_AgentID inp) r = (d_AgentLabels d, r1)"
    "d_Resource d = Some res" "secrecy res \<noteq> None" "integrity res \<noteq> None" "\<not> IsAllowed (d_EvalResult d)"
proof -
  obtain ref where g: "ar_GetOrCreate (in_AgentID inp) r = (ref, r1)"
    using assms by (cases "ar_GetOrCreate (in_AgentID inp) r")
      (auto simp: RunPipelinePrePhases_def Let_def bind_go_Return_iff split: sum.splits if_splits)
  with assms that show thesis
    by (auto simp: RunPipelinePrePhases_def Let_def bind_go_Return_iff wf_resource_iff
        dest!: EvaluateCoarseAccess_outcome(4) split: sum.splits if_splits)
qed

lemma PrePhases_registry:
  "RunPipelinePrePhases inp r = Return (x, r1) \<Longrightarrow> r1 = snd (ar_GetOrCreate (in_AgentID inp) r)"
  by (auto simp: RunPipelinePrePhases_def Let_def bind_go_Return_iff split: sum.splits if_splits prod.splits)

text \<open>A denial can always be reported: formatting it does not panic and gives a message.\<close>

lemma HandlePrePhaseError_denied:
  assumes "RunPipelinePrePhases inp r = Return (Inl (PipelineAccessDenied d), r1)"
  shows "\<exists>msg. HandlePrePhaseError (PipelineAccessDenied d) r1 = Return (Some (d, Some msg))"
proof -
  from assms obtain res where "d_Resource d = Some res" "secrecy res \<noteq> None" "integrity res \<noteq> None"
      "\<not> IsAllowed (d_EvalResult d)" by (rule PrePhases_denied)
  moreover from this have "decision (d_EvalResult d) \<noteq> AccessAllow" by (auto simp: IsAllowed_def)
  ultimately obtain msg where "FormatViolationError (d_EvalResult d) (agS (heap r1 ! d_AgentLabels d))
      (agI (heap r1 ! d_AgentLabels d)) res = Return (Some msg)"
    using FormatViolationError_Some[of "d_EvalResult d" "agS (heap r1 ! d_AgentLabels d)"
      "agI (heap r1 ! d_AgentLabels d)" res] by auto
  with \<open>d_Resource d = Some res\<close> show ?thesis by (simp add: HandlePrePhaseError_def)
qed

section \<open>Phase 6\<close>

lemma on_agent_go_Return:
  "on_agent_go f ref r = Return r' \<Longrightarrow> \<exists>a. f (heap r ! ref) = Return a \<and> r' = r\<lparr>heap := (heap r)[ref := a]\<rparr>"
  by (auto simp: on_agent_go_def bind_go_Return_iff)

lemma data_Overall_Some: "(\<And>s. d \<noteq> SimpleData s) \<Longrightarrow> data_Overall d \<noteq> None"
  by (cases d) (auto simp: data_Overall_def)

text \<open>The step that phase 6 takes is the read step of the registry.\<close>

lemma Phase6_step:
  assumes "RunPipelinePhase6 pre ld m r = Return r'"
  shows "r' = (if ShouldAccumulateReadLabels (pre_Operation pre) m
    then registry_step (ReadOp (pre_AgentLabels pre)
           (case ld of None \<Rightarrow> pre_Resource pre | Some d \<Rightarrow> data_Overall d)) r
    else r)"
  using assms
  by (auto simp: RunPipelinePhase6_def on_agent_def read_labels_def dest!: on_agent_go_Return
      split: option.splits if_splits)

lemma Phase6_ok: "RunPipelinePhase6 pre ld m r = Return r' \<Longrightarrow> ar_ok r \<Longrightarrow> ar_ok r'"
proof -
  assume s: "RunPipelinePhase6 pre ld m r = Return r'" and ok: "ar_ok r"
  show "ar_ok r'" unfolding Phase6_step[OF s] using agent_steps.step_ok[OF ok] ok by presburger
qed

end
