(* ===== verification/PathSecurity.thy ===== *)
theory PathSecurity imports PathLabels begin

text \<open>
  What resolving and rebuilding several collections guarantees: every element of every named
  collection and every labelled pointer becomes an item with the labels the guard gave it, each
  item is found under its own path, and the rebuilt response does not depend on the data of the
  items that were filtered out.
\<close>

section \<open>Pointers of collection elements\<close>

lemma value_at_Cons_iff:
  "value_at s p v (q # qs) = Inr w \<longleftrightarrow>
     (if q = [] \<and> \<not> s then value_at s p v qs = Inr w
      else (\<exists>fs u. v = JObj fs \<and> map_of fs q = Some u \<and> value_at s p u qs = Inr w) \<or>
        (\<exists>xs idx. v = JArr xs \<and> atoi q = Some idx \<and> 0 \<le> idx \<and> idx < int (length xs) \<and>
           (s \<longrightarrow> q = itoa (nat idx)) \<and> value_at s p (xs ! nat idx) qs = Inr w))"
proof (cases v)
  case (JArr xs)
  then show ?thesis by (cases "atoi q"; cases s) auto
next
  case (JObj fs)
  then show ?thesis by (cases "map_of fs q"; cases s) auto
qed (cases s; auto)+

lemma value_at_any_path:
  "value_at s p v parts = Inr w \<longleftrightarrow> value_at s p' v parts = Inr w"
proof (induction parts arbitrary: v)
  case (Cons q qs)
  then show ?case by (simp only: value_at_Cons_iff)
qed simp

lemma value_at_append:
  "value_at s p v ps = Inr u \<Longrightarrow> value_at s p v (ps @ qs) = value_at s p u qs"
proof (induction ps arbitrary: v)
  case (Cons q ps)
  show ?case
  proof (cases v)
    case (JArr xs)
    with Cons show ?thesis by (cases "atoi q"; cases s) (auto split: if_splits)
  next
    case (JObj fs)
    with Cons show ?thesis by (cases "map_of fs q"; cases s) (auto split: if_splits)
  qed (use Cons in \<open>cases s; auto split: if_splits\<close>)+
qed simp

lemma value_at_snoc_index:
  assumes "value_at True p v parts = Inr (JArr xs)" and "i < length xs" and "i < 2 ^ 63"
  shows "value_at True p v (parts @ [itoa i]) = Inr (xs ! i)"
  using value_at_append[OF assms(1), of "[itoa i]"] assms(2,3) by (simp add: atoi_itoa)

lemma join_pointer_snoc: "join_pointer (parts @ [p]) = join_pointer parts @ ''/'' @ escapeJSONPointerToken p"
  by (simp add: join_pointer_def)

lemma split_element_path:
  assumes "canonical_pointer path = path"
  shows "splitJSONPointer (path @ ''/'' @ itoa i) = splitJSONPointer path @ [itoa i]"
proof -
  have "path @ ''/'' @ itoa i = join_pointer (splitJSONPointer path @ [itoa i])"
    using assms by (simp add: join_pointer_snoc canonical_pointer_def)
  moreover have "splitJSONPointer path @ [itoa i] \<noteq> [[]]" by simp
  ultimately show ?thesis by (metis split_join_pointer)
qed

lemma canonical_element_path:
  assumes "canonical_pointer path = path"
  shows "canonical_pointer (path @ ''/'' @ itoa i) = path @ ''/'' @ itoa i"
  using assms split_element_path[OF assms, of i] by (simp add: canonical_pointer_def join_pointer_snoc)

lemma element_path_inject:
  "p @ ''/'' @ itoa i = q @ ''/'' @ itoa j \<longleftrightarrow> p = q \<and> i = j"
proof
  assume e: "p @ ''/'' @ itoa i = q @ ''/'' @ itoa j"
  have "CHR ''/'' \<notin> set (itoa k)" for k by (rule itoa_no_sep) (simp add: is_digit_def)
  then have "last_index CHR ''/'' (r @ ''/'' @ itoa k) = Some (length r)" for r k
    by (simp add: last_index_fresh)
  with e have "length p = length q" by (metis option.inject)
  with e show "p = q \<and> i = j" by auto
qed simp

section \<open>The items\<close>

definition labelled_by :: "(string \<times> path_entry) list \<Rightarrow> path_entry option \<Rightarrow> labeled_item \<Rightarrow> bool" where
  "labelled_by labels dflt it \<longleftrightarrow>
     (\<exists>e. item_labels it = Some (pathEntryToResource (Some e)) \<and>
        (case map_of labels (item_path it) of Some e' \<Rightarrow> e = e' | None \<Rightarrow> dflt = Some e))"

definition without :: "string list \<Rightarrow> (string \<times> path_entry) list \<Rightarrow> (string \<times> path_entry) list" where
  "without paths labels = fold AList.delete paths labels"

lemma map_of_without: "map_of (without paths labels) q = (if q \<in> set paths then None else map_of labels q)"
  by (induction paths arbitrary: labels) (auto simp: without_def)

lemma without_simps [simp]:
  "without [] labels = labels"
  "without (p # ps) labels = without ps (AList.delete p labels)"
  "without (ps @ qs) labels = without qs (without ps labels)"
  by (simp_all add: without_def)

lemma labelled_by_without:
  "labelled_by (without paths labels) dflt it \<Longrightarrow> item_path it \<notin> set paths \<Longrightarrow> labelled_by labels dflt it"
  by (auto simp: labelled_by_def map_of_without)

lemma label_items_spec:
  assumes "label_items dflt path n xs labels acc = Inr (labels', acc')"
  shows "\<exists>its. acc' = acc @ its \<and> map item_data its = xs \<and>
    map item_path its = map (\<lambda>i. path @ ''/'' @ itoa i) [n..<n + length xs] \<and>
    (\<forall>it\<in>set its. labelled_by labels dflt it) \<and> labels' = without (map item_path its) labels"
  using assms
proof (induction dflt path n xs labels acc arbitrary: labels' acc' rule: label_items.induct)
  case (1 dflt path index labels acc)
  then show ?case by simp
next
  case (2 dflt path index item rest labels acc)
  let ?p = "path @ ''/'' @ itoa index"
  let ?entry = "case map_of labels ?p of Some e \<Rightarrow> Some e | None \<Rightarrow> dflt"
  let ?it = "\<lparr>item_data = item, item_labels = Some (pathEntryToResource ?entry), item_path = ?p\<rparr>"
  from "2.prems" have e: "?entry \<noteq> None"
    and r: "label_items dflt path (Suc index) rest (AList.delete ?p labels) (acc @ [?it]) = Inr (labels', acc')"
    by (auto simp: Let_def split: if_splits)
  obtain its where its: "acc' = (acc @ [?it]) @ its" "map item_data its = rest"
      "map item_path its = map (\<lambda>i. path @ ''/'' @ itoa i) [Suc index..<Suc index + length rest]"
      "\<forall>it\<in>set its. labelled_by (AList.delete ?p labels) dflt it"
      "labels' = without (map item_path its) (AList.delete ?p labels)"
    using "2.IH"[OF refl refl e r] by blast
  have fresh: "item_path it \<noteq> ?p" if "it \<in> set its" for it
  proof -
    from that have "item_path it \<in> set (map item_path its)" by simp
    then show ?thesis unfolding its(3) by (auto simp: element_path_inject[simplified])
  qed
  have "labelled_by labels dflt it" if "it \<in> set its" for it
    using labelled_by_without[of "[?p]" labels dflt it] its(4) fresh[OF that] that by simp
  moreover have "labelled_by labels dflt ?it"
    using e by (auto simp: labelled_by_def split: option.splits)
  moreover have "[index..<index + length (item # rest)] = index # [Suc index..<Suc index + length rest]"
    using upt_conv_Cons[of index "index + length (item # rest)"] by simp
  ultimately show ?case
    using its by (intro exI[where x = "?it # its"]) simp
qed

lemma label_items_item:
  assumes "label_items dflt path 0 xs labels acc = Inr (labels', acc @ its)"
  shows "it \<in> set its \<longleftrightarrow> (\<exists>i<length xs. it = its ! i)"
    and "i < length xs \<Longrightarrow> item_path (its ! i) = path @ ''/'' @ itoa i \<and> item_data (its ! i) = xs ! i"
proof -
  from label_items_spec[OF assms] have d: "map item_data its = xs"
    and p: "map item_path its = map (\<lambda>i. path @ ''/'' @ itoa i) [0..<length xs]" by auto
  have l: "length its = length xs" using d by (metis length_map)
  then show "it \<in> set its \<longleftrightarrow> (\<exists>i<length xs. it = its ! i)" by (auto simp: in_set_conv_nth)
  assume i: "i < length xs"
  then have "item_path (its ! i) = map item_path its ! i" "item_data (its ! i) = map item_data its ! i"
    using l by simp_all
  with i show "item_path (its ! i) = path @ ''/'' @ itoa i \<and> item_data (its ! i) = xs ! i"
    unfolding p d by simp
qed

text \<open>An element of one of the collections, as an item.\<close>

definition element_of :: "path_labels \<Rightarrow> json \<Rightarrow> string \<Rightarrow> nat \<Rightarrow> labeled_item \<Rightarrow> bool" where
  "element_of pl v path i it \<longleftrightarrow>
     (\<exists>xs. extractValueAtPath pl v path = Inr (JArr xs) \<and> i < length xs \<and>
        item_path it = path @ ''/'' @ itoa i \<and> item_data it = xs ! i)"

lemma extractItemsAtPath_Inr_iff:
  "path \<noteq> [] \<Longrightarrow> extractItemsAtPath pl v path = Inr x \<longleftrightarrow>
     (\<exists>xs. x = Some xs \<and> extractValueAtPath pl v path = Inr (JArr xs))"
  by (auto simp: extractItemsAtPath_def split: sum.splits json.splits)

lemma label_collections_spec:
  assumes "label_collections pl v seen paths labels acc = Inr (labels', acc')"
    and "distinct paths" and "[] \<notin> set paths"
  shows "\<exists>its. acc' = acc @ its \<and> labels' = without (map item_path its) labels \<and>
    (\<forall>it\<in>set its. labelled_by labels (DefaultLabels pl) it \<and> (\<exists>path\<in>set paths. \<exists>i. element_of pl v path i it)) \<and>
    (\<forall>path\<in>set paths. \<exists>xs. extractValueAtPath pl v path = Inr (JArr xs) \<and>
       (\<forall>i<length xs. \<exists>it\<in>set its. element_of pl v path i it))"
  using assms
proof (induction pl v seen paths labels acc arbitrary: labels' acc' rule: label_collections.induct)
  case (1 pl unwrapped seen labels acc)
  then show ?case by simp
next
  case (2 pl v seen path paths labels acc)
  from "2.prems"(1) have a: "seen_ancestor seen path = None" by (auto split: option.splits)
  with "2.prems"(1) obtain x0 where x0: "extractItemsAtPath pl v path = Inr x0" by (auto split: sum.splits)
  have "path \<noteq> []" using "2.prems"(3) by auto
  note items_iff = extractItemsAtPath_Inr_iff[OF this]
  from x0 obtain xs where xs: "x0 = Some xs" unfolding items_iff by blast
  note x = x0[unfolded xs]
  from "2.prems"(1) a x obtain labels1 acc1 where
      li: "label_items (DefaultLabels pl) path 0 xs labels acc = Inr (labels1, acc1)"
      and lc: "label_collections pl v seen paths labels1 acc1 = Inr (labels', acc')"
    by (auto split: sum.splits)
  have x': "extractValueAtPath pl v path = Inr (JArr xs)"
    using x unfolding items_iff by blast
  from label_items_spec[OF li] obtain its1 where
      its1: "acc1 = acc @ its1" "\<forall>it\<in>set its1. labelled_by labels (DefaultLabels pl) it"
      "labels1 = without (map item_path its1) labels" by blast
  note item = label_items_item[OF li[unfolded its1(1)]]
  have el: "element_of pl v path i (its1 ! i)" if "i < length xs" for i
    using item(2)[OF that] x' that by (simp add: element_of_def)
  have el1: "\<forall>it\<in>set its1. \<exists>i. element_of pl v path i it"
    using el item(1) by metis
  have all1: "\<forall>i<length xs. \<exists>it\<in>set its1. element_of pl v path i it"
    using el item(1) by metis
  obtain its2 where its2: "acc' = acc1 @ its2" "labels' = without (map item_path its2) labels1"
      "\<forall>it\<in>set its2. labelled_by labels1 (DefaultLabels pl) it \<and> (\<exists>path\<in>set paths. \<exists>i. element_of pl v path i it)"
      "\<forall>path\<in>set paths. \<exists>xs. extractValueAtPath pl v path = Inr (JArr xs) \<and>
         (\<forall>i<length xs. \<exists>it\<in>set its2. element_of pl v path i it)"
    using "2.IH"[of x0 "(labels1, acc1)" labels1 acc1, OF a x0 _ refl lc] li "2.prems"(2,3) xs by auto
  have "item_path it \<notin> set (map item_path its1)" if it: "it \<in> set its2" for it
  proof
    assume "item_path it \<in> set (map item_path its1)"
    then obtain it1 where "it1 \<in> set its1" "item_path it = item_path it1" by auto
    with el1 its2(3) it obtain q i j where "q \<in> set paths" "q @ ''/'' @ itoa j = path @ ''/'' @ itoa i"
      unfolding element_of_def by metis
    with "2.prems"(2) show False by (auto simp: element_path_inject[simplified])
  qed
  then have lab2: "\<forall>it\<in>set its2. labelled_by labels (DefaultLabels pl) it"
    using its2(3) labelled_by_without unfolding its1(3) by blast
  show ?case
  proof (intro exI[where x = "its1 @ its2"] conjI)
    show "acc' = acc @ its1 @ its2" "labels' = without (map item_path (its1 @ its2)) labels"
      using its1 its2 by simp_all
    show "\<forall>it\<in>set (its1 @ its2). labelled_by labels (DefaultLabels pl) it \<and>
        (\<exists>q\<in>set (path # paths). \<exists>i. element_of pl v q i it)"
      using its1(2) its2(3) lab2 el1 by (metis Un_iff list.set_intros set_append)
    show "\<forall>q\<in>set (path # paths). \<exists>xs. extractValueAtPath pl v q = Inr (JArr xs) \<and>
       (\<forall>i<length xs. \<exists>it\<in>set (its1 @ its2). element_of pl v q i it)"
      using its2(4) all1 x' by (metis Un_iff set_ConsD set_append)
  qed
qed

lemma label_subtrees_spec:
  assumes "label_subtrees pl v labels ls acc = Inr acc'"
  shows "\<exists>its. acc' = acc @ its \<and>
    (\<forall>it\<in>set its. \<exists>l\<in>set ls. item_path it = pl_Path l \<and>
        extractValueAtPath pl v (pl_Path l) = Inr (item_data it) \<and>
        item_labels it = Some (pathEntryToResource (Some (pl_Labels l)))) \<and>
    (\<forall>l\<in>set ls. map_of labels (pl_Path l) \<noteq> None \<longrightarrow>
        (\<exists>it\<in>set its. item_path it = pl_Path l \<and> item_labels it = Some (pathEntryToResource (Some (pl_Labels l)))))"
  using assms
proof (induction pl v labels ls acc arbitrary: acc' rule: label_subtrees.induct)
  case (2 pl v labels l ls acc)
  show ?case
  proof (cases "map_of labels (pl_Path l)")
    case None
    with 2 show ?thesis by fastforce
  next
    case (Some e)
    with "2.prems" obtain cur where cur: "extractValueAtPath pl v (pl_Path l) = Inr cur"
      by (auto split: sum.splits)
    let ?it = "\<lparr>item_data = cur, item_labels = Some (pathEntryToResource (Some (pl_Labels l))), item_path = pl_Path l\<rparr>"
    from Some cur "2.prems" have "label_subtrees pl v labels ls (acc @ [?it]) = Inr acc'" by simp
    from "2.IH"(2)[OF _ cur this] Some obtain its where "acc' = (acc @ [?it]) @ its"
      "\<forall>it\<in>set its. \<exists>l\<in>set ls. item_path it = pl_Path l \<and>
        extractValueAtPath pl v (pl_Path l) = Inr (item_data it) \<and>
        item_labels it = Some (pathEntryToResource (Some (pl_Labels l)))"
      "\<forall>l\<in>set ls. map_of labels (pl_Path l) \<noteq> None \<longrightarrow>
        (\<exists>it\<in>set its. item_path it = pl_Path l \<and> item_labels it = Some (pathEntryToResource (Some (pl_Labels l))))"
      by auto
    with cur show ?thesis by (intro exI[where x = "?it # its"]) auto
  qed
qed simp

lemma collect_labels_spec:
  assumes "collect_labels ls m = Inr m'"
  shows "distinct (map pl_Path ls)"
    and "\<forall>l\<in>set ls. canonical_pointer (pl_Path l) = pl_Path l \<and> map_of m (pl_Path l) = None \<and>
           map_of m' (pl_Path l) = Some (pl_Labels l)"
    and "\<forall>q. q \<notin> pl_Path ` set ls \<longrightarrow> map_of m' q = map_of m q"
proof -
  have "distinct (map pl_Path ls) \<and>
    (\<forall>l\<in>set ls. canonical_pointer (pl_Path l) = pl_Path l \<and> map_of m (pl_Path l) = None \<and>
           map_of m' (pl_Path l) = Some (pl_Labels l)) \<and>
    (\<forall>q. q \<notin> pl_Path ` set ls \<longrightarrow> map_of m' q = map_of m q)"
    using assms
  proof (induction ls m arbitrary: m' rule: collect_labels.induct)
    case (2 l ls m)
    from "2.prems" have ok: "\<not> (canonical_pointer (pl_Path l) \<noteq> pl_Path l \<or> map_of m (pl_Path l) \<noteq> None)"
      and r: "collect_labels ls (AList.update (pl_Path l) (pl_Labels l) m) = Inr m'"
      by (auto split: if_splits)
    note IH = "2.IH"[OF ok r]
    have "pl_Path l \<notin> pl_Path ` set ls" using IH by (auto split: if_splits)
    then show ?case using IH ok by (auto split: if_splits)
  qed simp
  then show "distinct (map pl_Path ls)"
    and "\<forall>l\<in>set ls. canonical_pointer (pl_Path l) = pl_Path l \<and> map_of m (pl_Path l) = None \<and>
           map_of m' (pl_Path l) = Some (pl_Labels l)"
    and "\<forall>q. q \<notin> pl_Path ` set ls \<longrightarrow> map_of m' q = map_of m q"
    by blast+
qed

lemma check_collection_paths_None:
  "check_collection_paths seen ps = None \<longleftrightarrow>
     distinct ps \<and> set seen \<inter> set ps = {} \<and> (\<forall>p\<in>set ps. prefix ''/'' p \<and> canonical_pointer p = p)"
  by (induction seen ps rule: check_collection_paths.induct) auto

section \<open>Resolution is complete and exact\<close>

lemma resolveCollections_parts:
  assumes "resolveCollections pl paths v = Inr its"
  obtains labels rest its1 its2 where
    "collect_labels (LabeledPaths pl) [] = Inr labels" "check_collection_paths [] paths = None"
    "label_collections pl v paths paths labels [] = Inr (rest, its1)"
    "label_subtrees pl v rest (LabeledPaths pl) its1 = Inr its"
  using assms by (auto simp: resolveCollections_def split: sum.splits option.splits)

text \<open>The two kinds of items: elements of a collection, and subtrees with a label of their own.\<close>

lemma resolveCollections_spec:
  assumes "resolveCollections pl paths v = Inr its"
  shows "\<forall>it\<in>set its.
      (\<exists>path\<in>set paths. \<exists>i. element_of pl v path i it) \<or>
      (\<exists>l\<in>set (LabeledPaths pl). item_path it = pl_Path l \<and> extractValueAtPath pl v (pl_Path l) = Inr (item_data it))"
    and "\<forall>path\<in>set paths. \<exists>xs. extractValueAtPath pl v path = Inr (JArr xs) \<and>
      (\<forall>i<length xs. \<exists>it\<in>set its. element_of pl v path i it)"
    and "\<forall>l\<in>set (LabeledPaths pl). \<exists>it\<in>set its. item_path it = pl_Path l \<and>
      item_labels it = Some (pathEntryToResource (Some (pl_Labels l)))"
    and "\<forall>it\<in>set its. \<exists>e. item_labels it = Some (pathEntryToResource (Some e))"
    and "\<forall>path\<in>set paths. canonical_pointer path = path" and "\<forall>l\<in>set (LabeledPaths pl). canonical_pointer (pl_Path l) = pl_Path l"
proof -
  obtain labels rest its1 its2 where
    cl: "collect_labels (LabeledPaths pl) [] = Inr labels" and cp: "check_collection_paths [] paths = None"
    and lc: "label_collections pl v paths paths labels [] = Inr (rest, its1)"
    and ls: "label_subtrees pl v rest (LabeledPaths pl) its1 = Inr its"
    using resolveCollections_parts[OF assms] by metis
  note labels = collect_labels_spec[OF cl]
  note paths = cp[unfolded check_collection_paths_None]
  have nonempty: "[] \<notin> set paths" using paths by auto
  obtain A where A: "its1 = A" "rest = without (map item_path A) labels"
    "\<forall>it\<in>set A. labelled_by labels (DefaultLabels pl) it \<and> (\<exists>path\<in>set paths. \<exists>i. element_of pl v path i it)"
    "\<forall>path\<in>set paths. \<exists>xs. extractValueAtPath pl v path = Inr (JArr xs) \<and>
       (\<forall>i<length xs. \<exists>it\<in>set A. element_of pl v path i it)"
    using label_collections_spec[OF lc _ nonempty] paths by auto
  obtain B where B: "its = its1 @ B"
    "\<forall>it\<in>set B. \<exists>l\<in>set (LabeledPaths pl). item_path it = pl_Path l \<and>
        extractValueAtPath pl v (pl_Path l) = Inr (item_data it) \<and>
        item_labels it = Some (pathEntryToResource (Some (pl_Labels l)))"
    "\<forall>l\<in>set (LabeledPaths pl). map_of rest (pl_Path l) \<noteq> None \<longrightarrow>
        (\<exists>it\<in>set B. item_path it = pl_Path l \<and> item_labels it = Some (pathEntryToResource (Some (pl_Labels l))))"
    using label_subtrees_spec[OF ls] by blast
  have its: "set its = set A \<union> set B" using A(1) B(1) by simp
  show "\<forall>it\<in>set its.
      (\<exists>path\<in>set paths. \<exists>i. element_of pl v path i it) \<or>
      (\<exists>l\<in>set (LabeledPaths pl). item_path it = pl_Path l \<and> extractValueAtPath pl v (pl_Path l) = Inr (item_data it))"
    using A(3) B(2) its by blast
  show "\<forall>path\<in>set paths. \<exists>xs. extractValueAtPath pl v path = Inr (JArr xs) \<and>
      (\<forall>i<length xs. \<exists>it\<in>set its. element_of pl v path i it)"
    using A(4) its by (metis Un_iff)
  show "\<forall>it\<in>set its. \<exists>e. item_labels it = Some (pathEntryToResource (Some e))"
    using A(3) B(2) its unfolding labelled_by_def by blast
  show "\<forall>path\<in>set paths. canonical_pointer path = path" using paths by blast
  show "\<forall>l\<in>set (LabeledPaths pl). canonical_pointer (pl_Path l) = pl_Path l" using labels(2) by blast
  show "\<forall>l\<in>set (LabeledPaths pl). \<exists>it\<in>set its. item_path it = pl_Path l \<and>
      item_labels it = Some (pathEntryToResource (Some (pl_Labels l)))"
  proof
    fix l assume l: "l \<in> set (LabeledPaths pl)"
    with labels(2) have m: "map_of labels (pl_Path l) = Some (pl_Labels l)" by blast
    show "\<exists>it\<in>set its. item_path it = pl_Path l \<and> item_labels it = Some (pathEntryToResource (Some (pl_Labels l)))"
    proof (cases "pl_Path l \<in> item_path ` set A")
      case True
      then obtain it where it: "it \<in> set A" "item_path it = pl_Path l" by auto
      with A(3) m have "item_labels it = Some (pathEntryToResource (Some (pl_Labels l)))"
        by (auto simp: labelled_by_def)
      with it its show ?thesis by blast
    next
      case False
      with m have "map_of rest (pl_Path l) \<noteq> None" by (simp add: A(2) map_of_without)
      with B(3) l its show ?thesis by blast
    qed
  qed
qed

text \<open>Every item is where its path says. JSON arrays have fewer than \<open>2 ^ 63\<close> elements (an \<open>int\<close> indexes them).\<close>

fun arrays_indexable :: "json \<Rightarrow> bool" where
  "arrays_indexable (JArr xs) = (length xs < 2 ^ 63 \<and> (\<forall>x\<in>set xs. arrays_indexable x))"
| "arrays_indexable (JObj fs) = (\<forall>(k, v)\<in>set fs. arrays_indexable v)"
| "arrays_indexable _ = True"

lemma value_at_indexable:
  "value_at s p v parts = Inr w \<Longrightarrow> arrays_indexable v \<Longrightarrow> arrays_indexable w"
proof (induction parts arbitrary: v)
  case (Cons q qs)
  from Cons.prems(1) show ?case
    unfolding value_at_Cons_iff
    using Cons.IH Cons.prems(2) by (fastforce dest: map_of_SomeD split: if_splits)
qed simp

lemma item_located:
  assumes "resolveCollections pl paths v = Inr its" and "it \<in> set its"
    and "ItemsPaths pl = Some paths" and "arrays_indexable v"
  shows "value_at True p v (splitJSONPointer (item_path it)) = Inr (item_data it)"
    and "canonical_pointer (item_path it) = item_path it"
proof -
  note spec = resolveCollections_spec[OF assms(1)]
  have "value_at True p v (splitJSONPointer (item_path it)) = Inr (item_data it) \<and>
    canonical_pointer (item_path it) = item_path it"
  proof (cases "\<exists>path\<in>set paths. \<exists>i. element_of pl v path i it")
    case True
    then obtain path i xs where e: "path \<in> set paths" "extractValueAtPath pl v path = Inr (JArr xs)"
        "i < length xs" "item_path it = path @ ''/'' @ itoa i" "item_data it = xs ! i"
      by (auto simp: element_of_def)
    have c: "canonical_pointer path = path" using spec(5) e(1) by blast
    from e(2) have v1: "value_at True p v (splitJSONPointer path) = Inr (JArr xs)"
      using assms(3) value_at_any_path[of True path v _ _ p] by (simp add: extractValueAtPath_def)
    from value_at_indexable[OF this assms(4)] e(3) have "i < 2 ^ 63" by simp
    from value_at_snoc_index[OF v1 e(3) this] show ?thesis
      using e(4,5) split_element_path[OF c, of i] canonical_element_path[OF c, of i] by simp
  next
    case False
    with spec(1) assms(2) obtain l where l: "l \<in> set (LabeledPaths pl)" "item_path it = pl_Path l"
        "extractValueAtPath pl v (pl_Path l) = Inr (item_data it)" by blast
    then show ?thesis
      using spec(6) assms(3) value_at_any_path[of True "pl_Path l" v _ _ p] by (auto simp: extractValueAtPath_def)
  qed
  then show "value_at True p v (splitJSONPointer (item_path it)) = Inr (item_data it)"
    and "canonical_pointer (item_path it) = item_path it" by blast+
qed

section \<open>The rebuilt response\<close>

definition denied_paths :: "filtered_item_detail list \<Rightarrow> string list" where
  "denied_paths fil = map (\<lambda>d. item_path (filtered_item d)) fil"

text \<open>
  Two MCP envelopes that differ only in what \<open>rebuildCollections\<close> overwrites: the content, and
  the structured content when it is not null. The masked entries hold None there.
\<close>

fun mask_entry :: "string \<times> json \<Rightarrow> string \<times> json option" where
  "mask_entry (k, v) = (k, if k = ''content'' \<or> (k = ''structuredContent'' \<and> v \<noteq> JNull) then None else Some v)"

definition same_envelope :: "json_object \<Rightarrow> json_object \<Rightarrow> bool" where
  "same_envelope a b \<longleftrightarrow> distinct (keys_of a) \<and> map mask_entry a = map mask_entry b"

fun unmask_entry :: "json \<Rightarrow> json \<Rightarrow> string \<times> json option \<Rightarrow> string \<times> json" where
  "unmask_entry c s (k, Some v) = (k, v)"
| "unmask_entry c s (k, None) = (k, if k = ''content'' then c else s)"

lemma keys_mask: "keys_of a = map fst (map mask_entry a)"
  by auto

lemma update_as_map:
  "distinct (keys_of a) \<Longrightarrow> k \<in> set (keys_of a) \<Longrightarrow>
     AList.update k r a = map (\<lambda>(k', v). (k', if k' = k then r else v)) a"
proof (induction a)
  case (Cons x a)
  then show ?case by (cases x) (force intro!: map_idI[symmetric])
qed simp

definition overwritten :: "json \<Rightarrow> json \<Rightarrow> json_object \<Rightarrow> json_object" where
  "overwritten c s a = map (unmask_entry c s) (map mask_entry a)"

lemma overwrite_structured:
  "distinct (keys_of a) \<Longrightarrow>
     (if map_of a ''structuredContent'' \<notin> {None, Some JNull} then AList.update ''structuredContent'' s a else a) =
     map (\<lambda>(k, v). (k, if k = ''structuredContent'' \<and> v \<noteq> JNull then s else v)) a"
proof (cases "map_of a ''structuredContent'' \<in> {None, Some JNull}")
  case True
  assume d: "distinct (keys_of a)"
  have "(k, v) \<in> set a \<Longrightarrow> k = ''structuredContent'' \<Longrightarrow> v = JNull" for k v
    using True map_of_is_SomeI[OF d] by fastforce
  with True show ?thesis by (auto intro!: map_idI[symmetric])
next
  case False
  assume d: "distinct (keys_of a)"
  have v: "(''structuredContent'', v) \<in> set a \<Longrightarrow> v \<noteq> JNull" for v
    using False map_of_is_SomeI[OF d, of "''structuredContent''" v] by auto
  have "''structuredContent'' \<in> set (keys_of a)" using False map_of_None_keys[of a] by blast
  from update_as_map[OF d this, of s]
  have u: "AList.update ''structuredContent'' s a = map (\<lambda>(k', v). (k', if k' = ''structuredContent'' then s else v)) a" .
  show ?thesis unfolding if_P[OF False] u by (rule map_cong) (auto dest: v)
qed

lemma overwrite_content:
  assumes "distinct (keys_of a)" and "map_of a ''content'' \<noteq> None"
  shows "AList.update ''content'' c
      (if map_of a ''structuredContent'' \<notin> {None, Some JNull} then AList.update ''structuredContent'' s a else a) =
    overwritten c s a"
proof -
  let ?b = "map (\<lambda>(k, v). (k, if k = ''structuredContent'' \<and> v \<noteq> JNull then s else v)) a"
  have k: "keys_of ?b = keys_of a" by (simp add: comp_def split_beta)
  have "''content'' \<in> set (keys_of ?b)" unfolding k using assms(2) map_of_None_keys[of a "''content''"] by (simp only: simp_thms not_not)
  then have "AList.update ''content'' c ?b = map (\<lambda>(k', v). (k', if k' = ''content'' then c else v)) ?b"
    using assms(1) by (intro update_as_map) (simp_all only: k)
  also have "\<dots> = overwritten c s a" by (auto simp: overwritten_def)
  finally show ?thesis using overwrite_structured[OF assms(1), of s] by simp
qed

lemma overwrite_no_content:
  assumes "distinct (keys_of a)" and "map_of a ''content'' = None"
  shows "(if map_of a ''structuredContent'' \<notin> {None, Some JNull} then AList.update ''structuredContent'' s a else a) =
    overwritten s s a"
proof -
  have "k \<noteq> ''content''" if "(k, v) \<in> set a" for k v
    using that assms(2) map_of_None_keys[of a "''content''"] by force
  then show ?thesis using overwrite_structured[OF assms(1), of s]
    by (auto simp: overwritten_def)
qed

lemma same_envelope_content:
  "same_envelope a b \<Longrightarrow> map_of a ''content'' = None \<longleftrightarrow> map_of b ''content'' = None"
  unfolding map_of_None_keys keys_mask same_envelope_def by simp

lemma overwritten_same: "same_envelope a b \<Longrightarrow> overwritten c s a = overwritten c s b"
  by (simp add: overwritten_def same_envelope_def)

text \<open>What the rebuilt response is, as a function of the masked envelope and the pruned document.\<close>

lemma rebuild_wrapped:
  assumes "p_IsMCPWrapped p" and "p_OriginalData p = JObj a" and "distinct (keys_of a)"
  shows "rebuildCollections marshal p fil =
    (let result = pruneJSONPaths (denied_paths fil) [] (p_UnwrappedData p)
     in if map_of a ''content'' = None then Return (Inr (JObj (overwritten result result a)))
        else (case marshal result of
                None \<Rightarrow> Return (Inl EncodeError)
              | Some t \<Rightarrow> Return (Inr (JObj (overwritten
                  (JArr [JObj [(''type'', JStr ''text''), (''text'', JStr t)]]) result a)))))"
proof (cases "map_of a ''content'' = None")
  case True
  show ?thesis
    by (simp only: rebuildCollections_def denied_paths_def Let_def assms(1,2) json.case simp_thms
        overwrite_no_content[OF assms(3) True] True if_True if_False not_True_eq_False)
next
  case False
  show ?thesis
    by (simp only: rebuildCollections_def denied_paths_def Let_def assms(1,2) json.case simp_thms
        overwrite_content[OF assms(3) False] False if_True if_False not_True_eq_False)
qed

lemma rebuild_noninterference:
  assumes "alike_outside (denied_paths fil) (p_UnwrappedData p) (p_UnwrappedData q)"
    and "p_IsMCPWrapped p = p_IsMCPWrapped q"
    and "p_IsMCPWrapped p \<Longrightarrow> \<exists>a b. p_OriginalData p = JObj a \<and> p_OriginalData q = JObj b \<and> same_envelope a b"
  shows "rebuildCollections marshal p fil = rebuildCollections marshal q fil"
proof (cases "p_IsMCPWrapped p")
  case False
  with assms(2) prune_alike_outside[OF assms(1)] show ?thesis
    by (simp add: rebuildCollections_def denied_paths_def)
next
  case True
  with assms(3) obtain a b where ab: "p_OriginalData p = JObj a" "p_OriginalData q = JObj b" "same_envelope a b"
    by blast
  have "distinct (keys_of a)" "distinct (keys_of b)"
    using ab(3) unfolding same_envelope_def by (auto simp only: keys_mask)
  then have "rebuildCollections marshal p fil = rebuildCollections marshal q fil \<longleftrightarrow> True"
    using rebuild_wrapped[OF True ab(1), of marshal fil]
      rebuild_wrapped[OF True[unfolded assms(2)] ab(2), of marshal fil] prune_alike_outside[OF assms(1)]
    unfolding overwritten_same[OF ab(3)] same_envelope_content[OF ab(3)] by simp
  then show ?thesis by simp
qed

end
