(* ===== verification/PipelineProperties.thy ===== *)
theory PipelineProperties imports Pipeline PathSecurity FlowProperties begin

text \<open>
  The properties of path-labelled responses, of the guards and of the enforcement pipeline.
\<close>

section \<open>Example values\<close>

definition two_lists :: json where
  "two_lists = JObj [(''a'', JArr [JStr ''x'', JStr ''y'']), (''b'', JStr ''z'')]"

definition two_lists_labels :: path_labels where
  "two_lists_labels =
     \<lparr>LabeledPaths = [\<lparr>pl_Path = ''/a/0'', pl_Labels = \<lparr>pe_Description = ''x'', pe_Secrecy = [''private''], pe_Integrity = []\<rparr>\<rparr>],
      DefaultLabels = Some \<lparr>pe_Description = ''default'', pe_Secrecy = [], pe_Integrity = []\<rparr>,
      ItemsPath = [], ItemsPaths = Some [''/a'']\<rparr>"

definition noop_input :: pipeline_input where
  "noop_input = \<lparr>in_AgentID = ''triager'', in_ToolName = ''get_me'', in_Args = JNull, in_Guard = NoopGuard,
      in_Evaluator = NewEvaluator, in_EnforcementMode = EnforcementStrict\<rparr>"

definition tainted_registry :: agent_registry where
  "tainted_registry = NewAgentRegistryWithDefaults [''private''] []"

section \<open>Path-labelled responses\<close>



text \<open>When the collections of a response resolve, no element escapes labelling: every element of every
  declared collection and every explicitly labelled subtree becomes an item with labels, and every
  item is the value that the unwrapped response holds at the item's path.\<close>

lemma resolution_complete:
  assumes "resolveCollections pl paths v = Inr its" and "ItemsPaths pl = Some paths" and "arrays_indexable v"
  shows "(\<forall>path\<in>set paths. \<exists>xs. extractValueAtPath pl v path = Inr (JArr xs) \<and>
       (\<forall>i<length xs. \<exists>it\<in>set its. item_path it = path @ ''/'' @ itoa i \<and> item_data it = xs ! i)) \<and>
    (\<forall>l\<in>set (LabeledPaths pl). \<exists>it\<in>set its. item_path it = pl_Path l \<and>
       item_labels it = Some (pathEntryToResource (Some (pl_Labels l)))) \<and>
    (\<forall>it\<in>set its. item_labels it \<noteq> None \<and> value_at True [] v (splitJSONPointer (item_path it)) = Inr (item_data it))"
  using resolveCollections_spec(2,3,4)[OF assms(1)] item_located(1)[OF assms(1) _ assms(2,3)]
  unfolding element_of_def by fastforce

lemma resolution_complete_example:
  "\<exists>its. resolveCollections two_lists_labels [''/a''] two_lists = Inr its \<and>
     (\<exists>it\<in>set its. item_path it = ''/a/0'' \<and> item_data it = JStr ''x'')"
proof -
  let ?x = "resolveCollections two_lists_labels [''/a''] two_lists"
  have "(case ?x of Inl _ \<Rightarrow> False | Inr _ \<Rightarrow> True)" by code_simp
  then obtain its where its: "?x = Inr its" by (cases ?x) auto
  have "arrays_indexable two_lists" by (simp add: two_lists_def)
  from resolution_complete[OF its _ this]
  obtain xs where xs: "extractValueAtPath two_lists_labels two_lists ''/a'' = Inr (JArr xs)"
    "\<forall>i<length xs. \<exists>it\<in>set its. item_path it = ''/a'' @ ''/'' @ itoa i \<and> item_data it = xs ! i"
    by (auto simp: two_lists_labels_def)
  have "extractValueAtPath two_lists_labels two_lists ''/a'' = Inr (JArr [JStr ''x'', JStr ''y''])" by code_simp
  with xs(1) have "xs = [JStr ''x'', JStr ''y'']" by simp
  moreover have "itoa 0 = ''0''" by code_simp
  ultimately show ?thesis using xs(2) its by fastforce
qed

text \<open>C25: What was denied does not influence what the client receives: two responses that agree outside the
  denied paths (and whose MCP envelopes agree outside the content that rebuilding overwrites) are
  rebuilt to the same result.\<close>

theorem denied_items_do_not_leak:
  assumes "alike_outside (denied_paths fil) (p_UnwrappedData p) (p_UnwrappedData q)"
    and "p_IsMCPWrapped p = p_IsMCPWrapped q"
    and "p_IsMCPWrapped p \<Longrightarrow> \<exists>a b. p_OriginalData p = JObj a \<and> p_OriginalData q = JObj b \<and> same_envelope a b"
  shows "rebuildCollections marshal p fil = rebuildCollections marshal q fil"
  by (rule rebuild_noninterference[OF assms])

lemma denied_items_do_not_leak_witness:
  "rebuildCollections (\<lambda>_. None)
     \<lparr>p_OriginalData = two_lists, p_UnwrappedData = two_lists, p_IsMCPWrapped = False, p_PathLabels = two_lists_labels, p_resolvedItems = []\<rparr>
     [\<lparr>filtered_item = \<lparr>item_data = JStr ''x'', item_labels = None, item_path = ''/a/0''\<rparr>, filtered_reason = [], is_secrecy_violation = True\<rparr>] =
   rebuildCollections (\<lambda>_. None)
     \<lparr>p_OriginalData = two_lists, p_UnwrappedData = JObj [(''a'', JArr [JStr ''other secret'', JStr ''y'']), (''b'', JStr ''z'')],
      p_IsMCPWrapped = False, p_PathLabels = two_lists_labels, p_resolvedItems = []\<rparr>
     [\<lparr>filtered_item = \<lparr>item_data = JStr ''x'', item_labels = None, item_path = ''/a/0''\<rparr>, filtered_reason = [], is_secrecy_violation = True\<rparr>]"
proof (rule denied_items_do_not_leak)
  have "replace_at [] two_lists [''a'', ''0''] (JStr ''other secret'') =
      Inr (JObj [(''a'', JArr [JStr ''other secret'', JStr ''y'']), (''b'', JStr ''z'')])"
    "value_at True [] two_lists [''a'', ''0''] = Inr (JStr ''x'')" "join_pointer [''a'', ''0''] = ''/a/0''"
    by code_simp+
  note eqs = this
  have "alike_outside [''/a/0''] two_lists (JObj [(''a'', JArr [JStr ''other secret'', JStr ''y'']), (''b'', JStr ''z'')])"
    by (rule replaced[OF same eqs(2) _ eqs(1)]) (simp only: eqs(3) list.set insert_iff simp_thms)
  then show "alike_outside (denied_paths
      [\<lparr>filtered_item = \<lparr>item_data = JStr ''x'', item_labels = None, item_path = ''/a/0''\<rparr>, filtered_reason = [], is_secrecy_violation = True\<rparr>])
     (p_UnwrappedData \<lparr>p_OriginalData = two_lists, p_UnwrappedData = two_lists, p_IsMCPWrapped = False,
        p_PathLabels = two_lists_labels, p_resolvedItems = []\<rparr>)
     (p_UnwrappedData \<lparr>p_OriginalData = two_lists,
        p_UnwrappedData = JObj [(''a'', JArr [JStr ''other secret'', JStr ''y'']), (''b'', JStr ''z'')],
        p_IsMCPWrapped = False, p_PathLabels = two_lists_labels, p_resolvedItems = []\<rparr>)"
    by (simp add: denied_paths_def)
qed simp_all

section \<open>Guards\<close>

text \<open>C26: A legacy guard response whose item has no labels makes the collection filter dereference nil:
  filtering it panics for every agent, mode and operation instead of returning a decision.\<close>

theorem unlabelled_item_panics:
  assumes "JObj m \<in> set its" and "map_of m ''labels'' = None"
  shows "FilterCollection e sl il (parseCollectionLabeledData its) op = Panic"
  by (rule legacy_unlabelled_panics[OF assms])

lemma unlabelled_item_panics_witness:
  "FilterCollection NewEvaluator (agS triager) (agI triager)
     (parseCollectionLabeledData [JObj [(''data'', JStr ''x'')]]) OperationRead = Panic"
  by (rule unlabelled_item_panics[where m = "[(''data'', JStr ''x'')]"]) simp_all

text \<open>An agent may write to a public sink only while it carries no secrecy tag at all, and to another
  sink only within the tags the sink accepts (or under the wildcard); integrity never restricts it.
  The decision does not depend on the enforcement mode.\<close>

lemma sink_write_allowed_iff:
  assumes "Evaluate e (agS a) (agI a) (Some (fst (ws_LabelResource g tool))) (snd (ws_LabelResource g tool)) = Return r"
  shows "IsAllowed r \<longleftrightarrow>
    (if sinkVisibility g = SinkVisibilityPublic then tags_of (agSecrecy a) = {}
     else tags_of (agSecrecy a) \<subseteq> set (acceptTags g) \<or> WildcardTag \<in> set (acceptTags g))"
  using Evaluate_IsAllowed[OF assms] ws_write_permitted[of "agS a" "agI a" g tool]
  by (simp add: ws_labels(3) reads_def writes_def permitted_def flows_within_def)

lemma sink_write_allowed_iff_example:
  "\<exists>r. Evaluate NewEvaluator (agS (AddSecrecyTag ''private'' triager)) (agI triager)
      (Some (fst (ws_LabelResource (NewWriteSinkGuardWithVisibility [''*''] ''Public '') ''post''))) OperationWrite = Return r \<and>
    \<not> IsAllowed r"
proof -
  let ?g = "NewWriteSinkGuardWithVisibility [''*''] ''Public ''" and ?a = "AddSecrecyTag ''private'' triager"
  let ?x = "Evaluate NewEvaluator (agS ?a) (agI ?a) (Some (fst (ws_LabelResource ?g ''post''))) (snd (ws_LabelResource ?g ''post''))"
  have "returns ?x" by code_simp
  then obtain r where r: "?x = Return r" by (cases ?x) auto
  have vis: "sinkVisibility ?g = SinkVisibilityPublic" by code_simp
  have "lab_Contains (agSecrecy ?a) ''private''" by code_simp
  then have "tags_of (agSecrecy ?a) \<noteq> {}" by auto
  with sink_write_allowed_iff[OF r] vis have "\<not> IsAllowed r" by simp
  moreover have "agI ?a = agI triager" "snd (ws_LabelResource ?g ''post'') = OperationWrite"
    by (code_simp, simp add: ws_labels)
  ultimately show ?thesis using r by auto
qed

text \<open>Initialising an agent from a guard is atomic: on any error the labels are untouched, and on success
  they grow by exactly the trimmed tags of the guard's answer and the mode is the requested one.\<close>

lemma label_agent_atomic:
  assumes "RunLabelAgent g payload dflt a = (res, a')"
  shows "(\<forall>err. res = Inl err \<longrightarrow> a' = a) \<and>
    (\<forall>m answer. res = Inr (m, answer) \<longrightarrow>
       tags_of (agSecrecy a') = tags_of (agSecrecy a) \<union> set (trimmed_entries (lar_Secrecy answer)) \<and>
       tags_of (agIntegrity a') = tags_of (agIntegrity a) \<union> set (trimmed_entries (lar_Integrity answer)) \<and>
       (if lar_DIFCMode answer = [] then m = dflt else ParseEnforcementMode (lar_DIFCMode answer) = Inr m))"
proof (intro conjI allI impI)
  fix err assume "res = Inl err"
  then show "a' = a" using assms RunLabelAgent_error by blast
next
  fix m answer assume "res = Inr (m, answer)"
  with assms have *: "ApplyLabelAgentResult answer dflt a = (Inr m, a')"
    by (auto simp: RunLabelAgent_def split: sum.splits option.splits prod.splits)
  show "tags_of (agSecrecy a') = tags_of (agSecrecy a) \<union> set (trimmed_entries (lar_Secrecy answer))"
    "tags_of (agIntegrity a') = tags_of (agIntegrity a) \<union> set (trimmed_entries (lar_Integrity answer))"
    using ApplyLabelAgentResult_ok[OF *] by blast+
  show "if lar_DIFCMode answer = [] then m = dflt else ParseEnforcementMode (lar_DIFCMode answer) = Inr m"
    using * by (auto simp: ApplyLabelAgentResult_def Let_def split: sum.splits if_splits)
qed

lemma label_agent_atomic_example:
  "tags_of (agSecrecy (snd (RunLabelAgent NoopGuard JNull EnforcementFilter triager))) = tags_of (agSecrecy triager)"
proof -
  obtain res a' where r: "RunLabelAgent NoopGuard JNull EnforcementFilter triager = (res, a')" by fastforce
  note p = label_agent_atomic[OF r]
  show ?thesis
  proof (cases res)
    case (Inl err)
    with p r show ?thesis by auto
  next
    case (Inr y)
    obtain m answer where y: "y = (m, answer)" by fastforce
    have "lar_Secrecy answer = []"
      using r Inr y by (auto simp: RunLabelAgent_def NoopGuard_def emptyAgentLabelsResult_def split: prod.splits sum.splits)
    with p Inr y r show ?thesis by (auto simp: trimmed_entries_def)
  qed
qed

section \<open>The pipeline\<close>

text \<open>C27: What passes the pre-phases has been checked against the labels the guard gave the resource and the
  labels the agent holds after phase 0: a write only within the policy, a denied access only as a
  read that the response filter will still see, and nothing with a blocked tag is read.\<close>

theorem pre_phases_enforce:
  assumes "RunPipelinePrePhases inp r = Return (Inr pre, r1)"
  shows "\<exists>res. g_LabelResource (in_Guard inp) (in_ToolName inp) (in_Args inp) = Inr (Some res, pre_Operation pre) \<and>
    ar_GetOrCreate (in_AgentID inp) r = (pre_AgentLabels pre, r1) \<and>
    (writes (pre_Operation pre) \<longrightarrow>
       write_permitted (agS (heap r1 ! pre_AgentLabels pre)) (agI (heap r1 ! pre_AgentLabels pre)) res) \<and>
    (reads (pre_Operation pre) \<longrightarrow> \<not> blocked res) \<and>
    (\<not> IsAllowed (pre_EvalResult pre) \<longrightarrow> pre_Operation pre = OperationRead)"
proof -
  obtain ref res where p: "ar_GetOrCreate (in_AgentID inp) r = (ref, r1)" "pre_AgentLabels pre = ref"
    "g_LabelResource (in_Guard inp) (in_ToolName inp) (in_Args inp) = Inr (Some res, pre_Operation pre)"
    "EvaluateCoarseAccess (in_Evaluator inp) (agS (heap r1 ! ref)) (agI (heap r1 ! ref)) (Some res)
       (pre_Operation pre) = Return (pre_CoarseOutcome pre, pre_EvalResult pre)"
    "pre_CoarseOutcome pre \<noteq> CoarseDenied"
    using assms by (rule PrePhases_Return)
  note C = EvaluateCoarseAccess_outcome[OF p(4)]
  have read: "\<not> IsAllowed (pre_EvalResult pre) \<Longrightarrow> pre_Operation pre = OperationRead" using C(4) p(5) by blast
  have "writes (pre_Operation pre) \<Longrightarrow> write_permitted (agS (heap r1 ! ref)) (agI (heap r1 ! ref)) res"
  proof -
    assume w: "writes (pre_Operation pre)"
    then have "IsAllowed (pre_EvalResult pre)" using read by (auto simp: writes_def)
    with Evaluate_IsAllowed[OF C(1)] w show ?thesis by (simp add: permitted_def split: if_splits)
  qed
  moreover have "reads (pre_Operation pre) \<Longrightarrow> \<not> blocked res"
    using coarse_blocked_never_passes[OF p(4)] p(5) by blast
  ultimately show ?thesis using p read by auto
qed

lemma pre_phases_enforce_witness:
  "\<exists>pre r1 res. RunPipelinePrePhases noop_input (NewAgentRegistryWithDefaults [] []) = Return (Inr pre, r1) \<and>
     write_permitted (agS (heap r1 ! pre_AgentLabels pre)) (agI (heap r1 ! pre_AgentLabels pre)) res"
proof -
  let ?x = "RunPipelinePrePhases noop_input (NewAgentRegistryWithDefaults [] [])"
  have "(case ?x of Return (Inr pre, r1) \<Rightarrow> writes (pre_Operation pre) | _ \<Rightarrow> False)" by code_simp
  then obtain pre r1 where x: "?x = Return (Inr pre, r1)" "writes (pre_Operation pre)"
    by (cases ?x) (auto split: sum.splits)
  from pre_phases_enforce[OF x(1)] x show ?thesis by blast
qed

end
