(* ===== verification/CircuitBreaker.thy ===== *)
theory CircuitBreaker imports Util begin

text \<open>
  \<open>internal/server/circuit_breaker.go\<close>: the per-backend rate-limit circuit breaker. Every method
  runs under the mutex and is one step; the clock (\<open>nowFunc\<close>) is an argument of the steps that
  read it. Messages are not modelled.
\<close>

datatype cb_state = circuitClosed | circuitOpen | circuitHalfOpen

fun cb_state_String :: "cb_state \<Rightarrow> string" where
  "cb_state_String circuitClosed = ''CLOSED''"
| "cb_state_String circuitOpen = ''OPEN''"
| "cb_state_String circuitHalfOpen = ''HALF-OPEN''"

definition DefaultRateLimitThreshold :: int where "DefaultRateLimitThreshold = 3"
definition DefaultRateLimitCooldown :: duration where "DefaultRateLimitCooldown = 60 * second"
definition probeStrandedTimeout :: duration where "probeStrandedTimeout = 30 * second"

record circuit_breaker =
  cb_State :: cb_state
  openedAt :: time
  failures :: "string failure_counter"
  resetAt :: time
  probeInFlight :: bool
  probeStartedAt :: time
  cb_serverID :: string
  threshold :: int
  cooldown :: duration

definition newCircuitBreaker :: "string \<Rightarrow> int \<Rightarrow> duration \<Rightarrow> circuit_breaker" where
  "newCircuitBreaker sid thr cool =
     \<lparr>cb_State = circuitClosed, openedAt = 0, failures = NewFailureCounter, resetAt = 0,
      probeInFlight = False, probeStartedAt = 0, cb_serverID = sid,
      threshold = PositiveOrDefault thr DefaultRateLimitThreshold,
      cooldown = PositiveOrDefault cool DefaultRateLimitCooldown\<rparr>"

record circuit_open_error =
  ce_ServerID :: string
  ce_ResetAt :: time
  ce_State :: cb_state
  ce_Now :: time

definition open_error :: "circuit_breaker \<Rightarrow> time \<Rightarrow> circuit_open_error" where
  "open_error cb now =
     \<lparr>ce_ServerID = cb_serverID cb, ce_ResetAt = resetAt cb, ce_State = cb_State cb, ce_Now = now\<rparr>"

text \<open>The end of the open period: the upstream reset time when it lies after the opening.\<close>

definition openUntil :: "circuit_breaker \<Rightarrow> time" where
  "openUntil cb =
     (if \<not> is_zero_time (resetAt cb) \<and> resetAt cb > openedAt cb then resetAt cb
      else openedAt cb + cooldown cb)"

definition cb_Allow :: "time \<Rightarrow> circuit_breaker \<Rightarrow> circuit_open_error option \<times> circuit_breaker" where
  "cb_Allow now cb =
     (case cb_State cb of
        circuitClosed \<Rightarrow> (None, cb)
      | circuitOpen \<Rightarrow>
          (if now > openUntil cb
           then (None, cb\<lparr>cb_State := circuitHalfOpen, probeInFlight := True, probeStartedAt := now\<rparr>)
           else (Some (open_error cb now), cb))
      | circuitHalfOpen \<Rightarrow>
          (if probeInFlight cb
           then
             (if \<not> is_zero_time (probeStartedAt cb) \<and> time_sub now (probeStartedAt cb) > probeStrandedTimeout
              then (None, cb\<lparr>probeStartedAt := now\<rparr>)
              else (Some (open_error cb now), cb))
           else (None, cb\<lparr>probeInFlight := True, probeStartedAt := now\<rparr>)))"

definition RecordProbeReleased :: "circuit_breaker \<Rightarrow> circuit_breaker" where
  "RecordProbeReleased cb = cb\<lparr>probeInFlight := False, probeStartedAt := 0\<rparr>"

definition RecordSuccess :: "circuit_breaker \<Rightarrow> circuit_breaker" where
  "RecordSuccess cb =
     (let prev = cb_State cb;
          cb1 = cb\<lparr>failures := snd (fc_Reset (failures cb) (cb_serverID cb)),
                   probeInFlight := False, probeStartedAt := 0\<rparr>
      in if cb_State cb1 = circuitHalfOpen then cb1\<lparr>cb_State := circuitClosed, resetAt := 0\<rparr>
         else if prev \<noteq> circuitClosed then cb1\<lparr>cb_State := circuitClosed\<rparr>
         else cb1)"

definition RecordRateLimit :: "time \<Rightarrow> time \<Rightarrow> circuit_breaker \<Rightarrow> circuit_breaker" where
  "RecordRateLimit now reset cb =
     (let (consecutiveErrors, fc) = fc_Increment (failures cb) (cb_serverID cb);
          cb1 = cb\<lparr>failures := fc, probeInFlight := False, probeStartedAt := 0\<rparr>;
          cb2 = (if \<not> is_zero_time reset then cb1\<lparr>resetAt := reset\<rparr> else cb1)
      in case cb_State cb2 of
           circuitClosed \<Rightarrow>
             (if int consecutiveErrors \<ge> threshold cb2
              then cb2\<lparr>cb_State := circuitOpen, openedAt := now\<rparr> else cb2)
         | circuitHalfOpen \<Rightarrow> cb2\<lparr>cb_State := circuitOpen, openedAt := now\<rparr>
         | circuitOpen \<Rightarrow> cb2)"

text \<open>One breaker per configured server: (ID, threshold, cooldown in seconds) in the map's order.\<close>

definition buildCircuitBreakers :: "(string \<times> int \<times> int) list option \<Rightarrow> (string \<times> circuit_breaker) list" where
  "buildCircuitBreakers cfg =
     (case cfg of
        None \<Rightarrow> []
      | Some servers \<Rightarrow>
          fold (\<lambda>(sid, thr, cool) m. AList.update sid (newCircuitBreaker sid thr (duration_of_seconds cool)) m)
            servers [])"

section \<open>Steps and the invariant\<close>

datatype cb_op =
    AllowOp time
  | ReleaseOp
  | SuccessOp
  | RateLimitOp time time

fun cb_step :: "cb_op \<Rightarrow> circuit_breaker \<Rightarrow> circuit_breaker" where
  "cb_step (AllowOp now) cb = snd (cb_Allow now cb)"
| "cb_step ReleaseOp cb = RecordProbeReleased cb"
| "cb_step SuccessOp cb = RecordSuccess cb"
| "cb_step (RateLimitOp now reset) cb = RecordRateLimit now reset cb"

definition errors :: "circuit_breaker \<Rightarrow> nat" where
  "errors cb = fc_Get (failures cb) (cb_serverID cb)"

definition cb_ok :: "circuit_breaker \<Rightarrow> bool" where
  "cb_ok cb \<longleftrightarrow> 0 < threshold cb \<and> 0 < cooldown cb \<and>
     (probeInFlight cb \<longrightarrow> cb_State cb = circuitHalfOpen) \<and>
     (\<not> probeInFlight cb \<longrightarrow> is_zero_time (probeStartedAt cb)) \<and>
     (cb_State cb = circuitClosed \<longrightarrow> int (errors cb) < threshold cb)"

lemma cb_ok_new [keeps, simp]: "cb_ok (newCircuitBreaker sid thr cool)"
  by (simp add: cb_ok_def newCircuitBreaker_def errors_def PositiveOrDefault_pos DefaultRateLimitThreshold_def
      DefaultRateLimitCooldown_def second_def)

lemma errors_simps [simp]:
  "errors (cb\<lparr>cb_State := s\<rparr>) = errors cb" "errors (cb\<lparr>probeInFlight := b\<rparr>) = errors cb"
  "errors (cb\<lparr>probeStartedAt := t\<rparr>) = errors cb" "errors (cb\<lparr>resetAt := t\<rparr>) = errors cb"
  "errors (cb\<lparr>openedAt := t\<rparr>) = errors cb"
  by (simp_all add: errors_def)

lemma errors_RecordSuccess: "errors (RecordSuccess cb) = 0"
  by (simp add: RecordSuccess_def errors_def Let_def fc_Reset_Get)

lemma errors_RecordRateLimit: "errors (RecordRateLimit now reset cb) = Suc (errors cb)"
  by (simp add: RecordRateLimit_def errors_def Let_def fc_Increment_Get split: prod.splits cb_state.split)
     (auto simp: fc_Increment_def Let_def fc_Get_def)

lemma Allow_ok [keeps]: "cb_ok cb \<Longrightarrow> cb_ok (snd (cb_Allow now cb))"
  by (auto simp: cb_Allow_def cb_ok_def split: cb_state.splits)

lemma Release_ok [keeps]: "cb_ok cb \<Longrightarrow> cb_ok (RecordProbeReleased cb)"
  by (auto simp: RecordProbeReleased_def cb_ok_def)

lemma Success_ok [keeps]: "cb_ok cb \<Longrightarrow> cb_ok (RecordSuccess cb)"
  using errors_RecordSuccess[of cb]
  by (auto simp: RecordSuccess_def cb_ok_def Let_def)

lemma RateLimit_ok [keeps]: "cb_ok cb \<Longrightarrow> cb_ok (RecordRateLimit now reset cb)"
  by (auto simp: RecordRateLimit_def cb_ok_def Let_def errors_def fc_Increment_def fc_Get_def split: cb_state.splits)

interpretation breaker: step_system cb_step cb_ok
proof unfold_locales
  fix s x assume "cb_ok s"
  then show "cb_ok (cb_step x s)" by (cases x) (auto intro: keeps)
qed

section \<open>Transitions\<close>

lemma closed_always_allows: "cb_State cb = circuitClosed \<Longrightarrow> cb_Allow now cb = (None, cb)"
  by (simp add: cb_Allow_def)

text \<open>The breaker opens exactly at the threshold of consecutive rate limits.\<close>

lemma rate_limits_while_closed:
  assumes "cb_State cb = circuitClosed" and "int (errors cb) + int (length resets) < threshold cb"
  shows "cb_State (fold (RecordRateLimit now) resets cb) = circuitClosed"
  using assms
proof (induction resets arbitrary: cb)
  case (Cons t ts)
  have n: "errors (RecordRateLimit now t cb) = Suc (errors cb)" by (rule errors_RecordRateLimit)
  have c: "cb_State (RecordRateLimit now t cb) = circuitClosed \<and> threshold (RecordRateLimit now t cb) = threshold cb"
    using Cons.prems
    by (auto simp: RecordRateLimit_def Let_def errors_def fc_Increment_Get split: prod.splits)
       (auto simp: fc_Increment_def Let_def)
  show ?case using Cons.IH[of "RecordRateLimit now t cb"] Cons.prems(2) c n by simp
qed simp

lemma rate_limit_opens:
  assumes "cb_State cb = circuitClosed" and "int (Suc (errors cb)) \<ge> threshold cb"
  shows "cb_State (RecordRateLimit now reset cb) = circuitOpen" and "openedAt (RecordRateLimit now reset cb) = now"
  using assms
  by (auto simp: RecordRateLimit_def Let_def errors_def fc_Increment_def split: prod.splits)

lemma open_rejects_until:
  "cb_State cb = circuitOpen \<Longrightarrow> fst (cb_Allow now cb) = None \<longleftrightarrow> now > openUntil cb"
  by (simp add: cb_Allow_def)

lemma probe_is_exclusive:
  assumes "cb_State cb = circuitOpen" and "now > openUntil cb" and "now \<noteq> 0"
    and "time_sub later now \<le> probeStrandedTimeout"
  shows "fst (cb_Allow later (snd (cb_Allow now cb))) \<noteq> None"
  using assms by (simp add: cb_Allow_def)

text \<open>
  Never wedged: while nothing is recorded, there is a time after which a request is let through.
  The probe's start is a real clock reading, which is not the zero time.
\<close>

definition probe_timed :: "circuit_breaker \<Rightarrow> bool" where
  "probe_timed cb \<longleftrightarrow> (probeInFlight cb \<longrightarrow> \<not> is_zero_time (probeStartedAt cb))"

fun real_clock :: "cb_op \<Rightarrow> bool" where
  "real_clock (AllowOp now) = (\<not> is_zero_time now)"
| "real_clock _ = True"

lemma probe_timed_step: "probe_timed cb \<Longrightarrow> real_clock x \<Longrightarrow> probe_timed (cb_step x cb)"
  by (cases x)
     (auto simp: probe_timed_def cb_Allow_def RecordProbeReleased_def RecordSuccess_def RecordRateLimit_def Let_def
       split: cb_state.splits prod.splits)

lemma probe_timed_run:
  "probe_timed cb \<Longrightarrow> list_all real_clock xs \<Longrightarrow> probe_timed (fold cb_step xs cb)"
  by (induction xs arbitrary: cb) (auto simp: probe_timed_step)

definition retry_after :: "circuit_breaker \<Rightarrow> time" where
  "retry_after cb =
     (case cb_State cb of
        circuitClosed \<Rightarrow> 0
      | circuitOpen \<Rightarrow> openUntil cb
      | circuitHalfOpen \<Rightarrow> probeStartedAt cb + probeStrandedTimeout)"

lemma allowed_after_retry:
  assumes "probe_timed cb" and "now > retry_after cb"
  shows "fst (cb_Allow now cb) = None"
proof (cases "cb_State cb")
  case circuitHalfOpen
  have "time_sub now (probeStartedAt cb) > probeStrandedTimeout \<longleftrightarrow> now - probeStartedAt cb > probeStrandedTimeout"
    by (rule time_sub_greater_iff) (simp_all add: probeStrandedTimeout_def second_def max_duration_def)
  with circuitHalfOpen assms show ?thesis
    by (auto simp: cb_Allow_def probe_timed_def retry_after_def)
qed (use assms in \<open>auto simp: cb_Allow_def retry_after_def\<close>)

text \<open>After a success the breaker is closed with no errors on record, from every state.\<close>

lemma success_closes: "cb_State (RecordSuccess cb) = circuitClosed"
  by (auto simp: RecordSuccess_def Let_def)

lemma released_probe_readmits:
  "cb_State cb = circuitHalfOpen \<Longrightarrow> fst (cb_Allow now (RecordProbeReleased cb)) = None"
  by (simp add: cb_Allow_def RecordProbeReleased_def)

lemma release_keeps: "cb_State (RecordProbeReleased cb) = cb_State cb" "errors (RecordProbeReleased cb) = errors cb"
  by (simp_all add: RecordProbeReleased_def)

text \<open>Every configured server gets its breaker.\<close>

lemma buildCircuitBreakers_keys:
  "fst ` set (buildCircuitBreakers (Some servers)) = fst ` set servers"
proof -
  have "fst ` set (fold (\<lambda>(sid, thr, cool) m. AList.update sid (newCircuitBreaker sid thr (duration_of_seconds cool)) m)
      servers m) = fst ` set m \<union> fst ` set servers" for m
  proof (induction servers arbitrary: m)
    case (Cons x xs)
    obtain sid thr cool where x: "x = (sid, thr, cool)" by (cases x)
    show ?case using Cons[of "AList.update sid (newCircuitBreaker sid thr (duration_of_seconds cool)) m"]
      by (simp add: x)
  qed simp
  from this[of "[]"] show ?thesis by (simp add: buildCircuitBreakers_def)
qed

end
