(* ===== verification/Pagination.thy ===== *)
theory Pagination imports Util begin

text \<open>
  \<open>internal/mcp/pagination.go\<close>: collecting all pages of a cursor-paginated list. The backend is
  a stateful \<open>fetch\<close>. Without a page cap the loop may run for ever, so it is a partial function:
  None is not returning.
\<close>

datatype 'e pagination_error = PageLimit int | CyclicCursor string | FetchFailed 'e

type_synonym ('a, 'e, 's) fetch = "string \<Rightarrow> 's \<Rightarrow> ('e + 'a list \<times> string) \<times> 's"

definition paginateAllMaxPages :: int where "paginateAllMaxPages = 100"

partial_function (option) paginate_loop ::
  "int \<Rightarrow> ('a, 'e, 's) fetch \<Rightarrow> int \<Rightarrow> 'a list \<Rightarrow> string \<Rightarrow> string list \<Rightarrow> 's \<Rightarrow>
   (('e pagination_error + 'a list) \<times> 's) option" where
  "paginate_loop maxPages fetch pageCount all cursor seenCursors s =
     (if maxPages > 0 \<and> pageCount \<ge> maxPages then Some (Inl (PageLimit maxPages), s)
      else
        (case fetch cursor s of
           (Inl err, s') \<Rightarrow> Some (Inl (FetchFailed err), s')
         | (Inr (its, nextCursor), s') \<Rightarrow>
             (if nextCursor = [] then Some (Inr (all @ its), s')
              else if nextCursor \<in> set seenCursors then Some (Inl (CyclicCursor nextCursor), s')
              else paginate_loop maxPages fetch (pageCount + 1) (all @ its) nextCursor
                     (nextCursor # seenCursors) s')))"

definition PaginateAll ::
  "int \<Rightarrow> ('a, 'e, 's) fetch \<Rightarrow> 's \<Rightarrow> (('e pagination_error + 'a list) \<times> 's) option" where
  "PaginateAll maxPages fetch s = paginate_loop maxPages fetch 0 [] [] [] s"

text \<open>\<open>paginateAll\<close> fixes the cap; its error wrapping and its logging leave the outcome as it is.\<close>

definition paginateAll :: "('a, 'e, 's) fetch \<Rightarrow> 's \<Rightarrow> (('e pagination_error + 'a list) \<times> 's) option" where
  "paginateAll fetch s = PaginateAll paginateAllMaxPages fetch s"

section \<open>Termination\<close>

lemma paginate_loop_returns:
  assumes "0 < maxPages"
  shows "paginate_loop maxPages fetch pageCount all cursor seen s \<noteq> None"
proof (induction "nat (maxPages - pageCount)" arbitrary: pageCount all cursor seen s rule: less_induct)
  case less
  show ?case
  proof (cases "pageCount \<ge> maxPages")
    case True
    with assms show ?thesis by (subst paginate_loop.simps) simp
  next
    case False
    then have "nat (maxPages - (pageCount + 1)) < nat (maxPages - pageCount)" by simp
    note IH = less[OF this]
    show ?thesis
      by (subst paginate_loop.simps) (use IH in \<open>auto split: prod.splits sum.splits\<close>)
  qed
qed

section \<open>What is collected\<close>

text \<open>The pages a backend serves from a cursor on, with the cursors it hands out.\<close>

inductive served :: "('a, 'e, 's) fetch \<Rightarrow> string \<Rightarrow> 's \<Rightarrow> ('a list \<times> string) list \<Rightarrow> 's \<Rightarrow> bool" for fetch where
  final: "fetch cursor s = (Inr (its, []), s') \<Longrightarrow> served fetch cursor s [(its, [])] s'"
| more: "fetch cursor s = (Inr (its, next), s') \<Longrightarrow> next \<noteq> [] \<Longrightarrow> served fetch next s' ps s'' \<Longrightarrow>
    served fetch cursor s ((its, next) # ps) s''"

inductive_cases served_Cons: "served fetch cursor s (p # ps) s'"

lemma served_nonempty: "served fetch cursor s ps s' \<Longrightarrow> ps \<noteq> []"
  by (induction rule: served.induct) auto

lemma served_last_cursor: "served fetch cursor s ps s' \<Longrightarrow> snd (last ps) = [] \<and> [] \<notin> snd ` set (butlast ps)"
  by (induction rule: served.induct) (auto dest: served_nonempty)

text \<open>A result is exactly what the backend served, in order, in at most the allowed number of pages.\<close>

lemma paginate_loop_result:
  assumes "paginate_loop maxPages fetch pageCount all cursor seen s = Some y"
  shows "\<forall>xs. fst y = Inr xs \<longrightarrow> (\<exists>ps. served fetch cursor s ps (snd y) \<and> xs = all @ concat (map fst ps) \<and>
        (0 < maxPages \<longrightarrow> pageCount + int (length ps) \<le> maxPages) \<and> distinct (butlast (map snd ps)) \<and>
        set seen \<inter> set (butlast (map snd ps)) = {})"
  using assms
proof (induction maxPages fetch pageCount all cursor seen s y rule: paginate_loop.raw_induct[rotated, consumes 1, case_names step])
  case (step loop maxPages fetch pageCount all cursor seen s y)
  note ih = step(1) and run = step(2)
  show ?case
  proof (cases "maxPages > 0 \<and> pageCount \<ge> maxPages")
    case True
    with run show ?thesis by auto
  next
    case False
    obtain r s1 where f: "fetch cursor s = (r, s1)" by (cases "fetch cursor s")
    show ?thesis
    proof (cases r)
      case (Inl e)
      with run False f show ?thesis by (auto split: if_splits)
    next
      case (Inr p)
      obtain its nxt where p: "p = (its, nxt)" by (cases p)
      consider "nxt = []" | "nxt \<noteq> []" "nxt \<in> set seen" | "nxt \<noteq> []" "nxt \<notin> set seen" by blast
      then show ?thesis
      proof cases
        case 1
        with run False f Inr p show ?thesis
          by (auto intro!: exI[where x = "[(its, [])]"] intro: served.final split: if_splits)
      next
        case 2
        with run False f Inr p show ?thesis by (auto split: if_splits)
      next
        case 3
        with run False f Inr p
        have "loop maxPages fetch (pageCount + 1) (all @ its) nxt (nxt # seen) s1 = Some y"
          by (auto split: if_splits)
        note IH = ih[OF this]
        show ?thesis
        proof (intro allI impI)
          fix xs assume "fst y = Inr xs"
          with IH obtain ps where ps: "served fetch nxt s1 ps (snd y)" "xs = (all @ its) @ concat (map fst ps)"
            "0 < maxPages \<longrightarrow> pageCount + 1 + int (length ps) \<le> maxPages" "distinct (butlast (map snd ps))"
            "set (nxt # seen) \<inter> set (butlast (map snd ps)) = {}" by auto
          have "served fetch cursor s ((its, nxt) # ps) (snd y)"
            using f Inr p 3(1) ps(1) by (auto intro: served.more)
          with ps 3 served_nonempty[OF ps(1)]
          show "\<exists>ps. served fetch cursor s ps (snd y) \<and> xs = all @ concat (map fst ps) \<and>
              (0 < maxPages \<longrightarrow> pageCount + int (length ps) \<le> maxPages) \<and> distinct (butlast (map snd ps)) \<and>
              set seen \<inter> set (butlast (map snd ps)) = {}"
            by (intro exI[where x = "(its, nxt) # ps"]) auto
        qed
      qed
    qed
  qed
qed

text \<open>Conversely a backend that serves distinct cursors within the cap is collected completely.\<close>

lemma paginate_loop_complete:
  assumes "served fetch cursor s ps s'" and "0 < maxPages \<longrightarrow> pageCount + int (length ps) \<le> maxPages"
    and "distinct (butlast (map snd ps))" and "set seen \<inter> set (butlast (map snd ps)) = {}"
  shows "paginate_loop maxPages fetch pageCount all cursor seen s = Some (Inr (all @ concat (map fst ps)), s')"
  using assms
proof (induction arbitrary: pageCount all seen rule: served.induct)
  case (final cursor s its s')
  then show ?case by (subst paginate_loop.simps) auto
next
  case (more cursor s its nxt s' ps s'')
  have "paginate_loop maxPages fetch (pageCount + 1) (all @ its) nxt (nxt # seen) s' =
      Some (Inr ((all @ its) @ concat (map fst ps)), s'')"
    using more.prems more.hyps(2) served_nonempty[OF more.hyps(3)] by (intro more.IH) auto
  moreover have "nxt \<notin> set seen" "\<not> (maxPages > 0 \<and> pageCount \<ge> maxPages)"
    using more.prems served_nonempty[OF more.hyps(3)] by auto
  ultimately show ?case using more.hyps(1,2) by (subst paginate_loop.simps) auto
qed

lemma PaginateAll_iff:
  "PaginateAll maxPages fetch s = Some (Inr xs, s') \<longleftrightarrow>
     (\<exists>ps. served fetch [] s ps s' \<and> xs = concat (map fst ps) \<and> distinct (butlast (map snd ps)) \<and>
        (0 < maxPages \<longrightarrow> int (length ps) \<le> maxPages))"
  using paginate_loop_result[of maxPages fetch 0 "[]" "[]" "[]" s "(Inr xs, s')"]
    paginate_loop_complete[of fetch "[]" s _ s' maxPages 0 "[]" "[]"]
  by (auto simp: PaginateAll_def)

end
