(* ===== verification/TtlCache.thy ===== *)
theory TtlCache imports Registry begin

text \<open>
  The TTL cache of \<open>internal/syncutil\<close>: a map from keys to values with the time of their last
  use. One call of \<open>GetOrCreate\<close> sweeps what has been idle longer than the TTL, then looks the
  key up, and only on a miss makes room by dropping the least recently used entry. The clock is
  read before the lock is taken, so \<open>now\<close> is an argument that need not be monotonic.
\<close>

record 'v ttl_entry =
  entry_value :: 'v
  lastUsed :: time

record ('k, 'v) ttl_cache =
  cache_entries :: "('k \<times> 'v ttl_entry) list"
  ttl :: duration
  maxSize :: int

definition NewTTLCache :: "duration \<Rightarrow> int \<Rightarrow> ('k, 'v) ttl_cache" where
  "NewTTLCache t n = \<lparr>cache_entries = [], ttl = t, maxSize = n\<rparr>"

definition expired :: "('k, 'v) ttl_cache \<Rightarrow> time \<Rightarrow> 'v ttl_entry \<Rightarrow> bool" where
  "expired c now e \<longleftrightarrow> ttl c > 0 \<and> time_sub now (lastUsed e) > ttl c"

definition sweep :: "('k, 'v) ttl_cache \<Rightarrow> time \<Rightarrow> ('k \<times> 'v ttl_entry) list" where
  "sweep c now = filter (\<lambda>(k, e). \<not> expired c now e) (cache_entries c)"

fun lru_scan :: "('k \<times> time) option \<Rightarrow> ('k \<times> 'v ttl_entry) list \<Rightarrow> ('k \<times> time) option" where
  "lru_scan best [] = best"
| "lru_scan best ((k, e) # es) =
     (case best of
        None \<Rightarrow> lru_scan (Some (k, lastUsed e)) es
      | Some (k0, t0) \<Rightarrow>
          (if lastUsed e < t0 then lru_scan (Some (k, lastUsed e)) es else lru_scan best es))"

definition make_room :: "int \<Rightarrow> ('k \<times> 'v ttl_entry) list \<Rightarrow> ('k \<times> 'v ttl_entry) list" where
  "make_room cap es =
     (if int (length es) \<ge> cap
      then (case lru_scan None es of None \<Rightarrow> es | Some (k, t) \<Rightarrow> AList.delete k es)
      else es)"

definition ttl_GetOrCreate ::
  "'k \<Rightarrow> ('s \<Rightarrow> 'v \<times> 's) \<Rightarrow> time \<Rightarrow> ('k, 'v) ttl_cache \<Rightarrow> 's \<Rightarrow> 'v \<times> ('k, 'v) ttl_cache \<times> 's" where
  "ttl_GetOrCreate k create now c s =
     (if maxSize c \<le> 0 then (let (v, s') = create s in (v, c, s'))
      else
        (let es = sweep c now
         in case map_of es k of
              Some e \<Rightarrow>
                (entry_value e, c\<lparr>cache_entries := AList.update k (e\<lparr>lastUsed := now\<rparr>) es\<rparr>, s)
            | None \<Rightarrow>
                (let es' = make_room (maxSize c) es; (v, s') = create s
                 in (v, c\<lparr>cache_entries := AList.update k \<lparr>entry_value = v, lastUsed = now\<rparr> es'\<rparr>, s'))))"

definition ttl_Len :: "('k, 'v) ttl_cache \<Rightarrow> nat" where
  "ttl_Len c = length (cache_entries c)"

text \<open>The invariant: one entry per key, and never more than the cap.\<close>

definition ttl_ok :: "('k, 'v) ttl_cache \<Rightarrow> bool" where
  "ttl_ok c \<longleftrightarrow> distinct (keys_of (cache_entries c)) \<and>
     (0 < maxSize c \<longrightarrow> int (length (cache_entries c)) \<le> maxSize c) \<and>
     (maxSize c \<le> 0 \<longrightarrow> cache_entries c = [])"

lemma ttl_ok_New [keeps]: "ttl_ok (NewTTLCache t n)"
  by (simp add: ttl_ok_def NewTTLCache_def)

lemma lru_scan_Some: "lru_scan (Some b) es \<noteq> None"
  by (induction es arbitrary: b) (auto split: prod.splits)

lemma lru_scan_best:
  assumes "lru_scan best es = Some (k, t)"
  shows "(best = Some (k, t) \<or> (\<exists>e. (k, e) \<in> set es \<and> lastUsed e = t)) \<and>
    (\<forall>(k', e) \<in> set es. t \<le> lastUsed e) \<and> (\<forall>k0 t0. best = Some (k0, t0) \<longrightarrow> t \<le> t0)"
  using assms
proof (induction best es rule: lru_scan.induct)
  case (2 best k' e es)
  then show ?case by (cases best) (force split: if_splits prod.splits)+
qed simp

text \<open>What is dropped is a least recently used entry.\<close>

lemma lru_scan_minimal:
  assumes "lru_scan None es = Some (k, t)"
  shows "\<exists>e. (k, e) \<in> set es \<and> lastUsed e = t" and "(k', e') \<in> set es \<Longrightarrow> t \<le> lastUsed e'"
  using lru_scan_best[OF assms] by auto

lemma lru_scan_nonempty: "es \<noteq> [] \<Longrightarrow> lru_scan None es \<noteq> None"
  by (cases es; cases "hd es") (simp_all add: lru_scan_Some del: not_None_eq)

lemma lru_scan_key: "lru_scan None es = Some (k, t) \<Longrightarrow> k \<in> set (keys_of es)"
  using lru_scan_minimal(1) by force

lemma distinct_sweep: "distinct (keys_of (cache_entries c)) \<Longrightarrow> distinct (keys_of (sweep c now))"
  unfolding sweep_def by (simp add: distinct_map_filter)

lemma length_sweep: "length (sweep c now) \<le> length (cache_entries c)"
  by (simp add: sweep_def)

lemma map_of_filter_distinct:
  "distinct (keys_of m) \<Longrightarrow> map_of (filter (\<lambda>(k, e). P e) m) k =
     (case map_of m k of None \<Rightarrow> None | Some e \<Rightarrow> if P e then Some e else None)"
  by (induction m) (auto simp: map_of_eq_None_iff split: option.splits)

lemma map_of_sweep:
  "distinct (keys_of (cache_entries c)) \<Longrightarrow>
   map_of (sweep c now) k =
     (case map_of (cache_entries c) k of
        None \<Rightarrow> None | Some e \<Rightarrow> if expired c now e then None else Some e)"
  unfolding sweep_def by (subst map_of_filter_distinct) (auto split: option.splits)

lemma make_room_distinct: "distinct (keys_of es) \<Longrightarrow> distinct (keys_of (make_room cap es))"
  by (auto simp: make_room_def split: option.splits)

lemma make_room_length:
  assumes "0 < cap" and "distinct (keys_of es)" and "int (length es) \<le> cap"
  shows "int (length (make_room cap es)) < cap"
proof (cases "int (length es) \<ge> cap")
  case True
  with assms have "es \<noteq> []" by auto
  then obtain k t where kt: "lru_scan None es = Some (k, t)"
    using lru_scan_nonempty by fastforce
  then have "k \<in> set (keys_of es)" by (rule lru_scan_key)
  then have "length (AList.delete k es) < length es" by (rule length_delete_present)
  with True kt assms(3) show ?thesis by (simp add: make_room_def)
qed (simp add: make_room_def)

lemma make_room_subset: "set (make_room cap es) \<subseteq> set es"
  by (auto simp: make_room_def AList.delete_eq split: option.splits)

text \<open>Every call keeps the invariant, and the key asked for is there afterwards.\<close>

lemma ttl_GetOrCreate_ok [keeps]:
  assumes ok: "ttl_ok c" and call: "ttl_GetOrCreate k create now c s = (v, c', s')"
  shows "ttl_ok c'"
proof (cases "maxSize c \<le> 0")
  case True
  with call ok show ?thesis by (simp add: ttl_GetOrCreate_def Let_def split_beta)
next
  case False
  let ?es = "sweep c now"
  from ok have d: "distinct (keys_of ?es)" by (simp add: ttl_ok_def distinct_sweep)
  from ok False have n: "int (length ?es) \<le> maxSize c"
    using length_sweep[of c now] by (simp add: ttl_ok_def)
  show ?thesis
  proof (cases "map_of ?es k")
    case (Some e)
    then have "k \<in> set (keys_of ?es)" by (metis map_of_eq_None_iff option.distinct(1) set_map)
    then have "length (AList.update k x ?es) = length ?es" for x by (rule length_update_old)
    with Some False call d n show ?thesis
      by (auto simp: ttl_GetOrCreate_def ttl_ok_def)
  next
    case None
    let ?r = "make_room (maxSize c) ?es"
    have "int (length ?r) < maxSize c" using False d n by (intro make_room_length) auto
    moreover have len: "length (AList.update k x ?r) \<le> Suc (length ?r)" for x
      by (rule length_update_le)
    ultimately have "int (length (AList.update k x ?r)) \<le> maxSize c" for x
      using len[of x] by linarith
    with None False call d show ?thesis
      by (auto simp: ttl_GetOrCreate_def ttl_ok_def Let_def split_beta make_room_distinct)
  qed
qed

lemma ttl_GetOrCreate_hit:
  assumes "0 < maxSize c" and "distinct (keys_of (cache_entries c))"
    and "map_of (cache_entries c) k = Some e" and "\<not> expired c now e"
  shows "\<exists>c'. ttl_GetOrCreate k create now c s = (entry_value e, c', s)"
  using assms by (simp add: ttl_GetOrCreate_def Let_def map_of_sweep)

lemma ttl_GetOrCreate_stale:
  assumes "0 < maxSize c" and "distinct (keys_of (cache_entries c))"
    and "map_of (cache_entries c) k = Some e" and "expired c now e"
  shows "fst (ttl_GetOrCreate k create now c s) = fst (create s)"
  using assms by (simp add: ttl_GetOrCreate_def Let_def map_of_sweep split_beta)

lemma ttl_GetOrCreate_present:
  assumes "0 < maxSize c" and "ttl_GetOrCreate k create now c s = (v, c', s')"
  shows "map_of (cache_entries c') k = Some \<lparr>entry_value = v, lastUsed = now\<rparr>"
  using assms by (auto simp: ttl_GetOrCreate_def Let_def split_beta split: option.splits)

end
