(* ===== verification/RepoSelector.thy ===== *)
theory RepoSelector imports Util begin

text \<open>
  \<open>internal/reposelector\<close>: the grammars of repository owners and names. The three anchored regular
  expressions are character classes with a length bound and are written out as such.
\<close>

definition is_lower_alnum :: "char \<Rightarrow> bool" where
  "is_lower_alnum c \<longleftrightarrow> is_digit c \<or> (97::nat) \<le> of_char c \<and> (of_char c :: nat) \<le> 122"

definition isASCII :: "string \<Rightarrow> bool" where
  "isASCII s = list_all (\<lambda>c. (of_char c :: nat) \<le> 127) s"

text \<open>\<open>^[a-z0-9][a-z0-9-]{0,38}$\<close>, \<open>^[a-z0-9][a-z0-9_-]{0,38}$\<close> and \<open>^[a-z0-9._-]{1,100}$\<close>.\<close>

definition canonicalOwnerPattern :: "string \<Rightarrow> bool" where
  "canonicalOwnerPattern s =
     (case s of [] \<Rightarrow> False
      | c # cs \<Rightarrow> is_lower_alnum c \<and> length cs \<le> 38 \<and> list_all (\<lambda>x. is_lower_alnum x \<or> x = CHR ''-'') cs)"

definition legacyOwnerPattern :: "string \<Rightarrow> bool" where
  "legacyOwnerPattern s =
     (case s of [] \<Rightarrow> False
      | c # cs \<Rightarrow> is_lower_alnum c \<and> length cs \<le> 38 \<and>
          list_all (\<lambda>x. is_lower_alnum x \<or> x = CHR ''_'' \<or> x = CHR ''-'') cs)"

definition repoNamePattern :: "string \<Rightarrow> bool" where
  "repoNamePattern s \<longleftrightarrow> 1 \<le> length s \<and> length s \<le> 100 \<and>
     list_all (\<lambda>x. is_lower_alnum x \<or> x = CHR ''.'' \<or> x = CHR ''_'' \<or> x = CHR ''-'') s"

definition IsTraversalRepoName :: "string \<Rightarrow> bool" where
  "IsTraversalRepoName name \<longleftrightarrow> name = ''.'' \<or> contains_sub ''..'' name"

datatype rejection = Traversal | PatternMismatch

definition canonicalRepoNameRejection :: "string \<Rightarrow> rejection option" where
  "canonicalRepoNameRejection name =
     (if IsTraversalRepoName name then Some Traversal
      else if \<not> repoNamePattern name then Some PatternMismatch
      else None)"

definition IsCanonicalRepoName :: "string \<Rightarrow> bool" where
  "IsCanonicalRepoName name = (canonicalRepoNameRejection name = None)"

definition IsCanonicalOwner :: "string \<Rightarrow> bool" where
  "IsCanonicalOwner owner \<longleftrightarrow> isASCII owner \<and> canonicalOwnerPattern owner"

definition IsLegacyOwner :: "string \<Rightarrow> bool" where
  "IsLegacyOwner owner = legacyOwnerPattern owner"

definition splitSelector :: "string \<Rightarrow> (string \<times> string) option" where
  "splitSelector selector =
     (case cut CHR ''/'' selector of
        None \<Rightarrow> None
      | Some (owner, name) \<Rightarrow> if CHR ''/'' \<in> set name then None else Some (owner, name))"

definition IsCanonicalRepositorySelector :: "string \<Rightarrow> bool" where
  "IsCanonicalRepositorySelector selector =
     (if \<not> isASCII selector then False
      else
        (case splitSelector selector of
           None \<Rightarrow> False
         | Some (owner, name) \<Rightarrow>
             (if \<not> canonicalOwnerPattern owner then False
              else canonicalRepoNameRejection name = None)))"

definition IsLegacyRepositorySelector :: "string \<Rightarrow> bool" where
  "IsLegacyRepositorySelector selector =
     (case splitSelector selector of
        None \<Rightarrow> False
      | Some (owner, name) \<Rightarrow> IsLegacyOwner owner \<and> IsCanonicalRepoName name)"

section \<open>What is accepted\<close>

lemma splitSelector_Some_iff:
  "splitSelector s = Some (a, b) \<longleftrightarrow> s = a @ ''/'' @ b \<and> CHR ''/'' \<notin> set a \<and> CHR ''/'' \<notin> set b"
proof -
  have "splitSelector s = Some (a, b) \<longleftrightarrow> cut CHR ''/'' s = Some (a, b) \<and> CHR ''/'' \<notin> set b"
    by (auto simp: splitSelector_def split: option.split)
  then show ?thesis by (auto simp: cut_Some_iff)
qed

definition plain_char :: "char \<Rightarrow> bool" where
  "plain_char c \<longleftrightarrow> (of_char c :: nat) \<le> 127 \<and> c \<noteq> CHR ''/''"

lemma plain_lower_alnum: "is_lower_alnum c \<Longrightarrow> plain_char c"
  by (auto simp: is_lower_alnum_def is_digit_def plain_char_def)

lemma plain_punctuation: "plain_char CHR ''-''" "plain_char CHR ''_''" "plain_char CHR ''.''"
  by (simp_all add: plain_char_def)

lemma alnum_not_dot: "is_lower_alnum c \<Longrightarrow> c \<noteq> CHR ''.''"
  by (auto simp: is_lower_alnum_def is_digit_def)

lemma plain_string: "list_all plain_char s \<Longrightarrow> isASCII s \<and> CHR ''/'' \<notin> set s"
  unfolding isASCII_def list_all_iff plain_char_def by blast

lemma canonical_owner_chars:
  assumes "canonicalOwnerPattern s"
  shows "isASCII s \<and> CHR ''/'' \<notin> set s" and "s \<noteq> []" and "length s \<le> 39"
proof -
  obtain c cs where s: "s = c # cs" using assms by (cases s) (simp_all add: canonicalOwnerPattern_def)
  with assms have "is_lower_alnum c" "list_all (\<lambda>x. is_lower_alnum x \<or> x = CHR ''-'') cs" "length cs \<le> 38"
    by (simp_all add: canonicalOwnerPattern_def)
  then have "list_all plain_char s"
    unfolding s list_all_iff using plain_lower_alnum plain_punctuation by (metis set_ConsD)
  then show "isASCII s \<and> CHR ''/'' \<notin> set s" by (rule plain_string)
  show "s \<noteq> []" "length s \<le> 39" using s \<open>length cs \<le> 38\<close> by simp_all
qed

lemma repo_name_chars:
  assumes "repoNamePattern s"
  shows "isASCII s \<and> CHR ''/'' \<notin> set s"
proof -
  have "list_all plain_char s"
    using assms plain_lower_alnum plain_punctuation unfolding repoNamePattern_def list_all_iff by metis
  then show ?thesis by (rule plain_string)
qed

lemma IsCanonicalRepoName_iff: "IsCanonicalRepoName n \<longleftrightarrow> repoNamePattern n \<and> \<not> IsTraversalRepoName n"
  by (auto simp: IsCanonicalRepoName_def canonicalRepoNameRejection_def)

lemma isASCII_append [simp]: "isASCII (a @ b) \<longleftrightarrow> isASCII a \<and> isASCII b" "isASCII (c # b) \<longleftrightarrow> (of_char c :: nat) \<le> 127 \<and> isASCII b"
  by (auto simp: isASCII_def)

text \<open>The selector grammar is an owner, one slash and a name, with nothing else to check.\<close>

lemma IsCanonicalRepositorySelector_iff:
  "IsCanonicalRepositorySelector s \<longleftrightarrow>
     (\<exists>owner name. s = owner @ ''/'' @ name \<and> IsCanonicalOwner owner \<and> IsCanonicalRepoName name)"
proof
  assume "IsCanonicalRepositorySelector s"
  then obtain a b where "splitSelector s = Some (a, b)" "canonicalOwnerPattern a" "canonicalRepoNameRejection b = None"
    by (auto simp: IsCanonicalRepositorySelector_def split: if_splits option.splits prod.splits)
  then show "\<exists>owner name. s = owner @ ''/'' @ name \<and> IsCanonicalOwner owner \<and> IsCanonicalRepoName name"
    using canonical_owner_chars[of a]
    by (auto simp: splitSelector_Some_iff IsCanonicalOwner_def IsCanonicalRepoName_def)
next
  assume "\<exists>owner name. s = owner @ ''/'' @ name \<and> IsCanonicalOwner owner \<and> IsCanonicalRepoName name"
  then obtain a b where s: "s = a @ ''/'' @ b" "canonicalOwnerPattern a" "repoNamePattern b" "\<not> IsTraversalRepoName b"
    by (auto simp: IsCanonicalOwner_def IsCanonicalRepoName_iff)
  then have "splitSelector s = Some (a, b)"
    using canonical_owner_chars[of a] repo_name_chars[of b] by (simp add: splitSelector_Some_iff)
  moreover have "isASCII s" using s canonical_owner_chars[of a] repo_name_chars[of b] by simp
  ultimately show "IsCanonicalRepositorySelector s"
    using s by (simp add: IsCanonicalRepositorySelector_def canonicalRepoNameRejection_def)
qed

lemma canonical_is_legacy: "IsCanonicalRepositorySelector s \<Longrightarrow> IsLegacyRepositorySelector s"
proof -
  assume "IsCanonicalRepositorySelector s"
  then obtain a b where s: "splitSelector s = Some (a, b)" "canonicalOwnerPattern a" "IsCanonicalRepoName b"
    by (auto simp: IsCanonicalRepositorySelector_def IsCanonicalRepoName_def split: if_splits option.splits)
  moreover have "legacyOwnerPattern a"
    using s(2) by (cases a) (auto simp: canonicalOwnerPattern_def legacyOwnerPattern_def list_all_iff)
  ultimately show ?thesis by (simp add: IsLegacyRepositorySelector_def IsLegacyOwner_def)
qed

text \<open>Used in a path, an accepted selector neither leaves its directory nor has other segments.\<close>

lemma canonical_path_safe:
  assumes "IsLegacyRepositorySelector s"
  shows "\<exists>owner name. split_on CHR ''/'' s = [owner, name] \<and> owner \<notin> {[], ''.'', ''..''} \<and> name \<notin> {[], ''.'', ''..''}"
proof -
  from assms obtain a b where s: "splitSelector s = Some (a, b)" "legacyOwnerPattern a" "IsCanonicalRepoName b"
    by (auto simp: IsLegacyRepositorySelector_def IsLegacyOwner_def split: option.splits)
  then have "s = a @ CHR ''/'' # b" "CHR ''/'' \<notin> set a" "CHR ''/'' \<notin> set b" by (auto simp: splitSelector_Some_iff)
  then have "split_on CHR ''/'' s = [a, b]" by (simp add: split_on_append split_on_fresh)
  moreover have "a \<notin> {[], ''.'', ''..''}"
    using s(2) alnum_not_dot by (cases a) (auto simp: legacyOwnerPattern_def)
  moreover have "b \<notin> {[], ''.'', ''..''}"
    using s(3) by (auto simp: IsCanonicalRepoName_iff IsTraversalRepoName_def repoNamePattern_def)
  ultimately show ?thesis by blast
qed

end
