(* ===== verification/ServiceProperties.thy ===== *)
theory ServiceProperties imports CircuitBreaker Pagination TtlCache RepoSelector begin

text \<open>
  The properties of the supporting services: circuit breaker, pagination, caches, registry and the
  repository selector grammar.
\<close>

section \<open>The circuit breaker\<close>

lemma rate_limits_count:
  assumes "cb_State cb = circuitClosed" and "errors cb = 0" and "0 < threshold cb"
  shows "errors (fold (\<lambda>(now, reset). RecordRateLimit now reset) xs cb) = length xs \<and>
    threshold (fold (\<lambda>(now, reset). RecordRateLimit now reset) xs cb) = threshold cb \<and>
    cb_State (fold (\<lambda>(now, reset). RecordRateLimit now reset) xs cb) =
      (if int (length xs) \<ge> threshold cb then circuitOpen else circuitClosed)"
proof (induction xs rule: rev_induct)
  case (snoc x xs)
  let ?c = "fold (\<lambda>(now, reset). RecordRateLimit now reset) xs cb"
  obtain now reset where x: "x = (now, reset)" by fastforce
  have t: "threshold (RecordRateLimit now reset ?c) = threshold ?c"
    by (auto simp: RecordRateLimit_def Let_def split: prod.split cb_state.split)
  have s: "cb_State (RecordRateLimit now reset ?c) =
      (case cb_State ?c of circuitClosed \<Rightarrow> if int (Suc (errors ?c)) \<ge> threshold ?c then circuitOpen else circuitClosed
       | _ \<Rightarrow> circuitOpen)"
    using errors_RecordRateLimit[of now reset ?c]
    by (auto simp: RecordRateLimit_def errors_def fc_Increment_Get Let_def split: prod.split cb_state.split)
      (auto simp: fc_Increment_def Let_def fc_Get_def)
  show ?case using snoc.IH t s errors_RecordRateLimit[of now reset ?c] by (simp add: x)
qed (use assms in simp)

text \<open>A fresh circuit breaker opens with the configured number of consecutive rate-limit responses and
  not earlier, whatever their times and reset headers (the default of 3 stands in for a threshold
  that is not positive).\<close>

lemma breaker_opens_at_threshold:
  "cb_State (fold (\<lambda>(now, reset). RecordRateLimit now reset) xs (newCircuitBreaker sid thr cool)) =
     (if int (length xs) \<ge> (if thr > 0 then thr else DefaultRateLimitThreshold) then circuitOpen else circuitClosed)"
proof -
  have "threshold (newCircuitBreaker sid thr cool) = (if thr > 0 then thr else DefaultRateLimitThreshold)"
    "cb_State (newCircuitBreaker sid thr cool) = circuitClosed" "errors (newCircuitBreaker sid thr cool) = 0"
    "0 < threshold (newCircuitBreaker sid thr cool)"
    by (simp_all add: newCircuitBreaker_def PositiveOrDefault_def errors_def DefaultRateLimitThreshold_def)
  with rate_limits_count[of "newCircuitBreaker sid thr cool" xs] show ?thesis by simp
qed

text \<open>C28: Over every history of calls, a circuit breaker keeps its invariant: a probe is in flight only while
  half-open, and while closed it has seen fewer consecutive errors than the threshold.\<close>

theorem breaker_history_invariant:
  "(probeInFlight (fold cb_step ops (newCircuitBreaker sid thr cool)) \<longrightarrow>
      cb_State (fold cb_step ops (newCircuitBreaker sid thr cool)) = circuitHalfOpen) \<and>
   (cb_State (fold cb_step ops (newCircuitBreaker sid thr cool)) = circuitClosed \<longrightarrow>
      int (errors (fold cb_step ops (newCircuitBreaker sid thr cool))) <
        threshold (fold cb_step ops (newCircuitBreaker sid thr cool)))"
  using breaker.run_ok[OF cb_ok_new, of ops sid thr cool] by (simp add: cb_ok_def)

lemma breaker_history_invariant_witness:
  "cb_State (fold cb_step [RateLimitOp 5 0, AllowOp (6 + 60 * second)] (newCircuitBreaker ''github'' 1 0)) = circuitHalfOpen"
proof -
  have "probeInFlight (fold cb_step [RateLimitOp 5 0, AllowOp (6 + 60 * second)] (newCircuitBreaker ''github'' 1 0))" by code_simp
  then show ?thesis using breaker_history_invariant by blast
qed

text \<open>When the open period has elapsed, the first caller becomes the probe and every caller of the
  following 30 seconds is rejected, however many there are, until the probe reports.\<close>

lemma single_probe:
  assumes "cb_State cb = circuitOpen" and "now > openUntil cb" and "now \<noteq> 0"
    and "\<forall>t\<in>set later. time_sub t now \<le> probeStrandedTimeout"
  shows "fst (cb_Allow now cb) = None \<and>
    (\<forall>t\<in>set later. fst (cb_Allow t (fold (\<lambda>t. snd \<circ> cb_Allow t) later (snd (cb_Allow now cb)))) \<noteq> None)"
proof -
  let ?p = "snd (cb_Allow now cb)"
  have stuck: "snd (cb_Allow t ?p) = ?p" if "t \<in> set later" for t
    using assms(1-3) bspec[OF assms(4) that] by (simp add: cb_Allow_def)
  have "fold (\<lambda>t. snd \<circ> cb_Allow t) ts ?p = ?p" if "set ts \<subseteq> set later" for ts
    using that by (induction ts) (simp_all add: stuck)
  then have "fold (\<lambda>t. snd \<circ> cb_Allow t) later ?p = ?p" by simp
  then show ?thesis
    using open_rejects_until[OF assms(1), of now] probe_is_exclusive[OF assms(1,2,3)] assms(2,4) by simp
qed

lemma single_probe_example:
  "fst (cb_Allow (6 + 61 * second)
     (fold (\<lambda>t. snd \<circ> cb_Allow t) [6 + 61 * second]
       (snd (cb_Allow (6 + 60 * second) (RecordRateLimit 5 0 (newCircuitBreaker ''github'' 1 0)))))) \<noteq> None"
proof -
  let ?cb = "RecordRateLimit 5 0 (newCircuitBreaker ''github'' 1 0)"
  have "cb_State ?cb = circuitOpen \<and> 6 + 60 * second > openUntil ?cb \<and> 6 + 60 * second \<noteq> 0 \<and>
      time_sub (6 + 61 * second) (6 + 60 * second) \<le> probeStrandedTimeout" by code_simp
  then show ?thesis using single_probe[of ?cb "6 + 60 * second" "[6 + 61 * second]"] by simp
qed

text \<open>C29: A circuit breaker never wedges: after any history of calls (with a clock that does not return the
  zero time) there is a time, which the state determines, after which the next caller is admitted.\<close>

theorem breaker_never_wedges:
  assumes "list_all real_clock ops" and "now > retry_after (fold cb_step ops (newCircuitBreaker sid thr cool))"
  shows "fst (cb_Allow now (fold cb_step ops (newCircuitBreaker sid thr cool))) = None"
proof -
  have "probe_timed (newCircuitBreaker sid thr cool)" by (simp add: probe_timed_def newCircuitBreaker_def)
  from allowed_after_retry[OF probe_timed_run[OF this assms(1)] assms(2)] show ?thesis .
qed

lemma breaker_never_wedges_witness:
  "fst (cb_Allow (100 * second) (fold cb_step [RateLimitOp 5 0, AllowOp (6 + 60 * second)] (newCircuitBreaker ''github'' 1 0))) = None"
  by (rule breaker_never_wedges) code_simp+

section \<open>Pagination\<close>

text \<open>Collecting pages succeeds exactly when the backend serves a finite sequence of pages whose cursors do
  not repeat and that respects the page cap, and then the result is the concatenation of exactly
  these pages, in order.\<close>

lemma pagination_exact:
  "PaginateAll maxPages fetch s = Some (Inr xs, s') \<longleftrightarrow>
     (\<exists>ps. served fetch [] s ps s' \<and> xs = concat (map fst ps) \<and> distinct (butlast (map snd ps)) \<and>
        (maxPages \<le> 0 \<or> int (length ps) \<le> maxPages))"
  unfolding PaginateAll_iff by (metis not_less)

text \<open>C30: Pagination with the cap that every caller in the gateway uses returns for every backend, even one
  that hands out new cursors for ever.\<close>

theorem pagination_terminates:
  "\<exists>outcome. paginateAll fetch s = Some outcome"
  unfolding paginateAll_def PaginateAll_def
  using paginate_loop_returns[of paginateAllMaxPages fetch 0 "[]" "[]" "[]" s] by (simp add: paginateAllMaxPages_def)

section \<open>Caches and registries\<close>

definition cached_calls :: "('k \<times> 'v \<times> time) list \<Rightarrow> ('k, 'v) ttl_cache \<Rightarrow> ('k, 'v) ttl_cache" where
  "cached_calls calls c = fold (\<lambda>(k, v, now) c. fst (snd (ttl_GetOrCreate k (\<lambda>s. (v, s)) now c ()))) calls c"

lemma cached_calls_ok: "ttl_ok c \<Longrightarrow> ttl_ok (cached_calls calls c) \<and> maxSize (cached_calls calls c) = maxSize c"
proof (induction calls arbitrary: c)
  case (Cons x calls)
  obtain k v now where x: "x = (k, v, now)" by (cases x)
  obtain w c' where g: "ttl_GetOrCreate k (\<lambda>s. (v, s)) now c () = (w, c', ())" by (metis prod_cases3 old.unit.exhaust)
  have "ttl_ok c'" by (rule ttl_GetOrCreate_ok[OF Cons.prems g])
  moreover have "maxSize c' = maxSize c"
    using g by (auto simp: ttl_GetOrCreate_def Let_def split: if_splits option.splits)
  ultimately show ?case using Cons.IH[of c'] g x by (simp add: cached_calls_def)
qed (simp add: cached_calls_def)

text \<open>Whatever is requested at whatever times, the TTL cache never holds more entries than its cap, and the
  entry just requested is there with the value that was returned.\<close>

lemma ttl_cache_bounded:
  assumes "0 < n"
  shows "int (ttl_Len (cached_calls calls (NewTTLCache t n))) \<le> n \<and>
    (case ttl_GetOrCreate k create now (cached_calls calls (NewTTLCache t n)) s of
       (v, c', s') \<Rightarrow> int (ttl_Len c') \<le> n \<and> map_of (cache_entries c') k = Some \<lparr>entry_value = v, lastUsed = now\<rparr>)"
proof -
  let ?c = "cached_calls calls (NewTTLCache t n)"
  have c: "ttl_ok ?c" "maxSize ?c = n"
    using cached_calls_ok[OF ttl_ok_New, of calls t n] by (simp_all add: NewTTLCache_def)
  obtain v c' s' where g: "ttl_GetOrCreate k create now ?c s = (v, c', s')" by (metis prod_cases3)
  have "maxSize c' = n"
    using g c(2) by (auto simp: ttl_GetOrCreate_def Let_def split: if_splits option.splits prod.splits)
  with ttl_GetOrCreate_ok[OF c(1) g] ttl_GetOrCreate_present[OF _ g] c assms g show ?thesis
    by (simp add: ttl_ok_def ttl_Len_def)
qed

lemma ttl_cache_bounded_example:
  "int (ttl_Len (cached_calls [(''a'', 1 :: nat, 1), (''b'', 2, 2), (''c'', 3, 3)] (NewTTLCache 0 2))) \<le> 2"
  using ttl_cache_bounded[where n = 2 and calls = "[(''a'', 1 :: nat, 1), (''b'', 2, 2), (''c'', 3, 3)]" and t = 0
      and k = "''a''" and create = "\<lambda>s. (0, s)" and now = 4 and s = "()"] by simp

text \<open>Two goroutines that both miss the same key in a registry agree on one value: whoever takes the write
  lock second gets the first one's value, does not run its own constructor and changes nothing.\<close>

lemma registry_race_agrees:
  assumes "reg_Get r k = None" and "reg_getOrCreateAfterMiss k create1 r s = (v1, r1, s1)"
  shows "reg_getOrCreateAfterMiss k create2 r1 s1 = (v1, r1, s1) \<and> v1 = fst (create1 s)"
  using assms by (auto simp: reg_getOrCreateAfterMiss_def reg_Get_def reg_Set_def Let_def split: option.splits prod.splits)

lemma registry_race_agrees_example:
  "reg_getOrCreateAfterMiss ''k'' (\<lambda>s. (2 :: nat, s + 1)) (reg_Set ''k'' 1 NewRegistry) (5 :: nat) = (1, reg_Set ''k'' 1 NewRegistry, 5)"
proof -
  have "reg_getOrCreateAfterMiss ''k'' (\<lambda>s. (1 :: nat, s)) NewRegistry (5 :: nat) = (1, reg_Set ''k'' 1 NewRegistry, 5)" by code_simp
  from registry_race_agrees[OF _ this] show ?thesis by simp
qed

section \<open>Repository selectors\<close>

text \<open>A selector that either grammar accepts is safe to put into a URL path: it consists of exactly two
  segments, neither of them empty or a traversal, and the canonical grammar accepts nothing that the
  legacy one rejects.\<close>

lemma selector_path_safe:
  "(IsCanonicalRepositorySelector s \<longrightarrow> IsLegacyRepositorySelector s) \<and>
   (IsLegacyRepositorySelector s \<longrightarrow>
     (\<exists>owner name. split_on CHR ''/'' s = [owner, name] \<and> owner \<notin> {[], ''.'', ''..''} \<and> name \<notin> {[], ''.'', ''..''}))"
  using canonical_is_legacy canonical_path_safe by blast

lemma selector_path_safe_example:
  "\<exists>owner name. split_on CHR ''/'' ''github/gh-aw.mcpg'' = [owner, name] \<and> name \<notin> {[], ''.'', ''..''}"
proof -
  have "IsCanonicalRepositorySelector ''github/gh-aw.mcpg''" by code_simp
  then show ?thesis using selector_path_safe[of "''github/gh-aw.mcpg''"] by blast
qed

end
