(* ===== verification/DelegationTypes.thy ===== *)
theory DelegationTypes imports RepoSelector begin

text \<open>
  \<open>internal/delegation\<close>: the envelope (\<open>envelope.go\<close>), the request and the identity
  (\<open>identity.go\<close>), the delegated tools (\<open>selector.go\<close>), the wire forms (\<open>wire.go\<close>) and the
  control capability (\<open>capability.go\<close>). SHA-256 is the argument \<open>sha\<close>, a function into any
  type of digests. Audit records and logs are not modelled.
\<close>

section \<open>Delegated tools\<close>

definition ToolPolicyGitHubRepositoryReadV1 :: string where
  "ToolPolicyGitHubRepositoryReadV1 = ''github-repository-read-v1''"

definition delegatedTools :: "string list" where
  "delegatedTools = [''issue_read'', ''list_issues'']"

definition DelegatedTools :: "string list" where
  "DelegatedTools = sort delegatedTools"

definition IsDelegatedTool :: "string \<Rightarrow> bool" where
  "IsDelegatedTool tool = (tool \<in> set delegatedTools)"

section \<open>The envelope\<close>

record envelope =
  e_RunID :: string
  e_EnclaveBackend :: string
  AllowedRepositories :: "string list"
  AllowedOwners :: "string list"
  e_ToolPolicy :: string
  AllowedSchemaHashes :: "string list"
  MaxDynamicSchemaHashes :: int
  MaxIdentityTTL :: duration
  e_ExpiresAt :: time

datatype envelope_error =
    EnvelopeRequired | RunIDRequired | BackendRequired | NothingAdmitted
  | BadRepository string | DuplicateRepository string
  | BadOwner string | DuplicateOwner string
  | UnsupportedToolPolicy string | NoSchemaHash | BadMaxTTL | ExpiryRequired

definition validate_repositories :: "string list \<Rightarrow> envelope_error option" where
  "validate_repositories repos =
     ValidateUnique repos (\<lambda>r. if \<not> IsCanonicalRepositorySelector r then Some (BadRepository r) else None)
       (\<lambda>r. r) DuplicateRepository"

definition validate_owners :: "string list \<Rightarrow> envelope_error option" where
  "validate_owners owners =
     ValidateUnique owners (\<lambda>w. if \<not> IsCanonicalOwner w then Some (BadOwner w) else None)
       (\<lambda>w. w) DuplicateOwner"

text \<open>The envelope is nil when the pointer is; the result is the first error.\<close>

definition envelope_Validate :: "envelope option \<Rightarrow> envelope_error option" where
  "envelope_Validate eo =
     (case eo of
        None \<Rightarrow> Some EnvelopeRequired
      | Some e \<Rightarrow>
          (if e_RunID e = [] then Some RunIDRequired
           else if e_EnclaveBackend e = [] then Some BackendRequired
           else if AllowedRepositories e = [] \<and> AllowedOwners e = [] then Some NothingAdmitted
           else
             (case validate_repositories (AllowedRepositories e) of
                Some err \<Rightarrow> Some err
              | None \<Rightarrow>
                  (case validate_owners (AllowedOwners e) of
                     Some err \<Rightarrow> Some err
                   | None \<Rightarrow>
                       (if e_ToolPolicy e \<noteq> ToolPolicyGitHubRepositoryReadV1
                        then Some (UnsupportedToolPolicy (e_ToolPolicy e))
                        else if AllowedSchemaHashes e = [] \<and> MaxDynamicSchemaHashes e \<le> 0 then Some NoSchemaHash
                        else if MaxIdentityTTL e \<le> 0 then Some BadMaxTTL
                        else if is_zero_time (e_ExpiresAt e) then Some ExpiryRequired
                        else None)))))"

definition AllowsRepository :: "envelope \<Rightarrow> string \<Rightarrow> bool" where
  "AllowsRepository e repo =
     (if repo \<in> set (AllowedRepositories e) then True
      else if AllowedOwners e = [] \<or> \<not> IsCanonicalRepositorySelector repo then False
      else
        (case cut CHR ''/'' repo of
           None \<Rightarrow> False
         | Some (owner, _) \<Rightarrow> owner \<in> set (AllowedOwners e)))"

definition AllowsSchemaHash :: "envelope \<Rightarrow> string \<Rightarrow> bool" where
  "AllowsSchemaHash e h = (h \<in> set (AllowedSchemaHashes e))"

section \<open>Requests and identities\<close>

record request_core =
  RunID :: string
  EnclaveBackend :: string
  EnclaveEntryID :: string
  InvocationID :: string
  Repository :: string
  ToolPolicy :: string
  SchemaHash :: string
  AdmittedDefaultBranchSHA :: string

record create_request =
  core :: request_core
  RequestedTTL :: duration
  InvocationExpiresAt :: time
  IdempotencyKey :: string

text \<open>\<open>Round(0)\<close> drops the monotonic clock and \<open>UTC\<close> the location; the instant stays.\<close>

record delegation_binding =
  b_core :: request_core
  b_InvocationExpiresAt :: time

definition bindingFromRequest :: "create_request \<Rightarrow> delegation_binding" where
  "bindingFromRequest req = \<lparr>b_core = core req, b_InvocationExpiresAt = InvocationExpiresAt req\<rparr>"

record identity =
  Handle :: string
  ExecutorBearer :: string
  i_binding :: delegation_binding
  i_RequestedTTL :: duration
  i_ExpiresAt :: time
  PolicyGeneration :: nat
  i_IdempotencyKey :: string
  CreatedAt :: time
  Revoked :: bool

abbreviation i_core :: "identity \<Rightarrow> request_core" where "i_core i \<equiv> b_core (i_binding i)"

definition NUL :: string where "NUL = [CHR 0x00]"

definition invocationScopeKey :: "string \<Rightarrow> string \<Rightarrow> string \<Rightarrow> string" where
  "invocationScopeKey runID entryID invocationID = runID @ NUL @ entryID @ NUL @ invocationID"

definition labelKey :: "string \<Rightarrow> string \<Rightarrow> string" where
  "labelKey runID entryID = runID @ NUL @ entryID"

record identity_result =
  res_Handle :: string
  res_ExecutorBearer :: string
  res_Repository :: string
  res_ToolPolicy :: string
  res_Tools :: "string list"
  res_AdmittedDefaultBranchSHA :: string
  res_ExpiresAt :: time

definition toResult :: "identity \<Rightarrow> identity_result" where
  "toResult i =
     \<lparr>res_Handle = Handle i, res_ExecutorBearer = ExecutorBearer i, res_Repository = Repository (i_core i),
      res_ToolPolicy = ToolPolicy (i_core i), res_Tools = DelegatedTools,
      res_AdmittedDefaultBranchSHA = AdmittedDefaultBranchSHA (i_core i), res_ExpiresAt = i_ExpiresAt i\<rparr>"

definition bindingEquals :: "identity \<Rightarrow> create_request \<Rightarrow> bool" where
  "bindingEquals i req \<longleftrightarrow> i_binding i = bindingFromRequest req \<and> i_RequestedTTL i = RequestedTTL req"

definition toRequest :: "identity \<Rightarrow> create_request" where
  "toRequest i =
     (let requestedTTL = (if i_RequestedTTL i = 0 then time_sub (i_ExpiresAt i) (CreatedAt i) else i_RequestedTTL i)
      in \<lparr>core = i_core i, RequestedTTL = requestedTTL,
          InvocationExpiresAt = b_InvocationExpiresAt (i_binding i), IdempotencyKey = i_IdempotencyKey i\<rparr>)"

section \<open>The wire forms\<close>

datatype wire_error = NotPositive | ExceedsMaximum

definition MaxInt64 :: int where "MaxInt64 = 2 ^ 63 - 1"

definition durationFromWireSeconds :: "int \<Rightarrow> wire_error + duration" where
  "durationFromWireSeconds seconds =
     (if seconds \<le> 0 then Inl NotPositive
      else if seconds > MaxInt64 div second then Inl ExceedsMaximum
      else Inr (wrap64 (seconds * second)))"

record envelope_wire =
  w_RunID :: string
  w_EnclaveBackend :: string
  w_AllowedRepositories :: "string list"
  w_AllowedOwners :: "string list"
  w_ToolPolicy :: string
  w_AllowedSchemaHashes :: "string list"
  w_MaxDynamicSchemaHashes :: int
  w_MaxIdentityTTLSeconds :: int
  w_ExpiresAt :: time

definition ToEnvelope :: "envelope_wire \<Rightarrow> wire_error + envelope" where
  "ToEnvelope w =
     (case durationFromWireSeconds (w_MaxIdentityTTLSeconds w) of
        Inl err \<Rightarrow> Inl err
      | Inr ttl \<Rightarrow>
          Inr \<lparr>e_RunID = w_RunID w, e_EnclaveBackend = w_EnclaveBackend w,
               AllowedRepositories = w_AllowedRepositories w, AllowedOwners = w_AllowedOwners w,
               e_ToolPolicy = w_ToolPolicy w, AllowedSchemaHashes = w_AllowedSchemaHashes w,
               MaxDynamicSchemaHashes = w_MaxDynamicSchemaHashes w, MaxIdentityTTL = ttl,
               e_ExpiresAt = w_ExpiresAt w\<rparr>)"

record request_wire =
  wr_core :: request_core
  wr_RequestedTTLSeconds :: int
  wr_InvocationExpiresAt :: time
  wr_IdempotencyKey :: string

definition ToRequest :: "request_wire \<Rightarrow> wire_error + create_request" where
  "ToRequest w =
     (case durationFromWireSeconds (wr_RequestedTTLSeconds w) of
        Inl err \<Rightarrow> Inl err
      | Inr ttl \<Rightarrow>
          Inr \<lparr>core = wr_core w, RequestedTTL = ttl, InvocationExpiresAt = wr_InvocationExpiresAt w,
               IdempotencyKey = wr_IdempotencyKey w\<rparr>)"

section \<open>The control capability\<close>

definition minControlCapabilityBytes :: nat where "minControlCapabilityBytes = 32"

definition BearerPrefix :: string where "BearerPrefix = ''Bearer ''"

definition strip_bearer :: "string \<Rightarrow> string" where
  "strip_bearer header = (case cut_prefix BearerPrefix header of Some rest \<Rightarrow> rest | None \<Rightarrow> header)"

datatype capability_error = SecretTooShort | MissingCapability | InvalidCapability

record 'h control_capability =
  expected :: 'h

definition NewControlCapability :: "(string \<Rightarrow> 'h) \<Rightarrow> string \<Rightarrow> capability_error + 'h control_capability" where
  "NewControlCapability sha secret =
     (if length secret < minControlCapabilityBytes then Inl SecretTooShort
      else Inr \<lparr>expected = sha secret\<rparr>)"

definition Authenticate :: "(string \<Rightarrow> 'h) \<Rightarrow> 'h control_capability \<Rightarrow> string \<Rightarrow> capability_error option" where
  "Authenticate sha c authorizationHeader =
     (let v = strip_bearer authorizationHeader
      in if v = [] then Some MissingCapability
         else if sha v \<noteq> expected c then Some InvalidCapability
         else None)"

section \<open>What they guarantee\<close>

lemma durationFromWireSeconds_Inr:
  "durationFromWireSeconds n = Inr d \<Longrightarrow> d = n * second \<and> 0 < d \<and> d \<le> max_duration"
proof -
  assume "durationFromWireSeconds n = Inr d"
  then have n: "0 < n" "n \<le> MaxInt64 div second" and d: "d = wrap64 (n * second)"
    by (auto simp: durationFromWireSeconds_def split: if_splits)
  have s: "(0::int) < second" by (simp add: second_def)
  have "n * second \<le> MaxInt64 div second * second" using n(2) s by (simp add: mult_right_mono)
  also have "\<dots> \<le> MaxInt64" by (simp add: MaxInt64_def second_def)
  finally have le: "n * second \<le> MaxInt64" .
  have pos: "0 < n * second" using n(1) s by simp
  have "wrap64 (n * second) = n * second"
    using le pos by (intro wrap64_id) (simp_all add: MaxInt64_def)
  with d le pos show ?thesis by (simp add: max_duration_def MaxInt64_def)
qed

lemma envelope_Validate_None:
  assumes "envelope_Validate (Some e) = None"
  shows "e_RunID e \<noteq> []" "e_EnclaveBackend e \<noteq> []" "e_ToolPolicy e = ToolPolicyGitHubRepositoryReadV1"
    "\<forall>r\<in>set (AllowedRepositories e). IsCanonicalRepositorySelector r"
    "\<forall>w\<in>set (AllowedOwners e). IsCanonicalOwner w"
    "AllowedSchemaHashes e \<noteq> [] \<or> 0 < MaxDynamicSchemaHashes e" "0 < MaxIdentityTTL e"
    "\<not> is_zero_time (e_ExpiresAt e)"
proof -
  have v: "validate_repositories (AllowedRepositories e) = None" "validate_owners (AllowedOwners e) = None"
    using assms by (auto simp: envelope_Validate_def split: if_splits option.splits)
  show "\<forall>r\<in>set (AllowedRepositories e). IsCanonicalRepositorySelector r"
    using v(1) by (auto simp: validate_repositories_def ValidateUnique_None split: if_splits)
  show "\<forall>w\<in>set (AllowedOwners e). IsCanonicalOwner w"
    using v(2) by (auto simp: validate_owners_def ValidateUnique_None split: if_splits)
qed (use assms in \<open>auto simp: envelope_Validate_def split: if_splits option.splits\<close>)

text \<open>Admission by owner covers exactly the canonical repositories of that owner.\<close>

lemma AllowsRepository_iff:
  "AllowsRepository e repo \<longleftrightarrow>
     repo \<in> set (AllowedRepositories e) \<or>
     (\<exists>owner name. repo = owner @ ''/'' @ name \<and> owner \<in> set (AllowedOwners e) \<and>
        IsCanonicalOwner owner \<and> IsCanonicalRepoName name)"
proof -
  have "(\<exists>owner name. repo = owner @ ''/'' @ name \<and> owner \<in> set (AllowedOwners e) \<and>
        IsCanonicalOwner owner \<and> IsCanonicalRepoName name) \<longleftrightarrow>
      IsCanonicalRepositorySelector repo \<and> (\<exists>owner rest. cut CHR ''/'' repo = Some (owner, rest) \<and> owner \<in> set (AllowedOwners e))"
  proof -
    have "cut CHR ''/'' (owner @ ''/'' @ name) = Some (owner, name)" if "IsCanonicalOwner owner" for owner name
      using that canonical_owner_chars[of owner] by (simp add: cut_Some_iff IsCanonicalOwner_def)
    then show ?thesis unfolding IsCanonicalRepositorySelector_iff by (metis option.inject prod.inject)
  qed
  then show ?thesis
    by (auto simp: AllowsRepository_def cut_None_iff split: option.splits)
qed

text \<open>
  The scope key joins its parts with NUL bytes. It tells scopes of one run apart as long as the
  entry ID has no NUL; nothing in the request validation excludes one.
\<close>

lemma invocationScopeKey_inject:
  assumes "CHR 0x00 \<notin> set e" and "CHR 0x00 \<notin> set e'"
  shows "invocationScopeKey r e i = invocationScopeKey r e' i' \<longleftrightarrow> e = e' \<and> i = i'"
proof -
  have "e @ CHR 0x00 # i = e' @ CHR 0x00 # i' \<longleftrightarrow> e = e' \<and> i = i'"
    using assms cut_Some_iff[of "CHR 0x00" "e @ CHR 0x00 # i"] by (metis option.inject prod.inject)
  then show ?thesis by (simp add: invocationScopeKey_def NUL_def)
qed

lemma invocationScopeKey_collision:
  "invocationScopeKey r (e @ NUL @ x) i = invocationScopeKey r e (x @ NUL @ i)"
  by (simp add: invocationScopeKey_def)

lemma labelKey_inject [simp]: "labelKey r e = labelKey r e' \<longleftrightarrow> e = e'"
  by (simp add: labelKey_def)

lemma Authenticate_None:
  assumes "NewControlCapability sha secret = Inr c" and "inj sha"
  shows "Authenticate sha c header = None \<longleftrightarrow> strip_bearer header = secret"
  using assms
  by (auto simp: NewControlCapability_def Authenticate_def Let_def inj_def minControlCapabilityBytes_def split: if_splits)

end
