(* ===== verification/DelegationStore.thy ===== *)
theory DelegationStore imports DelegationTypes begin

text \<open>
  \<open>internal/delegation/store.go\<close>: the store of delegated identities. Four maps share the same
  \<open>*Identity\<close> objects and revoking writes into the object, so the model has a heap \<open>cells\<close> and
  the maps hold references into it. Every method runs under the mutex and is one step; the clock
  and the two random tokens (None when the random source fails) are arguments.
\<close>

type_synonym identity_ref = nat

record 'h delegation_store =
  st_envelope :: envelope
  generation :: nat
  cells :: "identity list"
  byHandle :: "(string \<times> identity_ref) list"
  byBearer :: "('h \<times> identity_ref) list"
  byInvocation :: "(string \<times> identity_ref) list"
  byLabel :: "(string \<times> (string \<times> identity_ref) list) list"
  dynamicSchemaHashes :: "string list"
  recoveryIncomplete :: bool

definition empty_store :: "envelope \<Rightarrow> nat \<Rightarrow> 'h delegation_store" where
  "empty_store e gen =
     \<lparr>st_envelope = e, generation = gen, cells = [], byHandle = [], byBearer = [], byInvocation = [],
      byLabel = [], dynamicSchemaHashes = [], recoveryIncomplete = False\<rparr>"

definition NewStore :: "envelope option \<Rightarrow> nat \<Rightarrow> envelope_error + 'h delegation_store" where
  "NewStore eo gen =
     (case envelope_Validate eo of
        Some err \<Rightarrow> Inl err
      | None \<Rightarrow> Inr (empty_store (the eo) gen))"

definition IsRecoveryIncomplete :: "'h delegation_store \<Rightarrow> bool" where
  "IsRecoveryIncomplete s = recoveryIncomplete s"

definition markReconciled :: "'h delegation_store \<Rightarrow> 'h delegation_store" where
  "markReconciled s = s\<lparr>recoveryIncomplete := False\<rparr>"

definition generateOpaqueToken :: "string \<Rightarrow> string option \<Rightarrow> string option" where
  "generateOpaqueToken pre hexStr = map_option (\<lambda>h. pre @ h) hexStr"

datatype envelope_violation =
    EnvelopeExpired | RunOutside | BackendOutside | EntryRequired | InvocationRequired | IdempotencyRequired
  | RepositoryOutside | ToolPolicyOutside | SchemaRequired | SchemaOutside | NoSchemaAdmitted
  | TTLOutside | DeadlineElapsed

definition validateAgainstEnvelope :: "envelope \<Rightarrow> create_request \<Rightarrow> time \<Rightarrow> envelope_violation option" where
  "validateAgainstEnvelope e req now =
     (let c = core req
      in if now > e_ExpiresAt e then Some EnvelopeExpired
         else if RunID c = [] \<or> RunID c \<noteq> e_RunID e then Some RunOutside
         else if EnclaveBackend c = [] \<or> EnclaveBackend c \<noteq> e_EnclaveBackend e then Some BackendOutside
         else if EnclaveEntryID c = [] then Some EntryRequired
         else if InvocationID c = [] then Some InvocationRequired
         else if IdempotencyKey req = [] then Some IdempotencyRequired
         else if \<not> IsCanonicalRepositorySelector (Repository c) \<or> \<not> AllowsRepository e (Repository c)
              then Some RepositoryOutside
         else if ToolPolicy c \<noteq> e_ToolPolicy e then Some ToolPolicyOutside
         else if SchemaHash c = [] then Some SchemaRequired
         else if AllowedSchemaHashes e \<noteq> [] \<and> \<not> AllowsSchemaHash e (SchemaHash c) then Some SchemaOutside
         else if AllowedSchemaHashes e = [] \<and> MaxDynamicSchemaHashes e \<le> 0 then Some NoSchemaAdmitted
         else if RequestedTTL req \<le> 0 \<or> RequestedTTL req > MaxIdentityTTL e then Some TTLOutside
         else if \<not> is_zero_time (InvocationExpiresAt req) \<and> \<not> now < InvocationExpiresAt req
              then Some DeadlineElapsed
         else None)"

definition admitSchemaHashLocked :: "string \<Rightarrow> 'h delegation_store \<Rightarrow> bool \<times> 'h delegation_store" where
  "admitSchemaHashLocked hash s =
     (if AllowsSchemaHash (st_envelope s) hash then (True, s)
      else if AllowedSchemaHashes (st_envelope s) \<noteq> [] then (False, s)
      else if hash \<in> set (dynamicSchemaHashes s) then (True, s)
      else if int (length (dynamicSchemaHashes s)) \<ge> MaxDynamicSchemaHashes (st_envelope s) then (False, s)
      else (True, s\<lparr>dynamicSchemaHashes := dynamicSchemaHashes s @ [hash]\<rparr>))"

definition scope_of :: "identity \<Rightarrow> string" where
  "scope_of i = invocationScopeKey (RunID (i_core i)) (EnclaveEntryID (i_core i)) (InvocationID (i_core i))"

definition label_of :: "identity \<Rightarrow> string" where
  "label_of i = labelKey (RunID (i_core i)) (EnclaveEntryID (i_core i))"

definition indexLocked :: "(string \<Rightarrow> 'h) \<Rightarrow> identity_ref \<Rightarrow> 'h delegation_store \<Rightarrow> 'h delegation_store" where
  "indexLocked sha ref s =
     (let i = cells s ! ref;
          labelled = (case map_of (byLabel s) (label_of i) of Some m \<Rightarrow> m | None \<Rightarrow> [])
      in s\<lparr>byHandle := AList.update (Handle i) ref (byHandle s),
           byBearer := AList.update (sha (ExecutorBearer i)) ref (byBearer s),
           byInvocation := AList.update (scope_of i) ref (byInvocation s),
           byLabel := AList.update (label_of i) (AList.update (Handle i) ref labelled) (byLabel s)\<rparr>)"

text \<open>Allocating the identity object and indexing it.\<close>

definition index_new :: "(string \<Rightarrow> 'h) \<Rightarrow> identity \<Rightarrow> 'h delegation_store \<Rightarrow> 'h delegation_store" where
  "index_new sha i s = indexLocked sha (length (cells s)) (s\<lparr>cells := cells s @ [i]\<rparr>)"

fun identityExpiry_loop :: "time \<Rightarrow> time list \<Rightarrow> time" where
  "identityExpiry_loop expiry [] = expiry"
| "identityExpiry_loop expiry (deadline # ds) =
     identityExpiry_loop (if \<not> is_zero_time deadline \<and> deadline < expiry then deadline else expiry) ds"

definition identityExpiry :: "time \<Rightarrow> duration \<Rightarrow> time list \<Rightarrow> time" where
  "identityExpiry now requestedTTL deadlines = identityExpiry_loop (now + requestedTTL) deadlines"

definition revokeLocked :: "(string \<Rightarrow> 'h) \<Rightarrow> identity_ref \<Rightarrow> 'h delegation_store \<Rightarrow> 'h delegation_store" where
  "revokeLocked sha ref s =
     (let i = cells s ! ref;
          s1 = s\<lparr>cells := (cells s)[ref := i\<lparr>Revoked := True\<rparr>],
                 byHandle := AList.delete (Handle i) (byHandle s),
                 byBearer := AList.delete (sha (ExecutorBearer i)) (byBearer s),
                 byInvocation := AList.update (scope_of i) ref (byInvocation s)\<rparr>
      in case map_of (byLabel s) (label_of i) of
           None \<Rightarrow> s1
         | Some labelled \<Rightarrow>
             (let labelled' = AList.delete (Handle i) labelled
              in s1\<lparr>byLabel := (if labelled' = [] then AList.delete (label_of i) (byLabel s)
                               else AList.update (label_of i) labelled' (byLabel s))\<rparr>))"

text \<open>The loop over \<open>byHandle\<close>; deleting the current entry of a map during its iteration is safe in Go.\<close>

definition cleanup_one :: "(string \<Rightarrow> 'h) \<Rightarrow> time \<Rightarrow> identity_ref \<Rightarrow> 'h delegation_store \<Rightarrow> 'h delegation_store" where
  "cleanup_one sha now ref s =
     (if \<not> now < i_ExpiresAt (cells s ! ref) then revokeLocked sha ref s else s)"

definition cleanupExpiredLocked :: "(string \<Rightarrow> 'h) \<Rightarrow> time \<Rightarrow> 'h delegation_store \<Rightarrow> 'h delegation_store" where
  "cleanupExpiredLocked sha now s = fold (cleanup_one sha now) (map snd (byHandle s)) s"

datatype delegation_error =
    RequestOutsideEnvelope envelope_violation
  | TerminalOutcome
  | BoundToDifferentIdentity
  | RecoveryIncompleteError
  | SchemaBoundExceeded
  | TokenFailure

definition handle_prefix :: string where "handle_prefix = ''dlg_''"
definition bearer_prefix :: string where "bearer_prefix = ''dlgbearer_''"

definition new_identity :: "create_request \<Rightarrow> time \<Rightarrow> string \<Rightarrow> string \<Rightarrow> 'h delegation_store \<Rightarrow> identity" where
  "new_identity req now handle bearer s =
     \<lparr>Handle = handle, ExecutorBearer = bearer, i_binding = bindingFromRequest req,
      i_RequestedTTL = RequestedTTL req,
      i_ExpiresAt = identityExpiry now (RequestedTTL req) [e_ExpiresAt (st_envelope s), InvocationExpiresAt req],
      PolicyGeneration = generation s, i_IdempotencyKey = IdempotencyKey req, CreatedAt = now, Revoked = False\<rparr>"

definition request_scope :: "create_request \<Rightarrow> string" where
  "request_scope req = invocationScopeKey (RunID (core req)) (EnclaveEntryID (core req)) (InvocationID (core req))"

definition createOrConfirmAt ::
  "(string \<Rightarrow> 'h) \<Rightarrow> create_request \<Rightarrow> time \<Rightarrow> string option \<Rightarrow> string option \<Rightarrow> 'h delegation_store \<Rightarrow>
   (delegation_error + identity_result) \<times> 'h delegation_store" where
  "createOrConfirmAt sha req now handleHex bearerHex s =
     (case validateAgainstEnvelope (st_envelope s) req now of
        Some v \<Rightarrow> (Inl (RequestOutsideEnvelope v), s)
      | None \<Rightarrow>
          (let s1 = cleanupExpiredLocked sha now s
           in case map_of (byInvocation s1) (request_scope req) of
                Some existing \<Rightarrow>
                  (if bindingEquals (cells s1 ! existing) req
                   then (if Revoked (cells s1 ! existing) then (Inl TerminalOutcome, s1)
                         else (Inr (toResult (cells s1 ! existing)), s1))
                   else (Inl BoundToDifferentIdentity, revokeLocked sha existing s1))
              | None \<Rightarrow>
                  (if recoveryIncomplete s1 then (Inl RecoveryIncompleteError, s1)
                   else
                     (let (admitted, s2) = admitSchemaHashLocked (SchemaHash (core req)) s1
                      in if \<not> admitted then (Inl SchemaBoundExceeded, s2)
                         else
                           (case (generateOpaqueToken handle_prefix handleHex,
                                  generateOpaqueToken bearer_prefix bearerHex) of
                              (Some handle, Some bearer) \<Rightarrow>
                                (let i = new_identity req now handle bearer s2
                                 in (Inr (toResult i), index_new sha i s2))
                            | _ \<Rightarrow> (Inl TokenFailure, s2))))))"

definition store_Revoke :: "(string \<Rightarrow> 'h) \<Rightarrow> string \<Rightarrow> 'h delegation_store \<Rightarrow> 'h delegation_store" where
  "store_Revoke sha handle s =
     (case map_of (byHandle s) handle of None \<Rightarrow> s | Some ref \<Rightarrow> revokeLocked sha ref s)"

definition revoke_if_present :: "(string \<Rightarrow> 'h) \<Rightarrow> string \<Rightarrow> 'h delegation_store \<Rightarrow> 'h delegation_store" where
  "revoke_if_present sha handle s =
     (case map_of (byHandle s) handle of None \<Rightarrow> s | Some ref \<Rightarrow> revokeLocked sha ref s)"

definition RevokeByLabels ::
  "(string \<Rightarrow> 'h) \<Rightarrow> string \<Rightarrow> string \<Rightarrow> 'h delegation_store \<Rightarrow> nat \<times> 'h delegation_store" where
  "RevokeByLabels sha runID entryID s =
     (case map_of (byLabel s) (labelKey runID entryID) of
        None \<Rightarrow> (0, s)
      | Some labelled \<Rightarrow>
          (let handles = keys_of labelled
           in (length handles, fold (revoke_if_present sha) handles s)))"

datatype authorize_error =
    AuthRecoveryIncomplete | AuthEnvelopeExpired | AuthUnknownBearer | AuthWrongBinding | AuthWrongRepository
  | AuthWrongTool

definition store_authorize ::
  "(string \<Rightarrow> 'h) \<Rightarrow> time \<Rightarrow> string \<Rightarrow> string \<Rightarrow> string \<Rightarrow> (identity \<Rightarrow> bool) \<Rightarrow> 'h delegation_store \<Rightarrow>
   (authorize_error + identity_ref) \<times> 'h delegation_store" where
  "store_authorize sha now executorBearer repository tool bindingMatches s =
     (let s1 = cleanupExpiredLocked sha now s
      in (if recoveryIncomplete s1 then Inl AuthRecoveryIncomplete
          else if \<not> now < e_ExpiresAt (st_envelope s1) then Inl AuthEnvelopeExpired
          else
            (case map_of (byBearer s1) (sha (strip_bearer executorBearer)) of
               None \<Rightarrow> Inl AuthUnknownBearer
             | Some ref \<Rightarrow>
                 (let i = cells s1 ! ref
                  in if \<not> bindingMatches i then Inl AuthWrongBinding
                     else if Repository (i_core i) \<noteq> repository then Inl AuthWrongRepository
                     else if \<not> IsDelegatedTool tool then Inl AuthWrongTool
                     else Inr ref)),
          s1))"

definition Authorize ::
  "(string \<Rightarrow> 'h) \<Rightarrow> time \<Rightarrow> string \<Rightarrow> string \<Rightarrow> string \<Rightarrow> string \<Rightarrow> string \<Rightarrow> 'h delegation_store \<Rightarrow>
   authorize_error option \<times> 'h delegation_store" where
  "Authorize sha now bearer runID backend repository tool s =
     (case store_authorize sha now bearer repository tool
             (\<lambda>i. RunID (i_core i) = runID \<and> EnclaveBackend (i_core i) = backend) s of
        (Inl e, s') \<Rightarrow> (Some e, s')
      | (Inr _, s') \<Rightarrow> (None, s'))"

definition AuthorizeExecutor ::
  "(string \<Rightarrow> 'h) \<Rightarrow> time \<Rightarrow> string \<Rightarrow> string \<Rightarrow> string \<Rightarrow> 'h delegation_store \<Rightarrow>
   (authorize_error + string) \<times> 'h delegation_store" where
  "AuthorizeExecutor sha now bearer repository tool s =
     (case store_authorize sha now bearer repository tool (\<lambda>i. True) s of
        (Inl e, s') \<Rightarrow> (Inl e, s')
      | (Inr ref, s') \<Rightarrow> (Inr (Handle (cells s' ! ref)), s'))"

definition HasLiveExecutorBearer ::
  "(string \<Rightarrow> 'h) \<Rightarrow> time \<Rightarrow> string \<Rightarrow> 'h delegation_store \<Rightarrow> bool \<times> 'h delegation_store" where
  "HasLiveExecutorBearer sha now executorBearer s =
     (let s1 = cleanupExpiredLocked sha now s
      in (if recoveryIncomplete s1 \<or> \<not> now < e_ExpiresAt (st_envelope s1) then False
          else map_of (byBearer s1) (sha (strip_bearer executorBearer)) \<noteq> None, s1))"

record store_status =
  ss_RecoveryIncomplete :: bool
  ss_Generation :: nat
  ss_LiveIdentityCount :: nat

definition store_Status :: "(string \<Rightarrow> 'h) \<Rightarrow> time \<Rightarrow> 'h delegation_store \<Rightarrow> store_status \<times> 'h delegation_store" where
  "store_Status sha now s =
     (let s1 = cleanupExpiredLocked sha now s
      in (\<lparr>ss_RecoveryIncomplete = recoveryIncomplete s1, ss_Generation = generation s1,
           ss_LiveIdentityCount = length (byHandle s1)\<rparr>, s1))"

definition LabelHandles :: "string \<Rightarrow> string \<Rightarrow> 'h delegation_store \<Rightarrow> string list" where
  "LabelHandles runID entryID s =
     sort (keys_of (case map_of (byLabel s) (labelKey runID entryID) of None \<Rightarrow> [] | Some m \<Rightarrow> m))"

definition Snapshot :: "(string \<Rightarrow> 'h) \<Rightarrow> time \<Rightarrow> 'h delegation_store \<Rightarrow> (string \<times> identity) list \<times> 'h delegation_store" where
  "Snapshot sha now s =
     (let s1 = cleanupExpiredLocked sha now s
      in (map (\<lambda>(h, ref). (h, cells s1 ! ref)) (byHandle s1), s1))"

end
