(* ===== verification/DelegationInvariant.thy ===== *)
theory DelegationInvariant imports DelegationStore begin

text \<open>
  The invariant of the delegation store: the four maps are views of one set of identity objects.
  \<open>byInvocation\<close> knows every object, the other three exactly the live ones, and no two objects
  share a scope, a handle or a bearer digest. Every object satisfies the envelope.
\<close>

section \<open>The invariant\<close>

definition labelled_as :: "'h delegation_store \<Rightarrow> string \<Rightarrow> string \<Rightarrow> identity_ref option" where
  "labelled_as s l h = (case map_of (byLabel s) l of None \<Rightarrow> None | Some m \<Rightarrow> map_of m h)"

definition live :: "'h delegation_store \<Rightarrow> identity_ref \<Rightarrow> bool" where
  "live s r \<longleftrightarrow> r < length (cells s) \<and> \<not> Revoked (cells s ! r)"

text \<open>What an identity of this store satisfies, whoever minted it.\<close>

definition schema_admitted :: "envelope \<Rightarrow> string list \<Rightarrow> string \<Rightarrow> bool" where
  "schema_admitted e dyn h \<longleftrightarrow>
     (if AllowedSchemaHashes e \<noteq> [] then h \<in> set (AllowedSchemaHashes e) else h \<in> set dyn)"

definition within_envelope :: "envelope \<Rightarrow> nat \<Rightarrow> identity \<Rightarrow> bool" where
  "within_envelope e gen i \<longleftrightarrow>
     validateAgainstEnvelope e (toRequest i) (CreatedAt i) = None \<and>
     i_ExpiresAt i \<le> e_ExpiresAt e \<and>
     (\<not> is_zero_time (b_InvocationExpiresAt (i_binding i)) \<longrightarrow> i_ExpiresAt i \<le> b_InvocationExpiresAt (i_binding i)) \<and>
     PolicyGeneration i = gen \<and> Handle i \<noteq> [] \<and> ExecutorBearer i \<noteq> []"

definition maps_agree :: "(string \<Rightarrow> 'h) \<Rightarrow> 'h delegation_store \<Rightarrow> bool" where
  "maps_agree sha s \<longleftrightarrow>
     (\<forall>h r. map_of (byHandle s) h = Some r \<longleftrightarrow> live s r \<and> Handle (cells s ! r) = h) \<and>
     (\<forall>k r. map_of (byBearer s) k = Some r \<longleftrightarrow> live s r \<and> sha (ExecutorBearer (cells s ! r)) = k) \<and>
     (\<forall>k r. map_of (byInvocation s) k = Some r \<longleftrightarrow> r < length (cells s) \<and> scope_of (cells s ! r) = k) \<and>
     (\<forall>l h r. labelled_as s l h = Some r \<longleftrightarrow> live s r \<and> label_of (cells s ! r) = l \<and> Handle (cells s ! r) = h)"

definition tokens_distinct :: "(string \<Rightarrow> 'h) \<Rightarrow> 'h delegation_store \<Rightarrow> bool" where
  "tokens_distinct sha s \<longleftrightarrow>
     (\<forall>r<length (cells s). \<forall>q<length (cells s).
        (Handle (cells s ! r) = Handle (cells s ! q) \<or>
         sha (ExecutorBearer (cells s ! r)) = sha (ExecutorBearer (cells s ! q))) \<longrightarrow> r = q)"

definition maps_clean :: "'h delegation_store \<Rightarrow> bool" where
  "maps_clean s \<longleftrightarrow>
     distinct (keys_of (byHandle s)) \<and> distinct (keys_of (byInvocation s)) \<and> distinct (keys_of (byLabel s)) \<and>
     (\<forall>l m. map_of (byLabel s) l = Some m \<longrightarrow> m \<noteq> [] \<and> distinct (keys_of m))"

definition schemas_bounded :: "'h delegation_store \<Rightarrow> bool" where
  "schemas_bounded s \<longleftrightarrow>
     distinct (dynamicSchemaHashes s) \<and>
     (AllowedSchemaHashes (st_envelope s) \<noteq> [] \<longrightarrow> dynamicSchemaHashes s = []) \<and>
     (AllowedSchemaHashes (st_envelope s) = [] \<longrightarrow>
        int (length (dynamicSchemaHashes s)) \<le> MaxDynamicSchemaHashes (st_envelope s)) \<and>
     [] \<notin> set (dynamicSchemaHashes s)"

definition cells_admitted :: "'h delegation_store \<Rightarrow> bool" where
  "cells_admitted s \<longleftrightarrow>
     (\<forall>i\<in>set (cells s). within_envelope (st_envelope s) (generation s) i \<and>
        schema_admitted (st_envelope s) (dynamicSchemaHashes s) (SchemaHash (i_core i)))"

definition store_ok :: "(string \<Rightarrow> 'h) \<Rightarrow> 'h delegation_store \<Rightarrow> bool" where
  "store_ok sha s \<longleftrightarrow>
     envelope_Validate (Some (st_envelope s)) = None \<and> maps_agree sha s \<and> tokens_distinct sha s \<and>
     maps_clean s \<and> schemas_bounded s \<and> cells_admitted s"

lemma store_okD:
  assumes "store_ok sha s"
  shows "maps_agree sha s" "tokens_distinct sha s" "maps_clean s" "schemas_bounded s" "cells_admitted s"
    "envelope_Validate (Some (st_envelope s)) = None"
  using assms by (auto simp: store_ok_def)

lemma maps_agreeD:
  assumes "maps_agree sha s"
  shows "map_of (byHandle s) h = Some r \<longleftrightarrow> live s r \<and> Handle (cells s ! r) = h"
    and "map_of (byBearer s) k = Some r \<longleftrightarrow> live s r \<and> sha (ExecutorBearer (cells s ! r)) = k"
    and "map_of (byInvocation s) k' = Some r \<longleftrightarrow> r < length (cells s) \<and> scope_of (cells s ! r) = k'"
    and "labelled_as s l h = Some r \<longleftrightarrow> live s r \<and> label_of (cells s ! r) = l \<and> Handle (cells s ! r) = h"
  using assms by (auto simp: maps_agree_def)

lemma store_ok_empty [keeps]:
  "envelope_Validate (Some e) = None \<Longrightarrow> store_ok sha (empty_store e gen)"
  using envelope_Validate_None(6)[of e]
  by (auto simp: store_ok_def maps_agree_def tokens_distinct_def maps_clean_def schemas_bounded_def
      cells_admitted_def empty_store_def live_def labelled_as_def)

lemma NewStore_ok [keeps]: "NewStore eo gen = Inr s \<Longrightarrow> store_ok sha s"
  by (cases eo) (auto simp: NewStore_def envelope_Validate_def[of None] split: option.splits intro: store_ok_empty)

section \<open>Revoking\<close>

lemma revoke_fields [simp]:
  "cells (revokeLocked sha r s) = (cells s)[r := (cells s ! r)\<lparr>Revoked := True\<rparr>]"
  "byHandle (revokeLocked sha r s) = AList.delete (Handle (cells s ! r)) (byHandle s)"
  "byBearer (revokeLocked sha r s) = AList.delete (sha (ExecutorBearer (cells s ! r))) (byBearer s)"
  "byInvocation (revokeLocked sha r s) = AList.update (scope_of (cells s ! r)) r (byInvocation s)"
  "st_envelope (revokeLocked sha r s) = st_envelope s"
  "generation (revokeLocked sha r s) = generation s"
  "dynamicSchemaHashes (revokeLocked sha r s) = dynamicSchemaHashes s"
  "recoveryIncomplete (revokeLocked sha r s) = recoveryIncomplete s"
  by (simp_all add: revokeLocked_def Let_def split: option.split)

lemma revoke_byLabel:
  "byLabel (revokeLocked sha r s) =
     (case map_of (byLabel s) (label_of (cells s ! r)) of
        None \<Rightarrow> byLabel s
      | Some m \<Rightarrow>
          (if AList.delete (Handle (cells s ! r)) m = [] then AList.delete (label_of (cells s ! r)) (byLabel s)
           else AList.update (label_of (cells s ! r)) (AList.delete (Handle (cells s ! r)) m) (byLabel s)))"
  by (simp add: revokeLocked_def Let_def split: option.split)

lemma delete_empty_map: "AList.delete h m = [] \<Longrightarrow> (map_of m)(h := None) = Map.empty"
  using map_of_adelete[of h m] by simp

lemma revoke_labelled:
  "labelled_as (revokeLocked sha r s) l h =
     (if l = label_of (cells s ! r) \<and> h = Handle (cells s ! r) then None else labelled_as s l h)"
proof (cases "map_of (byLabel s) (label_of (cells s ! r))")
  case None
  then show ?thesis by (auto simp: labelled_as_def revoke_byLabel)
next
  case (Some m)
  show ?thesis
  proof (cases "AList.delete (Handle (cells s ! r)) m = []")
    case True
    from delete_empty_map[OF this] Some True show ?thesis
      by (auto simp: labelled_as_def revoke_byLabel fun_eq_iff split: option.splits if_splits)
  next
    case False
    with Some show ?thesis by (auto simp: labelled_as_def revoke_byLabel)
  qed
qed

definition same_identity :: "identity \<Rightarrow> identity \<Rightarrow> bool" where
  "same_identity i j \<longleftrightarrow> i\<lparr>Revoked := False\<rparr> = j\<lparr>Revoked := False\<rparr>"

lemma revoke_cell:
  "r < length (cells s) \<Longrightarrow> cells (revokeLocked sha r s) ! q =
     (if q = r then (cells s ! r)\<lparr>Revoked := True\<rparr> else cells s ! q)"
  by simp

lemma revoked_same [simp]:
  "Handle (i\<lparr>Revoked := b\<rparr>) = Handle i" "ExecutorBearer (i\<lparr>Revoked := b\<rparr>) = ExecutorBearer i"
  "scope_of (i\<lparr>Revoked := b\<rparr>) = scope_of i" "label_of (i\<lparr>Revoked := b\<rparr>) = label_of i"
  "within_envelope e gen (i\<lparr>Revoked := b\<rparr>) = within_envelope e gen i"
  "bindingEquals (i\<lparr>Revoked := b\<rparr>) req = bindingEquals i req"
  "toResult (i\<lparr>Revoked := b\<rparr>) = toResult i"
  by (simp_all add: scope_of_def label_of_def within_envelope_def toRequest_def bindingEquals_def toResult_def)

lemma revoke_live: "live (revokeLocked sha r s) q \<longleftrightarrow> live s q \<and> (q \<noteq> r \<or> \<not> r < length (cells s))"
  by (cases "r < length (cells s)") (auto simp: live_def nth_list_update list_update_beyond)

lemma revoke_token_fields:
  assumes "q < length (cells s)"
  shows "Handle (cells (revokeLocked sha r s) ! q) = Handle (cells s ! q)"
    and "ExecutorBearer (cells (revokeLocked sha r s) ! q) = ExecutorBearer (cells s ! q)"
    and "scope_of (cells (revokeLocked sha r s) ! q) = scope_of (cells s ! q)"
    and "label_of (cells (revokeLocked sha r s) ! q) = label_of (cells s ! q)"
  using assms by (cases "q = r"; simp)+

lemma revoke_ok:
  assumes ok: "store_ok sha s" and r: "r < length (cells s)"
  shows "store_ok sha (revokeLocked sha r s)"
proof -
  note D = store_okD[OF ok]
  note M = maps_agreeD[OF D(1)]
  have T: "Handle (cells s ! r) = Handle (cells s ! q) \<longleftrightarrow> r = q"
    "sha (ExecutorBearer (cells s ! r)) = sha (ExecutorBearer (cells s ! q)) \<longleftrightarrow> r = q"
    if "q < length (cells s)" for q
    using D(2) r that by (auto simp: tokens_distinct_def)
  have live_len: "live s q \<Longrightarrow> q < length (cells s)" for q by (simp add: live_def)
  have L: "live (revokeLocked sha r s) q \<longleftrightarrow> live s q \<and> q \<noteq> r" for q using r by (simp add: revoke_live)
  let ?s = "revokeLocked sha r s"
  have F: "live s q \<Longrightarrow> Handle (cells ?s ! q) = Handle (cells s ! q) \<and>
      ExecutorBearer (cells ?s ! q) = ExecutorBearer (cells s ! q) \<and> label_of (cells ?s ! q) = label_of (cells s ! q)" for q
    using revoke_token_fields[of q s sha r] live_len[of q] by simp
  have "maps_agree sha ?s"
    unfolding maps_agree_def
  proof (intro conjI allI)
    show "map_of (byHandle ?s) h = Some q \<longleftrightarrow> live ?s q \<and> Handle (cells ?s ! q) = h" for h q
      using M(1)[of h q] T(1)[of q] live_len[of q] F[of q] by (auto simp: L)
    show "map_of (byBearer ?s) k = Some q \<longleftrightarrow> live ?s q \<and> sha (ExecutorBearer (cells ?s ! q)) = k" for k q
      using M(2)[of k q] T(2)[of q] live_len[of q] F[of q] by (auto simp: L)
    show "map_of (byInvocation ?s) k = Some q \<longleftrightarrow> q < length (cells ?s) \<and> scope_of (cells ?s ! q) = k" for k q
      using M(3)[of k q] M(3)[of "scope_of (cells s ! r)" r] M(3)[of k r] r
      by (auto simp: nth_list_update)
    show "labelled_as ?s l h = Some q \<longleftrightarrow> live ?s q \<and> label_of (cells ?s ! q) = l \<and> Handle (cells ?s ! q) = h" for l h q
      using M(4)[of l h q] T(1)[of q] live_len[of q] F[of q] by (auto simp: L revoke_labelled)
  qed
  moreover have "tokens_distinct sha ?s"
    using D(2) unfolding tokens_distinct_def
    using revoke_token_fields[of _ s sha r] by simp
  moreover have "maps_clean ?s"
  proof -
    have del: "distinct (keys_of m) \<Longrightarrow> distinct (keys_of (AList.delete h m))" for h :: string and m :: "(string \<times> identity_ref) list"
      by (rule distinct_keys_delete)
    show ?thesis
      using D(3) unfolding maps_clean_def revoke_byLabel
      by (auto simp: del simp del: set_map map_of_eq_Some_iff split: option.split if_splits)
  qed
  moreover have "schemas_bounded ?s" using D(4) by (simp add: schemas_bounded_def)
  moreover have "cells_admitted ?s"
    using D(5) nth_mem[OF r] unfolding cells_admitted_def
    by (auto dest!: subsetD[OF set_update_subset_insert])
  ultimately show ?thesis using D(6) by (simp add: store_ok_def)
qed

section \<open>Indexing a new identity\<close>

definition fresh_tokens :: "(string \<Rightarrow> 'h) \<Rightarrow> 'h delegation_store \<Rightarrow> string \<Rightarrow> string \<Rightarrow> bool" where
  "fresh_tokens sha s handle bearer \<longleftrightarrow>
     (\<forall>i\<in>set (cells s). Handle i \<noteq> handle \<and> sha (ExecutorBearer i) \<noteq> sha bearer)"

lemma index_fields [simp]:
  "cells (index_new sha i s) = cells s @ [i]"
  "byHandle (index_new sha i s) = AList.update (Handle i) (length (cells s)) (byHandle s)"
  "byBearer (index_new sha i s) = AList.update (sha (ExecutorBearer i)) (length (cells s)) (byBearer s)"
  "byInvocation (index_new sha i s) = AList.update (scope_of i) (length (cells s)) (byInvocation s)"
  "st_envelope (index_new sha i s) = st_envelope s"
  "generation (index_new sha i s) = generation s"
  "dynamicSchemaHashes (index_new sha i s) = dynamicSchemaHashes s"
  "recoveryIncomplete (index_new sha i s) = recoveryIncomplete s"
  by (simp_all add: index_new_def indexLocked_def Let_def)

lemma index_byLabel:
  "byLabel (index_new sha i s) =
     AList.update (label_of i) (AList.update (Handle i) (length (cells s))
       (case map_of (byLabel s) (label_of i) of Some m \<Rightarrow> m | None \<Rightarrow> [])) (byLabel s)"
  by (simp add: index_new_def indexLocked_def Let_def)

lemma index_labelled:
  "labelled_as (index_new sha i s) l h =
     (if l = label_of i \<and> h = Handle i then Some (length (cells s)) else labelled_as s l h)"
  by (auto simp: labelled_as_def index_byLabel split: option.split)

lemma index_ok:
  assumes ok: "store_ok sha s" and fresh: "fresh_tokens sha s (Handle i) (ExecutorBearer i)"
    and new: "map_of (byInvocation s) (scope_of i) = None" and "\<not> Revoked i"
    and "within_envelope (st_envelope s) (generation s) i"
    and "schema_admitted (st_envelope s) (dynamicSchemaHashes s) (SchemaHash (i_core i))"
  shows "store_ok sha (index_new sha i s)"
proof -
  note D = store_okD[OF ok]
  note M = maps_agreeD[OF D(1)]
  let ?s = "index_new sha i s" and ?n = "length (cells s)"
  have L: "live ?s q \<longleftrightarrow> q = ?n \<or> live s q" for q
    using assms(4) by (auto simp: live_def nth_append less_Suc_eq)
  have old: "cells ?s ! q = cells s ! q" if "live s q" for q
    using that by (simp add: live_def nth_append)
  have nn: "\<not> live s ?n" by (simp add: live_def)
  have FH: "Handle (cells s ! q) \<noteq> Handle i" "sha (ExecutorBearer (cells s ! q)) \<noteq> sha (ExecutorBearer i)"
    if "q < ?n" for q using fresh that by (auto simp: fresh_tokens_def)
  have FL: "live s q \<Longrightarrow> q < ?n" for q by (simp add: live_def)
  have "maps_agree sha ?s"
    unfolding maps_agree_def
  proof (intro conjI allI)
    show "map_of (byHandle ?s) h = Some q \<longleftrightarrow> live ?s q \<and> Handle (cells ?s ! q) = h" for h q
      using M(1)[of h q] FH(1)[of q] FL[of q] old[of q] nn by (auto simp: L)
    show "map_of (byBearer ?s) k = Some q \<longleftrightarrow> live ?s q \<and> sha (ExecutorBearer (cells ?s ! q)) = k" for k q
      using M(2)[of k q] FH(2)[of q] FL[of q] old[of q] nn by (auto simp: L)
    show "map_of (byInvocation ?s) k = Some q \<longleftrightarrow> q < length (cells ?s) \<and> scope_of (cells ?s ! q) = k" for k q
      using M(3)[of k q] M(3)[of "scope_of i" q] new by (auto simp: nth_append less_Suc_eq)
    show "labelled_as ?s l h = Some q \<longleftrightarrow> live ?s q \<and> label_of (cells ?s ! q) = l \<and> Handle (cells ?s ! q) = h" for l h q
      using M(4)[of l h q] FH(1)[of q] FL[of q] old[of q] nn by (auto simp: L index_labelled)
  qed
  moreover have "tokens_distinct sha ?s"
    using D(2) FH unfolding tokens_distinct_def by (auto simp: nth_append less_Suc_eq) metis+
  moreover have "maps_clean ?s"
  proof -
    have m: "distinct (keys_of (case map_of (byLabel s) (label_of i) of Some m \<Rightarrow> m | None \<Rightarrow> []))"
      using D(3) by (auto simp: maps_clean_def simp del: set_map map_of_eq_Some_iff split: option.split)
    have ne: "AList.update h r m \<noteq> []" for h :: string and r :: nat and m
      using set_keys_update[of h r m] by auto
    show ?thesis
      using D(3) distinct_keys_update[OF m] ne unfolding maps_clean_def index_byLabel
      by (auto simp del: set_map map_of_eq_Some_iff split: if_splits)
  qed
  moreover have "schemas_bounded ?s" using D(4) by (simp add: schemas_bounded_def)
  moreover have "cells_admitted ?s"
    using D(5) assms(5,6) unfolding cells_admitted_def by auto
  ultimately show ?thesis using D(6) by (simp add: store_ok_def)
qed

section \<open>Expiry and label revocation\<close>

text \<open>What revoking in a loop leaves alone, and what it may change in an object.\<close>

definition only_revokes :: "'h delegation_store \<Rightarrow> 'h delegation_store \<Rightarrow> bool" where
  "only_revokes s t \<longleftrightarrow>
     length (cells t) = length (cells s) \<and> st_envelope t = st_envelope s \<and> generation t = generation s \<and>
     dynamicSchemaHashes t = dynamicSchemaHashes s \<and> recoveryIncomplete t = recoveryIncomplete s \<and>
     (\<forall>r<length (cells s). cells t ! r = cells s ! r \<or> cells t ! r = (cells s ! r)\<lparr>Revoked := True\<rparr>)"

lemma only_revokes_refl [simp]: "only_revokes s s"
  by (simp add: only_revokes_def)

lemma only_revokes_trans: "only_revokes s t \<Longrightarrow> only_revokes t u \<Longrightarrow> only_revokes s u"
proof -
  assume st: "only_revokes s t" and tu: "only_revokes t u"
  have "cells u ! r = cells s ! r \<or> cells u ! r = (cells s ! r)\<lparr>Revoked := True\<rparr>" if r: "r < length (cells s)" for r
  proof -
    have "cells t ! r = cells s ! r \<or> cells t ! r = (cells s ! r)\<lparr>Revoked := True\<rparr>"
      using st r by (simp add: only_revokes_def)
    moreover have "cells u ! r = cells t ! r \<or> cells u ! r = (cells t ! r)\<lparr>Revoked := True\<rparr>"
      using st tu r by (simp add: only_revokes_def)
    ultimately show ?thesis by (elim disjE) simp_all
  qed
  with st tu show ?thesis by (simp add: only_revokes_def)
qed

lemma only_revokes_revoke: "only_revokes s (revokeLocked sha r s)"
proof -
  have "cells (revokeLocked sha r s) ! q \<in> {cells s ! q, (cells s ! q)\<lparr>Revoked := True\<rparr>}" if "q < length (cells s)" for q
    using that by (cases "q = r") simp_all
  then show ?thesis by (simp add: only_revokes_def)
qed

lemma only_revokes_live: "only_revokes s t \<Longrightarrow> live t r \<Longrightarrow> live s r \<and> cells t ! r = cells s ! r"
  by (auto simp: only_revokes_def live_def)

lemma cleanup_one_ok:
  "store_ok sha s \<Longrightarrow> r < length (cells s) \<Longrightarrow> store_ok sha (cleanup_one sha now r s)"
  by (simp add: cleanup_one_def revoke_ok)

lemma cleanup_one_revokes: "only_revokes s (cleanup_one sha now r s)"
  by (simp add: cleanup_one_def only_revokes_revoke)

lemma cleanup_fold:
  assumes "store_ok sha s" and "\<forall>r\<in>set rs. r < length (cells s)"
  shows "store_ok sha (fold (cleanup_one sha now) rs s) \<and> only_revokes s (fold (cleanup_one sha now) rs s) \<and>
    (\<forall>r. live (fold (cleanup_one sha now) rs s) r \<longleftrightarrow> live s r \<and> \<not> (r \<in> set rs \<and> \<not> now < i_ExpiresAt (cells s ! r)))"
  using assms
proof (induction rs arbitrary: s)
  case (Cons r rs)
  let ?t = "cleanup_one sha now r s"
  have r: "r < length (cells s)" using Cons.prems by simp
  have t: "store_ok sha ?t" "only_revokes s ?t" using Cons.prems by (simp_all add: cleanup_one_ok cleanup_one_revokes)
  have len: "length (cells ?t) = length (cells s)" using t(2) by (simp add: only_revokes_def)
  have exp: "q < length (cells s) \<Longrightarrow> i_ExpiresAt (cells ?t ! q) = i_ExpiresAt (cells s ! q)" for q
    using t(2) by (auto simp: only_revokes_def)
  have l: "live ?t q \<longleftrightarrow> live s q \<and> \<not> (q = r \<and> \<not> now < i_ExpiresAt (cells s ! q))" for q
    using r by (auto simp: cleanup_one_def revoke_live)
  have IH: "store_ok sha (fold (cleanup_one sha now) rs ?t)" "only_revokes ?t (fold (cleanup_one sha now) rs ?t)"
    "live (fold (cleanup_one sha now) rs ?t) q \<longleftrightarrow> live ?t q \<and> \<not> (q \<in> set rs \<and> \<not> now < i_ExpiresAt (cells ?t ! q))" for q
    using Cons.IH[of ?t] Cons.prems t len by auto
  have ll: "live s q \<Longrightarrow> q < length (cells s)" for q by (simp add: live_def)
  have "live (fold (cleanup_one sha now) (r # rs) s) q \<longleftrightarrow>
      live s q \<and> \<not> (q \<in> set (r # rs) \<and> \<not> now < i_ExpiresAt (cells s ! q))" for q
    using IH(3)[of q] l[of q] exp[of q] ll[of q] by auto
  then show ?case using IH(1) only_revokes_trans[OF t(2) IH(2)] by simp
qed simp

lemma byHandle_refs:
  assumes "store_ok sha s"
  shows "set (map snd (byHandle s)) = {r. live s r}"
proof -
  note M = maps_agreeD[OF store_okD(1)[OF assms]]
  have d: "distinct (keys_of (byHandle s))" using store_okD(3)[OF assms] by (simp add: maps_clean_def)
  have "set (map snd (byHandle s)) = ran (map_of (byHandle s))" using ran_distinct[OF d] by simp
  also have "\<dots> = {r. live s r}" using M(1) by (auto simp: ran_def)
  finally show ?thesis .
qed

lemma cleanup_ok:
  assumes "store_ok sha s"
  shows "store_ok sha (cleanupExpiredLocked sha now s)"
    and "only_revokes s (cleanupExpiredLocked sha now s)"
    and "live (cleanupExpiredLocked sha now s) r \<longleftrightarrow> live s r \<and> now < i_ExpiresAt (cells s ! r)"
proof -
  have refs: "\<forall>r\<in>set (map snd (byHandle s)). r < length (cells s)"
    unfolding byHandle_refs[OF assms] by (simp add: live_def)
  from cleanup_fold[OF assms refs, of now]
  show "store_ok sha (cleanupExpiredLocked sha now s)"
    and "only_revokes s (cleanupExpiredLocked sha now s)"
    and "live (cleanupExpiredLocked sha now s) r \<longleftrightarrow> live s r \<and> now < i_ExpiresAt (cells s ! r)"
    unfolding cleanupExpiredLocked_def byHandle_refs[OF assms] by auto
qed

lemma revoke_if_present_ok:
  assumes "store_ok sha s"
  shows "store_ok sha (revoke_if_present sha h s) \<and> only_revokes s (revoke_if_present sha h s) \<and>
    (\<forall>r. live (revoke_if_present sha h s) r \<longleftrightarrow> live s r \<and> Handle (cells s ! r) \<noteq> h)"
proof (cases "map_of (byHandle s) h")
  case None
  then show ?thesis
    using assms maps_agreeD(1)[OF store_okD(1)[OF assms], of h] by (auto simp: revoke_if_present_def)
next
  case (Some ref)
  then have ref: "live s ref" "Handle (cells s ! ref) = h"
    using maps_agreeD(1)[OF store_okD(1)[OF assms], of h ref] by auto
  then have len: "ref < length (cells s)" by (simp add: live_def)
  have "live s r \<Longrightarrow> Handle (cells s ! r) = h \<Longrightarrow> r = ref" for r
    using maps_agreeD(1)[OF store_okD(1)[OF assms], of h r] Some by simp
  then have "live s r \<and> r \<noteq> ref \<longleftrightarrow> live s r \<and> Handle (cells s ! r) \<noteq> h" for r
    using ref by blast
  moreover have "live (revokeLocked sha ref s) r \<longleftrightarrow> live s r \<and> r \<noteq> ref" for r
    using len by (simp add: revoke_live)
  moreover have "revoke_if_present sha h s = revokeLocked sha ref s" using Some by (simp add: revoke_if_present_def)
  ultimately show ?thesis using revoke_ok[OF assms len] only_revokes_revoke by metis
qed

lemma store_Revoke_present: "store_Revoke = revoke_if_present"
  by (simp add: store_Revoke_def revoke_if_present_def fun_eq_iff)

lemma revoke_handles_ok:
  assumes "store_ok sha s"
  shows "store_ok sha (fold (revoke_if_present sha) hs s) \<and> only_revokes s (fold (revoke_if_present sha) hs s) \<and>
    (\<forall>r. live (fold (revoke_if_present sha) hs s) r \<longleftrightarrow> live s r \<and> Handle (cells s ! r) \<notin> set hs)"
  using assms
proof (induction hs arbitrary: s)
  case (Cons h hs)
  let ?t = "revoke_if_present sha h s"
  note t = revoke_if_present_ok[OF Cons.prems, of h]
  have same: "cells ?t ! r = cells s ! r" if "live ?t r" for r
    using only_revokes_live[of s ?t r] t that by blast
  have ok: "store_ok sha ?t" and rv: "only_revokes s ?t" using t by blast+
  have l: "live ?t r \<longleftrightarrow> live s r \<and> Handle (cells s ! r) \<noteq> h" for r using t by blast
  note IH = Cons.IH[OF ok]
  have "only_revokes s (fold (revoke_if_present sha) hs ?t)"
    by (rule only_revokes_trans[OF rv IH[THEN conjunct2, THEN conjunct1]])
  moreover have "live (fold (revoke_if_present sha) hs ?t) r \<longleftrightarrow> live s r \<and> Handle (cells s ! r) \<notin> set (h # hs)" for r
  proof -
    have "live (fold (revoke_if_present sha) hs ?t) r \<longleftrightarrow> live ?t r \<and> Handle (cells ?t ! r) \<notin> set hs" using IH by blast
    also have "\<dots> \<longleftrightarrow> live ?t r \<and> Handle (cells s ! r) \<notin> set hs" using same[of r] by auto
    finally show ?thesis using l[of r] by auto
  qed
  ultimately show ?case using IH by simp
qed simp

lemma RevokeByLabels_ok:
  assumes "store_ok sha s" and "RevokeByLabels sha runID entryID s = (n, t)"
  shows "store_ok sha t" and "only_revokes s t"
    and "live t r \<longleftrightarrow> live s r \<and> label_of (cells s ! r) \<noteq> labelKey runID entryID"
proof -
  note M = maps_agreeD(4)[OF store_okD(1)[OF assms(1)], of "labelKey runID entryID"]
  have "store_ok sha t \<and> only_revokes s t \<and>
    (\<forall>r. live t r \<longleftrightarrow> live s r \<and> label_of (cells s ! r) \<noteq> labelKey runID entryID)"
  proof (cases "map_of (byLabel s) (labelKey runID entryID)")
    case None
    with M assms show ?thesis by (auto simp: RevokeByLabels_def labelled_as_def)
  next
    case (Some m)
    have m: "h \<in> set (keys_of m) \<longleftrightarrow> (\<exists>r. live s r \<and> label_of (cells s ! r) = labelKey runID entryID \<and> Handle (cells s ! r) = h)" for h
    proof -
      have "h \<in> set (keys_of m) \<longleftrightarrow> (\<exists>r. map_of m h = Some r)"
        using map_of_None_keys[of m h] by (metis not_None_eq)
      with M[of h] Some show ?thesis by (simp add: labelled_as_def)
    qed
    have "live s r \<Longrightarrow> Handle (cells s ! r) \<in> set (keys_of m) \<longleftrightarrow> label_of (cells s ! r) = labelKey runID entryID" for r
    proof
      assume r: "live s r" and "Handle (cells s ! r) \<in> set (keys_of m)"
      then obtain q where q: "live s q" "label_of (cells s ! q) = labelKey runID entryID" "Handle (cells s ! q) = Handle (cells s ! r)"
        using m by blast
      with r store_okD(2)[OF assms(1)] have "q = r" by (auto simp: tokens_distinct_def live_def)
      with q show "label_of (cells s ! r) = labelKey runID entryID" by simp
    qed (use m in blast)
    moreover have "t = fold (revoke_if_present sha) (keys_of m) s" using assms(2) Some by (simp add: RevokeByLabels_def)
    ultimately show ?thesis using revoke_handles_ok[OF assms(1), of "keys_of m"] by blast
  qed
  then show "store_ok sha t" "only_revokes s t"
    "live t r \<longleftrightarrow> live s r \<and> label_of (cells s ! r) \<noteq> labelKey runID entryID" by blast+
qed

end
