(* ===== verification/DelegationSafety.thy ===== *)
theory DelegationSafety imports DelegationInvariant begin

text \<open>
  What the delegation store guarantees over every sequence of operations: the invariant holds, a
  revoked identity never authorizes again, an invocation never gets a second identity, and
  authorization succeeds exactly for a live identity used within its binding.
\<close>

section \<open>Creating\<close>

lemma identityExpiry_bounds:
  "identityExpiry now ttl [a, b] \<le> now + ttl"
  "\<not> is_zero_time a \<Longrightarrow> identityExpiry now ttl [a, b] \<le> a"
  "\<not> is_zero_time b \<Longrightarrow> identityExpiry now ttl [a, b] \<le> b"
  "identityExpiry now ttl [a, b] \<in> {now + ttl, a, b}"
  by (auto simp: identityExpiry_def)

lemma toRequest_new:
  assumes "0 < RequestedTTL req"
  shows "toRequest (new_identity req now h b s) = req"
  using assms by (simp add: toRequest_def new_identity_def bindingFromRequest_def Let_def)

lemma binding_core [simp]: "b_core (bindingFromRequest req) = core req"
  by (simp add: bindingFromRequest_def)

lemma new_identity_fields [simp]:
  "Handle (new_identity req now h b s) = h" "ExecutorBearer (new_identity req now h b s) = b"
  "i_binding (new_identity req now h b s) = bindingFromRequest req"
  "CreatedAt (new_identity req now h b s) = now" "\<not> Revoked (new_identity req now h b s)"
  "scope_of (new_identity req now h b s) = request_scope req"
  "i_core (new_identity req now h b s) = core req"
  "bindingEquals (new_identity req now h b s) req"
  by (simp_all add: new_identity_def scope_of_def request_scope_def bindingFromRequest_def bindingEquals_def)

lemma validated_request:
  assumes "validateAgainstEnvelope e req now = None"
  shows "now \<le> e_ExpiresAt e" "RunID (core req) = e_RunID e" "EnclaveBackend (core req) = e_EnclaveBackend e"
    "IsCanonicalRepositorySelector (Repository (core req))" "AllowsRepository e (Repository (core req))"
    "ToolPolicy (core req) = e_ToolPolicy e" "SchemaHash (core req) \<noteq> []"
    "AllowedSchemaHashes e \<noteq> [] \<Longrightarrow> SchemaHash (core req) \<in> set (AllowedSchemaHashes e)"
    "0 < RequestedTTL req" "RequestedTTL req \<le> MaxIdentityTTL e"
    "\<not> is_zero_time (InvocationExpiresAt req) \<Longrightarrow> now < InvocationExpiresAt req"
  using assms by (auto simp: validateAgainstEnvelope_def Let_def AllowsSchemaHash_def split: if_splits)

lemma new_identity_within:
  assumes "validateAgainstEnvelope (st_envelope s) req now = None"
    and "envelope_Validate (Some (st_envelope s)) = None"
  shows "within_envelope (st_envelope s) (generation s)
    (new_identity req now (handle_prefix @ h) (bearer_prefix @ b) s)"
proof -
  note v = validated_request[OF assms(1)]
  have z: "\<not> is_zero_time (e_ExpiresAt (st_envelope s))" using envelope_Validate_None(8)[OF assms(2)] .
  show ?thesis
    using assms(1) v(9) identityExpiry_bounds(2)[OF z] identityExpiry_bounds(3)
    unfolding within_envelope_def toRequest_new[OF v(9)]
    by (simp add: new_identity_def bindingFromRequest_def handle_prefix_def bearer_prefix_def)
qed

lemma admit_ok:
  assumes "store_ok sha s" and "hash \<noteq> []" and "admitSchemaHashLocked hash s = (b, s')"
  shows "store_ok sha s'" and "b \<Longrightarrow> schema_admitted (st_envelope s') (dynamicSchemaHashes s') hash"
    and "cells s' = cells s" "byHandle s' = byHandle s" "byBearer s' = byBearer s" "byInvocation s' = byInvocation s"
    "byLabel s' = byLabel s" "st_envelope s' = st_envelope s" "generation s' = generation s"
    "recoveryIncomplete s' = recoveryIncomplete s"
proof -
  show same: "cells s' = cells s" "byHandle s' = byHandle s" "byBearer s' = byBearer s" "byInvocation s' = byInvocation s"
    "byLabel s' = byLabel s" "st_envelope s' = st_envelope s" "generation s' = generation s"
    "recoveryIncomplete s' = recoveryIncomplete s"
    using assms(3) by (auto simp: admitSchemaHashLocked_def split: if_splits)
  show "b \<Longrightarrow> schema_admitted (st_envelope s') (dynamicSchemaHashes s') hash"
    using assms(3) by (auto simp: admitSchemaHashLocked_def schema_admitted_def AllowsSchemaHash_def split: if_splits)
  note D = store_okD[OF assms(1)]
  have "set (dynamicSchemaHashes s) \<subseteq> set (dynamicSchemaHashes s')"
    using assms(3) by (auto simp: admitSchemaHashLocked_def split: if_splits)
  then have "cells_admitted s'"
    using D(5) by (auto simp: cells_admitted_def schema_admitted_def same)
  moreover have "schemas_bounded s'"
    using D(4) assms(2,3) by (auto simp: admitSchemaHashLocked_def schemas_bounded_def AllowsSchemaHash_def split: if_splits)
  moreover have "maps_agree sha s'"
    using D(1) by (simp add: maps_agree_def live_def labelled_as_def same)
  moreover have "tokens_distinct sha s'" "maps_clean s'"
    using D(2,3) by (simp_all add: tokens_distinct_def maps_clean_def same)
  ultimately show "store_ok sha s'" using D(6) by (simp add: store_ok_def same)
qed

lemma fresh_only_revokes:
  assumes "only_revokes s t" and "fresh_tokens sha s h b"
  shows "fresh_tokens sha t h b"
  unfolding fresh_tokens_def
proof
  fix i assume "i \<in> set (cells t)"
  then obtain r where r: "r < length (cells s)" "i = cells t ! r"
    using assms(1) by (auto simp: in_set_conv_nth only_revokes_def)
  have "i = cells s ! r \<or> i = (cells s ! r)\<lparr>Revoked := True\<rparr>" using assms(1) r by (simp add: only_revokes_def)
  moreover have "Handle (cells s ! r) \<noteq> h \<and> sha (ExecutorBearer (cells s ! r)) \<noteq> sha b"
    using assms(2) r(1) by (simp add: fresh_tokens_def)
  ultimately show "Handle i \<noteq> h \<and> sha (ExecutorBearer i) \<noteq> sha b" by auto
qed

text \<open>Two tokens that were drawn are new to the store.\<close>

definition new_tokens :: "(string \<Rightarrow> 'h) \<Rightarrow> 'h delegation_store \<Rightarrow> string option \<Rightarrow> string option \<Rightarrow> bool" where
  "new_tokens sha s hx bx \<longleftrightarrow>
     (case (hx, bx) of
        (Some h, Some b) \<Rightarrow> fresh_tokens sha s (handle_prefix @ h) (bearer_prefix @ b)
      | _ \<Rightarrow> True)"

text \<open>The ways a create-or-confirm call can go.\<close>

lemma create_cases:
  assumes ok: "store_ok sha s" and call: "createOrConfirmAt sha req now hx bx s = (res, s')"
  obtains (rejected) v where "validateAgainstEnvelope (st_envelope s) req now = Some v"
      "res = Inl (RequestOutsideEnvelope v)" "s' = s"
    | (confirmed) r where "validateAgainstEnvelope (st_envelope s) req now = None"
      "s' = cleanupExpiredLocked sha now s" "map_of (byInvocation s') (request_scope req) = Some r"
      "bindingEquals (cells s' ! r) req" "\<not> Revoked (cells s' ! r)" "res = Inr (toResult (cells s' ! r))"
    | (terminal) r where "validateAgainstEnvelope (st_envelope s) req now = None"
      "s' = cleanupExpiredLocked sha now s" "map_of (byInvocation s') (request_scope req) = Some r"
      "bindingEquals (cells s' ! r) req" "Revoked (cells s' ! r)" "res = Inl TerminalOutcome"
    | (mismatch) r where "validateAgainstEnvelope (st_envelope s) req now = None"
      "map_of (byInvocation (cleanupExpiredLocked sha now s)) (request_scope req) = Some r"
      "\<not> bindingEquals (cells (cleanupExpiredLocked sha now s) ! r) req"
      "s' = revokeLocked sha r (cleanupExpiredLocked sha now s)" "res = Inl BoundToDifferentIdentity"
    | (denied) e where "validateAgainstEnvelope (st_envelope s) req now = None"
      "map_of (byInvocation (cleanupExpiredLocked sha now s)) (request_scope req) = None"
      "s' = cleanupExpiredLocked sha now s \<or>
         s' = snd (admitSchemaHashLocked (SchemaHash (core req)) (cleanupExpiredLocked sha now s))"
      "res = Inl e" "e \<in> {RecoveryIncompleteError, SchemaBoundExceeded, TokenFailure}"
    | (created) h b s2 where "validateAgainstEnvelope (st_envelope s) req now = None"
      "map_of (byInvocation (cleanupExpiredLocked sha now s)) (request_scope req) = None"
      "\<not> recoveryIncomplete s"
      "admitSchemaHashLocked (SchemaHash (core req)) (cleanupExpiredLocked sha now s) = (True, s2)"
      "hx = Some h" "bx = Some b"
      "s' = index_new sha (new_identity req now (handle_prefix @ h) (bearer_prefix @ b) s2) s2"
      "res = Inr (toResult (new_identity req now (handle_prefix @ h) (bearer_prefix @ b) s2))"
proof -
  let ?s1 = "cleanupExpiredLocked sha now s"
  have ri: "recoveryIncomplete ?s1 = recoveryIncomplete s"
    using cleanup_ok(2)[OF ok, of now] by (simp add: only_revokes_def)
  show thesis
  proof (cases "validateAgainstEnvelope (st_envelope s) req now")
    case (Some v)
    with call have "res = Inl (RequestOutsideEnvelope v)" "s' = s" by (simp_all add: createOrConfirmAt_def)
    from rejected[OF Some this] show thesis .
  next
    case None
    note v = this
    show thesis
    proof (cases "map_of (byInvocation ?s1) (request_scope req)")
      case (Some r)
      have run: "createOrConfirmAt sha req now hx bx s =
          (if bindingEquals (cells ?s1 ! r) req
           then (if Revoked (cells ?s1 ! r) then (Inl TerminalOutcome, ?s1) else (Inr (toResult (cells ?s1 ! r)), ?s1))
           else (Inl BoundToDifferentIdentity, revokeLocked sha r ?s1))"
        unfolding createOrConfirmAt_def v Let_def option.case Some by (rule refl)
      show thesis
      proof (cases "bindingEquals (cells ?s1 ! r) req")
        case False
        with call run have "s' = revokeLocked sha r ?s1" "res = Inl BoundToDifferentIdentity" by simp_all
        from mismatch[OF v Some False this] show thesis .
      next
        case True
        show thesis
        proof (cases "Revoked (cells ?s1 ! r)")
          case r: True
          with True call run have "s' = ?s1" "res = Inl TerminalOutcome" by simp_all
          then show thesis using terminal[OF v, of r] Some True r by simp
        next
          case r: False
          with True call run have "s' = ?s1" "res = Inr (toResult (cells ?s1 ! r))" by auto
          then show thesis using confirmed[OF v, of r] Some True r by simp
        qed
      qed
    next
      case n: None
      obtain a s2 where a: "admitSchemaHashLocked (SchemaHash (core req)) ?s1 = (a, s2)" by fastforce
      show thesis
      proof (cases "recoveryIncomplete ?s1 \<or> \<not> a \<or> hx = None \<or> bx = None")
        case True
        have "\<exists>e. res = Inl e \<and> e \<in> {RecoveryIncompleteError, SchemaBoundExceeded, TokenFailure} \<and> (s' = ?s1 \<or> s' = s2)"
          using call v n a True
          by (auto simp: createOrConfirmAt_def Let_def generateOpaqueToken_def split: if_splits option.splits)
        then obtain e where e: "res = Inl e" "e \<in> {RecoveryIncompleteError, SchemaBoundExceeded, TokenFailure}"
          "s' = ?s1 \<or> s' = s2" by blast
        have "s' = ?s1 \<or> s' = snd (admitSchemaHashLocked (SchemaHash (core req)) ?s1)" using e(3) by (simp add: a)
        from denied[OF v n this e(1,2)] show thesis .
      next
        case False
        then obtain h b where hb: "hx = Some h" "bx = Some b" by auto
        have "s' = index_new sha (new_identity req now (handle_prefix @ h) (bearer_prefix @ b) s2) s2"
          "res = Inr (toResult (new_identity req now (handle_prefix @ h) (bearer_prefix @ b) s2))"
          using False call v n a hb by (simp_all add: createOrConfirmAt_def Let_def generateOpaqueToken_def)
        from created[OF v n _ _ hb this] False ri a show thesis by simp
      qed
    qed
  qed
qed

lemma create_ok:
  assumes ok: "store_ok sha s" and "new_tokens sha s hx bx"
    and call: "createOrConfirmAt sha req now hx bx s = (res, s')"
  shows "store_ok sha s'"
  using ok call
proof (cases rule: create_cases)
  case (mismatch r)
  have c: "store_ok sha (cleanupExpiredLocked sha now s)" using cleanup_ok(1)[OF ok] .
  with mismatch(2) have "r < length (cells (cleanupExpiredLocked sha now s))"
    using maps_agreeD(3)[OF store_okD(1)[OF c]] by blast
  with mismatch(4) revoke_ok[OF c] show ?thesis by simp
next
  case (denied e)
  obtain b s2 where a: "admitSchemaHashLocked (SchemaHash (core req)) (cleanupExpiredLocked sha now s) = (b, s2)" by fastforce
  have c: "store_ok sha (cleanupExpiredLocked sha now s)" using cleanup_ok(1)[OF ok] .
  from admit_ok(1)[OF c validated_request(7)[OF denied(1)] a] c denied(3) a show ?thesis by auto
next
  case (created h b s2)
  have c: "store_ok sha (cleanupExpiredLocked sha now s)" and rv: "only_revokes s (cleanupExpiredLocked sha now s)"
    using cleanup_ok(1,2)[OF ok] by blast+
  note A = admit_ok[OF c validated_request(7)[OF created(1)] created(4)]
  have e: "st_envelope s2 = st_envelope s" using A(8) rv by (simp add: only_revokes_def)
  have "fresh_tokens sha s2 (handle_prefix @ h) (bearer_prefix @ b)"
    using fresh_only_revokes[OF rv, of sha "handle_prefix @ h" "bearer_prefix @ b"] assms(2) created(5,6) A(3)
    by (simp add: new_tokens_def fresh_tokens_def)
  then show ?thesis
    unfolding created(7)
    using A(1,2,6) created(1,2) e new_identity_within[of s2 req now h b] store_okD(6)[OF A(1)]
    by (intro index_ok) simp_all
qed (use ok cleanup_ok(1)[OF ok] in auto)

section \<open>Authorizing\<close>

text \<open>Exactly a live, unexpired identity with this bearer and repository, for a delegated tool, authorizes.\<close>

lemma authorize_iff:
  assumes ok: "store_ok sha s"
  shows "fst (store_authorize sha now bearer repository tool P s) = Inr r \<longleftrightarrow>
    \<not> recoveryIncomplete s \<and> now < e_ExpiresAt (st_envelope s) \<and>
    live s r \<and> now < i_ExpiresAt (cells s ! r) \<and>
    sha (ExecutorBearer (cells s ! r)) = sha (strip_bearer bearer) \<and>
    P (cells s ! r) \<and> Repository (i_core (cells s ! r)) = repository \<and> IsDelegatedTool tool"
proof -
  let ?t = "cleanupExpiredLocked sha now s"
  note C = cleanup_ok[OF ok, of now]
  have env: "recoveryIncomplete ?t = recoveryIncomplete s" "st_envelope ?t = st_envelope s"
    using C(2) by (simp_all add: only_revokes_def)
  have same: "live ?t q \<Longrightarrow> cells ?t ! q = cells s ! q" for q using only_revokes_live[OF C(2)] by blast
  have B: "map_of (byBearer ?t) k = Some q \<longleftrightarrow> live s q \<and> now < i_ExpiresAt (cells s ! q) \<and> sha (ExecutorBearer (cells s ! q)) = k" for k q
    using maps_agreeD(2)[OF store_okD(1)[OF C(1)], of k q] C(3)[of q] same[of q] by auto
  show ?thesis
  proof (cases "map_of (byBearer ?t) (sha (strip_bearer bearer))")
    case None
    with B[of "sha (strip_bearer bearer)" r] show ?thesis by (auto simp: store_authorize_def Let_def env)
  next
    case (Some q)
    then have q: "live s q" "now < i_ExpiresAt (cells s ! q)" "sha (ExecutorBearer (cells s ! q)) = sha (strip_bearer bearer)"
      "cells ?t ! q = cells s ! q"
      using B same C(3)[of q] by auto
    have "live s r \<Longrightarrow> sha (ExecutorBearer (cells s ! r)) = sha (strip_bearer bearer) \<Longrightarrow> r = q"
      using store_okD(2)[OF ok] q(1,3) by (auto simp: tokens_distinct_def live_def)
    with Some q show ?thesis by (auto simp: store_authorize_def Let_def env)
  qed
qed

lemma authorize_store: "snd (store_authorize sha now bearer repository tool P s) = cleanupExpiredLocked sha now s"
  by (simp add: store_authorize_def Let_def)

text \<open>The authorized identity lies within the envelope that the compiler installed.\<close>

lemma live_within:
  assumes "store_ok sha s" and "live s r"
  shows "AllowsRepository (st_envelope s) (Repository (i_core (cells s ! r)))"
    "RunID (i_core (cells s ! r)) = e_RunID (st_envelope s)"
    "EnclaveBackend (i_core (cells s ! r)) = e_EnclaveBackend (st_envelope s)"
    "ToolPolicy (i_core (cells s ! r)) = ToolPolicyGitHubRepositoryReadV1"
    "i_ExpiresAt (cells s ! r) \<le> e_ExpiresAt (st_envelope s)"
    "PolicyGeneration (cells s ! r) = generation s"
proof -
  have m: "cells s ! r \<in> set (cells s)" using assms(2) by (simp add: live_def)
  with store_okD(5)[OF assms(1)] have w: "within_envelope (st_envelope s) (generation s) (cells s ! r)"
    by (simp add: cells_admitted_def)
  then have v: "validateAgainstEnvelope (st_envelope s) (toRequest (cells s ! r)) (CreatedAt (cells s ! r)) = None"
    by (simp add: within_envelope_def)
  have c: "core (toRequest (cells s ! r)) = i_core (cells s ! r)" by (simp add: toRequest_def Let_def)
  note V = validated_request[OF v, unfolded c]
  show "AllowsRepository (st_envelope s) (Repository (i_core (cells s ! r)))"
    "RunID (i_core (cells s ! r)) = e_RunID (st_envelope s)"
    "EnclaveBackend (i_core (cells s ! r)) = e_EnclaveBackend (st_envelope s)"
    "ToolPolicy (i_core (cells s ! r)) = ToolPolicyGitHubRepositoryReadV1"
    "i_ExpiresAt (cells s ! r) \<le> e_ExpiresAt (st_envelope s)"
    "PolicyGeneration (cells s ! r) = generation s"
    using V w envelope_Validate_None(3)[OF store_okD(6)[OF assms(1)]] by (auto simp: within_envelope_def)
qed

end
