(* ===== verification/DelegationRuns.thy ===== *)
theory DelegationRuns imports DelegationSafety begin

text \<open>
  Histories of the delegation store: every public method is an operation, a history is a list of
  them, and the interpretation of \<open>step_system\<close> carries the invariant along it. The tokens of a
  creation are drawn from 256 random bits each; a creation that would draw a token already in use
  (or a bearer whose digest is already in use) is excluded from histories by \<open>new_tokens\<close>.
\<close>

section \<open>Operations and histories\<close>

datatype store_op =
    Op_Create create_request time "string option" "string option"
  | Op_Revoke string
  | Op_RevokeByLabels string string
  | Op_Authorize time string string string string string
  | Op_AuthorizeExecutor time string string string
  | Op_HasLive time string
  | Op_Status time
  | Op_Snapshot time
  | Op_Reconciled

fun store_step :: "(string \<Rightarrow> 'h) \<Rightarrow> store_op \<Rightarrow> 'h delegation_store \<Rightarrow> 'h delegation_store" where
  "store_step sha (Op_Create req now hx bx) s =
     (if new_tokens sha s hx bx then snd (createOrConfirmAt sha req now hx bx s) else s)"
| "store_step sha (Op_Revoke h) s = store_Revoke sha h s"
| "store_step sha (Op_RevokeByLabels run entry) s = snd (RevokeByLabels sha run entry s)"
| "store_step sha (Op_Authorize now b run backend repo tool) s = snd (Authorize sha now b run backend repo tool s)"
| "store_step sha (Op_AuthorizeExecutor now b repo tool) s = snd (AuthorizeExecutor sha now b repo tool s)"
| "store_step sha (Op_HasLive now b) s = snd (HasLiveExecutorBearer sha now b s)"
| "store_step sha (Op_Status now) s = snd (store_Status sha now s)"
| "store_step sha (Op_Snapshot now) s = snd (Snapshot sha now s)"
| "store_step sha Op_Reconciled s = markReconciled s"

lemma reading_steps [simp]:
  "snd (Authorize sha now b run backend repo tool s) = cleanupExpiredLocked sha now s"
  "snd (AuthorizeExecutor sha now b repo tool s) = cleanupExpiredLocked sha now s"
  "snd (HasLiveExecutorBearer sha now b s) = cleanupExpiredLocked sha now s"
  "snd (store_Status sha now s) = cleanupExpiredLocked sha now s"
  "snd (Snapshot sha now s) = cleanupExpiredLocked sha now s"
proof -
  show "snd (Authorize sha now b run backend repo tool s) = cleanupExpiredLocked sha now s"
    unfolding Authorize_def
    using authorize_store[of sha now b repo tool "\<lambda>i. RunID (i_core i) = run \<and> EnclaveBackend (i_core i) = backend" s]
    by (auto split: prod.split sum.split)
  show "snd (AuthorizeExecutor sha now b repo tool s) = cleanupExpiredLocked sha now s"
    unfolding AuthorizeExecutor_def
    using authorize_store[of sha now b repo tool "\<lambda>i. True" s]
    by (auto split: prod.split sum.split)
qed (simp_all add: HasLiveExecutorBearer_def store_Status_def Snapshot_def Let_def)

lemma recovery_flag_ok: "store_ok sha s \<Longrightarrow> store_ok sha (s\<lparr>recoveryIncomplete := b\<rparr>)"
  by (simp add: store_ok_def maps_agree_def live_def labelled_as_def tokens_distinct_def
      maps_clean_def schemas_bounded_def cells_admitted_def)

lemma markReconciled_ok: "store_ok sha s \<Longrightarrow> store_ok sha (markReconciled s)"
  by (simp add: markReconciled_def recovery_flag_ok)

interpretation history: step_system "store_step sha" "store_ok sha" for sha :: "string \<Rightarrow> 'h"
proof unfold_locales
  fix s :: "'h delegation_store" and x
  assume ok: "store_ok sha s"
  show "store_ok sha (store_step sha x s)"
  proof (cases x)
    case (Op_Create req now hx bx)
    then show ?thesis using ok create_ok[OF ok, of hx bx req now] by (simp add: prod_eq_iff)
  next
    case (Op_Revoke h)
    then show ?thesis using revoke_if_present_ok[OF ok] by (simp add: store_Revoke_present)
  next
    case (Op_RevokeByLabels run entry)
    then show ?thesis using RevokeByLabels_ok(1)[OF ok, of run entry] by (simp add: prod_eq_iff)
  qed (simp_all add: cleanup_ok(1)[OF ok] markReconciled_ok[OF ok])
qed

section \<open>How identities evolve\<close>

text \<open>Identity objects are never removed and never change, except that a live one may be revoked.\<close>

definition evolves :: "'h delegation_store \<Rightarrow> 'h delegation_store \<Rightarrow> bool" where
  "evolves s t \<longleftrightarrow>
     length (cells s) \<le> length (cells t) \<and> st_envelope t = st_envelope s \<and> generation t = generation s \<and>
     (\<forall>r<length (cells s). cells t ! r = cells s ! r \<or> cells t ! r = (cells s ! r)\<lparr>Revoked := True\<rparr>)"

lemma evolves_refl [simp]: "evolves s s"
  by (simp add: evolves_def)

lemma evolves_trans:
  assumes "evolves s t" and "evolves t u"
  shows "evolves s u"
proof -
  have "cells u ! r = cells s ! r \<or> cells u ! r = (cells s ! r)\<lparr>Revoked := True\<rparr>" if r: "r < length (cells s)" for r
  proof -
    have "cells t ! r = cells s ! r \<or> cells t ! r = (cells s ! r)\<lparr>Revoked := True\<rparr>"
      using assms(1) r by (simp add: evolves_def)
    moreover have "cells u ! r = cells t ! r \<or> cells u ! r = (cells t ! r)\<lparr>Revoked := True\<rparr>"
      using assms r by (simp add: evolves_def)
    ultimately show ?thesis by (elim disjE) simp_all
  qed
  with assms show ?thesis by (auto simp: evolves_def)
qed

lemma only_revokes_evolves: "only_revokes s t \<Longrightarrow> evolves s t"
  by (simp add: only_revokes_def evolves_def)

lemma evolves_cells: "evolves s t \<Longrightarrow> cells u = cells t \<Longrightarrow> st_envelope u = st_envelope t \<Longrightarrow>
  generation u = generation t \<Longrightarrow> evolves s u"
  by (simp add: evolves_def)

lemma evolves_index: "evolves s (index_new sha i s)"
  by (simp add: evolves_def nth_append)

lemma create_evolves:
  assumes ok: "store_ok sha s" and call: "createOrConfirmAt sha req now hx bx s = (res, s')"
  shows "evolves s s'"
proof -
  have c: "evolves s (cleanupExpiredLocked sha now s)"
    using cleanup_ok(2)[OF ok] by (rule only_revokes_evolves)
  have cok: "store_ok sha (cleanupExpiredLocked sha now s)" by (rule cleanup_ok(1)[OF ok])
  from ok call show ?thesis
  proof (cases rule: create_cases)
    case (mismatch r)
    then show ?thesis using evolves_trans[OF c only_revokes_evolves[OF only_revokes_revoke]] by simp
  next
    case (denied e)
    obtain b s2 where a: "admitSchemaHashLocked (SchemaHash (core req)) (cleanupExpiredLocked sha now s) = (b, s2)" by fastforce
    note A = admit_ok[OF cok validated_request(7)[OF denied(1)] a]
    show ?thesis using denied(3) c evolves_cells[OF c A(3,8,9)] a by auto
  next
    case (created h b s2)
    note A = admit_ok[OF cok validated_request(7)[OF created(1)] created(4)]
    show ?thesis unfolding created(7) by (rule evolves_trans[OF evolves_cells[OF c A(3,8,9)] evolves_index])
  qed (use c in auto)
qed

lemma step_evolves:
  assumes ok: "store_ok sha s"
  shows "evolves s (store_step sha x s)"
proof -
  have c: "evolves s (cleanupExpiredLocked sha now s)" for now
    using cleanup_ok(2)[OF ok] by (rule only_revokes_evolves)
  show ?thesis
  proof (cases x)
    case (Op_Create req now hx bx)
    then show ?thesis using create_evolves[OF ok] by (simp add: prod_eq_iff)
  next
    case (Op_Revoke h)
    then show ?thesis using revoke_if_present_ok[OF ok] by (simp add: store_Revoke_present only_revokes_evolves)
  next
    case (Op_RevokeByLabels run entry)
    then show ?thesis using RevokeByLabels_ok(2)[OF ok, of run entry] by (simp add: prod_eq_iff only_revokes_evolves)
  next
    case Op_Reconciled
    then show ?thesis by (simp add: evolves_def markReconciled_def)
  qed (simp_all add: c)
qed

lemma run_evolves: "store_ok sha s \<Longrightarrow> evolves s (fold (store_step sha) ops s)"
proof (induction ops arbitrary: s)
  case (Cons x ops)
  from Cons.IH[OF history.step_ok[OF Cons.prems]] step_evolves[OF Cons.prems]
  show ?case by (auto intro: evolves_trans)
qed simp

lemma evolves_live: "evolves s t \<Longrightarrow> r < length (cells s) \<Longrightarrow> live t r \<Longrightarrow> live s r \<and> cells t ! r = cells s ! r"
  by (auto simp: evolves_def live_def)

section \<open>Consequences for clients\<close>

text \<open>A revoked identity never authorizes again, whatever happens to the store.\<close>

lemma revoked_never_authorizes:
  assumes "store_ok sha s" and "r < length (cells s)" and "Revoked (cells s ! r)"
  shows "fst (store_authorize sha now bearer repository tool P (fold (store_step sha) ops s)) \<noteq> Inr r"
proof
  let ?t = "fold (store_step sha) ops s"
  assume "fst (store_authorize sha now bearer repository tool P ?t) = Inr r"
  then have "live ?t r" using authorize_iff[OF history.run_ok[OF assms(1)]] by blast
  with evolves_live[OF run_evolves[OF assms(1)] assms(2)] assms(3) show False by (simp add: live_def)
qed

text \<open>What a successful create-or-confirm leaves behind.\<close>

lemma create_result:
  assumes ok: "store_ok sha s" and call: "createOrConfirmAt sha req now hx bx s = (Inr res, s')"
  obtains q where "q < length (cells s')" "live s' q" "scope_of (cells s' ! q) = request_scope req"
    "bindingEquals (cells s' ! q) req" "toResult (cells s' ! q) = res"
  using ok call
proof (cases rule: create_cases)
  case (confirmed r)
  then have "r < length (cells s') \<and> scope_of (cells s' ! r) = request_scope req"
    using maps_agreeD(3)[OF store_okD(1)[OF cleanup_ok(1)[OF ok, of now]]] by simp
  with confirmed that[of r] show ?thesis by (simp add: live_def)
next
  case (created h b s2)
  show ?thesis
    using that[of "length (cells s2)"] created(8) unfolding created(7) by (simp add: live_def nth_append)
qed simp_all

text \<open>Repeating a request returns the same identity, or reports its terminal state; never another one.\<close>

lemma confirm_same_identity:
  assumes ok: "store_ok sha s" and first: "createOrConfirmAt sha req now hx bx s = (Inr res, s1)"
    and new: "new_tokens sha s hx bx"
    and again: "createOrConfirmAt sha req now' hx' bx' (fold (store_step sha) ops s1) = (Inr res', s2)"
  shows "res' = res"
proof -
  let ?t = "fold (store_step sha) ops s1"
  have ok1: "store_ok sha s1" using create_ok[OF ok new first] .
  have okt: "store_ok sha ?t" using history.run_ok[OF ok1] .
  obtain q where q: "q < length (cells s1)" "scope_of (cells s1 ! q) = request_scope req"
    "bindingEquals (cells s1 ! q) req" "toResult (cells s1 ! q) = res"
    using create_result[OF ok first] by metis
  let ?c = "cleanupExpiredLocked sha now' ?t"
  have "evolves s1 ?c" using run_evolves[OF ok1] only_revokes_evolves[OF cleanup_ok(2)[OF okt]] by (rule evolves_trans)
  then have qc: "q < length (cells ?c)" "scope_of (cells ?c ! q) = request_scope req" "toResult (cells ?c ! q) = res"
    using q by (auto simp: evolves_def)
  then have m: "map_of (byInvocation ?c) (request_scope req) = Some q"
    using maps_agreeD(3)[OF store_okD(1)[OF cleanup_ok(1)[OF okt]]] by blast
  from okt again show ?thesis
    by (cases rule: create_cases) (use m qc in auto)
qed

end
