(* ===== verification/DelegationRecovery.thy ===== *)
theory DelegationRecovery imports DelegationRuns "HOL-Library.Multiset" begin

text \<open>
  \<open>internal/delegation/recovery.go\<close>: the state file. A string stands for the bytes of the
  file. SHA-256 and the JSON codec are arguments (\<open>sha\<close>, \<open>encode\<close>,
  \<open>decode\<close>); the frame around the body, its hex checksum and every check of the restored
  state are the code's. Recovery reconstructs the whole file or an empty store that refuses
  admissions.
\<close>

section \<open>Hexadecimal\<close>

definition hex_digit :: "nat \<Rightarrow> char" where
  "hex_digit n = ''0123456789abcdef'' ! n"

definition unhex_digit :: "char \<Rightarrow> nat option" where
  "unhex_digit c =
     (let n = of_char c :: nat
      in if 48 \<le> n \<and> n \<le> 57 then Some (n - 48)
         else if 97 \<le> n \<and> n \<le> 102 then Some (n - 87)
         else if 65 \<le> n \<and> n \<le> 70 then Some (n - 55)
         else None)"

fun hex_encode :: "string \<Rightarrow> string" where
  "hex_encode [] = []"
| "hex_encode (c # cs) = hex_digit (of_char c div 16) # hex_digit (of_char c mod 16) # hex_encode cs"

fun hex_decode :: "string \<Rightarrow> string option" where
  "hex_decode [] = Some []"
| "hex_decode [c] = None"
| "hex_decode (a # b # cs) =
     (case (unhex_digit a, unhex_digit b, hex_decode cs) of
        (Some m, Some n, Some rest) \<Rightarrow> Some (char_of (16 * m + n) # rest)
      | _ \<Rightarrow> None)"

lemma unhex_hex: "n < 16 \<Longrightarrow> unhex_digit (hex_digit n) = Some n"
proof -
  assume "n < 16"
  then have "n \<in> set [0..<16]" by simp
  moreover have "\<forall>n\<in>set [0..<16]. unhex_digit (hex_digit n) = Some n" by code_simp
  ultimately show ?thesis by blast
qed

lemma hex_roundtrip [model_simps]: "hex_decode (hex_encode bs) = Some bs"
proof (induction bs)
  case (Cons c cs)
  have "(of_char c :: nat) < 256" by simp
  then have "(of_char c :: nat) div 16 < 16" by (intro less_mult_imp_div_less) simp
  with Cons show ?case by (simp add: unhex_hex)
qed simp

lemma length_hex_encode [simp]: "length (hex_encode bs) = 2 * length bs"
  by (induction bs) simp_all

section \<open>The persisted state\<close>

definition statePersistVersion :: int where
  "statePersistVersion = 3"

record persisted_state =
  ps_Version :: int
  ps_Generation :: nat
  ps_RecoveryIncomplete :: bool
  ps_Identities :: "(string \<times> identity) list"
  ps_DynamicSchemaHashes :: "string list"

text \<open>The snapshot that \<open>saveStateLocked\<close> takes under the store lock, and the file it writes.\<close>

definition snapshot_state :: "bool \<Rightarrow> 'h delegation_store \<Rightarrow> persisted_state" where
  "snapshot_state forceReconciled s =
     \<lparr>ps_Version = statePersistVersion, ps_Generation = generation s,
      ps_RecoveryIncomplete = (recoveryIncomplete s \<and> \<not> forceReconciled),
      ps_Identities = map (\<lambda>(k, ref). (k, cells s ! ref)) (byInvocation s),
      ps_DynamicSchemaHashes = sort (dynamicSchemaHashes s)\<rparr>"

definition newline :: char where "newline = CHR 0x0A"

definition state_file :: "(string \<Rightarrow> string) \<Rightarrow> string \<Rightarrow> string" where
  "state_file sha body = body @ [newline] @ hex_encode (sha body) @ [newline]"

datatype persist_error = EncodeFailed | WriteFailed

text \<open>
  \<open>write_ok\<close> is the outcome of \<open>AtomicWriteFile\<close>, which replaces the whole file or leaves it.
\<close>

definition saveStateLocked ::
  "(string \<Rightarrow> string) \<Rightarrow> (persisted_state \<Rightarrow> string option) \<Rightarrow> bool \<Rightarrow> bool \<Rightarrow> 'h delegation_store \<Rightarrow>
   string option \<Rightarrow> persist_error option \<times> string option" where
  "saveStateLocked sha encode write_ok forceReconciled s file =
     (case encode (snapshot_state forceReconciled s) of
        None \<Rightarrow> (Some EncodeFailed, file)
      | Some body \<Rightarrow> (if write_ok then (None, Some (state_file sha body)) else (Some WriteFailed, file)))"

definition SaveState ::
  "(string \<Rightarrow> string) \<Rightarrow> (persisted_state \<Rightarrow> string option) \<Rightarrow> bool \<Rightarrow> 'h delegation_store \<Rightarrow>
   string option \<Rightarrow> persist_error option \<times> string option" where
  "SaveState sha encode write_ok s file = saveStateLocked sha encode write_ok False s file"

text \<open>
  The store lock is released while the file is written: \<open>during\<close> are the operations that other
  goroutines perform between the snapshot and the flag update.
\<close>

definition MarkReconciledAndSaveState ::
  "(string \<Rightarrow> string) \<Rightarrow> (persisted_state \<Rightarrow> string option) \<Rightarrow> bool \<Rightarrow> store_op list \<Rightarrow> string delegation_store \<Rightarrow>
   string option \<Rightarrow> persist_error option \<times> string delegation_store \<times> string option" where
  "MarkReconciledAndSaveState sha encode write_ok during s file =
     (case saveStateLocked sha encode write_ok True s file of
        (Some err, file') \<Rightarrow> (Some err, fold (store_step sha) during s, file')
      | (None, file') \<Rightarrow> (None, markReconciled (fold (store_step sha) during s), file'))"

section \<open>Validation\<close>

datatype restored_error =
    InvalidCredential | ExpiryExceedsEnvelope | ExpiryExceedsInvocation | RestoredOutside envelope_violation

definition validateRestoredIdentity :: "identity \<Rightarrow> envelope \<Rightarrow> nat \<Rightarrow> restored_error option" where
  "validateRestoredIdentity i e gen =
     (if Handle i = [] \<or> ExecutorBearer i = [] \<or> PolicyGeneration i \<noteq> gen then Some InvalidCredential
      else if i_ExpiresAt i > e_ExpiresAt e then Some ExpiryExceedsEnvelope
      else if \<not> is_zero_time (b_InvocationExpiresAt (i_binding i)) \<and> i_ExpiresAt i > b_InvocationExpiresAt (i_binding i)
           then Some ExpiryExceedsInvocation
      else map_option RestoredOutside (validateAgainstEnvelope e (toRequest i) (CreatedAt i)))"

datatype recovery_error =
    UnsupportedVersion | WrongGeneration | EmptySchemaHash | ClosedSetHashes | TooManySchemaHashes
  | InvalidIdentity restored_error | DuplicateInvocation | DuplicateHandle | DuplicateBearer

definition persisted_hashes :: "persisted_state \<Rightarrow> envelope \<Rightarrow> string list" where
  "persisted_hashes ps e =
     remdups (ps_DynamicSchemaHashes ps @
       (if AllowedSchemaHashes e = []
        then filter (\<lambda>h. h \<noteq> []) (map (\<lambda>(k, i). SchemaHash (i_core i)) (ps_Identities ps)) else []))"

definition validatePersistedSchemaHashes :: "persisted_state \<Rightarrow> envelope \<Rightarrow> recovery_error option" where
  "validatePersistedSchemaHashes ps e =
     (if [] \<in> set (ps_DynamicSchemaHashes ps) then Some EmptySchemaHash
      else if persisted_hashes ps e = [] then None
      else if AllowedSchemaHashes e \<noteq> [] then Some ClosedSetHashes
      else if int (length (persisted_hashes ps e)) > MaxDynamicSchemaHashes e then Some TooManySchemaHashes
      else None)"

fun validate_identities ::
  "envelope \<Rightarrow> nat \<Rightarrow> string set \<Rightarrow> string set \<Rightarrow> string set \<Rightarrow> identity list \<Rightarrow> recovery_error option" where
  "validate_identities e gen seenKeys seenHandles seenBearers [] = None"
| "validate_identities e gen seenKeys seenHandles seenBearers (i # is) =
     (case validateRestoredIdentity i e gen of
        Some err \<Rightarrow> Some (InvalidIdentity err)
      | None \<Rightarrow>
          (if scope_of i \<in> seenKeys then Some DuplicateInvocation
           else if Handle i \<in> seenHandles then Some DuplicateHandle
           else if ExecutorBearer i \<in> seenBearers then Some DuplicateBearer
           else validate_identities e gen (insert (scope_of i) seenKeys) (insert (Handle i) seenHandles)
                  (insert (ExecutorBearer i) seenBearers) is))"

definition validatePersistedState :: "persisted_state \<Rightarrow> envelope \<Rightarrow> nat \<Rightarrow> recovery_error + identity list" where
  "validatePersistedState ps e gen =
     (if ps_Version ps \<noteq> statePersistVersion then Inl UnsupportedVersion
      else if ps_Generation ps \<noteq> gen then Inl WrongGeneration
      else
        (case validatePersistedSchemaHashes ps e of
           Some err \<Rightarrow> Inl err
         | None \<Rightarrow>
             (case validate_identities e gen {} {} {} (map snd (ps_Identities ps)) of
                Some err \<Rightarrow> Inl err
              | None \<Rightarrow> Inr (sort_key Handle (map snd (ps_Identities ps))))))"

section \<open>Loading\<close>

text \<open>\<open>"<json>\n<64-hex-checksum>\n"\<close>.\<close>

definition checksumHexLen :: nat where "checksumHexLen = 64"

definition parsePersistedState ::
  "(string \<Rightarrow> string) \<Rightarrow> (string \<Rightarrow> persisted_state option) \<Rightarrow> string \<Rightarrow> persisted_state option" where
  "parsePersistedState sha decode raw =
     (if length raw < checksumHexLen + 2 \<or> raw ! (length raw - 1) \<noteq> newline then None
      else
        (let trimmed = take (length raw - 1) raw;
             sep = length trimmed - checksumHexLen
         in if sep = 0 \<or> trimmed ! (sep - 1) \<noteq> newline then None
            else
              (let body = take (sep - 1) trimmed
               in case hex_decode (drop sep trimmed) of
                    None \<Rightarrow> None
                  | Some want \<Rightarrow> (if length want \<noteq> 32 then None
                                else if sha body \<noteq> want then None
                                else decode body))))"

datatype file_read = FileMissing | FileUnreadable | FileContents string

definition failedRecoveryStore :: "envelope option \<Rightarrow> nat \<Rightarrow> envelope_error + 'h delegation_store" where
  "failedRecoveryStore eo gen =
     (case NewStore eo gen of Inl err \<Rightarrow> Inl err | Inr s \<Rightarrow> Inr (s\<lparr>recoveryIncomplete := True\<rparr>))"

definition restore_one :: "(string \<Rightarrow> 'h) \<Rightarrow> time \<Rightarrow> identity \<Rightarrow> 'h delegation_store \<Rightarrow> 'h delegation_store" where
  "restore_one sha now i s =
     (let s1 = index_new sha i s
      in if Revoked i \<or> \<not> now < i_ExpiresAt i then revokeLocked sha (length (cells s)) s1 else s1)"

definition loadStoreAt ::
  "(string \<Rightarrow> string) \<Rightarrow> (string \<Rightarrow> persisted_state option) \<Rightarrow> file_read \<Rightarrow> envelope option \<Rightarrow> nat \<Rightarrow> time \<Rightarrow>
   envelope_error + string delegation_store" where
  "loadStoreAt sha decode read eo gen now =
     (case NewStore eo gen of
        Inl err \<Rightarrow> Inl err
      | Inr s \<Rightarrow>
          (case read of
             FileMissing \<Rightarrow> Inr s
           | FileUnreadable \<Rightarrow> failedRecoveryStore eo gen
           | FileContents raw \<Rightarrow>
               (case parsePersistedState sha decode raw of
                  None \<Rightarrow> failedRecoveryStore eo gen
                | Some ps \<Rightarrow>
                    (case validatePersistedState ps (the eo) gen of
                       Inl err \<Rightarrow> failedRecoveryStore eo gen
                     | Inr validated \<Rightarrow>
                         Inr (fold (restore_one sha now) validated
                               (s\<lparr>recoveryIncomplete := ps_RecoveryIncomplete ps,
                                  dynamicSchemaHashes := remdups (ps_DynamicSchemaHashes ps)\<rparr>))))))"

section \<open>The checksum frame\<close>

text \<open>A file written by \<open>saveStateLocked\<close> passes the integrity check.\<close>

lemma parse_state_file:
  assumes "length (sha body) = 32" and "body \<noteq> []"
  shows "parsePersistedState sha decode (state_file sha body) = decode body"
proof -
  have l: "length (hex_encode (sha body)) = 64" using assms(1) by simp
  have t: "take (length (state_file sha body) - 1) (state_file sha body) = body @ [newline] @ hex_encode (sha body)"
    by (simp add: state_file_def)
  have s: "length (body @ [newline] @ hex_encode (sha body)) - checksumHexLen = Suc (length body)"
    using assms(1) by (simp add: checksumHexLen_def)
  have n: "\<not> (length (state_file sha body) < checksumHexLen + 2 \<or>
      state_file sha body ! (length (state_file sha body) - 1) \<noteq> newline)"
    using assms(1) by (simp add: state_file_def checksumHexLen_def nth_append)
  show ?thesis
    unfolding parsePersistedState_def if_not_P[OF n] Let_def t s
    using assms by (simp add: hex_roundtrip nth_append)
qed

text \<open>Whatever is accepted carries its own digest: other bytes are refused.\<close>

lemma parse_checks_digest:
  assumes "parsePersistedState sha decode raw = Some ps"
  obtains body hex where "raw = body @ [newline] @ hex @ [newline]" "hex_decode hex = Some (sha body)"
    "length hex = checksumHexLen" "decode body = Some ps"
proof -
  let ?t = "take (length raw - 1) raw" and ?sep = "length raw - 1 - checksumHexLen"
  from assms have c: "checksumHexLen + 2 \<le> length raw" "raw ! (length raw - 1) = newline" "?sep \<noteq> 0"
    "?t ! (?sep - 1) = newline" "hex_decode (drop ?sep ?t) = Some (sha (take (?sep - 1) ?t))"
    "decode (take (?sep - 1) ?t) = Some ps"
    by (auto simp: parsePersistedState_def Let_def split: if_splits option.splits)
  have ne: "raw \<noteq> []" using c(1) by auto
  have r: "raw = ?t @ [newline]"
    using c(2) ne by (metis append_butlast_last_id butlast_conv_take last_conv_nth)
  have "?t = take (?sep - 1) ?t @ ?t ! (?sep - 1) # drop ?sep ?t"
    using id_take_nth_drop[of "?sep - 1" ?t] c(1,3) Suc_pred[of ?sep] by (simp only: length_take) force
  then have "?t = take (?sep - 1) ?t @ [newline] @ drop ?sep ?t" using c(4) by simp
  with r have "raw = take (?sep - 1) ?t @ [newline] @ drop ?sep ?t @ [newline]"
    by (metis append.assoc)
  moreover have "length (drop ?sep ?t) = checksumHexLen" using c(1) by (simp add: checksumHexLen_def)
  ultimately show thesis using that c(5,6) by blast
qed

section \<open>What validation guarantees\<close>

lemma validateRestored_None: "validateRestoredIdentity i e gen = None \<longleftrightarrow> within_envelope e gen i"
  by (auto simp: validateRestoredIdentity_def within_envelope_def)

lemma validate_identities_None:
  "validate_identities e gen K H B is = None \<longleftrightarrow>
     (\<forall>i\<in>set is. within_envelope e gen i) \<and>
     distinct (map scope_of is) \<and> distinct (map Handle is) \<and> distinct (map ExecutorBearer is) \<and>
     scope_of ` set is \<inter> K = {} \<and> Handle ` set is \<inter> H = {} \<and> ExecutorBearer ` set is \<inter> B = {}"
proof (induction "is" arbitrary: K H B)
  case (Cons i "is")
  show ?case
  proof (cases "validateRestoredIdentity i e gen")
    case None
    then have "within_envelope e gen i" by (simp add: validateRestored_None)
    with None show ?thesis by (auto simp: Cons.IH)
  next
    case (Some err)
    then have "\<not> within_envelope e gen i" using validateRestored_None[of i e gen] by simp
    with Some show ?thesis by simp
  qed
qed simp

definition valid_state :: "persisted_state \<Rightarrow> envelope \<Rightarrow> nat \<Rightarrow> bool" where
  "valid_state ps e gen \<longleftrightarrow>
     ps_Version ps = statePersistVersion \<and> ps_Generation ps = gen \<and>
     validatePersistedSchemaHashes ps e = None \<and>
     (\<forall>i\<in>set (map snd (ps_Identities ps)). within_envelope e gen i) \<and>
     distinct (map scope_of (map snd (ps_Identities ps))) \<and> distinct (map Handle (map snd (ps_Identities ps))) \<and>
     distinct (map ExecutorBearer (map snd (ps_Identities ps)))"

lemma validatePersistedState_Inr:
  "validatePersistedState ps e gen = Inr xs \<longleftrightarrow>
     valid_state ps e gen \<and> xs = sort_key Handle (map snd (ps_Identities ps))"
proof -
  have "validate_identities e gen {} {} {} (map snd (ps_Identities ps)) = None \<longleftrightarrow>
      (\<forall>i\<in>set (map snd (ps_Identities ps)). within_envelope e gen i) \<and>
      distinct (map scope_of (map snd (ps_Identities ps))) \<and> distinct (map Handle (map snd (ps_Identities ps))) \<and>
      distinct (map ExecutorBearer (map snd (ps_Identities ps)))"
    by (simp only: validate_identities_None) simp
  then show ?thesis
    unfolding validatePersistedState_def valid_state_def
    by (cases "validate_identities e gen {} {} {} (map snd (ps_Identities ps))")
      (auto simp del: map_map set_map split: option.split)
qed

text \<open>
  The result depends on the contents of the file only: the order in which Go happens to iterate over
  the identities changes neither the verdict nor the restored list.
\<close>

definition same_state :: "persisted_state \<Rightarrow> persisted_state \<Rightarrow> bool" where
  "same_state p q \<longleftrightarrow>
     ps_Version p = ps_Version q \<and> ps_Generation p = ps_Generation q \<and>
     ps_RecoveryIncomplete p = ps_RecoveryIncomplete q \<and>
     mset (ps_Identities p) = mset (ps_Identities q) \<and> ps_DynamicSchemaHashes p = ps_DynamicSchemaHashes q"

lemma same_hashes:
  assumes "same_state p q"
  shows "validatePersistedSchemaHashes p e = validatePersistedSchemaHashes q e"
proof -
  have "set (persisted_hashes p e) = set (persisted_hashes q e)"
    using assms mset_eq_setD[of "ps_Identities p" "ps_Identities q"]
    by (auto simp: persisted_hashes_def same_state_def)
  moreover have "distinct (persisted_hashes p e)" "distinct (persisted_hashes q e)"
    by (simp_all add: persisted_hashes_def)
  ultimately have "length (persisted_hashes p e) = length (persisted_hashes q e)"
    "persisted_hashes p e = [] \<longleftrightarrow> persisted_hashes q e = []"
    by (metis distinct_card) (metis \<open>set (persisted_hashes p e) = set (persisted_hashes q e)\<close> set_empty)
  then show ?thesis using assms by (simp add: validatePersistedSchemaHashes_def same_state_def)
qed

lemma validate_order_independent:
  assumes "same_state p q" and "validatePersistedState p e gen = Inr xs"
  shows "validatePersistedState q e gen = Inr xs"
proof -
  let ?p = "map snd (ps_Identities p)" and ?q = "map snd (ps_Identities q)"
  have m: "mset ?p = mset ?q" using assms(1) by (simp only: same_state_def mset_map)
  have d: "distinct (map f ?p) \<longleftrightarrow> distinct (map f ?q)" for f :: "identity \<Rightarrow> string"
    by (rule mset_eq_imp_distinct_iff) (simp only: mset_map[of f] m)
  from assms(2) have v: "valid_state p e gen" "xs = sort_key Handle ?p" by (simp_all add: validatePersistedState_Inr)
  have "valid_state q e gen"
    using v(1) assms(1) same_hashes[OF assms(1), of e] d mset_eq_setD[OF m]
    by (simp only: valid_state_def same_state_def simp_thms) blast
  moreover have "sort_key Handle ?q = sort_key Handle ?p"
  proof (rule sort_key_inj_key_eq)
    have "distinct (map Handle ?p)" using v(1) by (simp only: valid_state_def)
    then have "inj_on Handle (set ?p)" by (simp only: distinct_map)
    then show "inj_on Handle (set ?q)" by (simp only: mset_eq_setD[OF m])
    show "mset ?q = mset (sort_key Handle ?p)" by (simp only: mset_sort m)
    show "sorted (map Handle (sort_key Handle ?p))" by (rule sorted_sort_key)
  qed
  ultimately show ?thesis using v(2) by (simp add: validatePersistedState_Inr)
qed

end
