(* ===== verification/DelegationRestart.thy ===== *)
theory DelegationRestart imports DelegationRecovery begin

text \<open>
  Restarting the controller: restoring keeps the store invariant, loading is all or nothing, and a
  save followed by a load authorizes exactly what the store authorized before.
\<close>

section \<open>Restoring identities\<close>

definition restored :: "time \<Rightarrow> identity \<Rightarrow> identity" where
  "restored now i = (if Revoked i \<or> \<not> now < i_ExpiresAt i then i\<lparr>Revoked := True\<rparr> else i)"

lemma restored_fields [simp]:
  "Handle (restored now i) = Handle i" "ExecutorBearer (restored now i) = ExecutorBearer i"
  "scope_of (restored now i) = scope_of i" "i_core (restored now i) = i_core i"
  "i_ExpiresAt (restored now i) = i_ExpiresAt i"
  "Revoked (restored now i) \<longleftrightarrow> Revoked i \<or> \<not> now < i_ExpiresAt i"
  by (simp_all add: restored_def)

lemma restore_tombstone:
  "revokeLocked sha (length (cells s)) (index_new sha i s) =
     revokeLocked sha (length (cells s)) (index_new sha (i\<lparr>Revoked := b\<rparr>) s)"
  by (rule delegation_store.equality) (simp_all add: revoke_byLabel index_byLabel)

lemma restore_fields [simp]:
  "cells (restore_one sha now i s) = cells s @ [restored now i]"
  "st_envelope (restore_one sha now i s) = st_envelope s" "generation (restore_one sha now i s) = generation s"
  "dynamicSchemaHashes (restore_one sha now i s) = dynamicSchemaHashes s"
  "recoveryIncomplete (restore_one sha now i s) = recoveryIncomplete s"
  by (simp_all add: restore_one_def restored_def Let_def)

lemma restore_ok:
  assumes ok: "store_ok sha s" and fresh: "fresh_tokens sha s (Handle i) (ExecutorBearer i)"
    and new: "map_of (byInvocation s) (scope_of i) = None"
    and env: "within_envelope (st_envelope s) (generation s) i"
    and schema: "schema_admitted (st_envelope s) (dynamicSchemaHashes s) (SchemaHash (i_core i))"
  shows "store_ok sha (restore_one sha now i s)"
proof (cases "Revoked i \<or> \<not> now < i_ExpiresAt i")
  case True
  let ?j = "i\<lparr>Revoked := False\<rparr>"
  have "store_ok sha (index_new sha ?j s)"
    using fresh new env schema by (intro index_ok[OF ok]) simp_all
  then have "store_ok sha (revokeLocked sha (length (cells s)) (index_new sha ?j s))"
    by (rule revoke_ok) simp
  with True show ?thesis by (simp add: restore_one_def Let_def restore_tombstone[of sha s i False])
next
  case False
  with index_ok[OF ok fresh new _ env schema] show ?thesis by (simp add: restore_one_def Let_def)
qed

lemma restore_fold:
  assumes "store_ok sha s"
    and "\<forall>i\<in>set is. within_envelope (st_envelope s) (generation s) i \<and>
           schema_admitted (st_envelope s) (dynamicSchemaHashes s) (SchemaHash (i_core i))"
    and "distinct (map scope_of (cells s @ is))" and "distinct (map Handle (cells s @ is))"
    and "distinct (map (\<lambda>i. sha (ExecutorBearer i)) (cells s @ is))"
  shows "store_ok sha (fold (restore_one sha now) is s) \<and>
    cells (fold (restore_one sha now) is s) = cells s @ map (restored now) is \<and>
    st_envelope (fold (restore_one sha now) is s) = st_envelope s \<and>
    generation (fold (restore_one sha now) is s) = generation s \<and>
    dynamicSchemaHashes (fold (restore_one sha now) is s) = dynamicSchemaHashes s \<and>
    recoveryIncomplete (fold (restore_one sha now) is s) = recoveryIncomplete s"
  using assms
proof (induction "is" arbitrary: s)
  case (Cons i "is")
  let ?t = "restore_one sha now i s"
  have "fresh_tokens sha s (Handle i) (ExecutorBearer i)"
    unfolding fresh_tokens_def
  proof
    fix j assume j: "j \<in> set (cells s)"
    have "Handle i \<notin> Handle ` set (cells s)" "sha (ExecutorBearer i) \<notin> (\<lambda>i. sha (ExecutorBearer i)) ` set (cells s)"
      using Cons.prems(4,5) by auto
    with j show "Handle j \<noteq> Handle i \<and> sha (ExecutorBearer j) \<noteq> sha (ExecutorBearer i)" by (metis image_eqI)
  qed
  moreover have "map_of (byInvocation s) (scope_of i) = None"
  proof (rule ccontr)
    assume "map_of (byInvocation s) (scope_of i) \<noteq> None"
    then obtain r where "r < length (cells s)" "scope_of (cells s ! r) = scope_of i"
      using maps_agreeD(3)[OF store_okD(1)[OF Cons.prems(1)]] by blast
    then have "scope_of i \<in> set (map scope_of (cells s))" by (metis in_set_conv_nth length_map nth_map)
    with Cons.prems(3) show False by auto
  qed
  ultimately have "store_ok sha ?t" using Cons.prems(1,2) by (intro restore_ok) simp_all
  note IH = Cons.IH[OF this, unfolded restore_fields append_assoc]
  have "\<forall>j\<in>set is. within_envelope (st_envelope s) (generation s) j \<and>
      schema_admitted (st_envelope s) (dynamicSchemaHashes s) (SchemaHash (i_core j))"
    using Cons.prems(2) by simp
  from IH[OF this] Cons.prems(3,4,5)
  show ?case by (simp only: fold_Cons o_apply list.map map_append append_assoc append_Cons append_Nil restored_fields)
qed simp

section \<open>All or nothing\<close>

text \<open>
  Whatever the file holds, loading either restores every identity of it, each within the active
  envelope, or yields the empty store that refuses admissions.
\<close>

lemma load_outcome:
  assumes "loadStoreAt sha decode (FileContents raw) (Some e) gen now = Inr t"
  obtains (discarded) "t = (empty_store e gen)\<lparr>recoveryIncomplete := True\<rparr>"
    | (everything) ps where "parsePersistedState sha decode raw = Some ps" "valid_state ps e gen"
      "t = fold (restore_one sha now) (sort_key Handle (map snd (ps_Identities ps)))
             ((empty_store e gen)\<lparr>recoveryIncomplete := ps_RecoveryIncomplete ps,
                dynamicSchemaHashes := remdups (ps_DynamicSchemaHashes ps)\<rparr>)"
proof -
  have n: "NewStore (Some e) gen = Inr (empty_store e gen :: string delegation_store)"
    using assms by (auto simp: loadStoreAt_def NewStore_def split: option.splits)
  have f: "failedRecoveryStore (Some e) gen = Inr ((empty_store e gen :: string delegation_store)\<lparr>recoveryIncomplete := True\<rparr>)"
    by (simp add: failedRecoveryStore_def n)
  show thesis
  proof (cases "parsePersistedState sha decode raw")
    case None
    with assms n f have "t = (empty_store e gen)\<lparr>recoveryIncomplete := True\<rparr>" by (simp add: loadStoreAt_def)
    then show thesis by (rule discarded)
  next
    case (Some ps)
    show thesis
    proof (cases "validatePersistedState ps e gen")
      case (Inl err)
      with assms n f Some have "t = (empty_store e gen)\<lparr>recoveryIncomplete := True\<rparr>" by (simp add: loadStoreAt_def)
      then show thesis by (rule discarded)
    next
      case (Inr xs)
      then have v: "valid_state ps e gen" "xs = sort_key Handle (map snd (ps_Identities ps))"
        by (simp_all add: validatePersistedState_Inr)
      from assms n Some Inr
      have "t = fold (restore_one sha now) xs ((empty_store e gen)\<lparr>recoveryIncomplete := ps_RecoveryIncomplete ps,
          dynamicSchemaHashes := remdups (ps_DynamicSchemaHashes ps)\<rparr>)"
        by (simp add: loadStoreAt_def)
      from everything[OF Some v(1) this[unfolded v(2)]] show thesis .
    qed
  qed
qed

lemma failed_store_denies:
  "fst (store_authorize sha now b repo tool P ((empty_store e gen)\<lparr>recoveryIncomplete := True\<rparr>)) = Inl AuthRecoveryIncomplete"
  by (simp add: store_authorize_def cleanupExpiredLocked_def empty_store_def Let_def)

section \<open>Authorization in terms of identities\<close>

definition authorizes ::
  "(string \<Rightarrow> 'h) \<Rightarrow> time \<Rightarrow> string \<Rightarrow> string \<Rightarrow> string \<Rightarrow> string \<Rightarrow> identity \<Rightarrow> bool" where
  "authorizes sha now bearer runID backend repository i \<longleftrightarrow>
     \<not> Revoked i \<and> now < i_ExpiresAt i \<and> sha (ExecutorBearer i) = sha (strip_bearer bearer) \<and>
     RunID (i_core i) = runID \<and> EnclaveBackend (i_core i) = backend \<and> Repository (i_core i) = repository"

lemma Authorize_iff:
  assumes "store_ok sha s"
  shows "fst (Authorize sha now bearer runID backend repository tool s) = None \<longleftrightarrow>
    \<not> recoveryIncomplete s \<and> now < e_ExpiresAt (st_envelope s) \<and> IsDelegatedTool tool \<and>
    (\<exists>i\<in>set (cells s). authorizes sha now bearer runID backend repository i)"
proof -
  let ?a = "store_authorize sha now bearer repository tool
    (\<lambda>i. RunID (i_core i) = runID \<and> EnclaveBackend (i_core i) = backend) s"
  have ex: "(\<exists>i\<in>set (cells s). P i) \<longleftrightarrow> (\<exists>r<length (cells s). P (cells s ! r))" for P
    by (auto simp: set_conv_nth)
  have "fst (Authorize sha now bearer runID backend repository tool s) = None \<longleftrightarrow> (\<exists>r. fst ?a = Inr r)"
    by (auto simp: Authorize_def split: prod.splits sum.splits)
  then show ?thesis
    unfolding authorize_iff[OF assms] live_def authorizes_def ex[of "\<lambda>i. authorizes sha now bearer runID backend repository i", unfolded authorizes_def]
    by (rule ssubst) iprover
qed

section \<open>Save, then load\<close>

lemma cells_distinct:
  assumes "store_ok sha s"
  shows "distinct (map scope_of (cells s))" "distinct (map Handle (cells s))"
    "distinct (map (\<lambda>i. sha (ExecutorBearer i)) (cells s))" "distinct (map ExecutorBearer (cells s))"
proof -
  have "scope_of (cells s ! r) = scope_of (cells s ! q) \<Longrightarrow> r = q" if "r < length (cells s)" "q < length (cells s)" for r q
    using maps_agreeD(3)[OF store_okD(1)[OF assms]] that by (metis option.inject)
  then show "distinct (map scope_of (cells s))" by (fastforce simp: distinct_conv_nth)
  show "distinct (map Handle (cells s))" "distinct (map (\<lambda>i. sha (ExecutorBearer i)) (cells s))"
    "distinct (map ExecutorBearer (cells s))"
    using store_okD(2)[OF assms] by (fastforce simp: distinct_conv_nth tokens_distinct_def)+
qed

lemma snapshot_cells:
  assumes "store_ok sha s"
  shows "mset (map snd (ps_Identities (snapshot_state force s))) = mset (cells s)"
proof -
  note M = maps_agreeD(3)[OF store_okD(1)[OF assms]]
  let ?m = "byInvocation s"
  have k: "distinct (keys_of ?m)" using store_okD(3)[OF assms] by (simp add: maps_clean_def)
  then have e: "(k, r) \<in> set ?m \<longleftrightarrow> r < length (cells s) \<and> scope_of (cells s ! r) = k" for k r
    using M[of k r] by (simp add: map_of_eq_Some_iff)
  have "distinct (map snd ?m)"
    using k e unfolding distinct_map by (auto simp: inj_on_def)
  moreover have "set (map snd ?m) = set [0..<length (cells s)]"
  proof (rule set_eqI)
    fix r
    have "r \<in> set (map snd ?m) \<longleftrightarrow> (\<exists>k. (k, r) \<in> set ?m)" by force
    then show "r \<in> set (map snd ?m) \<longleftrightarrow> r \<in> set [0..<length (cells s)]" by (simp add: e)
  qed
  ultimately have "mset (map snd ?m) = mset [0..<length (cells s)]"
    by (simp only: set_eq_iff_mset_eq_distinct distinct_upt)
  then have "image_mset (nth (cells s)) (mset (map snd ?m)) = image_mset (nth (cells s)) (mset [0..<length (cells s)])"
    by simp
  moreover have "map snd (ps_Identities (snapshot_state force s)) = map (nth (cells s)) (map snd ?m)"
    by (simp add: snapshot_state_def case_prod_unfold)
  ultimately show ?thesis by (metis map_nth mset_map)
qed

lemma snapshot_hashes:
  assumes "store_ok sha s"
  shows "validatePersistedSchemaHashes (snapshot_state force s) (st_envelope s) = None"
proof -
  let ?p = "snapshot_state force s"
  have S: "schemas_bounded s" "cells_admitted s" using store_okD[OF assms] by auto
  have dyn: "set (ps_DynamicSchemaHashes ?p) = set (dynamicSchemaHashes s)" by (simp add: snapshot_state_def)
  show ?thesis
  proof (cases "AllowedSchemaHashes (st_envelope s) = []")
    case False
    with S(1) have "dynamicSchemaHashes s = []" by (simp add: schemas_bounded_def)
    with False show ?thesis by (simp add: validatePersistedSchemaHashes_def persisted_hashes_def snapshot_state_def)
  next
    case True
    have "snd ` set (ps_Identities ?p) = set (cells s)"
      using mset_eq_setD[OF snapshot_cells[OF assms]] by simp
    then have "SchemaHash (i_core (snd x)) \<in> set (dynamicSchemaHashes s)" if "x \<in> set (ps_Identities ?p)" for x
      using S(2) True that by (auto simp: cells_admitted_def schema_admitted_def)
    then have "set (persisted_hashes ?p (st_envelope s)) = set (dynamicSchemaHashes s)"
      using dyn by (auto simp: persisted_hashes_def)
    then have "length (persisted_hashes ?p (st_envelope s)) = length (dynamicSchemaHashes s)"
      using S(1) by (metis distinct_card distinct_remdups persisted_hashes_def schemas_bounded_def)
    then show ?thesis
      using S(1) True dyn by (simp add: validatePersistedSchemaHashes_def schemas_bounded_def)
  qed
qed

lemma snapshot_valid:
  assumes "store_ok sha s"
  shows "valid_state (snapshot_state force s) (st_envelope s) (generation s)"
proof -
  have d: "distinct (map f (map snd (ps_Identities (snapshot_state force s)))) \<longleftrightarrow> distinct (map f (cells s))"
    for f :: "identity \<Rightarrow> string"
    by (rule mset_eq_imp_distinct_iff) (simp only: mset_map[of f] snapshot_cells[OF assms])
  have "\<forall>i\<in>set (map snd (ps_Identities (snapshot_state force s))). within_envelope (st_envelope s) (generation s) i"
    using store_okD(5)[OF assms] mset_eq_setD[OF snapshot_cells[OF assms]] by (simp only: cells_admitted_def) blast
  then show ?thesis
    unfolding valid_state_def d
    using cells_distinct[OF assms] snapshot_hashes[OF assms] by (simp add: snapshot_state_def)
qed

text \<open>The store that comes back, for a codec that returns this snapshot up to the order of its map.\<close>

lemma load_of_save:
  assumes ok: "store_ok sha s" and d: "decode body = Some ps" and same: "same_state ps (snapshot_state force s)"
    and sz: "length (sha body) = 32" "body \<noteq> []"
  obtains t where "loadStoreAt sha decode (FileContents (state_file sha body)) (Some (st_envelope s)) (generation s) now = Inr t"
    "store_ok sha t" "st_envelope t = st_envelope s" "generation t = generation s"
    "recoveryIncomplete t \<longleftrightarrow> recoveryIncomplete s \<and> \<not> force"
    "set (cells t) = restored now ` set (cells s)" "set (dynamicSchemaHashes t) = set (dynamicSchemaHashes s)"
proof -
  let ?e = "st_envelope s" and ?g = "generation s"
  let ?xs = "sort_key Handle (map snd (ps_Identities (snapshot_state force s)))"
  let ?s0 = "(empty_store ?e ?g)\<lparr>recoveryIncomplete := ps_RecoveryIncomplete ps,
      dynamicSchemaHashes := remdups (ps_DynamicSchemaHashes ps)\<rparr> :: string delegation_store"
  have v: "validatePersistedState ps ?e ?g = Inr ?xs"
  proof (rule validate_order_independent)
    show "same_state (snapshot_state force s) ps" using same by (simp add: same_state_def)
    show "validatePersistedState (snapshot_state force s) ?e ?g = Inr ?xs"
      by (simp only: validatePersistedState_Inr snapshot_valid[OF ok] simp_thms)
  qed
  have env: "envelope_Validate (Some ?e) = None" by (rule store_okD(6)[OF ok])
  have load: "loadStoreAt sha decode (FileContents (state_file sha body)) (Some ?e) ?g now =
      Inr (fold (restore_one sha now) ?xs ?s0)"
    by (simp add: loadStoreAt_def NewStore_def env parse_state_file[of sha body, OF sz] d v)
  have m: "mset ?xs = mset (cells s)" by (simp only: mset_sort snapshot_cells[OF ok])
  have dyn: "ps_DynamicSchemaHashes ps = sort (dynamicSchemaHashes s)" "ps_RecoveryIncomplete ps \<longleftrightarrow> recoveryIncomplete s \<and> \<not> force"
    using same by (simp_all add: same_state_def snapshot_state_def)
  have "store_ok sha (empty_store ?e ?g)" by (rule store_ok_empty[OF env])
  moreover have "schemas_bounded ?s0"
    using store_okD(4)[OF ok] by (simp add: schemas_bounded_def dyn empty_store_def distinct_remdups_id)
  ultimately have ok0: "store_ok sha ?s0"
    by (simp add: store_ok_def empty_store_def maps_agree_def live_def labelled_as_def tokens_distinct_def
        maps_clean_def cells_admitted_def)
  have dist: "distinct (map f ?xs) \<longleftrightarrow> distinct (map f (cells s))" for f :: "identity \<Rightarrow> string"
    by (rule mset_eq_imp_distinct_iff) (simp only: mset_map[of f] m)
  have adm: "\<forall>i\<in>set ?xs. within_envelope (st_envelope ?s0) (generation ?s0) i \<and>
      schema_admitted (st_envelope ?s0) (dynamicSchemaHashes ?s0) (SchemaHash (i_core i))"
    unfolding mset_eq_setD[OF m] using store_okD(5)[OF ok]
    by (simp add: cells_admitted_def schema_admitted_def empty_store_def dyn)
  have c0: "cells ?s0 = []" by (simp add: empty_store_def)
  note F = restore_fold[OF ok0 adm, of now, unfolded c0 append_Nil dist, OF cells_distinct(1-3)[OF ok]]
  show thesis
    using that[OF load] F mset_eq_setD[OF m] dyn by (simp add: empty_store_def)
qed

text \<open>A restart changes nothing that a client can observe through authorization.\<close>

lemma restart_authorizes_same:
  assumes ok: "store_ok sha s" and "decode body = Some ps" and "same_state ps (snapshot_state force s)"
    and "length (sha body) = 32" "body \<noteq> []" and later: "t0 \<le> now" and "\<not> recoveryIncomplete s"
    and load: "loadStoreAt sha decode (FileContents (state_file sha body)) (Some (st_envelope s)) (generation s) t0 = Inr t"
  shows "fst (Authorize sha now bearer runID backend repository tool t) = None \<longleftrightarrow>
    fst (Authorize sha now bearer runID backend repository tool s) = None"
proof -
  obtain t' where t': "loadStoreAt sha decode (FileContents (state_file sha body)) (Some (st_envelope s)) (generation s) t0 = Inr t'"
    "store_ok sha t'" "st_envelope t' = st_envelope s" "generation t' = generation s"
    "recoveryIncomplete t' \<longleftrightarrow> recoveryIncomplete s \<and> \<not> force"
    "set (cells t') = restored t0 ` set (cells s)" "set (dynamicSchemaHashes t') = set (dynamicSchemaHashes s)"
    by (rule load_of_save[where sha = sha and decode = decode and body = body, OF assms(1-5), of t0])
  then have t: "store_ok sha t" "st_envelope t = st_envelope s" "\<not> recoveryIncomplete t" "set (cells t) = restored t0 ` set (cells s)"
    using load assms(7) by auto
  have "authorizes sha now bearer runID backend repository (restored t0 i) \<longleftrightarrow>
      authorizes sha now bearer runID backend repository i" for i
    using later by (auto simp: authorizes_def)
  then show ?thesis unfolding Authorize_iff[OF ok] Authorize_iff[OF t(1)] using t assms(7) by simp
qed

text \<open>
  Reconciling opens the gate only after the file was replaced: while the file is written, no other
  goroutine can admit a new identity.
\<close>

lemma gated_create:
  assumes "store_ok sha s" and "recoveryIncomplete s"
  shows "length (cells (snd (createOrConfirmAt sha req now hx bx s))) = length (cells s) \<and>
    recoveryIncomplete (snd (createOrConfirmAt sha req now hx bx s))"
proof -
  obtain res s' where call: "createOrConfirmAt sha req now hx bx s = (res, s')" by fastforce
  have c: "length (cells (cleanupExpiredLocked sha now s)) = length (cells s)" "recoveryIncomplete (cleanupExpiredLocked sha now s)"
    using cleanup_ok(2)[OF assms(1), of now] assms(2) by (simp_all add: only_revokes_def)
  obtain b s2 where a: "admitSchemaHashLocked (SchemaHash (core req)) (cleanupExpiredLocked sha now s) = (b, s2)" by fastforce
  from assms(1) call show ?thesis
  proof (cases rule: create_cases)
    case (denied e)
    with admit_ok(3,10)[OF cleanup_ok(1)[OF assms(1)] validated_request(7)[OF denied(1)] a] call c a
    show ?thesis by auto
  qed (use call c assms(2) in auto)
qed

lemma gated_step:
  assumes ok: "store_ok sha s" and ri: "recoveryIncomplete s" and "x \<noteq> Op_Reconciled"
  shows "length (cells (store_step sha x s)) = length (cells s) \<and> recoveryIncomplete (store_step sha x s)"
proof -
  have c: "length (cells (cleanupExpiredLocked sha now s)) = length (cells s)" "recoveryIncomplete (cleanupExpiredLocked sha now s)" for now
    using cleanup_ok(2)[OF ok, of now] ri by (simp_all add: only_revokes_def)
  show ?thesis
  proof (cases x)
    case (Op_Revoke h)
    then show ?thesis using revoke_if_present_ok[OF ok] ri by (simp add: store_Revoke_present only_revokes_def)
  next
    case (Op_RevokeByLabels run entry)
    then show ?thesis using RevokeByLabels_ok(2)[OF ok, of run entry] ri by (simp add: prod_eq_iff only_revokes_def)
  qed (use assms c gated_create[OF ok ri] in simp_all)
qed

lemma gated_run:
  "store_ok sha s \<Longrightarrow> recoveryIncomplete s \<Longrightarrow> Op_Reconciled \<notin> set ops \<Longrightarrow>
     length (cells (fold (store_step sha) ops s)) = length (cells s) \<and>
     recoveryIncomplete (fold (store_step sha) ops s)"
proof (induction ops arbitrary: s)
  case (Cons x ops)
  have g: "length (cells (store_step sha x s)) = length (cells s)" "recoveryIncomplete (store_step sha x s)"
    using gated_step[OF Cons.prems(1,2), of x] Cons.prems(3) by auto
  from Cons.IH[OF history.step_ok[OF Cons.prems(1)] g(2)] g(1) Cons.prems(3) show ?case by simp
qed simp

end
