(* ===== verification/DelegationProperties.thy ===== *)
theory DelegationProperties imports DelegationRestart begin

text \<open>
  The properties of the delegation controller, over every history of its operations and across a
  restart.
\<close>

section \<open>Example values\<close>

definition demo_envelope :: envelope where
  "demo_envelope =
     \<lparr>e_RunID = ''run'', e_EnclaveBackend = ''github'', AllowedRepositories = [''octo/repo''], AllowedOwners = [],
      e_ToolPolicy = ToolPolicyGitHubRepositoryReadV1, AllowedSchemaHashes = [], MaxDynamicSchemaHashes = 2,
      MaxIdentityTTL = 60 * second, e_ExpiresAt = 1000 * second\<rparr>"

definition demo_request :: create_request where
  "demo_request =
     \<lparr>core = \<lparr>RunID = ''run'', EnclaveBackend = ''github'', EnclaveEntryID = ''entry'', InvocationID = ''inv'',
        Repository = ''octo/repo'', ToolPolicy = ToolPolicyGitHubRepositoryReadV1, SchemaHash = ''h'',
        AdmittedDefaultBranchSHA = []\<rparr>,
      RequestedTTL = 30 * second, InvocationExpiresAt = 0, IdempotencyKey = ''key''\<rparr>"

definition demo_store :: "string delegation_store" where
  "demo_store = empty_store demo_envelope 7"

definition demo_live :: "string delegation_store" where
  "demo_live = snd (createOrConfirmAt id demo_request second (Some ''aa'') (Some ''bb'') demo_store)"

lemma demo_ok: "store_ok sha demo_store" "NewStore (Some demo_envelope) 7 = Inr demo_store"
proof -
  have "envelope_Validate (Some demo_envelope) = None" by code_simp
  then show "NewStore (Some demo_envelope) 7 = Inr demo_store" by (simp add: NewStore_def demo_store_def)
  then show "store_ok sha demo_store" by (rule NewStore_ok)
qed

lemma demo_created:
  "\<exists>res. createOrConfirmAt id demo_request second (Some ''aa'') (Some ''bb'') demo_store = (Inr res, demo_live)"
proof -
  have "(case fst (createOrConfirmAt id demo_request second (Some ''aa'') (Some ''bb'') demo_store) of
      Inl _ \<Rightarrow> False | Inr _ \<Rightarrow> True)" by code_simp
  then show ?thesis
    unfolding demo_live_def
    by (cases "createOrConfirmAt id demo_request second (Some ''aa'') (Some ''bb'') demo_store") (auto split: sum.splits)
qed

lemma demo_new: "new_tokens id demo_store (Some ''aa'') (Some ''bb'')"
  by (simp add: new_tokens_def fresh_tokens_def demo_store_def empty_store_def)

lemma demo_live_ok: "store_ok id demo_live"
  using create_ok[OF demo_ok(1) demo_new] demo_created by blast

section \<open>The store over its whole life\<close>



text \<open>Over every history, a request is authorized exactly when the store is reconciled, the envelope has not
  expired, the tool is delegated, and some minted identity that was not revoked and has not
  expired carries the presented bearer and was bound to this run, backend and repository.\<close>

lemma authorize_exact:
  assumes "NewStore (Some e) gen = Inr s0" and "t = fold (store_step sha) ops s0"
  shows "fst (Authorize sha now bearer runID backend repository tool t) = None \<longleftrightarrow>
    \<not> recoveryIncomplete t \<and> now < e_ExpiresAt e \<and> IsDelegatedTool tool \<and>
    (\<exists>i\<in>set (cells t). \<not> Revoked i \<and> now < i_ExpiresAt i \<and> sha (ExecutorBearer i) = sha (strip_bearer bearer) \<and>
       RunID (i_core i) = runID \<and> EnclaveBackend (i_core i) = backend \<and> Repository (i_core i) = repository)"
proof -
  have ok0: "store_ok sha s0" by (rule NewStore_ok[OF assms(1)])
  have "st_envelope t = e"
    using run_evolves[OF ok0, of ops] assms by (auto simp: evolves_def NewStore_def empty_store_def split: option.splits)
  moreover have "store_ok sha t" unfolding assms(2) by (rule history.run_ok[OF ok0])
  ultimately show ?thesis by (simp add: Authorize_iff authorizes_def)
qed

lemma authorize_exact_example:
  "fst (Authorize id (2 * second) ''Bearer wrong'' ''run'' ''github'' ''octo/repo'' ''get_file_contents'' demo_store) \<noteq> None"
  using authorize_exact[OF demo_ok(2), of demo_store id "[]" "2 * second" "''Bearer wrong''" "''run''" "''github''" "''octo/repo''" "''get_file_contents''"]
  by (simp add: demo_store_def empty_store_def)

text \<open>C32: Revocation is final: once an identity object is revoked, no history of further operations, of
  confirmations, creations and reconciliations included, makes it authorize again.\<close>

theorem revoked_is_final:
  assumes "NewStore eo gen = Inr s0" and "s = fold (store_step sha) before s0"
    and "r < length (cells s)" and "Revoked (cells s ! r)"
  shows "fst (store_authorize sha now bearer repository tool P (fold (store_step sha) after s)) \<noteq> Inr r"
  using revoked_never_authorizes[OF history.run_ok[OF NewStore_ok[OF assms(1)]]] assms(2-4) by blast

lemma revoked_is_final_witness:
  "fst (store_authorize id (2 * second) ''dlgbearer_bb'' ''octo/repo'' ''get_file_contents'' (\<lambda>i. True)
     (fold (store_step id) [Op_Create demo_request second (Some ''cc'') (Some ''dd'')]
       (fold (store_step id) [Op_Create demo_request second (Some ''aa'') (Some ''bb''), Op_Revoke ''dlg_aa''] demo_store))) \<noteq> Inr 0"
proof (rule revoked_is_final[OF demo_ok(2) refl])
  let ?s = "fold (store_step id) [Op_Create demo_request second (Some ''aa'') (Some ''bb''), Op_Revoke ''dlg_aa''] demo_store"
  have s: "?s = store_Revoke id ''dlg_aa'' demo_live" by (simp add: demo_new demo_live_def)
  have "0 < length (cells (store_Revoke id ''dlg_aa'' demo_live)) \<and> Revoked (cells (store_Revoke id ''dlg_aa'' demo_live) ! 0)"
    by code_simp
  then show "0 < length (cells ?s)" "Revoked (cells ?s ! 0)" unfolding s by blast+
qed

text \<open>Create-or-confirm is idempotent: after a request got an identity, repeating it at any later time,
  with other operations in between, either fails or returns the very same identity and bearer.\<close>

lemma confirm_is_idempotent:
  assumes "store_ok sha s" and "createOrConfirmAt sha req now hx bx s = (Inr res, s1)" and "new_tokens sha s hx bx"
    and "createOrConfirmAt sha req now' hx' bx' (fold (store_step sha) ops s1) = (Inr res', s2)"
  shows "res' = res"
  by (rule confirm_same_identity[OF assms])

lemma confirm_is_idempotent_example:
  "\<exists>res s2. createOrConfirmAt id demo_request (2 * second) (Some ''cc'') (Some ''dd'') demo_live = (Inr res, s2) \<and>
     createOrConfirmAt id demo_request second (Some ''aa'') (Some ''bb'') demo_store = (Inr res, demo_live)"
proof -
  obtain res where one: "createOrConfirmAt id demo_request second (Some ''aa'') (Some ''bb'') demo_store = (Inr res, demo_live)"
    using demo_created by blast
  have "(case fst (createOrConfirmAt id demo_request (2 * second) (Some ''cc'') (Some ''dd'') demo_live) of
      Inl _ \<Rightarrow> False | Inr _ \<Rightarrow> True)" by code_simp
  then obtain res' s2 where two: "createOrConfirmAt id demo_request (2 * second) (Some ''cc'') (Some ''dd'') demo_live = (Inr res', s2)"
    by (cases "createOrConfirmAt id demo_request (2 * second) (Some ''cc'') (Some ''dd'') demo_live") (auto split: sum.splits)
  from confirm_is_idempotent[OF demo_ok(1) one demo_new, of "2 * second" "Some ''cc''" "Some ''dd''" "[]" res' s2] two one
  show ?thesis by auto
qed

text \<open>Revoking by the labels of the store's run is exact: afterwards precisely the identities of that run entry are not live, and
  every other identity is as live as before.\<close>

lemma revoke_by_labels_exact:
  assumes "store_ok sha s" and "RevokeByLabels sha runID entryID s = (n, t)" and "runID = e_RunID (st_envelope s)"
  shows "live t r \<longleftrightarrow> live s r \<and> EnclaveEntryID (i_core (cells s ! r)) \<noteq> entryID"
  using RevokeByLabels_ok(3)[OF assms(1,2), of r] live_within(2)[OF assms(1), of r] assms(3) by (auto simp: label_of_def)

lemma revoke_by_labels_exact_example:
  "\<not> live (snd (RevokeByLabels id ''run'' ''entry'' demo_live)) 0"
proof -
  have "EnclaveEntryID (i_core (cells demo_live ! 0)) = ''entry''" by code_simp
  moreover have "''run'' = e_RunID (st_envelope demo_live)" by code_simp
  ultimately show ?thesis
    using revoke_by_labels_exact[OF demo_live_ok prod.collapse[symmetric], of "''run''" "''entry''" 0] by simp
qed

section \<open>Recovery\<close>

text \<open>C34: A restart is invisible to clients: for a codec that gives the persisted state back (in any order of
  the identities), the store loaded from the saved file authorizes exactly the requests the
  saved store authorizes, from the time of the load on.\<close>

theorem restart_is_invisible:
  assumes "store_ok sha s" and "decode body = Some ps" and "same_state ps (snapshot_state force s)"
    and "length (sha body) = 32" and "body \<noteq> []" and "t0 \<le> now" and "\<not> recoveryIncomplete s"
    and "loadStoreAt sha decode (FileContents (state_file sha body)) (Some (st_envelope s)) (generation s) t0 = Inr t"
  shows "fst (Authorize sha now bearer runID backend repository tool t) = None \<longleftrightarrow>
    fst (Authorize sha now bearer runID backend repository tool s) = None"
  by (rule restart_authorizes_same[OF assms])

lemma restart_is_invisible_witness:
  "\<exists>t. loadStoreAt (\<lambda>b. replicate 32 CHR ''x'') (\<lambda>b. Some (snapshot_state False demo_store))
        (FileContents (state_file (\<lambda>b. replicate 32 CHR ''x'') ''json'')) (Some demo_envelope) 7 second = Inr t \<and>
     fst (Authorize (\<lambda>b. replicate 32 CHR ''x'') (2 * second) ''tok'' ''run'' ''github'' ''octo/repo'' ''get_file_contents'' t) \<noteq> None"
proof -
  let ?sha = "\<lambda>b :: string. replicate 32 CHR ''x''" and ?d = "\<lambda>b :: string. Some (snapshot_state False demo_store)"
  have same: "same_state (snapshot_state False demo_store) (snapshot_state False demo_store)" by (simp add: same_state_def)
  obtain t where t: "loadStoreAt ?sha ?d (FileContents (state_file ?sha ''json'')) (Some (st_envelope demo_store)) (generation demo_store) second = Inr t"
    by (rule load_of_save[where sha = ?sha and decode = ?d and body = "''json''" and s = demo_store and force = False and now = second])
      (use demo_ok(1) same in simp_all)
  have "fst (Authorize ?sha (2 * second) ''tok'' ''run'' ''github'' ''octo/repo'' ''get_file_contents'' demo_store) \<noteq> None"
    by code_simp
  moreover have "\<not> recoveryIncomplete demo_store" by code_simp
  ultimately have "fst (Authorize ?sha (2 * second) ''tok'' ''run'' ''github'' ''octo/repo'' ''get_file_contents'' t) \<noteq> None"
    using restart_is_invisible[where sha = ?sha and decode = ?d and body = "''json''", OF demo_ok(1) refl same _ _ _ _ t] by (simp add: second_def)
  with t show ?thesis by (auto simp: demo_store_def empty_store_def)
qed

text \<open>C35: Recovery is all or nothing: whatever bytes the state file holds, the loaded store either contains
  every identity of a file whose checksum, version, generation and envelope checks passed, or it is
  empty and refuses every authorization and every new identity until it is reconciled.\<close>

theorem recovery_all_or_nothing:
  assumes "loadStoreAt sha decode (FileContents raw) (Some e) gen now = Inr t"
  shows "(\<exists>ps. parsePersistedState sha decode raw = Some ps \<and> valid_state ps e gen \<and>
      mset (map Handle (cells t)) = mset (map (\<lambda>(k, i). Handle i) (ps_Identities ps))) \<or>
    (cells t = [] \<and> (\<forall>now b repo tool P. fst (store_authorize sha now b repo tool P t) = Inl AuthRecoveryIncomplete) \<and>
     (\<forall>req now hx bx. \<exists>err. fst (createOrConfirmAt sha req now hx bx t) = Inl err))"
  using assms
proof (cases rule: load_outcome)
  case discarded
  have "envelope_Validate (Some e) = None" using assms by (auto simp: loadStoreAt_def NewStore_def split: option.splits)
  from recovery_flag_ok[OF store_ok_empty[OF this], where b = True] discarded have "store_ok sha t" by fastforce
  then have r: "store_ok sha t \<and> recoveryIncomplete t \<and> cells t = []" by (simp add: discarded empty_store_def)
  have "\<exists>err. fst (createOrConfirmAt sha req now hx bx t) = Inl err" for req now hx bx
  proof -
    obtain res t' where c: "createOrConfirmAt sha req now hx bx t = (res, t')" by fastforce
    have l: "length (cells t') = 0" using gated_create[of sha t req now hx bx] r c by simp
    show ?thesis
    proof (cases res)
      case (Inr x)
      with create_result[of sha t req now hx bx x t'] r c l show ?thesis by fastforce
    qed (use c in simp)
  qed
  with r show ?thesis using failed_store_denies[of sha] by (simp add: discarded)
next
  case (everything ps)
  have "cells (fold (restore_one sha now) xs u) = cells u @ map (restored now) xs" for xs u
    by (induction xs arbitrary: u) simp_all
  then have "map Handle (cells t) = map Handle (sort_key Handle (map snd (ps_Identities ps)))"
    by (simp add: everything(3) empty_store_def)
  then have "mset (map Handle (cells t)) = image_mset Handle (mset (map snd (ps_Identities ps)))" by (simp only: mset_map mset_sort)
  then have "mset (map Handle (cells t)) = mset (map (\<lambda>(k, i). Handle i) (ps_Identities ps))"
    by (simp add: case_prod_unfold image_mset.compositionality comp_def)
  with everything(1,2) show ?thesis by blast
qed

lemma recovery_all_or_nothing_witness:
  "\<exists>t. loadStoreAt id (\<lambda>b. None) (FileContents ''truncated'') (Some demo_envelope) 7 second = Inr t \<and> cells t = []"
proof -
  have p: "parsePersistedState id (\<lambda>b. None) ''truncated'' = None" by code_simp
  then have "loadStoreAt id (\<lambda>b. None) (FileContents ''truncated'') (Some demo_envelope) 7 second = Inr (demo_store\<lparr>recoveryIncomplete := True\<rparr>)"
    by (simp add: loadStoreAt_def demo_ok failedRecoveryStore_def)
  from recovery_all_or_nothing[OF this] this p show ?thesis by auto
qed

text \<open>Reconciling is atomic: if the state cannot be written the store stays closed to new identities, and
  whatever the other goroutines do while the file is being written, none of them gets a new
  identity before the reconciled state is on disk.\<close>

lemma reconcile_gate:
  assumes "store_ok sha s" and "recoveryIncomplete s" and "Op_Reconciled \<notin> set during"
    and "MarkReconciledAndSaveState sha encode write_ok during s file = (err, s', file')"
  shows "length (cells s') = length (cells s) \<and> (recoveryIncomplete s' \<longleftrightarrow> err \<noteq> None) \<and> (err \<noteq> None \<longrightarrow> file' = file)"
proof -
  note g = gated_run[OF assms(1-3)]
  show ?thesis
    using assms(4) g
    by (auto simp: MarkReconciledAndSaveState_def saveStateLocked_def markReconciled_def split: option.splits prod.splits if_splits)
qed

lemma reconcile_gate_example:
  "length (cells (fst (snd (MarkReconciledAndSaveState id (\<lambda>p. Some ''json'') True
     [Op_Create demo_request second (Some ''aa'') (Some ''bb'')] (demo_store\<lparr>recoveryIncomplete := True\<rparr>) None)))) = 0"
proof -
  let ?s = "demo_store\<lparr>recoveryIncomplete := True\<rparr>"
  have "store_ok id ?s" by (rule recovery_flag_ok[OF demo_ok(1)])
  moreover have "length (cells ?s) = 0" by (simp add: demo_store_def empty_store_def)
  ultimately show ?thesis
    using reconcile_gate[of id ?s "[Op_Create demo_request second (Some ''aa'') (Some ''bb'')]" "\<lambda>p. Some ''json''" True None]
    by (cases "MarkReconciledAndSaveState id (\<lambda>p. Some ''json'') True
     [Op_Create demo_request second (Some ''aa'') (Some ''bb'')] ?s None") simp
qed

section \<open>The wire and the scope key\<close>

text \<open>A TTL that arrives on the wire in seconds is either rejected or converted without overflow to a positive
  duration that a 64-bit nanosecond count can hold.\<close>

lemma wire_ttl_no_overflow:
  "case durationFromWireSeconds n of
     Inl _ \<Rightarrow> n \<le> 0 \<or> n * second > max_duration - second
   | Inr d \<Rightarrow> d = n * second \<and> 0 < d \<and> d \<le> max_duration"
proof (cases "durationFromWireSeconds n")
  case (Inr d)
  with durationFromWireSeconds_Inr[OF Inr] show ?thesis by simp
next
  case (Inl err)
  then have "n \<le> 0 \<or> n > MaxInt64 div second" by (auto simp: durationFromWireSeconds_def split: if_splits)
  then have "n \<le> 0 \<or> n * second > max_duration - second" by (auto simp: MaxInt64_def second_def max_duration_def)
  with Inl show ?thesis by simp
qed

text \<open>C36: The invocation scope key separates invocations only when identifiers contain no NUL: two different
  (entry, invocation) pairs with a NUL in them share one key, and then the second creation is
  refused and revokes the first caller's identity.\<close>

theorem scope_key_collision_revokes:
  assumes "store_ok sha s" and "createOrConfirmAt sha req1 now hx bx s = (Inr res1, s1)" and "new_tokens sha s hx bx"
    and "EnclaveEntryID (core req1) = e @ NUL @ x" and "InvocationID (core req1) = i"
    and "EnclaveEntryID (core req2) = e" and "InvocationID (core req2) = x @ NUL @ i" and "RunID (core req2) = RunID (core req1)"
    and "validateAgainstEnvelope (st_envelope s1) req2 now2 = None"
  shows "\<exists>s2. createOrConfirmAt sha req2 now2 hx2 bx2 s1 = (Inl BoundToDifferentIdentity, s2) \<and>
    (\<forall>r. live s2 r \<longrightarrow> scope_of (cells s2 ! r) \<noteq> request_scope req1)"
proof -
  have ok1: "store_ok sha s1" by (rule create_ok[OF assms(1,3,2)])
  obtain q where q: "q < length (cells s1)" "live s1 q" "scope_of (cells s1 ! q) = request_scope req1"
    "bindingEquals (cells s1 ! q) req1" "toResult (cells s1 ! q) = res1"
    by (rule create_result[OF assms(1,2)])
  have key: "request_scope req2 = request_scope req1"
    using invocationScopeKey_collision[of "RunID (core req1)" e x i] by (simp add: request_scope_def assms(4-8))
  let ?c = "cleanupExpiredLocked sha now2 s1"
  have c: "store_ok sha ?c" "evolves s1 ?c"
    using cleanup_ok(1,2)[OF ok1] only_revokes_evolves by blast+
  then have qc: "q < length (cells ?c)" "scope_of (cells ?c ! q) = request_scope req2" "bindingEquals (cells ?c ! q) req1"
    using q key by (auto simp: evolves_def)
  then have m: "map_of (byInvocation ?c) (request_scope req2) = Some q"
    using maps_agreeD(3)[OF store_okD(1)[OF c(1)]] by blast
  have "b_core (i_binding (cells ?c ! q)) \<noteq> core req2"
    using qc(3) assms(4,6) by (auto simp: bindingEquals_def bindingFromRequest_def NUL_def)
  then have d: "\<not> bindingEquals (cells ?c ! q) req2" by (auto simp: bindingEquals_def bindingFromRequest_def)
  obtain res s2 where call: "createOrConfirmAt sha req2 now2 hx2 bx2 s1 = (res, s2)" by fastforce
  from ok1 call have "res = Inl BoundToDifferentIdentity \<and> s2 = revokeLocked sha q ?c"
    by (cases rule: create_cases) (use m d assms(9) in auto)
  moreover have "live (revokeLocked sha q ?c) r \<Longrightarrow> scope_of (cells (revokeLocked sha q ?c) ! r) \<noteq> request_scope req1" for r
  proof
    assume l: "live (revokeLocked sha q ?c) r" and sc: "scope_of (cells (revokeLocked sha q ?c) ! r) = request_scope req1"
    from l qc(1) have r: "live ?c r" "r \<noteq> q" by (auto simp: revoke_live)
    then have len: "r < length (cells ?c)" by (simp add: live_def)
    with sc revoke_token_fields(3)[OF len, of sha q] key have "scope_of (cells ?c ! r) = request_scope req2" by simp
    with len m maps_agreeD(3)[OF store_okD(1)[OF c(1)], of "request_scope req2" r] r(2) show False by simp
  qed
  ultimately show ?thesis using call by blast
qed

definition nul_request :: "string \<Rightarrow> string \<Rightarrow> create_request" where
  "nul_request entry invocation = demo_request\<lparr>core := (core demo_request)\<lparr>EnclaveEntryID := entry, InvocationID := invocation\<rparr>\<rparr>"

lemma scope_key_collision_revokes_witness:
  "\<exists>s2. createOrConfirmAt id (nul_request ''e'' (''x'' @ NUL @ ''i'')) second (Some ''cc'') (Some ''dd'')
      (snd (createOrConfirmAt id (nul_request (''e'' @ NUL @ ''x'') ''i'') second (Some ''aa'') (Some ''bb'') demo_store)) =
    (Inl BoundToDifferentIdentity, s2)"
proof -
  let ?r1 = "nul_request (''e'' @ NUL @ ''x'') ''i''" and ?r2 = "nul_request ''e'' (''x'' @ NUL @ ''i'')"
  let ?call = "createOrConfirmAt id ?r1 second (Some ''aa'') (Some ''bb'') demo_store"
  have "(case fst ?call of Inl _ \<Rightarrow> False | Inr _ \<Rightarrow> True)" by code_simp
  then obtain res1 where call: "?call = (Inr res1, snd ?call)" by (cases ?call) (auto split: sum.splits)
  have "validateAgainstEnvelope (st_envelope (snd ?call)) ?r2 second = None" by code_simp
  from scope_key_collision_revokes[OF demo_ok(1) call demo_new _ _ _ _ _ this, of "''e''" "''x''" "''i''" "Some ''cc''" "Some ''dd''"]
  show ?thesis by (auto simp: nul_request_def)
qed

end
