(* ===== verification/GuardPolicy.thy ===== *)
theory GuardPolicy imports Guards RepoSelector "HOL-Library.Multiset" begin

text \<open>
  \<open>internal/config\<close>: guard policies. \<open>guard_policy.go\<close> decodes them, \<open>guard_policy_validation.go\<close>
  validates and normalizes them, \<open>guard_policy_parse.go\<close> finds the policy of a server and builds
  one from flags or the environment. Decoding works on JSON values: \<open>encoding/json\<close> turns the text
  into a value and is not modelled. The functions that fold case over all of Unicode
  (\<open>strings.ToLower\<close>, \<open>strings.ToUpper\<close>) where the folded text is a key or is kept are arguments.
\<close>

datatype policy_error =
    MissingPolicyKey
  | NilWriteSinkPolicy
  | AcceptEmpty
  | BadSinkVisibility string
  | EmptyStringField string
  | AcceptWildcardNotAlone
  | BadAcceptVisibility string
  | BadAcceptScope string
  | AcceptDuplicates
  | AllowOnlyMissing
  | BadIntegrity string
  | NegativeLimit string
  | ReposStringInvalid
  | ReposShapeInvalid
  | ReposArrayEmpty
  | ReposValueNotString
  | ReposAllCombined
  | ReposScopeInvalid string
  | ReposDuplicates
  | UnsupportedField string
  | BothPolicies
  | NotAnObject
  | BadField string
  | MissingRepos
  | LegacyWithoutIntegrity
  | ServerPolicyNotObject string
  | ScopeRepoWithoutOwner
  | ScopeNotUnique
  | InvalidPolicyText

section \<open>Integrity levels\<close>

definition allIntegrityLevels :: "string list" where
  "allIntegrityLevels = [''none'', ''unapproved'', ''approved'', ''merged'']"

definition AllIntegrityLevels :: "string list" where
  "AllIntegrityLevels = allIntegrityLevels"

definition NormalizeIntegrityLevel :: "string \<Rightarrow> bool \<Rightarrow> string option" where
  "NormalizeIntegrityLevel raw optional =
     (let normalized = NormalizeStringCI raw
      in if normalized = [] \<and> optional then Some []
         else if normalized \<notin> set allIntegrityLevels then None
         else Some normalized)"

definition ValidateAndNormalizeIntegrityField :: "string \<Rightarrow> string \<Rightarrow> bool \<Rightarrow> policy_error + string" where
  "ValidateAndNormalizeIntegrityField fieldPath raw optional =
     (case NormalizeIntegrityLevel raw optional of
        None \<Rightarrow> Inl (BadIntegrity fieldPath)
      | Some v \<Rightarrow> Inr v)"

text \<open>\<open>RequiredStringField\<close> and \<open>NonEmptyString\<close> of \<open>validation_rules.go\<close>.\<close>

definition RequiredStringField :: "string \<Rightarrow> string \<Rightarrow> policy_error option" where
  "RequiredStringField v fieldName = (if v = [] then Some (EmptyStringField fieldName) else None)"

definition NonEmptyString :: "string \<Rightarrow> string \<Rightarrow> policy_error option" where
  "NonEmptyString v fieldName = RequiredStringField v fieldName"

section \<open>Policies\<close>

text \<open>
  \<open>Repos\<close> is an \<open>interface{}\<close>: a decoded value, whose arrays are \<open>[]interface{}\<close>, or the
  \<open>[]string\<close> that the program builds itself. The nil interface is \<open>JNull\<close>.
\<close>

datatype repos_value = ReposJSON json | ReposStrings "string list"

record allow_only_policy =
  Repos :: repos_value
  MinIntegrity :: string
  ToolCallLimits :: "(string \<times> int) list"
  BlockedUsers :: "string list"
  RefusalLabels :: "string list"
  ApprovalLabels :: "string list"
  TrustedUsers :: "string list"
  EndorsementReactions :: "string list"
  DisapprovalReactions :: "string list"
  DisapprovalIntegrity :: string
  EndorserMinIntegrity :: string
  PromotionLabel :: string
  DemotionLabel :: string

definition zero_allow_only :: allow_only_policy where
  "zero_allow_only =
     \<lparr>Repos = ReposJSON JNull, MinIntegrity = [], ToolCallLimits = [], BlockedUsers = [],
      RefusalLabels = [], ApprovalLabels = [], TrustedUsers = [], EndorsementReactions = [],
      DisapprovalReactions = [], DisapprovalIntegrity = [], EndorserMinIntegrity = [],
      PromotionLabel = [], DemotionLabel = []\<rparr>"

record write_sink_policy =
  Accept :: "string list"
  SinkVisibility :: string

record guard_policy =
  AllowOnly :: "allow_only_policy option"
  WriteSink :: "write_sink_policy option"

record normalized_guard_policy =
  ScopeKind :: string
  ScopeValues :: "string list"
  n_MinIntegrity :: string
  n_ToolCallLimits :: "(string \<times> int) list"
  n_BlockedUsers :: "string list"
  n_RefusalLabels :: "string list"
  n_ApprovalLabels :: "string list"
  n_TrustedUsers :: "string list"
  n_EndorsementReactions :: "string list"
  n_DisapprovalReactions :: "string list"
  n_DisapprovalIntegrity :: string
  n_EndorserMinIntegrity :: string
  n_PromotionLabel :: string
  n_DemotionLabel :: string

definition IsWriteSinkPolicy :: "guard_policy option \<Rightarrow> bool" where
  "IsWriteSinkPolicy p = (case p of None \<Rightarrow> False | Some q \<Rightarrow> WriteSink q \<noteq> None)"

section \<open>Repository scopes\<close>

definition isValidRepoOwner :: "string \<Rightarrow> bool" where
  "isValidRepoOwner owner = IsLegacyOwner owner"

definition isValidRepoName :: "string \<Rightarrow> bool" where
  "isValidRepoName repo = IsCanonicalRepoName repo"

definition isValidRepoScope :: "string \<Rightarrow> bool" where
  "isValidRepoScope scope =
     (case split_on CHR ''/'' scope of
        [owner, repoPart] \<Rightarrow>
          (if \<not> isValidRepoOwner owner then False
           else if repoPart = ''*'' then True
           else if count_list repoPart CHR ''*'' > 1 then False
           else
             (let isPrefixWildcard = suffix ''*'' repoPart
              in if CHR ''*'' \<in> set repoPart \<and> \<not> isPrefixWildcard then False
                 else
                   (let repoName = (if isPrefixWildcard then trim_suffix ''*'' repoPart else repoPart)
                    in if isPrefixWildcard \<and> repoName = [] then False
                       else if \<not> isValidRepoName repoName then False
                       else if isPrefixWildcard \<and> suffix ''.'' repoName then False
                       else True)))
      | _ \<Rightarrow> False)"

text \<open>The two closures that the array validation passes to \<open>ValidateUnique\<close>, on the asserted string.\<close>

definition scope_key :: "json \<Rightarrow> string" where
  "scope_key v = (case v of JStr s \<Rightarrow> lowercaseASCII (trim_space s) | _ \<Rightarrow> [])"

definition validate_scope :: "json \<Rightarrow> policy_error option" where
  "validate_scope v =
     (case v of
        JStr s \<Rightarrow>
          (let scopeString = lowercaseASCII (trim_space s)
           in case NonEmptyString scopeString ''repos'' of
                Some e \<Rightarrow> Some e
              | None \<Rightarrow>
                  (if scopeString = ''all'' then Some ReposAllCombined
                   else if scopeString \<noteq> ''public'' \<and> \<not> isValidRepoScope scopeString
                     then Some (ReposScopeInvalid scopeString)
                   else None))
      | _ \<Rightarrow> Some ReposValueNotString)"

definition normalizeAndValidateScopeArray :: "json list \<Rightarrow> policy_error + string list" where
  "normalizeAndValidateScopeArray scopes =
     (if scopes = [] then Inl ReposArrayEmpty
      else
        (case ValidateUnique scopes validate_scope scope_key (\<lambda>v. ReposDuplicates) of
           Some e \<Rightarrow> Inl e
         | None \<Rightarrow> Inr (sort (map scope_key scopes))))"

definition IsValidAllowOnlyReposValue :: "repos_value \<Rightarrow> bool" where
  "IsValidAllowOnlyReposValue repos =
     (case repos of
        ReposJSON (JStr s) \<Rightarrow>
          (let trimmed = NormalizeStringCI s in trimmed = ''all'' \<or> trimmed = ''public'')
      | ReposJSON (JArr xs) \<Rightarrow>
          (case normalizeAndValidateScopeArray xs of Inl _ \<Rightarrow> False | Inr _ \<Rightarrow> True)
      | _ \<Rightarrow> False)"

definition NormalizeAllowOnlyReposValue :: "repos_value \<Rightarrow> policy_error + repos_value" where
  "NormalizeAllowOnlyReposValue repos =
     (case repos of
        ReposJSON (JStr s) \<Rightarrow>
          (let normalized = NormalizeStringCI s
           in if normalized \<noteq> ''all'' \<and> normalized \<noteq> ''public'' then Inl ReposStringInvalid
              else Inr (ReposJSON (JStr normalized)))
      | ReposJSON (JArr xs) \<Rightarrow> map_sum id ReposStrings (normalizeAndValidateScopeArray xs)
      | ReposStrings ss \<Rightarrow> map_sum id ReposStrings (normalizeAndValidateScopeArray (map JStr ss))
      | _ \<Rightarrow> Inl ReposShapeInvalid)"

definition NormalizeStaticAllowOnlyPolicy :: "guard_policy option \<Rightarrow> policy_error + guard_policy option" where
  "NormalizeStaticAllowOnlyPolicy policy =
     (case policy of
        None \<Rightarrow> Inr None
      | Some p \<Rightarrow>
          (case AllowOnly p of
             None \<Rightarrow> Inr (Some p)
           | Some a \<Rightarrow>
               (case NormalizeAllowOnlyReposValue (Repos a) of
                  Inl e \<Rightarrow> Inl e
                | Inr repos \<Rightarrow> Inr (Some (p\<lparr>AllowOnly := Some (a\<lparr>Repos := repos\<rparr>)\<rparr>)))))"

section \<open>The allow-only fields\<close>

text \<open>\<open>limits\<close> is the Go map in the iteration order of this call.\<close>

fun limits_loop :: "(string \<times> int) list \<Rightarrow> (string \<times> int) list \<Rightarrow> policy_error + (string \<times> int) list" where
  "limits_loop [] out = Inr out"
| "limits_loop ((k, limit) # limits) out =
     (let toolName = trim_space k
      in case NonEmptyString toolName ''tool-call-limits key'' of
           Some e \<Rightarrow> Inl e
         | None \<Rightarrow>
             (if limit < 0 then Inl (NegativeLimit toolName)
              else limits_loop limits (AList.update toolName limit out)))"

definition normalizeToolCallLimits :: "(string \<times> int) list \<Rightarrow> policy_error + (string \<times> int) list" where
  "normalizeToolCallLimits input = (if input = [] then Inr [] else limits_loop input [])"

fun slice_loop ::
  "string \<Rightarrow> (string \<Rightarrow> string) \<Rightarrow> bool \<Rightarrow> string list \<Rightarrow> string list \<Rightarrow> string list \<Rightarrow> policy_error + string list" where
  "slice_loop field caseNorm storeNorm seen out [] = Inr out"
| "slice_loop field caseNorm storeNorm seen out (v0 # vs) =
     (let v = trim_space v0
      in case NonEmptyString v field of
           Some e \<Rightarrow> Inl e
         | None \<Rightarrow>
             (let key = caseNorm v
              in if key \<in> set seen then slice_loop field caseNorm storeNorm seen out vs
                 else slice_loop field caseNorm storeNorm (key # seen) (out @ [if storeNorm then key else v]) vs))"

definition normalizeStringSlice ::
  "string \<Rightarrow> string list \<Rightarrow> (string \<Rightarrow> string) \<Rightarrow> bool \<Rightarrow> policy_error + string list" where
  "normalizeStringSlice field input caseNorm storeNorm =
     (if input = [] then Inr [] else slice_loop field caseNorm storeNorm [] [] input)"

text \<open>Sequencing of calls that return a value and an error.\<close>

definition and_then :: "'e + 'a \<Rightarrow> ('a \<Rightarrow> 'e + 'b) \<Rightarrow> 'e + 'b" where
  "and_then m f = (case m of Inl e \<Rightarrow> Inl e | Inr x \<Rightarrow> f x)"

lemma and_then_simps [simp]: "and_then (Inl e) f = Inl e" "and_then (Inr x) f = f x"
  by (simp_all add: and_then_def)

lemma and_then_Inr_iff: "and_then m f = Inr y \<longleftrightarrow> (\<exists>x. m = Inr x \<and> f x = Inr y)"
  by (cases m) auto

text \<open>The tail of \<open>NormalizeGuardPolicy\<close>: the switch on the type of \<open>repos\<close>.\<close>

definition normalize_scope :: "repos_value \<Rightarrow> policy_error + string \<times> string list" where
  "normalize_scope repos =
     (case repos of
        ReposJSON (JStr scope) \<Rightarrow>
          (let scopeValue = NormalizeStringCI scope
           in if scopeValue \<noteq> ''all'' \<and> scopeValue \<noteq> ''public'' then Inl ReposStringInvalid
              else Inr (scopeValue, []))
      | ReposJSON (JArr xs) \<Rightarrow> map_sum id (\<lambda>s. (''scoped'', s)) (normalizeAndValidateScopeArray xs)
      | ReposStrings ss \<Rightarrow> map_sum id (\<lambda>s. (''scoped'', s)) (normalizeAndValidateScopeArray (map JStr ss))
      | _ \<Rightarrow> Inl ReposShapeInvalid)"

record unicode_case =
  ToLower :: "string \<Rightarrow> string"
  ToUpper :: "string \<Rightarrow> string"

definition normalize_allow_only :: "unicode_case \<Rightarrow> allow_only_policy \<Rightarrow> policy_error + normalized_guard_policy" where
  "normalize_allow_only uc a =
     and_then (ValidateAndNormalizeIntegrityField ''allow-only.min-integrity'' (MinIntegrity a) False) (\<lambda>mi.
     and_then (normalizeToolCallLimits (ToolCallLimits a)) (\<lambda>limits.
     and_then (normalizeStringSlice ''blocked-users'' (BlockedUsers a) (ToLower uc) False) (\<lambda>bu.
     and_then (normalizeStringSlice ''refusal-labels'' (RefusalLabels a) (ToLower uc) False) (\<lambda>rl.
     and_then (normalizeStringSlice ''approval-labels'' (ApprovalLabels a) (ToLower uc) False) (\<lambda>al.
     and_then (normalizeStringSlice ''trusted-users'' (TrustedUsers a) (ToLower uc) False) (\<lambda>tu.
     and_then (normalizeStringSlice ''endorsement-reactions'' (EndorsementReactions a) (ToUpper uc) True) (\<lambda>er.
     and_then (normalizeStringSlice ''disapproval-reactions'' (DisapprovalReactions a) (ToUpper uc) True) (\<lambda>dr.
     and_then (ValidateAndNormalizeIntegrityField ''allow-only.disapproval-integrity'' (DisapprovalIntegrity a) True) (\<lambda>di.
     and_then (ValidateAndNormalizeIntegrityField ''allow-only.endorser-min-integrity'' (EndorserMinIntegrity a) True) (\<lambda>ei.
     and_then (normalize_scope (Repos a)) (\<lambda>(kind, scopes).
       Inr \<lparr>ScopeKind = kind, ScopeValues = scopes, n_MinIntegrity = mi, n_ToolCallLimits = limits,
            n_BlockedUsers = bu, n_RefusalLabels = rl, n_ApprovalLabels = al, n_TrustedUsers = tu,
            n_EndorsementReactions = er, n_DisapprovalReactions = dr, n_DisapprovalIntegrity = di,
            n_EndorserMinIntegrity = ei, n_PromotionLabel = trim_space (PromotionLabel a),
            n_DemotionLabel = trim_space (DemotionLabel a)\<rparr>)))))))))))"

definition NormalizeGuardPolicy :: "unicode_case \<Rightarrow> guard_policy option \<Rightarrow> policy_error + normalized_guard_policy" where
  "NormalizeGuardPolicy uc policy =
     (case policy of
        None \<Rightarrow> Inl MissingPolicyKey
      | Some p \<Rightarrow>
          (if AllowOnly p = None \<and> WriteSink p = None then Inl MissingPolicyKey
           else (case AllowOnly p of None \<Rightarrow> Inl AllowOnlyMissing | Some a \<Rightarrow> normalize_allow_only uc a)))"

section \<open>Write-sink policies\<close>

definition validSinkVisibilityValues :: "string list" where
  "validSinkVisibilityValues = [''public'', ''private'', ''internal'']"

definition validateAcceptEntry :: "string \<Rightarrow> policy_error option" where
  "validateAcceptEntry acceptEntry =
     (let check = (\<lambda>scope. if \<not> isValidRepoScope scope \<and> \<not> isValidRepoOwner scope
                          then Some (BadAcceptScope scope) else None)
      in case cut CHR '':'' acceptEntry of
           Some (visibility, scope) \<Rightarrow>
             (if visibility = [] then check acceptEntry
              else if visibility \<notin> set validSinkVisibilityValues then Some (BadAcceptVisibility visibility)
              else check scope)
         | None \<Rightarrow> check acceptEntry)"

definition validate_accept :: "string \<Rightarrow> policy_error option" where
  "validate_accept e0 =
     (let e = NormalizeWriteSinkAcceptEntry e0
      in case NonEmptyString e ''accept'' of
           Some err \<Rightarrow> Some err
         | None \<Rightarrow> if e = ''*'' then Some AcceptWildcardNotAlone else validateAcceptEntry e)"

definition ValidateWriteSinkPolicy :: "write_sink_policy option \<Rightarrow> policy_error option" where
  "ValidateWriteSinkPolicy wo =
     (case wo of
        None \<Rightarrow> Some NilWriteSinkPolicy
      | Some ws \<Rightarrow>
          (if Accept ws = [] then Some AcceptEmpty
           else if SinkVisibility ws \<noteq> [] \<and> NormalizeStringCI (SinkVisibility ws) \<notin> set validSinkVisibilityValues
             then Some (BadSinkVisibility (SinkVisibility ws))
           else if length (Accept ws) = 1 \<and> trim_space (hd (Accept ws)) = ''*'' then None
           else ValidateUnique (Accept ws) validate_accept NormalizeWriteSinkAcceptEntry (\<lambda>e. AcceptDuplicates)))"

definition ValidateGuardPolicy :: "unicode_case \<Rightarrow> guard_policy option \<Rightarrow> policy_error option" where
  "ValidateGuardPolicy uc policy =
     (case policy of
        None \<Rightarrow> Some MissingPolicyKey
      | Some p \<Rightarrow>
          (if WriteSink p \<noteq> None then ValidateWriteSinkPolicy (WriteSink p)
           else (case NormalizeGuardPolicy uc (Some p) of Inl e \<Rightarrow> Some e | Inr _ \<Rightarrow> None)))"

section \<open>Folding and trimming commute\<close>

definition is_letter :: "char \<Rightarrow> bool" where
  "is_letter c \<longleftrightarrow> is_upper_ascii c \<or> (97::nat) \<le> of_char c \<and> (of_char c :: nat) \<le> 122"

lemma lower_char_letter: "is_upper_ascii c \<Longrightarrow> is_letter (lower_char c)"
  by (simp add: is_letter_def lower_char_def is_upper_ascii_def of_char_of)

lemma lower_char_nonletter: "\<not> is_letter x \<Longrightarrow> lower_char c = x \<longleftrightarrow> c = x"
  using lower_char_letter[of c] by (auto simp: lower_char_def is_letter_def)

lemma space_runes_nonletter: "r \<in> set space_runes \<Longrightarrow> c \<in> set r \<Longrightarrow> \<not> is_letter c"
  by (auto simp: space_runes_def is_letter_def is_upper_ascii_def)

lemma map_lower_nonletters:
  "(\<And>c. c \<in> set r \<Longrightarrow> \<not> is_letter c) \<Longrightarrow> map lower_char t = r \<longleftrightarrow> t = r"
proof (induction r arbitrary: t)
  case (Cons x r)
  then show ?case by (cases t) (auto simp: lower_char_nonletter)
qed auto

lemma prefix_lower:
  assumes "\<And>c. c \<in> set r \<Longrightarrow> \<not> is_letter c"
  shows "prefix r (map lower_char s) \<longleftrightarrow> prefix r s"
proof
  assume "prefix r (map lower_char s)"
  then obtain u where "map lower_char s = r @ u" by (auto simp: prefix_def)
  then obtain a b where "s = a @ b" "map lower_char a = r" by (auto simp: map_eq_append_conv)
  moreover from this have "a = r" using map_lower_nonletters[of r a] assms by blast
  ultimately show "prefix r s" by simp
next
  assume "prefix r s"
  then obtain u where "s = r @ u" by (auto simp: prefix_def)
  moreover have "map lower_char r = r" using map_lower_nonletters[OF assms, of r] by simp
  ultimately show "prefix r (map lower_char s)" by simp
qed

lemma suffix_lower:
  assumes "\<And>c. c \<in> set r \<Longrightarrow> \<not> is_letter c"
  shows "suffix r (map lower_char s) \<longleftrightarrow> suffix r s"
  using prefix_lower[of "rev r" "rev s"] assms by (simp add: suffix_to_prefix rev_map)

lemma trim_space_lower: "trim_space s = s \<Longrightarrow> trim_space (lowercaseASCII s) = lowercaseASCII s"
proof -
  assume t: "trim_space s = s"
  have "\<not> starts_with_space s" "\<not> ends_with_space s" using trim_space_clean[of s] t by simp_all
  then have "\<not> starts_with_space (lowercaseASCII s)" "\<not> ends_with_space (lowercaseASCII s)"
    using prefix_lower suffix_lower space_runes_nonletter
    by (auto simp: starts_with_space_def ends_with_space_def lowercaseASCII_def)
  then show ?thesis by (simp add: trim_space_def trim_left_id trim_right_id)
qed

lemma trim_space_Nil [simp]: "trim_space [] = []"
  by code_simp

lemma scope_key_idem [simp]: "scope_key (JStr (scope_key v)) = scope_key v"
  by (cases v) (simp_all add: scope_key_def trim_space_lower lowercaseASCII_def[of "[]"])

section \<open>Scope arrays\<close>

definition valid_scope :: "string \<Rightarrow> bool" where
  "valid_scope s \<longleftrightarrow> s = ''public'' \<or> isValidRepoScope s"

lemma validate_scope_None:
  "validate_scope v = None \<longleftrightarrow>
     (\<exists>s. v = JStr s) \<and> scope_key v \<noteq> [] \<and> scope_key v \<noteq> ''all'' \<and> valid_scope (scope_key v)"
  by (cases v)
     (auto simp: validate_scope_def scope_key_def valid_scope_def NonEmptyString_def RequiredStringField_def Let_def)

lemma scope_array_Inr_iff:
  "normalizeAndValidateScopeArray vs = Inr out \<longleftrightarrow>
     vs \<noteq> [] \<and> (\<forall>v\<in>set vs. validate_scope v = None) \<and> distinct (map scope_key vs) \<and> out = sort (map scope_key vs)"
proof (cases "ValidateUnique vs validate_scope scope_key (\<lambda>v. ReposDuplicates)")
  case None
  then show ?thesis using ValidateUnique_None[of vs validate_scope scope_key "\<lambda>v. ReposDuplicates"]
    by (auto simp: normalizeAndValidateScopeArray_def)
next
  case (Some e)
  then show ?thesis using ValidateUnique_None[of vs validate_scope scope_key "\<lambda>v. ReposDuplicates"]
    by (auto simp: normalizeAndValidateScopeArray_def)
qed

lemma scope_array_canonical:
  assumes "normalizeAndValidateScopeArray vs = Inr out"
  shows "out \<noteq> []" and "sorted out" and "distinct out" and "set out = scope_key ` set vs"
    and "s \<in> set out \<Longrightarrow> valid_scope s \<and> s \<noteq> []" and "''all'' \<notin> set out"
    and "normalizeAndValidateScopeArray (map JStr out) = Inr out"
proof -
  note a = assms[unfolded scope_array_Inr_iff]
  have "length out = length vs" using a by simp
  with a show "out \<noteq> []" by (metis length_0_conv)
  show "sorted out" "distinct out" "set out = scope_key ` set vs" using a by auto
  show v: "valid_scope s \<and> s \<noteq> []" if "s \<in> set out" for s
    using a that by (auto simp: validate_scope_None)
  show "''all'' \<notin> set out" using a by (auto simp: validate_scope_None)
  have keys: "map scope_key (map JStr out) = out"
  proof -
    have "\<forall>s\<in>set out. scope_key (JStr s) = s" using \<open>set out = scope_key ` set vs\<close> by auto
    then show ?thesis by (simp add: map_idI)
  qed
  have "validate_scope (JStr s) = None" if s: "s \<in> set out" for s
  proof -
    obtain w where w: "s = scope_key w" "w \<in> set vs" using \<open>set out = scope_key ` set vs\<close> s by auto
    with a have "validate_scope w = None" by blast
    then show ?thesis using w by (simp add: validate_scope_None)
  qed
  then show "normalizeAndValidateScopeArray (map JStr out) = Inr out"
    using a keys \<open>distinct out\<close> \<open>sorted out\<close> \<open>out \<noteq> []\<close> unfolding scope_array_Inr_iff keys
    by (auto simp: sorted_sort_id)
qed

text \<open>Neither the order of the scopes nor their case or padding matters.\<close>

lemma scope_array_order:
  assumes "mset vs = mset ws" and "normalizeAndValidateScopeArray vs = Inr out"
  shows "normalizeAndValidateScopeArray ws = Inr out"
proof -
  have m: "mset (map scope_key vs) = mset (map scope_key ws)" using assms(1) by (metis mset_map)
  have "distinct (map scope_key ws)"
    using assms(2) m unfolding scope_array_Inr_iff by (metis mset_eq_imp_distinct_iff)
  moreover have "sort (map scope_key ws) = sort (map scope_key vs)"
    using m by (metis mset_sort properties_for_sort sorted_sort)
  moreover have "set ws = set vs" using assms(1) by (metis mset_eq_setD)
  ultimately show ?thesis using assms(2) unfolding scope_array_Inr_iff by auto
qed

lemma scope_array_key:
  assumes "map scope_key vs = map scope_key ws" and "\<forall>w\<in>set ws. \<exists>s. w = JStr s"
    and "normalizeAndValidateScopeArray vs = Inr out"
  shows "normalizeAndValidateScopeArray ws = Inr out"
proof -
  note a = assms(3)[unfolded scope_array_Inr_iff]
  have "scope_key ` set ws = scope_key ` set vs" using arg_cong[OF assms(1), of set] by simp
  then have "validate_scope w = None" if "w \<in> set ws" for w
    using that assms(2) a by (auto simp: validate_scope_None image_iff) (metis imageE imageI)+
  then show ?thesis using a assms(1) unfolding scope_array_Inr_iff by auto
qed

section \<open>Repository values\<close>

lemma repos_value_agrees:
  "(\<exists>r. NormalizeAllowOnlyReposValue v = Inr r) \<longleftrightarrow> (\<exists>r. normalize_scope v = Inr r)"
proof (cases v)
  case (ReposJSON j)
  then show ?thesis
    by (cases j) (auto simp: NormalizeAllowOnlyReposValue_def normalize_scope_def Let_def map_sum_Inr_iff)
qed (simp add: NormalizeAllowOnlyReposValue_def normalize_scope_def map_sum_Inr_iff)

lemma valid_repos_agrees:
  "IsValidAllowOnlyReposValue (ReposJSON j) \<longleftrightarrow> (\<exists>r. normalize_scope (ReposJSON j) = Inr r)"
proof (cases j)
  case (JArr xs)
  then show ?thesis
    by (cases "normalizeAndValidateScopeArray xs") (simp_all add: IsValidAllowOnlyReposValue_def normalize_scope_def)
qed (auto simp: IsValidAllowOnlyReposValue_def normalize_scope_def Let_def)

text \<open>What is stored has one form; normalizing it again changes nothing.\<close>

lemma repos_value_canonical:
  assumes "NormalizeAllowOnlyReposValue v = Inr r"
  shows "(r = ReposJSON (JStr ''all'') \<or> r = ReposJSON (JStr ''public'') \<or>
      (\<exists>out. r = ReposStrings out \<and> normalizeAndValidateScopeArray (map JStr out) = Inr out))"
    and "NormalizeAllowOnlyReposValue r = Inr r"
proof -
  consider (str) s where "v = ReposJSON (JStr s)" | (arr) xs where "v = ReposJSON (JArr xs)"
    | (strs) ss where "v = ReposStrings ss"
    using assms by (auto simp: NormalizeAllowOnlyReposValue_def split: repos_value.splits json.splits)
  note cases = this
  show f: "r = ReposJSON (JStr ''all'') \<or> r = ReposJSON (JStr ''public'') \<or>
      (\<exists>out. r = ReposStrings out \<and> normalizeAndValidateScopeArray (map JStr out) = Inr out)"
    using cases assms
    by cases (auto simp: NormalizeAllowOnlyReposValue_def Let_def map_sum_Inr_iff split: if_splits
        intro: scope_array_canonical(7))
  have "NormalizeStringCI ''all'' = ''all''" "NormalizeStringCI ''public'' = ''public''" by code_simp+
  with f show "NormalizeAllowOnlyReposValue r = Inr r"
    by (auto simp: NormalizeAllowOnlyReposValue_def Let_def)
qed

lemma NormalizeStaticAllowOnlyPolicy_idem:
  assumes "NormalizeStaticAllowOnlyPolicy p = Inr q"
  shows "NormalizeStaticAllowOnlyPolicy q = Inr q"
  using assms repos_value_canonical(2)
  by (auto simp: NormalizeStaticAllowOnlyPolicy_def split: option.splits sum.splits)

section \<open>Normalized policies\<close>

lemma NormalizeIntegrityLevel_Some:
  "NormalizeIntegrityLevel raw optional = Some v \<Longrightarrow> v \<in> set allIntegrityLevels \<or> optional \<and> v = []"
  by (auto simp: NormalizeIntegrityLevel_def Let_def split: if_splits)

lemma integrity_field_Inr:
  "ValidateAndNormalizeIntegrityField path raw optional = Inr v \<Longrightarrow> v \<in> set allIntegrityLevels \<or> optional \<and> v = []"
  by (auto simp: ValidateAndNormalizeIntegrityField_def split: option.splits dest: NormalizeIntegrityLevel_Some)

definition limits_ok :: "(string \<times> int) list \<Rightarrow> bool" where
  "limits_ok m \<longleftrightarrow> distinct (keys_of m) \<and> (\<forall>(k, n)\<in>set m. k \<noteq> [] \<and> 0 \<le> n)"

lemma set_update_subset: "set (AList.update k v m) \<subseteq> insert (k, v) (set m)"
  by (induction m) auto

lemma limits_ok_update:
  "limits_ok m \<Longrightarrow> k \<noteq> [] \<Longrightarrow> 0 \<le> n \<Longrightarrow> limits_ok (AList.update k n m)"
  using set_update_subset[of k n m] by (auto simp: limits_ok_def)

lemma limits_loop_Inr:
  "limits_loop limits out = Inr out' \<Longrightarrow> limits_ok out \<Longrightarrow>
     limits_ok out' \<and> set (keys_of out') = set (keys_of out) \<union> trim_space ` set (keys_of limits) \<and>
     (\<forall>(k, n)\<in>set limits. 0 \<le> n)"
proof (induction limits arbitrary: out)
  case (Cons p limits)
  obtain k limit where p: "p = (k, limit)" by force
  have n: "trim_space k \<noteq> []" "0 \<le> limit" and r: "limits_loop limits (AList.update (trim_space k) limit out) = Inr out'"
    using Cons.prems(1) p by (auto simp: Let_def NonEmptyString_def RequiredStringField_def split: if_splits)
  from Cons.IH[OF r limits_ok_update[OF Cons.prems(2) n]] n p show ?case by auto
qed simp

lemma toolCallLimits_Inr:
  assumes "normalizeToolCallLimits limits = Inr out"
  shows "distinct (keys_of out)" and "\<forall>(k, n)\<in>set out. k \<noteq> [] \<and> 0 \<le> n"
  using assms limits_loop_Inr[of limits "[]" out]
  by (auto simp: normalizeToolCallLimits_def limits_ok_def split: if_splits)

definition slice_keys :: "(string \<Rightarrow> string) \<Rightarrow> bool \<Rightarrow> string list \<Rightarrow> string list" where
  "slice_keys cn st out = (if st then out else map cn out)"

lemma slice_loop_Inr:
  "slice_loop field cn st seen out vs = Inr out' \<Longrightarrow> set seen = set (slice_keys cn st out) \<Longrightarrow>
     distinct (slice_keys cn st out) \<Longrightarrow>
     distinct (slice_keys cn st out') \<and>
     set (slice_keys cn st out') = set (slice_keys cn st out) \<union> cn ` trim_space ` set vs"
proof (induction vs arbitrary: seen out)
  case (Cons v vs)
  let ?v = "trim_space v"
  have ne: "?v \<noteq> []" using Cons.prems(1) by (auto simp: Let_def NonEmptyString_def RequiredStringField_def split: if_splits)
  show ?case
  proof (cases "cn ?v \<in> set seen")
    case True
    then have r: "slice_loop field cn st seen out vs = Inr out'"
      using Cons.prems(1) ne by (simp add: Let_def NonEmptyString_def RequiredStringField_def)
    from Cons.IH[OF r Cons.prems(2,3)] True Cons.prems(2) show ?thesis by auto
  next
    case False
    let ?x = "if st then cn ?v else ?v"
    have r: "slice_loop field cn st (cn ?v # seen) (out @ [?x]) vs = Inr out'"
      using Cons.prems(1) ne False by (simp add: Let_def NonEmptyString_def RequiredStringField_def)
    have k: "slice_keys cn st (out @ [?x]) = slice_keys cn st out @ [cn ?v]" by (simp add: slice_keys_def)
    have i: "set (cn ?v # seen) = set (slice_keys cn st (out @ [?x]))" "distinct (slice_keys cn st (out @ [?x]))"
      unfolding k using Cons.prems(2,3) False by auto
    from Cons.IH[OF r i] show ?thesis unfolding k by auto
  qed
qed simp

lemma stringSlice_Inr:
  assumes "normalizeStringSlice field input cn st = Inr out"
  shows "distinct (slice_keys cn st out)" and "set (slice_keys cn st out) = cn ` trim_space ` set input"
  using assms slice_loop_Inr[of field cn st "[]" "[]" input out]
  by (cases "input = []"; simp add: normalizeStringSlice_def; simp add: slice_keys_def)+

lemma normalize_scope_Inr:
  assumes "normalize_scope v = Inr (kind, scopes)"
  shows "kind \<in> {''all'', ''public''} \<and> scopes = [] \<or>
    kind = ''scoped'' \<and> scopes \<noteq> [] \<and> sorted scopes \<and> distinct scopes \<and> (\<forall>s\<in>set scopes. valid_scope s)"
proof -
  have arr: "?thesis" if "map_sum id (\<lambda>s. (''scoped'', s)) (normalizeAndValidateScopeArray xs) = Inr (kind, scopes)" for xs
    using that scope_array_canonical(1,2,3)[of xs scopes] scope_array_canonical(5)[of xs scopes]
    by (auto simp: map_sum_Inr_iff)
  show ?thesis
  proof (cases v)
    case (ReposJSON j)
    with assms arr show ?thesis
      by (cases j) (auto simp: normalize_scope_def Let_def split: if_splits)
  next
    case (ReposStrings ss)
    with assms arr[of "map JStr ss"] show ?thesis by (simp add: normalize_scope_def)
  qed
qed

definition normal_form :: "normalized_guard_policy \<Rightarrow> bool" where
  "normal_form n \<longleftrightarrow>
     (ScopeKind n \<in> {''all'', ''public''} \<and> ScopeValues n = [] \<or>
      ScopeKind n = ''scoped'' \<and> ScopeValues n \<noteq> [] \<and> sorted (ScopeValues n) \<and> distinct (ScopeValues n) \<and>
        (\<forall>s\<in>set (ScopeValues n). valid_scope s)) \<and>
     n_MinIntegrity n \<in> set allIntegrityLevels \<and>
     n_DisapprovalIntegrity n \<in> {[]} \<union> set allIntegrityLevels \<and>
     n_EndorserMinIntegrity n \<in> {[]} \<union> set allIntegrityLevels \<and>
     distinct (keys_of (n_ToolCallLimits n)) \<and> (\<forall>(k, limit)\<in>set (n_ToolCallLimits n). k \<noteq> [] \<and> 0 \<le> limit) \<and>
     distinct (n_EndorsementReactions n) \<and> distinct (n_DisapprovalReactions n)"

lemma NormalizeGuardPolicy_normal_form:
  assumes "NormalizeGuardPolicy uc p = Inr n"
  shows "normal_form n"
proof -
  obtain q a where "p = Some q" "AllowOnly q = Some a" and n: "normalize_allow_only uc a = Inr n"
    using assms by (auto simp: NormalizeGuardPolicy_def split: option.splits if_splits)
  obtain kind scopes where sc: "normalize_scope (Repos a) = Inr (kind, scopes)"
    and k: "ScopeKind n = kind" "ScopeValues n = scopes"
    using n by (auto simp: normalize_allow_only_def and_then_Inr_iff)
  have lim: "normalizeToolCallLimits (ToolCallLimits a) = Inr (n_ToolCallLimits n)"
    and mi: "ValidateAndNormalizeIntegrityField ''allow-only.min-integrity'' (MinIntegrity a) False = Inr (n_MinIntegrity n)"
    and di: "ValidateAndNormalizeIntegrityField ''allow-only.disapproval-integrity'' (DisapprovalIntegrity a) True
      = Inr (n_DisapprovalIntegrity n)"
    and ei: "ValidateAndNormalizeIntegrityField ''allow-only.endorser-min-integrity'' (EndorserMinIntegrity a) True
      = Inr (n_EndorserMinIntegrity n)"
    and er: "normalizeStringSlice ''endorsement-reactions'' (EndorsementReactions a) (ToUpper uc) True
      = Inr (n_EndorsementReactions n)"
    and dr: "normalizeStringSlice ''disapproval-reactions'' (DisapprovalReactions a) (ToUpper uc) True
      = Inr (n_DisapprovalReactions n)"
    using n by (auto simp: normalize_allow_only_def and_then_Inr_iff)
  show ?thesis
    unfolding normal_form_def k
    using normalize_scope_Inr[OF sc] toolCallLimits_Inr[OF lim] integrity_field_Inr[OF mi]
      integrity_field_Inr[OF di] integrity_field_Inr[OF ei] stringSlice_Inr(1)[OF er] stringSlice_Inr(1)[OF dr]
    by (simp add: slice_keys_def) blast
qed

section \<open>Write-sink policies\<close>

lemma validateAcceptEntry_None:
  "validateAcceptEntry e = None \<longleftrightarrow>
     (case cut CHR '':'' e of
        None \<Rightarrow> isValidRepoScope e \<or> isValidRepoOwner e
      | Some (visibility, scope) \<Rightarrow>
          (visibility = [] \<and> (isValidRepoScope e \<or> isValidRepoOwner e)) \<or>
          visibility \<in> set validSinkVisibilityValues \<and> (isValidRepoScope scope \<or> isValidRepoOwner scope))"
proof -
  have "[] \<notin> set validSinkVisibilityValues" by (simp add: validSinkVisibilityValues_def)
  then show ?thesis by (auto simp: validateAcceptEntry_def Let_def split: option.split)
qed

lemma ValidateWriteSinkPolicy_None:
  "ValidateWriteSinkPolicy (Some ws) = None \<longleftrightarrow>
     Accept ws \<noteq> [] \<and>
     (SinkVisibility ws = [] \<or> NormalizeStringCI (SinkVisibility ws) \<in> set validSinkVisibilityValues) \<and>
     ((\<exists>e. Accept ws = [e] \<and> trim_space e = ''*'') \<or>
      (\<forall>e\<in>set (Accept ws). validate_accept e = None) \<and> distinct (map NormalizeWriteSinkAcceptEntry (Accept ws)))"
proof -
  have one: "length (Accept ws) = 1 \<and> trim_space (hd (Accept ws)) = ''*'' \<longleftrightarrow>
      (\<exists>e. Accept ws = [e] \<and> trim_space e = ''*'')"
    by (auto simp: length_Suc_conv)
  show ?thesis
    unfolding ValidateWriteSinkPolicy_def option.case one
      ValidateUnique_None[of "Accept ws" validate_accept NormalizeWriteSinkAcceptEntry "\<lambda>e. AcceptDuplicates", symmetric]
    by (cases "Accept ws = []"; cases "SinkVisibility ws = []";
        cases "NormalizeStringCI (SinkVisibility ws) \<in> set validSinkVisibilityValues";
        cases "\<exists>e. Accept ws = [e] \<and> trim_space e = ''*''") (simp_all, auto)
qed

end
