(* ===== verification/EnvUtil.thy ===== *)
theory EnvUtil imports Util begin

text \<open>
  \<open>internal/envutil\<close> and \<open>internal/config/expand.go\<close>: reading the environment with defaults, the
  GitHub token and API URL, the expansion of \<open>-e NAME\<close> in container arguments and of
  \<open>${NAME}\<close> in configuration text. The process environment is a map; \<open>net/url\<close> is an argument.
\<close>

type_synonym environment = "string \<Rightarrow> string option"

section \<open>Typed readers\<close>

definition Getenv :: "environment \<Rightarrow> string \<Rightarrow> string" where
  "Getenv env key = (case env key of None \<Rightarrow> [] | Some v \<Rightarrow> v)"

definition HasEnvVar :: "environment \<Rightarrow> string \<Rightarrow> bool" where
  "HasEnvVar env key = (env key \<noteq> None)"

definition GetEnvString :: "environment \<Rightarrow> string \<Rightarrow> string \<Rightarrow> string" where
  "GetEnvString env key defaultValue = (let v = Getenv env key in if v \<noteq> [] then v else defaultValue)"

definition getEnvWithValidator ::
  "environment \<Rightarrow> string \<Rightarrow> 'a \<Rightarrow> (string \<Rightarrow> 'a option) \<Rightarrow> ('a \<Rightarrow> bool) \<Rightarrow> 'a" where
  "getEnvWithValidator env key defaultValue parse isValid =
     (let envValue = Getenv env key
      in if envValue = [] then defaultValue
         else (case parse envValue of
                 Some v \<Rightarrow> if isValid v then v else defaultValue
               | None \<Rightarrow> defaultValue))"

text \<open>The value, whether the variable was set, and whether parsing failed.\<close>

definition GetEnvIntRaw :: "environment \<Rightarrow> string \<Rightarrow> int \<times> bool \<times> bool" where
  "GetEnvIntRaw env key =
     (let envValue = Getenv env key
      in if envValue = [] then (0, False, False)
         else (case atoi envValue of None \<Rightarrow> (0, True, True) | Some v \<Rightarrow> (v, True, False)))"

definition GetEnvInt :: "environment \<Rightarrow> string \<Rightarrow> int \<Rightarrow> int" where
  "GetEnvInt env key defaultValue = getEnvWithValidator env key defaultValue atoi (\<lambda>v. v > 0)"

text \<open>\<open>time.ParseDuration\<close> is an argument.\<close>

definition GetEnvDuration :: "(string \<Rightarrow> duration option) \<Rightarrow> environment \<Rightarrow> string \<Rightarrow> duration \<Rightarrow> duration" where
  "GetEnvDuration parseDuration env key defaultValue =
     getEnvWithValidator env key defaultValue parseDuration (\<lambda>v. v > 0)"

definition parse_bool :: "string \<Rightarrow> bool option" where
  "parse_bool envValue =
     (let l = to_lower envValue
      in if l \<in> {''1'', ''true'', ''yes'', ''on''} then Some True
         else if l \<in> {''0'', ''false'', ''no'', ''off''} then Some False
         else None)"

definition GetEnvBool :: "environment \<Rightarrow> string \<Rightarrow> bool \<Rightarrow> bool" where
  "GetEnvBool env key defaultValue = getEnvWithValidator env key defaultValue parse_bool (\<lambda>v. True)"

lemma GetEnvInt_positive: "0 < d \<Longrightarrow> 0 < GetEnvInt env key d"
  by (auto simp: GetEnvInt_def getEnvWithValidator_def Let_def split: option.splits)

section \<open>GitHub\<close>

definition token_candidates :: "string list" where
  "token_candidates =
     [''GITHUB_MCP_SERVER_TOKEN'', ''GITHUB_TOKEN'', ''GITHUB_PERSONAL_ACCESS_TOKEN'', ''GH_TOKEN'']"

fun token_loop :: "environment \<Rightarrow> string list \<Rightarrow> string" where
  "token_loop env [] = []"
| "token_loop env (key # ks) =
     (let v = trim_space (Getenv env key) in if v \<noteq> [] then v else token_loop env ks)"

definition LookupGitHubToken :: "environment \<Rightarrow> string" where
  "LookupGitHubToken env = token_loop env token_candidates"

definition LookupGitHubAPIURL :: "environment \<Rightarrow> string \<Rightarrow> string" where
  "LookupGitHubAPIURL env defaultURL =
     (let v = trim_space (Getenv env ''GITHUB_API_URL'')
      in if v \<noteq> [] then trim_right_slash v else trim_right_slash (trim_space defaultURL))"

record parsed_url =
  u_Scheme :: string
  u_Host :: string
  u_Hostname :: string
  u_Port :: string

definition DefaultGitHubAPIBaseURL :: string where
  "DefaultGitHubAPIBaseURL = ''https://api.github.com''"

definition deriveAPIFromServerURL :: "(string \<Rightarrow> parsed_url option) \<Rightarrow> string \<Rightarrow> string" where
  "deriveAPIFromServerURL parse serverURL =
     (case parse (trim_right_slash serverURL) of
        None \<Rightarrow> []
      | Some u \<Rightarrow>
          (if u_Host u = [] then []
           else if u_Scheme u \<noteq> ''http'' \<and> u_Scheme u \<noteq> ''https'' then []
           else
             (let hostname = to_lower (u_Hostname u)
              in if hostname = ''github.com'' \<or> hostname = ''www.github.com'' then DefaultGitHubAPIBaseURL
                 else if suffix ''.ghe.com'' hostname then
                   (if prefix ''api.'' hostname then u_Scheme u @ ''://'' @ u_Host u
                    else if u_Port u \<noteq> [] then u_Scheme u @ ''://api.'' @ hostname @ '':'' @ u_Port u
                    else u_Scheme u @ ''://api.'' @ hostname)
                 else u_Scheme u @ ''://'' @ u_Host u @ ''/api/v3'')))"

definition DeriveGitHubAPIURL :: "(string \<Rightarrow> parsed_url option) \<Rightarrow> environment \<Rightarrow> string \<Rightarrow> string" where
  "DeriveGitHubAPIURL parse env defaultURL =
     (let apiURL = LookupGitHubAPIURL env []
      in if apiURL \<noteq> [] then apiURL
         else
           (let serverURL = trim_space (Getenv env ''GITHUB_SERVER_URL'');
                derived = (if serverURL \<noteq> [] then deriveAPIFromServerURL parse serverURL else [])
            in if derived \<noteq> [] then derived else trim_right_slash (trim_space defaultURL)))"

section \<open>Container arguments\<close>

text \<open>The calls of the callback: the index of \<open>-e\<close>, the name and what the environment holds.\<close>

fun WalkDockerEnvArgs :: "environment \<Rightarrow> nat \<Rightarrow> string list \<Rightarrow> (nat \<times> string \<times> string option) list" where
  "WalkDockerEnvArgs env i [] = []"
| "WalkDockerEnvArgs env i [arg] = []"
| "WalkDockerEnvArgs env i (arg # nextArg # rest) =
     (if arg = ''-e''
      then (if nextArg \<noteq> [] \<and> CHR ''='' \<notin> set nextArg then [(i, nextArg, env nextArg)] else []) @
           WalkDockerEnvArgs env (i + 2) rest
      else WalkDockerEnvArgs env (i + 1) (nextArg # rest))"

definition expanded_values :: "environment \<Rightarrow> string list \<Rightarrow> nat \<Rightarrow> string option" where
  "expanded_values env args =
     map_of (List.map_filter (\<lambda>(i, n, v). map_option (\<lambda>x. (i, n @ ''='' @ x)) v) (WalkDockerEnvArgs env 0 args))"

fun rebuild_args :: "(nat \<Rightarrow> string option) \<Rightarrow> nat \<Rightarrow> string list \<Rightarrow> string list" where
  "rebuild_args m i [] = []"
| "rebuild_args m i (arg # args) =
     (case m i of
        Some expandedValue \<Rightarrow> ''-e'' # expandedValue # rebuild_args m (i + 2) (drop 1 args)
      | None \<Rightarrow> arg # rebuild_args m (i + 1) args)"

definition ExpandEnvArgs :: "environment \<Rightarrow> string list \<Rightarrow> string list" where
  "ExpandEnvArgs env args = rebuild_args (expanded_values env args) 0 args"

text \<open>The two passes over indices do what one pass over \<open>-e\<close> pairs does.\<close>

fun expand_pairs :: "environment \<Rightarrow> string list \<Rightarrow> string list" where
  "expand_pairs env (arg # nextArg # rest) =
     (if arg = ''-e''
      then ''-e'' #
           (if nextArg \<noteq> [] \<and> CHR ''='' \<notin> set nextArg
            then (case env nextArg of Some v \<Rightarrow> nextArg @ ''='' @ v | None \<Rightarrow> nextArg)
            else nextArg) # expand_pairs env rest
      else arg # expand_pairs env (nextArg # rest))"
| "expand_pairs env args = args"

definition walk_values :: "environment \<Rightarrow> nat \<Rightarrow> string list \<Rightarrow> (nat \<times> string) list" where
  "walk_values env i args =
     List.map_filter (\<lambda>(i, n, v). map_option (\<lambda>x. (i, n @ ''='' @ x)) v) (WalkDockerEnvArgs env i args)"

lemma walk_step:
  "walk_values env i (arg # nextArg # rest) =
     (if arg = ''-e''
      then (if nextArg \<noteq> [] \<and> CHR ''='' \<notin> set nextArg
            then (case env nextArg of Some v \<Rightarrow> [(i, nextArg @ ''='' @ v)] | None \<Rightarrow> []) else []) @
           walk_values env (i + 2) rest
      else walk_values env (i + 1) (nextArg # rest))"
  by (auto simp: walk_values_def map_filter_def split: option.split)

lemma walk_index: "(j, x) \<in> set (walk_values env i args) \<Longrightarrow> i \<le> j"
proof (induction env i args rule: WalkDockerEnvArgs.induct)
  case (3 env i arg nextArg rest)
  show ?case
  proof (cases "arg = ''-e''")
    case True
    have "(j, x) \<in> set (walk_values env (i + 2) rest) \<or> j = i"
    proof (cases "nextArg \<noteq> [] \<and> CHR ''='' \<notin> set nextArg \<and> env nextArg \<noteq> None")
      case True
      then obtain v where "env nextArg = Some v" by blast
      with True \<open>arg = ''-e''\<close> "3.prems" show ?thesis by (simp add: walk_step) blast
    next
      case False
      then have "walk_values env i (arg # nextArg # rest) = walk_values env (i + 2) rest"
        unfolding walk_step using \<open>arg = ''-e''\<close> by (cases "env nextArg") auto
      with "3.prems" show ?thesis by simp
    qed
    then show ?thesis using "3.IH"(1)[OF True] by linarith
  next
    case False
    have "(j, x) \<in> set (walk_values env (i + 1) (nextArg # rest))"
      using "3.prems" False by (simp add: walk_step)
    then show ?thesis using "3.IH"(2)[OF False] by linarith
  qed
qed (auto simp: walk_values_def map_filter_def)

lemma walk_misses: "j < i \<Longrightarrow> map_of (walk_values env i args) j = None"
  by (metis map_of_SomeD not_None_eq not_less walk_index)

lemma rebuild_cong:
  "(\<And>j. i \<le> j \<Longrightarrow> m j = m' j) \<Longrightarrow> rebuild_args m i args = rebuild_args m' i args"
proof (induction m i args rule: rebuild_args.induct)
  case (2 m i arg args)
  have "m' i = m i" using "2.prems" by simp
  show ?case
  proof (cases "m i")
    case None
    with 2 \<open>m' i = m i\<close> show ?thesis by simp
  next
    case (Some e)
    have "rebuild_args m (i + 2) (drop 1 args) = rebuild_args m' (i + 2) (drop 1 args)"
      by (rule "2.IH"(2)[OF Some]) (use "2.prems" in simp)
    with Some \<open>m' i = m i\<close> show ?thesis by simp
  qed
qed simp

lemma rebuild_walk: "rebuild_args (map_of (walk_values env i args)) i args = expand_pairs env args"
proof (induction env i args rule: WalkDockerEnvArgs.induct)
  case (2 env i arg)
  then show ?case by (simp add: walk_values_def map_filter_def)
next
  case (3 env i arg nextArg rest)
  show ?case
  proof (cases "arg = ''-e''")
    case False
    with 3 show ?thesis by (simp add: walk_step walk_misses)
  next
    case True
    have tail: "rebuild_args m (i + 2) rest = expand_pairs env rest"
      if "\<And>j. i + 2 \<le> j \<Longrightarrow> m j = map_of (walk_values env (i + 2) rest) j" for m
      using rebuild_cong[of "i + 2" m "map_of (walk_values env (i + 2) rest)" rest] that 3(1)[OF True] by simp
    have w: "map_of (walk_values env (i + 2) rest) i = None" "map_of (walk_values env (i + 2) rest) (Suc i) = None"
      by (simp_all add: walk_misses)
    show ?thesis
    proof (cases "nextArg \<noteq> [] \<and> CHR ''='' \<notin> set nextArg \<and> env nextArg \<noteq> None")
      case True
      then obtain v where "env nextArg = Some v" by blast
      with True \<open>arg = ''-e''\<close> have w1: "walk_values env i (arg # nextArg # rest) =
          (i, nextArg @ ''='' @ v) # walk_values env (i + 2) rest" by (simp add: walk_step)
      have "rebuild_args (map_of (walk_values env i (arg # nextArg # rest))) (i + 2) rest = expand_pairs env rest"
        by (rule tail) (simp add: w1)
      with True \<open>arg = ''-e''\<close> \<open>env nextArg = Some v\<close> w1 show ?thesis by (simp add: fun_upd_def)
    next
      case False
      then have "walk_values env i (arg # nextArg # rest) = walk_values env (i + 2) rest"
        unfolding walk_step using \<open>arg = ''-e''\<close> by (auto split: option.split)
      with False \<open>arg = ''-e''\<close> 3(1)[OF True] w show ?thesis by (auto split: option.split)
    qed
  qed
qed (simp add: walk_values_def map_filter_def)

lemma ExpandEnvArgs_pairs: "ExpandEnvArgs env args = expand_pairs env args"
  using rebuild_walk[of env 0 args] by (simp add: ExpandEnvArgs_def expanded_values_def walk_values_def)

lemma expand_pairs_length: "length (expand_pairs env args) = length args"
  by (induction env args rule: expand_pairs.induct) auto

section \<open>Variable references in configuration text\<close>

definition is_name_start :: "char \<Rightarrow> bool" where
  "is_name_start c \<longleftrightarrow> is_upper_ascii c \<or> (97::nat) \<le> of_char c \<and> (of_char c :: nat) \<le> 122 \<or> c = CHR ''_''"

definition is_name_char :: "char \<Rightarrow> bool" where
  "is_name_char c \<longleftrightarrow> is_name_start c \<or> is_digit c"

text \<open>\<open>varExprPattern\<close> at the front of a text: the name and what follows the match.\<close>

definition match_var :: "string \<Rightarrow> (string \<times> string) option" where
  "match_var s =
     (if prefix ''${'' s
      then
        (let body = drop 2 s; name = takeWhile is_name_char body; rest = dropWhile is_name_char body
         in if name \<noteq> [] \<and> is_name_start (hd name) \<and> prefix ''}'' rest then Some (name, tl rest) else None)
      else None)"

lemma match_var_Some: "match_var s = Some (name, rest) \<Longrightarrow> s = ''${'' @ name @ ''}'' @ rest"
proof -
  assume m: "match_var s = Some (name, rest)"
  let ?b = "drop 2 s"
  have p: "prefix ''${'' s" and r: "prefix ''}'' (dropWhile is_name_char ?b)"
    and n: "name = takeWhile is_name_char ?b" and t: "rest = tl (dropWhile is_name_char ?b)"
    using m by (auto simp: match_var_def Let_def split: if_splits)
  have "s = ''${'' @ ?b" using p by (auto simp: prefix_def)
  moreover have "?b = name @ dropWhile is_name_char ?b" using n by simp
  moreover have "dropWhile is_name_char ?b = ''}'' @ rest" using r t by (auto simp: prefix_def)
  ultimately show ?thesis by metis
qed

function expandVariablesCore :: "environment \<Rightarrow> string \<Rightarrow> string \<times> string list" where
  "expandVariablesCore env data =
     (case data of
        [] \<Rightarrow> ([], [])
      | c # cs \<Rightarrow>
          (case match_var data of
             None \<Rightarrow> (let (out, undef) = expandVariablesCore env cs in (c # out, undef))
           | Some (name, rest) \<Rightarrow>
               (let (out, undef) = expandVariablesCore env rest
                in case env name of
                     Some v \<Rightarrow> (v @ out, undef)
                   | None \<Rightarrow> ((''${'' @ name @ ''}'') @ out, name # undef))))"
  by pat_completeness auto
termination
proof (relation "measure (\<lambda>(env, s). length s)")
  show "wf (measure (\<lambda>(env :: environment, s :: string). length s))" by simp
  show "((env, cs), env, data) \<in> measure (\<lambda>(env, s). length s)"
    if "data = c # cs" for env :: environment and data c cs using that by simp
  show "((env, rest), env, data) \<in> measure (\<lambda>(env, s). length s)"
    if "data = c # cs" "match_var data = Some p" "(name, rest) = p" for env :: environment and data c cs p name rest
    using match_var_Some[of data name rest] that by auto
qed

declare expandVariablesCore.simps [simp del]

definition expandVariables :: "environment \<Rightarrow> string \<Rightarrow> string + string" where
  "expandVariables env v =
     (case expandVariablesCore env v of
        (out, []) \<Rightarrow> Inr out
      | (_, name # _) \<Rightarrow> Inl name)"

definition ExpandRawJSONVariables :: "environment \<Rightarrow> string \<Rightarrow> string + string" where
  "ExpandRawJSONVariables env v =
     (case expandVariablesCore env v of
        (out, []) \<Rightarrow> Inr out
      | (_, name # _) \<Rightarrow> Inl name)"

text \<open>The map in its iteration order.\<close>

fun expand_env_loop :: "environment \<Rightarrow> (string \<times> string) list \<Rightarrow> (string \<times> string) list \<Rightarrow> string + (string \<times> string) list" where
  "expand_env_loop env [] result = Inr result"
| "expand_env_loop env ((key, v) # m) result =
     (case expandVariables env v of
        Inl e \<Rightarrow> Inl e
      | Inr expanded \<Rightarrow> expand_env_loop env m (AList.update key expanded result))"

definition expandEnvVariables :: "environment \<Rightarrow> (string \<times> string) list \<Rightarrow> string + (string \<times> string) list" where
  "expandEnvVariables env m = expand_env_loop env m []"

definition expandMapInPlace :: "environment \<Rightarrow> (string \<times> string) list \<Rightarrow> string + (string \<times> string) list" where
  "expandMapInPlace env m = (if m = [] then Inr m else expandEnvVariables env m)"

text \<open>A text as literal pieces and references; the reference semantics of the expansion.\<close>

datatype piece = Lit string | Ref string

definition valid_piece :: "piece \<Rightarrow> bool" where
  "valid_piece p =
     (case p of
        Lit s \<Rightarrow> CHR ''$'' \<notin> set s
      | Ref n \<Rightarrow> n \<noteq> [] \<and> is_name_start (hd n) \<and> list_all is_name_char n)"

fun piece_text :: "piece \<Rightarrow> string" where
  "piece_text (Lit s) = s"
| "piece_text (Ref n) = ''${'' @ n @ ''}''"

fun piece_value :: "environment \<Rightarrow> piece \<Rightarrow> string" where
  "piece_value env (Lit s) = s"
| "piece_value env (Ref n) = (case env n of Some v \<Rightarrow> v | None \<Rightarrow> ''${'' @ n @ ''}'')"

fun piece_undefined :: "environment \<Rightarrow> piece \<Rightarrow> string list" where
  "piece_undefined env (Lit s) = []"
| "piece_undefined env (Ref n) = (if env n = None then [n] else [])"

lemma name_char_not_brace: "\<not> is_name_char CHR ''}''"
  by (simp add: is_name_char_def is_name_start_def is_upper_ascii_def is_digit_def)

lemma match_var_Ref:
  assumes "n \<noteq> []" "is_name_start (hd n)" "list_all is_name_char n"
  shows "match_var (''${'' @ n @ ''}'' @ rest) = Some (n, rest)"
proof -
  have all: "\<forall>c\<in>set n. is_name_char c" using assms(3) by (simp add: list_all_iff)
  have "takeWhile is_name_char (n @ ''}'' @ rest) = n" "dropWhile is_name_char (n @ ''}'' @ rest) = ''}'' @ rest"
    using all name_char_not_brace by (auto simp: takeWhile_append2 dropWhile_append2)
  with assms show ?thesis by (simp add: match_var_def Let_def)
qed

lemma match_var_no_dollar: "c \<noteq> CHR ''$'' \<Longrightarrow> match_var (c # s) = None"
  by (simp add: match_var_def)

lemma expandVariablesCore_Lit:
  "CHR ''$'' \<notin> set s \<Longrightarrow> expandVariablesCore env (s @ rest) =
     (s @ fst (expandVariablesCore env rest), snd (expandVariablesCore env rest))"
proof (induction s)
  case (Cons c s)
  then have "match_var ((c # s) @ rest) = None" using match_var_no_dollar[of c "s @ rest"] by auto
  with Cons show ?case by (subst expandVariablesCore.simps) (auto split: prod.split)
qed simp

lemma expandVariablesCore_Ref:
  assumes "n \<noteq> []" "is_name_start (hd n)" "list_all is_name_char n"
  shows "expandVariablesCore env (''${'' @ n @ ''}'' @ rest) =
     (piece_value env (Ref n) @ fst (expandVariablesCore env rest),
      piece_undefined env (Ref n) @ snd (expandVariablesCore env rest))"
  using match_var_Ref[OF assms, of rest]
  by (subst expandVariablesCore.simps) (auto split: option.split prod.split)

lemma expandVariablesCore_pieces:
  "list_all valid_piece ps \<Longrightarrow> expandVariablesCore env (concat (map piece_text ps)) =
     (concat (map (piece_value env) ps), concat (map (piece_undefined env) ps))"
proof (induction ps)
  case Nil
  then show ?case by (subst expandVariablesCore.simps) simp
next
  case (Cons p ps)
  show ?case
  proof (cases p)
    case (Lit s)
    with Cons show ?thesis by (simp add: valid_piece_def expandVariablesCore_Lit)
  next
    case (Ref n)
    with Cons.prems have "n \<noteq> []" "is_name_start (hd n)" "list_all is_name_char n" by (auto simp: valid_piece_def)
    from expandVariablesCore_Ref[OF this, of env "concat (map piece_text ps)"] Cons Ref show ?thesis by simp
  qed
qed

text \<open>Expansion is one pass: the values that are put in are not expanded again.\<close>

lemma expandVariables_pieces:
  assumes "list_all valid_piece ps"
  shows "expandVariables env (concat (map piece_text ps)) =
    (case concat (map (piece_undefined env) ps) of
       [] \<Rightarrow> Inr (concat (map (piece_value env) ps))
     | n # _ \<Rightarrow> Inl n)"
  by (simp add: expandVariables_def expandVariablesCore_pieces[OF assms] split: list.split)

end
