(* ===== verification/GuardPolicyParse.thy ===== *)
theory GuardPolicyParse imports GuardPolicy EnvUtil begin

text \<open>
  Decoding and finding guard policies: the \<open>UnmarshalJSON\<close> methods of \<open>guard_policy.go\<close> on JSON
  values, and \<open>guard_policy_parse.go\<close>. An object is a Go map in the iteration order of the loop
  that reads it. A text is parsed by an argument; marshalling a map and unmarshalling it again is
  the identity on JSON values.
\<close>

section \<open>Decoding into typed fields\<close>

text \<open>\<open>json.Unmarshal\<close> into a field that holds \<open>old\<close>: null leaves a string alone and empties a slice.\<close>

definition decode_string :: "string \<Rightarrow> json \<Rightarrow> string option" where
  "decode_string old v = (case v of JStr s \<Rightarrow> Some s | JNull \<Rightarrow> Some old | _ \<Rightarrow> None)"

fun decode_all :: "(json \<Rightarrow> 'a option) \<Rightarrow> json list \<Rightarrow> 'a list option" where
  "decode_all f [] = Some []"
| "decode_all f (v # vs) =
     (case (f v, decode_all f vs) of (Some x, Some xs) \<Rightarrow> Some (x # xs) | _ \<Rightarrow> None)"

definition decode_strings :: "json \<Rightarrow> string list option" where
  "decode_strings v =
     (case v of JArr xs \<Rightarrow> decode_all (decode_string []) xs | JNull \<Rightarrow> Some [] | _ \<Rightarrow> None)"

definition decode_int :: "json \<Rightarrow> int option" where
  "decode_int v = (case v of JNum n \<Rightarrow> atoi n | JNull \<Rightarrow> Some 0 | _ \<Rightarrow> None)"

text \<open>A map field keeps the entries it has; a null value stores the zero value.\<close>

fun decode_int_fields :: "(string \<times> json) list \<Rightarrow> (string \<times> int) list \<Rightarrow> (string \<times> int) list option" where
  "decode_int_fields [] m = Some m"
| "decode_int_fields ((k, v) # fs) m =
     (case decode_int v of None \<Rightarrow> None | Some n \<Rightarrow> decode_int_fields fs (AList.update k n m))"

definition decode_int_map :: "(string \<times> int) list \<Rightarrow> json \<Rightarrow> (string \<times> int) list option" where
  "decode_int_map old v =
     (case v of JObj fs \<Rightarrow> decode_int_fields fs old | JNull \<Rightarrow> Some [] | _ \<Rightarrow> None)"

definition field_or_error :: "string \<Rightarrow> 'a option \<Rightarrow> policy_error + 'a" where
  "field_or_error name r = (case r of None \<Rightarrow> Inl (BadField name) | Some x \<Rightarrow> Inr x)"

text \<open>\<open>strings.FieldsFunc\<close>: the non-empty runs between the separators.\<close>

fun fields_func :: "(char \<Rightarrow> bool) \<Rightarrow> string \<Rightarrow> string \<Rightarrow> string list" where
  "fields_func sep acc [] = (if acc = [] then [] else [acc])"
| "fields_func sep acc (c # cs) =
     (if sep c then (if acc = [] then fields_func sep [] cs else acc # fields_func sep [] cs)
      else fields_func sep (acc @ [c]) cs)"

definition label_separator :: "char \<Rightarrow> bool" where
  "label_separator c \<longleftrightarrow> c = CHR '','' \<or> c = CHR 0x0A"

definition unmarshalStringListOrExpression :: "json \<Rightarrow> string list option" where
  "unmarshalStringListOrExpression raw =
     (case decode_strings raw of
        Some values \<Rightarrow> Some values
      | None \<Rightarrow>
          (case decode_string [] raw of
             None \<Rightarrow> None
           | Some expr \<Rightarrow>
               (let parts = fields_func label_separator [] expr
                in if parts = [] then None
                   else
                     (let result = filter (\<lambda>t. t \<noteq> []) (map trim_space parts)
                      in if result = [] then None else Some result))))"

section \<open>Allow-only policies\<close>

definition decode_allow_only_field :: "string \<Rightarrow> json \<Rightarrow> allow_only_policy \<Rightarrow> policy_error + allow_only_policy" where
  "decode_allow_only_field key v p =
     (let k = to_lower key
      in if k = ''repos'' then Inr (p\<lparr>Repos := ReposJSON v\<rparr>)
         else if k = ''min-integrity'' \<or> k = ''integrity'' then
           map_sum id (\<lambda>x. p\<lparr>MinIntegrity := x\<rparr>) (field_or_error ''min-integrity'' (decode_string (MinIntegrity p) v))
         else if k = ''tool-call-limits'' then
           map_sum id (\<lambda>x. p\<lparr>ToolCallLimits := x\<rparr>) (field_or_error k (decode_int_map (ToolCallLimits p) v))
         else if k = ''blocked-users'' then
           map_sum id (\<lambda>x. p\<lparr>BlockedUsers := x\<rparr>) (field_or_error k (decode_strings v))
         else if k = ''refusal-labels'' then
           map_sum id (\<lambda>x. p\<lparr>RefusalLabels := x\<rparr>) (field_or_error k (unmarshalStringListOrExpression v))
         else if k = ''approval-labels'' then
           map_sum id (\<lambda>x. p\<lparr>ApprovalLabels := x\<rparr>) (field_or_error k (decode_strings v))
         else if k = ''trusted-users'' then
           map_sum id (\<lambda>x. p\<lparr>TrustedUsers := x\<rparr>) (field_or_error k (decode_strings v))
         else if k = ''endorsement-reactions'' then
           map_sum id (\<lambda>x. p\<lparr>EndorsementReactions := x\<rparr>) (field_or_error k (decode_strings v))
         else if k = ''disapproval-reactions'' then
           map_sum id (\<lambda>x. p\<lparr>DisapprovalReactions := x\<rparr>) (field_or_error k (decode_strings v))
         else if k = ''disapproval-integrity'' then
           map_sum id (\<lambda>x. p\<lparr>DisapprovalIntegrity := x\<rparr>) (field_or_error k (decode_string (DisapprovalIntegrity p) v))
         else if k = ''endorser-min-integrity'' then
           map_sum id (\<lambda>x. p\<lparr>EndorserMinIntegrity := x\<rparr>) (field_or_error k (decode_string (EndorserMinIntegrity p) v))
         else if k = ''promotion-label'' then
           map_sum id (\<lambda>x. p\<lparr>PromotionLabel := x\<rparr>) (field_or_error k (decode_string (PromotionLabel p) v))
         else if k = ''demotion-label'' then
           map_sum id (\<lambda>x. p\<lparr>DemotionLabel := x\<rparr>) (field_or_error k (decode_string (DemotionLabel p) v))
         else Inl (UnsupportedField key))"

fun decode_allow_only_fields :: "(string \<times> json) list \<Rightarrow> allow_only_policy \<Rightarrow> policy_error + allow_only_policy" where
  "decode_allow_only_fields [] p = Inr p"
| "decode_allow_only_fields ((k, v) # fs) p =
     and_then (decode_allow_only_field k v p) (decode_allow_only_fields fs)"

definition raw_fields :: "json \<Rightarrow> policy_error + (string \<times> json) list" where
  "raw_fields v = (case v of JObj fs \<Rightarrow> Inr fs | JNull \<Rightarrow> Inr [] | _ \<Rightarrow> Inl NotAnObject)"

definition AllowOnly_UnmarshalJSON :: "json \<Rightarrow> policy_error + allow_only_policy" where
  "AllowOnly_UnmarshalJSON data =
     and_then (raw_fields data) (\<lambda>fs.
     and_then (decode_allow_only_fields fs zero_allow_only) (\<lambda>p.
       if Repos p = ReposJSON JNull then Inl MissingRepos
       else (case RequiredStringField (trim_space (MinIntegrity p)) ''min-integrity'' of
               Some e \<Rightarrow> Inl e
             | None \<Rightarrow> Inr p)))"

section \<open>Write-sink policies\<close>

text \<open>
  The field-name folding of \<open>encoding/json\<close>: ASCII letters, the Kelvin sign (k) and the long s.
\<close>

fun json_fold :: "string \<Rightarrow> string" where
  "json_fold [] = []"
| "json_fold (c # s) =
     (if prefix [CHR 0xC5, CHR 0xBF] (c # s) then CHR ''s'' # json_fold (drop 1 s)
      else if prefix [CHR 0xE2, CHR 0x84, CHR 0xAA] (c # s) then CHR ''k'' # json_fold (drop 2 s)
      else lower_char c # json_fold s)"

fun decode_write_sink_fields :: "(string \<times> json) list \<Rightarrow> write_sink_policy \<Rightarrow> write_sink_policy option" where
  "decode_write_sink_fields [] p = Some p"
| "decode_write_sink_fields ((k, v) # fs) p =
     (if json_fold k = ''accept'' then
        (case decode_strings v of
           None \<Rightarrow> None
         | Some x \<Rightarrow> decode_write_sink_fields fs (p\<lparr>Accept := x\<rparr>))
      else if json_fold k = ''sink-visibility'' then
        (case decode_string (SinkVisibility p) v of
           None \<Rightarrow> None
         | Some x \<Rightarrow> decode_write_sink_fields fs (p\<lparr>SinkVisibility := x\<rparr>))
      else decode_write_sink_fields fs p)"

definition decode_write_sink :: "json \<Rightarrow> policy_error + write_sink_policy" where
  "decode_write_sink v =
     and_then (raw_fields v) (\<lambda>fs.
       field_or_error ''write-sink'' (decode_write_sink_fields fs \<lparr>Accept = [], SinkVisibility = []\<rparr>))"

section \<open>Guard policies\<close>

fun policy_keys_loop ::
  "(string \<times> json) list \<Rightarrow> json option \<Rightarrow> json option \<Rightarrow> policy_error + json option \<times> json option" where
  "policy_keys_loop [] ao ws = Inr (ao, ws)"
| "policy_keys_loop ((key, v) # fs) ao ws =
     (let k = to_lower key
      in if k = ''allow-only'' \<or> k = ''allowonly'' then policy_keys_loop fs (Some v) ws
         else if k = ''write-sink'' \<or> k = ''writesink'' then policy_keys_loop fs ao (Some v)
         else Inl (UnsupportedField key))"

definition GuardPolicy_UnmarshalJSON :: "json \<Rightarrow> policy_error + guard_policy" where
  "GuardPolicy_UnmarshalJSON data =
     and_then (raw_fields data) (\<lambda>fs.
     and_then (policy_keys_loop fs None None) (\<lambda>(ao, ws).
       (case (ao, ws) of
          (None, None) \<Rightarrow> Inl MissingPolicyKey
        | (Some _, Some _) \<Rightarrow> Inl BothPolicies
        | (Some a, None) \<Rightarrow>
            map_sum id (\<lambda>x. \<lparr>AllowOnly = Some x, WriteSink = None\<rparr>) (AllowOnly_UnmarshalJSON a)
        | (None, Some w) \<Rightarrow>
            map_sum id (\<lambda>x. \<lparr>AllowOnly = None, WriteSink = Some x\<rparr>) (decode_write_sink w))))"

definition validated :: "unicode_case \<Rightarrow> guard_policy \<Rightarrow> policy_error + guard_policy" where
  "validated uc p = (case ValidateGuardPolicy uc (Some p) of Some e \<Rightarrow> Inl e | None \<Rightarrow> Inr p)"

definition ParseGuardPolicyJSON ::
  "(string \<Rightarrow> json option) \<Rightarrow> unicode_case \<Rightarrow> string \<Rightarrow> policy_error + guard_policy" where
  "ParseGuardPolicyJSON unmarshal uc policyJSON =
     (case unmarshal policyJSON of
        None \<Rightarrow> Inl InvalidPolicyText
      | Some v \<Rightarrow> and_then (GuardPolicy_UnmarshalJSON v) (validated uc))"

definition hasMapKeyVariants :: "json_object \<Rightarrow> string list \<Rightarrow> bool" where
  "hasMapKeyVariants m keys = list_ex (\<lambda>k. map_of m k \<noteq> None) keys"

text \<open>\<open>sprint\<close> is \<open>fmt.Sprintf("%v")\<close> on a value that is not a string.\<close>

definition ParsePolicyMap ::
  "(json \<Rightarrow> string) \<Rightarrow> unicode_case \<Rightarrow> json_object \<Rightarrow> policy_error + guard_policy option" where
  "ParsePolicyMap sprint uc raw =
     (if raw = [] then Inr None
      else if hasMapKeyVariants raw [''allow-only'', ''allowonly''] \<or>
              hasMapKeyVariants raw [''write-sink'', ''writesink'']
      then map_sum id Some (and_then (GuardPolicy_UnmarshalJSON (JObj raw)) (validated uc))
      else
        (case map_of raw ''repos'' of
           None \<Rightarrow> Inr None
         | Some repos \<Rightarrow>
             (let integrityValue =
                (case map_of raw ''min-integrity'' of Some v \<Rightarrow> Some v | None \<Rightarrow> map_of raw ''integrity'')
              in case integrityValue of
                   None \<Rightarrow> Inl LegacyWithoutIntegrity
                 | Some v \<Rightarrow>
                     map_sum id Some (validated uc
                       \<lparr>AllowOnly = Some (zero_allow_only\<lparr>Repos := ReposJSON repos,
                          MinIntegrity := (case v of JStr s \<Rightarrow> s | _ \<Rightarrow> sprint v)\<rparr>), WriteSink = None\<rparr>))))"

definition ParseServerGuardPolicy ::
  "(json \<Rightarrow> string) \<Rightarrow> unicode_case \<Rightarrow> string \<Rightarrow> json_object \<Rightarrow> policy_error + guard_policy option" where
  "ParseServerGuardPolicy sprint uc serverID raw =
     (if raw = [] then Inr None
      else
        and_then (ParsePolicyMap sprint uc raw) (\<lambda>p.
          if p \<noteq> None then Inr p
          else
            and_then
              (case map_of raw serverID of
                 None \<Rightarrow> Inr None
               | Some (JObj nestedMap) \<Rightarrow> ParsePolicyMap sprint uc nestedMap
               | Some _ \<Rightarrow> Inl (ServerPolicyNotObject serverID))
              (\<lambda>q.
                if q \<noteq> None then Inr q
                else
                  (case raw of
                     [(_, JObj nestedMap)] \<Rightarrow> ParsePolicyMap sprint uc nestedMap
                   | _ \<Rightarrow> Inr None))))"

section \<open>Policies from flags and the environment\<close>

definition integrity_by_input :: "string \<Rightarrow> string option" where
  "integrity_by_input key = (if key \<in> set allIntegrityLevels then Some key else None)"

definition BuildAllowOnlyPolicy ::
  "unicode_case \<Rightarrow> bool \<Rightarrow> string \<Rightarrow> string \<Rightarrow> string \<Rightarrow> policy_error + guard_policy option" where
  "BuildAllowOnlyPolicy uc public owner0 repo0 minIntegrity =
     (let owner = trim_space owner0;
          repo = trim_space repo0;
          integrityInput = trim_space minIntegrity;
          integrityKey = to_lower (replace_all ''-'' [] integrityInput);
          scopeCount = (if public then 1 else 0) + (if owner \<noteq> [] then 1 else 0 :: nat)
      in if repo \<noteq> [] \<and> owner = [] then Inl ScopeRepoWithoutOwner
         else if scopeCount = 0 \<and> minIntegrity = [] then Inr None
         else if scopeCount \<noteq> 1 then Inl ScopeNotUnique
         else
           (case RequiredStringField integrityInput ''min-integrity'' of
              Some e \<Rightarrow> Inl e
            | None \<Rightarrow>
                (case integrity_by_input integrityKey of
                   None \<Rightarrow> Inl (BadIntegrity ''min-integrity'')
                 | Some level \<Rightarrow>
                     (let repos =
                        (if public then ReposJSON (JStr ''public'')
                         else ReposStrings [if repo \<noteq> [] then owner @ ''/'' @ repo else owner @ ''/*''])
                      in map_sum id Some (validated uc
                           \<lparr>AllowOnly = Some (zero_allow_only\<lparr>Repos := repos, MinIntegrity := level\<rparr>),
                            WriteSink = None\<rparr>)))))"

definition EnvGuardPolicyJSON :: string where "EnvGuardPolicyJSON = ''MCP_GATEWAY_GUARD_POLICY_JSON''"
definition EnvAllowOnlyScopePublic :: string where "EnvAllowOnlyScopePublic = ''MCP_GATEWAY_ALLOWONLY_SCOPE_PUBLIC''"
definition EnvAllowOnlyScopeOwner :: string where "EnvAllowOnlyScopeOwner = ''MCP_GATEWAY_ALLOWONLY_SCOPE_OWNER''"
definition EnvAllowOnlyScopeRepo :: string where "EnvAllowOnlyScopeRepo = ''MCP_GATEWAY_ALLOWONLY_SCOPE_REPO''"
definition EnvAllowOnlyMinIntegrity :: string where "EnvAllowOnlyMinIntegrity = ''MCP_GATEWAY_ALLOWONLY_MIN_INTEGRITY''"

text \<open>The policy and its source.\<close>

definition ResolveGuardPolicyOverride ::
  "(string \<Rightarrow> json option) \<Rightarrow> unicode_case \<Rightarrow> environment \<Rightarrow> bool \<Rightarrow> string \<Rightarrow> bool \<Rightarrow> string \<Rightarrow> string \<Rightarrow> string \<Rightarrow>
   policy_error + guard_policy option \<times> string" where
  "ResolveGuardPolicyOverride unmarshal uc env cliChanged cliPolicyJSON public owner repo minIntegrity =
     (if cliChanged then
        (if trim_space cliPolicyJSON \<noteq> []
         then map_sum id (\<lambda>p. (Some p, ''cli'')) (ParseGuardPolicyJSON unmarshal uc cliPolicyJSON)
         else map_sum id (\<lambda>p. (p, ''cli'')) (BuildAllowOnlyPolicy uc public owner repo minIntegrity))
      else
        (let envPolicyJSON = trim_space (GetEnvString env EnvGuardPolicyJSON [])
         in if envPolicyJSON \<noteq> []
            then map_sum id (\<lambda>p. (Some p, ''env'')) (ParseGuardPolicyJSON unmarshal uc envPolicyJSON)
            else if HasEnvVar env EnvAllowOnlyScopePublic \<or> HasEnvVar env EnvAllowOnlyScopeOwner \<or>
                    HasEnvVar env EnvAllowOnlyScopeRepo \<or> HasEnvVar env EnvAllowOnlyMinIntegrity
            then map_sum id (\<lambda>p. (p, ''env''))
                   (BuildAllowOnlyPolicy uc (GetEnvBool env EnvAllowOnlyScopePublic False)
                      (GetEnvString env EnvAllowOnlyScopeOwner []) (GetEnvString env EnvAllowOnlyScopeRepo [])
                      (GetEnvString env EnvAllowOnlyMinIntegrity []))
            else Inr (None, [])))"

text \<open>\<open>NormalizeScopeKind\<close> on the map that the guard reported; the folding is kept as text.\<close>

definition NormalizeScopeKind :: "unicode_case \<Rightarrow> json_object option \<Rightarrow> json_object option" where
  "NormalizeScopeKind uc policy =
     (case policy of
        None \<Rightarrow> None
      | Some m \<Rightarrow>
          (case map_of m ''scope_kind'' of
             Some (JStr s) \<Rightarrow> Some (AList.update ''scope_kind'' (JStr (ToLower uc (trim_space s))) m)
           | _ \<Rightarrow> Some m))"

section \<open>Whatever is found was validated\<close>

lemma validated_Inr: "validated uc p = Inr q \<longleftrightarrow> q = p \<and> ValidateGuardPolicy uc (Some p) = None"
  by (auto simp: validated_def split: option.splits)

lemma ParseGuardPolicyJSON_valid:
  "ParseGuardPolicyJSON unmarshal uc t = Inr p \<Longrightarrow> ValidateGuardPolicy uc (Some p) = None"
  by (auto simp: ParseGuardPolicyJSON_def and_then_Inr_iff validated_Inr split: option.splits)

lemma ParsePolicyMap_valid:
  "ParsePolicyMap sprint uc raw = Inr (Some p) \<Longrightarrow> ValidateGuardPolicy uc (Some p) = None"
  by (auto simp: ParsePolicyMap_def Let_def map_sum_Inr_iff and_then_Inr_iff validated_Inr split: if_splits option.splits)

lemma ParseServerGuardPolicy_valid:
  assumes "ParseServerGuardPolicy sprint uc sid raw = Inr (Some p)"
  shows "ValidateGuardPolicy uc (Some p) = None"
proof -
  obtain m where "ParsePolicyMap sprint uc m = Inr (Some p)"
    using assms
    by (auto simp: ParseServerGuardPolicy_def and_then_Inr_iff split: if_splits option.splits json.splits list.splits)
  then show ?thesis by (rule ParsePolicyMap_valid)
qed

lemma BuildAllowOnlyPolicy_Inr:
  assumes "BuildAllowOnlyPolicy uc public owner repo mi = Inr (Some p)"
  shows "ValidateGuardPolicy uc (Some p) = None"
    and "WriteSink p = None"
    and "\<exists>a. AllowOnly p = Some a \<and> MinIntegrity a \<in> set allIntegrityLevels \<and>
       Repos a = (if public then ReposJSON (JStr ''public'')
         else ReposStrings [trim_space owner @ ''/'' @ (if trim_space repo = [] then ''*'' else trim_space repo)])"
    and "public \<longleftrightarrow> trim_space owner = []"
  using assms
  by (auto simp: BuildAllowOnlyPolicy_def Let_def map_sum_Inr_iff validated_Inr integrity_by_input_def
      split: if_splits option.splits)

lemma ResolveGuardPolicyOverride_valid:
  assumes "ResolveGuardPolicyOverride unmarshal uc env c t public owner repo mi = Inr (Some p, src)"
  shows "ValidateGuardPolicy uc (Some p) = None" and "src = (if c then ''cli'' else ''env'')"
  using assms ParseGuardPolicyJSON_valid BuildAllowOnlyPolicy_Inr(1)
  by (fastforce simp: ResolveGuardPolicyOverride_def Let_def map_sum_Inr_iff split: if_splits)+

lemma GuardPolicy_UnmarshalJSON_one:
  "GuardPolicy_UnmarshalJSON v = Inr p \<Longrightarrow> (AllowOnly p = None) \<noteq> (WriteSink p = None)"
  by (auto simp: GuardPolicy_UnmarshalJSON_def and_then_Inr_iff map_sum_Inr_iff split: prod.splits option.splits)

lemma validate_allow_only:
  "WriteSink p = None \<Longrightarrow> ValidateGuardPolicy uc (Some p) = None \<Longrightarrow> \<exists>n. NormalizeGuardPolicy uc (Some p) = Inr n"
  by (auto simp: ValidateGuardPolicy_def split: sum.splits)

lemma validated_static:
  assumes "WriteSink p = None" and "ValidateGuardPolicy uc (Some p) = None"
  shows "\<exists>q. NormalizeStaticAllowOnlyPolicy (Some p) = Inr (Some q)"
proof -
  obtain n where "NormalizeGuardPolicy uc (Some p) = Inr n" using validate_allow_only[OF assms] by blast
  then obtain a where a: "AllowOnly p = Some a" and "normalize_allow_only uc a = Inr n"
    by (auto simp: NormalizeGuardPolicy_def split: option.splits if_splits)
  then have "\<exists>r. normalize_scope (Repos a) = Inr r" by (auto simp: normalize_allow_only_def and_then_Inr_iff)
  then obtain r where "NormalizeAllowOnlyReposValue (Repos a) = Inr r" using repos_value_agrees by metis
  with a show ?thesis by (simp add: NormalizeStaticAllowOnlyPolicy_def)
qed

end
