(* ===== verification/AgentPolicy.thy ===== *)
theory AgentPolicy imports GuardPolicyParse begin

text \<open>
  \<open>internal/config/agent_policy.go\<close> and the parts of \<open>config_core.go\<close> it reads: the configuration
  record, the agent IDs, the per-agent access policies and their validation. The entries of
  \<open>Servers\<close> and \<open>Guards\<close> are never nil pointers; those of \<open>AgentPolicies\<close> may be.
\<close>

record agent_policy =
  ap_Servers :: "string list"
  ap_Tools :: "(string \<times> string list) list"
  ap_AllowOnly :: "allow_only_policy option"
  Enclave :: bool

record gateway_config =
  AgentID :: string
  AgentIDs :: "string list"
  APIKey :: string
  agentIDExplicit :: bool
  TrustedBots :: "string list"
  ForcePublicRepos :: "bool option"
  SinkVisibilityExemptServers :: "string list"
  AgentPolicies :: "(string \<times> agent_policy option) list"

record server_config =
  sc_Tools :: "string list"
  sc_Prompts :: "string list"
  sc_GuardPolicies :: json_object
  sc_Guard :: string

record guard_config =
  gc_Type :: string
  gc_Path :: string
  gc_Policy :: "guard_policy option"

record config =
  Servers :: "(string \<times> server_config) list"
  GuardConfigs :: "(string \<times> guard_config) list"
  Gateway :: "gateway_config option"
  cfg_GuardPolicy :: "guard_policy option"
  GuardPolicySource :: string

section \<open>Agent IDs\<close>

definition effectiveAgentID :: "gateway_config option \<Rightarrow> string" where
  "effectiveAgentID g =
     (case g of
        None \<Rightarrow> []
      | Some g \<Rightarrow> if agentIDExplicit g then AgentID g else if AgentID g \<noteq> [] then AgentID g else APIKey g)"

definition GetAgentIDs :: "config \<Rightarrow> string list" where
  "GetAgentIDs c =
     (case Gateway c of
        None \<Rightarrow> []
      | Some g \<Rightarrow>
          (if AgentIDs g \<noteq> [] then AgentIDs g
           else (let i = effectiveAgentID (Gateway c) in if i \<noteq> [] then [i] else [])))"

definition GetAgentID :: "config \<Rightarrow> string" where
  "GetAgentID c = (case Gateway c of None \<Rightarrow> [] | Some g \<Rightarrow> effectiveAgentID (Some g))"

definition normalizeAgentID :: "bool \<Rightarrow> bool \<Rightarrow> gateway_config option \<Rightarrow> gateway_config option" where
  "normalizeAgentID agentIDDefined legacyAPIKeyDefined go =
     (case go of
        None \<Rightarrow> None
      | Some g \<Rightarrow>
          (let g1 = g\<lparr>agentIDExplicit := agentIDDefined\<rparr>;
               g2 = (if \<not> agentIDDefined \<and> legacyAPIKeyDefined then g1\<lparr>AgentID := APIKey g1\<rparr> else g1)
           in Some (g2\<lparr>APIKey := effectiveAgentID (Some g2)\<rparr>)))"

section \<open>Decisions\<close>

definition IsEnclave :: "agent_policy option \<Rightarrow> bool" where
  "IsEnclave p = (case p of None \<Rightarrow> False | Some a \<Rightarrow> Enclave a)"

definition AllowsServer :: "agent_policy option \<Rightarrow> string \<Rightarrow> bool" where
  "AllowsServer p serverID = (case p of None \<Rightarrow> False | Some a \<Rightarrow> list_ex (\<lambda>s. s = serverID) (ap_Servers a))"

definition AllowsTool :: "agent_policy option \<Rightarrow> string \<Rightarrow> string \<Rightarrow> bool" where
  "AllowsTool p serverID toolName =
     (if \<not> AllowsServer p serverID then False
      else
        (case p of
           None \<Rightarrow> False
         | Some a \<Rightarrow>
             (case map_of (ap_Tools a) serverID of
                None \<Rightarrow> True
              | Some tools \<Rightarrow> list_ex (\<lambda>t. t = ''*'' \<or> t = toolName) tools)))"

definition AgentPoliciesEnabled :: "config \<Rightarrow> bool" where
  "AgentPoliciesEnabled c = (case Gateway c of None \<Rightarrow> False | Some g \<Rightarrow> AgentPolicies g \<noteq> [])"

definition AgentPolicyFor :: "config \<Rightarrow> string \<Rightarrow> agent_policy option" where
  "AgentPolicyFor c i =
     (case Gateway c of
        None \<Rightarrow> None
      | Some g \<Rightarrow> (case map_of (AgentPolicies g) i of None \<Rightarrow> None | Some p \<Rightarrow> p))"

definition HasAgentAllowOnlyPolicies :: "config \<Rightarrow> bool" where
  "HasAgentAllowOnlyPolicies c =
     (case Gateway c of
        None \<Rightarrow> False
      | Some g \<Rightarrow>
          list_ex (\<lambda>(k, p). case p of None \<Rightarrow> False | Some a \<Rightarrow> ap_AllowOnly a \<noteq> None) (AgentPolicies g))"

section \<open>Validation\<close>

text \<open>An error names an agent by a hash of its ID, missing agents in hash order; here by the ID itself.\<close>

datatype agent_policy_error =
    PolicyForEveryAgent
  | UnknownAgentID string
  | MissingPolicies "string list"
  | NullPolicy string
  | EmptyServer
  | PaddedServer
  | UnknownServer string
  | DuplicateServer string
  | PaddedToolKey
  | ToolsForUnlistedServer string
  | EmptyTool string
  | PaddedTool string
  | DuplicateTool string string
  | BadAllowOnly policy_error

fun first_error :: "('a \<Rightarrow> 'e option) \<Rightarrow> 'a list \<Rightarrow> 'e option" where
  "first_error f [] = None"
| "first_error f (x # xs) = (case f x of Some e \<Rightarrow> Some e | None \<Rightarrow> first_error f xs)"

lemma first_error_None: "first_error f xs = None \<longleftrightarrow> (\<forall>x\<in>set xs. f x = None)"
  by (induction xs) (auto split: option.splits)

definition validate_server_ref :: "(string \<times> server_config) list \<Rightarrow> string \<Rightarrow> agent_policy_error option" where
  "validate_server_ref servers serverID =
     (let trimmed = trim_space serverID
      in if trimmed = [] then Some EmptyServer
         else if trimmed \<noteq> serverID then Some PaddedServer
         else if map_of servers trimmed = None then Some (UnknownServer trimmed)
         else None)"

definition validate_tool_name :: "string \<Rightarrow> string \<Rightarrow> agent_policy_error option" where
  "validate_tool_name serverID toolName =
     (let trimmed = trim_space toolName
      in if trimmed = [] then Some (EmptyTool serverID)
         else if trimmed \<noteq> toolName then Some (PaddedTool serverID)
         else None)"

definition validate_tool_entry :: "string list \<Rightarrow> string \<times> string list \<Rightarrow> agent_policy_error option" where
  "validate_tool_entry serverSet e =
     (case e of (serverID, tools) \<Rightarrow>
        (if trim_space serverID \<noteq> serverID then Some PaddedToolKey
         else if serverID \<notin> set serverSet then Some (ToolsForUnlistedServer serverID)
         else
           (case first_error (validate_tool_name serverID) tools of
              Some err \<Rightarrow> Some err
            | None \<Rightarrow> map_option (DuplicateTool serverID) (FindDuplicate (map trim_space tools)))))"

definition validateSingleAgentPolicy ::
  "unicode_case \<Rightarrow> agent_policy \<Rightarrow> (string \<times> server_config) list \<Rightarrow> agent_policy_error option" where
  "validateSingleAgentPolicy uc p servers =
     (case first_error (validate_server_ref servers) (ap_Servers p) of
        Some e \<Rightarrow> Some e
      | None \<Rightarrow>
          (let serverIDs = map trim_space (ap_Servers p)
           in case FindDuplicate serverIDs of
                Some d \<Rightarrow> Some (DuplicateServer d)
              | None \<Rightarrow>
                  (case first_error (validate_tool_entry serverIDs) (ap_Tools p) of
                     Some e \<Rightarrow> Some e
                   | None \<Rightarrow>
                       (case ap_AllowOnly p of
                          None \<Rightarrow> None
                        | Some a \<Rightarrow>
                            map_option BadAllowOnly
                              (ValidateGuardPolicy uc (Some \<lparr>AllowOnly = Some a, WriteSink = None\<rparr>))))))"

definition validateAgentPolicies :: "unicode_case \<Rightarrow> config \<Rightarrow> agent_policy_error option" where
  "validateAgentPolicies uc cfg =
     (case Gateway cfg of
        None \<Rightarrow> None
      | Some g \<Rightarrow>
          (let policies = AgentPolicies g; agentIDs = GetAgentIDs cfg
           in if policies = []
              then (if length agentIDs > 1 then Some PolicyForEveryAgent else None)
              else
                (case first_error (\<lambda>(policyID, p). if policyID \<in> set agentIDs then None
                        else Some (UnknownAgentID policyID)) policies of
                   Some e \<Rightarrow> Some e
                 | None \<Rightarrow>
                     (let missing = filter (\<lambda>i. map_of policies i = None) agentIDs
                      in if length agentIDs > 1 \<and> missing \<noteq> [] then Some (MissingPolicies missing)
                         else
                           first_error (\<lambda>(policyID, po).
                             case po of
                               None \<Rightarrow> Some (NullPolicy policyID)
                             | Some p \<Rightarrow> validateSingleAgentPolicy uc p (Servers cfg)) policies))))"

section \<open>What a validated configuration guarantees\<close>

lemma AllowsTool_AllowsServer: "AllowsTool p s t \<Longrightarrow> AllowsServer p s"
  by (auto simp: AllowsTool_def split: if_splits)

lemma AllowsTool_iff:
  "AllowsTool p s t \<longleftrightarrow>
     (\<exists>a. p = Some a \<and> s \<in> set (ap_Servers a) \<and>
        (\<forall>tools. map_of (ap_Tools a) s = Some tools \<longrightarrow> ''*'' \<in> set tools \<or> t \<in> set tools))"
  by (auto simp: AllowsTool_def AllowsServer_def list_ex_iff split: option.splits)

lemma validate_server_ref_None:
  "validate_server_ref servers s = None \<longleftrightarrow> trim_space s = s \<and> s \<noteq> [] \<and> s \<in> set (keys_of servers)"
proof (cases "trim_space s = s")
  case True
  then show ?thesis using map_of_None_keys[of servers s] by (simp add: validate_server_ref_def)
next
  case False
  then show ?thesis by (simp add: validate_server_ref_def Let_def)
qed

lemma validateSingle_None:
  assumes "validateSingleAgentPolicy uc p servers = None"
  shows "set (ap_Servers p) \<subseteq> set (keys_of servers)" and "distinct (ap_Servers p)"
    and "set (keys_of (ap_Tools p)) \<subseteq> set (ap_Servers p)"
    and "ap_AllowOnly p = Some a \<Longrightarrow> ValidateGuardPolicy uc (Some \<lparr>AllowOnly = Some a, WriteSink = None\<rparr>) = None"
proof -
  have v: "\<forall>s\<in>set (ap_Servers p). validate_server_ref servers s = None"
    using assms by (auto simp: validateSingleAgentPolicy_def first_error_None split: option.splits)
  then have t: "map trim_space (ap_Servers p) = ap_Servers p"
    by (auto simp: validate_server_ref_None map_idI)
  show "set (ap_Servers p) \<subseteq> set (keys_of servers)"
    using v unfolding validate_server_ref_None by blast
  show "distinct (ap_Servers p)"
    using assms t by (auto simp: validateSingleAgentPolicy_def Let_def FindDuplicate_None split: option.splits)
  have "\<forall>e\<in>set (ap_Tools p). validate_tool_entry (ap_Servers p) e = None"
    using assms t by (auto simp: validateSingleAgentPolicy_def Let_def first_error_None split: option.splits)
  then show "set (keys_of (ap_Tools p)) \<subseteq> set (ap_Servers p)"
    by (force simp: validate_tool_entry_def split: if_splits)
  show "ap_AllowOnly p = Some a \<Longrightarrow> ValidateGuardPolicy uc (Some \<lparr>AllowOnly = Some a, WriteSink = None\<rparr>) = None"
    using assms by (auto simp: validateSingleAgentPolicy_def Let_def split: option.splits)
qed

lemma validateAgentPolicies_None:
  assumes "validateAgentPolicies uc cfg = None" and "Gateway cfg = Some g"
  shows "AgentPolicies g = [] \<Longrightarrow> length (GetAgentIDs cfg) \<le> 1"
    and "(i, po) \<in> set (AgentPolicies g) \<Longrightarrow>
           i \<in> set (GetAgentIDs cfg) \<and> (\<exists>p. po = Some p \<and> validateSingleAgentPolicy uc p (Servers cfg) = None)"
    and "length (GetAgentIDs cfg) > 1 \<Longrightarrow> i \<in> set (GetAgentIDs cfg) \<Longrightarrow> AgentPolicyFor cfg i \<noteq> None"
proof -
  show "AgentPolicies g = [] \<Longrightarrow> length (GetAgentIDs cfg) \<le> 1"
    using assms by (auto simp: validateAgentPolicies_def Let_def split: if_splits)
  have e: "\<forall>(i, po)\<in>set (AgentPolicies g). i \<in> set (GetAgentIDs cfg) \<and>
      (\<exists>p. po = Some p \<and> validateSingleAgentPolicy uc p (Servers cfg) = None)" if "AgentPolicies g \<noteq> []"
    using assms that
    by (auto simp: validateAgentPolicies_def Let_def first_error_None split: if_splits option.splits)
  then show *: "(i, po) \<in> set (AgentPolicies g) \<Longrightarrow>
           i \<in> set (GetAgentIDs cfg) \<and> (\<exists>p. po = Some p \<and> validateSingleAgentPolicy uc p (Servers cfg) = None)"
    by fastforce
  assume m: "length (GetAgentIDs cfg) > 1" "i \<in> set (GetAgentIDs cfg)"
  then have ne: "AgentPolicies g \<noteq> []"
    using assms by (auto simp: validateAgentPolicies_def Let_def split: if_splits)
  then have "filter (\<lambda>i. map_of (AgentPolicies g) i = None) (GetAgentIDs cfg) = []"
    using assms m by (auto simp: validateAgentPolicies_def Let_def split: if_splits option.splits)
  then have "map_of (AgentPolicies g) i \<noteq> None" using m(2) by (auto simp: filter_empty_conv)
  then obtain po where po: "map_of (AgentPolicies g) i = Some po" by blast
  with e[OF ne] obtain p where "po = Some p" by (fastforce dest: map_of_SomeD)
  with po assms(2) show "AgentPolicyFor cfg i \<noteq> None" by (simp add: AgentPolicyFor_def)
qed

text \<open>With policies in force, what an agent may call is inside its own policy, on a server that exists.\<close>

lemma allowed_tool_configured:
  assumes "validateAgentPolicies uc cfg = None" and "AgentPoliciesEnabled cfg"
    and "AllowsTool (AgentPolicyFor cfg i) s t"
  shows "i \<in> set (GetAgentIDs cfg)" and "s \<in> set (keys_of (Servers cfg))"
proof -
  obtain g a where g: "Gateway cfg = Some g" and a: "map_of (AgentPolicies g) i = Some (Some a)" and s: "s \<in> set (ap_Servers a)"
    using assms(2,3) by (auto simp: AllowsTool_iff AgentPolicyFor_def AgentPoliciesEnabled_def split: option.splits)
  from validateAgentPolicies_None(2)[OF assms(1) g map_of_SomeD[OF a]]
  have "i \<in> set (GetAgentIDs cfg)" and v: "validateSingleAgentPolicy uc a (Servers cfg) = None" by auto
  then show "i \<in> set (GetAgentIDs cfg)" by blast
  show "s \<in> set (keys_of (Servers cfg))" using validateSingle_None(1)[OF v] s by blast
qed

end
