(* ===== verification/GuardPayload.thy ===== *)
theory GuardPayload imports AgentPolicy begin

text \<open>
  \<open>internal/guard/wasm_payload.go\<close>, with the \<open>MarshalJSON\<close> methods of \<open>guard_policy.go\<close>: how a
  policy becomes the input of the guard's \<open>label_agent\<close>. Serialized payloads are JSON values;
  a Go map marshals with its keys sorted.
\<close>

section \<open>Policies as JSON\<close>

definition json_int :: "int \<Rightarrow> json" where
  "json_int n = JNum (if n < 0 then ''-'' @ itoa (nat (- n)) else itoa (nat n))"

definition json_strings :: "string list \<Rightarrow> json" where
  "json_strings ss = JArr (map JStr ss)"

definition repos_json :: "repos_value \<Rightarrow> json" where
  "repos_json r = (case r of ReposJSON j \<Rightarrow> j | ReposStrings ss \<Rightarrow> json_strings ss)"

text \<open>The \<open>omitempty\<close> fields.\<close>

definition list_field :: "string \<Rightarrow> string list \<Rightarrow> json_object" where
  "list_field k ss = (if ss = [] then [] else [(k, json_strings ss)])"

definition text_field :: "string \<Rightarrow> string \<Rightarrow> json_object" where
  "text_field k s = (if s = [] then [] else [(k, JStr s)])"

definition limits_field :: "string \<Rightarrow> (string \<times> int) list \<Rightarrow> json_object" where
  "limits_field k m =
     (if m = [] then [] else [(k, JObj (map (\<lambda>(n, limit). (n, json_int limit)) (sort_key fst m)))])"

definition AllowOnly_MarshalJSON :: "allow_only_policy \<Rightarrow> json_object" where
  "AllowOnly_MarshalJSON p =
     [(''repos'', repos_json (Repos p)), (''min-integrity'', JStr (MinIntegrity p))] @
     limits_field ''tool-call-limits'' (ToolCallLimits p) @
     list_field ''blocked-users'' (BlockedUsers p) @
     list_field ''refusal-labels'' (RefusalLabels p) @
     list_field ''approval-labels'' (ApprovalLabels p) @
     list_field ''trusted-users'' (TrustedUsers p) @
     list_field ''endorsement-reactions'' (EndorsementReactions p) @
     list_field ''disapproval-reactions'' (DisapprovalReactions p) @
     text_field ''disapproval-integrity'' (DisapprovalIntegrity p) @
     text_field ''endorser-min-integrity'' (EndorserMinIntegrity p) @
     text_field ''promotion-label'' (PromotionLabel p) @
     text_field ''demotion-label'' (DemotionLabel p)"

definition write_sink_json :: "write_sink_policy \<Rightarrow> json_object" where
  "write_sink_json w =
     (''accept'', json_strings (Accept w)) # text_field ''sink-visibility'' (SinkVisibility w)"

definition GuardPolicy_MarshalJSON :: "guard_policy \<Rightarrow> json_object" where
  "GuardPolicy_MarshalJSON p =
     (case AllowOnly p of None \<Rightarrow> [] | Some a \<Rightarrow> [(''allow-only'', JObj (AllowOnly_MarshalJSON a))]) @
     (case WriteSink p of None \<Rightarrow> [] | Some w \<Rightarrow> [(''write-sink'', JObj (write_sink_json w))])"

definition GuardPolicyToMap :: "json \<Rightarrow> payload_error + json_object" where
  "GuardPolicyToMap policy =
     (case policy of
        JNull \<Rightarrow> Inl PolicyRequired
      | JObj fs \<Rightarrow> Inr fs
      | _ \<Rightarrow> Inl PayloadNotObject)"

section \<open>Building the payload\<close>

definition BuildLabelAgentPayload :: "json \<Rightarrow> string list \<Rightarrow> string list \<Rightarrow> json" where
  "BuildLabelAgentPayload policy trustedBots trustedUsers =
     (if trustedBots = [] \<and> trustedUsers = [] then policy
      else
        (case GuardPolicyToMap policy of
           Inl _ \<Rightarrow> policy
         | Inr payload \<Rightarrow>
             (let p1 = (if trustedBots \<noteq> []
                        then AList.update ''trusted-bots'' (json_strings trustedBots) payload else payload);
                  p2 = (if trustedUsers \<noteq> []
                        then (case map_of p1 ''allow-only'' of
                                Some (JObj ao) \<Rightarrow>
                                  AList.update ''allow-only''
                                    (JObj (AList.update ''trusted-users'' (json_strings trustedUsers) ao)) p1
                              | _ \<Rightarrow> p1)
                        else p1)
              in JObj p2)))"

definition normalizePolicyPayload :: "(string \<Rightarrow> json option) \<Rightarrow> json \<Rightarrow> payload_error + json" where
  "normalizePolicyPayload unmarshal policy =
     (case policy of
        JNull \<Rightarrow> Inl PolicyRequired
      | JStr s \<Rightarrow>
          (let trimmed = trim_space s
           in if trimmed = [] then Inl PolicyStringEmpty
              else (case unmarshal trimmed of
                      Some (JObj fs) \<Rightarrow> Inr (JObj fs)
                    | _ \<Rightarrow> Inl PolicyStringNotObject))
      | _ \<Rightarrow> Inr policy)"

definition ValidateStringArrayField :: "string \<Rightarrow> json \<Rightarrow> bool \<Rightarrow> payload_error option" where
  "ValidateStringArrayField field raw requireNonEmpty =
     (case raw of
        JArr arr \<Rightarrow>
          (if requireNonEmpty \<and> arr = [] then Some (InvalidStringArray field)
           else if list_all (\<lambda>e. case e of JStr s \<Rightarrow> trim_space s \<noteq> [] | _ \<Rightarrow> False) arr then None
           else Some (InvalidStringArray field))
      | _ \<Rightarrow> Some (InvalidStringArray field))"

definition trimmed_entry :: "json \<Rightarrow> json" where
  "trimmed_entry e = (case e of JStr s \<Rightarrow> JStr (trim_space s) | _ \<Rightarrow> e)"

definition normalizeLabelListField :: "string \<Rightarrow> json \<Rightarrow> payload_error + json list" where
  "normalizeLabelListField field raw =
     (case raw of
        JArr arr \<Rightarrow>
          (case ValidateStringArrayField field raw False of
             Some e \<Rightarrow> Inl e
           | None \<Rightarrow> Inr (map trimmed_entry arr))
      | JStr s \<Rightarrow>
          (let parts = fields_func label_separator [] s
           in if parts = [] then Inl (InvalidLabelList field)
              else
                (let out = filter (\<lambda>t. t \<noteq> []) (map trim_space parts)
                 in if out = [] then Inl (InvalidLabelList field) else Inr (map JStr out)))
      | _ \<Rightarrow> Inl (InvalidLabelList field))"

definition payload_keys :: "string list" where
  "payload_keys = [''allow-only'', ''allowonly'', ''trusted-bots'']"

definition allow_only_keys :: "string list" where
  "allow_only_keys =
     [''repos'', ''min-integrity'', ''integrity'', ''blocked-users'', ''refusal-labels'', ''approval-labels'',
      ''trusted-users'', ''endorsement-reactions'', ''disapproval-reactions'', ''disapproval-integrity'',
      ''endorser-min-integrity'']"

definition string_or_empty :: "json \<Rightarrow> string" where
  "string_or_empty v = (case v of JStr s \<Rightarrow> s | _ \<Rightarrow> [])"

definition check_integrity :: "string \<Rightarrow> json \<Rightarrow> payload_error option" where
  "check_integrity field v =
     (case ValidateAndNormalizeIntegrityField field (string_or_empty v) False of
        Inl _ \<Rightarrow> Some (InvalidIntegrity field)
      | Inr _ \<Rightarrow> None)"

text \<open>A check of a field that may be absent.\<close>

definition if_present :: "json_object \<Rightarrow> string \<Rightarrow> (string \<Rightarrow> json \<Rightarrow> payload_error option) \<Rightarrow> payload_error option" where
  "if_present m key check = (case map_of m key of None \<Rightarrow> None | Some v \<Rightarrow> check key v)"

fun first_check :: "'e option list \<Rightarrow> 'e option" where
  "first_check [] = None"
| "first_check (x # xs) = (case x of Some e \<Rightarrow> Some e | None \<Rightarrow> first_check xs)"

lemma first_check_None: "first_check xs = None \<longleftrightarrow> (\<forall>x\<in>set xs. x = None)"
  by (induction xs) (auto split: option.splits)

definition string_array :: "string \<Rightarrow> json \<Rightarrow> payload_error option" where
  "string_array field v = ValidateStringArrayField field v False"

text \<open>The checks of the allow-only object after its keys, and the object they leave.\<close>

definition strict_labels :: "json_object \<Rightarrow> payload_error + json_object" where
  "strict_labels ao =
     (case map_of ao ''refusal-labels'' of
        None \<Rightarrow> Inr ao
      | Some v \<Rightarrow>
          map_sum id (\<lambda>ls. AList.update ''refusal-labels'' (JArr ls) ao)
            (normalizeLabelListField ''refusal-labels'' v))"

definition strict_tail :: "json_object \<Rightarrow> json_object \<Rightarrow> payload_error + json_object" where
  "strict_tail payload ao =
     (case first_check
        [if_present ao ''approval-labels'' string_array,
         (case map_of payload ''trusted-bots'' of None \<Rightarrow> None
            | Some v \<Rightarrow> ValidateStringArrayField ''trusted-bots'' v True),
         if_present ao ''trusted-users'' string_array,
         if_present ao ''endorsement-reactions'' string_array,
         if_present ao ''disapproval-reactions'' string_array,
         if_present ao ''disapproval-integrity'' check_integrity,
         if_present ao ''endorser-min-integrity'' check_integrity] of
        Some e \<Rightarrow> Inl e
      | None \<Rightarrow> Inr ao)"

definition strict_allow_only :: "json_object \<Rightarrow> json_object \<Rightarrow> payload_error + json_object" where
  "strict_allow_only payload ao =
     (let (integrityRaw, integrityField) =
        (case map_of ao ''min-integrity'' of
           Some v \<Rightarrow> (Some v, ''min-integrity'')
         | None \<Rightarrow> (map_of ao ''integrity'', ''integrity''))
      in case (map_of ao ''repos'', integrityRaw) of
           (Some reposRaw, Some iv) \<Rightarrow>
             (case find (\<lambda>k. k \<notin> set allow_only_keys) (keys_of ao) of
                Some k \<Rightarrow> Inl (UnexpectedAllowOnlyKey k)
              | None \<Rightarrow>
                  (if \<not> IsValidAllowOnlyReposValue (ReposJSON reposRaw) then Inl InvalidRepos
                   else
                     (case NormalizeAllowOnlyReposValue (ReposJSON reposRaw) of
                        Inl _ \<Rightarrow> Inl InvalidRepos
                      | Inr repos \<Rightarrow>
                          (let ao1 = AList.update ''repos'' (repos_json repos) ao
                           in case first_check [check_integrity integrityField iv,
                                                if_present ao1 ''blocked-users'' string_array] of
                                Some e \<Rightarrow> Inl e
                              | None \<Rightarrow> and_then (strict_labels ao1) (strict_tail payload)))))
         | _ \<Rightarrow> Inl MissingReposOrIntegrity)"

definition nested_envelope :: "json \<Rightarrow> bool" where
  "nested_envelope policy =
     (case policy of
        JObj m \<Rightarrow> (case map_of m ''policy'' of Some (JObj n) \<Rightarrow> map_of n ''allow-only'' \<noteq> None | _ \<Rightarrow> False)
      | _ \<Rightarrow> False)"

definition buildStrictLabelAgentPayload :: "json \<Rightarrow> payload_error + json_object" where
  "buildStrictLabelAgentPayload policy =
     (if policy = JNull then Inl PolicyRequired
      else if nested_envelope policy then Inl LegacyPolicyEnvelope
      else
        and_then (GuardPolicyToMap policy) (\<lambda>payload.
          if map_of payload ''policy'' \<noteq> None then Inl LegacyPolicyEnvelope
          else
            (let (allowOnlyRaw, key) =
               (case map_of payload ''allow-only'' of
                  Some v \<Rightarrow> (Some v, ''allow-only'')
                | None \<Rightarrow> (map_of payload ''allowonly'', ''allowonly''))
             in case allowOnlyRaw of
                  None \<Rightarrow> Inl AllowOnlyKeyMissing
                | Some v \<Rightarrow>
                    (case find (\<lambda>k. k \<notin> set payload_keys) (keys_of payload) of
                       Some k \<Rightarrow> Inl (UnexpectedKey k)
                     | None \<Rightarrow>
                         (case v of
                            JObj ao \<Rightarrow>
                              map_sum id (\<lambda>ao'. AList.update key (JObj ao') payload) (strict_allow_only payload ao)
                          | _ \<Rightarrow> Inl AllowOnlyNotObject)))))"

text \<open>The input of the module's \<open>label_agent\<close>: the argument that \<open>wasm_LabelAgent\<close> takes.\<close>

definition wasm_agent_input :: "(string \<Rightarrow> json option) \<Rightarrow> json \<Rightarrow> guard_error + json" where
  "wasm_agent_input unmarshal policy =
     map_sum InvalidPayload JObj
       (and_then (normalizePolicyPayload unmarshal policy) buildStrictLabelAgentPayload)"

section \<open>Which validated policies the guard accepts\<close>

lemma field_lookup [simp]:
  "map_of (list_field k ss) j = (if ss \<noteq> [] \<and> j = k then Some (json_strings ss) else None)"
  "map_of (text_field k s) j = (if s \<noteq> [] \<and> j = k then Some (JStr s) else None)"
  "map_of (limits_field k m) j =
     (if m \<noteq> [] \<and> j = k then Some (JObj (map (\<lambda>(n, limit). (n, json_int limit)) (sort_key fst m))) else None)"
  by (auto simp: list_field_def text_field_def limits_field_def)

lemma field_keys [simp]:
  "keys_of (list_field k ss) = (if ss = [] then [] else [k])"
  "keys_of (text_field k s) = (if s = [] then [] else [k])"
  "keys_of (limits_field k m) = (if m = [] then [] else [k])"
  by (auto simp: list_field_def text_field_def limits_field_def)

lemma marshal_lookup:
  "map_of (AllowOnly_MarshalJSON a) ''repos'' = Some (repos_json (Repos a))"
  "map_of (AllowOnly_MarshalJSON a) ''min-integrity'' = Some (JStr (MinIntegrity a))"
  "map_of (AllowOnly_MarshalJSON a) ''blocked-users'' = (if BlockedUsers a = [] then None else Some (json_strings (BlockedUsers a)))"
  "map_of (AllowOnly_MarshalJSON a) ''refusal-labels'' = (if RefusalLabels a = [] then None else Some (json_strings (RefusalLabels a)))"
  "map_of (AllowOnly_MarshalJSON a) ''approval-labels'' = (if ApprovalLabels a = [] then None else Some (json_strings (ApprovalLabels a)))"
  "map_of (AllowOnly_MarshalJSON a) ''trusted-users'' = (if TrustedUsers a = [] then None else Some (json_strings (TrustedUsers a)))"
  "map_of (AllowOnly_MarshalJSON a) ''endorsement-reactions'' =
     (if EndorsementReactions a = [] then None else Some (json_strings (EndorsementReactions a)))"
  "map_of (AllowOnly_MarshalJSON a) ''disapproval-reactions'' =
     (if DisapprovalReactions a = [] then None else Some (json_strings (DisapprovalReactions a)))"
  "map_of (AllowOnly_MarshalJSON a) ''disapproval-integrity'' =
     (if DisapprovalIntegrity a = [] then None else Some (JStr (DisapprovalIntegrity a)))"
  "map_of (AllowOnly_MarshalJSON a) ''endorser-min-integrity'' =
     (if EndorserMinIntegrity a = [] then None else Some (JStr (EndorserMinIntegrity a)))"
  by (simp_all add: AllowOnly_MarshalJSON_def map_add_def)

lemma marshal_keys:
  "find (\<lambda>k. k \<notin> set allow_only_keys) (keys_of (AllowOnly_MarshalJSON a)) = None \<longleftrightarrow>
     ToolCallLimits a = [] \<and> PromotionLabel a = [] \<and> DemotionLabel a = []"
proof -
  have "find (\<lambda>k. k \<notin> set allow_only_keys) (keys_of (AllowOnly_MarshalJSON a)) = None \<longleftrightarrow>
      set (keys_of (AllowOnly_MarshalJSON a)) \<subseteq> set allow_only_keys"
    by (auto simp: find_None_iff)
  also have "\<dots> \<longleftrightarrow> ToolCallLimits a = [] \<and> PromotionLabel a = [] \<and> DemotionLabel a = []"
    unfolding AllowOnly_MarshalJSON_def map_append set_append field_keys by (simp add: allow_only_keys_def)
  finally show ?thesis .
qed

lemma strings_array_ok:
  "ValidateStringArrayField field (json_strings ss) False = None \<longleftrightarrow> (\<forall>s\<in>set ss. trim_space s \<noteq> [])"
  "ValidateStringArrayField field (json_strings ss) True = None \<longleftrightarrow> ss \<noteq> [] \<and> (\<forall>s\<in>set ss. trim_space s \<noteq> [])"
  by (auto simp: ValidateStringArrayField_def json_strings_def list_all_iff)

lemma slice_loop_trimmed:
  "slice_loop field cn st seen out vs = Inr out' \<Longrightarrow> \<forall>v\<in>set vs. trim_space v \<noteq> []"
  by (induction vs arbitrary: seen out)
     (auto simp: Let_def NonEmptyString_def RequiredStringField_def split: if_splits)

lemma stringSlice_trimmed:
  "normalizeStringSlice field vs cn st = Inr out \<Longrightarrow> \<forall>v\<in>set vs. trim_space v \<noteq> []"
  by (auto simp: normalizeStringSlice_def split: if_splits dest: slice_loop_trimmed)

lemma check_integrity_iff:
  "check_integrity f (JStr s) = None \<longleftrightarrow> NormalizeStringCI s \<in> set allIntegrityLevels"
  by (auto simp: check_integrity_def string_or_empty_def ValidateAndNormalizeIntegrityField_def
      NormalizeIntegrityLevel_def Let_def)

lemma integrity_field_ok:
  "(\<exists>v. ValidateAndNormalizeIntegrityField f raw False = Inr v) \<longleftrightarrow> NormalizeStringCI raw \<in> set allIntegrityLevels"
  "(\<exists>v. ValidateAndNormalizeIntegrityField f raw True = Inr v) \<longleftrightarrow>
     NormalizeStringCI raw \<in> set allIntegrityLevels \<or> NormalizeStringCI raw = []"
  by (auto simp: ValidateAndNormalizeIntegrityField_def NormalizeIntegrityLevel_def Let_def)

text \<open>What validation has established of the fields that the strict payload checks again.\<close>

definition fields_checked :: "allow_only_policy \<Rightarrow> bool" where
  "fields_checked a \<longleftrightarrow>
     (\<forall>s\<in>set (BlockedUsers a @ RefusalLabels a @ ApprovalLabels a @ TrustedUsers a @
            EndorsementReactions a @ DisapprovalReactions a). trim_space s \<noteq> []) \<and>
     NormalizeStringCI (MinIntegrity a) \<in> set allIntegrityLevels \<and>
     (\<exists>r. NormalizeAllowOnlyReposValue (Repos a) = Inr r)"

lemma normalize_allow_only_checked:
  assumes "normalize_allow_only uc a = Inr n"
  shows "fields_checked a"
    and "NormalizeStringCI (DisapprovalIntegrity a) \<in> set allIntegrityLevels \<or> NormalizeStringCI (DisapprovalIntegrity a) = []"
    and "NormalizeStringCI (EndorserMinIntegrity a) \<in> set allIntegrityLevels \<or> NormalizeStringCI (EndorserMinIntegrity a) = []"
proof -
  have "\<exists>r. normalize_scope (Repos a) = Inr r"
    using assms by (auto simp: normalize_allow_only_def and_then_Inr_iff)
  then have "\<exists>r. NormalizeAllowOnlyReposValue (Repos a) = Inr r" using repos_value_agrees by metis
  moreover have "NormalizeStringCI (MinIntegrity a) \<in> set allIntegrityLevels"
    using assms integrity_field_ok(1)[of "''allow-only.min-integrity''" "MinIntegrity a"]
    by (auto simp: normalize_allow_only_def and_then_Inr_iff)
  ultimately show "fields_checked a"
    using assms stringSlice_trimmed
    unfolding fields_checked_def normalize_allow_only_def and_then_Inr_iff by fastforce
  show "NormalizeStringCI (DisapprovalIntegrity a) \<in> set allIntegrityLevels \<or> NormalizeStringCI (DisapprovalIntegrity a) = []"
    using assms integrity_field_ok(2)[of "''allow-only.disapproval-integrity''" "DisapprovalIntegrity a"]
    by (auto simp: normalize_allow_only_def and_then_Inr_iff)
  show "NormalizeStringCI (EndorserMinIntegrity a) \<in> set allIntegrityLevels \<or> NormalizeStringCI (EndorserMinIntegrity a) = []"
    using assms integrity_field_ok(2)[of "''allow-only.endorser-min-integrity''" "EndorserMinIntegrity a"]
    by (auto simp: normalize_allow_only_def and_then_Inr_iff)
qed

lemma repos_json_roundtrip:
  assumes "NormalizeAllowOnlyReposValue r = Inr r"
  shows "NormalizeAllowOnlyReposValue (ReposJSON (repos_json r)) = Inr r"
    and "IsValidAllowOnlyReposValue (ReposJSON (repos_json r))"
proof -
  show "NormalizeAllowOnlyReposValue (ReposJSON (repos_json r)) = Inr r"
    using assms by (cases r) (simp_all add: repos_json_def json_strings_def NormalizeAllowOnlyReposValue_def)
  then show "IsValidAllowOnlyReposValue (ReposJSON (repos_json r))"
    unfolding valid_repos_agrees repos_value_agrees[symmetric] by blast
qed

lemma strict_tail_iff:
  "(\<exists>m. strict_tail payload ao = Inr m) \<longleftrightarrow>
     if_present ao ''approval-labels'' string_array = None \<and>
     (case map_of payload ''trusted-bots'' of None \<Rightarrow> None
        | Some v \<Rightarrow> ValidateStringArrayField ''trusted-bots'' v True) = None \<and>
     if_present ao ''trusted-users'' string_array = None \<and>
     if_present ao ''endorsement-reactions'' string_array = None \<and>
     if_present ao ''disapproval-reactions'' string_array = None \<and>
     if_present ao ''disapproval-integrity'' check_integrity = None \<and>
     if_present ao ''endorser-min-integrity'' check_integrity = None"
proof -
  have "(\<exists>m. (case x of None \<Rightarrow> Inr ao | Some e \<Rightarrow> Inl e) = Inr m) \<longleftrightarrow> x = None"
    for x :: "payload_error option" by (cases x) simp_all
  then show ?thesis unfolding strict_tail_def by (simp add: first_check_None del: first_check.simps)
qed

definition integrity_clear :: "string \<Rightarrow> bool" where
  "integrity_clear s \<longleftrightarrow> s = [] \<or> NormalizeStringCI s \<in> set allIntegrityLevels"

lemma strict_allow_only_iff:
  assumes "fields_checked a" and "NormalizeAllowOnlyReposValue (Repos a) = Inr (Repos a)"
    and "map_of payload ''trusted-bots'' = (if bots = [] then None else Some (json_strings bots))"
    and "\<forall>b\<in>set bots. trim_space b \<noteq> []"
  shows "(\<exists>m. strict_allow_only payload (AllowOnly_MarshalJSON a) = Inr m) \<longleftrightarrow>
     ToolCallLimits a = [] \<and> PromotionLabel a = [] \<and> DemotionLabel a = [] \<and>
     integrity_clear (DisapprovalIntegrity a) \<and> integrity_clear (EndorserMinIntegrity a)"
proof -
  note rt = repos_json_roundtrip[OF assms(2)]
  have labels: "normalizeLabelListField ''refusal-labels'' (json_strings (RefusalLabels a)) =
      Inr (map trimmed_entry (map JStr (RefusalLabels a)))"
    using assms(1) strings_array_ok(1)[of "''refusal-labels''" "RefusalLabels a"]
    by (simp add: normalizeLabelListField_def json_strings_def fields_checked_def)
  have arr: "ValidateStringArrayField f (json_strings ss) False = None"
    if "ss \<in> {BlockedUsers a, ApprovalLabels a, TrustedUsers a, EndorsementReactions a, DisapprovalReactions a}" for f ss
    using assms(1) that strings_array_ok(1)[of f ss] by (auto simp: fields_checked_def)
  have mi: "check_integrity ''min-integrity'' (JStr (MinIntegrity a)) = None"
    using assms(1) by (simp add: fields_checked_def check_integrity_iff)
  have tb: "bots \<noteq> [] \<Longrightarrow> ValidateStringArrayField ''trusted-bots'' (json_strings bots) True = None"
    using assms(4) by (simp add: strings_array_ok)
  show ?thesis
  proof (cases "find (\<lambda>k. k \<notin> set allow_only_keys) (keys_of (AllowOnly_MarshalJSON a))")
    case (Some k)
    then have "\<not> (ToolCallLimits a = [] \<and> PromotionLabel a = [] \<and> DemotionLabel a = [])"
      using marshal_keys[of a] by auto
    with Some show ?thesis by (auto simp: strict_allow_only_def marshal_lookup)
  next
    case None
    let ?ao = "AList.update ''repos'' (repos_json (Repos a)) (AllowOnly_MarshalJSON a)"
    obtain ao2 where ao2: "strict_labels ?ao = Inr ao2"
      and look: "\<And>k. k \<noteq> ''repos'' \<Longrightarrow> k \<noteq> ''refusal-labels'' \<Longrightarrow> map_of ao2 k = map_of (AllowOnly_MarshalJSON a) k"
    proof (cases "RefusalLabels a = []")
      case True
      then have "strict_labels ?ao = Inr ?ao" by (simp add: strict_labels_def marshal_lookup)
      then show ?thesis by (rule that) simp
    next
      case False
      then have "strict_labels ?ao = Inr (AList.update ''refusal-labels''
          (JArr (map trimmed_entry (map JStr (RefusalLabels a)))) ?ao)"
        by (simp add: strict_labels_def marshal_lookup labels)
      then show ?thesis by (rule that) simp
    qed
    have b: "first_check [check_integrity ''min-integrity'' (JStr (MinIntegrity a)),
        if_present ?ao ''blocked-users'' string_array] = None"
      by (simp add: if_present_def marshal_lookup string_array_def arr mi)
    have "strict_allow_only payload (AllowOnly_MarshalJSON a) = strict_tail payload ao2"
      using None b by (simp add: strict_allow_only_def marshal_lookup rt ao2)
    moreover have "(\<exists>m. strict_tail payload ao2 = Inr m) \<longleftrightarrow>
        integrity_clear (DisapprovalIntegrity a) \<and> integrity_clear (EndorserMinIntegrity a)"
      unfolding strict_tail_iff using tb
      by (simp add: if_present_def look marshal_lookup string_array_def arr assms(3)
          check_integrity_iff integrity_clear_def)
    ultimately show ?thesis using None marshal_keys[of a] by simp
  qed
qed

text \<open>
  The payload of an allow-only policy, as the server sends it. A policy that sets a tool call limit
  or a promotion or demotion label validates, but its payload has a key the guard rejects.
\<close>

lemma nested_envelope_marshal:
  "\<not> nested_envelope (BuildLabelAgentPayload (JObj (GuardPolicy_MarshalJSON p)) bots [])"
  by (cases "AllowOnly p"; cases "WriteSink p")
     (simp_all add: nested_envelope_def BuildLabelAgentPayload_def GuardPolicyToMap_def GuardPolicy_MarshalJSON_def)

lemma label_agent_payload_iff:
  assumes "AllowOnly p = Some a" and "WriteSink p = None"
    and "fields_checked a" and "NormalizeAllowOnlyReposValue (Repos a) = Inr (Repos a)"
    and "\<forall>b\<in>set bots. trim_space b \<noteq> []"
  shows "(\<exists>m. wasm_agent_input unmarshal (BuildLabelAgentPayload (JObj (GuardPolicy_MarshalJSON p)) bots []) = Inr m) \<longleftrightarrow>
     ToolCallLimits a = [] \<and> PromotionLabel a = [] \<and> DemotionLabel a = [] \<and>
     integrity_clear (DisapprovalIntegrity a) \<and> integrity_clear (EndorserMinIntegrity a)"
proof -
  let ?payload = "(''allow-only'', JObj (AllowOnly_MarshalJSON a)) #
      (if bots = [] then [] else [(''trusted-bots'', json_strings bots)])"
  have pl: "BuildLabelAgentPayload (JObj (GuardPolicy_MarshalJSON p)) bots [] = JObj ?payload"
    by (simp add: BuildLabelAgentPayload_def GuardPolicyToMap_def GuardPolicy_MarshalJSON_def assms(1,2))
  have keys: "find (\<lambda>k. k \<notin> set payload_keys) (keys_of ?payload) = None"
    by (simp add: payload_keys_def)
  have nest: "\<not> nested_envelope (JObj ?payload)" using nested_envelope_marshal[of p bots] pl by simp
  have strict: "buildStrictLabelAgentPayload (JObj ?payload) =
      map_sum id (\<lambda>ao. AList.update ''allow-only'' (JObj ao) ?payload) (strict_allow_only ?payload (AllowOnly_MarshalJSON a))"
    using nest keys by (simp add: buildStrictLabelAgentPayload_def GuardPolicyToMap_def)
  have "(\<exists>m. wasm_agent_input unmarshal (JObj ?payload) = Inr m) \<longleftrightarrow>
      (\<exists>m. strict_allow_only ?payload (AllowOnly_MarshalJSON a) = Inr m)"
    unfolding wasm_agent_input_def
    by (cases "strict_allow_only ?payload (AllowOnly_MarshalJSON a)")
       (simp_all add: normalizePolicyPayload_def strict)
  also have "\<dots> \<longleftrightarrow> ToolCallLimits a = [] \<and> PromotionLabel a = [] \<and> DemotionLabel a = [] \<and>
     integrity_clear (DisapprovalIntegrity a) \<and> integrity_clear (EndorserMinIntegrity a)"
    by (rule strict_allow_only_iff[OF assms(3,4) _ assms(5)]) simp
  finally show ?thesis unfolding pl .
qed

end
