(* ===== verification/GuardInit.thy ===== *)
theory GuardInit imports GuardPayload begin

text \<open>
  \<open>internal/guard/registry.go\<close>, \<open>internal/server/guard_init.go\<close>, \<open>guard_visibility.go\<close> and
  \<open>agent_policy_enforce.go\<close>, with \<open>enforceToolCallLimit\<close> of \<open>unified.go\<close> and the allow lists of
  \<open>tool_registry_helpers.go\<close>: which guard a server gets, which policy an agent gets, and the state a
  session keeps of them. Loading WebAssembly modules, the registered guard factories and the
  visibility that the GitHub API reports are fields of a platform record. The normalized policy
  that a guard reports back is kept for display only and is left out of the session state.
\<close>

section \<open>Installed guards\<close>

text \<open>The dynamic type decides the type assertions.\<close>

datatype guard_kind = NoopKind | WriteSinkKind write_sink_guard | WasmKind | OtherKind

record installed_guard =
  ig_guard :: guard
  ig_kind :: guard_kind

record platform =
  p_case :: unicode_case
  p_sprint :: "json \<Rightarrow> string"
  p_env :: environment
  p_discover :: "string \<Rightarrow> guard option"
  p_load :: "string \<Rightarrow> string \<Rightarrow> guard option"
  p_factory :: "string \<Rightarrow> installed_guard option"
  p_visibility :: "string option"
  p_session :: "guard \<Rightarrow> guard option"

definition installed_noop :: installed_guard where
  "installed_noop = \<lparr>ig_guard = NoopGuard, ig_kind = NoopKind\<rparr>"

definition installed_write_sink :: "write_sink_guard \<Rightarrow> installed_guard" where
  "installed_write_sink w = \<lparr>ig_guard = WriteSinkGuard w, ig_kind = WriteSinkKind w\<rparr>"

definition installed_wasm :: "guard \<Rightarrow> installed_guard" where
  "installed_wasm g = \<lparr>ig_guard = g, ig_kind = WasmKind\<rparr>"

definition guard_Name :: "installed_guard \<Rightarrow> string" where
  "guard_Name g = g_Name (ig_guard g)"

type_synonym guard_registry = "(string, installed_guard) registry"

definition gr_Register :: "string \<Rightarrow> installed_guard \<Rightarrow> guard_registry \<Rightarrow> guard_registry" where
  "gr_Register serverID g r = reg_Set serverID g r"

definition gr_Get :: "guard_registry \<Rightarrow> string \<Rightarrow> installed_guard" where
  "gr_Get r serverID = (case reg_Get r serverID of Some g \<Rightarrow> g | None \<Rightarrow> installed_noop)"

definition gr_Has :: "guard_registry \<Rightarrow> string \<Rightarrow> bool" where
  "gr_Has r serverID = reg_Has r serverID"

definition HasNonNoopGuard :: "guard_registry \<Rightarrow> bool" where
  "HasNonNoopGuard r =
     reg_Range (\<lambda>sid g found. if guard_Name g \<noteq> ''noop'' then (False, True) else (True, found)) r False"

definition is_write_sink :: "installed_guard \<Rightarrow> bool" where
  "is_write_sink g = (case ig_kind g of WriteSinkKind w \<Rightarrow> True | _ \<Rightarrow> False)"

definition HasNonNoopSourceGuard :: "guard_registry \<Rightarrow> bool" where
  "HasNonNoopSourceGuard r =
     reg_Range (\<lambda>sid g found. if guard_Name g \<noteq> ''noop'' \<and> \<not> is_write_sink g then (False, True) else (True, found)) r False"

definition gr_Remove :: "string \<Rightarrow> guard_registry \<Rightarrow> guard_registry" where
  "gr_Remove serverID r = reg_Remove serverID r"

definition gr_List :: "guard_registry \<Rightarrow> string list" where
  "gr_List r = reg_Keys r"

definition GetGuardInfo :: "guard_registry \<Rightarrow> (string \<times> string) list" where
  "GetGuardInfo r = reg_Range (\<lambda>sid g info. (True, AList.update sid (guard_Name g) info)) r []"

definition supports_sessions :: "installed_guard \<Rightarrow> bool" where
  "supports_sessions g = (ig_kind g \<noteq> OtherKind)"

definition NewSessionGuard :: "platform \<Rightarrow> installed_guard \<Rightarrow> guard option" where
  "NewSessionGuard plat template =
     (case ig_kind template of
        NoopKind \<Rightarrow> Some NoopGuard
      | WriteSinkKind w \<Rightarrow> Some (WriteSinkGuard (ws_NewSessionGuard w))
      | WasmKind \<Rightarrow> p_session plat (ig_guard template)
      | OtherKind \<Rightarrow> None)"

definition CreateGuard :: "platform \<Rightarrow> string \<Rightarrow> installed_guard option" where
  "CreateGuard plat name = (if name = ''noop'' \<or> name = [] then Some installed_noop else p_factory plat name)"

definition createGuardFromConfig :: "platform \<Rightarrow> string \<Rightarrow> guard_config \<Rightarrow> installed_guard option" where
  "createGuardFromConfig plat name gc =
     (if gc_Type gc = ''noop'' \<or> gc_Type gc = [] then Some installed_noop
      else if gc_Type gc = ''wasm''
      then (if gc_Path gc = [] then None else map_option installed_wasm (p_load plat name (gc_Path gc)))
      else CreateGuard plat (gc_Type gc))"

section \<open>Per-agent access and allow lists\<close>

definition agentPoliciesEnforced :: "config \<Rightarrow> bool" where
  "agentPoliciesEnforced cfg = AgentPoliciesEnabled cfg"

definition isMultiAgent :: "config \<Rightarrow> bool" where
  "isMultiAgent cfg = (length (GetAgentIDs cfg) > 1)"

definition agentCanAccessServer :: "config \<Rightarrow> string \<Rightarrow> string \<Rightarrow> bool" where
  "agentCanAccessServer cfg agent serverID =
     (if \<not> agentPoliciesEnforced cfg then True
      else (let policy = AgentPolicyFor cfg agent in if policy = None then False else AllowsServer policy serverID))"

definition agentCanUseTool :: "config \<Rightarrow> string \<Rightarrow> string \<Rightarrow> string \<Rightarrow> bool" where
  "agentCanUseTool cfg agent serverID toolName =
     (if \<not> agentPoliciesEnforced cfg then True
      else (let policy = AgentPolicyFor cfg agent in if policy = None then False else AllowsTool policy serverID toolName))"

definition hasWildcard :: "string list \<Rightarrow> bool" where
  "hasWildcard tools = list_ex (\<lambda>t. t = ''*'') tools"

fun allow_sets_loop :: "(server_config \<Rightarrow> string list) \<Rightarrow> (string \<times> server_config) list \<Rightarrow>
    (string \<times> string list) list \<Rightarrow> (string \<times> string list) list" where
  "allow_sets_loop field [] sets = sets"
| "allow_sets_loop field ((serverID, sc) # rest) sets =
     (if field sc = [] then allow_sets_loop field rest sets
      else if hasWildcard (field sc) then allow_sets_loop field rest sets
      else allow_sets_loop field rest (AList.update serverID (adjoin_all (field sc) []) sets))"

definition buildAllowedToolSets :: "config \<Rightarrow> (string \<times> string list) list" where
  "buildAllowedToolSets cfg = allow_sets_loop sc_Tools (Servers cfg) []"

definition buildAllowedPromptSets :: "config \<Rightarrow> (string \<times> string list) list" where
  "buildAllowedPromptSets cfg = allow_sets_loop sc_Prompts (Servers cfg) []"

definition isToolAllowed :: "(string \<times> string list) list \<Rightarrow> string \<Rightarrow> string \<Rightarrow> bool" where
  "isToolAllowed allowedToolSets serverID toolName =
     (case map_of allowedToolSets serverID of None \<Rightarrow> True | Some s \<Rightarrow> toolName \<in> set s)"

definition isPromptAllowed :: "(string \<times> string list) list \<Rightarrow> string \<Rightarrow> string \<Rightarrow> bool" where
  "isPromptAllowed allowedPromptSets serverID promptName =
     (case map_of allowedPromptSets serverID of None \<Rightarrow> True | Some s \<Rightarrow> promptName \<in> set s)"

section \<open>Resolving policies\<close>

definition legacyPolicySource :: string where "legacyPolicySource = ''legacy''"

definition hasServerGuardPolicies :: "config \<Rightarrow> bool" where
  "hasServerGuardPolicies cfg = list_ex (\<lambda>(sid, srv). sc_GuardPolicies srv \<noteq> []) (Servers cfg)"

definition resolveGuardPolicy :: "platform \<Rightarrow> config \<Rightarrow> string \<Rightarrow> policy_error + guard_policy option \<times> string" where
  "resolveGuardPolicy plat cfg serverID =
     (case cfg_GuardPolicy cfg of
        Some gp \<Rightarrow>
          (case ValidateGuardPolicy (p_case plat) (Some gp) of
             Some e \<Rightarrow> Inl e
           | None \<Rightarrow> Inr (Some gp, if GuardPolicySource cfg = [] then ''override'' else GuardPolicySource cfg))
      | None \<Rightarrow>
          (case map_of (Servers cfg) serverID of
             None \<Rightarrow> Inr (None, legacyPolicySource)
           | Some sc \<Rightarrow>
               (case ParseServerGuardPolicy (p_sprint plat) (p_case plat) serverID (sc_GuardPolicies sc) of
                  Inl e \<Rightarrow> Inl e
                | Inr (Some policy) \<Rightarrow> Inr (Some policy, ''server'')
                | Inr None \<Rightarrow>
                    (if sc_Guard sc = [] then Inr (None, legacyPolicySource)
                     else
                       (case map_of (GuardConfigs cfg) (sc_Guard sc) of
                          None \<Rightarrow> Inr (None, legacyPolicySource)
                        | Some gc \<Rightarrow>
                            (case gc_Policy gc of
                               None \<Rightarrow> Inr (None, legacyPolicySource)
                             | Some policy \<Rightarrow>
                                 (case ValidateGuardPolicy (p_case plat) (Some policy) of
                                    Some e \<Rightarrow> Inl e
                                  | None \<Rightarrow> Inr (Some policy, ''config''))))))))"

definition resolveGuardPolicyForAgent ::
  "platform \<Rightarrow> config \<Rightarrow> string \<Rightarrow> string \<Rightarrow> policy_error + guard_policy option \<times> string" where
  "resolveGuardPolicyForAgent plat cfg agent serverID =
     (case (if AgentPoliciesEnabled cfg then Option.bind (AgentPolicyFor cfg agent) ap_AllowOnly else None) of
        Some a \<Rightarrow>
          (let policy = \<lparr>AllowOnly = Some a, WriteSink = None\<rparr>
           in case ValidateGuardPolicy (p_case plat) (Some policy) of
                Some e \<Rightarrow> Inl e
              | None \<Rightarrow> Inr (Some policy, ''agent''))
      | None \<Rightarrow> resolveGuardPolicy plat cfg serverID)"

definition resolveWriteSinkPolicy :: "platform \<Rightarrow> config \<Rightarrow> string \<Rightarrow> write_sink_policy option" where
  "resolveWriteSinkPolicy plat cfg serverID =
     (case resolveGuardPolicy plat cfg serverID of
        Inr (Some policy, _) \<Rightarrow> WriteSink policy
      | _ \<Rightarrow> None)"

section \<open>Visibility\<close>

definition EffectiveSinkVisibility :: "string \<Rightarrow> string \<Rightarrow> string \<times> bool" where
  "EffectiveSinkVisibility configuredVisibility actual =
     (let configured = NormalizeStringCI configuredVisibility
      in if actual = ''public'' \<and> configured \<noteq> ''public'' then (''public'', True) else (configured, False))"

definition getTrustedBots :: "config \<Rightarrow> string list" where
  "getTrustedBots cfg = (case Gateway cfg of None \<Rightarrow> [] | Some g \<Rightarrow> TrustedBots g)"

definition verifySinkVisibilityAtRuntime :: "platform \<Rightarrow> string \<Rightarrow> string" where
  "verifySinkVisibilityAtRuntime plat configuredVisibility =
     (if configuredVisibility = [] then configuredVisibility
      else (case p_visibility plat of
              None \<Rightarrow> configuredVisibility
            | Some vis \<Rightarrow> fst (EffectiveSinkVisibility configuredVisibility vis)))"

definition EnvForcePublicRepos :: string where "EnvForcePublicRepos = ''MCP_GATEWAY_FORCE_PUBLIC_REPOS''"

definition force_disabled :: "config \<Rightarrow> bool" where
  "force_disabled cfg = (case Gateway cfg of None \<Rightarrow> False | Some g \<Rightarrow> ForcePublicRepos g = Some False)"

definition computeForcePublicRepos :: "platform \<Rightarrow> config \<Rightarrow> bool" where
  "computeForcePublicRepos plat cfg =
     (if force_disabled cfg then False
      else if \<not> GetEnvBool (p_env plat) EnvForcePublicRepos True then False
      else (case p_visibility plat of None \<Rightarrow> False | Some vis \<Rightarrow> vis = ''public''))"

definition isServerExemptFromSinkVisibility :: "config \<Rightarrow> string \<Rightarrow> bool" where
  "isServerExemptFromSinkVisibility cfg serverID =
     (case Gateway cfg of
        None \<Rightarrow> False
      | Some g \<Rightarrow>
          (if ForcePublicRepos g = Some False then True
           else list_ex (\<lambda>exempt. exempt = ''*'' \<or> exempt = serverID) (SinkVisibilityExemptServers g)))"

definition public_allow_only :: allow_only_policy where
  "public_allow_only = zero_allow_only\<lparr>Repos := ReposJSON (JStr ''public''), MinIntegrity := ''none''\<rparr>"

definition public_policy_map :: json where
  "public_policy_map = JObj [(''repos'', JStr ''public''), (''min-integrity'', JStr ''none'')]"

definition with_public_repos :: "guard_policy \<Rightarrow> guard_policy" where
  "with_public_repos p =
     p\<lparr>AllowOnly := Some (case AllowOnly p of
          None \<Rightarrow> public_allow_only
        | Some a \<Rightarrow> a\<lparr>Repos := ReposJSON (JStr ''public'')\<rparr>)\<rparr>"

definition set_server :: "string \<Rightarrow> server_config \<Rightarrow> config \<Rightarrow> config" where
  "set_server serverID sc cfg = cfg\<lparr>Servers := AList.update serverID sc (Servers cfg)\<rparr>"

definition overrideToPublicScope :: "platform \<Rightarrow> string \<Rightarrow> config \<Rightarrow> config" where
  "overrideToPublicScope plat serverID cfg =
     (case cfg_GuardPolicy cfg of
        Some gp \<Rightarrow>
          (if AllowOnly gp = None \<and> WriteSink gp \<noteq> None then cfg
           else cfg\<lparr>cfg_GuardPolicy := Some (with_public_repos gp)\<rparr>)
      | None \<Rightarrow>
          (case map_of (Servers cfg) serverID of
             None \<Rightarrow> cfg
           | Some sc \<Rightarrow>
               (if sc_GuardPolicies sc = []
                then set_server serverID (sc\<lparr>sc_GuardPolicies := [(''allow-only'', public_policy_map)]\<rparr>) cfg
                else
                  (case ParseServerGuardPolicy (p_sprint plat) (p_case plat) serverID (sc_GuardPolicies sc) of
                     Inl _ \<Rightarrow> cfg
                   | Inr None \<Rightarrow>
                       (if map_of (sc_GuardPolicies sc) ''write-sink'' = None
                        then set_server serverID
                               (sc\<lparr>sc_GuardPolicies := AList.update ''allow-only'' public_policy_map (sc_GuardPolicies sc)\<rparr>) cfg
                        else cfg)
                   | Inr (Some policy) \<Rightarrow>
                       (if AllowOnly policy = None \<and> WriteSink policy \<noteq> None then cfg
                        else set_server serverID
                               (sc\<lparr>sc_GuardPolicies := GuardPolicy_MarshalJSON (with_public_repos policy)\<rparr>) cfg)))))"

section \<open>Registering the guard of a server\<close>

definition IsSafeOutputsServer :: "string \<Rightarrow> bool" where
  "IsSafeOutputsServer serverID \<longleftrightarrow> serverID = ''safe-outputs'' \<or> serverID = ''safeoutputs''"

text \<open>The visibility that a write-sink server gets before the runtime check.\<close>

definition default_visibility :: "platform \<Rightarrow> config \<Rightarrow> string \<Rightarrow> string \<Rightarrow> string" where
  "default_visibility plat cfg serverID configured =
     (let v1 = (if configured = [] \<and> \<not> IsSafeOutputsServer serverID \<and> \<not> isServerExemptFromSinkVisibility cfg serverID
                then ''public'' else configured)
      in if v1 = [] \<and> IsSafeOutputsServer serverID \<and> \<not> isServerExemptFromSinkVisibility cfg serverID \<and>
            p_visibility plat = Some ''public''
         then ''public'' else v1)"

definition configured_guard :: "platform \<Rightarrow> config \<Rightarrow> string \<Rightarrow> installed_guard" where
  "configured_guard plat cfg serverID =
     (case map_of (Servers cfg) serverID of
        None \<Rightarrow> installed_noop
      | Some sc \<Rightarrow>
          (if sc_Guard sc = [] then installed_noop
           else
             (let created =
                (case map_of (GuardConfigs cfg) (sc_Guard sc) of
                   Some gc \<Rightarrow> createGuardFromConfig plat (sc_Guard sc) gc
                 | None \<Rightarrow> CreateGuard plat (sc_Guard sc))
              in case created of Some g \<Rightarrow> g | None \<Rightarrow> installed_noop)))"

definition choose_guard :: "platform \<Rightarrow> config \<Rightarrow> string \<Rightarrow> installed_guard" where
  "choose_guard plat cfg serverID =
     (case p_discover plat serverID of
        Some g \<Rightarrow> installed_wasm g
      | None \<Rightarrow>
          (case resolveWriteSinkPolicy plat cfg serverID of
             Some ws \<Rightarrow>
               (let vis = verifySinkVisibilityAtRuntime plat (default_visibility plat cfg serverID (SinkVisibility ws))
                in installed_write_sink (NewWriteSinkGuardWithVisibility (Accept ws) vis))
           | None \<Rightarrow> configured_guard plat cfg serverID))"

definition requireGuardPolicyIfGuardEnabled ::
  "platform \<Rightarrow> config \<Rightarrow> string \<Rightarrow> installed_guard \<Rightarrow> policy_error + installed_guard" where
  "requireGuardPolicyIfGuardEnabled plat cfg serverID g =
     (if guard_Name g = ''noop'' then Inr g
      else
        (case resolveGuardPolicy plat cfg serverID of
           Inl e \<Rightarrow> Inl e
         | Inr (Some _, _) \<Rightarrow> Inr g
         | Inr (None, _) \<Rightarrow>
             (if (case map_of (Servers cfg) serverID of None \<Rightarrow> False | Some sc \<Rightarrow> sc_GuardPolicies sc \<noteq> [])
              then Inr g
              else if HasAgentAllowOnlyPolicies cfg then Inr g
              else Inr installed_noop)))"

datatype register_error = PolicyInvalid policy_error | NoIsolatedSessions string string

definition registerGuard ::
  "platform \<Rightarrow> string \<Rightarrow> config \<Rightarrow> guard_registry \<Rightarrow> (register_error + guard_registry) \<times> config" where
  "registerGuard plat serverID cfg r =
     (let g = choose_guard plat cfg serverID;
          cfg1 = (if computeForcePublicRepos plat cfg then overrideToPublicScope plat serverID cfg else cfg)
      in case requireGuardPolicyIfGuardEnabled plat cfg1 serverID g of
           Inl e \<Rightarrow> (Inl (PolicyInvalid e), cfg1)
         | Inr g' \<Rightarrow>
             (if isMultiAgent cfg1 \<and> \<not> supports_sessions g'
              then (Inl (NoIsolatedSessions (guard_Name g') serverID), cfg1)
              else (Inr (gr_Register serverID g' r), cfg1)))"

text \<open>None when the check passes; the offending server otherwise.\<close>

definition validateSafeOutputsGuards ::
  "bool \<Rightarrow> enforcement_mode \<Rightarrow> string list \<Rightarrow> guard_registry \<Rightarrow> string option" where
  "validateSafeOutputsGuards enableDIFC m serverIDs r =
     (if \<not> enableDIFC \<or> m \<noteq> EnforcementStrict \<or> \<not> HasNonNoopSourceGuard r then None
      else find (\<lambda>sid. IsSafeOutputsServer sid \<and> guard_Name (gr_Get r sid) = ''noop'') serverIDs)"

end
