(* ===== verification/SessionState.thy ===== *)
theory SessionState imports GuardInit begin

text \<open>
  The sessions of \<open>internal/server\<close>: \<open>session.go\<close>, \<open>guardForSession\<close> and
  \<open>ensureGuardInitialized\<close> of \<open>guard_init.go\<close>, and \<open>enforceToolCallLimit\<close> of \<open>unified.go\<close>. The
  session map is guarded by a mutex that \<open>ensureGuardInitialized\<close> takes twice, around the call of
  the guard, so its look-up and its installation are two steps. The serialized payload that keys
  the cache is represented by the JSON value.
\<close>

record guard_session_state =
  PolicyHash :: json
  PolicySource :: string
  DIFCMode :: enforcement_mode
  gs_ToolCallLimits :: "(string \<times> int) list"
  ToolCallCounts :: "(string \<times> int) list"

record session =
  SessionID :: string
  GuardInit :: "(string \<times> guard_session_state) list"
  guardInstances :: "(string \<times> guard) list"

type_synonym sessions = "(string \<times> session) list"

definition NewSession :: "string \<Rightarrow> session" where
  "NewSession sid = \<lparr>SessionID = sid, GuardInit = [], guardInstances = []\<rparr>"

definition session_of :: "sessions \<Rightarrow> string \<Rightarrow> session" where
  "session_of ss sid = (case map_of ss sid of None \<Rightarrow> NewSession sid | Some s \<Rightarrow> s)"

text \<open>\<open>requireSession\<close>; creating the session's directory never fails the request.\<close>

definition requireSession :: "string \<Rightarrow> sessions \<Rightarrow> sessions" where
  "requireSession sid ss = (case map_of ss sid of Some s \<Rightarrow> ss | None \<Rightarrow> AList.update sid (NewSession sid) ss)"

definition getSessionKeys :: "sessions \<Rightarrow> string list" where
  "getSessionKeys ss = keys_of ss"

section \<open>Session identifiers\<close>

text \<open>
  On Linux \<open>filepath.VolumeName\<close> is empty and \<open>IsAbs\<close> is a leading slash; for a text that is
  neither empty, a dot name nor contains a slash, \<open>Base\<close> and \<open>Clean\<close> return it unchanged.
\<close>

definition isSinglePathSegmentSessionID :: "string \<Rightarrow> bool" where
  "isSinglePathSegmentSessionID sid =
     (if sid = [] \<or> sid = ''.'' \<or> sid = ''..'' then False
      else if prefix ''/'' sid then False
      else if CHR ''/'' \<in> set sid \<or> CHR 0x5C \<in> set sid then False
      else True)"

section \<open>Guards of a session\<close>

definition guardForSession ::
  "platform \<Rightarrow> config \<Rightarrow> guard_registry \<Rightarrow> string \<Rightarrow> string \<Rightarrow> sessions \<Rightarrow> guard option \<times> sessions" where
  "guardForSession plat cfg r sid serverID ss =
     (let template = gr_Get r serverID
      in if \<not> isMultiAgent cfg then (Some (ig_guard template), ss)
         else
           (let s = session_of ss sid;
                ss1 = AList.update sid s ss
            in case map_of (guardInstances s) serverID of
                 Some g \<Rightarrow> (Some g, ss1)
               | None \<Rightarrow>
                   (case NewSessionGuard plat template of
                      None \<Rightarrow> (None, ss1)
                    | Some g \<Rightarrow>
                        (Some g, AList.update sid (s\<lparr>guardInstances := AList.update serverID g (guardInstances s)\<rparr>) ss1))))"

definition closeSessionGuards :: "sessions \<Rightarrow> sessions" where
  "closeSessionGuards ss = map (\<lambda>(sid, s). (sid, s\<lparr>guardInstances := []\<rparr>)) ss"

section \<open>Initialization\<close>

text \<open>\<open>CopyTrimmedStringIntMap\<close> of \<open>internal/util\<close>.\<close>

definition CopyTrimmedStringIntMap :: "(string \<times> int) list \<Rightarrow> (string \<times> int) list" where
  "CopyTrimmedStringIntMap input = fold (\<lambda>(k, v). AList.update (trim_space k) v) input []"

record init_request =
  ir_policy :: guard_policy
  ir_source :: string
  ir_payload :: json

text \<open>The part before the cache is consulted; None is the legacy case without a policy.\<close>

definition init_request_of ::
  "platform \<Rightarrow> config \<Rightarrow> string \<Rightarrow> string \<Rightarrow> policy_error + init_request option" where
  "init_request_of plat cfg agent serverID =
     and_then (resolveGuardPolicyForAgent plat cfg agent serverID) (\<lambda>(policy, source).
       case policy of
         None \<Rightarrow> Inr None
       | Some p \<Rightarrow>
           and_then (NormalizeStaticAllowOnlyPolicy (Some p)) (\<lambda>q.
             case q of
               None \<Rightarrow> Inr None
             | Some p' \<Rightarrow>
                 Inr (Some \<lparr>ir_policy = p', ir_source = source,
                   ir_payload = BuildLabelAgentPayload (JObj (GuardPolicy_MarshalJSON p')) (getTrustedBots cfg) []\<rparr>)))"

definition init_cached :: "sessions \<Rightarrow> string \<Rightarrow> string \<Rightarrow> json \<Rightarrow> enforcement_mode option" where
  "init_cached ss sid serverID policyHash =
     (case map_of ss sid of
        None \<Rightarrow> None
      | Some s \<Rightarrow>
          (case map_of (GuardInit s) serverID of
             None \<Rightarrow> None
           | Some st \<Rightarrow> if PolicyHash st = policyHash then Some (DIFCMode st) else None))"

definition init_install :: "string \<Rightarrow> string \<Rightarrow> init_request \<Rightarrow> enforcement_mode \<Rightarrow> sessions \<Rightarrow> sessions" where
  "init_install sid serverID req m ss =
     (let s = session_of ss sid;
          limits = (case AllowOnly (ir_policy req) of
                      None \<Rightarrow> []
                    | Some a \<Rightarrow> CopyTrimmedStringIntMap (ToolCallLimits a))
      in AList.update sid
           (s\<lparr>GuardInit := AList.update serverID
                \<lparr>PolicyHash = ir_payload req, PolicySource = ir_source req, DIFCMode = m,
                 gs_ToolCallLimits = limits, ToolCallCounts = []\<rparr> (GuardInit s)\<rparr>) ss)"

datatype init_failure = PolicyFailure policy_error | LabelAgentFailure init_error

definition ensureGuardInitialized ::
  "platform \<Rightarrow> config \<Rightarrow> enforcement_mode \<Rightarrow> string \<Rightarrow> string \<Rightarrow> string \<Rightarrow> guard \<Rightarrow> agent_registry \<Rightarrow> sessions \<Rightarrow>
   (init_failure + enforcement_mode) \<times> agent_registry \<times> sessions" where
  "ensureGuardInitialized plat cfg defaultMode agent sid serverID g r ss =
     (case init_request_of plat cfg agent serverID of
        Inl e \<Rightarrow> (Inl (PolicyFailure e), r, ss)
      | Inr None \<Rightarrow> (Inr defaultMode, r, ss)
      | Inr (Some req) \<Rightarrow>
          (case init_cached ss sid serverID (ir_payload req) of
             Some m \<Rightarrow> (Inr m, r, ss)
           | None \<Rightarrow>
               (case RunLabelAgentForAgent g (ir_payload req) agent defaultMode r of
                  (Inl e, r1) \<Rightarrow> (Inl (LabelAgentFailure e), r1, ss)
                | (Inr (m, result), r1) \<Rightarrow> (Inr m, r1, init_install sid serverID req m ss))))"

section \<open>Tool call limits\<close>

record limit_error =
  le_tool :: string
  le_max :: int

definition count_of :: "guard_session_state \<Rightarrow> string \<Rightarrow> int" where
  "count_of st tool = (case map_of (ToolCallCounts st) tool of None \<Rightarrow> 0 | Some n \<Rightarrow> n)"

definition state_at :: "sessions \<Rightarrow> string \<Rightarrow> string \<Rightarrow> guard_session_state option" where
  "state_at ss sid serverID =
     (case map_of ss sid of None \<Rightarrow> None | Some s \<Rightarrow> map_of (GuardInit s) serverID)"

definition set_state :: "string \<Rightarrow> string \<Rightarrow> guard_session_state \<Rightarrow> sessions \<Rightarrow> sessions" where
  "set_state sid serverID st ss =
     (let s = session_of ss sid in AList.update sid (s\<lparr>GuardInit := AList.update serverID st (GuardInit s)\<rparr>) ss)"

definition enforceToolCallLimit :: "string \<Rightarrow> string \<Rightarrow> string \<Rightarrow> sessions \<Rightarrow> limit_error option \<times> sessions" where
  "enforceToolCallLimit sid serverID toolName ss =
     (case state_at ss sid serverID of
        None \<Rightarrow> (None, ss)
      | Some st \<Rightarrow>
          (if gs_ToolCallLimits st = [] then (None, ss)
           else
             (case map_of (gs_ToolCallLimits st) toolName of
                None \<Rightarrow> (None, ss)
              | Some limit \<Rightarrow>
                  (if limit = 0 then (None, ss)
                   else
                     (let current = count_of st toolName
                      in if current \<ge> limit then (Some \<lparr>le_tool = toolName, le_max = limit\<rparr>, ss)
                         else (None, set_state sid serverID
                                 (st\<lparr>ToolCallCounts := AList.update toolName (current + 1) (ToolCallCounts st)\<rparr>) ss))))))"

section \<open>Reading and writing\<close>

lemma map_of_session [simp]: "map_of ss sid = Some s \<Longrightarrow> session_of ss sid = s"
  by (simp add: session_of_def)

lemma state_at_set_state [simp]:
  "state_at (set_state sid sv st ss) sid' sv' =
     (if sid' = sid \<and> sv' = sv then Some st else state_at ss sid' sv')"
  by (auto simp: state_at_def set_state_def Let_def session_of_def NewSession_def split: option.splits)

lemma state_at_install:
  "state_at (init_install sid sv req m ss) sid' sv' =
     (if sid' = sid \<and> sv' = sv
      then Some \<lparr>PolicyHash = ir_payload req, PolicySource = ir_source req, DIFCMode = m,
        gs_ToolCallLimits = (case AllowOnly (ir_policy req) of None \<Rightarrow> [] | Some a \<Rightarrow> CopyTrimmedStringIntMap (ToolCallLimits a)),
        ToolCallCounts = []\<rparr>
      else state_at ss sid' sv')"
  by (auto simp: state_at_def init_install_def Let_def session_of_def NewSession_def split: option.splits)

lemma init_cached_state:
  "init_cached ss sid sv h = Some m \<longleftrightarrow> (\<exists>st. state_at ss sid sv = Some st \<and> PolicyHash st = h \<and> DIFCMode st = m)"
  by (auto simp: init_cached_def state_at_def split: option.splits)

text \<open>Once initialized, the guard is not called again for the same policy.\<close>

lemma ensure_twice:
  assumes "ensureGuardInitialized plat cfg d agent sid sv g r ss = (Inr m, r1, ss1)"
  shows "\<exists>m'. ensureGuardInitialized plat cfg d agent sid sv g r1 ss1 = (Inr m', r1, ss1) \<and> m' = m"
proof (cases "init_request_of plat cfg agent sv")
  case (Inr ro)
  show ?thesis
  proof (cases ro)
    case (Some req)
    show ?thesis
    proof (cases "init_cached ss sid sv (ir_payload req)")
      case None
      with Inr Some assms obtain res where ss1: "ss1 = init_install sid sv req m ss"
        by (auto simp: ensureGuardInitialized_def split: prod.splits sum.splits)
      then have "init_cached ss1 sid sv (ir_payload req) = Some m"
        by (simp add: init_cached_state state_at_install)
      with Inr Some show ?thesis by (simp add: ensureGuardInitialized_def)
    qed (use Inr Some assms in \<open>simp add: ensureGuardInitialized_def\<close>)
  qed (use Inr assms in \<open>simp add: ensureGuardInitialized_def\<close>)
qed (use assms in \<open>simp add: ensureGuardInitialized_def\<close>)

section \<open>The limit holds when initialization is not repeated\<close>

text \<open>The calls that pass, out of \<open>n\<close> attempts in a row on one tool.\<close>

fun passed :: "string \<Rightarrow> string \<Rightarrow> string \<Rightarrow> nat \<Rightarrow> sessions \<Rightarrow> nat" where
  "passed sid sv tool 0 ss = 0"
| "passed sid sv tool (Suc n) ss =
     (case enforceToolCallLimit sid sv tool ss of
        (None, ss') \<Rightarrow> Suc (passed sid sv tool n ss')
      | (Some e, ss') \<Rightarrow> passed sid sv tool n ss')"

lemma enforce_limited:
  assumes "state_at ss sid sv = Some st" and "map_of (gs_ToolCallLimits st) tool = Some limit" and "0 < limit"
  shows "enforceToolCallLimit sid sv tool ss =
    (if count_of st tool \<ge> limit then (Some \<lparr>le_tool = tool, le_max = limit\<rparr>, ss)
     else (None, set_state sid sv (st\<lparr>ToolCallCounts := AList.update tool (count_of st tool + 1) (ToolCallCounts st)\<rparr>) ss))"
proof -
  have "gs_ToolCallLimits st \<noteq> []" using assms(2) by auto
  with assms show ?thesis by (simp add: enforceToolCallLimit_def Let_def)
qed

lemma count_of_bump [simp]:
  "count_of (st\<lparr>ToolCallCounts := AList.update tool n (ToolCallCounts st)\<rparr>) tool' =
     (if tool' = tool then n else count_of st tool')"
  by (simp add: count_of_def)

lemma passed_exact:
  assumes "state_at ss sid sv = Some st" and "map_of (gs_ToolCallLimits st) tool = Some limit" and "0 < limit"
    and "0 \<le> count_of st tool" and "count_of st tool \<le> limit"
  shows "int (passed sid sv tool n ss) = min (int n) (limit - count_of st tool)"
  using assms
proof (induction n arbitrary: ss st)
  case (Suc n)
  note e = enforce_limited[OF Suc.prems(1-3)]
  show ?case
  proof (cases "count_of st tool \<ge> limit")
    case True
    then have "enforceToolCallLimit sid sv tool ss = (Some \<lparr>le_tool = tool, le_max = limit\<rparr>, ss)" using e by simp
    with Suc.IH[OF Suc.prems] True Suc.prems(5) show ?thesis by simp
  next
    case False
    let ?st = "st\<lparr>ToolCallCounts := AList.update tool (count_of st tool + 1) (ToolCallCounts st)\<rparr>"
    let ?ss = "set_state sid sv ?st ss"
    have s: "enforceToolCallLimit sid sv tool ss = (None, ?ss)" using e False by simp
    have "int (passed sid sv tool n ?ss) = min (int n) (limit - count_of ?st tool)"
      by (rule Suc.IH) (use Suc.prems False in simp_all)
    with s False show ?thesis by simp
  qed
qed simp

text \<open>Calls on other tools, servers or sessions do not use up the budget.\<close>

lemma enforce_other:
  assumes "(sid', sv', tool') \<noteq> (sid, sv, tool)" and "state_at ss sid sv = Some st"
  shows "\<exists>st'. state_at (snd (enforceToolCallLimit sid' sv' tool' ss)) sid sv = Some st' \<and>
    gs_ToolCallLimits st' = gs_ToolCallLimits st \<and> count_of st' tool = count_of st tool"
  using assms by (auto simp: enforceToolCallLimit_def Let_def split: option.splits)

text \<open>Any sequence of attempts, on any sessions, servers and tools: those that pass.\<close>

fun attempts :: "(string \<times> string \<times> string) list \<Rightarrow> sessions \<Rightarrow> (string \<times> string \<times> string) list" where
  "attempts [] ss = []"
| "attempts ((sid, sv, tool) # xs) ss =
     (case enforceToolCallLimit sid sv tool ss of
        (None, ss') \<Rightarrow> (sid, sv, tool) # attempts xs ss'
      | (Some e, ss') \<Rightarrow> attempts xs ss')"

lemma attempts_exact:
  assumes "state_at ss sid sv = Some st" and "map_of (gs_ToolCallLimits st) tool = Some limit" and "0 < limit"
    and "0 \<le> count_of st tool" and "count_of st tool \<le> limit"
  shows "int (count_list (attempts xs ss) (sid, sv, tool)) = min (int (count_list xs (sid, sv, tool))) (limit - count_of st tool)"
  using assms
proof (induction xs arbitrary: ss st)
  case (Cons x xs)
  obtain sid' sv' tool' where x: "x = (sid', sv', tool')" by (cases x)
  show ?case
  proof (cases "x = (sid, sv, tool)")
    case True
    note e = enforce_limited[OF Cons.prems(1-3)]
    show ?thesis
    proof (cases "count_of st tool \<ge> limit")
      case True
      with e \<open>x = (sid, sv, tool)\<close> Cons.IH[OF Cons.prems] Cons.prems(5) show ?thesis by simp
    next
      case False
      let ?st = "st\<lparr>ToolCallCounts := AList.update tool (count_of st tool + 1) (ToolCallCounts st)\<rparr>"
      have "int (count_list (attempts xs (set_state sid sv ?st ss)) (sid, sv, tool)) =
          min (int (count_list xs (sid, sv, tool))) (limit - count_of ?st tool)"
        by (rule Cons.IH) (use Cons.prems False in simp_all)
      with e False \<open>x = (sid, sv, tool)\<close> show ?thesis by simp
    qed
  next
    case False
    obtain r ss' where r: "enforceToolCallLimit sid' sv' tool' ss = (r, ss')" by fastforce
    obtain st' where st': "state_at ss' sid sv = Some st'" "gs_ToolCallLimits st' = gs_ToolCallLimits st"
        "count_of st' tool = count_of st tool"
      using enforce_other[of sid' sv' tool' sid sv tool ss st] False Cons.prems(1) x r by auto
    have "int (count_list (attempts xs ss') (sid, sv, tool)) =
        min (int (count_list xs (sid, sv, tool))) (limit - count_of st' tool)"
      by (rule Cons.IH) (use Cons.prems st' in simp_all)
    with False x r st'(3) show ?thesis by (cases r) auto
  qed
qed simp

section \<open>Session names and paths\<close>

lemma single_segment:
  "isSinglePathSegmentSessionID sid \<Longrightarrow> split_on CHR ''/'' sid = [sid] \<and> sid \<notin> {[], ''.'', ''..''}"
  by (auto simp: isSinglePathSegmentSessionID_def split_on_fresh split: if_splits)

lemma requireSession_registered:
  "map_of (requireSession sid ss) sid \<noteq> None"
  "map_of ss sid' = Some s \<Longrightarrow> map_of (requireSession sid ss) sid' = Some s"
  by (auto simp: requireSession_def split: option.splits)

end
