(* ===== verification/ToolResult.thy ===== *)
theory ToolResult imports McpResult begin

text \<open>
  \<open>internal/mcp/tool_result.go\<close>: from a backend's raw result to the SDK's call result. The SDK's
  resource type and \<open>encoding/json\<close>'s text output are arguments; \<open>encoding/base64\<close> is written out.
\<close>

section \<open>Base64\<close>

definition b64_val :: "char \<Rightarrow> nat option" where
  "b64_val c =
     (let n = of_char c :: nat
      in if 65 \<le> n \<and> n \<le> 90 then Some (n - 65)
         else if 97 \<le> n \<and> n \<le> 122 then Some (n - 71)
         else if 48 \<le> n \<and> n \<le> 57 then Some (n + 4)
         else if n = 43 then Some 62
         else if n = 47 then Some 63
         else None)"

definition b64_char :: "nat \<Rightarrow> char" where
  "b64_char v =
     char_of (if v < 26 then v + 65 else if v < 52 then v + 71 else if v < 62 then v - 4
              else if v = 62 then 43 else 47 :: nat)"

definition byte :: "nat \<Rightarrow> char" where
  "byte n = char_of n"

text \<open>The quanta of four digits; only the last may be padded, and its spare bits are ignored.\<close>

fun b64_quanta :: "string \<Rightarrow> string option" where
  "b64_quanta [] = Some []"
| "b64_quanta (a # b # c # d # rest) =
     (case (b64_val a, b64_val b) of
        (Some x, Some y) \<Rightarrow>
          (if rest = [] \<and> c = CHR ''='' \<and> d = CHR ''='' then Some [byte (x * 4 + y div 16)]
           else
             (case b64_val c of
                None \<Rightarrow> None
              | Some z \<Rightarrow>
                  (if rest = [] \<and> d = CHR ''='' then Some [byte (x * 4 + y div 16), byte (y mod 16 * 16 + z div 4)]
                   else
                     (case b64_val d of
                        None \<Rightarrow> None
                      | Some w \<Rightarrow>
                          map_option (\<lambda>bs. byte (x * 4 + y div 16) # byte (y mod 16 * 16 + z div 4) #
                                        byte (z mod 4 * 64 + w) # bs) (b64_quanta rest)))))
      | _ \<Rightarrow> None)"
| "b64_quanta _ = None"

definition b64_decode :: "string \<Rightarrow> string option" where
  "b64_decode s = b64_quanta (filter (\<lambda>c. c \<noteq> CHR 0x0A \<and> c \<noteq> CHR 0x0D) s)"

text \<open>\<open>StdEncoding.EncodeToString\<close>, the form in which the SDK writes bytes.\<close>

fun b64_encode :: "string \<Rightarrow> string" where
  "b64_encode [] = []"
| "b64_encode [p] =
     (let x = of_char p :: nat in [b64_char (x div 4), b64_char (x mod 4 * 16), CHR ''='', CHR ''=''])"
| "b64_encode [p, q] =
     (let x = of_char p :: nat; y = of_char q
      in [b64_char (x div 4), b64_char (x mod 4 * 16 + y div 16), b64_char (y mod 16 * 4), CHR ''=''])"
| "b64_encode (p # q # r # rest) =
     (let x = of_char p :: nat; y = of_char q; z = of_char r
      in b64_char (x div 4) # b64_char (x mod 4 * 16 + y div 16) # b64_char (y mod 16 * 4 + z div 64) #
         b64_char (z mod 64) # b64_encode rest)"

lemma b64_val_char: "v < 64 \<Longrightarrow> b64_val (b64_char v) = Some v"
  by (auto simp: b64_val_def b64_char_def of_char_of Let_def)

lemma b64_char_clean:
  assumes "v < 64"
  shows "b64_char v \<noteq> CHR ''=''" and "b64_char v \<noteq> CHR 0x0A" and "b64_char v \<noteq> CHR 0x0D"
proof -
  have "b64_val CHR ''='' = None" "b64_val CHR 0x0A = None" "b64_val CHR 0x0D = None"
    by (simp_all add: b64_val_def)
  then show "b64_char v \<noteq> CHR ''=''" and "b64_char v \<noteq> CHR 0x0A" and "b64_char v \<noteq> CHR 0x0D"
    using b64_val_char[OF assms] by auto
qed

lemma of_char_lt: "(of_char c :: nat) < 256"
  by (metis of_char_mod_256 mod_less_divisor zero_less_numeral)

lemma byte_of_char: "n = of_char c \<Longrightarrow> byte n = c"
  by (simp add: byte_def)

lemma b64_split:
  fixes x y z :: nat
  assumes "x < 256" "y < 256" "z < 256"
  shows "x div 4 < 64" "x mod 4 * 16 < 64" "x mod 4 * 16 + y div 16 < 64" "y mod 16 * 4 < 64"
    "y mod 16 * 4 + z div 64 < 64" "z mod 64 < 64"
    "x div 4 * 4 + x mod 4 * 16 div 16 = x" "x div 4 * 4 + (x mod 4 * 16 + y div 16) div 16 = x"
    "(x mod 4 * 16 + y div 16) mod 16 * 16 + y mod 16 * 4 div 4 = y"
    "(x mod 4 * 16 + y div 16) mod 16 * 16 + (y mod 16 * 4 + z div 64) div 4 = y"
    "(y mod 16 * 4 + z div 64) mod 4 * 64 + z mod 64 = z"
proof -
  have q: "y div 16 < 16" "z div 64 < 4" "x div 4 < 64" using assms by (auto intro: less_mult_imp_div_less)
  have m: "x mod 4 < 4" "y mod 16 < 16" by simp_all
  show "x div 4 < 64" "z mod 64 < 64" using q by simp_all
  show "x mod 4 * 16 < 64" "y mod 16 * 4 < 64" using m by linarith+
  show "x mod 4 * 16 + y div 16 < 64" "y mod 16 * 4 + z div 64 < 64" using m q by linarith+
  have d: "(x mod 4 * 16 + y div 16) div 16 = x mod 4" "(x mod 4 * 16 + y div 16) mod 16 = y div 16"
    "(y mod 16 * 4 + z div 64) div 4 = y mod 16" "(y mod 16 * 4 + z div 64) mod 4 = z div 64"
    using q by simp_all
  show "x div 4 * 4 + x mod 4 * 16 div 16 = x" by simp
  show "x div 4 * 4 + (x mod 4 * 16 + y div 16) div 16 = x" unfolding d by simp
  show "(x mod 4 * 16 + y div 16) mod 16 * 16 + y mod 16 * 4 div 4 = y" unfolding d by simp
  show "(x mod 4 * 16 + y div 16) mod 16 * 16 + (y mod 16 * 4 + z div 64) div 4 = y" unfolding d by simp
  show "(y mod 16 * 4 + z div 64) mod 4 * 64 + z mod 64 = z" unfolding d by simp
qed

lemma quanta2: "x < 64 \<Longrightarrow> y < 64 \<Longrightarrow>
    b64_quanta [b64_char x, b64_char y, CHR ''='', CHR ''=''] = Some [byte (x * 4 + y div 16)]"
  by (simp add: b64_val_char)

lemma quanta3: "x < 64 \<Longrightarrow> y < 64 \<Longrightarrow> z < 64 \<Longrightarrow>
    b64_quanta [b64_char x, b64_char y, b64_char z, CHR ''=''] =
      Some [byte (x * 4 + y div 16), byte (y mod 16 * 16 + z div 4)]"
  by (simp add: b64_val_char b64_char_clean)

lemma quanta4: "x < 64 \<Longrightarrow> y < 64 \<Longrightarrow> z < 64 \<Longrightarrow> w < 64 \<Longrightarrow>
    b64_quanta (b64_char x # b64_char y # b64_char z # b64_char w # rest) =
      map_option (\<lambda>bs. byte (x * 4 + y div 16) # byte (y mod 16 * 16 + z div 4) # byte (z mod 4 * 64 + w) # bs)
        (b64_quanta rest)"
  by (simp add: b64_val_char b64_char_clean)

lemma b64_quanta_encode: "b64_quanta (b64_encode s) = Some s"
proof (induction s rule: b64_encode.induct)
  case 1
  show ?case by simp
next
  case (2 p)
  note sp = b64_split[of "of_char p" 0 0, OF of_char_lt zero_less_numeral zero_less_numeral]
  have "byte (of_char p div 4 * 4 + of_char p mod 4 * 16 div 16) = p"
    by (rule byte_of_char) (rule sp(7))
  with quanta2[OF sp(1,2)] show ?case by (simp only: b64_encode.simps Let_def)
next
  case (3 p q)
  note sp = b64_split[of "of_char p" "of_char q" 0, OF of_char_lt of_char_lt zero_less_numeral]
  from quanta3[OF sp(1,3,4)] byte_of_char[OF sp(8)] byte_of_char[OF sp(9)] show ?case
    by (simp only: b64_encode.simps Let_def)
next
  case (4 p q r rest)
  note sp = b64_split[OF of_char_lt[of p] of_char_lt[of q] of_char_lt[of r]]
  from quanta4[OF sp(1,3,5,6), of "b64_encode rest"] byte_of_char[OF sp(8)] byte_of_char[OF sp(10)] byte_of_char[OF sp(11)]
  show ?case by (simp only: b64_encode.simps Let_def "4.IH" option.map)
qed

definition clean_digit :: "char \<Rightarrow> bool" where
  "clean_digit c \<longleftrightarrow> c \<noteq> CHR 0x0A \<and> c \<noteq> CHR 0x0D"

lemma clean_b64_char: "v < 64 \<Longrightarrow> clean_digit (b64_char v)"
  by (simp add: clean_digit_def b64_char_clean)

lemma b64_encode_clean: "list_all clean_digit (b64_encode s)"
proof (induction s rule: b64_encode.induct)
  case (2 p)
  note sp = b64_split[of "of_char p" 0 0, OF of_char_lt zero_less_numeral zero_less_numeral]
  have "clean_digit CHR ''=''" by (simp add: clean_digit_def)
  with sp(1,2)[THEN clean_b64_char] show ?case by (simp only: b64_encode.simps Let_def list.pred_inject simp_thms)
next
  case (3 p q)
  note sp = b64_split[of "of_char p" "of_char q" 0, OF of_char_lt of_char_lt zero_less_numeral]
  have "clean_digit CHR ''=''" by (simp add: clean_digit_def)
  with sp(1,3,4)[THEN clean_b64_char] show ?case by (simp only: b64_encode.simps Let_def list.pred_inject simp_thms)
next
  case (4 p q r rest)
  note sp = b64_split[OF of_char_lt[of p] of_char_lt[of q] of_char_lt[of r]]
  from sp(1,3,5,6)[THEN clean_b64_char] "4.IH" show ?case
    by (simp only: b64_encode.simps Let_def list.pred_inject simp_thms)
qed simp

lemma b64_roundtrip: "b64_decode (b64_encode s) = Some s"
proof -
  have "filter (\<lambda>c. c \<noteq> CHR 0x0A \<and> c \<noteq> CHR 0x0D) (b64_encode s) = b64_encode s"
    using b64_encode_clean[of s] by (auto simp: filter_id_conv clean_digit_def list_all_iff)
  then show ?thesis by (simp add: b64_decode_def b64_quanta_encode)
qed

section \<open>Call results\<close>

datatype content =
    TextContent string
  | ImageContent string string
  | AudioContent string string
  | EmbeddedResource json

record call_result =
  Content :: "content list"
  IsError :: bool

datatype convert_error =
    MarshalFailed
  | ContentItemNotMap nat
  | MissingData
  | BadBase64
  | UnsupportedData
  | BadResource

record result_codec =
  rc_marshal :: "json \<Rightarrow> string option"
  rc_resource :: "json \<Rightarrow> json option"

definition marshalValueToTextContentResult :: "result_codec \<Rightarrow> json \<Rightarrow> convert_error + call_result" where
  "marshalValueToTextContentResult cd v =
     (case rc_marshal cd v of
        None \<Rightarrow> Inl MarshalFailed
      | Some t \<Rightarrow> Inr \<lparr>Content = [TextContent t], IsError = False\<rparr>)"

definition decodeContentData :: "json_object \<Rightarrow> convert_error + string" where
  "decodeContentData ci =
     (case map_of ci ''data'' of
        None \<Rightarrow> Inl MissingData
      | Some JNull \<Rightarrow> Inl MissingData
      | Some (JStr v) \<Rightarrow> (case b64_decode v of None \<Rightarrow> Inl BadBase64 | Some d \<Rightarrow> Inr d)
      | Some _ \<Rightarrow> Inl UnsupportedData)"

text \<open>None is the skipped item.\<close>

definition convertContentItem :: "result_codec \<Rightarrow> json_object \<Rightarrow> convert_error + content option" where
  "convertContentItem cd ci =
     (let itemType = string_field ci ''type''
      in if itemType = ''text'' then Inr (Some (TextContent (string_field ci ''text'')))
         else if itemType = ''image'' then
           map_sum id (\<lambda>d. Some (ImageContent d (string_field ci ''mimeType''))) (decodeContentData ci)
         else if itemType = ''audio'' then
           map_sum id (\<lambda>d. Some (AudioContent d (string_field ci ''mimeType''))) (decodeContentData ci)
         else if itemType = ''resource'' then
           (case map_of ci ''resource'' of
              None \<Rightarrow> Inr None
            | Some JNull \<Rightarrow> Inr None
            | Some r \<Rightarrow> (case rc_resource cd r of None \<Rightarrow> Inl BadResource | Some res \<Rightarrow> Inr (Some (EmbeddedResource res))))
         else Inr (Some (TextContent (string_field ci ''text''))))"

fun collect_items :: "nat \<Rightarrow> json list \<Rightarrow> convert_error + json_object list" where
  "collect_items i [] = Inr []"
| "collect_items i (v # vs) =
     (case v of
        JObj fs \<Rightarrow> map_sum id (\<lambda>its. fs # its) (collect_items (Suc i) vs)
      | _ \<Rightarrow> Inl (ContentItemNotMap i))"

fun convert_items :: "result_codec \<Rightarrow> json_object list \<Rightarrow> content list \<Rightarrow> convert_error + content list" where
  "convert_items cd [] acc = Inr acc"
| "convert_items cd (ci # its) acc =
     (case convertContentItem cd ci of
        Inl e \<Rightarrow> Inl e
      | Inr None \<Rightarrow> convert_items cd its acc
      | Inr (Some c) \<Rightarrow> convert_items cd its (acc @ [c]))"

definition convertMapToCallToolResult :: "result_codec \<Rightarrow> json_object \<Rightarrow> convert_error + call_result" where
  "convertMapToCallToolResult cd m =
     (case map_of m ''content'' of
        Some (JArr xs) \<Rightarrow>
          (case collect_items 0 xs of
             Inl e \<Rightarrow> Inl e
           | Inr its \<Rightarrow>
               map_sum id (\<lambda>cs. \<lparr>Content = cs, IsError = IsErrorResult m\<rparr>) (convert_items cd its []))
      | _ \<Rightarrow> marshalValueToTextContentResult cd (JObj m))"

definition ConvertToCallToolResult :: "result_codec \<Rightarrow> json \<Rightarrow> convert_error + call_result" where
  "ConvertToCallToolResult cd data =
     (case data of
        JObj m \<Rightarrow> convertMapToCallToolResult cd m
      | _ \<Rightarrow> marshalValueToTextContentResult cd data)"

definition NewErrorCallToolResult :: "string \<Rightarrow> call_result" where
  "NewErrorCallToolResult msg = \<lparr>Content = [TextContent msg], IsError = True\<rparr>"

definition BuildMCPTextResponse :: "string \<Rightarrow> json_object" where
  "BuildMCPTextResponse t =
     [(''content'', JArr [JObj [(''type'', JStr ''text''), (''text'', JStr t)]])]"

lemma convert_text_response:
  "ConvertToCallToolResult cd (JObj (BuildMCPTextResponse t)) = Inr \<lparr>Content = [TextContent t], IsError = False\<rparr>"
  by (simp add: ConvertToCallToolResult_def convertMapToCallToolResult_def BuildMCPTextResponse_def
      convertContentItem_def string_field_def IsErrorResult_def Let_def)

text \<open>The error flag is the backend's, and a result in the form of the SDK keeps its blocks.\<close>

lemma convert_IsError:
  "ConvertToCallToolResult cd v = Inr r \<Longrightarrow> IsError r \<Longrightarrow> \<exists>m. v = JObj m \<and> IsErrorResult m"
  by (auto simp: ConvertToCallToolResult_def convertMapToCallToolResult_def marshalValueToTextContentResult_def
      map_sum_Inr_iff split: json.splits option.splits sum.splits)

end
