(* ===== verification/RateLimit.thy ===== *)
theory RateLimit imports CircuitBreaker ToolResult begin

text \<open>
  \<open>internal/githubhttp/rate_limit.go\<close> and \<open>internal/server/rate_limit.go\<close>: recognising GitHub's
  rate-limit answers and reading when the limit resets. \<open>lower\<close> is \<open>strings.ToLower\<close> where the
  length of the folded text matters.
\<close>

section \<open>Reset times\<close>

text \<open>\<open>time.Unix\<close>, on the clock that counts from the zero time.\<close>

definition unix_epoch :: int where "unix_epoch = 62135596800"

definition time_Unix :: "int \<Rightarrow> time" where
  "time_Unix secs = wrap64 (secs + unix_epoch) * second"

definition ParseRateLimitResetHeader :: "string \<Rightarrow> time" where
  "ParseRateLimitResetHeader v =
     (if v = [] then 0
      else (case atoi (trim_space v) of None \<Rightarrow> 0 | Some unix \<Rightarrow> time_Unix unix))"

text \<open>\<open>strings.Index\<close> and \<open>strings.IndexAny\<close> for ASCII characters; None is Go's -1.\<close>

fun index_of :: "string \<Rightarrow> string \<Rightarrow> nat option" where
  "index_of p [] = (if p = [] then Some 0 else None)"
| "index_of p (c # cs) = (if prefix p (c # cs) then Some 0 else map_option Suc (index_of p cs))"

fun index_any :: "char set \<Rightarrow> string \<Rightarrow> nat option" where
  "index_any C [] = None"
| "index_any C (c # cs) = (if c \<in> C then Some 0 else map_option Suc (index_any C cs))"

definition reset_marker :: string where "reset_marker = ''rate reset in ''"

text \<open>The slice expression \<open>text[idx+len(...):]\<close> panics when it starts beyond the end.\<close>

definition ParseRateLimitResetFromText :: "(string \<Rightarrow> string) \<Rightarrow> time \<Rightarrow> string \<Rightarrow> time go" where
  "ParseRateLimitResetFromText lower now t =
     (case index_of reset_marker (lower t) of
        None \<Rightarrow> Return 0
      | Some idx \<Rightarrow>
          (if idx + length reset_marker > length t then Panic
           else
             (let rest = drop (idx + length reset_marker) t
              in case index_any {CHR ''s'', CHR '']'', CHR '')''} rest of
                   None \<Rightarrow> Return 0
                 | Some n \<Rightarrow>
                     (case atoi (trim_space (take n rest)) of
                        None \<Rightarrow> Return 0
                      | Some secs \<Rightarrow>
                          (if secs \<le> 0 then Return 0 else Return (now + duration_of_seconds secs))))))"

definition IsRateLimitText :: "string \<Rightarrow> bool" where
  "IsRateLimitText t =
     (let l = to_lower t
      in contains_sub ''rate limit exceeded'' l \<or>
         (contains_sub ''rate limit'' l \<and> contains_sub ''403'' l) \<or>
         contains_sub ''api rate limit'' l \<or>
         contains_sub ''secondary rate limit'' l \<or>
         contains_sub ''too many requests'' l)"

record http_response =
  StatusCode :: int
  Header :: "string \<Rightarrow> string"

text \<open>\<open>Header\<close> is \<open>http.Header.Get\<close>, the empty string for a missing header.\<close>

definition RateLimitSignal :: "http_response option \<Rightarrow> bool \<times> string \<times> string" where
  "RateLimitSignal resp =
     (case resp of
        None \<Rightarrow> (False, [], [])
      | Some r \<Rightarrow>
          (let is429 = (StatusCode r = 429);
               remaining = Header r ''X-Ratelimit-Remaining'';
               limited = (is429 \<or> remaining = ''0'')
           in (limited, Header r ''X-Ratelimit-Reset'', remaining)))"

section \<open>Tool results\<close>

definition rate_limit_default :: string where "rate_limit_default = ''rate limit exceeded''"

definition extractRateLimitErrorText :: "json \<Rightarrow> string" where
  "extractRateLimitErrorText result =
     (case result of
        JObj m \<Rightarrow> (let t = ExtractTextContent m in if t \<noteq> [] then t else rate_limit_default)
      | _ \<Rightarrow> rate_limit_default)"

definition isRateLimitToolResult :: "(string \<Rightarrow> string) \<Rightarrow> time \<Rightarrow> json \<Rightarrow> (bool \<times> time) go" where
  "isRateLimitToolResult lower now result =
     (case result of
        JObj m \<Rightarrow>
          (if \<not> IsErrorResult m then Return (False, 0)
           else
             (let t = ExtractTextContent m
              in if IsRateLimitText t
                 then bind_go (ParseRateLimitResetFromText lower now t) (\<lambda>reset. Return (True, reset))
                 else Return (False, 0)))
      | _ \<Rightarrow> Return (False, 0))"

section \<open>When parsing is safe\<close>

lemma index_of_bound: "index_of p s = Some i \<Longrightarrow> i + length p \<le> length s \<and> prefix p (drop i s)"
proof (induction p s arbitrary: i rule: index_of.induct)
  case (2 p c cs)
  show ?case
  proof (cases "prefix p (c # cs)")
    case True
    with 2 have "i = 0" by simp
    moreover have "length p \<le> length (c # cs)" using True by (rule prefix_length_le)
    ultimately show ?thesis using True by simp
  next
    case False
    with 2 show ?thesis by auto
  qed
qed (auto split: if_splits)

text \<open>If folding keeps the length, no text panics.\<close>

lemma ParseReset_no_panic:
  assumes "length (lower t) = length t"
  shows "ParseRateLimitResetFromText lower now t \<noteq> Panic"
proof (cases "index_of reset_marker (lower t)")
  case (Some i)
  from index_of_bound[OF this] assms have "\<not> i + length reset_marker > length t" by simp
  with Some show ?thesis
    by (simp add: ParseRateLimitResetFromText_def Let_def split: option.split)
qed (simp add: ParseRateLimitResetFromText_def)

lemma ParseReset_panics:
  assumes "index_of reset_marker (lower t) = Some i" and "length t < i + length reset_marker"
  shows "ParseRateLimitResetFromText lower now t = Panic"
  using assms by (simp add: ParseRateLimitResetFromText_def)

lemma ParseReset_future:
  assumes "ParseRateLimitResetFromText lower now t = Return r" and "r \<noteq> 0"
  shows "\<exists>secs>0. r = now + duration_of_seconds secs"
  using assms by (auto simp: ParseRateLimitResetFromText_def Let_def split: option.splits if_splits) force+

lemma isRateLimit_Return:
  assumes "isRateLimitToolResult lower now v = Return (True, r)"
  obtains m where "v = JObj m" "IsErrorResult m" "IsRateLimitText (ExtractTextContent m)"
    "ParseRateLimitResetFromText lower now (ExtractTextContent m) = Return r"
  using assms by (auto simp: isRateLimitToolResult_def Let_def bind_go_Return_iff split: json.splits if_splits)

lemma isRateLimit_not_error:
  "(\<And>m. v = JObj m \<Longrightarrow> \<not> IsErrorResult m) \<Longrightarrow> isRateLimitToolResult lower now v = Return (False, 0)"
  by (cases v) (simp_all add: isRateLimitToolResult_def)

end
