(* ===== verification/DifcNotice.thy ===== *)
theory DifcNotice imports PipelineDecisions begin

text \<open>
  \<open>internal/server/difc_log.go\<close> and \<open>tool_policy.go\<close>: what the client is told of items that were
  withheld. The log entries themselves are output only and are not modelled.
\<close>

definition maxFilteredItemsInNotice :: nat where "maxFilteredItemsInNotice = 5"

text \<open>An em dash in UTF-8.\<close>

definition em_dash :: string where "em_dash = [CHR 0xE2, CHR 0x80, CHR 0x94]"

definition difcPolicyLabel :: "filtered_item_detail list \<Rightarrow> string" where
  "difcPolicyLabel ds =
     (let secrecyCount = length (filter is_secrecy_violation ds);
          integrityCount = length (filter (\<lambda>d. \<not> is_secrecy_violation d) ds)
      in if secrecyCount > 0 \<and> integrityCount = 0 then ''secrecy policy''
         else if integrityCount > 0 \<and> secrecyCount = 0 then ''integrity policy''
         else ''access policy'')"

definition item_description :: "filtered_item_detail \<Rightarrow> string" where
  "item_description d = (case item_labels (filtered_item d) of None \<Rightarrow> [] | Some r \<Rightarrow> description r)"

definition buildDIFCSingleItemFilteredError :: "filtered_item_detail \<Rightarrow> string" where
  "buildDIFCSingleItemFilteredError d =
     (let policyLabel = difcPolicyLabel [d];
          desc = item_description d;
          msg = ''[Filtered] '' @ (if desc \<noteq> [] then desc else ''resource'') @
                '' exists but is not accessible '' @ em_dash @ '' filtered by '' @ policyLabel
      in if filtered_reason d \<noteq> [] then msg @ '' ('' @ filtered_reason d @ '')'' else msg)"

fun notice_parts :: "filtered_item_detail list \<Rightarrow> string list" where
  "notice_parts [] = []"
| "notice_parts (d # ds) =
     (let desc = item_description d; reason = filtered_reason d
      in if desc = [] \<and> reason = [] then notice_parts ds
         else if desc \<noteq> [] \<and> reason \<noteq> [] then (desc @ '' ('' @ reason @ '')'') # notice_parts ds
         else if desc \<noteq> [] then desc # notice_parts ds
         else reason # notice_parts ds)"

definition buildDIFCFilteredNotice :: "filtered_collection option \<Rightarrow> string" where
  "buildDIFCFilteredNotice fo =
     (case fo of
        None \<Rightarrow> []
      | Some f \<Rightarrow>
          (let n = GetFilteredCount f
           in if n = 0 then []
              else
                (let policyLabel = difcPolicyLabel (filtered f);
                     parts = (if n \<le> maxFilteredItemsInNotice then notice_parts (filtered f) else []);
                     head = ''[Filtered] '' @ itoa n @ '' item(s) in this response were removed by '' @
                            policyLabel @ '' and are not shown''
                 in if parts \<noteq> [] then head @ '': '' @ join_with ''; '' parts @ ''.''
                    else head @ ''.'')))"

definition IsSingularReadTool :: "string \<Rightarrow> bool" where
  "IsSingularReadTool toolName =
     (let isCollection = (prefix ''list_'' toolName \<or> prefix ''search_'' toolName) in \<not> isCollection)"

text \<open>The notice says that something was withheld, and depends on the withheld items only through their labels.\<close>

lemma notice_empty_iff: "buildDIFCFilteredNotice (Some f) = [] \<longleftrightarrow> filtered f = []"
  by (auto simp: buildDIFCFilteredNotice_def Let_def GetFilteredCount_def)

definition same_notice :: "filtered_item_detail \<Rightarrow> filtered_item_detail \<Rightarrow> bool" where
  "same_notice d e \<longleftrightarrow> item_labels (filtered_item d) = item_labels (filtered_item e) \<and>
     filtered_reason d = filtered_reason e \<and> is_secrecy_violation d = is_secrecy_violation e"

lemma same_notice_parts: "list_all2 same_notice ds es \<Longrightarrow> notice_parts ds = notice_parts es"
  by (induction rule: list_all2_induct) (auto simp: same_notice_def item_description_def Let_def)

lemma same_notice_counts:
  "list_all2 same_notice ds es \<Longrightarrow>
     length (filter is_secrecy_violation ds) = length (filter is_secrecy_violation es) \<and>
     length (filter (\<lambda>d. \<not> is_secrecy_violation d) ds) = length (filter (\<lambda>d. \<not> is_secrecy_violation d) es)"
  by (induction rule: list_all2_induct) (auto simp: same_notice_def)

lemma same_notice_label: "list_all2 same_notice ds es \<Longrightarrow> difcPolicyLabel ds = difcPolicyLabel es"
  using same_notice_counts[of ds es] by (simp only: difcPolicyLabel_def)

lemma same_notice_text:
  "list_all2 same_notice (filtered f) (filtered g) \<Longrightarrow> buildDIFCFilteredNotice (Some f) = buildDIFCFilteredNotice (Some g)"
  using same_notice_parts[of "filtered f" "filtered g"] same_notice_label[of "filtered f" "filtered g"]
    list_all2_lengthD[of same_notice "filtered f" "filtered g"]
  by (simp add: buildDIFCFilteredNotice_def GetFilteredCount_def Let_def)

lemma same_notice_single:
  assumes "same_notice d e"
  shows "buildDIFCSingleItemFilteredError d = buildDIFCSingleItemFilteredError e"
proof -
  have 1: "difcPolicyLabel [d] = difcPolicyLabel [e]" using assms by (intro same_notice_label) simp
  have 2: "item_description d = item_description e" "filtered_reason d = filtered_reason e"
    using assms by (simp_all add: same_notice_def item_description_def)
  show ?thesis unfolding buildDIFCSingleItemFilteredError_def 1 2 ..
qed

end
