(* ===== verification/BackendCall.thy ===== *)
theory BackendCall imports Pipeline DelegationStore SessionState RateLimit DifcNotice begin

text \<open>
  \<open>internal/server/backend_call.go\<close>, \<open>prompt_call.go\<close> and the authorization of delegated executors
  in \<open>delegation.go\<close>: the path of a tool or prompt call from the client to the backend and back.
  The backend (launcher, connection, JSON-RPC) is the argument \<open>answer\<close>; \<open>gw_sent\<close> is the history
  of what the two handlers sent to it (a guard's own metadata reads belong to the guard). The clock readings of one call are an argument. Tracing and logging are
  not modelled; \<open>status_of\<close> is the status that the span records.
\<close>

record backend_request =
  br_server :: string
  br_session :: string
  br_method :: string
  br_name :: string
  br_args :: json

record 'h gateway =
  gw_agents :: agent_registry
  gw_sessions :: sessions
  gw_breakers :: "(string \<times> circuit_breaker) list"
  gw_store :: "'h delegation_store option"
  gw_sent :: "backend_request list"

text \<open>What does not change while the server runs.\<close>

record 'h server =
  sv_platform :: platform
  sv_config :: config
  sv_guards :: guard_registry
  allowedToolSets :: "(string \<times> string list) list"
  allowedPromptSets :: "(string \<times> string list) list"
  sv_mode :: enforcement_mode
  sv_sha :: "string \<Rightarrow> 'h"
  sv_lower :: "string \<Rightarrow> string"
  sv_codec :: result_codec

record call_times =
  at_live :: time
  at_authorize :: time
  at_allow :: time
  at_answer :: time

record call_ctx =
  cx_session :: string
  cx_agent :: string
  cx_enclave :: bool
  cx_authorized :: "(string \<times> string) option"

section \<open>Delegated executors\<close>

datatype delegation_denied =
    UnsupportedServer string
  | NotCanonicalArguments string
  | NotAuthorized authorize_error

definition delegatedToolRepository :: "string \<Rightarrow> json \<Rightarrow> string \<times> bool" where
  "delegatedToolRepository toolName args =
     (if \<not> IsDelegatedTool toolName then ([], False)
      else
        (case args of
           JObj m \<Rightarrow>
             (case (map_of m ''owner'', map_of m ''repo'') of
                (Some (JStr owner), Some (JStr repo)) \<Rightarrow>
                  (let repository = owner @ ''/'' @ repo in (repository, IsCanonicalRepositorySelector repository))
              | _ \<Rightarrow> ([], False))
         | _ \<Rightarrow> ([], False)))"

definition authorizeDelegatedToolCall ::
  "'h server \<Rightarrow> call_times \<Rightarrow> call_ctx \<Rightarrow> string \<Rightarrow> string \<Rightarrow> json \<Rightarrow> 'h gateway \<Rightarrow>
   (delegation_denied + call_ctx) \<times> 'h gateway" where
  "authorizeDelegatedToolCall sv t ctx serverID toolName args gw =
     (case gw_store gw of
        None \<Rightarrow> (Inr ctx, gw)
      | Some st \<Rightarrow>
          (let (live, st1) = HasLiveExecutorBearer (sv_sha sv) (at_live t) (cx_session ctx) st;
               gw1 = gw\<lparr>gw_store := Some st1\<rparr>
           in if \<not> live then (Inr ctx, gw1)
              else if serverID \<noteq> ''github'' then (Inl (UnsupportedServer serverID), gw1)
              else
                (let (repository, ok) = delegatedToolRepository toolName args
                 in if \<not> ok then (Inl (NotCanonicalArguments toolName), gw1)
                    else
                      (case AuthorizeExecutor (sv_sha sv) (at_authorize t) (cx_session ctx) repository toolName st1 of
                         (Inl e, st2) \<Rightarrow> (Inl (NotAuthorized e), gw\<lparr>gw_store := Some st2\<rparr>)
                       | (Inr handle, st2) \<Rightarrow>
                           (Inr (ctx\<lparr>cx_agent := ''delegation:'' @ handle, cx_enclave := True,
                                     cx_authorized := Some (serverID, toolName)\<rparr>),
                            gw\<lparr>gw_store := Some st2\<rparr>)))))"

definition delegatedToolAuthorized :: "call_ctx \<Rightarrow> string \<Rightarrow> string \<Rightarrow> bool" where
  "delegatedToolAuthorized ctx serverID toolName = (cx_authorized ctx = Some (serverID, toolName))"

text \<open>\<open>isDelegatedExecutorAuth\<close> and \<open>isDelegatedExecutorSession\<close>, on the header or the session ID.\<close>

definition isDelegatedExecutor :: "'h server \<Rightarrow> time \<Rightarrow> string \<Rightarrow> 'h gateway \<Rightarrow> bool \<times> 'h gateway" where
  "isDelegatedExecutor sv now bearer gw =
     (case gw_store gw of
        None \<Rightarrow> (False, gw)
      | Some st \<Rightarrow>
          (let (live, st1) = HasLiveExecutorBearer (sv_sha sv) now bearer st
           in (live, gw\<lparr>gw_store := Some st1\<rparr>)))"

definition delegatedAllowedMethods :: "string list" where
  "delegatedAllowedMethods =
     [''initialize'', ''notifications/initialized'', ''ping'', ''tools/list'', ''tools/call'']"

text \<open>
  The body as parsed JSON, object members in document order; one envelope or a batch.
  \<open>encoding/json\<close> matches the field name after folding, a later member overwrites an earlier one,
  null leaves the field unchanged. A missing method is the empty string.
\<close>

fun method_fields :: "(string \<times> json) list \<Rightarrow> string \<Rightarrow> string option" where
  "method_fields [] m = Some m"
| "method_fields ((k, v) # fs) m =
     (if json_fold k = ''method'' then
        (case v of
           JStr s \<Rightarrow> method_fields fs s
         | JNull \<Rightarrow> method_fields fs m
         | _ \<Rightarrow> None)
      else method_fields fs m)"

definition request_method :: "json \<Rightarrow> string option" where
  "request_method env =
     (case env of
        JObj fs \<Rightarrow>
          (case method_fields fs [] of
             None \<Rightarrow> None
           | Some m \<Rightarrow> if m = [] then None else Some m)
      | _ \<Rightarrow> None)"

fun all_methods :: "json list \<Rightarrow> string list option" where
  "all_methods [] = Some []"
| "all_methods (e # es) =
     (case request_method e of
        None \<Rightarrow> None
      | Some m \<Rightarrow> map_option (\<lambda>ms. m # ms) (all_methods es))"

definition parseDelegatedRequestMethods :: "json option \<Rightarrow> string list option" where
  "parseDelegatedRequestMethods body =
     (case body of
        None \<Rightarrow> None
      | Some (JArr envelopes) \<Rightarrow> if envelopes = [] then None else all_methods envelopes
      | Some e \<Rightarrow> all_methods [e])"

text \<open>True when the request goes on to the next handler.\<close>

definition rejectDelegatedNonToolMethods :: "bool \<Rightarrow> string \<Rightarrow> json option \<Rightarrow> bool" where
  "rejectDelegatedNonToolMethods isDelegated httpMethod body =
     (if \<not> isDelegated \<or> httpMethod \<noteq> ''POST'' then True
      else
        (case parseDelegatedRequestMethods body of
           None \<Rightarrow> False
         | Some methods \<Rightarrow>
             methods \<noteq> [] \<and> list_all (\<lambda>m. m \<in> set delegatedAllowedMethods) methods))"

section \<open>Replies\<close>

datatype call_error =
    DelegationDenied delegation_denied
  | AgentPolicyDenied string string
  | GuardSessionFailed
  | ToolNotAllowed string
  | InitFailed init_failure
  | LimitReached limit_error
  | AccessDenied string
  | LabelingFailed guard_error
  | BreakerOpen circuit_open_error
  | BackendFailed string
  | ResponseLabelingFailed guard_error
  | DataConversionFailed data_error
  | PolicyBlocked nat nat
  | SingleItemFiltered string
  | ResultConversionFailed convert_error
  | PromptNotObject
  | PromptNoMessages
  | PromptBadMessages
  | PromptBlocked
  | PromptUndecodable string

text \<open>Prompt calls record no status.\<close>

fun status_of :: "call_error \<Rightarrow> nat option" where
  "status_of (DelegationDenied _) = Some 403"
| "status_of (AgentPolicyDenied _ _) = Some 403"
| "status_of GuardSessionFailed = Some 500"
| "status_of (ToolNotAllowed _) = Some 403"
| "status_of (InitFailed _) = Some 500"
| "status_of (LimitReached _) = Some 429"
| "status_of (AccessDenied _) = Some 403"
| "status_of (LabelingFailed _) = Some 500"
| "status_of (BreakerOpen _) = Some 429"
| "status_of (BackendFailed _) = Some 500"
| "status_of (ResponseLabelingFailed _) = Some 500"
| "status_of (DataConversionFailed _) = Some 500"
| "status_of (PolicyBlocked _ _) = Some 403"
| "status_of (SingleItemFiltered _) = Some 403"
| "status_of (ResultConversionFailed _) = Some 500"
| "status_of _ = None"

text \<open>An error result; the unfiltered result of a rate-limited call; a result with its structured data.\<close>

datatype tool_reply =
    Failed call_error
  | RateLimited call_result json
  | Replied call_result json

definition violation_text :: "string option \<Rightarrow> string" where
  "violation_text m = (case m of Some t \<Rightarrow> t | None \<Rightarrow> ''unknown error'')"

section \<open>Before the backend is called\<close>

definition call_checks ::
  "'h server \<Rightarrow> call_times \<Rightarrow> call_ctx \<Rightarrow> string \<Rightarrow> string \<Rightarrow> json \<Rightarrow> 'h gateway \<Rightarrow>
   (call_error + call_ctx \<times> guard \<times> enforcement_mode) \<times> 'h gateway" where
  "call_checks sv t ctx serverID toolName args gw =
     (case authorizeDelegatedToolCall sv t ctx serverID toolName args gw of
        (Inl e, gw1) \<Rightarrow> (Inl (DelegationDenied e), gw1)
      | (Inr ctx1, gw1) \<Rightarrow>
          (if agentPoliciesEnforced (sv_config sv) \<and> \<not> delegatedToolAuthorized ctx1 serverID toolName \<and>
              \<not> agentCanUseTool (sv_config sv) (cx_agent ctx1) serverID toolName
           then (Inl (AgentPolicyDenied toolName serverID), gw1)
           else
             (case guardForSession (sv_platform sv) (sv_config sv) (sv_guards sv) (cx_session ctx1) serverID (gw_sessions gw1) of
                (None, ss1) \<Rightarrow> (Inl GuardSessionFailed, gw1\<lparr>gw_sessions := ss1\<rparr>)
              | (Some g, ss1) \<Rightarrow>
                  (if \<not> isToolAllowed (allowedToolSets sv) serverID toolName
                   then (Inl (ToolNotAllowed toolName), gw1\<lparr>gw_sessions := ss1\<rparr>)
                   else
                     (case ensureGuardInitialized (sv_platform sv) (sv_config sv) (sv_mode sv) (cx_agent ctx1)
                             (cx_session ctx1) serverID g (gw_agents gw1) ss1 of
                        (Inl e, r1, ss2) \<Rightarrow> (Inl (InitFailed e), gw1\<lparr>gw_agents := r1, gw_sessions := ss2\<rparr>)
                      | (Inr m, r1, ss2) \<Rightarrow>
                          (case enforceToolCallLimit (cx_session ctx1) serverID toolName ss2 of
                             (Some e, ss3) \<Rightarrow> (Inl (LimitReached e), gw1\<lparr>gw_agents := r1, gw_sessions := ss3\<rparr>)
                           | (None, ss3) \<Rightarrow> (Inr (ctx1, g, m), gw1\<lparr>gw_agents := r1, gw_sessions := ss3\<rparr>)))))))"

definition pipeline_input_of :: "string \<Rightarrow> string \<Rightarrow> json \<Rightarrow> guard \<Rightarrow> enforcement_mode \<Rightarrow> pipeline_input" where
  "pipeline_input_of agent toolName args g m =
     \<lparr>in_AgentID = agent, in_ToolName = toolName, in_Args = args, in_Guard = g,
      in_Evaluator = NewEvaluatorWithMode m, in_EnforcementMode = m\<rparr>"

text \<open>Phases 0 to 2, with a denial turned into its error.\<close>

definition call_prephases ::
  "pipeline_input \<Rightarrow> agent_registry \<Rightarrow> ((call_error + pre_result) \<times> agent_registry) go" where
  "call_prephases inp r =
     bind_go (RunPipelinePrePhases inp r) (\<lambda>(res, r1).
       case res of
         Inr pre \<Rightarrow> Return (Inr pre, r1)
       | Inl err \<Rightarrow>
           bind_go (HandlePrePhaseError err r1) (\<lambda>denied.
             case denied of
               Some (d, msg) \<Rightarrow> Return (Inl (AccessDenied (violation_text msg)), r1)
             | None \<Rightarrow>
                 (case err of
                    ResourceLabelingFailed e \<Rightarrow> Return (Inl (LabelingFailed e), r1)
                  | PipelineAccessDenied d \<Rightarrow> Return (Inl (AccessDenied (violation_text None)), r1))))"

section \<open>After the backend has answered\<close>

definition append_notice :: "filter_result \<Rightarrow> call_result \<Rightarrow> call_result" where
  "append_notice fr cr =
     (let notice = buildDIFCFilteredNotice (Filtered fr)
      in if notice \<noteq> [] then cr\<lparr>Content := Content cr @ [TextContent notice]\<rparr> else cr)"

definition call_finish ::
  "result_codec \<Rightarrow> enforcement_mode \<Rightarrow> pre_result \<Rightarrow> labeled_data option \<Rightarrow> filter_result \<Rightarrow> json \<Rightarrow> agent_registry \<Rightarrow>
   (tool_reply \<times> agent_registry) go" where
  "call_finish cd m pre ld fr final r =
     bind_go (RunPipelinePhase6 pre ld m r) (\<lambda>r1. Return
       (case ConvertToCallToolResult cd final of
          Inl e \<Rightarrow> (Failed (ResultConversionFailed e), r1)
        | Inr cr \<Rightarrow> (Replied (append_notice fr cr) final, r1)))"

text \<open>The responses that are withheld as a whole.\<close>

definition withheld :: "string \<Rightarrow> filter_result \<Rightarrow> call_error option" where
  "withheld toolName fr =
     (case Filtered fr of
        None \<Rightarrow> None
      | Some f \<Rightarrow>
          (if Blocked fr then Some (PolicyBlocked (GetFilteredCount f) (total_count f))
           else if GetFilteredCount f > 0 \<and> IsSingularReadTool toolName \<and> GetAccessibleCount f = 0 \<and> GetFilteredCount f = 1
           then Some (SingleItemFiltered (buildDIFCSingleItemFilteredError (hd (filtered f))))
           else None))"

definition coarse_denial :: "pre_result \<Rightarrow> agent_registry \<Rightarrow> call_error go" where
  "coarse_denial pre r =
     (case pre_Resource pre of
        None \<Rightarrow> Panic
      | Some res \<Rightarrow>
          (let a = heap r ! pre_AgentLabels pre
           in bind_go (FormatViolationError (pre_EvalResult pre) (agS a) (agI a) res)
                (\<lambda>msg. Return (AccessDenied (violation_text msg)))))"

definition call_response ::
  "result_codec \<Rightarrow> pipeline_input \<Rightarrow> pre_result \<Rightarrow> json \<Rightarrow> agent_registry \<Rightarrow> (tool_reply \<times> agent_registry) go" where
  "call_response cd inp pre backendResult r =
     (case RunPipelinePhase4 inp pre backendResult of
        Inl e \<Rightarrow> Return (Failed (ResponseLabelingFailed e), r)
      | Inr ld \<Rightarrow>
          (let a = heap r ! pre_AgentLabels pre; m = in_EnforcementMode inp
           in bind_go (FilterAndConvertLabeledData (in_Evaluator inp) (agS a) (agI a) (pre_Operation pre) ld m)
                (\<lambda>fo. case fo of
                   Inl e \<Rightarrow> Return (Failed (DataConversionFailed e), r)
                 | Inr fr \<Rightarrow>
                     (case withheld (in_ToolName inp) fr of
                        Some e \<Rightarrow> Return (Failed e, r)
                      | None \<Rightarrow>
                          (if ld \<noteq> None
                           then call_finish cd m pre ld fr (case FinalResult fr of Some v \<Rightarrow> v | None \<Rightarrow> JNull) r
                           else if \<not> IsAllowed (pre_EvalResult pre)
                           then bind_go (coarse_denial pre r) (\<lambda>e. Return (Failed e, r))
                           else call_finish cd m pre ld fr backendResult r)))))"

section \<open>The call\<close>

definition getCircuitBreaker :: "string \<Rightarrow> (string \<times> circuit_breaker) list \<Rightarrow> circuit_breaker" where
  "getCircuitBreaker serverID breakers =
     (case map_of breakers serverID of
        Some cb \<Rightarrow> cb
      | None \<Rightarrow> newCircuitBreaker serverID DefaultRateLimitThreshold DefaultRateLimitCooldown)"

definition set_breaker :: "string \<Rightarrow> circuit_breaker \<Rightarrow> 'h gateway \<Rightarrow> 'h gateway" where
  "set_breaker serverID cb gw = gw\<lparr>gw_breakers := AList.update serverID cb (gw_breakers gw)\<rparr>"

text \<open>Phase 3 and what follows, under the circuit breaker.\<close>

definition call_backend ::
  "'h server \<Rightarrow> call_times \<Rightarrow> (backend_request \<Rightarrow> string + json) \<Rightarrow> string \<Rightarrow> string \<Rightarrow> pipeline_input \<Rightarrow> pre_result \<Rightarrow>
   'h gateway \<Rightarrow> (tool_reply \<times> 'h gateway) go" where
  "call_backend sv t answer serverID sid inp pre gw =
     (case cb_Allow (at_allow t) (getCircuitBreaker serverID (gw_breakers gw)) of
        (Some e, cb1) \<Rightarrow> Return (Failed (BreakerOpen e), set_breaker serverID cb1 gw)
      | (None, cb1) \<Rightarrow>
          (let req = \<lparr>br_server = serverID, br_session = sid, br_method = ''tools/call'',
                      br_name = in_ToolName inp, br_args = in_Args inp\<rparr>;
               gw1 = gw\<lparr>gw_sent := gw_sent gw @ [req]\<rparr>
           in case answer req of
                Inl err \<Rightarrow> Return (Failed (BackendFailed err), set_breaker serverID (RecordProbeReleased cb1) gw1)
              | Inr v \<Rightarrow>
                  bind_go (isRateLimitToolResult (sv_lower sv) (at_answer t) v) (\<lambda>(limited, reset).
                    if limited
                    then Return (RateLimited \<lparr>Content = [TextContent (extractRateLimitErrorText v)], IsError = True\<rparr> v,
                                 set_breaker serverID (RecordRateLimit (at_answer t) reset cb1) gw1)
                    else
                      (let gw2 = set_breaker serverID (RecordSuccess cb1) gw1
                       in bind_go (call_response (sv_codec sv) inp pre v (gw_agents gw2)) (\<lambda>(reply, r).
                            Return (reply, gw2\<lparr>gw_agents := r\<rparr>))))))"

definition callBackendTool ::
  "'h server \<Rightarrow> call_times \<Rightarrow> (backend_request \<Rightarrow> string + json) \<Rightarrow> call_ctx \<Rightarrow> string \<Rightarrow> string \<Rightarrow> json \<Rightarrow> 'h gateway \<Rightarrow>
   (tool_reply \<times> 'h gateway) go" where
  "callBackendTool sv t answer ctx serverID toolName args gw =
     (case call_checks sv t ctx serverID toolName args gw of
        (Inl e, gw1) \<Rightarrow> Return (Failed e, gw1)
      | (Inr (ctx1, g, m), gw1) \<Rightarrow>
          (let inp = pipeline_input_of (cx_agent ctx1) toolName args g m
           in bind_go (call_prephases inp (gw_agents gw1)) (\<lambda>(res, r1).
                let gw2 = gw1\<lparr>gw_agents := r1\<rparr>
                in case res of
                     Inl e \<Rightarrow> Return (Failed e, gw2)
                   | Inr pre \<Rightarrow> call_backend sv t answer serverID (cx_session ctx1) inp pre gw2)))"

section \<open>Prompts\<close>

text \<open>
  \<open>callBackendPrompt\<close>: the same phases, without delegation, call limits and circuit breaker. The
  arguments are a map of strings; \<open>decode\<close> stands for the conversion to the SDK's result type.
\<close>

definition prompt_final :: "json \<Rightarrow> labeled_data \<Rightarrow> json \<Rightarrow> call_error + json" where
  "prompt_final backendResult ld filteredResult =
     (case ld of
        CollectionData c \<Rightarrow>
          (case backendResult of
             JObj m \<Rightarrow>
               (case map_of m ''messages'' of
                  None \<Rightarrow> Inl PromptNoMessages
                | Some (JArr _) \<Rightarrow> Inr (JObj (AList.update ''messages'' filteredResult m))
                | Some _ \<Rightarrow> Inl PromptBadMessages)
           | _ \<Rightarrow> Inl PromptNotObject)
      | _ \<Rightarrow> Inr filteredResult)"

definition prompt_finish ::
  "(json \<Rightarrow> string + 'p) \<Rightarrow> enforcement_mode \<Rightarrow> pre_result \<Rightarrow> labeled_data option \<Rightarrow> json \<Rightarrow> agent_registry \<Rightarrow>
   ((call_error + 'p) \<times> agent_registry) go" where
  "prompt_finish decode m pre ld final r =
     bind_go (RunPipelinePhase6 pre ld m r) (\<lambda>r1. Return
       (case decode final of Inl e \<Rightarrow> (Inl (PromptUndecodable e), r1) | Inr p \<Rightarrow> (Inr p, r1)))"

definition prompt_response ::
  "(json \<Rightarrow> string + 'p) \<Rightarrow> pipeline_input \<Rightarrow> pre_result \<Rightarrow> json \<Rightarrow> agent_registry \<Rightarrow>
   ((call_error + 'p) \<times> agent_registry) go" where
  "prompt_response decode inp pre backendResult r =
     (case RunPipelinePhase4 inp pre backendResult of
        Inl e \<Rightarrow> Return (Inl (ResponseLabelingFailed e), r)
      | Inr ld \<Rightarrow>
          (let a = heap r ! pre_AgentLabels pre; m = in_EnforcementMode inp
           in bind_go (FilterAndConvertLabeledData (in_Evaluator inp) (agS a) (agI a) (pre_Operation pre) ld m)
                (\<lambda>fo. case fo of
                   Inl e \<Rightarrow> Return (Inl (DataConversionFailed e), r)
                 | Inr fr \<Rightarrow>
                     (if Blocked fr then Return (Inl PromptBlocked, r)
                      else
                        (case ld of
                           Some d \<Rightarrow>
                             (case prompt_final backendResult d (case FinalResult fr of Some v \<Rightarrow> v | None \<Rightarrow> JNull) of
                                Inl e \<Rightarrow> Return (Inl e, r)
                              | Inr final \<Rightarrow> prompt_finish decode m pre ld final r)
                         | None \<Rightarrow>
                             (if \<not> IsAllowed (pre_EvalResult pre)
                              then bind_go (coarse_denial pre r) (\<lambda>e. Return (Inl e, r))
                              else prompt_finish decode m pre ld backendResult r))))))"

definition prompt_checks ::
  "'h server \<Rightarrow> call_ctx \<Rightarrow> string \<Rightarrow> string \<Rightarrow> 'h gateway \<Rightarrow> (call_error + guard \<times> enforcement_mode) \<times> 'h gateway" where
  "prompt_checks sv ctx serverID promptName gw =
     (if agentPoliciesEnforced (sv_config sv) \<and> \<not> agentCanAccessServer (sv_config sv) (cx_agent ctx) serverID
      then (Inl (AgentPolicyDenied promptName serverID), gw)
      else if \<not> isPromptAllowed (allowedPromptSets sv) serverID promptName
      then (Inl (ToolNotAllowed promptName), gw)
      else
        (case guardForSession (sv_platform sv) (sv_config sv) (sv_guards sv) (cx_session ctx) serverID (gw_sessions gw) of
           (None, ss1) \<Rightarrow> (Inl GuardSessionFailed, gw\<lparr>gw_sessions := ss1\<rparr>)
         | (Some g, ss1) \<Rightarrow>
             (case ensureGuardInitialized (sv_platform sv) (sv_config sv) (sv_mode sv) (cx_agent ctx)
                     (cx_session ctx) serverID g (gw_agents gw) ss1 of
                (Inl e, r1, ss2) \<Rightarrow> (Inl (InitFailed e), gw\<lparr>gw_agents := r1, gw_sessions := ss2\<rparr>)
              | (Inr m, r1, ss2) \<Rightarrow> (Inr (g, m), gw\<lparr>gw_agents := r1, gw_sessions := ss2\<rparr>))))"

definition callBackendPrompt ::
  "'h server \<Rightarrow> (json \<Rightarrow> string + 'p) \<Rightarrow> (backend_request \<Rightarrow> string + json) \<Rightarrow> call_ctx \<Rightarrow> string \<Rightarrow> string \<Rightarrow>
   (string \<times> string) list \<Rightarrow> 'h gateway \<Rightarrow> ((call_error + 'p) \<times> 'h gateway) go" where
  "callBackendPrompt sv decode answer ctx serverID promptName args gw =
     (case prompt_checks sv ctx serverID promptName gw of
        (Inl e, gw1) \<Rightarrow> Return (Inl e, gw1)
      | (Inr (g, m), gw1) \<Rightarrow>
          (let jargs = JObj (map (\<lambda>(k, v). (k, JStr v)) args);
               inp = pipeline_input_of (cx_agent ctx) promptName jargs g m
           in bind_go (call_prephases inp (gw_agents gw1)) (\<lambda>(res, r1).
                let gw2 = gw1\<lparr>gw_agents := r1\<rparr>
                in case res of
                     Inl e \<Rightarrow> Return (Inl e, gw2)
                   | Inr pre \<Rightarrow>
                       (let req = \<lparr>br_server = serverID, br_session = cx_session ctx, br_method = ''prompts/get'',
                                   br_name = promptName, br_args = jargs\<rparr>;
                            gw3 = gw2\<lparr>gw_sent := gw_sent gw2 @ [req]\<rparr>
                        in case answer req of
                             Inl err \<Rightarrow> Return (Inl (BackendFailed err), gw3)
                           | Inr v \<Rightarrow>
                               bind_go (prompt_response decode inp pre v (gw_agents gw3)) (\<lambda>(reply, r).
                                 Return (reply, gw3\<lparr>gw_agents := r\<rparr>))))))"

end
