(* ===== verification/BackendFacts.thy ===== *)
theory BackendFacts imports BackendCall begin

text \<open>
  Facts about the paths through a tool call and a prompt call: what each stage changes, what must
  hold when the backend is contacted, and which parts of the backend's answer reach the client.
\<close>

section \<open>The checks\<close>

lemma authorize_delegated_frame:
  assumes "authorizeDelegatedToolCall sv t ctx sid tool args gw = (x, gw1)"
  shows "gw_sent gw1 = gw_sent gw" "gw_breakers gw1 = gw_breakers gw" "gw_sessions gw1 = gw_sessions gw"
    "gw_agents gw1 = gw_agents gw" "x = Inr ctx1 \<Longrightarrow> cx_session ctx1 = cx_session ctx"
  using assms
  by (auto simp: authorizeDelegatedToolCall_def Let_def split: option.splits prod.splits if_splits sum.splits)

text \<open>A context is marked as authorized only by a live bearer that may read the repository of the arguments.\<close>

lemma authorize_delegated_Inr:
  assumes "authorizeDelegatedToolCall sv t ctx sid tool args gw = (Inr ctx1, gw1)"
  obtains (plain) "ctx1 = ctx"
      "\<And>st. gw_store gw = Some st \<Longrightarrow> \<not> fst (HasLiveExecutorBearer (sv_sha sv) (at_live t) (cx_session ctx) st)"
    | (delegated) st repository handle st2 where "gw_store gw = Some st"
      "fst (HasLiveExecutorBearer (sv_sha sv) (at_live t) (cx_session ctx) st)" "sid = ''github''"
      "delegatedToolRepository tool args = (repository, True)"
      "AuthorizeExecutor (sv_sha sv) (at_authorize t) (cx_session ctx) repository tool
         (snd (HasLiveExecutorBearer (sv_sha sv) (at_live t) (cx_session ctx) st)) = (Inr handle, st2)"
      "ctx1 = ctx\<lparr>cx_agent := ''delegation:'' @ handle, cx_enclave := True, cx_authorized := Some (sid, tool)\<rparr>"
      "gw_store gw1 = Some st2"
proof (cases "gw_store gw")
  case None
  with assms show thesis by (intro plain) (simp_all add: authorizeDelegatedToolCall_def)
next
  case (Some st)
  obtain lv st1 where l: "HasLiveExecutorBearer (sv_sha sv) (at_live t) (cx_session ctx) st = (lv, st1)" by fastforce
  show thesis
  proof (cases lv)
    case False
    with assms Some l show thesis by (intro plain) (simp_all add: authorizeDelegatedToolCall_def)
  next
    case True
    obtain repository ok where d: "delegatedToolRepository tool args = (repository, ok)" by fastforce
    obtain a st2 where au: "AuthorizeExecutor (sv_sha sv) (at_authorize t) (cx_session ctx) repository tool st1 = (a, st2)"
      by fastforce
    from assms Some l True d au have "sid = ''github''" "ok"
      by (auto simp: authorizeDelegatedToolCall_def Let_def split: if_splits)
    moreover from assms Some l True d au this obtain handle where "a = Inr handle"
      by (cases a) (auto simp: authorizeDelegatedToolCall_def Let_def)
    ultimately show thesis using assms Some l True d au
      by (intro delegated[of st repository handle st2]) (auto simp: authorizeDelegatedToolCall_def Let_def)
  qed
qed

lemma call_checks_frame:
  assumes "call_checks sv t ctx sid tool args gw = (x, gw1)"
  shows "gw_sent gw1 = gw_sent gw \<and> gw_breakers gw1 = gw_breakers gw"
  using assms authorize_delegated_frame(1,2)[of sv t ctx sid tool args gw]
  by (auto simp: call_checks_def split: prod.splits sum.splits if_splits option.splits)

lemma call_checks_Inr:
  assumes "call_checks sv t ctx sid tool args gw = (Inr (ctx1, g, m), gw1)"
  obtains gwA ss1 ss2 where "authorizeDelegatedToolCall sv t ctx sid tool args gw = (Inr ctx1, gwA)"
    "agentPoliciesEnforced (sv_config sv) \<longrightarrow>
       delegatedToolAuthorized ctx1 sid tool \<or> agentCanUseTool (sv_config sv) (cx_agent ctx1) sid tool"
    "guardForSession (sv_platform sv) (sv_config sv) (sv_guards sv) (cx_session ctx1) sid (gw_sessions gwA) = (Some g, ss1)"
    "isToolAllowed (allowedToolSets sv) sid tool"
    "ensureGuardInitialized (sv_platform sv) (sv_config sv) (sv_mode sv) (cx_agent ctx1) (cx_session ctx1) sid g
       (gw_agents gwA) ss1 = (Inr m, gw_agents gw1, ss2)"
    "enforceToolCallLimit (cx_session ctx1) sid tool ss2 = (None, gw_sessions gw1)"
  using assms
  by (fastforce simp: call_checks_def split: prod.splits sum.splits if_splits option.splits)

section \<open>The pre-phases\<close>

lemma call_prephases_Inr:
  assumes "call_prephases inp r = Return (Inr pre, r1)"
  shows "RunPipelinePrePhases inp r = Return (Inr pre, r1)"
proof -
  from assms obtain res r' where p: "RunPipelinePrePhases inp r = Return (res, r')"
    by (auto simp: call_prephases_def bind_go_Return_iff)
  with assms show ?thesis
    by (cases res) (auto simp: call_prephases_def bind_go_Return_iff split: option.splits pre_error.splits)
qed

section \<open>The backend is contacted\<close>

lemma call_backend_cases:
  assumes "call_backend sv t answer sid ses inp pre gw = Return (reply, gw')"
  defines "req \<equiv> \<lparr>br_server = sid, br_session = ses, br_method = ''tools/call'',
                   br_name = in_ToolName inp, br_args = in_Args inp\<rparr>"
  obtains (rejected) e cb1 where "cb_Allow (at_allow t) (getCircuitBreaker sid (gw_breakers gw)) = (Some e, cb1)"
      "reply = Failed (BreakerOpen e)" "gw' = set_breaker sid cb1 gw"
    | (failed) cb1 err where "cb_Allow (at_allow t) (getCircuitBreaker sid (gw_breakers gw)) = (None, cb1)"
      "answer req = Inl err" "reply = Failed (BackendFailed err)"
      "gw' = set_breaker sid (RecordProbeReleased cb1) (gw\<lparr>gw_sent := gw_sent gw @ [req]\<rparr>)"
    | (limited) cb1 v reset where "cb_Allow (at_allow t) (getCircuitBreaker sid (gw_breakers gw)) = (None, cb1)"
      "answer req = Inr v" "isRateLimitToolResult (sv_lower sv) (at_answer t) v = Return (True, reset)"
      "reply = RateLimited \<lparr>Content = [TextContent (extractRateLimitErrorText v)], IsError = True\<rparr> v"
      "gw' = set_breaker sid (RecordRateLimit (at_answer t) reset cb1) (gw\<lparr>gw_sent := gw_sent gw @ [req]\<rparr>)"
    | (answered) cb1 v reset r where "cb_Allow (at_allow t) (getCircuitBreaker sid (gw_breakers gw)) = (None, cb1)"
      "answer req = Inr v" "isRateLimitToolResult (sv_lower sv) (at_answer t) v = Return (False, reset)"
      "call_response (sv_codec sv) inp pre v (gw_agents gw) = Return (reply, r)"
      "gw' = set_breaker sid (RecordSuccess cb1) (gw\<lparr>gw_sent := gw_sent gw @ [req]\<rparr>)\<lparr>gw_agents := r\<rparr>"
  using assms(1) unfolding req_def
  by (auto simp: call_backend_def Let_def bind_go_Return_iff set_breaker_def
      split: prod.splits option.splits sum.splits if_splits)

lemma set_breaker_simps [simp]:
  "gw_sent (set_breaker sid cb gw) = gw_sent gw" "gw_agents (set_breaker sid cb gw) = gw_agents gw"
  "gw_sessions (set_breaker sid cb gw) = gw_sessions gw" "gw_store (set_breaker sid cb gw) = gw_store gw"
  "getCircuitBreaker sid' (gw_breakers (set_breaker sid cb gw)) =
     (if sid' = sid then cb else getCircuitBreaker sid' (gw_breakers gw))"
  by (simp_all add: set_breaker_def getCircuitBreaker_def)

text \<open>The three outcomes of a call: stopped by a check, stopped by the pre-phases, or decided at the backend.\<close>

lemma callBackendTool_cases:
  assumes "callBackendTool sv t answer ctx sid tool args gw = Return (reply, gw')"
  obtains (checked) e where "call_checks sv t ctx sid tool args gw = (Inl e, gw')" "reply = Failed e"
    | (denied) ctx1 g m gw1 e r1 where "call_checks sv t ctx sid tool args gw = (Inr (ctx1, g, m), gw1)"
      "call_prephases (pipeline_input_of (cx_agent ctx1) tool args g m) (gw_agents gw1) = Return (Inl e, r1)"
      "reply = Failed e" "gw' = gw1\<lparr>gw_agents := r1\<rparr>"
    | (called) ctx1 g m gw1 pre r1 where "call_checks sv t ctx sid tool args gw = (Inr (ctx1, g, m), gw1)"
      "call_prephases (pipeline_input_of (cx_agent ctx1) tool args g m) (gw_agents gw1) = Return (Inr pre, r1)"
      "call_backend sv t answer sid (cx_session ctx1) (pipeline_input_of (cx_agent ctx1) tool args g m) pre
         (gw1\<lparr>gw_agents := r1\<rparr>) = Return (reply, gw')"
proof -
  obtain x gw1 where c: "call_checks sv t ctx sid tool args gw = (x, gw1)" by fastforce
  show thesis
  proof (cases x)
    case (Inl e)
    with assms c show thesis by (intro checked) (auto simp: callBackendTool_def Let_def)
  next
    case (Inr y)
    obtain ctx1 g m where y: "y = (ctx1, g, m)" by (cases y)
    from assms c Inr y obtain res r1 where
        p: "call_prephases (pipeline_input_of (cx_agent ctx1) tool args g m) (gw_agents gw1) = Return (res, r1)"
      by (auto simp: callBackendTool_def Let_def bind_go_Return_iff)
    show thesis
    proof (cases res)
      case (Inl e)
      with assms c Inr y p show thesis by (intro denied) (auto simp: callBackendTool_def Let_def)
    next
      case (Inr pre)
      with assms c \<open>x = Inr y\<close> y p show thesis by (intro called) (simp_all add: callBackendTool_def Let_def)
    qed
  qed
qed

lemma call_backend_sent:
  assumes "call_backend sv t answer sid ses inp pre gw = Return (reply, gw')"
  shows "(fst (cb_Allow (at_allow t) (getCircuitBreaker sid (gw_breakers gw))) \<noteq> None \<and> gw_sent gw' = gw_sent gw \<and>
          (\<exists>e. reply = Failed e)) \<or>
     (fst (cb_Allow (at_allow t) (getCircuitBreaker sid (gw_breakers gw))) = None \<and>
      gw_sent gw' = gw_sent gw @ [\<lparr>br_server = sid, br_session = ses, br_method = ''tools/call'',
        br_name = in_ToolName inp, br_args = in_Args inp\<rparr>])"
  using assms by (cases rule: call_backend_cases) auto

text \<open>The backend is contacted only after the checks passed.\<close>

lemma backend_contact:
  assumes "callBackendTool sv t answer ctx sid tool args gw = Return (reply, gw')" and "gw_sent gw' \<noteq> gw_sent gw"
  shows "\<exists>ctx1 gwA. authorizeDelegatedToolCall sv t ctx sid tool args gw = (Inr ctx1, gwA)"
  using assms(1)
proof (cases rule: callBackendTool_cases)
  case called
  from called(1) show ?thesis by (rule call_checks_Inr) blast
qed (use assms(2) call_checks_frame in fastforce)+

section \<open>What the denied items may influence\<close>

text \<open>Two items that an agent may not tell apart: the labels agree, and the data too where the agent may read it.\<close>

definition same_item ::
  "evaluator \<Rightarrow> flow_label \<Rightarrow> flow_label \<Rightarrow> operation \<Rightarrow> labeled_item \<Rightarrow> labeled_item \<Rightarrow> bool" where
  "same_item e sl il op x y \<longleftrightarrow> item_labels x = item_labels y \<and> (item_allowed e sl il op x \<longrightarrow> item_data x = item_data y)"

definition same_to_agent ::
  "evaluator \<Rightarrow> flow_label \<Rightarrow> flow_label \<Rightarrow> operation \<Rightarrow> collection_labeled_data \<Rightarrow> collection_labeled_data \<Rightarrow> bool" where
  "same_to_agent e sl il op c d \<longleftrightarrow>
     list_all2 (same_item e sl il op) (items c) (items d) \<and> rebuild c = None \<and> rebuild d = None \<and>
     preserve_envelope c = preserve_envelope d \<and> items_path c = items_path d \<and>
     (preserve_envelope c \<longrightarrow> (\<forall>xs. replaceCollectionAtPath (DeepCloneJSON (original_data c)) (items_path c) xs =
                                  replaceCollectionAtPath (DeepCloneJSON (original_data d)) (items_path d) xs))"

text \<open>The outcome of the filter on both.\<close>

definition same_filtered :: "filtered_collection \<Rightarrow> filtered_collection \<Rightarrow> bool" where
  "same_filtered f g \<longleftrightarrow> map item_data (accessible f) = map item_data (accessible g) \<and>
     list_all2 same_notice (filtered f) (filtered g) \<and> total_count f = total_count g"

lemma same_filter_loop:
  assumes "list_all2 (same_item e sl il op) xs ys"
  shows "(filter_loop e sl il op xs = Panic \<and> filter_loop e sl il op ys = Panic) \<or>
    (\<exists>a f b g. filter_loop e sl il op xs = Return (a, f) \<and> filter_loop e sl il op ys = Return (b, g) \<and>
       map item_data a = map item_data b \<and> list_all2 same_notice f g)"
  using assms
proof (induction rule: list_all2_induct)
  case (Cons x xs y ys)
  then have l: "item_labels y = item_labels x" by (simp add: same_item_def)
  show ?case
  proof (cases "Evaluate e sl il (item_labels x) op")
    case (Return r)
    have "IsAllowed r \<Longrightarrow> item_data x = item_data y"
      using Cons.hyps(1) Return by (simp add: same_item_def item_allowed_def)
    then show ?thesis using Cons.IH Return l by (cases "IsAllowed r") (auto simp: same_notice_def)
  qed (simp add: l)
qed simp

lemma same_FilterCollection:
  assumes "same_to_agent e sl il op c d"
  shows "(FilterCollection e sl il c op = Panic \<and> FilterCollection e sl il d op = Panic) \<or>
    (\<exists>f g. FilterCollection e sl il c op = Return f \<and> FilterCollection e sl il d op = Return g \<and>
       same_filtered f g \<and> filtered_ToResult f = filtered_ToResult g)"
proof -
  have "length (items c) = length (items d)"
    using assms by (auto simp: same_to_agent_def dest: list_all2_lengthD)
  moreover have "map item_data a = map item_data b \<Longrightarrow>
      envelope_result a (preserve_envelope c) (original_data c) (items_path c) =
      envelope_result b (preserve_envelope d) (original_data d) (items_path d)" for a b
    using assms by (auto simp: same_to_agent_def envelope_result_def itemsToResult_def)
  ultimately show ?thesis
    using same_filter_loop[of e sl il op "items c" "items d"] assms
    by (auto simp: FilterCollection_def same_to_agent_def same_filtered_def filtered_ToResult_def)
qed

text \<open>Everything the call reads from the result of the filter.\<close>

definition same_result :: "filter_result \<Rightarrow> filter_result \<Rightarrow> bool" where
  "same_result x y \<longleftrightarrow> FinalResult x = FinalResult y \<and> Blocked x = Blocked y \<and>
     (\<exists>f g. Filtered x = Some f \<and> Filtered y = Some g \<and> same_filtered f g)"

lemma same_FilterAndConvert:
  fixes m :: enforcement_mode
  assumes "same_to_agent e sl il op c d"
  defines "F \<equiv> \<lambda>x. FilterAndConvertLabeledData e sl il op (Some (CollectionData x)) m"
  shows "F c = Panic \<and> F d = Panic \<or> (\<exists>x. F c = Return (Inl x) \<and> F d = Return (Inl x)) \<or>
    (\<exists>x y. F c = Return (Inr x) \<and> F d = Return (Inr y) \<and> same_result x y)"
  using same_FilterCollection[OF assms(1)]
proof (elim disjE exE conjE)
  fix f g
  assume fg: "FilterCollection e sl il c op = Return f" "FilterCollection e sl il d op = Return g" "same_filtered f g"
    and r: "filtered_ToResult f = filtered_ToResult g"
  have ne: "filtered f \<noteq> [] \<longleftrightarrow> filtered g \<noteq> []"
    using fg(3) by (auto simp: same_filtered_def dest: list_all2_lengthD)
  have conv: "converted c f = converted d g"
    using assms(1) r by (cases "filtered_ToResult g") (simp_all add: converted_def same_to_agent_def)
  show ?thesis
  proof (cases "m = EnforcementStrict \<and> filtered f \<noteq> []")
    case True
    with fg ne show ?thesis by (simp add: F_def FilterAndConvert_collection same_result_def)
  next
    case False
    then have "\<not> (m = EnforcementStrict \<and> filtered g \<noteq> [])" using ne by simp
    moreover obtain v where "converted c f = Return v"
      using assms(1) by (cases "filtered_ToResult f") (auto simp: converted_def same_to_agent_def)
    ultimately show ?thesis
      using fg conv False unfolding F_def FilterAndConvert_collection fg(1,2) bind_go.simps if_not_P[OF False]
      by (cases v) (simp_all add: same_result_def)
  qed
qed (simp add: F_def FilterAndConvert_collection)

lemma same_counts: "same_filtered f g \<Longrightarrow> GetFilteredCount f = GetFilteredCount g \<and> GetAccessibleCount f = GetAccessibleCount g"
  by (auto simp: same_filtered_def GetFilteredCount_def GetAccessibleCount_def dest: list_all2_lengthD map_eq_imp_length_eq)

lemma same_withheld:
  assumes "same_result x y"
  shows "withheld tool x = withheld tool y"
proof -
  obtain f g where fg: "Filtered x = Some f" "Filtered y = Some g" "same_filtered f g"
    using assms by (auto simp: same_result_def)
  have "GetFilteredCount f = 1 \<Longrightarrow> same_notice (hd (filtered f)) (hd (filtered g))"
    using fg(3) by (cases "filtered f"; cases "filtered g") (auto simp: same_filtered_def GetFilteredCount_def)
  then have "GetFilteredCount f = 1 \<Longrightarrow>
      buildDIFCSingleItemFilteredError (hd (filtered f)) = buildDIFCSingleItemFilteredError (hd (filtered g))"
    by (rule same_notice_single)
  moreover have "total_count f = total_count g" using fg(3) by (simp add: same_filtered_def)
  ultimately show ?thesis
    using same_counts[OF fg(3)] assms fg(1,2) by (auto simp: withheld_def same_result_def)
qed

lemma same_append_notice:
  assumes "same_result x y"
  shows "append_notice x cr = append_notice y cr"
proof -
  obtain f g where fg: "Filtered x = Some f" "Filtered y = Some g" "same_filtered f g"
    using assms by (auto simp: same_result_def)
  then have "buildDIFCFilteredNotice (Some f) = buildDIFCFilteredNotice (Some g)"
    by (intro same_notice_text) (simp add: same_filtered_def)
  then show ?thesis by (simp add: append_notice_def fg)
qed

lemma same_aggregate:
  "list_all2 (same_item e sl il op) xs ys \<Longrightarrow> aggregate_loop xs s i = aggregate_loop ys s i"
  by (induction xs ys arbitrary: s i rule: list_all2_induct) (auto simp: same_item_def split: option.splits)

lemma same_Overall:
  assumes "same_to_agent e sl il op c d"
  shows "collection_Overall c = collection_Overall d"
proof -
  have l: "list_all2 (same_item e sl il op) (items c) (items d)" using assms by (simp add: same_to_agent_def)
  then have "items c = [] \<longleftrightarrow> items d = []" by (auto dest: list_all2_lengthD)
  then show ?thesis
    using same_aggregate[OF l] by (simp add: collection_Overall_def aggregateLabels_def)
qed

lemma same_finish:
  assumes "same_result x y" and "same_to_agent e sl il op c d"
  shows "call_finish cd m pre (Some (CollectionData c)) x final r = call_finish cd m pre (Some (CollectionData d)) y final r"
proof -
  have an: "append_notice x = append_notice y" by (rule ext) (rule same_append_notice[OF assms(1)])
  show ?thesis
    unfolding call_finish_def RunPipelinePhase6_def data_Overall_def labeled_data.case option.case an
      same_Overall[OF assms(2)] ..
qed

lemma same_response:
  assumes "RunPipelinePhase4 inp pre v = Inr (Some (CollectionData c))"
    and "RunPipelinePhase4 inp pre w = Inr (Some (CollectionData d))"
    and "same_to_agent (in_Evaluator inp) (agS (heap r ! pre_AgentLabels pre)) (agI (heap r ! pre_AgentLabels pre))
           (pre_Operation pre) c d"
  shows "call_response cd inp pre v r = call_response cd inp pre w r"
  using same_FilterAndConvert[OF assms(3), of "in_EnforcementMode inp"]
proof (elim disjE exE conjE)
  fix x y
  assume "FilterAndConvertLabeledData (in_Evaluator inp) (agS (heap r ! pre_AgentLabels pre))
      (agI (heap r ! pre_AgentLabels pre)) (pre_Operation pre) (Some (CollectionData c)) (in_EnforcementMode inp) = Return (Inr x)"
    "FilterAndConvertLabeledData (in_Evaluator inp) (agS (heap r ! pre_AgentLabels pre))
      (agI (heap r ! pre_AgentLabels pre)) (pre_Operation pre) (Some (CollectionData d)) (in_EnforcementMode inp) = Return (Inr y)"
    and s: "same_result x y"
  moreover have "FinalResult x = FinalResult y" using s by (simp add: same_result_def)
  ultimately show ?thesis
    using assms(1,2) same_withheld[OF s] same_finish[OF s assms(3)]
    by (simp add: call_response_def Let_def split: option.split)
qed (use assms(1,2) in \<open>simp_all add: call_response_def Let_def\<close>)

section \<open>What is replied\<close>

lemma call_finish_Replied:
  assumes "call_finish cd m pre ld fr final r = Return (Replied cr out, r')"
  shows "out = final"
  using assms by (cases "ConvertToCallToolResult cd final") (auto simp: call_finish_def bind_go_Return_iff)

lemma call_finish_not_limited: "call_finish cd m pre ld fr final r \<noteq> Return (RateLimited cr v, r')"
  by (cases "ConvertToCallToolResult cd final") (auto simp: call_finish_def bind_go_Return_iff)

lemma call_response_not_limited: "call_response cd inp pre v r \<noteq> Return (RateLimited cr w, r')"
  by (auto simp: call_response_def call_finish_not_limited Let_def bind_go_Return_iff
      split: sum.splits option.splits if_splits)

lemma call_response_not_failed: "call_response cd inp pre v r \<noteq> Return (Failed (BackendFailed e), r')"
  by (auto simp: call_response_def call_finish_def coarse_denial_def withheld_def Let_def bind_go_Return_iff
      split: sum.splits option.splits if_splits)

text \<open>A reply without labelled data is the answer itself, and only where the coarse check allowed the call.\<close>

lemma call_response_unlabelled:
  assumes "call_response cd inp pre v r = Return (Replied cr out, r')" and "RunPipelinePhase4 inp pre v = Inr None"
  shows "out = v \<and> IsAllowed (pre_EvalResult pre)"
  using assms
  by (auto simp: call_response_def FilterAndConvertLabeledData_def emptyFilterResult_def withheld_def bind_go_Return_iff
      dest: call_finish_Replied split: if_splits)

text \<open>A reply with a labelled collection is made of its allowed items, all of them in strict mode.\<close>

lemma call_response_collection:
  assumes "call_response cd inp pre v r = Return (Replied cr out, r')"
    and "RunPipelinePhase4 inp pre v = Inr (Some (CollectionData c))"
    and "rebuild c = None" and "\<not> preserve_envelope c"
  defines "ok \<equiv> item_allowed (in_Evaluator inp) (agS (heap r ! pre_AgentLabels pre)) (agI (heap r ! pre_AgentLabels pre))
    (pre_Operation pre)"
  shows "out = JArr (map item_data (filter ok (items c))) \<and>
    (in_EnforcementMode inp = EnforcementStrict \<longrightarrow> list_all ok (items c))"
proof -
  let ?F = "FilterAndConvertLabeledData (in_Evaluator inp) (agS (heap r ! pre_AgentLabels pre))
    (agI (heap r ! pre_AgentLabels pre)) (pre_Operation pre) (Some (CollectionData c)) (in_EnforcementMode inp)"
  obtain x where x: "?F = Return x" using assms(1,2) by (auto simp: call_response_def Let_def bind_go_Return_iff)
  then obtain fr where f: "?F = Return (Inr fr)" "withheld (in_ToolName inp) fr = None"
      "call_finish cd (in_EnforcementMode inp) pre (Some (CollectionData c)) fr
         (case FinalResult fr of Some v \<Rightarrow> v | None \<Rightarrow> JNull) r = Return (Replied cr out, r')"
    using assms(1,2)
    by (cases x; cases "withheld (in_ToolName inp) (projr x)") (auto simp: call_response_def Let_def)
  from FilterAndConvert_items[OF f(1) assms(3,4)]
  have fin: "FinalResult fr = (if in_EnforcementMode inp = EnforcementStrict \<and> (\<exists>it\<in>set (items c). \<not> ok it) then None
     else Some (JArr (map item_data (filter ok (items c)))))" unfolding ok_def .
  have "\<not> Blocked fr" using FilterAndConvert_Inr[OF f(1)] f(2) by (auto simp: withheld_def)
  then have "FinalResult fr \<noteq> None" using FilterAndConvert_Inr[OF f(1)] by simp
  with fin have "\<not> (in_EnforcementMode inp = EnforcementStrict \<and> (\<exists>it\<in>set (items c). \<not> ok it))" by (auto split: if_splits)
  with fin call_finish_Replied[OF f(3)] show ?thesis by (auto simp: list_all_iff)
qed

section \<open>Prompts\<close>

lemma prompt_checks_cases:
  assumes "prompt_checks sv ctx sid name gw = (x, gw1)"
  shows "gw_sent gw1 = gw_sent gw \<and> gw_breakers gw1 = gw_breakers gw \<and> gw_store gw1 = gw_store gw"
    and "x = Inr y \<Longrightarrow> agentCanAccessServer (sv_config sv) (cx_agent ctx) sid \<and> isPromptAllowed (allowedPromptSets sv) sid name"
  using assms
  by (auto simp: prompt_checks_def agentCanAccessServer_def agentPoliciesEnforced_def Let_def
      split: prod.splits sum.splits if_splits option.splits)

lemma callBackendPrompt_cases:
  assumes "callBackendPrompt sv decode answer ctx sid name args gw = Return (res, gw')"
  defines "jargs \<equiv> JObj (map (\<lambda>(k, v). (k, JStr v)) args)"
  obtains (checked) e where "prompt_checks sv ctx sid name gw = (Inl e, gw')" "res = Inl e"
    | (denied) g m gw1 e r1 where "prompt_checks sv ctx sid name gw = (Inr (g, m), gw1)"
      "call_prephases (pipeline_input_of (cx_agent ctx) name jargs g m) (gw_agents gw1) = Return (Inl e, r1)"
      "res = Inl e" "gw' = gw1\<lparr>gw_agents := r1\<rparr>"
    | (sent) g m gw1 pre r1 where "prompt_checks sv ctx sid name gw = (Inr (g, m), gw1)"
      "call_prephases (pipeline_input_of (cx_agent ctx) name jargs g m) (gw_agents gw1) = Return (Inr pre, r1)"
      "gw_sent gw' = gw_sent gw1 @ [\<lparr>br_server = sid, br_session = cx_session ctx,
         br_method = ''prompts/get'', br_name = name, br_args = jargs\<rparr>]"
      "gw_breakers gw' = gw_breakers gw1" "gw_store gw' = gw_store gw1"
proof -
  obtain x gw1 where c: "prompt_checks sv ctx sid name gw = (x, gw1)" by fastforce
  show thesis
  proof (cases x)
    case (Inl e)
    with assms c show thesis by (intro checked) (auto simp: callBackendPrompt_def)
  next
    case (Inr y)
    obtain g m where y: "y = (g, m)" by (cases y)
    from assms c Inr y obtain q r1 where
        p: "call_prephases (pipeline_input_of (cx_agent ctx) name jargs g m) (gw_agents gw1) = Return (q, r1)"
      by (auto simp: callBackendPrompt_def Let_def bind_go_Return_iff)
    show thesis
    proof (cases q)
      case (Inl e)
      with assms(1) c \<open>x = Inr y\<close> y p show thesis
        by (intro denied) (auto simp: callBackendPrompt_def Let_def jargs_def)
    next
      case (Inr pre)
      let ?req = "\<lparr>br_server = sid, br_session = cx_session ctx, br_method = ''prompts/get'', br_name = name, br_args = jargs\<rparr>"
      have "gw_sent gw' = gw_sent gw1 @ [?req] \<and> gw_breakers gw' = gw_breakers gw1 \<and> gw_store gw' = gw_store gw1"
        using assms(1) c \<open>x = Inr y\<close> y p Inr
        by (cases "answer ?req") (auto simp: callBackendPrompt_def Let_def jargs_def bind_go_Return_iff)
      with c \<open>x = Inr y\<close> y p Inr show thesis by (intro sent) auto
    qed
  qed
qed

end
