(* ===== verification/BackendProperties.thy ===== *)
theory BackendProperties imports BackendFacts DelegationProperties begin

text \<open>
  The properties of a tool call and a prompt call as a whole: when the backend is contacted, what of
  its answer an agent can see, and how calls are limited.
\<close>

section \<open>Example values\<close>

definition demo_platform :: platform where
  "demo_platform =
     \<lparr>p_case = \<lparr>ToLower = id, ToUpper = id\<rparr>, p_sprint = (\<lambda>_. []), p_env = (\<lambda>_. None), p_discover = (\<lambda>_. None),
      p_load = (\<lambda>_ _. None), p_factory = (\<lambda>_. None), p_visibility = None, p_session = Some\<rparr>"

definition demo_config :: config where
  "demo_config = \<lparr>Servers = [], GuardConfigs = [], Gateway = None, cfg_GuardPolicy = None, GuardPolicySource = []\<rparr>"

text \<open>A guard that labels as private every resource and every item whose text starts with "secret".\<close>

definition demo_label :: "bool \<Rightarrow> labeled_resource" where
  "demo_label private =
     \<lparr>description = ''item'', secrecy = NewFlowLabel (if private then [''private''] else []), integrity = NewFlowLabel []\<rparr>"

definition demo_item :: "json \<Rightarrow> labeled_item" where
  "demo_item v =
     \<lparr>item_data = v, item_labels = Some (demo_label (case v of JStr s \<Rightarrow> prefix ''secret'' s | _ \<Rightarrow> False)), item_path = []\<rparr>"

definition demo_collection :: "json \<Rightarrow> json list \<Rightarrow> collection_labeled_data" where
  "demo_collection v xs =
     \<lparr>items = map demo_item xs, original_data = v, items_path = [], preserve_envelope = False, rebuild = None\<rparr>"

definition demo_guard :: guard where
  "demo_guard =
     \<lparr>g_Name = ''demo'', g_LabelAgent = (\<lambda>_. Inr None),
      g_LabelResource = (\<lambda>tool args. Inr (Some (demo_label True), OperationRead)),
      g_LabelResponse = (\<lambda>tool args v. case v of JArr xs \<Rightarrow> Inr (Some (CollectionData (demo_collection v xs))) | _ \<Rightarrow> Inr None)\<rparr>"

definition demo_server :: "string server" where
  "demo_server =
     \<lparr>sv_platform = demo_platform, sv_config = demo_config,
      sv_guards = reg_Set ''github'' \<lparr>ig_guard = demo_guard, ig_kind = OtherKind\<rparr> NewRegistry,
      allowedToolSets = [(''github'', [''list_issues''])], allowedPromptSets = [], sv_mode = EnforcementFilter,
      sv_sha = id, sv_lower = to_lower, sv_codec = \<lparr>rc_marshal = (\<lambda>_. Some ''text''), rc_resource = (\<lambda>_. None)\<rparr>\<rparr>"

definition demo_times :: call_times where
  "demo_times = \<lparr>at_live = 1, at_authorize = 2, at_allow = 3, at_answer = 4\<rparr>"

definition demo_ctx :: call_ctx where
  "demo_ctx = \<lparr>cx_session = ''s'', cx_agent = ''s'', cx_enclave = False, cx_authorized = None\<rparr>"

definition demo_gateway :: "string gateway" where
  "demo_gateway =
     \<lparr>gw_agents = NewAgentRegistryWithDefaults [] [], gw_sessions = [], gw_breakers = [], gw_store = None, gw_sent = []\<rparr>"

lemma demo_server_simps:
  "\<not> agentPoliciesEnforced demo_config" "\<not> isMultiAgent demo_config"
  "gr_Get (sv_guards demo_server) ''github'' = \<lparr>ig_guard = demo_guard, ig_kind = OtherKind\<rparr>"
  "isToolAllowed (allowedToolSets demo_server) ''github'' ''list_issues''"
  "init_request_of demo_platform demo_config agent ''github'' = Inr None"
  "sv_config demo_server = demo_config" "sv_platform demo_server = demo_platform"
  "sv_mode demo_server = EnforcementFilter"
  by (simp_all add: agentPoliciesEnforced_def AgentPoliciesEnabled_def isMultiAgent_def GetAgentIDs_def demo_config_def
      gr_Get_def reg_Get_def reg_Set_def NewRegistry_def demo_server_def isToolAllowed_def init_request_of_def
      resolveGuardPolicyForAgent_def resolveGuardPolicy_def and_then_def)

lemma demo_checks:
  "call_checks demo_server demo_times demo_ctx ''github'' ''list_issues'' args demo_gateway =
     (Inr (demo_ctx, demo_guard, EnforcementFilter), demo_gateway)"
  by (simp add: call_checks_def authorizeDelegatedToolCall_def demo_gateway_def demo_server_simps guardForSession_def
      ensureGuardInitialized_def enforceToolCallLimit_def state_at_def)


text \<open>The pre-phases of the demo call: a read of a private resource is let through for filtering.\<close>

lemma demo_prephases:
  "\<exists>pre r1. call_prephases (pipeline_input_of ''s'' ''list_issues'' JNull demo_guard EnforcementFilter)
      (gw_agents demo_gateway) = Return (Inr pre, r1) \<and> pre_CoarseOutcome pre = CoarseBypassForRead \<and>
      pre_Operation pre = OperationRead \<and>
      (\<forall>x y. same_to_agent (NewEvaluatorWithMode EnforcementFilter) (agS (heap r1 ! pre_AgentLabels pre))
         (agI (heap r1 ! pre_AgentLabels pre)) OperationRead
         (demo_collection x [JStr ''public'', JStr ''secret one'']) (demo_collection y [JStr ''public'', JStr ''secret two'']))"
proof -
  let ?P = "\<lambda>p. case p of Return (Inr pre, r1) \<Rightarrow>
      pre_CoarseOutcome pre = CoarseBypassForRead \<and> pre_Operation pre = OperationRead \<and>
      \<not> item_allowed (NewEvaluatorWithMode EnforcementFilter) (agS (heap r1 ! pre_AgentLabels pre))
          (agI (heap r1 ! pre_AgentLabels pre)) OperationRead (demo_item (JStr ''secret one''))
    | _ \<Rightarrow> False"
  have "?P (call_prephases (pipeline_input_of ''s'' ''list_issues'' JNull demo_guard EnforcementFilter) (gw_agents demo_gateway))"
    by code_simp
  moreover have "item_labels (demo_item (JStr ''secret one'')) = item_labels (demo_item (JStr ''secret two''))"
    by (simp add: demo_item_def)
  ultimately show ?thesis
    by (auto simp: same_to_agent_def same_item_def demo_collection_def split: go.splits prod.splits sum.splits)
qed

section \<open>When the backend is contacted\<close>



section \<open>What an agent sees of the answer\<close>





text \<open>C9: An answer that is shaped like a rate-limit error is handed to the agent as it came: whatever the resource
  is labelled and even where the coarse check let the read through only to be filtered, it is neither
  labelled by the guard nor filtered nor accumulated into the agent's labels.\<close>

theorem rate_limited_answer_unfiltered:
  assumes "call_checks sv t ctx sid tool args gw = (Inr (ctx1, g, m), gw1)"
    and "call_prephases (pipeline_input_of (cx_agent ctx1) tool args g m) (gw_agents gw1) = Return (Inr pre, r1)"
    and "fst (cb_Allow (at_allow t) (getCircuitBreaker sid (gw_breakers gw))) = None"
    and "answer \<lparr>br_server = sid, br_session = cx_session ctx1, br_method = ''tools/call'', br_name = tool, br_args = args\<rparr> = Inr v"
    and "isRateLimitToolResult (sv_lower sv) (at_answer t) v = Return (True, reset)"
  shows "\<exists>gw'. callBackendTool sv t answer ctx sid tool args gw =
      Return (RateLimited \<lparr>Content = [TextContent (extractRateLimitErrorText v)], IsError = True\<rparr> v, gw') \<and>
    gw_agents gw' = r1"
proof -
  obtain cb1 where cb: "cb_Allow (at_allow t) (getCircuitBreaker sid (gw_breakers gw1)) = (None, cb1)"
    using assms(3) call_checks_frame[OF assms(1)]
    by (cases "cb_Allow (at_allow t) (getCircuitBreaker sid (gw_breakers gw))") auto
  show ?thesis
    using assms(1,2,4,5) cb by (simp add: callBackendTool_def call_backend_def Let_def pipeline_input_of_def)
qed

definition demo_rate_limit :: json where
  "demo_rate_limit =
     JObj [(''isError'', JBool True),
           (''content'', JArr [JObj [(''type'', JStr ''text''), (''text'', JStr ''secret API rate limit exceeded'')]])]"

lemma rate_limited_answer_unfiltered_witness:
  "\<exists>gw'. callBackendTool demo_server demo_times (\<lambda>_. Inr demo_rate_limit) demo_ctx ''github'' ''list_issues'' JNull demo_gateway =
     Return (RateLimited \<lparr>Content = [TextContent ''secret API rate limit exceeded''], IsError = True\<rparr> demo_rate_limit, gw')"
proof -
  obtain pre r1 where p: "call_prephases (pipeline_input_of (cx_agent demo_ctx) ''list_issues'' JNull demo_guard EnforcementFilter)
      (gw_agents demo_gateway) = Return (Inr pre, r1)"
    using demo_prephases by (auto simp: demo_ctx_def)
  have "(case isRateLimitToolResult (sv_lower demo_server) (at_answer demo_times) demo_rate_limit of
      Return (b, reset) \<Rightarrow> b | Panic \<Rightarrow> False)" by code_simp
  then obtain reset where l: "isRateLimitToolResult (sv_lower demo_server) (at_answer demo_times) demo_rate_limit = Return (True, reset)"
    by (auto split: go.splits prod.splits)
  have a: "fst (cb_Allow (at_allow demo_times) (getCircuitBreaker ''github'' (gw_breakers demo_gateway))) = None" by code_simp
  have "extractRateLimitErrorText demo_rate_limit = ''secret API rate limit exceeded''" by code_simp
  with rate_limited_answer_unfiltered[OF demo_checks p a refl l] show ?thesis by auto
qed

section \<open>Limits\<close>

text \<open>The limit of a tool in the policy that initialized a session.\<close>

definition limit_of :: "init_request \<Rightarrow> string \<Rightarrow> int option" where
  "limit_of req tool = (case AllowOnly (ir_policy req) of None \<Rightarrow> None | Some a \<Rightarrow> map_of (CopyTrimmedStringIntMap (ToolCallLimits a)) tool)"

lemma state_after_install:
  assumes "limit_of req tool = Some limit"
  obtains st where "state_at (init_install sid sv req m ss) sid sv = Some st"
    "map_of (gs_ToolCallLimits st) tool = Some limit" "count_of st tool = 0"
  using assms that by (auto simp: state_at_install limit_of_def count_of_def split: option.splits)

text \<open>C10: After a session was initialized with a positive limit for a tool, any sequence of calls, mixed with calls on
  other tools, servers and sessions in any order, lets pass exactly the first \<open>limit\<close> calls of that tool in
  that session: never more, and never fewer while attempts are made.\<close>

theorem tool_call_limit_exact:
  assumes "limit_of req tool = Some limit" and "0 < limit"
  shows "int (count_list (attempts xs (init_install sid sv req m ss)) (sid, sv, tool)) =
    min (int (count_list xs (sid, sv, tool))) limit"
  using state_after_install[OF assms(1)] attempts_exact[OF _ _ assms(2)] assms(2) by (metis diff_zero less_imp_le order_refl)

definition demo_limits :: init_request where
  "demo_limits =
     \<lparr>ir_policy = \<lparr>AllowOnly = Some (zero_allow_only\<lparr>ToolCallLimits := [('' get_file '', 1)]\<rparr>), WriteSink = None\<rparr>,
      ir_source = ''server'', ir_payload = JNull\<rparr>"

lemma tool_call_limit_exact_witness:
  "int (count_list (attempts [(''s'', ''github'', ''get_file''), (''s'', ''github'', ''list''), (''s'', ''github'', ''get_file'')]
     (init_install ''s'' ''github'' demo_limits EnforcementFilter [])) (''s'', ''github'', ''get_file'')) = 1"
proof -
  have "limit_of demo_limits ''get_file'' = Some 1" by code_simp
  from tool_call_limit_exact[OF this] show ?thesis by (simp del: attempts.simps)
qed




section \<open>The circuit breaker around a call\<close>

lemma errors_Allow: "errors (snd (cb_Allow now cb)) = errors cb"
  by (auto simp: cb_Allow_def errors_def split: cb_state.splits)

lemma settled_simps:
  "\<not> probeInFlight (RecordProbeReleased cb)" "\<not> probeInFlight (RecordSuccess cb)"
  "\<not> probeInFlight (RecordRateLimit now reset cb)"
  by (auto simp: RecordProbeReleased_def RecordSuccess_def RecordRateLimit_def Let_def split: prod.split cb_state.split)

text \<open>Every call settles what it took from the circuit breaker. When the backend was contacted, the probe slot of
  its breaker is free afterwards, whatever the outcome; a transport error leaves the count of consecutive
  rate limits as it was, a rate-limited answer adds one, any other answer clears it; and the breakers of
  all other servers stay untouched.\<close>

lemma call_settles_breaker:
  assumes "callBackendTool sv t answer ctx sid tool args gw = Return (reply, gw')"
  defines "cb \<equiv> getCircuitBreaker sid (gw_breakers gw)" and "cb' \<equiv> getCircuitBreaker sid (gw_breakers gw')"
  shows "(gw_sent gw' \<noteq> gw_sent gw \<longrightarrow> \<not> probeInFlight cb' \<and>
      errors cb' = (case reply of
         Failed (BackendFailed _) \<Rightarrow> errors cb | RateLimited _ _ \<Rightarrow> Suc (errors cb) | _ \<Rightarrow> 0)) \<and>
    (gw_sent gw' = gw_sent gw \<longrightarrow> errors cb' = errors cb) \<and>
    (\<forall>other. other \<noteq> sid \<longrightarrow> getCircuitBreaker other (gw_breakers gw') = getCircuitBreaker other (gw_breakers gw))"
  using assms(1)
proof (cases rule: callBackendTool_cases)
  case (called ctx1 g m gw1 pre r1)
  have F: "gw_sent gw1 = gw_sent gw" "gw_breakers gw1 = gw_breakers gw" using call_checks_frame[OF called(1)] by auto
  have E: "cb_Allow (at_allow t) cb = (e, cb1) \<Longrightarrow> errors cb1 = errors cb" for e cb1
    using errors_Allow[of "at_allow t" cb] by simp
  from called(3) show ?thesis
  proof (cases rule: call_backend_cases)
    case (answered cb1 v reset r)
    have "\<And>e. reply \<noteq> Failed (BackendFailed e)" using call_response_not_failed answered(4) by blast
    moreover have "\<And>c w. reply \<noteq> RateLimited c w" using call_response_not_limited answered(4) by blast
    ultimately show ?thesis
      using answered F by (auto simp: cb'_def settled_simps errors_RecordSuccess split: tool_reply.split call_error.split)
  qed (use F E in \<open>auto simp: cb'_def cb_def settled_simps errors_RecordRateLimit release_keeps\<close>)
next
  case (checked e)
  with call_checks_frame[OF checked(1)] show ?thesis by (simp add: cb_def cb'_def)
next
  case (denied ctx1 g m gw1 e r1)
  with call_checks_frame[OF denied(1)] show ?thesis by (simp add: cb_def cb'_def)
qed

lemma call_settles_breaker_example:
  "\<exists>reply gw'. callBackendTool demo_server demo_times (\<lambda>_. Inr demo_rate_limit) demo_ctx ''github'' ''list_issues'' JNull demo_gateway
      = Return (reply, gw') \<and> \<not> probeInFlight (getCircuitBreaker ''github'' (gw_breakers gw'))"
proof -
  let ?call = "callBackendTool demo_server demo_times (\<lambda>_. Inr demo_rate_limit) demo_ctx ''github'' ''list_issues'' JNull demo_gateway"
  have "case ?call of Return (reply, gw') \<Rightarrow> gw_sent gw' \<noteq> [] | Panic \<Rightarrow> False" by code_simp
  then obtain reply gw' where c: "?call = Return (reply, gw')" "gw_sent gw' \<noteq> []" by (auto split: go.splits)
  from call_settles_breaker[OF c(1)] c show ?thesis by (simp add: demo_gateway_def)
qed

section \<open>Delegated executors\<close>



section \<open>Prompts\<close>

text \<open>A prompt call either fails without contacting the backend or sends it exactly one request, and then the
  agent's policy permits the server, the allow list contains the prompt, and the coarse check did not deny
  it. It never touches the circuit breakers nor the delegation store: prompts are not rate-limited, and a
  delegated executor is kept away from them only by the method gate in front.\<close>

lemma prompt_contact_gated:
  assumes "callBackendPrompt sv decode answer ctx sid name args gw = Return (res, gw')"
  shows "(if gw_sent gw' = gw_sent gw then \<exists>e. res = Inl e
     else gw_sent gw' = gw_sent gw @ [\<lparr>br_server = sid, br_session = cx_session ctx, br_method = ''prompts/get'',
         br_name = name, br_args = JObj (map (\<lambda>(k, v). (k, JStr v)) args)\<rparr>] \<and>
       agentCanAccessServer (sv_config sv) (cx_agent ctx) sid \<and> isPromptAllowed (allowedPromptSets sv) sid name \<and>
       (\<exists>g m pre r0 r1. RunPipelinePrePhases
          (pipeline_input_of (cx_agent ctx) name (JObj (map (\<lambda>(k, v). (k, JStr v)) args)) g m) r0 = Return (Inr pre, r1) \<and>
          pre_CoarseOutcome pre \<noteq> CoarseDenied)) \<and>
    gw_breakers gw' = gw_breakers gw \<and> gw_store gw' = gw_store gw"
  using assms
proof (cases rule: callBackendPrompt_cases)
  case (sent g m gw1 pre r1)
  note P = call_prephases_Inr[OF sent(2)]
  from PrePhases_Return[OF P] have "pre_CoarseOutcome pre \<noteq> CoarseDenied" by blast
  with P show ?thesis using sent(3-5) prompt_checks_cases[OF sent(1)] by simp blast
next
  case (checked e)
  with prompt_checks_cases(1)[OF checked(1)] show ?thesis by simp
next
  case (denied g m gw1 e r1)
  with prompt_checks_cases(1)[OF denied(1)] show ?thesis by simp
qed

lemma prompt_contact_gated_example:
  "\<exists>res gw'. callBackendPrompt demo_server (\<lambda>v. Inr v) (\<lambda>_. Inr (JArr [])) demo_ctx ''github'' ''hello'' [] demo_gateway = Return (res, gw') \<and>
     gw_breakers gw' = []"
proof -
  let ?call = "callBackendPrompt demo_server (\<lambda>v. Inr v) (\<lambda>_. Inr (JArr [])) demo_ctx ''github'' ''hello'' [] demo_gateway"
  have "returns ?call" by code_simp
  then obtain res gw' where c: "?call = Return (res, gw')" by (auto simp: returns_iff)
  from prompt_contact_gated[OF c] c show ?thesis by (auto simp: demo_gateway_def)
qed

end
