(* ===== verification/Regexp.thy ===== *)
theory Regexp imports GoStrings begin

text \<open>
  The subset of Go's \<open>regexp\<close> package that the routers use: a leftmost match that, among
  the matches at one position, prefers the one a backtracking search finds first. A pattern is
  a term over the constructs of the source's patterns; \<open>show_rx\<close> is \<open>Regexp.String\<close>.
  Strings are UTF-8 bytes: every literal and class is ASCII, and a byte above 0x7F belongs to no
  ASCII class and to every negated one, so matching bytes and matching code points agree.
\<close>

section \<open>Patterns\<close>

datatype cls = NotIn string | OneOf string string | Digit | WordCh | Space | Dot

fun is_word :: "char \<Rightarrow> bool" where
  "is_word c = (is_digit c \<or> is_upper_ascii c \<or> ((97::nat) \<le> of_char c \<and> (of_char c :: nat) \<le> 122) \<or> c = CHR ''_'')"

text \<open>\<open>OneOf s cs\<close> is a bracket expression: \<open>s\<close> its source text, \<open>cs\<close> its characters.\<close>

fun cls_ok :: "cls \<Rightarrow> char \<Rightarrow> bool" where
  "cls_ok (NotIn cs) c = (c \<notin> set cs)"
| "cls_ok (OneOf s cs) c = (c \<in> set cs)"
| "cls_ok Digit c = is_digit c"
| "cls_ok WordCh c = is_word c"
| "cls_ok Space c = (c \<in> set [CHR 0x09, CHR 0x0A, CHR 0x0C, CHR 0x0D, CHR 0x20])"
| "cls_ok Dot c = (c \<noteq> CHR 0x0A)"

text \<open>
  \<open>Lit\<close> literal text, \<open>LitI\<close> the same under the flag (?i), \<open>Rep c lo hi\<close> a greedy
  repetition of a class, \<open>Grp\<close> a capturing group, \<open>Opt\<close> a greedy question mark.
\<close>

datatype rx =
    Lit string
  | LitI string
  | Rep cls nat "nat option"
  | Cat rx rx
  | Alt rx rx
  | Opt rx
  | Grp rx
  | WordB
  | AtStart
  | AtEnd
  | Eps

fun cat :: "rx list \<Rightarrow> rx" where
  "cat [] = Eps"
| "cat [r] = r"
| "cat (r # s # rs) = Cat r (cat (s # rs))"

abbreviation many :: "cls \<Rightarrow> rx" where "many c \<equiv> Rep c 0 None"
abbreviation some1 :: "cls \<Rightarrow> rx" where "some1 c \<equiv> Rep c 1 None"

fun rx_groups :: "rx \<Rightarrow> nat" where
  "rx_groups (Cat r s) = rx_groups r + rx_groups s"
| "rx_groups (Alt r s) = rx_groups r + rx_groups s"
| "rx_groups (Opt r) = rx_groups r"
| "rx_groups (Grp r) = Suc (rx_groups r)"
| "rx_groups _ = 0"

section \<open>The source text of a pattern\<close>

fun show_cls :: "cls \<Rightarrow> string" where
  "show_cls (NotIn cs) = ''[^'' @ cs @ '']''"
| "show_cls (OneOf s cs) = s"
| "show_cls Digit = [CHR 0x5C, CHR ''d'']"
| "show_cls WordCh = [CHR 0x5C, CHR ''w'']"
| "show_cls Space = [CHR 0x5C, CHR ''s'']"
| "show_cls Dot = ''.''"

definition show_lit :: "string \<Rightarrow> string" where
  "show_lit s = concat (map (\<lambda>c. if c \<in> set ''(){}[].+*?|^$'' \<or> c = CHR 0x5C then [CHR 0x5C, c] else [c]) s)"

fun show_count :: "nat \<Rightarrow> nat option \<Rightarrow> string" where
  "show_count lo hi =
     (if hi = None then (if lo = 0 then ''*'' else ''+'')
      else if lo = 1 \<and> hi = Some 1 then ''''
      else ''{...}'')"

fun show_rx :: "rx \<Rightarrow> string" and show_alts :: "rx \<Rightarrow> string" where
  "show_rx (Lit s) = show_lit s"
| "show_rx (LitI s) = show_lit s"
| "show_rx (Rep c lo hi) = show_cls c @ show_count lo hi"
| "show_rx (Cat r s) = show_rx r @ show_rx s"
| "show_rx (Alt r s) = ''(?:'' @ show_rx r @ ''|'' @ show_alts s @ '')''"
| "show_rx (Opt r) = ''(?:'' @ show_rx r @ '')?''"
| "show_rx (Grp r) = ''('' @ show_rx r @ '')''"
| "show_rx WordB = [CHR 0x5C, CHR ''b'']"
| "show_rx AtStart = ''^''"
| "show_rx AtEnd = ''$''"
| "show_rx Eps = ''''"
| "show_alts (Alt r s) = show_rx r @ ''|'' @ show_alts s"
| "show_alts r = show_rx r"

section \<open>Matching\<close>

text \<open>
  A position is the text before it, reversed, and the text after it. \<open>matches\<close> lists every
  way to match from a position in the order a backtracking search meets them, with the captured
  groups; a group that takes no part captures the empty string.
\<close>

type_synonym pos = "string \<times> string"

fun advance :: "nat \<Rightarrow> pos \<Rightarrow> pos" where
  "advance n (pre, s) = (rev (take n s) @ pre, drop n s)"

definition fold_variants :: "char \<Rightarrow> string list" where
  "fold_variants c =
     (let l = lower_char c in
      if is_upper_ascii c \<or> ((97::nat) \<le> of_char c \<and> (of_char c :: nat) \<le> 122)
      then [[l], [char_of (of_char l - (32::nat))]] @
           (if l = CHR ''k'' then [[CHR 0xE2, CHR 0x84, CHR 0xAA]] else []) @
           (if l = CHR ''s'' then [[CHR 0xC5, CHR 0xBF]] else [])
      else [[c]])"

fun match_fold :: "string \<Rightarrow> string \<Rightarrow> nat option" where
  "match_fold [] s = Some 0"
| "match_fold (c # cs) s =
     (case find (\<lambda>v. prefix v s) (fold_variants c) of
        None \<Rightarrow> None
      | Some v \<Rightarrow> map_option (\<lambda>n. length v + n) (match_fold cs (drop (length v) s)))"

fun at_word :: "string \<Rightarrow> bool" where
  "at_word [] = False"
| "at_word (c # s) = is_word c"

fun rx_matches :: "rx \<Rightarrow> pos \<Rightarrow> (string list \<times> pos) list" where
  "rx_matches (Lit l) p = (if prefix l (snd p) then [([], advance (length l) p)] else [])"
| "rx_matches (LitI l) p =
     (case match_fold l (snd p) of None \<Rightarrow> [] | Some n \<Rightarrow> [([], advance n p)])"
| "rx_matches (Rep c lo hi) p =
     (let run = length (takeWhile (cls_ok c) (snd p));
          top = (case hi of None \<Rightarrow> run | Some h \<Rightarrow> min run h)
      in map (\<lambda>n. ([], advance n p)) (rev [lo ..< Suc top]))"
| "rx_matches (Cat r s) p =
     concat (map (\<lambda>(g, q). map (\<lambda>(h, q'). (g @ h, q')) (rx_matches s q)) (rx_matches r p))"
| "rx_matches (Alt r s) p =
     map (\<lambda>(g, q). (g @ replicate (rx_groups s) [], q)) (rx_matches r p) @
     map (\<lambda>(g, q). (replicate (rx_groups r) [] @ g, q)) (rx_matches s p)"
| "rx_matches (Opt r) p = rx_matches r p @ [(replicate (rx_groups r) [], p)]"
| "rx_matches (Grp r) p =
     map (\<lambda>(g, q). (take (length (snd p) - length (snd q)) (snd p) # g, q)) (rx_matches r p)"
| "rx_matches WordB p = (if at_word (fst p) \<noteq> at_word (snd p) then [([], p)] else [])"
| "rx_matches AtStart p = (if fst p = [] then [([], p)] else [])"
| "rx_matches AtEnd p = (if snd p = [] then [([], p)] else [])"
| "rx_matches Eps p = [([], p)]"

text \<open>The leftmost match from a position on: where it starts, its groups, where it ends.\<close>

fun find_from :: "rx \<Rightarrow> string \<Rightarrow> string \<Rightarrow> (pos \<times> string list \<times> pos) option" where
  "find_from r pre [] = (case rx_matches r (pre, []) of [] \<Rightarrow> None | (g, q) # _ \<Rightarrow> Some ((pre, []), g, q))"
| "find_from r pre (c # s) =
     (case rx_matches r (pre, c # s) of
        (g, q) # _ \<Rightarrow> Some ((pre, c # s), g, q)
      | [] \<Rightarrow> find_from r (c # pre) s)"

definition FindStringSubmatch :: "rx \<Rightarrow> string \<Rightarrow> string list option" where
  "FindStringSubmatch r s =
     (case find_from r [] s of
        None \<Rightarrow> None
      | Some (p, g, q) \<Rightarrow> Some (take (length (snd p) - length (snd q)) (snd p) # g))"

definition MatchString :: "rx \<Rightarrow> string \<Rightarrow> bool" where
  "MatchString r s \<longleftrightarrow> find_from r [] s \<noteq> None"

section \<open>What a match says of the text\<close>

definition consumes :: "pos \<Rightarrow> string \<Rightarrow> pos \<Rightarrow> bool" where
  "consumes p u q \<longleftrightarrow> snd p = u @ snd q \<and> fst q = rev u @ fst p"

lemma consumes_refl [simp]: "consumes p [] p"
  by (simp add: consumes_def)

lemma consumes_trans: "consumes p u q \<Longrightarrow> consumes q v q' \<Longrightarrow> consumes p (u @ v) q'"
  by (simp add: consumes_def)

lemma consumes_advance: "n \<le> length (snd p) \<Longrightarrow> consumes p (take n (snd p)) (advance n p)"
  by (cases p) (simp add: consumes_def)

lemma match_fold_le: "match_fold l s = Some n \<Longrightarrow> n \<le> length s"
proof (induction l arbitrary: s n)
  case (Cons c cs)
  from Cons.prems obtain v m where v: "find (\<lambda>v. prefix v s) (fold_variants c) = Some v"
    and m: "match_fold cs (drop (length v) s) = Some m" "n = length v + m"
    by (auto split: option.splits)
  from v have "length v \<le> length s" by (auto dest!: find_SomeD prefix_length_le)
  with Cons.IH[OF m(1)] m(2) show ?case by simp
qed simp

lemma rx_matches_consumes:
  "(g, q) \<in> set (rx_matches r p) \<Longrightarrow> \<exists>u. consumes p u q \<and> length g = rx_groups r"
proof (induction r p arbitrary: g q rule: rx_matches.induct)
  case (1 l p)
  then show ?case using consumes_advance[of "length l" p]
    by (auto split: if_splits dest: prefix_length_le)
next
  case (2 l p)
  then obtain n where "match_fold l (snd p) = Some n" "g = []" "q = advance n p"
    by (cases "match_fold l (snd p)") auto
  with consumes_advance[OF match_fold_le[OF this(1)]] show ?case by auto
next
  case (3 c lo hi p)
  then obtain n where q: "q = advance n p" "g = []" and n: "n \<le> length (takeWhile (cls_ok c) (snd p))"
    by (auto simp: Let_def split: option.splits)
  from n have "n \<le> length (snd p)"
    using length_takeWhile_le[of "cls_ok c" "snd p"] by linarith
  with q consumes_advance[of n p] show ?case by auto
next
  case (4 r s p)
  then obtain g1 q1 g2 where
    one: "(g1, q1) \<in> set (rx_matches r p)" and two: "(g2, q) \<in> set (rx_matches s q1)" "g = g1 @ g2"
    by auto
  from "4.IH"(1)[OF one] obtain u where u: "consumes p u q1" "length g1 = rx_groups r" by blast
  from "4.IH"(2)[OF one refl two(1)] obtain v where v: "consumes q1 v q" "length g2 = rx_groups s" by blast
  from consumes_trans[OF u(1) v(1)] u(2) v(2) two(2) show ?case by auto
next
  case (5 r s p)
  then show ?case by fastforce
next
  case (6 r p)
  from "6.prems" consider "(g, q) \<in> set (rx_matches r p)" | "g = replicate (rx_groups r) []" "q = p"
    by auto
  then show ?case
  proof cases
    case 1
    then show ?thesis using "6.IH" by simp
  next
    case 2
    then show ?thesis by (auto intro: exI[of _ "[]"])
  qed
next
  case (7 r p)
  then show ?case by fastforce
qed (auto split: if_splits intro: consumes_refl)

lemma find_from_matches:
  "find_from r pre s = Some (p, g, q) \<Longrightarrow> \<exists>u. consumes (pre, s) u p \<and> (g, q) \<in> set (rx_matches r p)"
proof (induction s arbitrary: pre)
  case Nil
  then show ?case by (auto split: list.splits intro!: exI[of _ "[]"])
next
  case (Cons c s)
  show ?case
  proof (cases "rx_matches r (pre, c # s)")
    case Nil
    with Cons.prems have "find_from r (c # pre) s = Some (p, g, q)" by simp
    from Cons.IH[OF this] obtain u where "consumes (c # pre, s) u p" "(g, q) \<in> set (rx_matches r p)"
      by blast
    moreover from this(1) have "consumes (pre, c # s) (c # u) p" by (simp add: consumes_def)
    ultimately show ?thesis by blast
  next
    case (Cons m ms)
    with Cons.prems show ?thesis by (cases m) (auto intro!: exI[of _ "[]"])
  qed
qed

lemma find_from_None:
  "find_from r pre s = None \<longleftrightarrow> (\<forall>u v. s = u @ v \<longrightarrow> rx_matches r (rev u @ pre, v) = [])"
proof (induction s arbitrary: pre)
  case Nil
  then show ?case by (auto split: list.splits)
next
  case (Cons c s)
  have "(\<forall>u v. c # s = u @ v \<longrightarrow> rx_matches r (rev u @ pre, v) = []) \<longleftrightarrow>
      rx_matches r (pre, c # s) = [] \<and> (\<forall>u v. s = u @ v \<longrightarrow> rx_matches r (rev u @ c # pre, v) = [])"
  proof (intro iffI conjI allI impI)
    assume all: "\<forall>u v. c # s = u @ v \<longrightarrow> rx_matches r (rev u @ pre, v) = []"
    from all[rule_format, of "[]" "c # s"] show "rx_matches r (pre, c # s) = []" by simp
    fix u v assume "s = u @ v"
    with all[rule_format, of "c # u" v] show "rx_matches r (rev u @ c # pre, v) = []" by simp
  qed (auto simp: Cons_eq_append_conv)
  then show ?case using Cons.IH[of "c # pre"] by (auto split: list.splits)
qed

text \<open>An anchored pattern can only match at the start.\<close>

lemma anchored_later: "pre \<noteq> [] \<Longrightarrow> find_from (Cat AtStart r) pre s = None"
  by (auto simp: find_from_None)

lemma find_from_anchored:
  "find_from (Cat AtStart r) [] s =
     (case rx_matches r ([], s) of [] \<Rightarrow> None | (g, q) # _ \<Rightarrow> Some (([], s), g, q))"
  by (cases s) (auto simp: anchored_later case_prod_unfold split: list.splits)

lemma FindStringSubmatch_anchored:
  "FindStringSubmatch (Cat AtStart r) s =
     (case rx_matches r ([], s) of
        [] \<Rightarrow> None
      | (g, q) # _ \<Rightarrow> Some (take (length s - length (snd q)) s # g))"
  by (auto simp: FindStringSubmatch_def find_from_anchored split: list.splits)

lemma anchored_SomeE:
  assumes "FindStringSubmatch (Cat AtStart r) s = Some ms"
  obtains w g q where "(g, q) \<in> set (rx_matches r ([], s))" "ms = w # g"
proof (cases "rx_matches r ([], s)")
  case Nil
  with assms show thesis by (simp add: FindStringSubmatch_anchored)
next
  case (Cons m ms')
  then have "(fst m, snd m) \<in> set (rx_matches r ([], s))" by simp
  moreover from Cons assms have "ms = take (length s - length (snd (snd m))) s # fst m"
    by (simp add: FindStringSubmatch_anchored split_beta)
  ultimately show thesis by (rule that)
qed

lemma FindStringSubmatch_length:
  "FindStringSubmatch r s = Some m \<Longrightarrow> length m = Suc (rx_groups r)"
  by (auto simp: FindStringSubmatch_def split: option.splits dest!: find_from_matches rx_matches_consumes)

text \<open>Matches of the constructs the patterns are made of.\<close>

lemma Cat_matches_iff:
  "(g, q) \<in> set (rx_matches (Cat r s) p) \<longleftrightarrow>
     (\<exists>g1 q1 g2. (g1, q1) \<in> set (rx_matches r p) \<and> (g2, q) \<in> set (rx_matches s q1) \<and> g = g1 @ g2)"
  by force

lemma Lit_matches_iff:
  "(g, q) \<in> set (rx_matches (Lit l) (pre, s)) \<longleftrightarrow>
     g = [] \<and> (\<exists>s'. s = l @ s' \<and> q = (rev l @ pre, s'))"
  by (auto simp: prefix_def)

lemma MatchString_anchored: "MatchString (Cat AtStart r) s \<longleftrightarrow> rx_matches r ([], s) \<noteq> []"
  by (simp add: MatchString_def find_from_anchored split: list.splits)

lemma Lit_CatE:
  assumes "(g, q) \<in> set (rx_matches (Cat (Lit l) r) (pre, s))"
  obtains s' where "s = l @ s'" "(g, q) \<in> set (rx_matches r (rev l @ pre, s'))"
  using assms unfolding Cat_matches_iff Lit_matches_iff by auto

lemma Rep_bound_iff:
  "(g, q) \<in> set (rx_matches (Rep c lo hi) (pre, s)) \<longleftrightarrow>
     g = [] \<and> (\<exists>n. lo \<le> n \<and> n \<le> length (takeWhile (cls_ok c) s) \<and> (\<forall>h. hi = Some h \<longrightarrow> n \<le> h) \<and>
       q = advance n (pre, s))"
  by (cases hi) (auto simp: Let_def less_Suc_eq_le simp del: upt_Suc advance.simps)

lemma Rep_matches_iff:
  "(g, q) \<in> set (rx_matches (Rep c lo hi) (pre, s)) \<longleftrightarrow>
     g = [] \<and> (\<exists>u s'. s = u @ s' \<and> lo \<le> length u \<and> (\<forall>h. hi = Some h \<longrightarrow> length u \<le> h) \<and>
       (\<forall>x\<in>set u. cls_ok c x) \<and> q = (rev u @ pre, s'))"
proof
  assume "(g, q) \<in> set (rx_matches (Rep c lo hi) (pre, s))"
  then obtain n where n: "lo \<le> n" "n \<le> length (takeWhile (cls_ok c) s)" "\<forall>h. hi = Some h \<longrightarrow> n \<le> h"
    "g = []" "q = advance n (pre, s)"
    unfolding Rep_bound_iff by blast
  have "take n s = take n (takeWhile (cls_ok c) s)"
    using n(2) by (metis takeWhile_eq_take take_take min.absorb1)
  then have ok: "\<forall>x\<in>set (take n s). cls_ok c x"
    using set_takeWhileD by (metis in_set_takeD)
  from n(2) have "n \<le> length s" using length_takeWhile_le[of "cls_ok c" s] by linarith
  with n ok show "g = [] \<and> (\<exists>u s'. s = u @ s' \<and> lo \<le> length u \<and> (\<forall>h. hi = Some h \<longrightarrow> length u \<le> h) \<and>
      (\<forall>x\<in>set u. cls_ok c x) \<and> q = (rev u @ pre, s'))"
    by (auto intro!: exI[of _ "take n s"] exI[of _ "drop n s"])
next
  assume "g = [] \<and> (\<exists>u s'. s = u @ s' \<and> lo \<le> length u \<and> (\<forall>h. hi = Some h \<longrightarrow> length u \<le> h) \<and>
      (\<forall>x\<in>set u. cls_ok c x) \<and> q = (rev u @ pre, s'))"
  then obtain u s' where u: "g = []" "s = u @ s'" "lo \<le> length u" "\<forall>h. hi = Some h \<longrightarrow> length u \<le> h"
    "\<forall>x\<in>set u. cls_ok c x" "q = (rev u @ pre, s')" by blast
  then have "length u \<le> length (takeWhile (cls_ok c) s)"
    by (simp add: takeWhile_append2)
  with u show "(g, q) \<in> set (rx_matches (Rep c lo hi) (pre, s))"
    unfolding Rep_bound_iff by (auto intro!: exI[of _ "length u"])
qed

lemma AtEnd_matches_iff: "(g, q) \<in> set (rx_matches AtEnd (pre, s)) \<longleftrightarrow> g = [] \<and> s = [] \<and> q = (pre, s)"
  by auto

lemma Rep_CatE:
  assumes "(g, q) \<in> set (rx_matches (Cat (Rep c lo hi) r) (pre, s))"
  obtains u s' where "s = u @ s'" "lo \<le> length u" "\<And>h. hi = Some h \<Longrightarrow> length u \<le> h" "\<forall>x\<in>set u. cls_ok c x"
    "(g, q) \<in> set (rx_matches r (rev u @ pre, s'))"
  using assms unfolding Cat_matches_iff Rep_matches_iff by auto

lemma Grp_matches_iff:
  "(g, q) \<in> set (rx_matches (Grp r) p) \<longleftrightarrow>
     (\<exists>h u. (h, q) \<in> set (rx_matches r p) \<and> consumes p u q \<and> g = u # h)"
proof
  assume "(g, q) \<in> set (rx_matches (Grp r) p)"
  then obtain h where h: "(h, q) \<in> set (rx_matches r p)"
    "g = take (length (snd p) - length (snd q)) (snd p) # h" by auto
  from rx_matches_consumes[OF h(1)] obtain u where "consumes p u q" by blast
  with h show "\<exists>h u. (h, q) \<in> set (rx_matches r p) \<and> consumes p u q \<and> g = u # h"
    by (auto simp: consumes_def)
next
  assume "\<exists>h u. (h, q) \<in> set (rx_matches r p) \<and> consumes p u q \<and> g = u # h"
  then obtain h u where "(h, q) \<in> set (rx_matches r p)" "consumes p u q" "g = u # h" by blast
  then show "(g, q) \<in> set (rx_matches (Grp r) p)"
    by (auto simp: consumes_def intro!: image_eqI[of _ _ "(h, q)"])
qed

lemma Grp_CatE:
  assumes "(g, q) \<in> set (rx_matches (Cat (Grp r1) r) (pre, s))"
  obtains u s' h g' where "s = u @ s'" "g = u # h @ g'" "length h = rx_groups r1"
    "(h, (rev u @ pre, s')) \<in> set (rx_matches r1 (pre, s))" "(g', q) \<in> set (rx_matches r (rev u @ pre, s'))"
proof -
  from assms obtain g1 q1 g2 where g: "(g1, q1) \<in> set (rx_matches (Grp r1) (pre, s))"
    "(g2, q) \<in> set (rx_matches r q1)" "g = g1 @ g2"
    unfolding Cat_matches_iff by blast
  from g(1) obtain h u where h: "(h, q1) \<in> set (rx_matches r1 (pre, s))" "consumes (pre, s) u q1" "g1 = u # h"
    unfolding Grp_matches_iff by blast
  from rx_matches_consumes[OF h(1)] have "length h = rx_groups r1" by blast
  moreover obtain s' where "q1 = (rev u @ pre, s')" "s = u @ s'"
    using h(2) by (cases q1) (simp add: consumes_def)
  ultimately show thesis using that[of u s' h g2] h g by simp
qed

lemma GrpRep_CatE:
  assumes "(g, q) \<in> set (rx_matches (Cat (Grp (Rep c lo hi)) r) (pre, s))"
  obtains u s' g' where "s = u @ s'" "lo \<le> length u" "\<forall>x\<in>set u. cls_ok c x" "g = u # g'"
    "(g', q) \<in> set (rx_matches r (rev u @ pre, s'))"
proof -
  from assms obtain u s' h g' where u: "s = u @ s'" "g = u # h @ g'" "length h = rx_groups (Rep c lo hi)"
    "(h, (rev u @ pre, s')) \<in> set (rx_matches (Rep c lo hi) (pre, s))" "(g', q) \<in> set (rx_matches r (rev u @ pre, s'))"
    by (rule Grp_CatE)
  from u(4) obtain v t where v: "s = v @ t" "lo \<le> length v" "\<forall>x\<in>set v. cls_ok c x" "s' = t"
    unfolding Rep_matches_iff by auto
  with u(1) have "v = u" by simp
  moreover have "h = []" using u(3) by simp
  ultimately show thesis using that[of u s' g'] u v by simp
qed

end
