(* ===== verification/ProxyRoutes.thy ===== *)
theory ProxyRoutes imports Regexp McpResult begin

text \<open>
  \<open>internal/proxy/router.go\<close> and \<open>internal/restroute\<close>: the table that maps REST paths to
  guard tools, the dispatch index built from the patterns' source text, and the lookup through
  it. The main lemma says that the index changes nothing: the lookup answers what a scan of the
  whole table answers.
\<close>

section \<open>Arguments of the guard tools\<close>

record route_match =
  rm_ToolName :: string
  rm_Owner :: string
  rm_Repo :: string
  rm_Args :: json_object

record route =
  rt_pattern :: rx
  rt_toolName :: string
  rt_extractArgs :: "string list \<Rightarrow> json_object"

definition repoArgs :: "string \<Rightarrow> string \<Rightarrow> json_object" where
  "repoArgs owner repo = [(''owner'', JStr owner), (''repo'', JStr repo)]"

definition prArgs :: "string \<Rightarrow> string \<Rightarrow> string \<Rightarrow> string \<Rightarrow> json_object" where
  "prArgs owner repo pullNumber method =
     [(''owner'', JStr owner), (''repo'', JStr repo), (''pullNumber'', JStr pullNumber), (''method'', JStr method)]"

definition issueArgs :: "string \<Rightarrow> string \<Rightarrow> string \<Rightarrow> string list \<Rightarrow> json_object" where
  "issueArgs owner repo issueNumber method =
     (let m = [(''owner'', JStr owner), (''repo'', JStr repo), (''issue_number'', JStr issueNumber)]
      in case method of [] \<Rightarrow> m | x # _ \<Rightarrow> AList.update ''method'' (JStr x) m)"

definition repoMethodArgs :: "string \<Rightarrow> string \<Rightarrow> string \<Rightarrow> json_object" where
  "repoMethodArgs owner repo method =
     [(''owner'', JStr owner), (''repo'', JStr repo), (''method'', JStr method)]"

definition repoMethodResourceArgs :: "string \<Rightarrow> string \<Rightarrow> string \<Rightarrow> string \<Rightarrow> json_object" where
  "repoMethodResourceArgs owner repo method resourceID =
     [(''owner'', JStr owner), (''repo'', JStr repo), (''method'', JStr method), (''resource_id'', JStr resourceID)]"

definition emptyExtractArgs :: "string list \<Rightarrow> json_object" where
  "emptyExtractArgs m = []"

definition repoArgsExtractor :: "string list \<Rightarrow> json_object" where
  "repoArgsExtractor m = repoArgs (m ! 1) (m ! 2)"

section \<open>The route table\<close>

abbreviation seg :: rx where "seg \<equiv> Grp (some1 (NotIn ''/''))"
abbreviation num :: rx where "num \<equiv> Grp (some1 Digit)"
abbreviation tail :: rx where "tail \<equiv> Grp (some1 Dot)"

abbreviation route :: "rx \<Rightarrow> string \<Rightarrow> (string list \<Rightarrow> json_object) \<Rightarrow> route" where
  "route p t x \<equiv> \<lparr>rt_pattern = p, rt_toolName = t, rt_extractArgs = x\<rparr>"

definition routes :: "route list" where
  "routes =
  [
   route (cat [AtStart, Lit ''/repos/'', seg, Lit ''/'', seg, Lit ''/issues/'', num, Lit ''/comments'', AtEnd])
     ''issue_read'' (\<lambda>m. issueArgs (m ! 1) (m ! 2) (m ! 3) [''get_comments'']),
   route (cat [AtStart, Lit ''/repos/'', seg, Lit ''/'', seg, Lit ''/issues/'', num, Lit ''/labels'', AtEnd])
     ''issue_read'' (\<lambda>m. issueArgs (m ! 1) (m ! 2) (m ! 3) [''get_labels'']),
   route (cat [AtStart, Lit ''/repos/'', seg, Lit ''/'', seg, Lit ''/issues/'', num, AtEnd])
     ''issue_read'' (\<lambda>m. issueArgs (m ! 1) (m ! 2) (m ! 3) []),
   route (cat [AtStart, Lit ''/repos/'', seg, Lit ''/'', seg, Lit ''/issues'', AtEnd])
     ''list_issues'' repoArgsExtractor,
   route (cat [AtStart, Lit ''/repos/'', seg, Lit ''/'', seg, Lit ''/pulls/'', num, Lit ''/files'', AtEnd])
     ''pull_request_read'' (\<lambda>m. prArgs (m ! 1) (m ! 2) (m ! 3) ''get_files''),
   route (cat [AtStart, Lit ''/repos/'', seg, Lit ''/'', seg, Lit ''/pulls/'', num, Lit ''/reviews'', AtEnd])
     ''pull_request_read'' (\<lambda>m. prArgs (m ! 1) (m ! 2) (m ! 3) ''get_reviews''),
   route (cat [AtStart, Lit ''/repos/'', seg, Lit ''/'', seg, Lit ''/pulls/'', num, Lit ''/comments'', AtEnd])
     ''pull_request_read'' (\<lambda>m. prArgs (m ! 1) (m ! 2) (m ! 3) ''get_review_comments''),
   route (cat [AtStart, Lit ''/repos/'', seg, Lit ''/'', seg, Lit ''/pulls/'', num, Lit ''/commits'', AtEnd])
     ''pull_request_read'' (\<lambda>m. prArgs (m ! 1) (m ! 2) (m ! 3) ''get_commits''),
   route (cat [AtStart, Lit ''/repos/'', seg, Lit ''/'', seg, Lit ''/pulls/'', num, AtEnd])
     ''pull_request_read'' (\<lambda>m. prArgs (m ! 1) (m ! 2) (m ! 3) ''get''),
   route (cat [AtStart, Lit ''/repos/'', seg, Lit ''/'', seg, Lit ''/pulls'', AtEnd])
     ''list_pull_requests'' repoArgsExtractor,
   route (cat [AtStart, Lit ''/repos/'', seg, Lit ''/'', seg, Lit ''/commits/'', seg, AtEnd])
     ''get_commit'' (\<lambda>m. [(''owner'', JStr (m ! 1)), (''repo'', JStr (m ! 2)), (''sha'', JStr (m ! 3))]),
   route (cat [AtStart, Lit ''/repos/'', seg, Lit ''/'', seg, Lit ''/commits'', AtEnd])
     ''list_commits'' repoArgsExtractor,
   route (cat [AtStart, Lit ''/repos/'', seg, Lit ''/'', seg, Lit ''/branches'', AtEnd])
     ''list_branches'' repoArgsExtractor,
   route (cat [AtStart, Lit ''/repos/'', seg, Lit ''/'', seg, Lit ''/git/ref/tags/'', tail, AtEnd])
     ''get_tag'' (\<lambda>m. [(''owner'', JStr (m ! 1)), (''repo'', JStr (m ! 2)), (''tag'', JStr (m ! 3))]),
   route (cat [AtStart, Lit ''/repos/'', seg, Lit ''/'', seg, Lit ''/tags'', AtEnd])
     ''list_tags'' repoArgsExtractor,
   route (cat [AtStart, Lit ''/repos/'', seg, Lit ''/'', seg, Lit ''/releases/latest'', AtEnd])
     ''get_latest_release'' repoArgsExtractor,
   route (cat [AtStart, Lit ''/repos/'', seg, Lit ''/'', seg, Lit ''/releases/tags/'', tail, AtEnd])
     ''get_release_by_tag'' (\<lambda>m. [(''owner'', JStr (m ! 1)), (''repo'', JStr (m ! 2)), (''tag'', JStr (m ! 3))]),
   route (cat [AtStart, Lit ''/repos/'', seg, Lit ''/'', seg, Lit ''/releases'', AtEnd])
     ''list_releases'' repoArgsExtractor,
   route (cat [AtStart, Lit ''/repos/'', seg, Lit ''/'', seg, Lit ''/contents/'', tail, AtEnd])
     ''get_file_contents'' (\<lambda>m. [(''owner'', JStr (m ! 1)), (''repo'', JStr (m ! 2)), (''path'', JStr (m ! 3))]),
   route (cat [AtStart, Lit ''/repos/'', seg, Lit ''/'', seg, Lit ''/git/trees/'', tail, AtEnd])
     ''get_file_contents'' (\<lambda>m. [(''owner'', JStr (m ! 1)), (''repo'', JStr (m ! 2)), (''path'', JStr (m ! 3))]),
   route (cat [AtStart, Lit ''/repos/'', seg, Lit ''/'', seg, Lit ''/labels/'', tail, AtEnd])
     ''get_label'' (\<lambda>m. [(''owner'', JStr (m ! 1)), (''repo'', JStr (m ! 2)), (''name'', JStr (m ! 3))]),
   route (cat [AtStart, Lit ''/repos/'', seg, Lit ''/'', seg, Lit ''/labels'', AtEnd])
     ''list_label'' repoArgsExtractor,
   route (cat [AtStart, Lit ''/repos/'', seg, Lit ''/'', seg, Lit ''/actions/workflows'', AtEnd])
     ''actions_list'' (\<lambda>m. repoMethodArgs (m ! 1) (m ! 2) ''list_workflows''),
   route (cat [AtStart, Lit ''/repos/'', seg, Lit ''/'', seg, Lit ''/actions/workflows/'', seg, Lit ''/runs'', AtEnd])
     ''actions_list'' (\<lambda>m. repoMethodResourceArgs (m ! 1) (m ! 2) ''list_workflow_runs'' (m ! 3)),
   route (cat [AtStart, Lit ''/repos/'', seg, Lit ''/'', seg, Lit ''/actions/workflows/'', seg, AtEnd])
     ''actions_get'' (\<lambda>m. repoMethodResourceArgs (m ! 1) (m ! 2) ''get_workflow'' (m ! 3)),
   route (cat [AtStart, Lit ''/repos/'', seg, Lit ''/'', seg, Lit ''/actions/runs/'', num, Lit ''/attempts/'', num, Lit ''/jobs'', AtEnd])
     ''actions_list'' (\<lambda>m. repoMethodResourceArgs (m ! 1) (m ! 2) ''list_workflow_jobs'' (m ! 3)),
   route (cat [AtStart, Lit ''/repos/'', seg, Lit ''/'', seg, Lit ''/actions/runs/'', num, Lit ''/attempts/'', num, Lit ''/logs'', AtEnd])
     ''get_job_logs'' (\<lambda>m. [(''owner'', JStr (m ! 1)), (''repo'', JStr (m ! 2)), (''run_id'', JStr (m ! 3))]),
   route (cat [AtStart, Lit ''/repos/'', seg, Lit ''/'', seg, Lit ''/actions/runs/'', num, Lit ''/logs'', AtEnd])
     ''get_job_logs'' (\<lambda>m. [(''owner'', JStr (m ! 1)), (''repo'', JStr (m ! 2)), (''run_id'', JStr (m ! 3))]),
   route (cat [AtStart, Lit ''/repos/'', seg, Lit ''/'', seg, Lit ''/actions/runs/'', num, Lit ''/artifacts'', AtEnd])
     ''actions_list'' (\<lambda>m. repoMethodResourceArgs (m ! 1) (m ! 2) ''list_workflow_run_artifacts'' (m ! 3)),
   route (cat [AtStart, Lit ''/repos/'', seg, Lit ''/'', seg, Lit ''/actions/runs/'', num, AtEnd])
     ''actions_get'' (\<lambda>m. repoMethodResourceArgs (m ! 1) (m ! 2) ''get_workflow_run'' (m ! 3)),
   route (cat [AtStart, Lit ''/repos/'', seg, Lit ''/'', seg, Lit ''/actions/runs'', AtEnd])
     ''actions_list'' (\<lambda>m. repoMethodArgs (m ! 1) (m ! 2) ''list_workflow_runs''),
   route (cat [AtStart, Lit ''/repos/'', seg, Lit ''/'', seg, Lit ''/actions/jobs/'', num, Lit ''/logs'', AtEnd])
     ''get_job_logs'' (\<lambda>m. [(''owner'', JStr (m ! 1)), (''repo'', JStr (m ! 2)), (''job_id'', JStr (m ! 3))]),
   route (cat [AtStart, Lit ''/repos/'', seg, Lit ''/'', seg, Lit ''/actions/jobs/'', num, AtEnd])
     ''actions_get'' (\<lambda>m. repoMethodResourceArgs (m ! 1) (m ! 2) ''get_workflow_job'' (m ! 3)),
   route (cat [AtStart, Lit ''/repos/'', seg, Lit ''/'', seg, Lit ''/actions/artifacts'', AtEnd])
     ''actions_list'' (\<lambda>m. repoMethodArgs (m ! 1) (m ! 2) ''list_workflow_run_artifacts''),
   route (cat [AtStart, Lit ''/repos/'', seg, Lit ''/'', seg, Lit ''/actions/artifacts/'', num, Lit ''/zip'', AtEnd])
     ''actions_get'' (\<lambda>m. repoMethodResourceArgs (m ! 1) (m ! 2) ''download_workflow_run_artifact'' (m ! 3)),
   route (cat [AtStart, Lit ''/repos/'', seg, Lit ''/'', seg, Lit ''/actions/caches'', AtEnd])
     ''actions_list'' (\<lambda>m. repoMethodArgs (m ! 1) (m ! 2) ''list_caches''),
   route (cat [AtStart, Lit ''/repos/'', seg, Lit ''/'', seg, Lit ''/actions/secrets'', AtEnd])
     ''actions_list'' (\<lambda>m. repoMethodArgs (m ! 1) (m ! 2) ''list_secrets''),
   route (cat [AtStart, Lit ''/repos/'', seg, Lit ''/'', seg, Lit ''/actions/variables'', Opt (cat [Lit ''/'', seg]), AtEnd])
     ''actions_list'' (\<lambda>m. repoMethodArgs (m ! 1) (m ! 2) ''list_variables''),
   route (cat [AtStart, Lit ''/repos/'', seg, Lit ''/'', seg, Lit ''/environments/'', seg, Lit ''/'', Alt (Lit ''secrets'') (Lit ''variables''), AtEnd])
     ''actions_list'' (\<lambda>m. repoMethodArgs (m ! 1) (m ! 2) ''list_environment_config''),
   route (cat [AtStart, Lit ''/notifications'', AtEnd])
     ''list_notifications'' emptyExtractArgs,
   route (cat [AtStart, Lit ''/user'', AtEnd])
     ''get_me'' emptyExtractArgs,
   route (cat [AtStart, Lit ''/user/'', Alt (Lit ''keys'') (Alt (Lit ''ssh_signing_keys'') (Lit ''gpg_keys'')), AtEnd])
     ''get_me'' emptyExtractArgs,
   route (cat [AtStart, Lit ''/orgs/'', seg, Lit ''/actions/'', Alt (Lit ''secrets'') (Lit ''variables''), Opt (cat [Lit ''/'', some1 (NotIn ''/'')]), AtEnd])
     ''actions_list'' (\<lambda>m. [(''owner'', JStr (m ! 1)), (''method'', JStr ''list_org_config'')]),
   route (cat [AtStart, Lit ''/repos/'', seg, Lit ''/'', seg, Lit ''/discussions'', AtEnd])
     ''list_discussions'' repoArgsExtractor,
   route (cat [AtStart, Lit ''/repos/'', seg, Lit ''/'', seg, Lit ''/discussions/'', num, Lit ''/comments'', AtEnd])
     ''get_discussion_comments'' (\<lambda>m. [(''owner'', JStr (m ! 1)), (''repo'', JStr (m ! 2)), (''discussion_number'', JStr (m ! 3))]),
   route (cat [AtStart, Lit ''/repos/'', seg, Lit ''/'', seg, Lit ''/discussions/'', num, AtEnd])
     ''list_discussions'' (\<lambda>m. [(''owner'', JStr (m ! 1)), (''repo'', JStr (m ! 2)), (''discussion_number'', JStr (m ! 3))]),
   route (cat [AtStart, Lit ''/repos/'', seg, Lit ''/'', seg, Lit ''/commits/'', seg, Lit ''/check-'', Alt (Lit ''runs'') (Lit ''suites''), AtEnd])
     ''pull_request_read'' (\<lambda>m. [(''owner'', JStr (m ! 1)), (''repo'', JStr (m ! 2)), (''sha'', JStr (m ! 3)), (''method'', JStr ''get_check_runs'')]),
   route (cat [AtStart, Lit ''/search/code'', AtEnd])
     ''search_code'' emptyExtractArgs,
   route (cat [AtStart, Lit ''/search/issues'', AtEnd])
     ''search_issues'' emptyExtractArgs,
   route (cat [AtStart, Lit ''/search/repositories'', AtEnd])
     ''search_repositories'' emptyExtractArgs,
   route (cat [AtStart, Lit ''/repos/'', seg, Lit ''/'', seg, Opt (cat [Lit ''/'', many Dot]), AtEnd])
     ''get_file_contents'' repoArgsExtractor
  ]"

section \<open>The dispatch index\<close>

definition StripQuery :: "string \<Rightarrow> string" where
  "StripQuery path = (case cut CHR ''?'' path of None \<Rightarrow> path | Some (before, _) \<Rightarrow> before)"

definition restroute_Match :: "string \<Rightarrow> rx \<Rightarrow> string list option" where
  "restroute_Match path pattern = FindStringSubmatch pattern path"

text \<open>The first fixed segment of a pattern's source text.\<close>

definition fixedSegment :: "string \<Rightarrow> string" where
  "fixedSegment s = takeWhile (\<lambda>c. c \<notin> set ''/([$?'') s"

definition repoCatchAll :: string where "repoCatchAll = ''^/repos/([^/]+)/([^/]+)''"
definition repoPrefix :: string where "repoPrefix = ''^/repos/([^/]+)/([^/]+)/''"

text \<open>The key under which \<open>buildRouteDispatch\<close> files a pattern.\<close>

definition route_key :: "route \<Rightarrow> string" where
  "route_key r =
     (let src = show_rx (rt_pattern r)
      in if prefix repoPrefix src then fixedSegment (drop (length repoPrefix) src)
         else if prefix repoCatchAll src then []
         else fixedSegment (trim_prefix ''^/'' src))"

definition buildRouteDispatch :: "route list \<Rightarrow> string \<Rightarrow> nat list" where
  "buildRouteDispatch rs key = filter (\<lambda>i. route_key (rs ! i) = key) [0..<length rs]"

definition routeMatchKey :: "string \<Rightarrow> string" where
  "routeMatchKey path =
     (let first_segment = (\<lambda>rest. case cut CHR ''/'' rest of None \<Rightarrow> rest | Some (s, _) \<Rightarrow> s)
      in if \<not> prefix ''/repos/'' path then first_segment (trim_prefix ''/'' path)
         else
           (case cut CHR ''/'' (drop (length ''/repos/'') path) of
              None \<Rightarrow> []
            | Some (_, rest) \<Rightarrow>
                (case cut CHR ''/'' rest of
                   None \<Rightarrow> []
                 | Some (_, rest2) \<Rightarrow> first_segment rest2)))"

text \<open>\<open>tryMatch\<close>: match one route and build the tool call.\<close>

definition tryMatch :: "string \<Rightarrow> route \<Rightarrow> route_match option" where
  "tryMatch path r =
     (case restroute_Match path (rt_pattern r) of
        None \<Rightarrow> None
      | Some ms \<Rightarrow>
          (let args = rt_extractArgs r ms
           in Some \<lparr>rm_ToolName = rt_toolName r, rm_Owner = string_field args ''owner'',
                    rm_Repo = string_field args ''repo'', rm_Args = args\<rparr>))"

fun first_some :: "('a \<Rightarrow> 'b option) \<Rightarrow> 'a list \<Rightarrow> 'b option" where
  "first_some f [] = None"
| "first_some f (x # xs) = (case f x of Some y \<Rightarrow> Some y | None \<Rightarrow> first_some f xs)"

definition match_in :: "route list \<Rightarrow> string \<Rightarrow> route_match option" where
  "match_in rs path0 =
     (let path = StripQuery path0;
          key = routeMatchKey path
      in case first_some (\<lambda>i. tryMatch path (rs ! i)) (buildRouteDispatch rs key) of
           Some m \<Rightarrow> Some m
         | None \<Rightarrow>
             (if key \<noteq> [] then first_some (\<lambda>i. tryMatch path (rs ! i)) (buildRouteDispatch rs [])
              else None))"

definition MatchRoute :: "string \<Rightarrow> route_match option" where
  "MatchRoute path = match_in routes path"

definition ghHostPathPrefix :: string where "ghHostPathPrefix = ''/api/v3''"

definition StripGHHostPrefix :: "string \<Rightarrow> string" where
  "StripGHHostPrefix path = trim_prefix ghHostPathPrefix path"

text \<open>
  \<open>extractOwnerRepoNumber\<close>. \<open>as_int_string\<close> is \<open>util.InterfaceToIntString\<close> on a JSON
  number (None: out of range or not an integer).
\<close>

datatype number_error = NumberInvalid string string | NumberNegative string string | NumberMissing string string string string

definition extractOwnerRepoNumber ::
  "(json \<Rightarrow> string option) \<Rightarrow> json_object \<Rightarrow> string \<Rightarrow> string \<Rightarrow> string \<Rightarrow> string \<Rightarrow>
   number_error + string \<times> string \<times> string" where
  "extractOwnerRepoNumber as_int_string argsMap ownerKey repoKey numberKey toolName =
     (let owner = string_field argsMap ownerKey;
          repo = string_field argsMap repoKey;
          number0 = string_field argsMap numberKey;
          finish = (\<lambda>number. if owner = [] \<or> repo = [] \<or> number = []
                             then Inl (NumberMissing toolName ownerKey repoKey numberKey)
                             else Inr (owner, repo, number))
      in if number0 \<noteq> [] then finish number0
         else
           (case map_of argsMap numberKey of
              Some (JNum n) \<Rightarrow>
                (case as_int_string (JNum n) of
                   None \<Rightarrow> Inl (NumberInvalid toolName numberKey)
                 | Some s \<Rightarrow>
                     (if prefix ''-'' s then Inl (NumberNegative toolName numberKey) else finish s))
            | _ \<Rightarrow> finish []))"

section \<open>The index answers what the table answers\<close>

lemma first_some_append:
  "first_some f (xs @ ys) = (case first_some f xs of Some y \<Rightarrow> Some y | None \<Rightarrow> first_some f ys)"
  by (induction xs) (auto split: option.splits)

lemma first_some_map: "first_some f (map g xs) = first_some (\<lambda>x. f (g x)) xs"
  by (induction xs) (auto split: option.splits)

lemma first_some_None: "first_some f xs = None \<longleftrightarrow> (\<forall>x\<in>set xs. f x = None)"
  by (induction xs) (auto split: option.splits)

lemma first_some_Some: "first_some f xs = Some y \<Longrightarrow> \<exists>x\<in>set xs. f x = Some y"
  by (induction xs) (auto split: option.splits)

lemma first_some_filter:
  "(\<And>x. x \<in> set xs \<Longrightarrow> \<not> P x \<Longrightarrow> f x = None) \<Longrightarrow> first_some f (filter P xs) = first_some f xs"
  by (induction xs) (auto split: option.splits)

lemma first_some_bucket:
  "first_some (\<lambda>i. f (rs ! i)) (buildRouteDispatch rs k) = first_some f (filter (\<lambda>r. route_key r = k) rs)"
proof -
  have "map ((!) rs) (filter (\<lambda>i. route_key (rs ! i) = k) [0..<length rs]) =
      filter (\<lambda>r. route_key r = k) (map ((!) rs) [0..<length rs])"
    by (simp add: filter_map o_def)
  then have "map ((!) rs) (buildRouteDispatch rs k) = filter (\<lambda>r. route_key r = k) rs"
    by (simp only: buildRouteDispatch_def map_nth)
  then show ?thesis by (metis first_some_map)
qed

text \<open>
  What the patterns of the table have in common: fixed text up to the segment that gives the
  key, and after the key a slash or the end.
\<close>

fun keyed_by :: "rx \<Rightarrow> string \<Rightarrow> bool" where
  "keyed_by (Cat AtStart (Cat (Lit l) q)) k =
     (CHR ''/'' \<notin> set k \<and>
      (if l = ''/repos/'' then
         (case q of
            Cat g1 (Cat (Lit sl) (Cat g2 (Cat (Lit m) q'))) \<Rightarrow>
              g1 = seg \<and> g2 = seg \<and> sl = ''/'' \<and>
              (m = CHR ''/'' # k \<and> q' = AtEnd \<or> prefix (CHR ''/'' # k @ ''/'') m)
          | _ \<Rightarrow> False)
       else k \<noteq> ''repos'' \<and> (l = CHR ''/'' # k \<and> q = AtEnd \<or> prefix (CHR ''/'' # k @ ''/'') l)))"
| "keyed_by _ k = False"

lemma seg_matches_iff:
  "(g, q) \<in> set (rx_matches seg (pre, s)) \<longleftrightarrow>
     (\<exists>u s'. s = u @ s' \<and> u \<noteq> [] \<and> CHR ''/'' \<notin> set u \<and> g = [u] \<and> q = (rev u @ pre, s'))"
  unfolding Grp_matches_iff Rep_matches_iff
  by (auto simp: consumes_def Suc_le_eq)

lemma cut_append: "c \<notin> set a \<Longrightarrow> cut c (a @ c # b) = Some (a, b)"
  by (simp add: cut_Some_iff)

lemma cut_none: "c \<notin> set a \<Longrightarrow> cut c a = None"
  by (simp add: cut_None_iff)

lemma seg_CatE:
  assumes "(g, q) \<in> set (rx_matches (Cat seg r) (pre, s))"
  obtains u s' g' where "s = u @ s'" "CHR ''/'' \<notin> set u" "u \<noteq> []" "g = u # g'"
    "(g', q) \<in> set (rx_matches r (rev u @ pre, s'))"
  using assms unfolding Cat_matches_iff seg_matches_iff by auto

text \<open>What lies before the tail of a repository pattern.\<close>

abbreviation repo_pattern :: "rx \<Rightarrow> rx" where
  "repo_pattern t \<equiv> Cat AtStart (Cat (Lit ''/repos/'') (Cat seg (Cat (Lit ''/'') (Cat seg t))))"

lemma repo_pattern_match:
  assumes "restroute_Match path (repo_pattern t) = Some ms"
  obtains u v s g q pre where "path = ''/repos/'' @ u @ ''/'' @ v @ s" "CHR ''/'' \<notin> set u" "CHR ''/'' \<notin> set v"
    "u \<noteq> []" "v \<noteq> []" "ms ! 1 = u" "ms ! 2 = v" "(g, q) \<in> set (rx_matches t (pre, s))"
proof -
  from assms obtain w g q where
    m: "(g, q) \<in> set (rx_matches (Cat (Lit ''/repos/'') (Cat seg (Cat (Lit ''/'') (Cat seg t)))) ([], path))"
    and ms: "ms = w # g"
    unfolding restroute_Match_def by (rule anchored_SomeE)
  from m obtain s1 where s1: "path = ''/repos/'' @ s1"
    "(g, q) \<in> set (rx_matches (Cat seg (Cat (Lit ''/'') (Cat seg t))) (rev ''/repos/'' @ [], s1))"
    by (rule Lit_CatE)
  from s1(2) obtain u s2 g2 where u: "s1 = u @ s2" "CHR ''/'' \<notin> set u" "u \<noteq> []" "g = u # g2"
    "(g2, q) \<in> set (rx_matches (Cat (Lit ''/'') (Cat seg t)) (rev u @ rev ''/repos/'' @ [], s2))"
    by (rule seg_CatE)
  from u(5) obtain s3 where s3: "s2 = ''/'' @ s3"
    "(g2, q) \<in> set (rx_matches (Cat seg t) (rev ''/'' @ rev u @ rev ''/repos/'' @ [], s3))"
    by (rule Lit_CatE)
  from s3(2) obtain v s4 g4 where v: "s3 = v @ s4" "CHR ''/'' \<notin> set v" "v \<noteq> []" "g2 = v # g4"
    "(g4, q) \<in> set (rx_matches t (rev v @ rev ''/'' @ rev u @ rev ''/repos/'' @ [], s4))"
    by (rule seg_CatE)
  have "path = ''/repos/'' @ u @ ''/'' @ v @ s4" using s1(1) u(1) s3(1) v(1) by simp
  moreover have "ms ! 1 = u" "ms ! 2 = v" using ms u(4) v(4) by (simp_all add: numeral_2_eq_2)
  ultimately show thesis using that u(2,3) v(2,3,5) by blast
qed

lemma key_repo:
  assumes "CHR ''/'' \<notin> set u" "CHR ''/'' \<notin> set v" "CHR ''/'' \<notin> set k"
    and "t = [] \<or> (\<exists>t'. t = CHR ''/'' # t')"
  shows "routeMatchKey (''/repos/'' @ u @ ''/'' @ v @ CHR ''/'' # k @ t) = k"
proof -
  have first: "(case cut CHR ''/'' (k @ t) of None \<Rightarrow> k @ t | Some (s, _) \<Rightarrow> s) = k"
    using assms(3,4) cut_none[OF assms(3)] by (auto simp: cut_append)
  have "cut CHR ''/'' (u @ ''/'' @ v @ CHR ''/'' # k @ t) = Some (u, v @ CHR ''/'' # k @ t)"
    using cut_append[OF assms(1)] by simp
  then show ?thesis
    using first cut_append[OF assms(2), of "k @ t"] by (simp add: routeMatchKey_def Let_def)
qed

lemma key_top:
  assumes "CHR ''/'' \<notin> set k" "k \<noteq> ''repos''" "t = [] \<or> (\<exists>t'. t = CHR ''/'' # t')"
  shows "routeMatchKey (CHR ''/'' # k @ t) = k"
proof -
  have "\<not> prefix ''/repos/'' (CHR ''/'' # k @ t)"
  proof
    assume "prefix ''/repos/'' (CHR ''/'' # k @ t)"
    then obtain z where z: "k @ t = ''repos'' @ CHR ''/'' # z" by (auto simp: prefix_def)
    have "cut CHR ''/'' (k @ t) = Some (''repos'', z)"
      unfolding z by (rule cut_append) simp
    moreover from assms(1,3) have "cut CHR ''/'' (k @ t) = None \<or> (\<exists>t'. cut CHR ''/'' (k @ t) = Some (k, t'))"
      by (auto simp: cut_append cut_None_iff)
    ultimately show False using assms(2) by auto
  qed
  moreover have "(case cut CHR ''/'' (k @ t) of None \<Rightarrow> k @ t | Some (s, _) \<Rightarrow> s) = k"
    using assms(1,3) cut_none[OF assms(1)] by (auto simp: cut_append)
  ultimately show ?thesis by (simp add: routeMatchKey_def Let_def trim_prefix_def)
qed

lemma key_tail:
  assumes "(g, q) \<in> set (rx_matches (Cat (Lit m) q') (pre, s))"
    and "m = CHR ''/'' # k \<and> q' = AtEnd \<or> prefix (CHR ''/'' # k @ ''/'') m"
  shows "\<exists>t. s = CHR ''/'' # k @ t \<and> (t = [] \<or> (\<exists>t'. t = CHR ''/'' # t'))"
proof -
  from assms(1) obtain s' g2 where s': "s = m @ s'" "(g2, q) \<in> set (rx_matches q' (rev m @ pre, s'))"
    unfolding Cat_matches_iff Lit_matches_iff by blast
  from assms(2) show ?thesis
  proof
    assume "m = CHR ''/'' # k \<and> q' = AtEnd"
    with s' show ?thesis by (auto split: if_splits)
  next
    assume "prefix (CHR ''/'' # k @ ''/'') m"
    with s'(1) show ?thesis by (auto simp: prefix_def)
  qed
qed

lemma keyed_match:
  assumes "keyed_by p k" and "restroute_Match path p = Some ms"
  shows "routeMatchKey path = k"
proof -
  from assms(1) obtain l q where p: "p = Cat AtStart (Cat (Lit l) q)" and k: "CHR ''/'' \<notin> set k"
    by (cases "(p, k)" rule: keyed_by.cases) auto
  show ?thesis
  proof (cases "l = ''/repos/''")
    case False
    with assms(1) p have "k \<noteq> ''repos''" "l = CHR ''/'' # k \<and> q = AtEnd \<or> prefix (CHR ''/'' # k @ ''/'') l"
      by simp_all
    moreover from assms(2) obtain g z where m: "(g, z) \<in> set (rx_matches (Cat (Lit l) q) ([], path))"
      unfolding p restroute_Match_def by (rule anchored_SomeE)
    ultimately show ?thesis using key_tail[OF m] key_top[OF k] by metis
  next
    case True
    with assms(1) p obtain m2 q2 where q: "q = Cat seg (Cat (Lit ''/'') (Cat seg (Cat (Lit m2) q2)))"
      "m2 = CHR ''/'' # k \<and> q2 = AtEnd \<or> prefix (CHR ''/'' # k @ ''/'') m2"
      by (auto split: rx.splits)
    from assms(2) obtain u v s g z pre where path: "path = ''/repos/'' @ u @ ''/'' @ v @ s"
      and uv: "CHR ''/'' \<notin> set u" "CHR ''/'' \<notin> set v"
      and tl: "(g, z) \<in> set (rx_matches (Cat (Lit m2) q2) (pre, s))"
      unfolding p True q(1) by (rule repo_pattern_match)
    from key_tail[OF tl q(2)] obtain t where "s = CHR ''/'' # k @ t" "t = [] \<or> (\<exists>t'. t = CHR ''/'' # t')"
      by blast
    with path key_repo[OF uv k] show ?thesis by simp
  qed
qed

text \<open>Every route has a key of that form, or is a catch-all behind all of them.\<close>

definition table_ok :: "route list \<Rightarrow> bool" where
  "table_ok rs \<longleftrightarrow>
     list_all (\<lambda>r. route_key r = [] \<or> keyed_by (rt_pattern r) (route_key r)) rs \<and>
     list_all (\<lambda>r. route_key r = []) (dropWhile (\<lambda>r. route_key r \<noteq> []) rs)"

lemma routes_ok: "table_ok routes"
  by code_simp

lemma dispatch_exact:
  assumes "table_ok rs"
  shows "match_in rs path = first_some (tryMatch (StripQuery path)) rs"
proof -
  define f where "f = tryMatch (StripQuery path)"
  define k where "k = routeMatchKey (StripQuery path)"
  define as where "as = takeWhile (\<lambda>r. route_key r \<noteq> []) rs"
  define bs where "bs = dropWhile (\<lambda>r. route_key r \<noteq> []) rs"
  have rs: "rs = as @ bs" by (simp add: as_def bs_def)
  have as: "\<And>r. r \<in> set as \<Longrightarrow> route_key r \<noteq> []" unfolding as_def by (auto dest: set_takeWhileD)
  have bs: "\<And>r. r \<in> set bs \<Longrightarrow> route_key r = []"
    using assms unfolding bs_def table_ok_def list_all_iff by blast
  have keyed: "\<And>r. r \<in> set rs \<Longrightarrow> route_key r = [] \<or> keyed_by (rt_pattern r) (route_key r)"
    using assms unfolding table_ok_def list_all_iff by blast
  have mem: "\<And>r. r \<in> set as \<Longrightarrow> r \<in> set rs" unfolding as_def by (rule conjunct1[OF set_takeWhileD])
  have miss: "f r = None" if "r \<in> set as" "route_key r \<noteq> k" for r
  proof (rule ccontr)
    assume "f r \<noteq> None"
    then obtain ms where "restroute_Match (StripQuery path) (rt_pattern r) = Some ms"
      by (auto simp: f_def tryMatch_def split: option.splits)
    moreover have "keyed_by (rt_pattern r) (route_key r)"
      using keyed[OF mem[OF that(1)]] as[OF that(1)] by simp
    ultimately have "routeMatchKey (StripQuery path) = route_key r" by (rule keyed_match[rotated])
    with that(2) k_def show False by simp
  qed
  have bucket: "filter (\<lambda>r. route_key r = []) rs = bs"
    using as bs unfolding rs by (simp add: filter_True filter_False)
  show ?thesis
  proof (cases "k = []")
    case True
    have "first_some f as = None"
      using miss as True by (simp add: first_some_None)
    then show ?thesis
      using True bucket unfolding match_in_def Let_def f_def[symmetric] k_def[symmetric] first_some_bucket
      by (simp add: rs first_some_append split: option.splits)
  next
    case False
    have "filter (\<lambda>r. route_key r = k) rs = filter (\<lambda>r. route_key r = k) as"
      using bs False unfolding rs by (auto simp: filter_False)
    moreover have "first_some f (filter (\<lambda>r. route_key r = k) as) = first_some f as"
      by (rule first_some_filter) (use miss in blast)
    ultimately show ?thesis
      using False bucket unfolding match_in_def Let_def f_def[symmetric] k_def[symmetric] first_some_bucket
      by (simp only: first_some_append[of f as bs, folded rs] if_True not_False_eq_True)
  qed
qed

lemma MatchRoute_linear: "MatchRoute path = first_some (tryMatch (StripQuery path)) routes"
  unfolding MatchRoute_def by (rule dispatch_exact[OF routes_ok])

text \<open>The owner and the repository a match names are the segments of the path.\<close>

definition scoped :: "route \<Rightarrow> bool" where
  "scoped r \<longleftrightarrow>
     (\<exists>t. rt_pattern r = repo_pattern t) \<and>
     (\<forall>ms. string_field (rt_extractArgs r ms) ''owner'' = ms ! 1 \<and> string_field (rt_extractArgs r ms) ''repo'' = ms ! 2)"

lemmas route_args_defs = repoArgsExtractor_def repoArgs_def prArgs_def issueArgs_def repoMethodArgs_def
  repoMethodResourceArgs_def emptyExtractArgs_def

lemma routes_scoped:
  "list_all (\<lambda>r. scoped r \<or> (\<forall>ms. string_field (rt_extractArgs r ms) ''repo'' = [])) routes"
  unfolding routes_def list.pred_inject
  by (intro conjI TrueI; simp add: scoped_def route_args_defs string_field_def)

lemma MatchRoute_scope:
  assumes "MatchRoute path = Some m" and "rm_Repo m \<noteq> []"
  obtains s where "StripQuery path = ''/repos/'' @ rm_Owner m @ ''/'' @ rm_Repo m @ s"
    "rm_Owner m \<noteq> []" "CHR ''/'' \<notin> set (rm_Owner m)" "CHR ''/'' \<notin> set (rm_Repo m)"
proof -
  from assms(1) obtain r where r: "r \<in> set routes" "tryMatch (StripQuery path) r = Some m"
    unfolding MatchRoute_linear using first_some_Some by meson
  from r(2) obtain ms where ms: "restroute_Match (StripQuery path) (rt_pattern r) = Some ms"
    "rm_Owner m = string_field (rt_extractArgs r ms) ''owner''"
    "rm_Repo m = string_field (rt_extractArgs r ms) ''repo''"
    by (auto simp: tryMatch_def Let_def split: option.splits)
  with assms(2) routes_scoped r(1) have "scoped r" unfolding list_all_iff by metis
  then obtain t where t: "rt_pattern r = repo_pattern t" "rm_Owner m = ms ! 1" "rm_Repo m = ms ! 2"
    unfolding scoped_def using ms by auto
  from ms(1)[unfolded t(1)] show thesis
    by (rule repo_pattern_match) (use that t(2,3) in auto)
qed

end
