(* ===== verification/UrlQuery.thy ===== *)
theory UrlQuery imports DelegationRecovery begin

text \<open>
  \<open>net/url.ParseQuery\<close> and \<open>QueryUnescape\<close>, written out: the values of each key in order, and
  whether any part was malformed (such a part is skipped). \<open>url.Values.Get\<close> reads the first value.
\<close>

definition unhex_any :: "char \<Rightarrow> nat option" where
  "unhex_any c = unhex_digit (lower_char c)"

definition unescape_step :: "char \<Rightarrow> string \<Rightarrow> (char \<times> string) option" where
  "unescape_step c s =
     (if c = CHR ''%'' then
        (case s of
           a # b # rest \<Rightarrow>
             (case (unhex_any a, unhex_any b) of
                (Some x, Some y) \<Rightarrow> Some (char_of (16 * x + y), rest)
              | _ \<Rightarrow> None)
         | _ \<Rightarrow> None)
      else Some (if c = CHR ''+'' then CHR '' '' else c, s))"

lemma unescape_step_shorter: "unescape_step c s = Some (d, rest) \<Longrightarrow> length rest \<le> length s"
  by (auto simp: unescape_step_def split: if_splits list.splits option.splits)

function QueryUnescape :: "string \<Rightarrow> string option" where
  "QueryUnescape [] = Some []"
| "QueryUnescape (c # s) =
     (case unescape_step c s of
        None \<Rightarrow> None
      | Some (d, rest) \<Rightarrow> map_option (\<lambda>t. d # t) (QueryUnescape rest))"
  by pat_completeness auto
termination
  by (relation "measure length") (auto dest: unescape_step_shorter)

type_synonym url_values = "(string \<times> string list) list"

definition add_value :: "string \<Rightarrow> string \<Rightarrow> url_values \<Rightarrow> url_values" where
  "add_value k v m = AList.update k ((case map_of m k of None \<Rightarrow> [] | Some vs \<Rightarrow> vs) @ [v]) m"

text \<open>One part between ampersands; the flag is \<open>err \<noteq> nil\<close> so far.\<close>

definition parse_part :: "string \<Rightarrow> url_values \<times> bool \<Rightarrow> url_values \<times> bool" where
  "parse_part part acc =
     (let (m, failed) = acc
      in if CHR '';'' \<in> set part then (m, True)
         else if part = [] then (m, failed)
         else
           (let (key, value) = (case cut CHR ''='' part of None \<Rightarrow> (part, []) | Some kv \<Rightarrow> kv)
            in case QueryUnescape key of
                 None \<Rightarrow> (m, True)
               | Some k \<Rightarrow>
                   (case QueryUnescape value of
                      None \<Rightarrow> (m, True)
                    | Some v \<Rightarrow> (add_value k v m, failed))))"

definition parse_query :: "string \<Rightarrow> url_values \<times> bool" where
  "parse_query query =
     (if query = [] then ([], False) else fold parse_part (split_on CHR ''&'' query) ([], False))"

text \<open>\<open>url.ParseQuery\<close>, and \<open>URL.Query\<close>, which drops the error.\<close>

definition ParseQuery :: "string \<Rightarrow> url_values option" where
  "ParseQuery query = (let (m, failed) = parse_query query in if failed then None else Some m)"

definition URL_Query :: "string \<Rightarrow> url_values" where
  "URL_Query query = fst (parse_query query)"

definition values_Get :: "url_values \<Rightarrow> string \<Rightarrow> string" where
  "values_Get m k = (case map_of m k of Some (v # _) \<Rightarrow> v | _ \<Rightarrow> [])"

lemma parse_query_examples:
  "ParseQuery ''q=%3Ab+c&p=2&q=x'' = Some [(''q'', ['':b c'', ''x'']), (''p'', [''2''])]"
  by (simp add: ParseQuery_def parse_query_def parse_part_def add_value_def unescape_step_def unhex_any_def
      unhex_digit_def lower_char_def is_upper_ascii_def) code_simp

section \<open>Escaping\<close>

definition unreserved :: "char \<Rightarrow> bool" where
  "unreserved c \<longleftrightarrow>
     c \<in> set ''abcdefghijklmnopqrstuvwxyzABCDEFGHIJKLMNOPQRSTUVWXYZ0123456789-_.~''"

definition upper_hex :: "nat \<Rightarrow> char" where
  "upper_hex n = ''0123456789ABCDEF'' ! n"

text \<open>\<open>url.QueryEscape\<close>.\<close>

definition escape_char :: "char \<Rightarrow> string" where
  "escape_char c =
     (if unreserved c then [c]
      else if c = CHR '' '' then ''+''
      else [CHR ''%'', upper_hex (of_char c div 16), upper_hex (of_char c mod 16)])"

definition QueryEscape :: "string \<Rightarrow> string" where
  "QueryEscape s = concat (map escape_char s)"

end
