(* ===== verification/ProxyGraphQL.thy ===== *)
theory ProxyGraphQL imports Regexp McpResult UrlQuery begin

text \<open>
  \<open>internal/proxy/graphql.go\<close> and the GraphQL half of \<open>read_only.go\<close>: choosing the one query
  operation of a request, and mapping a query to a guard tool. The GraphQL parser and lexer
  (gqlparser) and the JSON codec are arguments; their positions count code points of the query
  and lie within it.
\<close>

section \<open>Documents\<close>

datatype selection =
    Field (sel_alias: string) (sel_name: string) (sel_directives: nat) (sel_start: nat) (sel_set: "selection list")
  | FragmentSpread string nat
  | InlineFragment nat "selection list"

datatype operation_kind = QueryOp | MutationOp | SubscriptionOp

record operation_definition =
  od_Operation :: operation_kind
  od_Name :: string
  od_SelectionSet :: "selection list"
  od_Start :: nat

record fragment_definition =
  fd_Name :: string
  fd_SelectionSet :: "selection list"
  fd_Start :: nat

record query_document =
  qd_Operations :: "operation_definition list"
  qd_Fragments :: "fragment_definition list"

datatype token_kind = EOFTok | StringTok | BlockStringTok | CommentTok | SpreadTok | OtherTok

record gql_token =
  tk_Kind :: token_kind
  tk_Start :: nat

record graphql_request =
  gr_Query :: string
  gr_OperationName :: string
  gr_Variables :: "json_object option"

text \<open>
  \<open>gl_members\<close>: the members of a body that is exactly one JSON object, in order, repeated keys
  included. \<open>gl_lex\<close>: the tokens up to the end of the input, None on a lexical error.
\<close>

record graphql_lib =
  gl_members :: "string \<Rightarrow> (string \<times> json) list option"
  gl_unmarshal :: "string \<Rightarrow> graphql_request option"
  gl_marshal :: "graphql_request \<Rightarrow> string option"
  gl_parse :: "string \<Rightarrow> query_document option"
  gl_lex :: "string \<Rightarrow> gql_token list option"

section \<open>Code points\<close>

text \<open>\<open>[]rune(s)\<close>: each code point as its bytes; an invalid byte becomes U+FFFD.\<close>

definition cont_byte :: "nat \<Rightarrow> bool" where "cont_byte n \<longleftrightarrow> 128 \<le> n \<and> n \<le> 191"

fun rune_length :: "nat list \<Rightarrow> nat" where
  "rune_length [] = 0"
| "rune_length (a # bs) =
     (let ok2 = (\<lambda>lo hi. case bs of b # _ \<Rightarrow> lo \<le> b \<and> b \<le> hi | [] \<Rightarrow> False);
          more = (\<lambda>k. length (take k bs) = k \<and> list_all cont_byte (drop 1 (take k bs)))
      in if a < 128 then 1
         else if 194 \<le> a \<and> a \<le> 223 then (if ok2 128 191 then 2 else 0)
         else if a = 224 then (if ok2 160 191 \<and> more 2 then 3 else 0)
         else if a = 237 then (if ok2 128 159 \<and> more 2 then 3 else 0)
         else if 225 \<le> a \<and> a \<le> 239 then (if ok2 128 191 \<and> more 2 then 3 else 0)
         else if a = 240 then (if ok2 144 191 \<and> more 3 then 4 else 0)
         else if 241 \<le> a \<and> a \<le> 243 then (if ok2 128 191 \<and> more 3 then 4 else 0)
         else if a = 244 then (if ok2 128 143 \<and> more 3 then 4 else 0)
         else 0)"

function runes :: "string \<Rightarrow> string list" where
  "runes s =
     (if s = [] then []
      else
        (let n = rune_length (map of_char (take 4 s))
         in if n = 0 then [CHR 0xEF, CHR 0xBF, CHR 0xBD] # runes (tl s)
            else take n s # runes (drop n s)))"
  by pat_completeness auto
termination
  by (relation "measure length") auto

declare runes.simps [simp del]

definition slice_runes :: "string list \<Rightarrow> nat \<Rightarrow> nat \<Rightarrow> string" where
  "slice_runes rs start stop = concat (take (stop - start) (drop start rs))"

section \<open>Selecting the operation\<close>

fun collectFragmentSpreads :: "selection list \<Rightarrow> string list" where
  "collectFragmentSpreads [] = []"
| "collectFragmentSpreads (Field a n d p ss # sels) =
     adjoin_all (collectFragmentSpreads sels) (collectFragmentSpreads ss)"
| "collectFragmentSpreads (FragmentSpread n p # sels) = adjoin_all (collectFragmentSpreads sels) [n]"
| "collectFragmentSpreads (InlineFragment p ss # sels) =
     adjoin_all (collectFragmentSpreads sels) (collectFragmentSpreads ss)"

text \<open>The fields of the request; a null leaves the zero value, another type is an error.\<close>

fun request_fields :: "(string \<times> json) list \<Rightarrow> string list \<Rightarrow> bool \<Rightarrow> graphql_request \<Rightarrow> (bool \<times> graphql_request) option" where
  "request_fields [] seen present req = Some (present, req)"
| "request_fields ((key, v) # ms) seen present req =
     (if key \<in> set seen then None
      else if key = ''query'' then
        (case v of
           JStr s \<Rightarrow> request_fields ms (key # seen) present (req\<lparr>gr_Query := s\<rparr>)
         | JNull \<Rightarrow> request_fields ms (key # seen) present req
         | _ \<Rightarrow> None)
      else if key = ''operationName'' then
        (case v of
           JStr s \<Rightarrow> request_fields ms (key # seen) True (req\<lparr>gr_OperationName := s\<rparr>)
         | JNull \<Rightarrow> request_fields ms (key # seen) present req
         | _ \<Rightarrow> None)
      else if key = ''variables'' then
        (case v of
           JObj m \<Rightarrow> request_fields ms (key # seen) present (req\<lparr>gr_Variables := Some m\<rparr>)
         | JNull \<Rightarrow> request_fields ms (key # seen) present req
         | _ \<Rightarrow> None)
      else None)"

definition empty_request :: graphql_request where
  "empty_request = \<lparr>gr_Query = [], gr_OperationName = [], gr_Variables = None\<rparr>"

definition select_operation :: "query_document \<Rightarrow> string \<Rightarrow> operation_definition option" where
  "select_operation doc name =
     (if name = [] then (case qd_Operations doc of [x] \<Rightarrow> Some x | _ \<Rightarrow> None)
      else (case filter (\<lambda>x. od_Name x = name) (qd_Operations doc) of [x] \<Rightarrow> Some x | _ \<Rightarrow> None))"

text \<open>
  The token loop: a description (a string token) before a definition moves the definition's
  start, and the definitions are listed in the order of the text.
\<close>

fun scan_tokens ::
  "gql_token list \<Rightarrow> gql_token option \<Rightarrow> (nat \<times> nat) list \<Rightarrow> nat list \<Rightarrow> (nat \<times> nat) list \<times> nat list" where
  "scan_tokens [] prev starts ordered = (starts, ordered)"
| "scan_tokens (t # ts) prev starts ordered =
     (let starts1 = (case (map_of starts (tk_Start t), prev) of
            (Some _, Some p) \<Rightarrow>
              (if tk_Kind p = StringTok \<or> tk_Kind p = BlockStringTok
               then AList.update (tk_Start t) (tk_Start p) starts else starts)
          | _ \<Rightarrow> starts);
          ordered1 = (if map_of starts1 (tk_Start t) \<noteq> None then ordered @ [tk_Start t] else ordered);
          prev1 = (if tk_Kind t \<noteq> CommentTok then Some t else prev)
      in if tk_Kind t = EOFTok then (starts1, ordered1) else scan_tokens ts prev1 starts1 ordered1)"

text \<open>\<open>includeFragment\<close> over a list of names: None is a cycle or an unknown fragment.\<close>

function include_all ::
  "(string \<times> fragment_definition) list \<Rightarrow> string list \<Rightarrow> string list \<Rightarrow> string list \<Rightarrow> string list option" where
  "include_all frags visiting [] referenced = Some referenced"
| "include_all frags visiting (n # ns) referenced =
     (if n \<in> set visiting then None
      else
        (case map_of frags n of
           None \<Rightarrow> None
         | Some f \<Rightarrow>
             (if n \<in> set referenced then include_all frags visiting ns referenced
              else
                (case include_all frags (n # visiting) (collectFragmentSpreads (fd_SelectionSet f)) referenced of
                   None \<Rightarrow> None
                 | Some referenced' \<Rightarrow> include_all frags visiting ns (n # referenced')))))"
  by pat_completeness auto
termination
proof (relation "measures [\<lambda>(frags, visiting, ns, referenced). card (set (keys_of frags) - set visiting),
    \<lambda>(frags, visiting, ns, referenced). length ns]", goal_cases)
  case 1
  show ?case by simp
next
  case (2 frags visiting n ns referenced f)
  show ?case by simp
next
  case (4 frags visiting n ns referenced f referenced')
  show ?case by simp
next
  case (3 frags visiting n ns referenced f)
  then have "map_of frags n \<noteq> None" and new: "n \<notin> set visiting" by simp_all
  then have "n \<in> set (keys_of frags)" unfolding map_of_None_keys by simp
  with new have "card (set (keys_of frags) - set (n # visiting)) < card (set (keys_of frags) - set visiting)"
    by (intro psubset_card_mono) auto
  then show ?case by simp
qed

fun first_duplicate :: "string list \<Rightarrow> bool" where
  "first_duplicate [] = False"
| "first_duplicate (x # xs) = (x \<in> set xs \<or> first_duplicate xs)"

definition selectReadOnlyGraphQLOperation :: "graphql_lib \<Rightarrow> string \<Rightarrow> string option" where
  "selectReadOnlyGraphQLOperation gl body =
     (case gl_members gl body of
        None \<Rightarrow> None
      | Some ms \<Rightarrow>
     (case request_fields ms [] False empty_request of
        None \<Rightarrow> None
      | Some (operationNamePresent, request) \<Rightarrow>
     (if gr_Query request = [] \<or> (operationNamePresent \<and> gr_OperationName request = []) then None else
     (case gl_parse gl (gr_Query request) of
        None \<Rightarrow> None
      | Some doc \<Rightarrow>
     (if qd_Operations doc = [] then None else
     (case select_operation doc (gr_OperationName request) of
        None \<Rightarrow> None
      | Some selected \<Rightarrow>
     (if od_Operation selected \<noteq> QueryOp then None else
     (let rs = runes (gr_Query request);
          starts0 = fold (\<lambda>p. AList.update p p)
            (map od_Start (qd_Operations doc) @ map fd_Start (qd_Fragments doc)) []
      in case gl_lex gl (gr_Query request) of
           None \<Rightarrow> None
         | Some tokens \<Rightarrow>
     (let (starts, positions) = scan_tokens tokens None starts0 [];
          fragments = map (\<lambda>f. (fd_Name f, f)) (qd_Fragments doc);
          byPosition = fold (\<lambda>(p, fr). AList.update p (the (map_of starts p), fr))
            (map (\<lambda>x. (od_Start x, None)) (qd_Operations doc) @
             map (\<lambda>f. (fd_Start f, Some f)) (qd_Fragments doc)) []
      in if first_duplicate (map fd_Name (qd_Fragments doc)) then None
         else if list_ex (\<lambda>p. map_of byPosition p = None) positions then None
         else
     (let definitions = map (\<lambda>p. the (map_of byPosition p)) positions
      in if length definitions \<noteq> length byPosition then None
         else
     (let stops = map fst (tl definitions) @ [length rs];
          ends = fold (\<lambda>(d, e). AList.update (fst d) e) (zip definitions stops) [];
          source = (\<lambda>start. case map_of ends start of
                      None \<Rightarrow> [] | Some e \<Rightarrow> trim_space (slice_runes rs start e));
          head = source (the (map_of starts (od_Start selected)))
      in if head = [] then None
         else
     (case include_all fragments [] (collectFragmentSpreads (od_SelectionSet selected)) [] of
        None \<Rightarrow> None
      | Some referenced \<Rightarrow>
          (let selectedQuery = head @ concat (map (\<lambda>d. case snd d of
                  Some f \<Rightarrow> if fd_Name f \<in> set referenced then CHR 0x0A # source (fst d) else []
                | None \<Rightarrow> []) definitions)
           in gl_marshal gl \<lparr>gr_Query = trim_space selectedQuery, gr_OperationName = [],
                             gr_Variables = gr_Variables request\<rparr>)))))))))))))"

section \<open>From a query to a guard tool\<close>

text \<open>\<open>IsGraphQLPath\<close>\<close>

definition IsGraphQLPath :: "string \<Rightarrow> bool" where
  "IsGraphQLPath path =
     (let cleaned = trim_suffix ''/'' path
      in cleaned = ''/graphql'' \<or> cleaned = ''/api/v3/graphql'' \<or> cleaned = ''/api/graphql'')"

text \<open>The patterns on the query text, all under (?i).\<close>

abbreviation ws :: rx where "ws \<equiv> many Space"

definition repository_block :: "rx list \<Rightarrow> rx" where
  "repository_block rs =
     cat ([LitI ''repository'', ws, LitI ''('', many (NotIn '')''), LitI '')'', ws, LitI ''{'', many (NotIn ''}''), WordB] @ rs)"

abbreviation paren_or_brace :: rx where "paren_or_brace \<equiv> Rep (OneOf ''[({]'' ''({'') 1 (Some 1)"

definition graphqlPatterns :: "(rx \<times> string) list" where
  "graphqlPatterns =
     [(repository_block [LitI ''issue'', ws, LitI ''(''], ''issue_read''),
      (repository_block [LitI ''issues'', ws, paren_or_brace], ''list_issues''),
      (repository_block [LitI ''pullRequest'', ws, LitI ''(''], ''pull_request_read''),
      (repository_block [LitI ''pullRequests'', ws, paren_or_brace], ''list_pull_requests''),
      (cat [WordB, LitI ''history'', ws, paren_or_brace], ''list_commits''),
      (repository_block [LitI ''discussion'', ws, LitI ''(''], ''list_discussions''),
      (repository_block [LitI ''discussions'', ws, paren_or_brace], ''list_discussions''),
      (repository_block [LitI ''discussionCategories'', ws, paren_or_brace], ''list_discussion_categories''),
      (cat [WordB, LitI ''search'', ws, LitI ''(''], ''search_issues''),
      (LitI ''projectV2'', ''list_projects''),
      (cat [WordB, LitI ''viewer'', ws, LitI ''{''], ''get_me''),
      (cat [WordB, LitI ''repository'', ws, LitI ''(''], ''get_file_contents'')]"

definition graphqlOrganizationPattern :: rx where
  "graphqlOrganizationPattern = cat [WordB, LitI ''organization'', ws, LitI ''('']"

definition graphqlObjectExpressionPattern :: rx where
  "graphqlObjectExpressionPattern =
     cat [WordB, LitI ''object'', ws, LitI ''('', ws, LitI ''expression'', ws, LitI '':'']"

abbreviation quoted :: rx where "quoted \<equiv> cat [LitI [CHR 0x22], Grp (some1 (NotIn [CHR 0x22])), LitI [CHR 0x22]]"
abbreviation variable_ref :: rx where "variable_ref \<equiv> cat [LitI ''$'', some1 WordCh]"

definition varOwnerPattern :: rx where
  "varOwnerPattern = cat [LitI [CHR 0x22], LitI ''owner'', LitI [CHR 0x22], ws, LitI '':'', ws, quoted]"

definition varRepoPattern :: rx where
  "varRepoPattern =
     cat [LitI [CHR 0x22], Alt (LitI ''name'') (LitI ''repo''), LitI [CHR 0x22], ws, LitI '':'', ws, quoted]"

definition queryRepoPattern :: rx where
  "queryRepoPattern =
     cat [LitI ''repository'', ws, LitI ''('', ws, LitI ''owner'', ws, LitI '':'', ws, Alt quoted variable_ref,
          ws, Opt (LitI '',''), ws, LitI ''name'', ws, LitI '':'', ws, Alt quoted variable_ref]"

definition searchQueryArgPattern :: rx where
  "searchQueryArgPattern =
     cat [WordB, LitI ''search'', ws, LitI ''('', ws, LitI ''query'', ws, LitI '':'', ws, quoted]"

fun graphqlHasRepositoryField ::
  "nat \<Rightarrow> (string \<times> fragment_definition) list \<Rightarrow> string list \<Rightarrow> selection list \<Rightarrow> bool \<times> string list" where
  "graphqlHasRepositoryField fuel frags visited [] = (False, visited)"
| "graphqlHasRepositoryField fuel frags visited (Field a n d p ss # sels) =
     (if n = ''repository'' \<or> n = ''repositories'' then (True, visited)
      else
        (case graphqlHasRepositoryField fuel frags visited ss of
           (True, v) \<Rightarrow> (True, v)
         | (False, v) \<Rightarrow> graphqlHasRepositoryField fuel frags v sels))"
| "graphqlHasRepositoryField fuel frags visited (InlineFragment p ss # sels) =
     (case graphqlHasRepositoryField fuel frags visited ss of
        (True, v) \<Rightarrow> (True, v)
      | (False, v) \<Rightarrow> graphqlHasRepositoryField fuel frags v sels)"
| "graphqlHasRepositoryField fuel frags visited (FragmentSpread n p # sels) =
     (if n \<in> set visited then graphqlHasRepositoryField fuel frags visited sels
      else
        (case (map_of frags n, fuel) of
           (Some f, Suc k) \<Rightarrow>
             (case graphqlHasRepositoryField k frags (n # visited) (fd_SelectionSet f) of
                (True, v) \<Rightarrow> (True, v)
              | (False, v) \<Rightarrow> graphqlHasRepositoryField fuel frags v sels)
         | _ \<Rightarrow> graphqlHasRepositoryField fuel frags (n # visited) sels))"

definition graphqlHasRepositoryFields :: "selection list \<Rightarrow> fragment_definition list \<Rightarrow> bool" where
  "graphqlHasRepositoryFields selectionSet fragments =
     fst (graphqlHasRepositoryField (length fragments) (rev (map (\<lambda>f. (fd_Name f, f)) fragments)) [] selectionSet)"

text \<open>The text of an operation: up to the next definition after it.\<close>

definition graphqlOperationText :: "string \<Rightarrow> operation_definition \<Rightarrow> query_document \<Rightarrow> string option" where
  "graphqlOperationText query x doc =
     (let source = runes query;
          start = od_Start x;
          later = filter (\<lambda>p. start < p \<and> p < length source)
                    (map od_Start (qd_Operations doc) @ map fd_Start (qd_Fragments doc))
      in if start \<ge> length source then None
         else Some (slice_runes source start (foldr min later (length source))))"

fun root_field :: "selection \<Rightarrow> string" where
  "root_field (Field a n d p ss) = n"
| "root_field _ = ''...''"

record root_fields =
  rf_Fields :: "string list"
  rf_HasRepository :: bool
  rf_OperationQuery :: string
  rf_Parsed :: bool

definition no_root_fields :: root_fields where
  "no_root_fields = \<lparr>rf_Fields = [], rf_HasRepository = False, rf_OperationQuery = [], rf_Parsed = False\<rparr>"

definition graphqlRootFields :: "graphql_lib \<Rightarrow> string \<Rightarrow> string \<Rightarrow> root_fields" where
  "graphqlRootFields gl query operationName =
     (case gl_parse gl query of
        None \<Rightarrow> no_root_fields
      | Some doc \<Rightarrow>
          (case select_operation doc operationName of
             None \<Rightarrow> no_root_fields
           | Some x \<Rightarrow>
               (if od_Operation x \<noteq> QueryOp then no_root_fields
                else
                  (case graphqlOperationText query x doc of
                     None \<Rightarrow> no_root_fields
                   | Some operationQuery \<Rightarrow>
                       (let fields = map root_field (od_SelectionSet x)
                        in \<lparr>rf_Fields = fields,
                            rf_HasRepository = graphqlHasRepositoryFields (od_SelectionSet x) (qd_Fragments doc),
                            rf_OperationQuery = operationQuery,
                            rf_Parsed = (fields \<noteq> [])\<rparr>)))))"

fun aliased :: "selection list \<Rightarrow> bool" where
  "aliased [] = False"
| "aliased (Field a n d p ss # sels) = ((a \<noteq> [] \<and> a \<noteq> n) \<or> aliased ss \<or> aliased sels)"
| "aliased (InlineFragment p ss # sels) = (aliased ss \<or> aliased sels)"
| "aliased (FragmentSpread n p # sels) = aliased sels"

definition hasAliasedPRResource :: "graphql_lib \<Rightarrow> string \<Rightarrow> bool" where
  "hasAliasedPRResource gl query =
     (case gl_parse gl query of
        None \<Rightarrow> True
      | Some doc \<Rightarrow>
          list_ex (\<lambda>x. aliased (od_SelectionSet x)) (qd_Operations doc) \<or>
          list_ex (\<lambda>f. aliased (fd_SelectionSet f)) (qd_Fragments doc))"

text \<open>\<open>GetStringFromMap\<close> skips a key whose value is not a non-empty string.\<close>

definition extractOwnerRepo :: "json_object option \<Rightarrow> string \<Rightarrow> string \<times> string" where
  "extractOwnerRepo vars query =
     (let (owner0, repo0) = (case vars of
            None \<Rightarrow> ([], [])
          | Some m \<Rightarrow>
              (string_field m ''owner'',
               (if string_field m ''name'' \<noteq> [] then string_field m ''name'' else string_field m ''repo'')));
          (owner1, repo1) =
            (if owner0 = [] \<or> repo0 = [] then
               (case FindStringSubmatch queryRepoPattern query of
                  None \<Rightarrow> (owner0, repo0)
                | Some m \<Rightarrow>
                    ((if m ! 1 \<noteq> [] \<and> owner0 = [] then m ! 1 else owner0),
                     (if m ! 2 \<noteq> [] \<and> repo0 = [] then m ! 2 else repo0)))
             else (owner0, repo0));
          first_group = (\<lambda>pattern old. if old = []
             then (case FindStringSubmatch pattern query of None \<Rightarrow> old | Some m \<Rightarrow> m ! 1) else old)
      in (first_group varOwnerPattern owner1, first_group varRepoPattern repo1))"

definition extractSearchQuery :: "string \<Rightarrow> json_object option \<Rightarrow> string" where
  "extractSearchQuery query vars =
     (let v = (case vars of None \<Rightarrow> [] | Some m \<Rightarrow> string_field m ''query'')
      in if v \<noteq> [] then v
         else (case FindStringSubmatch searchQueryArgPattern query of None \<Rightarrow> [] | Some m \<Rightarrow> m ! 1))"

record graphql_match =
  gm_ToolName :: string
  gm_Owner :: string
  gm_Repo :: string
  gm_Args :: json_object

text \<open>The tool the root fields alone decide, if they do.\<close>

definition root_tool :: "root_fields \<Rightarrow> string" where
  "root_tool rf =
     (if \<not> rf_Parsed rf then []
      else if length (rf_Fields rf) = 1 \<and> hd (rf_Fields rf) \<in> set [''__type'', ''__schema''] then ''graphql_introspection''
      else if ''organization'' \<in> set (rf_Fields rf) then ''graphql_organization''
      else [])"

definition pattern_tool :: "string \<Rightarrow> string" where
  "pattern_tool query =
     (case find (\<lambda>(p, t). MatchString p query) graphqlPatterns of None \<Rightarrow> [] | Some (p, t) \<Rightarrow> t)"

definition graphql_args :: "graphql_request \<Rightarrow> root_fields \<Rightarrow> string \<Rightarrow> string \<Rightarrow> string \<Rightarrow> json_object" where
  "graphql_args gql rf toolName owner repo =
     (if owner \<noteq> [] then [(''owner'', JStr owner)] else []) @
     (if repo \<noteq> [] then [(''repo'', JStr repo)] else []) @
     (if toolName = ''graphql_organization''
      then [(''graphql_root_fields'', JArr (map JStr (rf_Fields rf))),
            (''graphql_has_repository_fields'', JBool (rf_HasRepository rf))] else []) @
     (if toolName = ''list_commits'' then [(''sha'', JStr ''graphql-history'')] else []) @
     (if toolName = ''get_file_contents'' \<and> MatchString graphqlObjectExpressionPattern (gr_Query gql)
      then [(''sha'', JStr ''graphql-object'')] else []) @
     (if toolName = ''search_issues'' \<or> toolName = ''search_code'' then
        (let q = extractSearchQuery (gr_Query gql) (gr_Variables gql)
         in if q \<noteq> [] then [(''query'', JStr q)] else [])
      else [])"

definition MatchGraphQL :: "graphql_lib \<Rightarrow> string \<Rightarrow> graphql_match option" where
  "MatchGraphQL gl body =
     (case gl_unmarshal gl body of
        None \<Rightarrow> None
      | Some gql \<Rightarrow>
          (if gr_Query gql = [] then None
           else
             (let rf = graphqlRootFields gl (gr_Query gql) (gr_OperationName gql);
                  organization = MatchString graphqlOrganizationPattern (gr_Query gql)
              in if \<not> rf_Parsed rf \<and> organization then None
                 else if rf_Parsed rf \<and> root_tool rf \<noteq> ''graphql_introspection'' \<and> ''...'' \<in> set (rf_Fields rf) \<and>
                         ''organization'' \<notin> set (rf_Fields rf) \<and> organization then None
                 else
                   (let toolName = (if root_tool rf = [] then pattern_tool (gr_Query gql) else root_tool rf)
                    in if toolName = [] then None
                       else if toolName = ''pull_request_read'' \<and> hasAliasedPRResource gl (gr_Query gql) then None
                       else
                         (let (owner, repo) = extractOwnerRepo (gr_Variables gql)
                                (if rf_Parsed rf then rf_OperationQuery rf else gr_Query gql)
                          in Some \<lparr>gm_ToolName = toolName, gm_Owner = owner, gm_Repo = repo,
                                   gm_Args = graphql_args gql rf toolName owner repo\<rparr>)))))"

text \<open>\<open>hasGraphQLQueryOverride\<close>\<close>

definition hasGraphQLQueryOverride :: "string \<Rightarrow> bool" where
  "hasGraphQLQueryOverride rawQuery =
     (case ParseQuery rawQuery of
        None \<Rightarrow> True
      | Some m \<Rightarrow>
          list_ex (\<lambda>key. to_lower key \<in> set [''query'', ''operationname'', ''variables'', ''extensions'']) (keys_of m))"

section \<open>The fuel of the fragment walk is enough\<close>

lemma visited_grows:
  "graphqlHasRepositoryField fuel frags visited sels = (b, v) \<Longrightarrow> set visited \<subseteq> set v"
proof (induction fuel frags visited sels arbitrary: b v rule: graphqlHasRepositoryField.induct)
  case (1 fuel frags visited)
  then show ?case by simp
next
  case (2 fuel frags visited a n d p ss sels)
  obtain b1 v1 where r: "graphqlHasRepositoryField fuel frags visited ss = (b1, v1)" by fastforce
  show ?case
  proof (cases "n = ''repository'' \<or> n = ''repositories''")
    case True
    with "2.prems" show ?thesis by simp
  next
    case False
    have "set visited \<subseteq> set v1" using "2.IH"(1)[OF False r] .
    show ?thesis
    proof (cases b1)
      case True
      with "2.prems" False r have "v = v1" by simp
      with \<open>set visited \<subseteq> set v1\<close> show ?thesis by simp
    next
      case b: False
      with "2.prems" False r have "graphqlHasRepositoryField fuel frags v1 sels = (b, v)" by simp
      with "2.IH"(2)[OF False r[symmetric]] b have "set v1 \<subseteq> set v" by blast
      with \<open>set visited \<subseteq> set v1\<close> show ?thesis by blast
    qed
  qed
next
  case (3 fuel frags visited p ss sels)
  obtain b1 v1 where r: "graphqlHasRepositoryField fuel frags visited ss = (b1, v1)" by fastforce
  have "set visited \<subseteq> set v1" using "3.IH"(1)[OF r] .
  show ?case
  proof (cases b1)
    case True
    with "3.prems" r have "v = v1" by simp
    with \<open>set visited \<subseteq> set v1\<close> show ?thesis by simp
  next
    case b: False
    with "3.prems" r have "graphqlHasRepositoryField fuel frags v1 sels = (b, v)" by simp
    with "3.IH"(2)[OF r[symmetric]] b have "set v1 \<subseteq> set v" by blast
    with \<open>set visited \<subseteq> set v1\<close> show ?thesis by blast
  qed
next
  case (4 fuel frags visited n p sels)
  show ?case
  proof (cases "n \<in> set visited")
    case True
    with "4.IH"(1) "4.prems" show ?thesis by simp
  next
    case False
    show ?thesis
    proof (cases "map_of frags n")
      case None
      with "4.prems" False have "graphqlHasRepositoryField fuel frags (n # visited) sels = (b, v)" by simp
      from "4.IH"(2)[OF False refl None this] show ?thesis by auto
    next
      case (Some f)
      note frag = Some
      show ?thesis
      proof (cases fuel)
        case 0
        with "4.prems" False Some have "graphqlHasRepositoryField fuel frags (n # visited) sels = (b, v)" by simp
        from "4.IH"(3)[OF False refl Some 0 this] show ?thesis by auto
      next
        case (Suc k)
        obtain b1 v1 where r: "graphqlHasRepositoryField k frags (n # visited) (fd_SelectionSet f) = (b1, v1)" by fastforce
        have grown: "set (n # visited) \<subseteq> set v1" using "4.IH"(4)[OF False refl frag Suc r] .
        show ?thesis
        proof (cases b1)
          case True
          with "4.prems" False frag Suc r have "v = v1" by simp
          with grown show ?thesis by simp
        next
          case b: False
          with "4.prems" False frag Suc r have "graphqlHasRepositoryField fuel frags v1 sels = (b, v)" by simp
          with "4.IH"(5)[OF False refl frag Suc r[symmetric]] b have "set v1 \<subseteq> set v" by blast
          with grown show ?thesis by auto
        qed
      qed
    qed
  qed
qed

definition fragments_left :: "(string \<times> fragment_definition) list \<Rightarrow> string list \<Rightarrow> nat" where
  "fragments_left frags visited = card (set (keys_of frags) - set visited)"

lemma fragments_left_mono: "set visited \<subseteq> set v \<Longrightarrow> fragments_left frags v \<le> fragments_left frags visited"
  unfolding fragments_left_def by (rule card_mono) auto

lemma fragments_left_Cons:
  "n \<in> set (keys_of frags) \<Longrightarrow> n \<notin> set visited \<Longrightarrow>
     Suc (fragments_left frags (n # visited)) = fragments_left frags visited"
proof -
  assume "n \<in> set (keys_of frags)" "n \<notin> set visited"
  then have "set (keys_of frags) - set visited = insert n (set (keys_of frags) - set (n # visited))" by auto
  then show ?thesis unfolding fragments_left_def by (metis card_insert_disjoint finite_Diff finite_set
      DiffD2 list.set_intros(1))
qed

lemma fuel_irrelevant:
  assumes "fragments_left frags visited \<le> fuel" "fragments_left frags visited \<le> fuel'"
  shows "graphqlHasRepositoryField fuel frags visited sels = graphqlHasRepositoryField fuel' frags visited sels"
  using assms
proof (induction fuel frags visited sels arbitrary: fuel' rule: graphqlHasRepositoryField.induct)
  case (1 fuel frags visited)
  then show ?case by simp
next
  case (2 fuel frags visited a n d p ss sels)
  show ?case
  proof (cases "n = ''repository'' \<or> n = ''repositories''")
    case False
    have e: "graphqlHasRepositoryField fuel frags visited ss = graphqlHasRepositoryField fuel' frags visited ss"
      using "2.IH"(1)[OF False "2.prems"] .
    obtain b v where bv: "graphqlHasRepositoryField fuel frags visited ss = (b, v)" by fastforce
    have "fragments_left frags v \<le> fragments_left frags visited"
      using visited_grows[OF bv] by (rule fragments_left_mono)
    with "2.prems" have "\<not> b \<Longrightarrow> graphqlHasRepositoryField fuel frags v sels = graphqlHasRepositoryField fuel' frags v sels"
      by (intro "2.IH"(2)[OF False bv[symmetric]]) simp_all
    with False bv bv[unfolded e] show ?thesis by (cases b) simp_all
  qed simp
next
  case (3 fuel frags visited p ss sels)
  have e: "graphqlHasRepositoryField fuel frags visited ss = graphqlHasRepositoryField fuel' frags visited ss"
    using "3.IH"(1)[OF "3.prems"] .
  obtain b v where bv: "graphqlHasRepositoryField fuel frags visited ss = (b, v)" by fastforce
  have "fragments_left frags v \<le> fragments_left frags visited"
    using visited_grows[OF bv] by (rule fragments_left_mono)
  with "3.prems" have "\<not> b \<Longrightarrow> graphqlHasRepositoryField fuel frags v sels = graphqlHasRepositoryField fuel' frags v sels"
    by (intro "3.IH"(2)[OF bv[symmetric]]) simp_all
  with bv bv[unfolded e] show ?case by (cases b) simp_all
next
  case (4 fuel frags visited n p sels)
  show ?case
  proof (cases "n \<in> set visited")
    case True
    with "4.IH"(1)[OF True "4.prems"] show ?thesis by simp
  next
    case False
    show ?thesis
    proof (cases "map_of frags n")
      case None
      have "fragments_left frags (n # visited) \<le> fragments_left frags visited"
        by (rule fragments_left_mono) auto
      with "4.prems" have "graphqlHasRepositoryField fuel frags (n # visited) sels =
          graphqlHasRepositoryField fuel' frags (n # visited) sels"
        by (intro "4.IH"(2)[OF False refl None]) simp_all
      with False None show ?thesis by simp
    next
      case (Some f)
      then have left: "Suc (fragments_left frags (n # visited)) = fragments_left frags visited"
        using False map_of_None_keys[of frags n] by (intro fragments_left_Cons) auto
      then obtain k k' where k: "fuel = Suc k" "fuel' = Suc k'"
        using "4.prems" by (metis Suc_le_D)
      with left "4.prems" have le: "fragments_left frags (n # visited) \<le> k" "fragments_left frags (n # visited) \<le> k'"
        by simp_all
      have e: "graphqlHasRepositoryField k frags (n # visited) (fd_SelectionSet f) =
          graphqlHasRepositoryField k' frags (n # visited) (fd_SelectionSet f)"
        using "4.IH"(4)[OF False refl Some k(1) le] .
      obtain b v where bv: "graphqlHasRepositoryField k frags (n # visited) (fd_SelectionSet f) = (b, v)" by fastforce
      have "fragments_left frags v \<le> fragments_left frags visited"
        using visited_grows[OF bv] by (intro fragments_left_mono) auto
      with "4.prems" have "\<not> b \<Longrightarrow> graphqlHasRepositoryField fuel frags v sels = graphqlHasRepositoryField fuel' frags v sels"
        by (intro "4.IH"(5)[OF False refl Some k(1) bv[symmetric]]) simp_all
      with False Some k bv bv[unfolded e] show ?thesis by (cases b) simp_all
    qed
  qed
qed

lemma fragment_fuel_enough:
  "length fragments \<le> fuel \<Longrightarrow>
     graphqlHasRepositoryFields sels fragments =
       fst (graphqlHasRepositoryField fuel (rev (map (\<lambda>f. (fd_Name f, f)) fragments)) [] sels)"
proof -
  assume "length fragments \<le> fuel"
  moreover have "fragments_left (rev (map (\<lambda>f. (fd_Name f, f)) fragments)) [] \<le> length fragments"
    unfolding fragments_left_def by (simp add: o_def) (metis card_length length_map set_map)
  ultimately show ?thesis
    unfolding graphqlHasRepositoryFields_def by (subst fuel_irrelevant[of _ _ _ fuel]) auto
qed

section \<open>What was selected\<close>

lemma request_fields_keys:
  "request_fields ms seen present req = Some r \<Longrightarrow>
     distinct (keys_of ms) \<and> set (keys_of ms) \<inter> set seen = {} \<and>
     set (keys_of ms) \<subseteq> {''query'', ''operationName'', ''variables''}"
  by (induction ms seen present req rule: request_fields.induct)
     (auto split: if_splits json.splits)

lemma select_operation_Some:
  "select_operation doc name = Some x \<Longrightarrow>
     x \<in> set (qd_Operations doc) \<and> (\<forall>y\<in>set (qd_Operations doc). (name = [] \<or> od_Name y = name) \<longrightarrow> y = x)"
proof -
  assume s: "select_operation doc name = Some x"
  show ?thesis
  proof (cases "name = []")
    case True
    with s have "qd_Operations doc = [x]"
      by (auto simp: select_operation_def split: list.splits)
    with True show ?thesis by simp
  next
    case False
    with s have f: "filter (\<lambda>y. od_Name y = name) (qd_Operations doc) = [x]"
      by (auto simp: select_operation_def split: list.splits)
    then have "set (filter (\<lambda>y. od_Name y = name) (qd_Operations doc)) = {x}" by simp
    with False show ?thesis by auto
  qed
qed

text \<open>
  The included fragments are closed under spreads: every fragment that is included has its own
  spreads included too.
\<close>

definition spreads_closed :: "(string \<times> fragment_definition) list \<Rightarrow> string list \<Rightarrow> bool" where
  "spreads_closed frags referenced \<longleftrightarrow>
     (\<forall>n\<in>set referenced. \<exists>f. map_of frags n = Some f \<and>
        set (collectFragmentSpreads (fd_SelectionSet f)) \<subseteq> set referenced)"

lemma include_all_closed:
  "include_all frags visiting ns referenced = Some r \<Longrightarrow> spreads_closed frags referenced \<Longrightarrow>
     spreads_closed frags r \<and> set referenced \<subseteq> set r \<and> set ns \<subseteq> set r"
proof (induction frags visiting ns referenced arbitrary: r rule: include_all.induct)
  case (1 frags visiting referenced)
  then show ?case by simp
next
  case (2 frags visiting n ns referenced)
  from "2.prems"(1) have new: "n \<notin> set visiting" by (simp split: if_splits)
  with "2.prems"(1) obtain f where f: "map_of frags n = Some f" by (auto split: option.splits)
  show ?case
  proof (cases "n \<in> set referenced")
    case True
    with "2.prems" new f have "include_all frags visiting ns referenced = Some r" by simp
    from "2.IH"(1)[OF new f True this "2.prems"(2)] True show ?thesis by auto
  next
    case False
    with "2.prems"(1) new f obtain r1 where
      r1: "include_all frags (n # visiting) (collectFragmentSpreads (fd_SelectionSet f)) referenced = Some r1"
      and r: "include_all frags visiting ns (n # r1) = Some r"
      by (auto split: option.splits)
    from "2.IH"(2)[OF new f False r1 "2.prems"(2)] have
      c1: "spreads_closed frags r1" "set referenced \<subseteq> set r1"
        "set (collectFragmentSpreads (fd_SelectionSet f)) \<subseteq> set r1" by blast+
    then have "spreads_closed frags (n # r1)" using f unfolding spreads_closed_def by fastforce
    from "2.IH"(3)[OF new f False r1 r this] c1(2) show ?thesis by auto
  qed
qed

lemma select_Some:
  assumes "selectReadOnlyGraphQLOperation gl body = Some selected"
  obtains ms and doc :: query_document and op :: operation_definition and query vars referenced where
    "gl_members gl body = Some ms" "distinct (keys_of ms)"
    "set (keys_of ms) \<subseteq> {''query'', ''operationName'', ''variables''}"
    "op \<in> set (qd_Operations doc)" "od_Operation op = QueryOp"
    "spreads_closed (map (\<lambda>f. (fd_Name f, f)) (qd_Fragments doc)) referenced"
    "set (collectFragmentSpreads (od_SelectionSet op)) \<subseteq> set referenced"
    "gl_marshal gl \<lparr>gr_Query = query, gr_OperationName = [], gr_Variables = vars\<rparr> = Some selected"
proof -
  from assms obtain ms where ms: "gl_members gl body = Some ms"
    by (cases "gl_members gl body") (simp_all add: selectReadOnlyGraphQLOperation_def)
  from assms ms obtain present request where rq: "request_fields ms [] False empty_request = Some (present, request)"
    by (cases "request_fields ms [] False empty_request") (auto simp: selectReadOnlyGraphQLOperation_def)
  from assms ms rq have nonempty: "\<not> (gr_Query request = [] \<or> present \<and> gr_OperationName request = [])"
    by (auto simp: selectReadOnlyGraphQLOperation_def split: if_splits)
  with assms ms rq obtain doc where doc: "gl_parse gl (gr_Query request) = Some doc" "qd_Operations doc \<noteq> []"
    by (cases "gl_parse gl (gr_Query request)") (auto simp: selectReadOnlyGraphQLOperation_def split: if_splits)
  with assms ms rq nonempty obtain op where op: "select_operation doc (gr_OperationName request) = Some op"
    by (cases "select_operation doc (gr_OperationName request)") (auto simp: selectReadOnlyGraphQLOperation_def)
  with assms ms rq nonempty doc have q: "od_Operation op = QueryOp"
    by (auto simp: selectReadOnlyGraphQLOperation_def split: if_splits)
  with assms ms rq nonempty doc op obtain tokens where tk: "gl_lex gl (gr_Query request) = Some tokens"
    by (cases "gl_lex gl (gr_Query request)") (auto simp: selectReadOnlyGraphQLOperation_def Let_def)
  from assms ms rq nonempty doc op q tk obtain referenced where
    r: "include_all (map (\<lambda>f. (fd_Name f, f)) (qd_Fragments doc)) [] (collectFragmentSpreads (od_SelectionSet op)) [] = Some referenced"
    by (cases "include_all (map (\<lambda>f. (fd_Name f, f)) (qd_Fragments doc)) [] (collectFragmentSpreads (od_SelectionSet op)) []")
       (auto simp: selectReadOnlyGraphQLOperation_def Let_def split: if_splits prod.splits)
  with assms ms rq nonempty doc op q tk obtain query where
    m: "gl_marshal gl \<lparr>gr_Query = query, gr_OperationName = [], gr_Variables = gr_Variables request\<rparr> = Some selected"
    by (auto simp: selectReadOnlyGraphQLOperation_def Let_def split: if_splits prod.splits)
  from include_all_closed[OF r] have closed: "spreads_closed (map (\<lambda>f. (fd_Name f, f)) (qd_Fragments doc)) referenced"
    "set (collectFragmentSpreads (od_SelectionSet op)) \<subseteq> set referenced"
    by (simp_all add: spreads_closed_def)
  from request_fields_keys[OF rq] have keys: "distinct (keys_of ms)"
    "set (keys_of ms) \<subseteq> {''query'', ''operationName'', ''variables''}" by simp_all
  have member: "op \<in> set (qd_Operations doc)" using select_operation_Some[OF op] by simp
  show thesis by (rule that[OF ms keys member q closed m])
qed

end
