(* ===== verification/ProxyRewrite.thy ===== *)
theory ProxyRewrite imports ProxyGraphQL RateLimit begin

text \<open>
  \<open>internal/proxy/graphql_rewrite.go\<close>: adding to a query the fields the guard needs for its
  labels. The rewriting only inserts text. The walk over fragments carries fuel that counts the
  pairs of a fragment and a parent it has not seen yet; \<open>walk_fuel_enough\<close> says it suffices.
\<close>

section \<open>Matches of a pattern in a text\<close>

text \<open>\<open>FindAllStringIndex\<close> for a pattern without empty matches: offsets of start and end.\<close>

function find_all :: "rx \<Rightarrow> string \<Rightarrow> string \<Rightarrow> (nat \<times> nat) list" where
  "find_all r pre s =
     (case find_from r pre s of
        None \<Rightarrow> []
      | Some (p, g, q) \<Rightarrow>
          (length (fst p), length (fst q)) #
          (if length (snd q) < length s then find_all r (fst q) (snd q) else []))"
  by pat_completeness auto
termination
  by (relation "measure (\<lambda>(r, pre, s). length s)") auto

declare find_all.simps [simp del]

section \<open>Fields by tool\<close>

record guard_field_set =
  gf_field :: string
  gf_present :: rx

definition issueAndPRFields :: "guard_field_set list" where
  "issueAndPRFields =
     [\<lparr>gf_field = ''author{login}'',
       gf_present = cat [WordB, Lit ''author'', ws, Lit ''{'', many (NotIn ''}''), WordB, Lit ''login'', WordB]\<rparr>,
      \<lparr>gf_field = ''authorAssociation'', gf_present = cat [WordB, Lit ''authorAssociation'', WordB]\<rparr>]"

definition commitFields :: "guard_field_set list" where
  "commitFields =
     [\<lparr>gf_field = ''author{user{login}}'',
       gf_present = cat [WordB, Lit ''author'', ws, Lit ''{'', many (NotIn ''}''), WordB, Lit ''user'', ws, Lit ''{'',
                         many (NotIn ''}''), WordB, Lit ''login'', WordB]\<rparr>]"

definition issueAndPRSafeParents :: "string list" where
  "issueAndPRSafeParents = [''pullRequests'', ''issues'', ''comments'', ''reviews'', ''search'']"

definition commitSafeParents :: "string list" where
  "commitSafeParents = [''history'']"

definition fieldsForTool :: "string \<Rightarrow> (guard_field_set list \<times> string list) option" where
  "fieldsForTool toolName =
     (if toolName \<in> set [''list_issues'', ''list_pull_requests'', ''issue_read'', ''pull_request_read'', ''search_issues'']
      then Some (issueAndPRFields, issueAndPRSafeParents)
      else if toolName = ''list_commits'' then Some (commitFields, commitSafeParents)
      else None)"

definition missingFields :: "string \<Rightarrow> guard_field_set list \<Rightarrow> string list" where
  "missingFields query fs = map gf_field (filter (\<lambda>f. \<not> MatchString (gf_present f) query) fs)"

definition allFieldsPresent :: "string \<Rightarrow> guard_field_set list \<Rightarrow> bool" where
  "allFieldsPresent query fs = list_all (\<lambda>f. MatchString (gf_present f) query) fs"

section \<open>Pull requests\<close>

type_synonym insertion = "nat \<times> string"

record walk_state =
  wk_visited :: "(string \<times> string) list"
  wk_insertions :: "insertion list"

fun sel_position :: "selection \<Rightarrow> nat" where
  "sel_position (Field a n d p ss) = p"
| "sel_position (FragmentSpread n p) = p"
| "sel_position (InlineFragment p ss) = p"

definition plain_field :: "string \<Rightarrow> selection \<Rightarrow> bool" where
  "plain_field name sel =
     (case sel of Field a n d p ss \<Rightarrow> n = name \<and> (a = [] \<or> a = name) \<and> d = 0 | _ \<Rightarrow> False)"

definition missing_pr_fields :: "selection list \<Rightarrow> bool \<Rightarrow> string list" where
  "missing_pr_fields selections parent =
     (let hasLogin = (case find (plain_field ''author'') selections of
            None \<Rightarrow> False
          | Some author \<Rightarrow> list_ex (plain_field ''login'') (sel_set author))
      in (if \<not> hasLogin then [''author{login}''] else []) @
         (if find (plain_field ''authorAssociation'') selections = None then [''authorAssociation''] else []) @
         (if parent \<and> find (plain_field ''number'') selections = None then [''number''] else []) @
         (if parent \<and> find (plain_field ''merged'') selections = None then [''merged''] else []))"

definition add_fields :: "(nat \<times> nat) list \<Rightarrow> selection list \<Rightarrow> bool \<Rightarrow> walk_state \<Rightarrow> walk_state" where
  "add_fields spreadStarts selections parent st =
     (case selections of
        [] \<Rightarrow> st
      | sel # _ \<Rightarrow>
          (let missing = missing_pr_fields selections parent
           in if missing = [] then st
              else
                (let offset0 = sel_position sel;
                     offset = (case map_of spreadStarts offset0 of Some s \<Rightarrow> s | None \<Rightarrow> offset0)
                 in if offset \<in> fst ` set (wk_insertions st) then st
                    else st\<lparr>wk_insertions := wk_insertions st @ [(offset, join_with '','' missing @ '','')]\<rparr>)))"

fun walk ::
  "nat \<Rightarrow> (nat \<times> nat) list \<Rightarrow> (string \<times> fragment_definition) list \<Rightarrow> string \<Rightarrow> selection list \<Rightarrow> walk_state \<Rightarrow> walk_state" where
  "walk fuel ss frags parent [] st = st"
| "walk fuel ss frags parent (Field a n d p sub # sels) st =
     (let st1 = (if n = ''pullRequest'' then add_fields ss sub True st
                 else if (n = ''nodes'' \<or> n = ''node'') \<and> (parent = ''reviews'' \<or> parent = ''comments'')
                 then add_fields ss sub False st
                 else st);
          nextParent = (if n = ''edges'' then parent else n)
      in walk fuel ss frags parent sels (walk fuel ss frags nextParent sub st1))"
| "walk fuel ss frags parent (InlineFragment p sub # sels) st =
     walk fuel ss frags parent sels (walk fuel ss frags parent sub st)"
| "walk fuel ss frags parent (FragmentSpread n p # sels) st =
     (case map_of frags n of
        None \<Rightarrow> walk fuel ss frags parent sels st
      | Some f \<Rightarrow>
          (if (n, parent) \<in> set (wk_visited st) then walk fuel ss frags parent sels st
           else
             (case fuel of
                0 \<Rightarrow> walk fuel ss frags parent sels st
              | Suc k \<Rightarrow>
                  walk fuel ss frags parent sels
                    (walk k ss frags parent (fd_SelectionSet f) (st\<lparr>wk_visited := (n, parent) # wk_visited st\<rparr>)))))"

text \<open>The names a walk may meet as parents.\<close>

fun field_names :: "selection list \<Rightarrow> string list" where
  "field_names [] = []"
| "field_names (Field a n d p ss # sels) = n # field_names ss @ field_names sels"
| "field_names (InlineFragment p ss # sels) = field_names ss @ field_names sels"
| "field_names (FragmentSpread n p # sels) = field_names sels"

definition parent_names :: "query_document \<Rightarrow> string list" where
  "parent_names doc =
     [] # concat (map (\<lambda>x. field_names (od_SelectionSet x)) (qd_Operations doc) @
                  map (\<lambda>f. field_names (fd_SelectionSet f)) (qd_Fragments doc))"

text \<open>\<open>FragmentDefinitionList.ForName\<close> finds the first fragment of a name.\<close>

definition fragment_map :: "query_document \<Rightarrow> (string \<times> fragment_definition) list" where
  "fragment_map doc = map (\<lambda>f. (fd_Name f, f)) (qd_Fragments doc)"

definition walk_fuel :: "query_document \<Rightarrow> nat" where
  "walk_fuel doc = length (qd_Fragments doc) * length (parent_names doc)"

fun spread_starts :: "gql_token list \<Rightarrow> gql_token option \<Rightarrow> (nat \<times> nat) list" where
  "spread_starts [] prev = []"
| "spread_starts (t # ts) prev =
     (if tk_Kind t = EOFTok then []
      else if tk_Kind t = CommentTok then spread_starts ts prev
      else
        (case prev of
           Some p \<Rightarrow> (if tk_Kind p = SpreadTok then [(tk_Start t, tk_Start p)] else [])
         | None \<Rightarrow> []) @ spread_starts ts (Some t))"

text \<open>The edits are made from the last to the first, so that offsets stay valid.\<close>

definition insert_at :: "insertion \<Rightarrow> string list \<Rightarrow> string list" where
  "insert_at edit source = take (fst edit) source @ runes (snd edit) @ drop (fst edit) source"

definition injectPRGuardFields :: "graphql_lib \<Rightarrow> string \<Rightarrow> string" where
  "injectPRGuardFields gl query =
     (case (gl_parse gl query, gl_lex gl query) of
        (Some doc, Some tokens) \<Rightarrow>
          (let st = fold (\<lambda>x. walk (walk_fuel doc) (rev (spread_starts tokens None)) (fragment_map doc) [] (od_SelectionSet x))
                      (qd_Operations doc) \<lparr>wk_visited = [], wk_insertions = []\<rparr>;
               edits = rev (sort_key fst (wk_insertions st))
           in concat (fold insert_at edits (runes query)))
      | _ \<Rightarrow> query)"

section \<open>Other tools\<close>

definition reFragmentInNodes :: rx where
  "reFragmentInNodes = cat [Lit ''nodes'', ws, Lit ''{'', ws, Lit ''...'', Grp (some1 WordCh)]"

definition reInlineFragInNodes :: rx where
  "reInlineFragInNodes =
     cat [Lit ''nodes'', ws, Lit ''{'', many (NotIn ''{}''), Lit ''...'', ws, Lit ''on'', some1 Space, some1 WordCh, ws, Lit ''{'']"

definition reInlineFragOpen :: rx where
  "reInlineFragOpen = Grp (cat [Lit ''...'', ws, Lit ''on'', some1 Space, some1 WordCh, ws, Lit ''{''])"

definition reNodesBlock :: rx where
  "reNodesBlock = cat [Lit ''nodes'', ws, Lit ''{'']"

definition isGraphQLFieldNameChar :: "char \<Rightarrow> bool" where
  "isGraphQLFieldNameChar c = is_word c"

text \<open>The three backward scans of \<open>findParentField\<close>, on the text before the match, reversed.\<close>

fun enclosing_brace :: "nat \<Rightarrow> string \<Rightarrow> string option" where
  "enclosing_brace depth [] = None"
| "enclosing_brace depth (c # cs) =
     (if c = CHR ''{'' then (if depth = 0 then Some cs else enclosing_brace (depth - 1) cs)
      else enclosing_brace (if c = CHR ''}'' then Suc depth else depth) cs)"

fun skip_arguments :: "nat \<Rightarrow> string \<Rightarrow> string" where
  "skip_arguments depth [] = []"
| "skip_arguments depth (c # cs) =
     (if depth = 0 then c # cs
      else skip_arguments
             (if c = CHR '')'' then Suc depth else if c = CHR ''('' then depth - 1 else depth) cs)"

definition skip_blanks :: "string \<Rightarrow> string" where
  "skip_blanks = dropWhile (\<lambda>c. c \<in> set [CHR '' '', CHR 0x0A, CHR 0x09, CHR 0x0D])"

definition findParentField :: "string \<Rightarrow> nat \<Rightarrow> string" where
  "findParentField query nodesIdx =
     (case enclosing_brace 0 (rev (take nodesIdx query)) of
        None \<Rightarrow> []
      | Some before \<Rightarrow>
          (let b1 = skip_blanks before;
               b2 = (case b1 of
                       c # cs \<Rightarrow> (if c = CHR '')'' then skip_blanks (skip_arguments 1 cs) else b1)
                     | [] \<Rightarrow> b1)
           in rev (takeWhile isGraphQLFieldNameChar b2)))"

fun brace_end :: "nat \<Rightarrow> string \<Rightarrow> nat option" where
  "brace_end depth [] = None"
| "brace_end depth (c # cs) =
     (if c = CHR ''}'' \<and> depth = 1 then Some 0
      else map_option Suc (brace_end
             (if c = CHR ''{'' then Suc depth else if c = CHR ''}'' then depth - 1 else depth) cs))"

definition injectIntoFragment :: "string \<Rightarrow> string \<Rightarrow> string \<Rightarrow> string" where
  "injectIntoFragment query fragName field =
     (case index_of (''fragment '' @ fragName @ '' on '') query of
        None \<Rightarrow> query
      | Some idx \<Rightarrow>
          (case index_of ''{'' (drop idx query) of
             None \<Rightarrow> query
           | Some i \<Rightarrow>
               (case brace_end 0 (drop (idx + i) query) of
                  None \<Rightarrow> query
                | Some e \<Rightarrow>
                    take (idx + i + e) query @ '','' @ field @ drop (idx + i + e) query)))"

text \<open>Text put in at the end of each match for which \<open>wanted\<close> holds; \<open>pos\<close> is the end of the last.\<close>

fun inject_after :: "string \<Rightarrow> nat \<Rightarrow> string \<Rightarrow> (nat \<Rightarrow> bool) \<Rightarrow> (nat \<times> nat) list \<Rightarrow> string" where
  "inject_after query pos text wanted [] = drop pos query"
| "inject_after query pos text wanted ((a, b) # ms) =
     take (b - pos) (drop pos query) @ (if wanted a then text else []) @ inject_after query b text wanted ms"

definition injectFieldsIntoQuery :: "string \<Rightarrow> string list \<Rightarrow> string list \<Rightarrow> string" where
  "injectFieldsIntoQuery query fs safeParents =
     (let injection = join_with '','' fs
      in case FindStringSubmatch reFragmentInNodes query of
           Some m \<Rightarrow> injectIntoFragment query (m ! 1) injection
         | None \<Rightarrow>
             (if MatchString reInlineFragInNodes query \<and> MatchString reInlineFragOpen query
              then inject_after query 0 (injection @ '','') (\<lambda>i. True) (find_all reInlineFragOpen [] query)
              else
                (let wanted = (\<lambda>i. findParentField query i \<in> set safeParents);
                     ms = find_all reNodesBlock [] query
                 in if list_ex (\<lambda>(a, b). wanted a) ms
                    then inject_after query 0 (injection @ '','') wanted ms
                    else query)))"

definition InjectGuardFields :: "graphql_lib \<Rightarrow> string \<Rightarrow> string \<Rightarrow> string" where
  "InjectGuardFields gl body toolName =
     (case fieldsForTool toolName of
        None \<Rightarrow> body
      | Some (fs, safeParents) \<Rightarrow>
          (case gl_unmarshal gl body of
             None \<Rightarrow> body
           | Some gql \<Rightarrow>
               (let rewrite = (\<lambda>modified.
                      if modified = gr_Query gql then body
                      else (case gl_marshal gl (gql\<lparr>gr_Query := modified\<rparr>) of None \<Rightarrow> body | Some b \<Rightarrow> b))
                in if toolName = ''pull_request_read'' then rewrite (injectPRGuardFields gl (gr_Query gql))
                   else if gr_Query gql = [] \<or> allFieldsPresent (gr_Query gql) fs then body
                   else rewrite (injectFieldsIntoQuery (gr_Query gql) (missingFields (gr_Query gql) fs) safeParents))))"

section \<open>The fuel of the walk is enough\<close>

lemma add_fields_visited [simp]: "wk_visited (add_fields ss sels parent st) = wk_visited st"
  by (auto simp: add_fields_def Let_def split: list.splits)

lemma walk_visited_grows: "set (wk_visited st) \<subseteq> set (wk_visited (walk fuel ss frags parent sels st))"
proof (induction fuel ss frags parent sels st rule: walk.induct)
  case (2 fuel ss frags parent a n d p sub sels st)
  define st1 where "st1 = (if n = ''pullRequest'' then add_fields ss sub True st
      else if (n = ''nodes'' \<or> n = ''node'') \<and> (parent = ''reviews'' \<or> parent = ''comments'')
      then add_fields ss sub False st else st)"
  define np where "np = (if n = ''edges'' then parent else n)"
  have "wk_visited st1 = wk_visited st" by (simp add: st1_def)
  then show ?case
    using "2.IH"(1)[OF st1_def np_def] "2.IH"(2)[OF st1_def np_def]
    by (simp add: Let_def st1_def[symmetric] np_def[symmetric])
next
  case (4 fuel ss frags parent n p sels st)
  show ?case
  proof (cases "map_of frags n = None \<or> (n, parent) \<in> set (wk_visited st) \<or> fuel = 0")
    case True
    have "set (wk_visited st) \<subseteq> set (wk_visited (walk fuel ss frags parent sels st))"
      using True "4.IH"(1,2,3) by (metis not0_implies_Suc not_None_eq)
    with True show ?thesis by (auto split: option.splits)
  next
    case False
    then obtain f k where f: "map_of frags n = Some f" "fuel = Suc k" "(n, parent) \<notin> set (wk_visited st)"
      by (metis not0_implies_Suc not_None_eq)
    let ?st = "st\<lparr>wk_visited := (n, parent) # wk_visited st\<rparr>"
    have "set (wk_visited st) \<subseteq> set (wk_visited ?st)" by auto
    also note "4.IH"(4)[OF f(1) f(3) f(2)]
    also note "4.IH"(5)[OF f(1) f(3) f(2)]
    finally show ?thesis using f by simp
  qed
qed auto

definition pairs_left :: "(string \<times> fragment_definition) list \<Rightarrow> string set \<Rightarrow> walk_state \<Rightarrow> nat" where
  "pairs_left frags P st = card (set (keys_of frags) \<times> P - set (wk_visited st))"

lemma pairs_left_mono:
  "finite P \<Longrightarrow> set (wk_visited st) \<subseteq> set (wk_visited st') \<Longrightarrow> pairs_left frags P st' \<le> pairs_left frags P st"
  unfolding pairs_left_def by (rule card_mono) auto

lemma pairs_left_walk:
  "finite P \<Longrightarrow> pairs_left frags P (walk fuel ss frags parent sels st) \<le> pairs_left frags P st"
  by (rule pairs_left_mono[OF _ walk_visited_grows])

lemma pairs_left_Cons:
  assumes "finite P" "n \<in> set (keys_of frags)" "parent \<in> P" "(n, parent) \<notin> set (wk_visited st)"
  shows "Suc (pairs_left frags P (st\<lparr>wk_visited := (n, parent) # wk_visited st\<rparr>)) = pairs_left frags P st"
proof -
  let ?U = "set (keys_of frags) \<times> P"
  have "?U - set (wk_visited st) = insert (n, parent) (?U - set ((n, parent) # wk_visited st))"
    using assms by auto
  moreover have "(n, parent) \<notin> ?U - set ((n, parent) # wk_visited st)" by simp
  moreover have "finite (?U - set ((n, parent) # wk_visited st))" using assms(1) by simp
  ultimately have "card (?U - set (wk_visited st)) = Suc (card (?U - set ((n, parent) # wk_visited st)))"
    by (metis card_insert_disjoint)
  then show ?thesis by (simp add: pairs_left_def)
qed

lemma walk_fuel_irrelevant:
  assumes P: "finite P" and frags: "\<And>n f. map_of frags n = Some f \<Longrightarrow> set (field_names (fd_SelectionSet f)) \<subseteq> P"
  shows "set (field_names sels) \<subseteq> P \<Longrightarrow> parent \<in> P \<Longrightarrow> pairs_left frags P st \<le> fuel \<Longrightarrow>
     pairs_left frags P st \<le> fuel' \<Longrightarrow> walk fuel ss frags parent sels st = walk fuel' ss frags parent sels st"
  using frags
proof (induction fuel ss frags parent sels st arbitrary: fuel' rule: walk.induct)
  case (1 fuel ss frags parent st)
  then show ?case by simp
next
  case (2 fuel ss frags parent a n d p sub sels st)
  define st1 where "st1 = (if n = ''pullRequest'' then add_fields ss sub True st
      else if (n = ''nodes'' \<or> n = ''node'') \<and> (parent = ''reviews'' \<or> parent = ''comments'')
      then add_fields ss sub False st else st)"
  define np where "np = (if n = ''edges'' then parent else n)"
  have left: "pairs_left frags P st1 = pairs_left frags P st"
    by (simp add: st1_def pairs_left_def)
  have np: "np \<in> P" using "2.prems"(1,2) by (simp add: np_def)
  have e: "walk fuel ss frags np sub st1 = walk fuel' ss frags np sub st1"
    by (rule "2.IH"(1)[OF st1_def np_def _ np]) (use "2.prems" left in auto)
  have "walk fuel ss frags parent sels (walk fuel ss frags np sub st1) =
      walk fuel' ss frags parent sels (walk fuel ss frags np sub st1)"
    by (rule "2.IH"(2)[OF st1_def np_def])
       (use "2.prems" left pairs_left_walk[OF P, of frags fuel ss np sub st1] in auto)
  with e show ?case by (simp add: Let_def st1_def[symmetric] np_def[symmetric])
next
  case (3 fuel ss frags parent p sub sels st)
  have e: "walk fuel ss frags parent sub st = walk fuel' ss frags parent sub st"
    by (rule "3.IH"(1)) (use "3.prems" in auto)
  have "walk fuel ss frags parent sels (walk fuel ss frags parent sub st) =
      walk fuel' ss frags parent sels (walk fuel ss frags parent sub st)"
    by (rule "3.IH"(2)) (use "3.prems" pairs_left_walk[OF P, of frags fuel ss parent sub st] in auto)
  with e show ?case by simp
next
  case (4 fuel ss frags parent n p sels st)
  have names: "set (field_names sels) \<subseteq> P" using "4.prems"(1) by simp
  show ?case
  proof (cases "map_of frags n")
    case None
    have "walk fuel ss frags parent sels st = walk fuel' ss frags parent sels st"
      by (rule "4.IH"(1)[OF None names "4.prems"(2-5)])
    with None show ?thesis by simp
  next
    case (Some f)
    note frag = Some
    then have key: "n \<in> set (keys_of frags)" using map_of_None_keys[of frags n] by simp
    show ?thesis
    proof (cases "(n, parent) \<in> set (wk_visited st)")
      case True
      have "walk fuel ss frags parent sels st = walk fuel' ss frags parent sels st"
        by (rule "4.IH"(2)[OF frag True names "4.prems"(2-5)])
      with True Some show ?thesis by simp
    next
      case False
      let ?st = "st\<lparr>wk_visited := (n, parent) # wk_visited st\<rparr>"
      from pairs_left_Cons[OF P key "4.prems"(2) False] have left: "Suc (pairs_left frags P ?st) = pairs_left frags P st" .
      from left "4.prems"(3,4) have "fuel \<noteq> 0" "fuel' \<noteq> 0" by linarith+
      then obtain k k' where k: "fuel = Suc k" "fuel' = Suc k'" by (meson not0_implies_Suc)
      have le: "pairs_left frags P ?st \<le> k" "pairs_left frags P ?st \<le> k'"
        using left "4.prems"(3,4) unfolding k by linarith+
      have e: "walk k ss frags parent (fd_SelectionSet f) ?st = walk k' ss frags parent (fd_SelectionSet f) ?st"
        by (rule "4.IH"(4)[OF frag False k(1) _ "4.prems"(2) le]) (use "4.prems"(5) frag in blast)+
      have less: "pairs_left frags P (walk k ss frags parent (fd_SelectionSet f) ?st) \<le> pairs_left frags P st"
        using pairs_left_walk[OF P, of frags k ss parent "fd_SelectionSet f" ?st] left by linarith
      have "walk fuel ss frags parent sels (walk k ss frags parent (fd_SelectionSet f) ?st) =
          walk fuel' ss frags parent sels (walk k ss frags parent (fd_SelectionSet f) ?st)"
        by (rule "4.IH"(5)[OF frag False k(1) names "4.prems"(2)]) (use less "4.prems"(3-5) in auto)
      with e k frag False show ?thesis by simp
    qed
  qed
qed

lemma pairs_left_bound: "finite P \<Longrightarrow> pairs_left frags P st \<le> length frags * card P"
proof -
  assume P: "finite P"
  have "pairs_left frags P st \<le> card (set (keys_of frags) \<times> P)"
    unfolding pairs_left_def using P by (intro card_mono) auto
  also have "\<dots> = card (set (keys_of frags)) * card P" by (rule card_cartesian_product)
  also have "\<dots> \<le> length frags * card P"
    using card_length[of "keys_of frags"] by simp
  finally show ?thesis .
qed

lemma fragment_names:
  "map_of (fragment_map doc) n = Some f \<Longrightarrow> set (field_names (fd_SelectionSet f)) \<subseteq> set (parent_names doc)"
  by (auto simp: fragment_map_def parent_names_def dest!: map_of_SomeD)

lemma operation_names:
  "x \<in> set (qd_Operations doc) \<Longrightarrow> set (field_names (od_SelectionSet x)) \<subseteq> set (parent_names doc)"
  by (auto simp: parent_names_def)

text \<open>More fuel gives the same walk, so the walk is the one without a bound.\<close>

lemma walk_fuel_enough:
  assumes "x \<in> set (qd_Operations doc)" and "walk_fuel doc \<le> fuel"
  shows "walk fuel ss (fragment_map doc) [] (od_SelectionSet x) st =
    walk (walk_fuel doc) ss (fragment_map doc) [] (od_SelectionSet x) st"
proof -
  let ?P = "set (parent_names doc)"
  have "pairs_left (fragment_map doc) ?P st \<le> length (fragment_map doc) * card ?P"
    by (rule pairs_left_bound) simp
  also have "\<dots> \<le> walk_fuel doc"
    unfolding walk_fuel_def fragment_map_def using card_length[of "parent_names doc"] by simp
  finally have "pairs_left (fragment_map doc) ?P st \<le> walk_fuel doc" .
  with assms show ?thesis
    by (intro walk_fuel_irrelevant[of ?P] fragment_names operation_names) (auto simp: parent_names_def)
qed

section \<open>Rewriting only inserts\<close>

lemma subseq_insert: "subseq s (take n s @ t @ drop n s)"
proof -
  have "subseq (take n s @ drop n s) (take n s @ t @ drop n s)"
    unfolding subseq_append' by (intro list_emb_append2 subseq_order.order_refl)
  then show ?thesis unfolding append_take_drop_id .
qed

lemma injectIntoFragment_inserts: "subseq query (injectIntoFragment query fragName field)"
  using subseq_insert[of query _ "'','' @ field"]
  by (auto simp: injectIntoFragment_def split: option.splits)

fun ends_from :: "nat \<Rightarrow> (nat \<times> nat) list \<Rightarrow> bool" where
  "ends_from pos [] = True"
| "ends_from pos ((a, b) # ms) = (pos \<le> b \<and> ends_from b ms)"

lemma find_all_ends: "ends_from (length pre) (find_all r pre s)"
proof (induction r pre s rule: find_all.induct)
  case (1 r pre s)
  show ?case
  proof (cases "find_from r pre s")
    case None
    then show ?thesis by (simp add: find_all.simps)
  next
    case (Some m)
    obtain p g q where m: "m = (p, g, q)" by (cases m) auto
    from find_from_matches[OF Some[unfolded m]] obtain u v where "consumes (pre, s) u p" "consumes p v q"
      using rx_matches_consumes by blast
    then have "length pre \<le> length (fst q)" by (simp add: consumes_def)
    moreover have "length (snd q) < length s \<Longrightarrow> ends_from (length (fst q)) (find_all r (fst q) (snd q))"
      using "1.IH" Some m by simp
    ultimately show ?thesis using Some m by (subst find_all.simps) auto
  qed
qed

lemma inject_after_inserts: "ends_from pos ms \<Longrightarrow> subseq (drop pos query) (inject_after query pos text wanted ms)"
proof (induction ms arbitrary: pos)
  case (Cons m ms)
  obtain a b where m: "m = (a, b)" by fastforce
  with Cons.prems have le: "pos \<le> b" "ends_from b ms" by simp_all
  have "drop pos query = take (b - pos) (drop pos query) @ drop b query"
    using le(1) append_take_drop_id[of "b - pos" "drop pos query"] by simp
  moreover have "subseq (take (b - pos) (drop pos query) @ drop b query)
      (take (b - pos) (drop pos query) @ (if wanted a then text else []) @ inject_after query b text wanted ms)"
    using Cons.IH[OF le(2)] by (simp add: subseq_append' list_emb_append2)
  ultimately show ?case by (simp add: m)
qed simp

lemma injectFields_inserts: "subseq query (injectFieldsIntoQuery query fs safeParents)"
  using inject_after_inserts[OF find_all_ends[of "[]", simplified]]
  by (auto simp: injectFieldsIntoQuery_def Let_def injectIntoFragment_inserts split: option.splits)

lemma fold_insert_at: "subseq (concat rs) (concat (fold insert_at edits rs))"
proof (induction edits arbitrary: rs)
  case (Cons e edits)
  have "subseq (concat (take (fst e) rs) @ concat (drop (fst e) rs))
      (concat (take (fst e) rs) @ concat (runes (snd e)) @ concat (drop (fst e) rs))"
    by (simp add: subseq_append' list_emb_append2)
  then have "subseq (concat rs) (concat (insert_at e rs))"
    by (simp add: insert_at_def concat_append[symmetric] del: concat_append)
  with Cons.IH[of "insert_at e rs"] show ?case by (simp add: subseq_order.order_trans)
qed simp

lemma injectPR_inserts:
  "injectPRGuardFields gl query \<noteq> query \<Longrightarrow> subseq (concat (runes query)) (injectPRGuardFields gl query)"
  by (auto simp: injectPRGuardFields_def Let_def fold_insert_at split: option.splits)

end
