(* ===== verification/EnclaveGithub.thy ===== *)
theory EnclaveGithub imports Regexp RepoSelector GuardPolicy ToolResult DelegationRecovery begin

text \<open>
  \<open>internal/enclavegithub\<close> and \<open>internal/hmacutil\<close>: the policy of a workflow run, the
  capability tokens minted for an invocation, and the REST surface they open. HMAC-SHA256,
  SHA-256 and the strict JSON decoding of the policy and of the claims are arguments.
\<close>

section \<open>The policy\<close>

definition ProfileIssuesReadV1 :: string where "ProfileIssuesReadV1 = ''issues-read-v1''"
definition DefaultAudience :: string where "DefaultAudience = ''gh-aw-enclave-github''"
definition CapabilityPrefix :: string where "CapabilityPrefix = ''awf-egh1''"
definition OperationIssueCommentsList :: string where "OperationIssueCommentsList = ''issues.comments.list''"
definition OperationIssuesGet :: string where "OperationIssuesGet = ''issues.get''"
definition OperationIssuesList :: string where "OperationIssuesList = ''issues.list''"
definition MaxCapabilityTTLSeconds :: int where "MaxCapabilityTTLSeconds = 600"
definition maxPolicyJSONBytes :: nat where "maxPolicyJSONBytes = 64 * 1024"
definition maxWorkflowRunIdentityBytes :: nat where "maxWorkflowRunIdentityBytes = 64"

definition alnum_chars :: string where
  "alnum_chars = ''abcdefghijklmnopqrstuvwxyz0123456789''"

definition upper_chars :: string where
  "upper_chars = ''ABCDEFGHIJKLMNOPQRSTUVWXYZ''"

text \<open>\<open>^[a-z0-9][a-z0-9-]{0,63}$\<close> and \<open>^[A-Za-z0-9][A-Za-z0-9_.:-]{0,255}$\<close>.\<close>

definition runIdentityPattern :: rx where
  "runIdentityPattern =
     cat [AtStart, Rep (OneOf ''[a-z0-9]'' alnum_chars) 1 (Some 1),
          Rep (OneOf ''[a-z0-9-]'' (CHR ''-'' # alnum_chars)) 0 (Some 63), AtEnd]"

definition invocationPattern :: rx where
  "invocationPattern =
     cat [AtStart, Rep (OneOf ''[A-Za-z0-9]'' (upper_chars @ alnum_chars)) 1 (Some 1),
          Rep (OneOf ''[A-Za-z0-9_.:-]'' (''_.:-'' @ upper_chars @ alnum_chars)) 0 (Some 255), AtEnd]"

definition validOperations :: "string list" where
  "validOperations = [OperationIssuesList, OperationIssuesGet, OperationIssueCommentsList]"

definition validSensitivities :: "string list" where
  "validSensitivities = [''public'', ''internal'', ''confidential'', ''sealed'']"

record repository_policy =
  rp_Repo :: string
  rp_Sensitivity :: string

record enclave_policy =
  ep_Version :: int
  ep_Profile :: string
  ep_Audience :: string
  ep_WorkflowRunID :: string
  ep_Repositories :: "repository_policy list"
  ep_PublicMinIntegrity :: string
  ep_AllowedOperations :: "string list"
  ep_MaxCapabilityTTLSeconds :: int

datatype enclave_error =
    PolicyMissing
  | PolicyTooLarge
  | NotExactlyOneValue
  | InvalidPolicyJSON
  | BadVersion
  | BadProfile string
  | BadAudience string
  | BadRunID
  | NoRepositories
  | RepoNotCanonical nat
  | DuplicateRepo string
  | BadSensitivity nat
  | BadPublicMinIntegrity
  | NoOperations
  | OperationsNotSorted
  | UnsupportedOperation string
  | DuplicateOperation string
  | BadTTL
  | BadKey

text \<open>The loop over the repositories, from index \<open>i\<close>.\<close>

fun repositories_error :: "nat \<Rightarrow> string list \<Rightarrow> repository_policy list \<Rightarrow> enclave_error option" where
  "repositories_error i seen [] = None"
| "repositories_error i seen (r # rs) =
     (if \<not> IsLegacyRepositorySelector (rp_Repo r) then Some (RepoNotCanonical i)
      else if rp_Repo r \<in> set seen then Some (DuplicateRepo (rp_Repo r))
      else if rp_Sensitivity r \<notin> set validSensitivities then Some (BadSensitivity i)
      else repositories_error (Suc i) (rp_Repo r # seen) rs)"

fun operations_error :: "string list \<Rightarrow> string list \<Rightarrow> enclave_error option" where
  "operations_error seen [] = None"
| "operations_error seen (x # xs) =
     (if x \<notin> set validOperations then Some (UnsupportedOperation x)
      else if x \<in> set seen then Some (DuplicateOperation x)
      else operations_error (x # seen) xs)"

text \<open>
  \<open>Validate\<close> through the pointer: None is a nil receiver; the second component is the policy
  afterwards, with its integrity level in canonical form.
\<close>

definition policy_Validate :: "enclave_policy option \<Rightarrow> enclave_error option \<times> enclave_policy option" where
  "policy_Validate p0 =
     (case p0 of
        None \<Rightarrow> (Some PolicyMissing, None)
      | Some p \<Rightarrow>
          (if ep_Version p \<noteq> 1 then (Some BadVersion, p0)
           else if ep_Profile p \<noteq> ProfileIssuesReadV1 then (Some (BadProfile (ep_Profile p)), p0)
           else if ep_Audience p \<noteq> DefaultAudience then (Some (BadAudience (ep_Audience p)), p0)
           else if length (ep_WorkflowRunID p) > maxWorkflowRunIdentityBytes \<or>
                   \<not> MatchString runIdentityPattern (ep_WorkflowRunID p) then (Some BadRunID, p0)
           else if ep_Repositories p = [] then (Some NoRepositories, p0)
           else
             (case repositories_error 0 [] (ep_Repositories p) of
                Some e \<Rightarrow> (Some e, p0)
              | None \<Rightarrow>
                  (case NormalizeIntegrityLevel (ep_PublicMinIntegrity p) False of
                     None \<Rightarrow> (Some BadPublicMinIntegrity, Some (p\<lparr>ep_PublicMinIntegrity := []\<rparr>))
                   | Some level \<Rightarrow>
                       (let p1 = p\<lparr>ep_PublicMinIntegrity := level\<rparr>
                        in if ep_AllowedOperations p1 = [] then (Some NoOperations, Some p1)
                           else if \<not> sorted (ep_AllowedOperations p1) then (Some OperationsNotSorted, Some p1)
                           else
                             (case operations_error [] (ep_AllowedOperations p1) of
                                Some e \<Rightarrow> (Some e, Some p1)
                              | None \<Rightarrow>
                                  (if ep_MaxCapabilityTTLSeconds p1 \<le> 0 \<or>
                                      ep_MaxCapabilityTTLSeconds p1 > MaxCapabilityTTLSeconds
                                   then (Some BadTTL, Some p1)
                                   else (None, Some p1))))))))"

text \<open>What \<open>util.DecodeStrictJSON\<close> can fail with; \<open>Trailing\<close> is well-formed trailing data.\<close>

datatype strict_error = Trailing | MalformedTrailing | FirstValue

definition ParsePolicy :: "(string \<Rightarrow> strict_error + enclave_policy) \<Rightarrow> string \<Rightarrow> enclave_error + enclave_policy" where
  "ParsePolicy decode raw =
     (if raw = [] then Inl PolicyMissing
      else if length raw > maxPolicyJSONBytes then Inl PolicyTooLarge
      else
        (case decode raw of
           Inl Trailing \<Rightarrow> Inl NotExactlyOneValue
         | Inl _ \<Rightarrow> Inl InvalidPolicyJSON
         | Inr policy \<Rightarrow>
             (case policy_Validate (Some policy) of
                (Some e, _) \<Rightarrow> Inl e
              | (None, p) \<Rightarrow> Inr (the p))))"

definition HasRepository :: "enclave_policy \<Rightarrow> string \<Rightarrow> bool" where
  "HasRepository p repo = list_ex (\<lambda>c. rp_Repo c = repo) (ep_Repositories p)"

definition RepositorySensitivity :: "enclave_policy \<Rightarrow> string \<Rightarrow> string \<times> bool" where
  "RepositorySensitivity p repo =
     (case find (\<lambda>c. rp_Repo c = repo) (ep_Repositories p) of
        Some c \<Rightarrow> (rp_Sensitivity c, True)
      | None \<Rightarrow> ([], False))"

definition NormalizeRepository :: "string \<Rightarrow> string \<times> bool" where
  "NormalizeRepository repo =
     (let normalized = to_lower repo in (normalized, IsLegacyRepositorySelector normalized))"

definition policy_AllowsOperation :: "enclave_policy \<Rightarrow> string \<Rightarrow> bool" where
  "policy_AllowsOperation p operation \<longleftrightarrow> operation \<in> set (ep_AllowedOperations p)"

definition GuardRepos :: "enclave_policy \<Rightarrow> string list" where
  "GuardRepos p = map rp_Repo (ep_Repositories p) @ [''public'']"

definition GuardPolicyJSON :: "enclave_policy \<Rightarrow> enclave_error + json" where
  "GuardPolicyJSON p =
     (case policy_Validate (Some p) of
        (None, Some p1) \<Rightarrow>
          Inr (JObj [(''allow-only'',
                 JObj [(''repos'', JArr (map JStr (GuardRepos p1))),
                       (''min-integrity'', JStr (ep_PublicMinIntegrity p1))])])
      | (Some e, _) \<Rightarrow> Inl e
      | (None, None) \<Rightarrow> Inl PolicyMissing)"

section \<open>Capabilities\<close>

definition maxCapabilityTokenBytes :: nat where "maxCapabilityTokenBytes = 16 * 1024"
definition maxInvocationIDBytes :: nat where "maxInvocationIDBytes = 256"
definition sha256_Size :: nat where "sha256_Size = 32"

record claims =
  cl_Version :: int
  cl_Audience :: string
  cl_Run :: string
  cl_Invocation :: string
  cl_Repo :: string
  cl_Profile :: string
  cl_Operations :: "string list"
  cl_NotBefore :: int
  cl_Expires :: int

definition claims_key :: "claims \<Rightarrow> string" where
  "claims_key c = cl_Run c @ [CHR 0x00] @ cl_Invocation c"

definition AgentID :: "(string \<Rightarrow> string) \<Rightarrow> claims \<Rightarrow> string" where
  "AgentID sha256 c = ''enclave:'' @ hex_encode (take 16 (sha256 (claims_key c)))"

definition claims_AllowsOperation :: "claims \<Rightarrow> string \<Rightarrow> bool" where
  "claims_AllowsOperation c operation \<longleftrightarrow> operation \<in> set (cl_Operations c)"

text \<open>\<open>hmac.Equal\<close> compares the bytes.\<close>

definition hmac_Verify :: "(string \<Rightarrow> string \<Rightarrow> string) \<Rightarrow> string \<Rightarrow> string \<Rightarrow> string \<Rightarrow> bool" where
  "hmac_Verify sign key message providedMAC \<longleftrightarrow> providedMAC = sign key message"

text \<open>\<open>base64.RawURLEncoding\<close>: the URL alphabet without padding, line breaks skipped.\<close>

definition raw_url_decode :: "string \<Rightarrow> string option" where
  "raw_url_decode s =
     (let t = filter (\<lambda>c. c \<noteq> CHR 0x0A \<and> c \<noteq> CHR 0x0D) s;
          std = map (\<lambda>c. if c = CHR ''-'' then CHR ''+'' else if c = CHR ''_'' then CHR ''/'' else c) t
      in if CHR ''='' \<in> set t \<or> CHR ''+'' \<in> set t \<or> CHR ''/'' \<in> set t \<or> length t mod 4 = 1 then None
         else b64_quanta (std @ replicate ((4 - length t mod 4) mod 4) (CHR ''='')))"

record verifier =
  vf_key :: string
  vf_policy :: enclave_policy

definition NewVerifier :: "string \<Rightarrow> enclave_policy option \<Rightarrow> enclave_error + verifier" where
  "NewVerifier rootKeyHex policy =
     (if length rootKeyHex \<noteq> 64 \<or> to_lower rootKeyHex \<noteq> rootKeyHex then Inl BadKey
      else
        (case hex_decode rootKeyHex of
           None \<Rightarrow> Inl BadKey
         | Some key \<Rightarrow>
             (if length key \<noteq> sha256_Size then Inl BadKey
              else
                (case policy_Validate policy of
                   (None, Some p) \<Rightarrow> Inr \<lparr>vf_key = key, vf_policy = p\<rparr>
                 | (Some e, _) \<Rightarrow> Inl e
                 | (None, None) \<Rightarrow> Inl PolicyMissing))))"

text \<open>
  All failures of a token are one error to the caller; the reason is only logged.
  \<open>now\<close> counts nanoseconds from the zero time, \<open>time_to_unix\<close> is \<open>Time.Unix\<close>.
\<close>

definition time_to_unix :: "time \<Rightarrow> int" where
  "time_to_unix now = now div second - 62135596800"

datatype claims_error = BindingMismatch | InvalidInvocation | InvalidAssignedRepository | MissingOperations
  | ClaimsNotSorted | OutsidePolicy | DuplicateClaim | InvalidLifetime | OutsideWindow

definition validateClaims :: "verifier \<Rightarrow> claims \<Rightarrow> time \<Rightarrow> claims_error option" where
  "validateClaims v c now =
     (let p = vf_policy v
      in if cl_Version c \<noteq> 1 \<or> cl_Audience c \<noteq> ep_Audience p \<or> cl_Run c \<noteq> ep_WorkflowRunID p \<or>
            cl_Profile c \<noteq> ep_Profile p then Some BindingMismatch
         else if cl_Invocation c = [] \<or> length (cl_Invocation c) > maxInvocationIDBytes \<or>
                 \<not> MatchString invocationPattern (cl_Invocation c) then Some InvalidInvocation
         else if \<not> IsLegacyRepositorySelector (cl_Repo c) \<or> \<not> HasRepository p (cl_Repo c)
              then Some InvalidAssignedRepository
         else if cl_Operations c = [] then Some MissingOperations
         else if \<not> sorted (cl_Operations c) then Some ClaimsNotSorted
         else
           (case ValidateUnique (cl_Operations c)
                   (\<lambda>operation. if \<not> policy_AllowsOperation p operation then Some OutsidePolicy else None)
                   (\<lambda>operation. operation) (\<lambda>operation. DuplicateClaim) of
              Some e \<Rightarrow> Some e
            | None \<Rightarrow>
                (if cl_NotBefore c \<le> 0 \<or> cl_Expires c \<le> cl_NotBefore c \<or>
                    wrap64 (cl_Expires c - cl_NotBefore c) > ep_MaxCapabilityTTLSeconds p
                 then Some InvalidLifetime
                 else
                   (let nowUnix = time_to_unix now
                    in if nowUnix < cl_NotBefore c \<or> nowUnix \<ge> cl_Expires c then Some OutsideWindow
                       else None))))"

text \<open>\<open>sign\<close> is HMAC-SHA256, \<open>decode\<close> the strict decoding of the claims (None: any failure).\<close>

definition verifyTokenAt ::
  "(string \<Rightarrow> string \<Rightarrow> string) \<Rightarrow> (string \<Rightarrow> claims option) \<Rightarrow> verifier \<Rightarrow> string \<Rightarrow> time \<Rightarrow> claims option" where
  "verifyTokenAt sign decode v token now =
     (if token = [] \<or> length token > maxCapabilityTokenBytes then None
      else
        (case split_on CHR ''.'' token of
           [p0, p1, p2] \<Rightarrow>
             (if p0 \<noteq> CapabilityPrefix then None
              else
                (case raw_url_decode p2 of
                   None \<Rightarrow> None
                 | Some providedSignature \<Rightarrow>
                     (if length providedSignature \<noteq> sha256_Size then None
                      else if \<not> hmac_Verify sign (vf_key v) (p0 @ ''.'' @ p1) providedSignature then None
                      else
                        (case raw_url_decode p1 of
                           None \<Rightarrow> None
                         | Some payload \<Rightarrow>
                             (case decode payload of
                                None \<Rightarrow> None
                              | Some c \<Rightarrow> (if validateClaims v c now \<noteq> None then None else Some c))))))
         | _ \<Rightarrow> None))"

definition verifyAuthorizationAt ::
  "(string \<Rightarrow> string \<Rightarrow> string) \<Rightarrow> (string \<Rightarrow> claims option) \<Rightarrow> verifier \<Rightarrow> string \<Rightarrow> time \<Rightarrow> claims option" where
  "verifyAuthorizationAt sign decode v header now =
     (case find (\<lambda>p. prefix p header) [''Bearer '', ''token ''] of
        None \<Rightarrow> None
      | Some p \<Rightarrow>
          (let token = drop (length p) header
           in if token = [] \<or> list_ex (\<lambda>c. c \<in> set [CHR '' '', CHR 0x09, CHR 0x0D, CHR 0x0A]) token then None
              else verifyTokenAt sign decode v token now))"

section \<open>The REST surface\<close>

definition path_chars :: string where
  "path_chars = ''_.-'' @ upper_chars @ alnum_chars"

abbreviation name_seg :: rx where "name_seg \<equiv> Grp (some1 (OneOf ''[A-Za-z0-9_.-]'' path_chars))"

text \<open>\<open>([1-9][0-9]*)\<close>\<close>

abbreviation number_seg :: rx where
  "number_seg \<equiv> Grp (Cat (Rep (OneOf ''[1-9]'' ''123456789'') 1 (Some 1)) (many (OneOf ''[0-9]'' ''0123456789'')))"

definition issuesListPath :: rx where
  "issuesListPath = cat [AtStart, Lit ''/repos/'', name_seg, Lit ''/'', name_seg, Lit ''/issues'', AtEnd]"

definition issueGetPath :: rx where
  "issueGetPath = cat [AtStart, Lit ''/repos/'', name_seg, Lit ''/'', name_seg, Lit ''/issues/'', number_seg, AtEnd]"

definition commentsPath :: rx where
  "commentsPath =
     cat [AtStart, Lit ''/repos/'', name_seg, Lit ''/'', name_seg, Lit ''/issues/'', number_seg, Lit ''/comments'', AtEnd]"

definition enclaveRoutes :: "(rx \<times> string) list" where
  "enclaveRoutes =
     [(issuesListPath, OperationIssuesList), (issueGetPath, OperationIssuesGet),
      (commentsPath, OperationIssueCommentsList)]"

definition allowedQueryKeys :: "string \<Rightarrow> string list" where
  "allowedQueryKeys operation =
     (if operation = OperationIssuesList
      then [''milestone'', ''state'', ''assignee'', ''creator'', ''mentioned'', ''labels'', ''sort'',
            ''direction'', ''since'', ''per_page'', ''page'']
      else if operation = OperationIssueCommentsList then [''since'', ''per_page'', ''page'']
      else [])"

record enclave_route =
  er_Operation :: string
  er_Owner :: string
  er_Repo :: string
  er_Number :: string

definition FullRepo :: "enclave_route \<Rightarrow> string" where
  "FullRepo r = to_lower (er_Owner r @ ''/'' @ er_Repo r)"

datatype route_error = UnsupportedRoute | UnsupportedQuery

fun find_route :: "(rx \<times> string) list \<Rightarrow> string \<Rightarrow> enclave_route option" where
  "find_route [] path = None"
| "find_route ((pattern, operation) # rs) path =
     (case FindStringSubmatch pattern path of
        None \<Rightarrow> find_route rs path
      | Some m \<Rightarrow>
          Some \<lparr>er_Operation = operation, er_Owner = m ! 1, er_Repo = m ! 2,
                er_Number = (if length m > 3 then m ! 3 else [])\<rparr>)"

text \<open>\<open>query\<close> is a \<open>url.Values\<close>: each key with its values.\<close>

definition MatchEnclaveRoute :: "string \<Rightarrow> (string \<times> string list) list \<Rightarrow> route_error + enclave_route" where
  "MatchEnclaveRoute path query =
     (case find_route enclaveRoutes path of
        None \<Rightarrow> Inl UnsupportedRoute
      | Some r \<Rightarrow>
          (let fullRepo = er_Owner r @ ''/'' @ er_Repo r;
               (normalizedRepo, valid) = NormalizeRepository fullRepo
           in if \<not> valid \<or> normalizedRepo \<noteq> fullRepo then Inl UnsupportedRoute
              else if list_ex (\<lambda>(key, values). key \<notin> set (allowedQueryKeys (er_Operation r)) \<or> length values \<noteq> 1) query
                   then Inl UnsupportedQuery
              else Inr r))"

section \<open>Identifiers\<close>

lemma pattern_chars:
  assumes "MatchString (cat [AtStart, Rep (OneOf t1 cs1) 1 (Some 1), Rep (OneOf t2 cs2) 0 (Some n), AtEnd]) s"
  shows "set s \<subseteq> set cs1 \<union> set cs2" and "length s \<le> Suc n" and "s \<noteq> []"
proof -
  from assms have "rx_matches (Cat (Rep (OneOf t1 cs1) 1 (Some 1)) (Cat (Rep (OneOf t2 cs2) 0 (Some n)) AtEnd)) ([], s) \<noteq> []"
    by (simp only: cat.simps MatchString_anchored not_False_eq_True)
  then obtain g q where
    m: "(g, q) \<in> set (rx_matches (Cat (Rep (OneOf t1 cs1) 1 (Some 1)) (Cat (Rep (OneOf t2 cs2) 0 (Some n)) AtEnd)) ([], s))"
    by (metis list.set_intros(1) neq_Nil_conv surj_pair)
  from m obtain u s1 where u: "s = u @ s1" "1 \<le> length u" "length u \<le> 1" "\<forall>x\<in>set u. cls_ok (OneOf t1 cs1) x"
    "(g, q) \<in> set (rx_matches (Cat (Rep (OneOf t2 cs2) 0 (Some n)) AtEnd) (rev u @ [], s1))"
    by (rule Rep_CatE) blast
  from u(5) obtain v s2 where v: "s1 = v @ s2" "length v \<le> n" "\<forall>x\<in>set v. cls_ok (OneOf t2 cs2) x"
    "(g, q) \<in> set (rx_matches AtEnd (rev v @ rev u @ [], s2))"
    by (rule Rep_CatE) blast
  from v(4) have "s2 = []" by (simp only: AtEnd_matches_iff)
  then have s: "s = u @ v" using u(1) v(1) by simp
  show "set s \<subseteq> set cs1 \<union> set cs2" using s u(4) v(3) by auto
  show "length s \<le> Suc n" "s \<noteq> []" using s u(2,3) v(2) by auto
qed

lemma nul_not_identifier: "CHR 0x00 \<notin> set alnum_chars" "CHR 0x00 \<notin> set upper_chars"
  by (simp_all add: alnum_chars_def upper_chars_def)

lemma runIdentity_no_nul: "MatchString runIdentityPattern s \<Longrightarrow> CHR 0x00 \<notin> set s"
  using pattern_chars(1)[of _ alnum_chars _ "CHR ''-'' # alnum_chars" 63 s] nul_not_identifier
  unfolding runIdentityPattern_def by fastforce

lemma invocation_no_nul: "MatchString invocationPattern s \<Longrightarrow> CHR 0x00 \<notin> set s"
  using pattern_chars(1)[of _ "upper_chars @ alnum_chars" _ "''_.:-'' @ upper_chars @ alnum_chars" 255 s] nul_not_identifier
  unfolding invocationPattern_def by fastforce

section \<open>Validated policies\<close>

definition valid_policy :: "enclave_policy \<Rightarrow> bool" where
  "valid_policy p \<longleftrightarrow>
     ep_Version p = 1 \<and> ep_Profile p = ProfileIssuesReadV1 \<and> ep_Audience p = DefaultAudience \<and>
     length (ep_WorkflowRunID p) \<le> 64 \<and> MatchString runIdentityPattern (ep_WorkflowRunID p) \<and>
     ep_Repositories p \<noteq> [] \<and> distinct (map rp_Repo (ep_Repositories p)) \<and>
     list_all (\<lambda>r. IsLegacyRepositorySelector (rp_Repo r) \<and> rp_Sensitivity r \<in> set validSensitivities) (ep_Repositories p) \<and>
     NormalizeIntegrityLevel (ep_PublicMinIntegrity p) False = Some (ep_PublicMinIntegrity p) \<and>
     ep_AllowedOperations p \<noteq> [] \<and> sorted (ep_AllowedOperations p) \<and> distinct (ep_AllowedOperations p) \<and>
     set (ep_AllowedOperations p) \<subseteq> set validOperations \<and>
     0 < ep_MaxCapabilityTTLSeconds p \<and> ep_MaxCapabilityTTLSeconds p \<le> MaxCapabilityTTLSeconds"

lemma repositories_error_None:
  "repositories_error i seen rs = None \<longleftrightarrow>
     list_all (\<lambda>r. IsLegacyRepositorySelector (rp_Repo r) \<and> rp_Sensitivity r \<in> set validSensitivities) rs \<and>
     distinct (map rp_Repo rs) \<and> set (map rp_Repo rs) \<inter> set seen = {}"
  by (induction i seen rs rule: repositories_error.induct) auto

lemma operations_error_None:
  "operations_error seen xs = None \<longleftrightarrow> set xs \<subseteq> set validOperations \<and> distinct xs \<and> set xs \<inter> set seen = {}"
  by (induction seen xs rule: operations_error.induct) auto

lemma level_fixpoint: "NormalizeIntegrityLevel raw False = Some v \<Longrightarrow> NormalizeIntegrityLevel v False = Some v"
proof -
  assume "NormalizeIntegrityLevel raw False = Some v"
  then have "v \<in> set allIntegrityLevels" by (auto dest: NormalizeIntegrityLevel_Some)
  moreover have "list_all (\<lambda>v. NormalizeIntegrityLevel v False = Some v) allIntegrityLevels" by code_simp
  ultimately show ?thesis by (simp add: list_all_iff)
qed

text \<open>\<open>Validate\<close> accepts exactly the policies whose canonical form is valid, and leaves that form.\<close>

lemma policy_Validate_iff:
  "policy_Validate (Some p) = (None, q) \<longleftrightarrow>
     (\<exists>level. NormalizeIntegrityLevel (ep_PublicMinIntegrity p) False = Some level \<and>
       valid_policy (p\<lparr>ep_PublicMinIntegrity := level\<rparr>) \<and> q = Some (p\<lparr>ep_PublicMinIntegrity := level\<rparr>))"
proof (cases "repositories_error 0 [] (ep_Repositories p)")
  case None
  note repos = None
  show ?thesis
  proof (cases "operations_error [] (ep_AllowedOperations p)")
    case None
    then show ?thesis using repos operations_error_None[of "[]" "ep_AllowedOperations p"]
        repositories_error_None[of 0 "[]" "ep_Repositories p"]
      by (auto simp: policy_Validate_def valid_policy_def Let_def maxWorkflowRunIdentityBytes_def
          level_fixpoint split: option.splits if_splits)
  next
    case (Some e)
    then have "\<not> (set (ep_AllowedOperations p) \<subseteq> set validOperations \<and> distinct (ep_AllowedOperations p))"
      using operations_error_None[of "[]" "ep_AllowedOperations p"] by simp
    with Some repos show ?thesis
      by (auto simp: policy_Validate_def valid_policy_def Let_def split: option.splits if_splits)
  qed
next
  case (Some e)
  then have "\<not> (list_all (\<lambda>r. IsLegacyRepositorySelector (rp_Repo r) \<and> rp_Sensitivity r \<in> set validSensitivities)
      (ep_Repositories p) \<and> distinct (map rp_Repo (ep_Repositories p)))"
    using repositories_error_None[of 0 "[]" "ep_Repositories p"] by simp
  with Some show ?thesis
    by (auto simp: policy_Validate_def valid_policy_def Let_def split: if_splits)
qed

lemma policy_Validate_valid: "policy_Validate p = (None, Some q) \<Longrightarrow> valid_policy q"
  by (cases p) (auto simp: policy_Validate_iff, simp add: policy_Validate_def)

lemma policy_Validate_fixpoint: "valid_policy q \<Longrightarrow> policy_Validate (Some q) = (None, Some q)"
  unfolding policy_Validate_iff by (intro exI[of _ "ep_PublicMinIntegrity q"]) (simp add: valid_policy_def)

lemma ParsePolicy_valid: "ParsePolicy decode raw = Inr p \<Longrightarrow> valid_policy p"
  by (auto simp: ParsePolicy_def policy_Validate_iff split: if_splits sum.splits strict_error.splits prod.splits option.splits)

lemma NewVerifier_valid: "NewVerifier k p = Inr v \<Longrightarrow> valid_policy (vf_policy v) \<and> length (vf_key v) = 32"
  by (auto simp: NewVerifier_def sha256_Size_def dest: policy_Validate_valid split: if_splits option.splits prod.splits)

text \<open>The lookup of a repository's sensitivity succeeds on the assignable repositories.\<close>

lemma RepositorySensitivity_found:
  "snd (RepositorySensitivity p repo) \<longleftrightarrow> HasRepository p repo"
  by (auto simp: RepositorySensitivity_def HasRepository_def list_ex_iff find_None_iff split: option.splits dest: find_SomeD)

section \<open>Accepted capabilities\<close>

lemma lifetime_exact:
  assumes "0 < cl_NotBefore c" "cl_NotBefore c < cl_Expires c" "cl_Expires c < 2 ^ 63"
  shows "wrap64 (cl_Expires c - cl_NotBefore c) = cl_Expires c - cl_NotBefore c"
  using assms by (intro wrap64_id) auto

definition claims_ok :: "enclave_policy \<Rightarrow> int \<Rightarrow> claims \<Rightarrow> bool" where
  "claims_ok p nowUnix c \<longleftrightarrow>
     cl_Version c = 1 \<and> cl_Audience c = ep_Audience p \<and> cl_Run c = ep_WorkflowRunID p \<and> cl_Profile c = ep_Profile p \<and>
     length (cl_Invocation c) \<le> 256 \<and> MatchString invocationPattern (cl_Invocation c) \<and>
     IsLegacyRepositorySelector (cl_Repo c) \<and> HasRepository p (cl_Repo c) \<and>
     cl_Operations c \<noteq> [] \<and> sorted (cl_Operations c) \<and> distinct (cl_Operations c) \<and>
     set (cl_Operations c) \<subseteq> set (ep_AllowedOperations p) \<and>
     0 < cl_NotBefore c \<and> cl_NotBefore c \<le> nowUnix \<and> nowUnix < cl_Expires c \<and>
     cl_Expires c - cl_NotBefore c \<le> ep_MaxCapabilityTTLSeconds p"

lemma invocation_nonempty: "MatchString invocationPattern s \<Longrightarrow> s \<noteq> []"
  unfolding invocationPattern_def by (rule pattern_chars(3))

lemma validateClaims_None:
  assumes "cl_Expires c < 2 ^ 63"
  shows "validateClaims v c now = None \<longleftrightarrow> claims_ok (vf_policy v) (time_to_unix now) c"
  using assms lifetime_exact[of c] invocation_nonempty[of "cl_Invocation c"]
    ValidateUnique_None[of "cl_Operations c"
      "\<lambda>operation. if \<not> policy_AllowsOperation (vf_policy v) operation then Some OutsidePolicy else None"
      "\<lambda>operation. operation" "\<lambda>operation. DuplicateClaim"]
  by (auto simp: validateClaims_def claims_ok_def Let_def maxInvocationIDBytes_def policy_AllowsOperation_def
      split: option.splits if_splits)

lemma split_three: "split_on c t = [a, b, d] \<Longrightarrow> t = a @ [c] @ b @ [c] @ d"
  using join_split_on[of c t] by simp

lemma verified_token:
  assumes "verifyTokenAt sign decode v token now = Some c"
  obtains body sig payload where "token = CapabilityPrefix @ ''.'' @ body @ ''.'' @ sig"
    "raw_url_decode sig = Some (sign (vf_key v) (CapabilityPrefix @ ''.'' @ body))"
    "raw_url_decode body = Some payload" "decode payload = Some c" "validateClaims v c now = None"
proof -
  from assms obtain p0 p1 p2 where parts: "split_on CHR ''.'' token = [p0, p1, p2]"
    by (auto simp: verifyTokenAt_def split: if_splits list.splits)
  with assms have p0: "p0 = CapabilityPrefix"
    by (auto simp: verifyTokenAt_def split: if_splits)
  from assms parts p0 obtain sig where s: "raw_url_decode p2 = Some sig" "hmac_Verify sign (vf_key v) (p0 @ ''.'' @ p1) sig"
    by (auto simp: verifyTokenAt_def split: if_splits option.splits)
  with assms parts p0 obtain payload where "raw_url_decode p1 = Some payload" "decode payload = Some c"
      "validateClaims v c now = None"
    by (auto simp: verifyTokenAt_def split: if_splits option.splits)
  with s split_three[OF parts] show thesis
    by (intro that[of p1 p2 payload]) (simp_all add: p0 hmac_Verify_def)
qed

lemma verified_header:
  assumes "verifyAuthorizationAt sign decode v header now = Some c"
  obtains scheme token where "scheme \<in> {''Bearer '', ''token ''}" "header = scheme @ token"
    "verifyTokenAt sign decode v token now = Some c"
proof -
  from assms obtain p where p: "find (\<lambda>p. prefix p header) [''Bearer '', ''token ''] = Some p"
    by (auto simp: verifyAuthorizationAt_def split: option.splits)
  then have pre: "prefix p header" and member: "p \<in> {''Bearer '', ''token ''}" using find_SomeD[OF p] by auto
  from pre have header: "header = p @ drop (length p) header" by (auto simp: prefix_def)
  have "verifyTokenAt sign decode v (drop (length p) header) now = Some c"
    using assms p by (auto simp: verifyAuthorizationAt_def Let_def split: if_splits)
  with member header show thesis by (rule that)
qed

text \<open>Run and invocation are determined by the key that names the agent.\<close>

lemma cut_key: "CHR 0x00 \<notin> set a \<Longrightarrow> cut CHR 0x00 (a @ [CHR 0x00] @ b) = Some (a, b)"
  by (simp add: cut_Some_iff)

lemma claims_key_inject:
  assumes "claims_ok p n c" "claims_ok p' n' c'" "valid_policy p" "valid_policy p'"
    and "claims_key c = claims_key c'"
  shows "cl_Run c = cl_Run c'" and "cl_Invocation c = cl_Invocation c'"
proof -
  have n: "CHR 0x00 \<notin> set (cl_Run c)" "CHR 0x00 \<notin> set (cl_Run c')"
    using assms(1-4) by (auto simp: claims_ok_def valid_policy_def dest: runIdentity_no_nul)
  then have "cut CHR 0x00 (claims_key c) = Some (cl_Run c, cl_Invocation c)"
    "cut CHR 0x00 (claims_key c') = Some (cl_Run c', cl_Invocation c')"
    unfolding claims_key_def using cut_key[OF n(1)] cut_key[OF n(2)] by simp_all
  with assms(5) show "cl_Run c = cl_Run c'" "cl_Invocation c = cl_Invocation c'" by simp_all
qed

section \<open>Accepted routes\<close>

text \<open>The path that a route stands for.\<close>

definition route_path :: "enclave_route \<Rightarrow> string" where
  "route_path r =
     ''/repos/'' @ er_Owner r @ ''/'' @ er_Repo r @ ''/issues'' @
     (if er_Operation r = OperationIssuesList then []
      else ''/'' @ er_Number r @ (if er_Operation r = OperationIssueCommentsList then ''/comments'' else []))"

lemma operations_distinct:
  "OperationIssuesList \<noteq> OperationIssuesGet" "OperationIssuesList \<noteq> OperationIssueCommentsList"
  "OperationIssuesGet \<noteq> OperationIssueCommentsList"
  by (simp_all add: OperationIssuesList_def OperationIssuesGet_def OperationIssueCommentsList_def)

lemma name_match:
  assumes "FindStringSubmatch (Cat AtStart (Cat (Lit ''/repos/'') (Cat name_seg (Cat (Lit ''/'') (Cat name_seg t))))) path = Some m"
  obtains u v s g q pre w where "path = ''/repos/'' @ u @ ''/'' @ v @ s" "m = w # u # v # g"
    "(g, q) \<in> set (rx_matches t (pre, s))"
proof -
  from assms obtain w g q where
    m: "(g, q) \<in> set (rx_matches (Cat (Lit ''/repos/'') (Cat name_seg (Cat (Lit ''/'') (Cat name_seg t)))) ([], path))"
    and ms: "m = w # g"
    by (rule anchored_SomeE)
  from m obtain s1 where s1: "path = ''/repos/'' @ s1"
    "(g, q) \<in> set (rx_matches (Cat name_seg (Cat (Lit ''/'') (Cat name_seg t))) (rev ''/repos/'' @ [], s1))"
    by (rule Lit_CatE)
  from s1(2) obtain u s2 g2 where u: "s1 = u @ s2" "g = u # g2"
    "(g2, q) \<in> set (rx_matches (Cat (Lit ''/'') (Cat name_seg t)) (rev u @ rev ''/repos/'' @ [], s2))"
    by (rule GrpRep_CatE)
  from u(3) obtain s3 where s3: "s2 = ''/'' @ s3"
    "(g2, q) \<in> set (rx_matches (Cat name_seg t) (rev ''/'' @ rev u @ rev ''/repos/'' @ [], s3))"
    by (rule Lit_CatE)
  from s3(2) obtain v s4 g4 where v: "s3 = v @ s4" "g2 = v # g4"
    "(g4, q) \<in> set (rx_matches t (rev v @ rev ''/'' @ rev u @ rev ''/repos/'' @ [], s4))"
    by (rule GrpRep_CatE)
  have "path = ''/repos/'' @ u @ ''/'' @ v @ s4" using s1(1) u(1) s3(1) v(1) by simp
  with ms u(2) v(2,3) show thesis by (intro that) simp_all
qed

lemma Lit_AtEnd: "(g, q) \<in> set (rx_matches (Cat (Lit l) AtEnd) (pre, s)) \<Longrightarrow> g = [] \<and> s = l"
  unfolding Cat_matches_iff Lit_matches_iff by auto

lemma number_matches:
  assumes "(g, q) \<in> set (rx_matches (Cat (Lit ''/issues/'') (Cat number_seg t)) (pre, s))"
  obtains n s' g' pre' where "s = ''/issues/'' @ n @ s'" "g = n # g'" "(g', q) \<in> set (rx_matches t (pre', s'))"
proof -
  from assms obtain s1 where s1: "s = ''/issues/'' @ s1"
    "(g, q) \<in> set (rx_matches (Cat number_seg t) (rev ''/issues/'' @ pre, s1))"
    by (rule Lit_CatE)
  from s1(2) obtain n s' h g' where "s1 = n @ s'" "g = n # h @ g'" "h = []"
    "(g', q) \<in> set (rx_matches t (rev n @ rev ''/issues/'' @ pre, s'))"
    by (rule Grp_CatE) simp
  with s1(1) show thesis by (intro that) simp_all
qed

lemma find_route_path:
  assumes "find_route enclaveRoutes path = Some r"
  shows "path = route_path r" and "er_Operation r \<in> set validOperations"
proof -
  have "path = route_path r \<and> er_Operation r \<in> set validOperations"
  proof (cases "FindStringSubmatch issuesListPath path")
    case (Some m)
    then obtain u v s g q pre w where p: "path = ''/repos/'' @ u @ ''/'' @ v @ s" "m = w # u # v # g"
      "(g, q) \<in> set (rx_matches (Cat (Lit ''/issues'') AtEnd) (pre, s))"
      unfolding issuesListPath_def cat.simps by (rule name_match)
    from assms Some p(2) have "r = \<lparr>er_Operation = OperationIssuesList, er_Owner = u, er_Repo = v,
        er_Number = (if length m > 3 then m ! 3 else [])\<rparr>"
      by (auto simp: enclaveRoutes_def numeral_2_eq_2 numeral_3_eq_3)
    with p Lit_AtEnd[OF p(3)] show ?thesis by (simp add: route_path_def validOperations_def)
  next
    case None
    note none0 = None
    show ?thesis
    proof (cases "FindStringSubmatch issueGetPath path")
      case (Some m)
      then obtain u v s g q pre w where p: "path = ''/repos/'' @ u @ ''/'' @ v @ s" "m = w # u # v # g"
        "(g, q) \<in> set (rx_matches (Cat (Lit ''/issues/'') (Cat number_seg AtEnd)) (pre, s))"
        unfolding issueGetPath_def cat.simps by (rule name_match)
      from p(3) obtain n s' g' pre' where n: "s = ''/issues/'' @ n @ s'" "g = n # g'"
        "(g', q) \<in> set (rx_matches AtEnd (pre', s'))"
        by (rule number_matches)
      from assms none0 Some p(2) n(2) have "r = \<lparr>er_Operation = OperationIssuesGet, er_Owner = u, er_Repo = v, er_Number = n\<rparr>"
        by (simp add: enclaveRoutes_def numeral_2_eq_2 numeral_3_eq_3)
      with p n operations_distinct show ?thesis by (auto simp: route_path_def validOperations_def split: if_splits)
    next
      case None
      with assms none0 obtain m where m: "FindStringSubmatch commentsPath path = Some m"
        "r = \<lparr>er_Operation = OperationIssueCommentsList, er_Owner = m ! 1, er_Repo = m ! 2,
              er_Number = (if length m > 3 then m ! 3 else [])\<rparr>"
        by (auto simp: enclaveRoutes_def split: option.splits)
      from m(1) obtain u v s g q pre w where p: "path = ''/repos/'' @ u @ ''/'' @ v @ s" "m = w # u # v # g"
        "(g, q) \<in> set (rx_matches (Cat (Lit ''/issues/'') (Cat number_seg (Cat (Lit ''/comments'') AtEnd))) (pre, s))"
        unfolding commentsPath_def cat.simps by (rule name_match)
      from p(3) obtain n s' g' pre' where n: "s = ''/issues/'' @ n @ s'" "g = n # g'"
        "(g', q) \<in> set (rx_matches (Cat (Lit ''/comments'') AtEnd) (pre', s'))"
        by (rule number_matches)
      from m(2) p(2) n(2) have "r = \<lparr>er_Operation = OperationIssueCommentsList, er_Owner = u, er_Repo = v, er_Number = n\<rparr>"
        by (simp add: numeral_2_eq_2 numeral_3_eq_3)
      with p n Lit_AtEnd[OF n(3)] operations_distinct show ?thesis by (auto simp: route_path_def validOperations_def)
    qed
  qed
  then show "path = route_path r" "er_Operation r \<in> set validOperations" by simp_all
qed

lemma MatchEnclaveRoute_Inr:
  assumes "MatchEnclaveRoute path query = Inr r"
  shows "path = route_path r" and "er_Operation r \<in> set validOperations"
    and "FullRepo r = er_Owner r @ ''/'' @ er_Repo r" and "IsLegacyRepositorySelector (FullRepo r)"
    and "\<forall>(k, vs)\<in>set query. k \<in> set (allowedQueryKeys (er_Operation r)) \<and> length vs = 1"
proof -
  from assms have f: "find_route enclaveRoutes path = Some r"
    and n: "NormalizeRepository (er_Owner r @ ''/'' @ er_Repo r) = (er_Owner r @ ''/'' @ er_Repo r, True)"
    and q: "\<not> list_ex (\<lambda>(key, values). key \<notin> set (allowedQueryKeys (er_Operation r)) \<or> length values \<noteq> 1) query"
    by (auto simp: MatchEnclaveRoute_def Let_def split: option.splits prod.splits if_splits)
  from find_route_path[OF f] show "path = route_path r" "er_Operation r \<in> set validOperations" by auto
  from n show "FullRepo r = er_Owner r @ ''/'' @ er_Repo r" "IsLegacyRepositorySelector (FullRepo r)"
    by (auto simp: NormalizeRepository_def FullRepo_def Let_def)
  from q show "\<forall>(k, vs)\<in>set query. k \<in> set (allowedQueryKeys (er_Operation r)) \<and> length vs = 1"
    by (auto simp: list_ex_iff)
qed

end
