(* ===== verification/ProxyHttp.thy ===== *)
theory ProxyHttp imports ProxyRoutes ProxyRewrite EnclaveGithub AgentRegistry Guards begin

text \<open>
  The HTTP layer of \<open>internal/proxy\<close>: requests, upstream requests and responses, the read-only
  check of \<open>read_only.go\<close>, \<open>forwardToGitHub\<close> and the backend of the guard in \<open>proxy.go\<close>, and the
  response headers of \<open>handler.go\<close>. \<open>net/url\<close>, \<open>mime\<close>, \<open>encoding/json\<close> and the GraphQL parser are
  the arguments collected in \<open>proxy_lib\<close>; the upstream answers through \<open>network\<close>, which sees every
  request sent before.
\<close>

section \<open>Messages\<close>

type_synonym header = "(string \<times> string list) list"

text \<open>\<open>textproto.CanonicalMIMEHeaderKey\<close>: a key with a byte outside the token set is kept.\<close>

definition is_lower_ascii :: "char \<Rightarrow> bool" where
  "is_lower_ascii c \<longleftrightarrow> 97 \<le> (of_char c :: nat) \<and> (of_char c :: nat) \<le> 122"

definition upper_char :: "char \<Rightarrow> char" where
  "upper_char c = (if is_lower_ascii c then char_of ((of_char c :: nat) - 32) else c)"

definition token_punctuation :: string where
  "token_punctuation = ''!#$%&*+-.^_`|~'' @ [CHR 0x27]"

definition token_char :: "char \<Rightarrow> bool" where
  "token_char c \<longleftrightarrow> is_upper_ascii c \<or> is_lower_ascii c \<or> c \<in> set ''0123456789'' \<or> c \<in> set token_punctuation"

fun canonical_loop :: "bool \<Rightarrow> string \<Rightarrow> string" where
  "canonical_loop up [] = []"
| "canonical_loop up (c # cs) = (if up then upper_char c else lower_char c) # canonical_loop (c = CHR ''-'') cs"

definition CanonicalHeaderKey :: "string \<Rightarrow> string" where
  "CanonicalHeaderKey k = (if list_all token_char k then canonical_loop True k else k)"

definition header_Values :: "header \<Rightarrow> string \<Rightarrow> string list" where
  "header_Values h k = (case map_of h (CanonicalHeaderKey k) of None \<Rightarrow> [] | Some vs \<Rightarrow> vs)"

definition header_Get :: "header \<Rightarrow> string \<Rightarrow> string" where
  "header_Get h k = (case header_Values h k of [] \<Rightarrow> [] | v # _ \<Rightarrow> v)"

definition header_Set :: "string \<Rightarrow> string \<Rightarrow> header \<Rightarrow> header" where
  "header_Set k v h = AList.update (CanonicalHeaderKey k) [v] h"

definition header_Add :: "string \<Rightarrow> string \<Rightarrow> header \<Rightarrow> header" where
  "header_Add k v h = AList.update (CanonicalHeaderKey k) (header_Values h k @ [v]) h"

text \<open>An \<open>io.Reader\<close> yields its bytes or fails.\<close>

datatype body = NilBody | NoBody | Reader "string option"

record request =
  rq_Method :: string
  rq_Path :: string
  rq_RawPath :: string
  rq_RawQuery :: string
  rq_Host :: string
  rq_TLS :: bool
  rq_Header :: header
  rq_Body :: body
  rq_ContentLength :: int
  rq_TransferEncoding :: "string list"

text \<open>What leaves for the upstream, and whether its redirects are followed.\<close>

record upstream_request =
  ur_Method :: string
  ur_URL :: string
  ur_Path :: string
  ur_Body :: body
  ur_Header :: header
  ur_FollowRedirects :: bool

record upstream_response =
  us_StatusCode :: int
  us_Header :: header
  us_Body :: "string option"

record parsed_target =
  pt_Scheme :: string
  pt_Host :: string
  pt_Path :: string
  pt_RawPath :: string
  pt_rest :: string

record proxy_lib =
  pl_graphql :: graphql_lib
  pl_decode :: "string \<Rightarrow> json option"
  pl_encode :: "json \<Rightarrow> string option"
  pl_media :: "string \<Rightarrow> string \<times> bool"
  pl_url :: "string \<Rightarrow> parsed_target option"
  pl_escaped_path :: "parsed_target \<Rightarrow> string"
  pl_url_string :: "parsed_target \<Rightarrow> string"
  pl_equal_fold :: "string \<Rightarrow> string \<Rightarrow> bool"
  pl_int_string :: "json \<Rightarrow> string option"
  pl_int_of_float :: "string \<Rightarrow> string"
  pl_claims :: "string \<Rightarrow> claims option"
  pl_visibility :: "string \<Rightarrow> string option"

section \<open>Read-only mode\<close>

definition methodOverrideHeader :: "string list" where
  "methodOverrideHeader =
     [''X-HTTP-Method-Override'', ''X-HTTP-Method'', ''X-Method-Override'', ''X-Original-Method'']"

definition readOnlyRepositoryPath :: rx where
  "readOnlyRepositoryPath =
     cat [AtStart, Lit ''/repos/'', some1 (NotIn ''/''), Lit ''/'', some1 (NotIn ''/''), AtEnd]"

definition readOnlyCollaboratorPath :: rx where
  "readOnlyCollaboratorPath =
     cat [AtStart, Lit ''/repos/'', some1 (NotIn ''/''), Lit ''/'', some1 (NotIn ''/''), Lit ''/collaborators/'',
          some1 (NotIn ''/''), Lit ''/permission'', AtEnd]"

definition metadataPassthrough :: "string list" where
  "metadataPassthrough = [''/meta'', ''/rate_limit'', ''/octocat'', ''/zen'', ''/versions'']"

definition isMetadataPassthroughPath :: "string \<Rightarrow> bool" where
  "isMetadataPassthroughPath path \<longleftrightarrow> path \<in> set metadataPassthrough"

definition isSupportedReadOnlyRESTPath :: "string \<Rightarrow> bool" where
  "isSupportedReadOnlyRESTPath path \<longleftrightarrow>
     isMetadataPassthroughPath path \<or> MatchString readOnlyRepositoryPath path \<or>
     MatchString readOnlyCollaboratorPath path \<or>
     list_ex (\<lambda>candidate. restroute_Match path (rt_pattern candidate) \<noteq> None) (butlast routes)"

definition overrideQueryKeys :: "string list" where
  "overrideQueryKeys = [''_method'', ''method'', ''http_method'', ''x-http-method-override'']"

text \<open>\<open>strings.Cut\<close> at the question mark.\<close>

definition cut_query :: "string \<Rightarrow> string \<times> string" where
  "cut_query path = (case cut CHR ''?'' path of None \<Rightarrow> (path, []) | Some p \<Rightarrow> p)"

text \<open>
  None is the denial; \<open>Some None\<close> accepts without a body, \<open>Some (Some b)\<close> with the selected one.
  The folded comparison with lower-case keys that have no letter k or s is the ASCII one.
\<close>

definition readOnlyRequestBody ::
  "graphql_lib \<Rightarrow> string \<Rightarrow> string \<Rightarrow> string \<Rightarrow> header option \<Rightarrow> string option option" where
  "readOnlyRequestBody gl method path body headers =
     (if (case headers of None \<Rightarrow> False
          | Some h \<Rightarrow> list_ex (\<lambda>name. map_of h (CanonicalHeaderKey name) \<noteq> None) methodOverrideHeader) then None
      else
        (let (pathOnly, rawQuery) = cut_query path
         in if pathOnly = [] \<or> \<not> prefix ''/'' pathOnly \<or> prefix ''//'' pathOnly \<or>
               list_ex (\<lambda>c. c \<in> set [CHR ''%'', CHR 0x5C, CHR 0x0D, CHR 0x0A]) pathOnly then None
            else
              (let normalizedPath = StripGHHostPrefix pathOnly
               in if IsGraphQLPath pathOnly \<or> IsGraphQLPath normalizedPath then
                    (if method \<noteq> ''POST'' \<or> rawQuery \<noteq> [] then None
                     else map_option Some (selectReadOnlyGraphQLOperation gl body))
                  else
                    (case ParseQuery rawQuery of
                       None \<Rightarrow> None
                     | Some query \<Rightarrow>
                         (if list_ex (\<lambda>(key, _). lowercaseASCII key \<in> set overrideQueryKeys) query then None
                          else if method \<noteq> ''GET'' \<or> body \<noteq> [] \<or> \<not> isSupportedReadOnlyRESTPath normalizedPath then None
                          else Some None)))))"

section \<open>The server\<close>

text \<open>
  What does not change after \<open>New\<close>, apart from the maps that are in the state. \<open>px_delegated\<close> says
  that a delegation configuration is present; its store is in the state.
\<close>

record enclave_config =
  es_policy :: enclave_policy
  es_verifier :: verifier

record proxy_server =
  px_guard :: guard
  px_Evaluator :: evaluator
  px_Mode :: enforcement_mode
  px_Capabilities :: capabilities
  px_githubToken :: string
  px_githubAPIURL :: string
  px_readOnly :: bool
  px_guardInitialized :: bool
  px_enclave :: "enclave_config option"
  px_delegated :: bool

record 'h proxy_state =
  px_agents :: agent_registry
  px_denied :: "(string \<times> time) list"
  px_store :: "'h delegation_store option"
  px_sent :: "upstream_request list"

record 'h proxy_env =
  pe_lib :: proxy_lib
  pe_network :: "upstream_request list \<Rightarrow> upstream_request \<Rightarrow> upstream_response option"
  pe_sign :: "string \<Rightarrow> string \<Rightarrow> string"
  pe_sha256 :: "string \<Rightarrow> string"
  pe_sha :: "string \<Rightarrow> 'h"
  pe_now :: time
  pe_denied_at :: time
  pe_timestamp :: string

definition artifactZipDownloadPathPattern :: rx where
  "artifactZipDownloadPathPattern =
     cat [AtStart, Lit ''/repos/'', some1 (NotIn ''/''), Lit ''/'', some1 (NotIn ''/''), Lit ''/actions/artifacts/'',
          some1 Digit, Lit ''/zip'', AtEnd]"

definition GitHubUserAgent :: string where "GitHubUserAgent = ''awmg/1.0''"

definition ApplyGitHubAPIHeaders :: "string \<Rightarrow> header \<Rightarrow> header" where
  "ApplyGitHubAPIHeaders authHeader h =
     (let h1 = (if authHeader \<noteq> [] then header_Set ''Authorization'' authHeader h else h)
      in header_Set ''User-Agent'' GitHubUserAgent (header_Set ''Accept'' ''application/vnd.github+json'' h1))"

definition upstream_auth :: "proxy_server \<Rightarrow> string \<Rightarrow> string" where
  "upstream_auth s clientAuth =
     (if px_enclave s \<noteq> None \<or> px_delegated s then ''token '' @ px_githubToken s
      else if clientAuth \<noteq> [] then clientAuth
      else if px_githubToken s \<noteq> [] then ''token '' @ px_githubToken s
      else [])"

definition upstream_url :: "string \<Rightarrow> string \<Rightarrow> string" where
  "upstream_url apiURL path =
     (let (pathOnly, query) = cut_query path
      in if IsGraphQLPath pathOnly then
           (if suffix ''/api/v3'' apiURL then trim_suffix ''/api/v3'' apiURL @ ''/api/graphql''
            else apiURL @ ''/graphql'') @
           (if cut CHR ''?'' path \<noteq> None then ''?'' @ query else [])
         else apiURL @ path)"

text \<open>The reader that is left when all of it was read and no other body was selected.\<close>

fun drained :: "body \<Rightarrow> body" where
  "drained (Reader _) = Reader (Some [])"
| "drained b = b"

fun read_all :: "body \<Rightarrow> string option" where
  "read_all (Reader r) = r"
| "read_all _ = Some []"

definition follows_redirects :: "proxy_server \<Rightarrow> string \<Rightarrow> string \<Rightarrow> bool" where
  "follows_redirects s method pathOnly \<longleftrightarrow>
     \<not> px_readOnly s \<and> px_enclave s = None \<and>
     \<not> (method = ''GET'' \<and> MatchString artifactZipDownloadPathPattern pathOnly)"

definition upstream_request_of ::
  "proxy_lib \<Rightarrow> proxy_server \<Rightarrow> string \<Rightarrow> string \<Rightarrow> body \<Rightarrow> string \<Rightarrow> string \<Rightarrow> upstream_request" where
  "upstream_request_of lib s method path b contentType clientAuth =
     (let h = ApplyGitHubAPIHeaders (upstream_auth s clientAuth) []
      in \<lparr>ur_Method = method, ur_URL = upstream_url (px_githubAPIURL s) path, ur_Path = path, ur_Body = b,
          ur_Header = (if contentType \<noteq> [] then header_Set ''Content-Type'' contentType h else h),
          ur_FollowRedirects = follows_redirects s method (fst (cut_query path))\<rparr>)"

text \<open>The request that \<open>forwardToGitHub\<close> sends, None when it stops before.\<close>

definition forward_request ::
  "proxy_lib \<Rightarrow> proxy_server \<Rightarrow> string \<Rightarrow> string \<Rightarrow> body \<Rightarrow> string \<Rightarrow> string \<Rightarrow> upstream_request option" where
  "forward_request lib s method path b contentType clientAuth =
     (case (if \<not> px_readOnly s then Some b
            else
              (case read_all b of
                 None \<Rightarrow> None
               | Some bytes \<Rightarrow>
                   (case readOnlyRequestBody (pl_graphql lib) method path bytes None of
                      None \<Rightarrow> None
                    | Some None \<Rightarrow> Some (drained b)
                    | Some (Some sel) \<Rightarrow> Some (Reader (Some sel))))) of
        None \<Rightarrow> None
      | Some b1 \<Rightarrow>
          (if method = [] \<or> \<not> list_all token_char method \<or> pl_url lib (upstream_url (px_githubAPIURL s) path) = None
           then None
           else Some (upstream_request_of lib s method path b1 contentType clientAuth)))"

definition forwardToGitHub ::
  "'h proxy_env \<Rightarrow> proxy_server \<Rightarrow> string \<Rightarrow> string \<Rightarrow> body \<Rightarrow> string \<Rightarrow> string \<Rightarrow> 'h proxy_state \<Rightarrow>
   upstream_response option \<times> 'h proxy_state" where
  "forwardToGitHub env s method path b contentType clientAuth st =
     (case forward_request (pe_lib env) s method path b contentType clientAuth of
        None \<Rightarrow> (None, st)
      | Some req \<Rightarrow> (pe_network env (px_sent st) req, st\<lparr>px_sent := px_sent st @ [req]\<rparr>))"

section \<open>The guard's backend\<close>

datatype rest_error =
    UnexpectedArgs
  | RestNumber number_error
  | MissingQuery
  | NotExactRepository
  | MissingCollaboratorArgs
  | UnsupportedRestTool string
  | RestCallFailed
  | RestBodyUnread
  | RestStatus int

definition ReadResponseBody :: "upstream_response \<Rightarrow> rest_error + string" where
  "ReadResponseBody resp =
     (case us_Body resp of
        None \<Rightarrow> Inl RestBodyUnread
      | Some b \<Rightarrow> if us_StatusCode resp \<ge> 400 then Inl (RestStatus (us_StatusCode resp)) else Inr b)"

text \<open>\<open>strings.Fields\<close>; the counter skips the rest of a multi-byte space.\<close>

fun fields_loop :: "string \<Rightarrow> nat \<Rightarrow> string \<Rightarrow> string list" where
  "fields_loop cur k [] = (if cur = [] then [] else [cur])"
| "fields_loop cur (Suc k) (c # cs) = fields_loop cur k cs"
| "fields_loop cur 0 (c # cs) =
     (case find (\<lambda>r. prefix r (c # cs)) space_runes of
        Some r \<Rightarrow> (if cur = [] then [] else [cur]) @ fields_loop [] (length r - 1) cs
      | None \<Rightarrow> fields_loop (cur @ [c]) 0 cs)"

definition str_fields :: "string \<Rightarrow> string list" where "str_fields s = fields_loop [] 0 s"

text \<open>In enclave mode a repository search is a read of one exact repository.\<close>

definition enclave_search_path :: "string \<Rightarrow> rest_error + string" where
  "enclave_search_path query =
     (let queryParts = str_fields query
      in if queryParts = [] \<or> length queryParts > 2 \<or> (length queryParts = 2 \<and> queryParts ! 1 \<noteq> ''fork:true'')
         then Inl NotExactRepository
         else
           (let q = queryParts ! 0;
                (repo, valid) = NormalizeRepository (trim_prefix ''repo:'' q)
            in if \<not> prefix ''repo:'' q \<or> \<not> valid then Inl NotExactRepository else Inr (''/repos/'' @ repo)))"

definition ParseCollaboratorPermissionArgs :: "json_object \<Rightarrow> rest_error + string \<times> string \<times> string" where
  "ParseCollaboratorPermissionArgs m =
     (let owner = string_field m ''owner''; repo = string_field m ''repo''; username = string_field m ''username''
      in if owner = [] \<or> repo = [] \<or> username = [] then Inl MissingCollaboratorArgs else Inr (owner, repo, username))"

definition rest_api_path :: "proxy_lib \<Rightarrow> bool \<Rightarrow> string \<Rightarrow> json_object \<Rightarrow> rest_error + string" where
  "rest_api_path lib enclave toolName m =
     (if toolName = ''pull_request_read'' then
        (case extractOwnerRepoNumber (pl_int_string lib) m ''owner'' ''repo'' ''pullNumber'' toolName of
           Inl e \<Rightarrow> Inl (RestNumber e)
         | Inr (owner, repo, number) \<Rightarrow> Inr (''/repos/'' @ owner @ ''/'' @ repo @ ''/pulls/'' @ number))
      else if toolName = ''issue_read'' then
        (case extractOwnerRepoNumber (pl_int_string lib) m ''owner'' ''repo'' ''issue_number'' toolName of
           Inl e \<Rightarrow> Inl (RestNumber e)
         | Inr (owner, repo, number) \<Rightarrow> Inr (''/repos/'' @ owner @ ''/'' @ repo @ ''/issues/'' @ number))
      else if toolName = ''search_repositories'' then
        (let query = string_field m ''query''
         in if query = [] then Inl MissingQuery
            else if enclave then enclave_search_path query
            else
              (let perPage = (case map_of m ''perPage'' of Some (JNum n) \<Rightarrow> pl_int_of_float lib n | _ \<Rightarrow> ''10'')
               in Inr (''/search/repositories?q='' @ QueryEscape query @ ''&per_page='' @ perPage)))
      else if toolName = ''get_collaborator_permission'' then
        (case ParseCollaboratorPermissionArgs m of
           Inl e \<Rightarrow> Inl e
         | Inr (owner, repo, username) \<Rightarrow>
             Inr (''/repos/'' @ owner @ ''/'' @ repo @ ''/collaborators/'' @ username @ ''/permission''))
      else Inl (UnsupportedRestTool toolName))"

definition enrichment_auth :: "proxy_server \<Rightarrow> string \<Rightarrow> string" where
  "enrichment_auth s clientAuth =
     (if px_githubToken s \<noteq> [] then ''token '' @ px_githubToken s else clientAuth)"

definition restBackendCaller_CallTool ::
  "'h proxy_env \<Rightarrow> proxy_server \<Rightarrow> string \<Rightarrow> string \<Rightarrow> json \<Rightarrow> 'h proxy_state \<Rightarrow> (rest_error + json) \<times> 'h proxy_state" where
  "restBackendCaller_CallTool env s clientAuth toolName args st =
     (case args of
        JObj m \<Rightarrow>
          (case rest_api_path (pe_lib env) (px_enclave s \<noteq> None) toolName m of
             Inl e \<Rightarrow> (Inl e, st)
           | Inr apiPath \<Rightarrow>
               (case forwardToGitHub env s ''GET'' apiPath NilBody [] (enrichment_auth s clientAuth) st of
                  (None, st1) \<Rightarrow> (Inl RestCallFailed, st1)
                | (Some resp, st1) \<Rightarrow>
                    (case ReadResponseBody resp of
                       Inl e \<Rightarrow> (Inl e, st1)
                     | Inr b \<Rightarrow> (Inr (JObj (BuildMCPTextResponse b)), st1))))
      | _ \<Rightarrow> (Inl UnexpectedArgs, st))"

section \<open>Response headers\<close>

definition http_response_of :: "upstream_response \<Rightarrow> http_response" where
  "http_response_of resp = \<lparr>StatusCode = us_StatusCode resp, Header = header_Get (us_Header resp)\<rparr>"

text \<open>
  \<open>int(d.Seconds())\<close> truncates. Between -1s and 3600s the float is exact enough to do so, outside
  the result is clamped anyway.
\<close>

definition trunc_seconds :: "duration \<Rightarrow> int" where
  "trunc_seconds d = (if d \<ge> 0 then d div second else - ((- d) div second))"

definition ComputeRetryAfter :: "time \<Rightarrow> time \<Rightarrow> int" where
  "ComputeRetryAfter now reset =
     (if is_zero_time reset then 60
      else
        (let secs = trunc_seconds (time_sub reset now) + 1
         in if secs < 1 then 60 else if secs > 3600 then 3600 else secs))"

definition injectRetryAfterIfRateLimited :: "time \<Rightarrow> upstream_response \<Rightarrow> header \<Rightarrow> header" where
  "injectRetryAfterIfRateLimited now resp w =
     (let (isRateLimited, resetHeader, remaining) = RateLimitSignal (Some (http_response_of resp))
      in if \<not> isRateLimited then w
         else header_Set ''Retry-After'' (itoa (nat (ComputeRetryAfter now (ParseRateLimitResetHeader resetHeader)))) w)"

definition clientAPIURL :: "request \<Rightarrow> string" where
  "clientAPIURL r =
     (let apiURL = (if rq_TLS r then ''https'' else ''http'') @ ''://'' @ rq_Host r
      in if rq_Path r = ghHostPathPrefix \<or> prefix (ghHostPathPrefix @ ''/'') (rq_Path r)
         then apiURL @ ghHostPathPrefix else apiURL)"

definition rewriteUpstreamAPIURL :: "proxy_lib \<Rightarrow> string \<Rightarrow> string \<Rightarrow> string \<Rightarrow> string" where
  "rewriteUpstreamAPIURL lib v upstreamAPIURL clientURL =
     (case (pl_url lib (trim_right_slash upstreamAPIURL), pl_url lib clientURL, pl_url lib v) of
        (Some upstream, Some client, Some target) \<Rightarrow>
          (if \<not> pl_equal_fold lib (pt_Scheme target) (pt_Scheme upstream) \<or>
              \<not> pl_equal_fold lib (pt_Host target) (pt_Host upstream) then v
           else
             (let upstreamPath = trim_right_slash (pt_Path upstream)
              in if pt_Path target \<noteq> upstreamPath \<and> \<not> prefix (upstreamPath @ ''/'') (pt_Path target) then v
                 else
                   (let escapedUpstreamPath = trim_right_slash (pl_escaped_path lib upstream);
                        escapedSuffix = trim_prefix escapedUpstreamPath (pl_escaped_path lib target)
                    in pl_url_string lib
                         (target\<lparr>pt_Scheme := pt_Scheme client, pt_Host := pt_Host client,
                                 pt_Path := pt_Path client @ trim_prefix upstreamPath (pt_Path target),
                                 pt_RawPath := pl_escaped_path lib client @ escapedSuffix\<rparr>))))
      | _ \<Rightarrow> v)"

lemma cut_shorter: "cut c s = Some (a, b) \<Longrightarrow> length b < length s"
  by (simp add: cut_Some_iff)

function rewriteLinkHeader :: "(string \<Rightarrow> string) \<Rightarrow> string \<Rightarrow> string" where
  "rewriteLinkHeader rewrite v =
     (case cut CHR ''<'' v of
        None \<Rightarrow> v
      | Some (before, after) \<Rightarrow>
          (case cut CHR ''>'' after of
             None \<Rightarrow> v
           | Some (url, rest) \<Rightarrow> before @ ''<'' @ rewrite url @ ''>'' @ rewriteLinkHeader rewrite rest))"
  by pat_completeness auto

termination
  by (relation "measure (\<lambda>(f, v). length v)") (auto dest!: cut_shorter)

declare rewriteLinkHeader.simps [simp del]

definition copiedHeaders :: "string list" where
  "copiedHeaders =
     [''Content-Type'', ''Content-Disposition'', ''X-RateLimit-Limit'', ''X-RateLimit-Remaining'',
      ''X-RateLimit-Reset'', ''X-RateLimit-Resource'', ''X-RateLimit-Used'', ''X-GitHub-Request-Id'']"

definition copy_header :: "header \<Rightarrow> string \<Rightarrow> header \<Rightarrow> header" where
  "copy_header src k w = (if header_Get src k \<noteq> [] then header_Set k (header_Get src k) w else w)"

definition copyResponseHeaders :: "proxy_lib \<Rightarrow> request \<Rightarrow> upstream_response \<Rightarrow> string \<Rightarrow> header \<Rightarrow> header" where
  "copyResponseHeaders lib r resp upstreamAPIURL w =
     (let w1 = fold (copy_header (us_Header resp)) copiedHeaders w;
          clientBase = clientAPIURL r;
          rewrite = (\<lambda>u. rewriteUpstreamAPIURL lib u upstreamAPIURL clientBase);
          location = header_Get (us_Header resp) ''Location'';
          w2 = (if location \<noteq> [] then header_Set ''Location'' (rewrite location) w1 else w1)
      in fold (\<lambda>link. header_Add ''Link'' (rewriteLinkHeader rewrite link))
           (header_Values (us_Header resp) ''Link'') w2)"

section \<open>Replies\<close>

datatype reply_body = RawBody string | JsonBody json | ErrorBody string string | ReflectBody reflect_response

record reply =
  rp_Status :: int
  rp_Header :: header
  rp_Body :: reply_body

definition WriteJSONResponse :: "header \<Rightarrow> int \<Rightarrow> reply_body \<Rightarrow> reply" where
  "WriteJSONResponse w status b =
     \<lparr>rp_Status = status, rp_Header = header_Set ''Content-Type'' ''application/json'' w, rp_Body = b\<rparr>"

definition WriteErrorResponse :: "header \<Rightarrow> int \<Rightarrow> string \<Rightarrow> string \<Rightarrow> reply" where
  "WriteErrorResponse w status code msg = WriteJSONResponse w status (ErrorBody code msg)"

definition rejectProxyRequest :: "int \<Rightarrow> string \<Rightarrow> string \<Rightarrow> reply" where
  "rejectProxyRequest status code msg = WriteErrorResponse [] status code msg"

definition writeDIFCForbidden :: "header \<Rightarrow> string \<Rightarrow> reply" where
  "writeDIFCForbidden w msg = WriteErrorResponse w 403 ''difc_forbidden'' msg"

definition denyResponseAccess :: "header \<Rightarrow> string \<Rightarrow> reply" where
  "denyResponseAccess w why = writeDIFCForbidden w (''DIFC policy violation: '' @ why)"

definition writeEnclaveDenied :: reply where
  "writeEnclaveDenied = WriteErrorResponse [] 403 ''enclave_access_denied'' ''enclave GitHub access denied''"

definition writeResponse :: "'h proxy_env \<Rightarrow> proxy_server \<Rightarrow> request \<Rightarrow> upstream_response \<Rightarrow> string \<Rightarrow> reply" where
  "writeResponse env s r resp b =
     \<lparr>rp_Status = us_StatusCode resp,
      rp_Header = injectRetryAfterIfRateLimited (pe_now env) resp
                    (copyResponseHeaders (pe_lib env) r resp (px_githubAPIURL s) []),
      rp_Body = RawBody b\<rparr>"

definition empty_like :: "json option \<Rightarrow> json" where
  "empty_like original =
     (case original of
        Some (JObj m) \<Rightarrow> if map_of m ''data'' \<noteq> None then JObj [(''data'', JNull)] else JObj []
      | _ \<Rightarrow> JArr [])"

definition writeEmptyResponse ::
  "'h proxy_env \<Rightarrow> proxy_server \<Rightarrow> request \<Rightarrow> upstream_response \<Rightarrow> json option \<Rightarrow> reply" where
  "writeEmptyResponse env s r resp original =
     WriteJSONResponse (copyResponseHeaders (pe_lib env) r resp (px_githubAPIURL s) []) (us_StatusCode resp)
       (JsonBody (empty_like original))"

text \<open>One exchange with the upstream: the response and its body, or the reply that ends the request.\<close>

definition forwardAndReadBody ::
  "'h proxy_env \<Rightarrow> proxy_server \<Rightarrow> string \<Rightarrow> string \<Rightarrow> body \<Rightarrow> string \<Rightarrow> string \<Rightarrow> 'h proxy_state \<Rightarrow>
   (reply + upstream_response \<times> string) \<times> 'h proxy_state" where
  "forwardAndReadBody env s method path b contentType clientAuth st =
     (case forwardToGitHub env s method path b contentType clientAuth st of
        (None, st1) \<Rightarrow> (Inl (rejectProxyRequest 502 ''bad_gateway'' ''upstream request failed''), st1)
      | (Some resp, st1) \<Rightarrow>
          (case us_Body resp of
             None \<Rightarrow> (Inl (rejectProxyRequest 502 ''bad_gateway'' ''failed to read upstream response''), st1)
           | Some respBody \<Rightarrow> (Inr (resp, respBody), st1)))"

section \<open>What the read-only check lets through\<close>

text \<open>A request that only reads: a GET without a body on a supported path, or one GraphQL query.\<close>

definition reads_only :: "graphql_lib \<Rightarrow> string \<Rightarrow> string \<Rightarrow> string \<Rightarrow> bool" where
  "reads_only gl method path b \<longleftrightarrow>
     (method = ''GET'' \<and> b = [] \<and> isSupportedReadOnlyRESTPath (StripGHHostPrefix (fst (cut_query path))) \<and>
        (\<exists>q. ParseQuery (snd (cut_query path)) = Some q \<and>
             list_all (\<lambda>(key, _). lowercaseASCII key \<notin> set overrideQueryKeys) q)) \<or>
     (method = ''POST'' \<and> snd (cut_query path) = [] \<and>
        (IsGraphQLPath (fst (cut_query path)) \<or> IsGraphQLPath (StripGHHostPrefix (fst (cut_query path)))) \<and>
        (\<exists>orig. selectReadOnlyGraphQLOperation gl orig = Some b))"

lemma guard_chain:
  "(if a then None else if b then None else if g then (if m then None else x)
    else (case pq of None \<Rightarrow> None | Some q \<Rightarrow> if l q then None else if n then None else y)) = Some s \<Longrightarrow>
   g \<and> \<not> m \<and> x = Some s \<or> \<not> g \<and> \<not> n \<and> y = Some s \<and> (\<exists>q. pq = Some q \<and> \<not> l q)"
  by (auto split: if_splits option.splits)

lemma readOnlyRequestBody_cases:
  assumes "readOnlyRequestBody gl method path b headers = Some sel"
  shows "(IsGraphQLPath (fst (cut_query path)) \<or> IsGraphQLPath (StripGHHostPrefix (fst (cut_query path)))) \<and>
       method = ''POST'' \<and> snd (cut_query path) = [] \<and> map_option Some (selectReadOnlyGraphQLOperation gl b) = Some sel \<or>
     sel = None \<and> method = ''GET'' \<and> b = [] \<and>
       isSupportedReadOnlyRESTPath (StripGHHostPrefix (fst (cut_query path))) \<and>
       (\<exists>q. ParseQuery (snd (cut_query path)) = Some q \<and>
          \<not> list_ex (\<lambda>(key, _). lowercaseASCII key \<in> set overrideQueryKeys) q)"
  using guard_chain[OF assms[unfolded readOnlyRequestBody_def Let_def split_beta[of _ "cut_query path"]]]
  by (simp only: de_Morgan_disj not_not option.inject conj_ac) blast

lemma readOnlyRequestBody_Some:
  assumes "readOnlyRequestBody gl method path b headers = Some sel"
  shows "reads_only gl method path (case sel of None \<Rightarrow> b | Some x \<Rightarrow> x)"
    and "sel = None \<Longrightarrow> b = []"
  using readOnlyRequestBody_cases[OF assms] unfolding reads_only_def list_ex_iff list_all_iff
  by (cases sel; simp only: option.simps; fastforce)+

lemma forward_request_reads_only:
  assumes "forward_request lib s method path b ct auth = Some req" and "px_readOnly s"
  obtains bytes where "read_all (ur_Body req) = Some bytes" "reads_only (pl_graphql lib) method path bytes"
    "ur_Method req = method" "ur_Path req = path" "\<not> ur_FollowRedirects req"
proof -
  from assms obtain bytes sel where b: "read_all b = Some bytes"
    and r: "readOnlyRequestBody (pl_graphql lib) method path bytes None = Some sel"
    and q: "req = upstream_request_of lib s method path
              (case sel of None \<Rightarrow> drained b | Some x \<Rightarrow> Reader (Some x)) ct auth"
    by (auto simp: forward_request_def split: if_splits option.splits)
  note R = readOnlyRequestBody_Some[OF r]
  have "read_all (ur_Body req) = Some (case sel of None \<Rightarrow> bytes | Some x \<Rightarrow> x)"
    using q R(2) by (cases b) (auto simp: upstream_request_of_def Let_def split: option.splits)
  with R(1) show thesis
    using that assms(2) q by (auto simp: upstream_request_of_def Let_def follows_redirects_def)
qed

lemma forwardToGitHub_sent:
  assumes "forwardToGitHub env s method path b ct auth st = (resp, st1)"
  shows "st1 = st\<lparr>px_sent := px_sent st1\<rparr>"
    and "px_sent st1 = px_sent st \<and> resp = None \<or>
      (\<exists>req. forward_request (pe_lib env) s method path b ct auth = Some req \<and> px_sent st1 = px_sent st @ [req])"
  using assms by (auto simp: forwardToGitHub_def split: option.splits)

lemma retry_after_bounds: "1 \<le> ComputeRetryAfter now reset \<and> ComputeRetryAfter now reset \<le> 3600"
  by (simp add: ComputeRetryAfter_def Let_def)

end
