(* ===== verification/ProxyTransform.thy ===== *)
theory ProxyTransform imports Resource McpResult begin

text \<open>
  \<open>internal/proxy/response_transform.go\<close>: putting filtered items back into the shape of the
  upstream response. A JSON object is its members in some iteration order; the walk for a
  GraphQL connection visits children in that order, as the source's map iteration does.
\<close>

section \<open>Deep equality\<close>

text \<open>\<open>reflect.DeepEqual\<close> on decoded JSON: objects are compared as maps.\<close>

fun json_eq :: "json \<Rightarrow> json \<Rightarrow> bool"
and json_eq_list :: "json list \<Rightarrow> json list \<Rightarrow> bool"
and json_eq_members :: "(string \<times> json) list \<Rightarrow> json_object \<Rightarrow> bool" where
  "json_eq (JObj m) v = (case v of JObj n \<Rightarrow> length m = length n \<and> json_eq_members m n | _ \<Rightarrow> False)"
| "json_eq (JArr xs) v = (case v of JArr ys \<Rightarrow> json_eq_list xs ys | _ \<Rightarrow> False)"
| "json_eq v w = (v = w)"
| "json_eq_list [] ys = (ys = [])"
| "json_eq_list (x # xs) ys = (case ys of [] \<Rightarrow> False | y # ys' \<Rightarrow> json_eq x y \<and> json_eq_list xs ys')"
| "json_eq_members [] n = True"
| "json_eq_members ((k, v) # ms) n =
     ((case map_of n k of Some w \<Rightarrow> json_eq v w | None \<Rightarrow> False) \<and> json_eq_members ms n)"

section \<open>Search and single-object responses\<close>

definition json_count :: "nat \<Rightarrow> json" where "json_count n = JNum (itoa n)"

definition replace_first_key :: "string list \<Rightarrow> json_object \<Rightarrow> json \<Rightarrow> json_object \<Rightarrow> json_object" where
  "replace_first_key ks original v result =
     (case find (\<lambda>k. map_of original k \<noteq> None) ks of
        None \<Rightarrow> result
      | Some k \<Rightarrow> AList.update k v result)"

definition rewrapSearchResponse :: "json \<Rightarrow> json \<Rightarrow> json" where
  "rewrapSearchResponse originalData filteredItems =
     (case originalData of
        JObj original \<Rightarrow>
          (if map_of original ''total_count'' = None then filteredItems
           else
             (case filteredItems of
                JArr its \<Rightarrow>
                  JObj (AList.update ''incomplete_results'' (JBool False)
                         (AList.update ''total_count'' (json_count (length its))
                           (replace_first_key [''items'', ''repositories''] original (JArr its) original)))
              | _ \<Rightarrow> filteredItems))
      | _ \<Rightarrow> filteredItems)"

definition unwrapSingleObject :: "json \<Rightarrow> json \<Rightarrow> json" where
  "unwrapSingleObject originalData filteredData =
     (case originalData of
        JArr originalArray \<Rightarrow>
          (case filteredData of
             JArr [JArr wrapped] \<Rightarrow>
               (if length wrapped = length originalArray \<and>
                   (wrapped = [] \<or> json_eq (JArr wrapped) (JArr originalArray))
                then JArr wrapped else filteredData)
           | _ \<Rightarrow> filteredData)
      | JObj original \<Rightarrow>
          (if map_of original ''total_count'' \<noteq> None \<or> map_of original ''data'' \<noteq> None then filteredData
           else (case filteredData of JArr [x] \<Rightarrow> x | _ \<Rightarrow> filteredData))
      | _ \<Rightarrow> filteredData)"

section \<open>GraphQL responses\<close>

text \<open>The tree after the first \<open>nodes\<close> or \<open>edges\<close> array was replaced, and whether one was.\<close>

fun replaceNodesArray :: "json list \<Rightarrow> json \<Rightarrow> json \<times> bool"
and replace_in_members :: "json list \<Rightarrow> (string \<times> json) list \<Rightarrow> (string \<times> json) list \<times> bool" where
  "replaceNodesArray its (JObj m) =
     (case find (\<lambda>k. map_of m k \<noteq> None) [''nodes'', ''edges''] of
        Some k \<Rightarrow>
          (let m1 = AList.update k (JArr its) m
           in (JObj (if map_of m1 ''totalCount'' \<noteq> None
                     then AList.update ''totalCount'' (json_count (length its)) m1 else m1), True))
      | None \<Rightarrow> (let (m', found) = replace_in_members its m in (JObj m', found)))"
| "replaceNodesArray its v = (v, False)"
| "replace_in_members its [] = ([], False)"
| "replace_in_members its ((k, v) # ms) =
     (let (v', found) = replaceNodesArray its v
      in if found then ((k, v') # ms, True)
         else (let (ms', found') = replace_in_members its ms in ((k, v') # ms', found')))"

definition null_data :: json where "null_data = JObj [(''data'', JNull)]"

definition rebuildGraphQLResponse :: "json \<Rightarrow> filtered_collection \<Rightarrow> json" where
  "rebuildGraphQLResponse originalData fil =
     (case originalData of
        JObj original \<Rightarrow>
          (if map_of original ''data'' = None then null_data
           else if GetAccessibleCount fil = 0 then null_data
           else
             (case DeepCloneJSON (JObj original) of
                JObj cloned \<Rightarrow>
                  (case map_of cloned ''data'' of
                     None \<Rightarrow> JObj cloned
                   | Some clonedData \<Rightarrow>
                       (let (d, found) = replaceNodesArray (itemsToResult (accessible fil)) clonedData
                        in if found then JObj (AList.update ''data'' d cloned) else null_data))
              | v \<Rightarrow> v))
      | _ \<Rightarrow> null_data)"

section \<open>What the transformations keep\<close>

text \<open>
  A response with a count is rebuilt around the whole original: every member other than the
  replaced one is the upstream's.
\<close>

lemma rewrap_keeps:
  assumes "map_of original ''total_count'' \<noteq> None"
    and "k \<notin> {''total_count'', ''incomplete_results''}"
    and "k \<noteq> ''items''" and "k = ''repositories'' \<longrightarrow> map_of original ''items'' \<noteq> None"
  obtains m where "rewrapSearchResponse (JObj original) (JArr its) = JObj m" "map_of m k = map_of original k"
  using assms by (auto simp: rewrapSearchResponse_def replace_first_key_def split: option.splits)

lemma rewrap_items:
  assumes "map_of original ''total_count'' \<noteq> None" and "map_of original ''items'' \<noteq> None"
  obtains m where "rewrapSearchResponse (JObj original) (JArr its) = JObj m" "map_of m ''items'' = Some (JArr its)"
  using assms by (auto simp: rewrapSearchResponse_def replace_first_key_def)

lemma replaceNodes_not_found: "snd (replaceNodesArray its v) = False \<Longrightarrow> fst (replaceNodesArray its v) = v"
  and replace_members_not_found: "snd (replace_in_members its ms) = False \<Longrightarrow> fst (replace_in_members its ms) = ms"
proof (induction its v and its ms rule: replaceNodesArray_replace_in_members.induct)
  case (1 its m)
  then show ?case by (cases "find (\<lambda>k. map_of m k \<noteq> None) [''nodes'', ''edges'']")
      (auto simp: split_beta Let_def)
next
  case (4 its k v ms)
  have nf: "\<not> snd (replaceNodesArray its v)" "\<not> snd (replace_in_members its ms)"
    using 4(3) by (auto simp: split_beta Let_def split: if_splits)
  moreover have "fst (replaceNodesArray its v) = v" by (rule 4(1)) (use nf in simp)
  moreover have "fst (replace_in_members its ms) = ms"
    by (rule 4(2) [where x = "replaceNodesArray its v"]) (use nf in \<open>simp_all add: prod_eq_iff\<close>)
  ultimately show ?case by (simp add: split_beta Let_def)
qed auto

text \<open>A second connection after the first is not touched.\<close>

lemma replace_members_rest:
  "snd (replaceNodesArray its v) \<Longrightarrow>
     replace_in_members its ((k, v) # ms) = ((k, fst (replaceNodesArray its v)) # ms, True)"
  by (simp add: split_beta)

end
