(* ===== verification/ProxyHandler.thy ===== *)
theory ProxyHandler imports ProxyHttp ProxyTransform Pipeline DelegationStore begin

text \<open>
  \<open>internal/proxy/handler.go\<close>, \<open>enclave.go\<close>, \<open>enclave_request.go\<close> and \<open>delegation.go\<close>: one request
  through the proxy. A reply with a streamed body whose reader fails is modelled with an empty
  body; logging and tracing are left out.
\<close>

section \<open>The pipeline on a response\<close>

definition isArtifactDownload :: "string \<Rightarrow> json_object \<Rightarrow> bool" where
  "isArtifactDownload toolName args \<longleftrightarrow>
     toolName = ''actions_get'' \<and> string_field args ''method'' = ''download_workflow_run_artifact''"

text \<open>Who a request acts for: the values that an authorization put into its context.\<close>

record proxy_ctx =
  pc_agentID :: string
  pc_assignedRepo :: string

definition no_ctx :: proxy_ctx where "no_ctx = \<lparr>pc_agentID = [], pc_assignedRepo = []\<rparr>"

definition proxyAgentID :: string where "proxyAgentID = ''proxy''"

definition agentIDFromContext :: "proxy_ctx \<Rightarrow> string" where
  "agentIDFromContext ctx = (if pc_agentID ctx = [] then proxyAgentID else pc_agentID ctx)"

definition proxy_phase6 ::
  "proxy_server \<Rightarrow> pre_result \<Rightarrow> labeled_data option \<Rightarrow> 'h proxy_state \<Rightarrow> 'h proxy_state go" where
  "proxy_phase6 s pre ld st =
     bind_go (RunPipelinePhase6 pre ld (px_Mode s) (px_agents st)) (\<lambda>r. Return (st\<lparr>px_agents := r\<rparr>))"

text \<open>What is written after Phase 5: an early reply, the upstream body (None), or a new JSON value.\<close>

definition proxy_final ::
  "'h proxy_env \<Rightarrow> proxy_server \<Rightarrow> request \<Rightarrow> upstream_response \<Rightarrow> bool \<Rightarrow> json \<Rightarrow> pre_result \<Rightarrow>
   labeled_data option \<Rightarrow> filter_result \<Rightarrow> reply + json option" where
  "proxy_final env s r resp isGraphQL responseData pre ld fr =
     (case ld of
        None \<Rightarrow>
          (if IsAllowed (pre_EvalResult pre) then Inr (Some responseData)
           else Inl (writeEmptyResponse env s r resp (Some responseData)))
      | Some d \<Rightarrow>
          (let finalResult = (case FinalResult fr of Some v \<Rightarrow> v | None \<Rightarrow> JNull)
           in case Filtered fr of
                Some fil \<Rightarrow>
                  (if Blocked fr then
                     Inl (writeDIFCForbidden [] (''DIFC policy violation: '' @ itoa (GetFilteredCount fil) @ '' of '' @
                            itoa (total_count fil) @ '' items not accessible''))
                   else if isGraphQL \<and> (case d of CollectionData c \<Rightarrow> rebuild c \<noteq> None | _ \<Rightarrow> False)
                   then Inr (Some finalResult)
                   else if isGraphQL \<and> GetFilteredCount fil = 0 then Inr None
                   else if isGraphQL then Inr (Some (rebuildGraphQLResponse responseData fil))
                   else Inr (Some (unwrapSingleObject responseData (rewrapSearchResponse responseData finalResult))))
              | None \<Rightarrow> if isGraphQL then Inr None else Inr (Some finalResult)))"

text \<open>Phase 6 and the reply: the original body keeps its exact format.\<close>

definition final_reply ::
  "'h proxy_env \<Rightarrow> proxy_server \<Rightarrow> request \<Rightarrow> upstream_response \<Rightarrow> string \<Rightarrow> json option \<Rightarrow> reply" where
  "final_reply env s r resp respBody final =
     (case final of
        None \<Rightarrow> writeResponse env s r resp respBody
      | Some v \<Rightarrow>
          (if pl_encode (pe_lib env) v = None
           then rejectProxyRequest 500 ''internal_error'' ''failed to serialize filtered response''
           else WriteJSONResponse (copyResponseHeaders (pe_lib env) r resp (px_githubAPIURL s) [])
                  (us_StatusCode resp) (JsonBody v)))"

text \<open>Phases 4 to 6 on a parsed response.\<close>

definition proxy_filter ::
  "'h proxy_env \<Rightarrow> proxy_server \<Rightarrow> request \<Rightarrow> pipeline_input \<Rightarrow> pre_result \<Rightarrow> bool \<Rightarrow> upstream_response \<Rightarrow> string \<Rightarrow>
   json \<Rightarrow> 'h proxy_state \<Rightarrow> (reply \<times> 'h proxy_state) go" where
  "proxy_filter env s r inp pre isGraphQL resp respBody responseData st =
     (case RunPipelinePhase4 inp pre responseData of
        Inl _ \<Rightarrow>
          (if px_enclave s \<noteq> None then Return (writeEnclaveDenied, st)
           else if IsAllowed (pre_EvalResult pre)
           then bind_go (proxy_phase6 s pre None st) (\<lambda>st1. Return (writeResponse env s r resp respBody, st1))
           else Return (writeEmptyResponse env s r resp (Some responseData), st))
      | Inr ld \<Rightarrow>
          (let a = heap (px_agents st) ! pre_AgentLabels pre
           in bind_go (FilterAndConvertLabeledData (in_Evaluator inp) (agS a) (agI a) (pre_Operation pre) ld (px_Mode s))
                (\<lambda>fo. case fo of
                   Inl _ \<Rightarrow>
                     Return (if px_enclave s \<noteq> None then writeEnclaveDenied
                             else writeEmptyResponse env s r resp (Some responseData), st)
                 | Inr fr \<Rightarrow>
                     (case proxy_final env s r resp isGraphQL responseData pre ld fr of
                        Inl early \<Rightarrow> Return (early, st)
                      | Inr final \<Rightarrow>
                          bind_go (proxy_phase6 s pre ld st)
                            (\<lambda>st1. Return (final_reply env s r resp respBody final, st1))))))"

definition access_required :: string where "access_required = ''response requires resource access''"

text \<open>The headers that a denied rate-limited response still carries.\<close>

definition rate_limit_headers :: "time \<Rightarrow> upstream_response \<Rightarrow> header" where
  "rate_limit_headers now resp =
     (let src = us_Header resp; (limited, _, _) = RateLimitSignal (Some (http_response_of resp))
      in if \<not> limited then []
         else copy_header src ''Retry-After''
                (injectRetryAfterIfRateLimited now resp
                   (fold (copy_header src)
                      [''X-RateLimit-Limit'', ''X-RateLimit-Remaining'', ''X-RateLimit-Reset'',
                       ''X-RateLimit-Resource'', ''X-RateLimit-Used''] [])))"

definition coarse_write ::
  "'h proxy_env \<Rightarrow> proxy_server \<Rightarrow> request \<Rightarrow> pre_result \<Rightarrow> header \<Rightarrow> upstream_response \<Rightarrow> string \<Rightarrow> 'h proxy_state \<Rightarrow>
   (reply \<times> 'h proxy_state) go" where
  "coarse_write env s r pre w resp respBody st =
     (if \<not> IsAllowed (pre_EvalResult pre) then Return (denyResponseAccess w access_required, st)
      else bind_go (proxy_phase6 s pre None st) (\<lambda>st1. Return (writeResponse env s r resp respBody, st1)))"

text \<open>A response that is not JSON, or that must not be read as JSON.\<close>

definition opaque_answer ::
  "'h proxy_env \<Rightarrow> proxy_server \<Rightarrow> request \<Rightarrow> pre_result \<Rightarrow> bool \<Rightarrow> bool \<Rightarrow> upstream_response \<Rightarrow> string \<Rightarrow> 'h proxy_state \<Rightarrow>
   (reply \<times> 'h proxy_state) go" where
  "opaque_answer env s r pre bodyless mustBeJSON resp respBody st =
     (if px_enclave s \<noteq> None then Return (writeEnclaveDenied, st)
      else if \<not> bodyless \<and> mustBeJSON
      then Return (rejectProxyRequest 502 ''bad_gateway'' ''invalid upstream JSON response'', st)
      else coarse_write env s r pre [] resp respBody st)"

text \<open>A successful response: by its media type it is read as JSON, refused, or passed as opaque.\<close>

definition body_answer ::
  "'h proxy_env \<Rightarrow> proxy_server \<Rightarrow> request \<Rightarrow> pipeline_input \<Rightarrow> pre_result \<Rightarrow> bool \<Rightarrow> bool \<Rightarrow> upstream_response \<Rightarrow> string \<Rightarrow>
   'h proxy_state \<Rightarrow> (reply \<times> 'h proxy_state) go" where
  "body_answer env s r inp pre isGraphQL bodyless resp respBody st =
     (let contentType = header_Get (us_Header resp) ''Content-Type'';
          (mediaType, mediaErr) = pl_media (pe_lib env) contentType;
          isRaw = (mediaType = ''application/vnd.github.raw'' \<or> mediaType = ''application/vnd.github.raw+json'');
          isJSON = (\<not> isRaw \<and> (mediaType = ''application/json'' \<or> suffix ''+json'' mediaType));
          opaque = (\<not> isGraphQL \<and> \<not> mediaErr \<and> \<not> isJSON);
          mustBeJSON = (isGraphQL \<or> isJSON \<or> mediaErr \<and> contentType \<noteq> [])
      in case pl_decode (pe_lib env) respBody of
           Some responseData \<Rightarrow>
             (if opaque \<or> bodyless then opaque_answer env s r pre bodyless mustBeJSON resp respBody st
              else proxy_filter env s r inp pre isGraphQL resp respBody responseData st)
         | None \<Rightarrow> opaque_answer env s r pre bodyless mustBeJSON resp respBody st)"

definition proxy_answer ::
  "'h proxy_env \<Rightarrow> proxy_server \<Rightarrow> request \<Rightarrow> pipeline_input \<Rightarrow> pre_result \<Rightarrow> bool \<Rightarrow> upstream_response \<Rightarrow> string \<Rightarrow>
   'h proxy_state \<Rightarrow> (reply \<times> 'h proxy_state) go" where
  "proxy_answer env s r inp pre isGraphQL resp respBody st =
     (let status = us_StatusCode resp
      in if status \<ge> 300 then
           (if px_enclave s \<noteq> None \<and> status < 400 then Return (writeEnclaveDenied, st)
            else coarse_write env s r pre (rate_limit_headers (pe_now env) resp) resp respBody st)
         else
           (let bodyless = (status = 204 \<or> status = 205);
                encoding = header_Get (us_Header resp) ''Content-Encoding''
            in if \<not> bodyless \<and> encoding \<noteq> [] \<and> lowercaseASCII (trim_space encoding) \<noteq> ''identity''
               then Return (rejectProxyRequest 502 ''bad_gateway'' ''unsupported upstream response encoding'', st)
               else body_answer env s r inp pre isGraphQL bodyless resp respBody st))"

definition streamArtifactResponse ::
  "'h proxy_env \<Rightarrow> proxy_server \<Rightarrow> request \<Rightarrow> string \<Rightarrow> string \<Rightarrow> 'h proxy_state \<Rightarrow> (reply + reply) \<times> 'h proxy_state" where
  "streamArtifactResponse env s r path clientAuth st =
     (case forwardToGitHub env s (rq_Method r) path NilBody [] clientAuth st of
        (None, st1) \<Rightarrow> (Inl (rejectProxyRequest 502 ''bad_gateway'' ''upstream request failed''), st1)
      | (Some resp, st1) \<Rightarrow>
          (Inr (writeResponse env s r resp (case us_Body resp of Some b \<Rightarrow> b | None \<Rightarrow> [])), st1))"

section \<open>The pipeline on a request\<close>

definition proxy_input :: "proxy_server \<Rightarrow> proxy_ctx \<Rightarrow> string \<Rightarrow> json_object \<Rightarrow> pipeline_input" where
  "proxy_input s ctx toolName args =
     \<lparr>in_AgentID = agentIDFromContext ctx, in_ToolName = toolName, in_Args = JObj args, in_Guard = px_guard s,
      in_Evaluator = (if pc_assignedRepo ctx \<noteq> []
                      then WithSecrecyPropagationMax [''private:'' @ pc_assignedRepo ctx] (px_Evaluator s)
                      else px_Evaluator s),
      in_EnforcementMode = px_Mode s\<rparr>"

definition proxy_forward ::
  "'h proxy_env \<Rightarrow> proxy_server \<Rightarrow> request \<Rightarrow> string \<Rightarrow> pipeline_input \<Rightarrow> json_object \<Rightarrow> pre_result \<Rightarrow> string option \<Rightarrow>
   'h proxy_state \<Rightarrow> (reply \<times> 'h proxy_state) go" where
  "proxy_forward env s r path inp args pre graphQLBody st =
     (let clientAuth = (if px_enclave s \<noteq> None then [] else header_Get (rq_Header r) ''Authorization'')
      in if isArtifactDownload (in_ToolName inp) args then
           (if \<not> IsAllowed (pre_EvalResult pre) then Return (denyResponseAccess [] access_required, st)
            else
              (case streamArtifactResponse env s r path clientAuth st of
                 (Inl rep, st1) \<Rightarrow> Return (rep, st1)
               | (Inr rep, st1) \<Rightarrow> bind_go (proxy_phase6 s pre None st1) (\<lambda>st2. Return (rep, st2))))
         else
           (case (case graphQLBody of
                    Some q \<Rightarrow> forwardAndReadBody env s ''POST'' path (Reader (Some q)) ''application/json'' clientAuth st
                  | None \<Rightarrow> forwardAndReadBody env s (rq_Method r) path NilBody [] clientAuth st) of
              (Inl rep, st1) \<Rightarrow> Return (rep, st1)
            | (Inr (resp, respBody), st1) \<Rightarrow> proxy_answer env s r inp pre (graphQLBody \<noteq> None) resp respBody st1))"

definition handleWithDIFC ::
  "'h proxy_env \<Rightarrow> proxy_server \<Rightarrow> proxy_ctx \<Rightarrow> request \<Rightarrow> string \<Rightarrow> string \<Rightarrow> json_object \<Rightarrow> string option \<Rightarrow>
   'h proxy_state \<Rightarrow> (reply \<times> 'h proxy_state) go" where
  "handleWithDIFC env s ctx r path toolName args graphQLBody st =
     (if \<not> px_guardInitialized s
      then Return (rejectProxyRequest 503 ''service_unavailable'' ''proxy enforcement not configured'', st)
      else
        (let inp = proxy_input s ctx toolName args
         in bind_go (RunPipelinePrePhases inp (px_agents st)) (\<lambda>(res, r1).
              let st1 = st\<lparr>px_agents := r1\<rparr>
              in case res of
                   Inl err \<Rightarrow>
                     (if px_enclave s \<noteq> None \<or> px_delegated s then Return (writeEnclaveDenied, st1)
                      else bind_go (HandlePrePhaseError err r1) (\<lambda>denied. Return
                        (case denied of
                           Some (d, msg) \<Rightarrow> denyResponseAccess [] (reason (d_EvalResult d))
                         | None \<Rightarrow> rejectProxyRequest 502 ''bad_gateway'' ''resource labeling failed'', st1)))
                 | Inr pre \<Rightarrow> proxy_forward env s r path inp args pre graphQLBody st1)))"

section \<open>Enclave requests\<close>

definition maxEnclaveVisibilityResponseBytes :: nat where "maxEnclaveVisibilityResponseBytes = 1024 * 1024"
definition maxEnclaveVisibilityDeniedCacheItems :: nat where "maxEnclaveVisibilityDeniedCacheItems = 1024"
definition enclaveVisibilityDeniedCacheTTL :: duration where "enclaveVisibilityDeniedCacheTTL = 300 * second"

text \<open>The oldest entry; the map is a list in iteration order.\<close>

definition oldest_denial :: "(string \<times> time) list \<Rightarrow> string" where
  "oldest_denial m =
     fst (fold (\<lambda>(k, u) (oldestRepo, oldest). if oldestRepo = [] \<or> u < oldest then (k, u) else (oldestRepo, oldest))
       m ([], 0))"

definition cacheEnclaveVisibilityDenial :: "time \<Rightarrow> string \<Rightarrow> (string \<times> time) list \<Rightarrow> (string \<times> time) list" where
  "cacheEnclaveVisibilityDenial now repo m =
     (let m1 = filter (\<lambda>(k, deniedUntil). now < deniedUntil) m;
          m2 = (if length m1 \<ge> maxEnclaveVisibilityDeniedCacheItems
                then (let oldestRepo = oldest_denial m1
                      in if oldestRepo \<noteq> [] then AList.delete oldestRepo m1 else m1)
                else m1)
      in AList.update repo (now + enclaveVisibilityDeniedCacheTTL) m2)"

definition clearEnclaveVisibilityDenial :: "string \<Rightarrow> (string \<times> time) list \<Rightarrow> (string \<times> time) list" where
  "clearEnclaveVisibilityDenial repo m = AList.delete repo m"

definition says_public :: "proxy_lib \<Rightarrow> upstream_response \<Rightarrow> bool" where
  "says_public lib resp \<longleftrightarrow>
     us_StatusCode resp = 200 \<and>
     (case us_Body resp of
        None \<Rightarrow> False
      | Some b \<Rightarrow> length b \<le> maxEnclaveVisibilityResponseBytes \<and> pl_visibility lib b = Some ''public'')"

definition visibility_lookup :: "'h proxy_env \<Rightarrow> proxy_server \<Rightarrow> string \<Rightarrow> 'h proxy_state \<Rightarrow> bool \<times> 'h proxy_state" where
  "visibility_lookup env s repo st =
     (case forwardToGitHub env s ''GET'' (''/repos/'' @ repo) NilBody [] [] st of
        (resp, st1) \<Rightarrow>
          (if (case resp of None \<Rightarrow> False | Some x \<Rightarrow> says_public (pe_lib env) x) then (True, st1)
           else (False, st1\<lparr>px_denied := cacheEnclaveVisibilityDenial (pe_denied_at env) repo (px_denied st1)\<rparr>)))"

definition enclaveRepositoryIsPublic :: "'h proxy_env \<Rightarrow> proxy_server \<Rightarrow> string \<Rightarrow> 'h proxy_state \<Rightarrow> bool \<times> 'h proxy_state" where
  "enclaveRepositoryIsPublic env s repo st =
     (case map_of (px_denied st) repo of
        None \<Rightarrow> visibility_lookup env s repo st
      | Some deniedUntil \<Rightarrow>
          (if pe_now env < deniedUntil then (False, st)
           else visibility_lookup env s repo (st\<lparr>px_denied := clearEnclaveVisibilityDenial repo (px_denied st)\<rparr>)))"

definition enclavePath :: "string \<Rightarrow> string \<Rightarrow> string option" where
  "enclavePath path rawPath =
     (if rawPath \<noteq> [] then None
      else if path = ghHostPathPrefix then None
      else if prefix (ghHostPathPrefix @ ''/'') path then Some (trim_prefix ghHostPathPrefix path)
      else if prefix ghHostPathPrefix path then None
      else Some path)"

definition enclaveToolAndArgs :: "enclave_route \<Rightarrow> string \<times> json_object" where
  "enclaveToolAndArgs rt =
     (if er_Operation rt = OperationIssuesList then (''list_issues'', repoArgs (er_Owner rt) (er_Repo rt))
      else if er_Operation rt = OperationIssuesGet
      then (''issue_read'', issueArgs (er_Owner rt) (er_Repo rt) (er_Number rt) [])
      else if er_Operation rt = OperationIssueCommentsList
      then (''issue_read'', issueArgs (er_Owner rt) (er_Repo rt) (er_Number rt) [''get_comments''])
      else ([], []))"

datatype enclave_denial = enclaveDenialNone | enclaveDenialPath | enclaveDenialRequestShape | enclaveDenialRoute
  | enclaveDenialTool

record enclave_plan =
  ep_path :: string
  ep_fullPath :: string
  ep_route :: "enclave_route option"
  ep_toolName :: string
  ep_args :: json_object
  ep_denial :: enclave_denial

definition hasEnclaveGETBody :: "request \<Rightarrow> bool" where
  "hasEnclaveGETBody r \<longleftrightarrow> rq_ContentLength r \<noteq> 0 \<or> rq_TransferEncoding r \<noteq> []"

definition planEnclaveRequestForPath :: "request \<Rightarrow> string \<Rightarrow> enclave_plan" where
  "planEnclaveRequestForPath r path =
     (let plan = \<lparr>ep_path = path, ep_fullPath = [], ep_route = None, ep_toolName = [], ep_args = [],
                   ep_denial = enclaveDenialNone\<rparr>
      in if rq_Method r \<noteq> ''GET'' \<or> hasEnclaveGETBody r then plan\<lparr>ep_denial := enclaveDenialRequestShape\<rparr>
         else
           (case ParseQuery (rq_RawQuery r) of
              None \<Rightarrow> plan\<lparr>ep_denial := enclaveDenialRequestShape\<rparr>
            | Some query \<Rightarrow>
                (case MatchEnclaveRoute path query of
                   Inl _ \<Rightarrow> plan\<lparr>ep_denial := enclaveDenialRoute\<rparr>
                 | Inr rt \<Rightarrow>
                     (let (toolName, args) = enclaveToolAndArgs rt
                      in if toolName = [] then plan\<lparr>ep_route := Some rt, ep_denial := enclaveDenialTool\<rparr>
                         else plan\<lparr>ep_route := Some rt, ep_toolName := toolName, ep_args := args,
                                   ep_fullPath := path @ (if rq_RawQuery r \<noteq> [] then ''?'' @ rq_RawQuery r else [])\<rparr>))))"

definition planEnclaveRequest :: "request \<Rightarrow> enclave_plan" where
  "planEnclaveRequest r =
     (case enclavePath (rq_Path r) (rq_RawPath r) of
        None \<Rightarrow> \<lparr>ep_path = [], ep_fullPath = [], ep_route = None, ep_toolName = [], ep_args = [],
                 ep_denial = enclaveDenialPath\<rparr>
      | Some path \<Rightarrow> planEnclaveRequestForPath r path)"

definition plan_ok :: "enclave_plan \<Rightarrow> bool" where
  "plan_ok p \<longleftrightarrow> ep_denial p = enclaveDenialNone"

definition routeAllowedBy :: "enclave_plan \<Rightarrow> claims \<Rightarrow> bool" where
  "routeAllowedBy p c \<longleftrightarrow>
     (case ep_route p of None \<Rightarrow> False | Some rt \<Rightarrow> claims_AllowsOperation c (er_Operation rt))"

definition seedEnclaveAssignedRepositorySecrecy ::
  "enclave_policy \<Rightarrow> string \<Rightarrow> string \<Rightarrow> agent_registry \<Rightarrow> agent_registry" where
  "seedEnclaveAssignedRepositorySecrecy p aid repo r =
     (let (sensitivity, ok) = RepositorySensitivity p repo
      in if \<not> ok \<or> sensitivity = ''public'' then r
         else (let (ref, r1) = ar_GetOrCreate aid r in on_agent (AddSecrecyTag (''private:'' @ repo)) ref r1))"

definition plan_repo :: "enclave_plan \<Rightarrow> string" where
  "plan_repo p = (case ep_route p of None \<Rightarrow> [] | Some rt \<Rightarrow> FullRepo rt)"

definition handleEnclaveRequest ::
  "'h proxy_env \<Rightarrow> proxy_server \<Rightarrow> enclave_config \<Rightarrow> request \<Rightarrow> 'h proxy_state \<Rightarrow> (reply \<times> 'h proxy_state) go" where
  "handleEnclaveRequest env s ec r st =
     (case enclavePath (rq_Path r) (rq_RawPath r) of
        None \<Rightarrow> Return (writeEnclaveDenied, st)
      | Some path \<Rightarrow>
          (case verifyAuthorizationAt (pe_sign env) (pl_claims (pe_lib env)) (es_verifier ec)
                  (header_Get (rq_Header r) ''Authorization'') (pe_now env) of
             None \<Rightarrow> Return (writeEnclaveDenied, st)
           | Some c \<Rightarrow>
               (let plan = planEnclaveRequestForPath r path
                in if ep_denial plan = enclaveDenialRequestShape \<or> \<not> routeAllowedBy plan c \<or>
                      ep_denial plan = enclaveDenialTool
                   then Return (writeEnclaveDenied, st)
                   else
                     (let aid = AgentID (pe_sha256 env) c;
                          st1 = st\<lparr>px_agents := seedEnclaveAssignedRepositorySecrecy (es_policy ec) aid (cl_Repo c) (px_agents st)\<rparr>;
                          targetRepo = plan_repo plan;
                          (public, st2) = (if targetRepo = cl_Repo c then (True, st1)
                                           else enclaveRepositoryIsPublic env s targetRepo st1)
                      in if \<not> public then Return (writeEnclaveDenied, st2)
                         else handleWithDIFC env s \<lparr>pc_agentID = aid, pc_assignedRepo = cl_Repo c\<rparr> r
                                (ep_fullPath plan) (ep_toolName plan) (ep_args plan) None st2))))"

section \<open>Delegated requests\<close>

definition handleDelegatedRequest ::
  "'h proxy_env \<Rightarrow> proxy_server \<Rightarrow> 'h delegation_store \<Rightarrow> request \<Rightarrow> 'h proxy_state \<Rightarrow> (reply \<times> 'h proxy_state) go" where
  "handleDelegatedRequest env s store r st =
     (let plan = planEnclaveRequest r
      in if \<not> plan_ok plan then Return (writeEnclaveDenied, st)
         else
           (let repo = plan_repo plan
            in case AuthorizeExecutor (pe_sha env) (pe_now env) (header_Get (rq_Header r) ''Authorization'') repo
                      (ep_toolName plan) store of
                 (Inl _, store1) \<Rightarrow> Return (writeEnclaveDenied, st\<lparr>px_store := Some store1\<rparr>)
               | (Inr handle, store1) \<Rightarrow>
                   handleWithDIFC env s \<lparr>pc_agentID = ''delegation:'' @ handle, pc_assignedRepo = repo\<rparr> r
                     (ep_fullPath plan) (ep_toolName plan) (ep_args plan) None (st\<lparr>px_store := Some store1\<rparr>)))"

end
