(* ===== verification/ProxyServer.thy ===== *)
theory ProxyServer imports ProxyHandler GuardPayload begin

text \<open>
  \<open>ServeHTTP\<close> of \<open>internal/proxy/handler.go\<close> and the construction of the server in \<open>proxy.go\<close>:
  which requests reach the pipeline, with which tool and arguments, and in which mode the
  server runs.
\<close>

section \<open>The entry point\<close>

definition validateReadOnlyRequest :: "proxy_lib \<Rightarrow> proxy_server \<Rightarrow> request \<Rightarrow> string \<Rightarrow> string option option" where
  "validateReadOnlyRequest lib s r path =
     (if rq_RawPath r \<noteq> [] then None
      else
        (let pathOnly = fst (cut_query path)
         in if (px_enclave s \<noteq> None \<or> px_delegated s) \<and> IsGraphQLPath pathOnly then None
            else if rq_Method r = ''POST'' \<and> IsGraphQLPath pathOnly then
              (case rq_Body r of
                 Reader (Some b) \<Rightarrow> readOnlyRequestBody (pl_graphql lib) (rq_Method r) path b (Some (rq_Header r))
               | NoBody \<Rightarrow> readOnlyRequestBody (pl_graphql lib) (rq_Method r) path [] (Some (rq_Header r))
               | _ \<Rightarrow> None)
            else
              (case rq_Body r of
                 Reader _ \<Rightarrow> None
               | _ \<Rightarrow> readOnlyRequestBody (pl_graphql lib) (rq_Method r) path [] (Some (rq_Header r)))))"

definition handleUnrecognizedPassthrough ::
  "'h proxy_env \<Rightarrow> proxy_server \<Rightarrow> request \<Rightarrow> string \<Rightarrow> string \<Rightarrow> 'h proxy_state \<Rightarrow> (reply \<times> 'h proxy_state) go" where
  "handleUnrecognizedPassthrough env s r rawPath fullPath st =
     (case forwardAndReadBody env s (rq_Method r) fullPath NilBody [] (header_Get (rq_Header r) ''Authorization'') st of
        (Inl rep, st1) \<Rightarrow> Return (rep, st1)
      | (Inr (resp, respBody), st1) \<Rightarrow>
          (let (ref, r1) = ar_GetOrCreate proxyAgentID (px_agents st1);
               pre = \<lparr>pre_AgentLabels = ref,
                      pre_Resource = Some (NewLabeledResource (''unrecognized endpoint '' @ rawPath)),
                      pre_Operation = OperationRead, pre_CoarseOutcome = CoarseAllowed,
                      pre_EvalResult = \<lparr>decision = AccessAllow, secrecyToAdd = [], integrityToDrop = [], reason = [],
                                        hardDeny = False\<rparr>\<rparr>
           in bind_go (proxy_phase6 s pre None (st1\<lparr>px_agents := r1\<rparr>))
                (\<lambda>st2. Return (writeResponse env s r resp respBody, st2))))"

definition proxy_passthrough ::
  "'h proxy_env \<Rightarrow> proxy_server \<Rightarrow> request \<Rightarrow> string \<Rightarrow> 'h proxy_state \<Rightarrow> reply \<times> 'h proxy_state" where
  "proxy_passthrough env s r path st =
     (case forwardAndReadBody env s (rq_Method r) path (rq_Body r) (header_Get (rq_Header r) ''Content-Type'')
             (header_Get (rq_Header r) ''Authorization'') st of
        (Inl rep, st1) \<Rightarrow> (rep, st1)
      | (Inr (resp, respBody), st1) \<Rightarrow> (writeResponse env s r resp respBody, st1))"

text \<open>The arguments of a REST call: the route's, and what the query says about them.\<close>

definition rest_args :: "string \<Rightarrow> url_values \<Rightarrow> json_object \<Rightarrow> json_object" where
  "rest_args toolName query args =
     (let q = values_Get query ''q'';
          a1 = (if q \<noteq> [] then AList.update ''query'' (JStr q) args else args);
          sha = values_Get query ''sha'';
          a2 = (if sha \<noteq> [] then AList.update ''sha'' (JStr sha) a1 else a1)
      in if toolName = ''get_file_contents'' then
           (case map_of query ''ref'' of
              None \<Rightarrow> a2
            | Some [] \<Rightarrow> a2
            | Some [ref] \<Rightarrow> AList.update ''ref'' (JStr ref) a2
            | Some _ \<Rightarrow> AList.update ''ref'' (JStr ''proxy-ambiguous-ref'') a2)
         else a2)"

definition write_denied :: reply where
  "write_denied = rejectProxyRequest 403 ''github_api_write_denied'' ''access denied: unclassified GitHub API write''"

definition unknown_graphql :: reply where
  "unknown_graphql =
     WriteJSONResponse [] 403 (JsonBody (JObj
       [(''errors'', JArr [JObj [(''message'', JStr ''access denied: unrecognized GraphQL operation'')]]),
        (''data'', JNull)]))"

definition serve_graphql ::
  "'h proxy_env \<Rightarrow> proxy_server \<Rightarrow> request \<Rightarrow> string \<Rightarrow> 'h proxy_state \<Rightarrow> (reply \<times> 'h proxy_state) go" where
  "serve_graphql env s r fullPath st =
     (let gl = pl_graphql (pe_lib env)
      in case rq_Body r of
           NilBody \<Rightarrow> Panic
         | Reader None \<Rightarrow> Return (rejectProxyRequest 400 ''bad_request'' ''failed to read request body'', st)
         | b \<Rightarrow>
             (case selectReadOnlyGraphQLOperation gl (the (read_all b)) of
                None \<Rightarrow> Return (write_denied, st)
              | Some graphQLBody \<Rightarrow>
                  (case MatchGraphQL gl graphQLBody of
                     None \<Rightarrow> Return (unknown_graphql, st)
                   | Some m \<Rightarrow>
                       (if gm_ToolName m = ''graphql_introspection'' then
                          (case forwardAndReadBody env s ''POST'' fullPath (Reader (Some graphQLBody)) ''application/json''
                                  (header_Get (rq_Header r) ''Authorization'') st of
                             (Inl rep, st1) \<Rightarrow> Return (rep, st1)
                           | (Inr (resp, respBody), st1) \<Rightarrow> Return (writeResponse env s r resp respBody, st1))
                        else handleWithDIFC env s no_ctx r fullPath (gm_ToolName m) (gm_Args m)
                               (Some (InjectGuardFields gl graphQLBody (gm_ToolName m))) st))))"

definition serve_rest ::
  "'h proxy_env \<Rightarrow> proxy_server \<Rightarrow> request \<Rightarrow> string \<Rightarrow> string \<Rightarrow> 'h proxy_state \<Rightarrow> (reply \<times> 'h proxy_state) go" where
  "serve_rest env s r rawPath fullPath st =
     (case MatchRoute rawPath of
        None \<Rightarrow> handleUnrecognizedPassthrough env s r rawPath fullPath st
      | Some m \<Rightarrow>
          handleWithDIFC env s no_ctx r fullPath (rm_ToolName m)
            (rest_args (rm_ToolName m) (URL_Query (rq_RawQuery r)) (rm_Args m)) None st)"

text \<open>What remains once the read-only check and the two private profiles are behind.\<close>

definition serve_open ::
  "'h proxy_env \<Rightarrow> proxy_server \<Rightarrow> request \<Rightarrow> string \<Rightarrow> string \<Rightarrow> 'h proxy_state \<Rightarrow> (reply \<times> 'h proxy_state) go" where
  "serve_open env s r rawPath fullPath st =
     (if rq_Method r = ''GET'' \<and> rawPath = ''/reflect'' then
        Return (WriteJSONResponse [] 200 (ReflectBody (BuildReflectResponse
                  \<lparr>c_Mode = px_Mode s, c_AgentRegistry = Some (px_agents st), c_Capabilities = px_Capabilities s,
                   c_Evaluator = px_Evaluator s\<rparr> (pe_timestamp env))), st)
      else if rq_Method r = ''GET'' \<and> isMetadataPassthroughPath rawPath
      then Return (proxy_passthrough env s r fullPath st)
      else
        (let isGraphQL = IsGraphQLPath rawPath;
             isRead = (rq_Method r = ''GET'' \<or> rq_Method r = ''POST'' \<and> isGraphQL)
         in if \<not> isRead \<or> isGraphQL \<and> (rq_Method r \<noteq> ''POST'' \<or> hasGraphQLQueryOverride (rq_RawQuery r))
            then Return (write_denied, st)
            else if isGraphQL then serve_graphql env s r fullPath st
            else serve_rest env s r rawPath fullPath st))"

definition raw_path :: "proxy_server \<Rightarrow> request \<Rightarrow> string" where
  "raw_path s r =
     (if px_enclave s \<noteq> None
      then (case enclavePath (rq_Path r) (rq_RawPath r) of Some p \<Rightarrow> p | None \<Rightarrow> rq_Path r)
      else StripGHHostPrefix (rq_Path r))"

definition full_path :: "proxy_server \<Rightarrow> request \<Rightarrow> string" where
  "full_path s r = raw_path s r @ (if rq_RawQuery r \<noteq> [] then ''?'' @ rq_RawQuery r else [])"

definition health_reply :: reply where
  "health_reply = WriteJSONResponse [] 200 (JsonBody (JObj [(''status'', JStr ''ok'')]))"

definition read_only_denied :: reply where
  "read_only_denied = rejectProxyRequest 403 ''read_only_denied'' ''request is not allowed in read-only proxy mode''"

definition with_body :: "string \<Rightarrow> request \<Rightarrow> request" where
  "with_body b r = r\<lparr>rq_Body := Reader (Some b), rq_ContentLength := int (length b)\<rparr>"

definition serve_admitted ::
  "'h proxy_env \<Rightarrow> proxy_server \<Rightarrow> request \<Rightarrow> string \<Rightarrow> string \<Rightarrow> 'h proxy_state \<Rightarrow> (reply \<times> 'h proxy_state) go" where
  "serve_admitted env s r rawPath fullPath st =
     (case px_enclave s of
        Some ec \<Rightarrow> handleEnclaveRequest env s ec r st
      | None \<Rightarrow>
          (if px_delegated s then
             (case px_store st of None \<Rightarrow> Panic | Some store \<Rightarrow> handleDelegatedRequest env s store r st)
           else serve_open env s r rawPath fullPath st))"

definition ServeHTTP ::
  "'h proxy_env \<Rightarrow> proxy_server \<Rightarrow> request \<Rightarrow> 'h proxy_state \<Rightarrow> (reply \<times> 'h proxy_state) go" where
  "ServeHTTP env s r st =
     (let rawPath = raw_path s r; fullPath = full_path s r
      in if rawPath = ''/health'' \<or> rawPath = ''/healthz'' then Return (health_reply, st)
         else
           (let localReflection = (px_enclave s = None \<and> \<not> px_delegated s \<and> rq_Method r = ''GET'' \<and> rawPath = ''/reflect'')
            in if px_readOnly s \<and> \<not> localReflection then
                 (case validateReadOnlyRequest (pe_lib env) s r fullPath of
                    None \<Rightarrow> Return (read_only_denied, st)
                  | Some None \<Rightarrow> serve_admitted env s r rawPath fullPath st
                  | Some (Some selectedBody) \<Rightarrow>
                      serve_admitted env s (with_body selectedBody r) rawPath fullPath st)
               else serve_admitted env s r rawPath fullPath st))"

section \<open>Construction\<close>

record 'h delegation_runtime =
  dr_Store :: "'h delegation_store option"
  dr_Capability :: "'h control_capability option"
  dr_StatePath :: string

record 'h proxy_config =
  pc_WasmPath :: string
  pc_Policy :: string
  pc_GitHubToken :: string
  pc_GitHubAPIURL :: string
  pc_DIFCMode :: string
  pc_TrustedBots :: "string list"
  pc_TrustedUsers :: "string list"
  pc_Enclave :: "(enclave_policy option \<times> verifier option) option"
  pc_Delegation :: "'h delegation_runtime option"
  pc_ReadOnly :: bool

datatype new_error =
    WasmPathRequired
  | ModesCombined
  | DelegationInvalid
  | DelegationTokenRequired
  | EnclavePolicyRequired
  | EnclavePolicyInvalid enclave_error
  | EnclaveTokenRequired
  | WasmNotLoaded
  | PolicyNotJSON
  | PolicyInvalid policy_error
  | PolicyIsWriteSink
  | PolicyNotNormalized policy_error
  | LabelAgentInitFailed init_error
  | GuardPolicyRequired
  | NoAgentLabels

definition RuntimeConfig_Validate :: "'h delegation_runtime option \<Rightarrow> bool" where
  "RuntimeConfig_Validate c =
     (case c of
        None \<Rightarrow> False
      | Some d \<Rightarrow> dr_Store d \<noteq> None \<and> dr_Capability d \<noteq> None \<and> dr_StatePath d \<noteq> [])"

text \<open>The checks before anything is built; the enclave's policy afterwards is validated.\<close>

definition proxy_preconditions :: "'h proxy_config \<Rightarrow> new_error + enclave_config option" where
  "proxy_preconditions cfg =
     (if pc_WasmPath cfg = [] then Inl WasmPathRequired
      else if pc_Enclave cfg \<noteq> None \<and> pc_Delegation cfg \<noteq> None then Inl ModesCombined
      else if pc_Delegation cfg \<noteq> None \<and> \<not> RuntimeConfig_Validate (pc_Delegation cfg) then Inl DelegationInvalid
      else if pc_Delegation cfg \<noteq> None \<and> pc_GitHubToken cfg = [] then Inl DelegationTokenRequired
      else
        (case pc_Enclave cfg of
           None \<Rightarrow> Inr None
         | Some (Some p, Some v) \<Rightarrow>
             (case policy_Validate (Some p) of
                (None, Some p1) \<Rightarrow>
                  (if pc_GitHubToken cfg = [] then Inl EnclaveTokenRequired
                   else Inr (Some \<lparr>es_policy = p1, es_verifier = v\<rparr>))
              | (Some e, _) \<Rightarrow> Inl (EnclavePolicyInvalid e)
              | (None, None) \<Rightarrow> Inl EnclavePolicyRequired)
         | Some _ \<Rightarrow> Inl EnclavePolicyRequired))"

definition DefaultGitHubAPIBase :: string where "DefaultGitHubAPIBase = ''https://api.github.com''"

text \<open>\<open>initGuardPolicy\<close>: the server's mode, evaluator and the registry afterwards.\<close>

definition initGuardPolicy ::
  "(string \<Rightarrow> json option) \<Rightarrow> unicode_case \<Rightarrow> string \<Rightarrow> string list \<Rightarrow> string list \<Rightarrow> proxy_server \<Rightarrow> agent_registry \<Rightarrow>
   (new_error + proxy_server) \<times> agent_registry" where
  "initGuardPolicy unmarshal uc policyJSON trustedBots trustedUsers s r =
     (if unmarshal policyJSON = None then (Inl PolicyNotJSON, r)
      else
        (case ParseGuardPolicyJSON unmarshal uc policyJSON of
           Inl e \<Rightarrow> (Inl (PolicyInvalid e), r)
         | Inr parsed \<Rightarrow>
             (if WriteSink parsed \<noteq> None then (Inl PolicyIsWriteSink, r)
              else
                (case NormalizeStaticAllowOnlyPolicy (Some parsed) of
                   Inl e \<Rightarrow> (Inl (PolicyNotNormalized e), r)
                 | Inr None \<Rightarrow> (Inl PolicyNotJSON, r)
                 | Inr (Some p) \<Rightarrow>
                     (case RunLabelAgentForAgent (px_guard s)
                             (BuildLabelAgentPayload (JObj (GuardPolicy_MarshalJSON p)) trustedBots trustedUsers)
                             proxyAgentID (px_Mode s) r of
                        (Inl e, r1) \<Rightarrow> (Inl (LabelAgentInitFailed e), r1)
                      | (Inr (newMode, result), r1) \<Rightarrow>
                          (Inr (if lar_DIFCMode result \<noteq> []
                                then s\<lparr>px_Mode := newMode, px_Evaluator := SetMode newMode (px_Evaluator s),
                                       px_guardInitialized := True\<rparr>
                                else s\<lparr>px_guardInitialized := True\<rparr>), r1))))))"

text \<open>The private profiles run in propagate mode, with the proxy agent's integrity as the default.\<close>

definition private_profile :: "proxy_server \<Rightarrow> agent_registry \<Rightarrow> new_error + proxy_server \<times> agent_registry" where
  "private_profile s r =
     (if \<not> px_guardInitialized s then Inl GuardPolicyRequired
      else
        (case labels_of r proxyAgentID of
           None \<Rightarrow> Inl NoAgentLabels
         | Some a \<Rightarrow>
             Inr (s\<lparr>px_Mode := EnforcementPropagate, px_Evaluator := SetMode EnforcementPropagate (px_Evaluator s)\<rparr>,
                  SetDefaultLabels [] (GetIntegrityTags a) r)))"

definition proxy_New ::
  "(string \<Rightarrow> guard option) \<Rightarrow> (string \<Rightarrow> json option) \<Rightarrow> unicode_case \<Rightarrow> 'h proxy_config \<Rightarrow>
   new_error + proxy_server \<times> 'h proxy_state" where
  "proxy_New load unmarshal uc cfg =
     (case proxy_preconditions cfg of
        Inl e \<Rightarrow> Inl e
      | Inr enclave \<Rightarrow>
          (case load (pc_WasmPath cfg) of
             None \<Rightarrow> Inl WasmNotLoaded
           | Some g \<Rightarrow>
               (let comps = fst (NewComponents (pc_DIFCMode cfg) EnforcementFilter);
                    apiURL = trim_right_slash (if pc_GitHubAPIURL cfg = [] then DefaultGitHubAPIBase else pc_GitHubAPIURL cfg);
                    r0 = NewAgentRegistryWithDefaults [] [];
                    s0 = \<lparr>px_guard = g, px_Evaluator = c_Evaluator comps, px_Mode = c_Mode comps,
                          px_Capabilities = c_Capabilities comps, px_githubToken = pc_GitHubToken cfg,
                          px_githubAPIURL = apiURL, px_readOnly = pc_ReadOnly cfg, px_guardInitialized = False,
                          px_enclave = enclave, px_delegated = (pc_Delegation cfg \<noteq> None)\<rparr>;
                    ini = (if pc_Policy cfg \<noteq> []
                           then initGuardPolicy unmarshal uc (pc_Policy cfg) (pc_TrustedBots cfg) (pc_TrustedUsers cfg) s0 r0
                           else (Inr s0, r0))
                in case ini of
                     (Inl e, _) \<Rightarrow> Inl e
                   | (Inr s1, r1) \<Rightarrow>
                       map_sum id (\<lambda>(s2, r2).
                           (s2, \<lparr>px_agents = r2, px_denied = [],
                                 px_store = (case pc_Delegation cfg of None \<Rightarrow> None | Some d \<Rightarrow> dr_Store d), px_sent = []\<rparr>))
                         (if pc_Delegation cfg \<noteq> None \<or> enclave \<noteq> None then private_profile s1 r1 else Inr (s1, r1)))))"

end
