(* ===== verification/ProxyFacts.thy ===== *)
theory ProxyFacts imports ProxyServer begin

text \<open>
  Lemmas on the handlers of the proxy. The locale \<open>proxy_steps\<close> takes a relation on states that the
  single steps of the handlers keep to a whole request; \<open>upstream_policy\<close> gives such a relation for any
  property of the requests that \<open>forwardToGitHub\<close> sends. They are interpreted for the read-only mode,
  the credentials of the private profiles and the cache of denied repositories.
\<close>

section \<open>What a request sends\<close>

definition sends :: "(upstream_request \<Rightarrow> bool) \<Rightarrow> 'h proxy_state \<Rightarrow> 'h proxy_state \<Rightarrow> bool" where
  "sends P st st' \<longleftrightarrow> (\<exists>xs. px_sent st' = px_sent st @ xs \<and> list_all P xs)"

lemma sends_same: "px_sent st' = px_sent st \<Longrightarrow> sends P st st'"
  by (simp add: sends_def)

lemma sends_trans: "sends P st st1 \<Longrightarrow> sends P st1 st2 \<Longrightarrow> sends P st st2"
  unfolding sends_def by force

lemma sends_drop: "sends P st st' \<Longrightarrow> list_all P (drop (length (px_sent st)) (px_sent st'))"
  by (auto simp: sends_def)

section \<open>The ways through the handlers\<close>

text \<open>Once the upstream has answered, only the agents' labels change.\<close>

definition agents_only :: "'h proxy_state \<Rightarrow> 'h proxy_state \<Rightarrow> bool" where
  "agents_only st st1 \<longleftrightarrow> st1 = st\<lparr>px_agents := px_agents st1\<rparr>"

lemma agents_only_refl [simp, intro]: "agents_only st st"
  by (simp add: agents_only_def)

lemma proxy_phase6_agents: "proxy_phase6 s pre ld st = Return st1 \<Longrightarrow> agents_only st st1"
  by (auto simp: agents_only_def proxy_phase6_def bind_go_Return_iff)

lemma coarse_write_agents: "coarse_write env s r pre w resp b st = Return (rep, st1) \<Longrightarrow> agents_only st st1"
  by (auto simp: coarse_write_def bind_go_Return_iff dest: proxy_phase6_agents split: if_splits)

lemma opaque_answer_agents:
  "opaque_answer env s r pre bl must resp b st = Return (rep, st1) \<Longrightarrow> agents_only st st1"
  by (auto simp: opaque_answer_def dest: coarse_write_agents split: if_splits)

text \<open>The four ways out of Phases 4 to 6.\<close>

lemma proxy_filter_cases:
  assumes "proxy_filter env s r inp pre gq resp b data st = Return (rep, st1)"
  obtains (failed) e where "RunPipelinePhase4 inp pre data = Inl e" "\<not> IsAllowed (pre_EvalResult pre) \<or> px_enclave s \<noteq> None"
      "st1 = st" "rep = writeEnclaveDenied \<or> rep = writeEmptyResponse env s r resp (Some data)"
  | (coarse) e where "RunPipelinePhase4 inp pre data = Inl e" "px_enclave s = None" "IsAllowed (pre_EvalResult pre)"
      "proxy_phase6 s pre None st = Return st1" "rep = writeResponse env s r resp b"
  | (broken) ld e where "RunPipelinePhase4 inp pre data = Inr ld" "st1 = st"
      "rep = writeEnclaveDenied \<or> rep = writeEmptyResponse env s r resp (Some data)"
  | (early) ld fr where "RunPipelinePhase4 inp pre data = Inr ld" "st1 = st"
      "proxy_final env s r resp gq data pre ld fr = Inl rep"
  | (filtered) ld fr final where "RunPipelinePhase4 inp pre data = Inr ld"
      "FilterAndConvertLabeledData (in_Evaluator inp) (agS (heap (px_agents st) ! pre_AgentLabels pre))
         (agI (heap (px_agents st) ! pre_AgentLabels pre)) (pre_Operation pre) ld (px_Mode s) = Return (Inr fr)"
      "proxy_final env s r resp gq data pre ld fr = Inr final" "proxy_phase6 s pre ld st = Return st1"
      "rep = final_reply env s r resp b final"
proof (cases "RunPipelinePhase4 inp pre data")
  case (Inl e)
  show thesis
  proof (cases "px_enclave s = None \<and> IsAllowed (pre_EvalResult pre)")
    case True
    with Inl assms coarse show thesis by (auto simp: proxy_filter_def bind_go_Return_iff)
  next
    case False
    with Inl assms failed show thesis by (auto simp: proxy_filter_def split: if_splits)
  qed
next
  case (Inr ld)
  define fc where "fc = FilterAndConvertLabeledData (in_Evaluator inp) (agS (heap (px_agents st) ! pre_AgentLabels pre))
         (agI (heap (px_agents st) ! pre_AgentLabels pre)) (pre_Operation pre) ld (px_Mode s)"
  show thesis
  proof (cases fc)
    case Panic
    with Inr assms show thesis by (simp add: proxy_filter_def Let_def fc_def[symmetric])
  next
    case (Return fo)
    show thesis
    proof (cases fo)
      case (Inl e)
      with Return Inr assms have "rep = (if px_enclave s \<noteq> None then writeEnclaveDenied
          else writeEmptyResponse env s r resp (Some data)) \<and> st1 = st"
        by (simp add: proxy_filter_def Let_def fc_def[symmetric])
      then show thesis using broken[OF Inr] by (cases "px_enclave s") auto
    next
      case R: (Inr fr)
      show thesis
      proof (cases "proxy_final env s r resp gq data pre ld fr")
        case (Inl e)
        with R Return Inr assms have "rep = e" "st1 = st"
          by (simp_all add: proxy_filter_def Let_def fc_def[symmetric])
        then show thesis using early[OF Inr, of fr] Inl by simp
      next
        case F: (Inr final)
        with R Return Inr assms have "bind_go (proxy_phase6 s pre ld st)
            (\<lambda>st1. Return (final_reply env s r resp b final, st1)) = Return (rep, st1)"
          by (simp add: proxy_filter_def Let_def fc_def[symmetric])
        then show thesis using filtered[OF Inr _ F] Return R unfolding fc_def by (auto simp: bind_go_Return_iff)
      qed
    qed
  qed
qed

lemma proxy_filter_agents:
  "proxy_filter env s r inp pre gq resp b data st = Return (rep, st1) \<Longrightarrow> agents_only st st1"
  by (erule proxy_filter_cases) (auto dest: proxy_phase6_agents)

text \<open>The ways a response is answered.\<close>

lemma body_answer_eq:
  "\<exists>opq must. body_answer env s r inp pre gq bl resp b st =
     (case pl_decode (pe_lib env) b of
        Some data \<Rightarrow> if opq \<or> bl then opaque_answer env s r pre bl must resp b st
                     else proxy_filter env s r inp pre gq resp b data st
      | None \<Rightarrow> opaque_answer env s r pre bl must resp b st)"
  unfolding body_answer_def Let_def split_beta by blast

lemma body_answer_cases:
  assumes "body_answer env s r inp pre gq bl resp b st = Return (rep, st1)"
  obtains (opaque) must where "opaque_answer env s r pre bl must resp b st = Return (rep, st1)"
  | (filtered) data where "pl_decode (pe_lib env) b = Some data"
      "proxy_filter env s r inp pre gq resp b data st = Return (rep, st1)"
proof -
  from body_answer_eq[of env s r inp pre gq bl resp b st] assms obtain opq must where e:
    "(case pl_decode (pe_lib env) b of
        Some data \<Rightarrow> if opq \<or> bl then opaque_answer env s r pre bl must resp b st
                     else proxy_filter env s r inp pre gq resp b data st
      | None \<Rightarrow> opaque_answer env s r pre bl must resp b st) = Return (rep, st1)"
    by auto
  show thesis
  proof (cases "pl_decode (pe_lib env) b")
    case None
    with e opaque show thesis by simp
  next
    case (Some data)
    with e show thesis by (cases "opq \<or> bl") (auto intro: opaque filtered)
  qed
qed

lemma proxy_answer_cases:
  assumes "proxy_answer env s r inp pre gq resp b st = Return (rep, st1)"
  obtains (denied) "rep = writeEnclaveDenied" "st1 = st"
  | (coarse) w where "coarse_write env s r pre w resp b st = Return (rep, st1)"
  | (encoding) "rep = rejectProxyRequest 502 ''bad_gateway'' ''unsupported upstream response encoding''" "st1 = st"
  | (opaque) bl must where "opaque_answer env s r pre bl must resp b st = Return (rep, st1)"
  | (filtered) data where "us_StatusCode resp < 300" "pl_decode (pe_lib env) b = Some data"
      "proxy_filter env s r inp pre gq resp b data st = Return (rep, st1)"
proof (cases "us_StatusCode resp \<ge> 300")
  case True
  then have e: "(if px_enclave s \<noteq> None \<and> us_StatusCode resp < 400 then Return (writeEnclaveDenied, st)
      else coarse_write env s r pre (rate_limit_headers (pe_now env) resp) resp b st) = Return (rep, st1)"
    using assms unfolding proxy_answer_def Let_def by (simp only: if_True)
  show thesis
  proof (cases "px_enclave s \<noteq> None \<and> us_StatusCode resp < 400")
    case True
    with e have "rep = writeEnclaveDenied" "st1 = st" by simp_all
    then show thesis by (rule denied)
  next
    case False
    with e have "coarse_write env s r pre (rate_limit_headers (pe_now env) resp) resp b st = Return (rep, st1)"
      by (simp only: if_False)
    then show thesis by (rule coarse)
  qed
next
  case False
  define bl where "bl = (us_StatusCode resp = 204 \<or> us_StatusCode resp = 205)"
  define enc where "enc = header_Get (us_Header resp) ''Content-Encoding''"
  have e: "(if \<not> bl \<and> enc \<noteq> [] \<and> lowercaseASCII (trim_space enc) \<noteq> ''identity''
      then Return (rejectProxyRequest 502 ''bad_gateway'' ''unsupported upstream response encoding'', st)
      else body_answer env s r inp pre gq bl resp b st) = Return (rep, st1)"
    using assms False unfolding proxy_answer_def Let_def bl_def enc_def by (simp only: if_False)
  show thesis
  proof (cases "\<not> bl \<and> enc \<noteq> [] \<and> lowercaseASCII (trim_space enc) \<noteq> ''identity''")
    case True
    with e have "rep = rejectProxyRequest 502 ''bad_gateway'' ''unsupported upstream response encoding''" "st1 = st"
      by simp_all
    then show thesis by (rule encoding)
  next
    case False
    with e have "body_answer env s r inp pre gq bl resp b st = Return (rep, st1)" by (simp only: if_False)
    then show thesis
      using \<open>\<not> us_StatusCode resp \<ge> 300\<close> by (cases rule: body_answer_cases) (auto intro: opaque filtered)
  qed
qed

lemma proxy_answer_agents:
  "proxy_answer env s r inp pre gq resp b st = Return (rep, st1) \<Longrightarrow> agents_only st st1"
  by (erule proxy_answer_cases) (auto dest: coarse_write_agents opaque_answer_agents proxy_filter_agents)

text \<open>A request ends in the pre-phases or passes them.\<close>

lemma handleWithDIFC_cases:
  assumes "handleWithDIFC env s ctx r path tool args gq st = Return (rep, st1)"
  obtains (unconfigured) "\<not> px_guardInitialized s" "st1 = st"
      "rep = rejectProxyRequest 503 ''service_unavailable'' ''proxy enforcement not configured''"
  | (stopped) err r1 w code msg where
      "RunPipelinePrePhases (proxy_input s ctx tool args) (px_agents st) = Return (Inl err, r1)"
      "st1 = st\<lparr>px_agents := r1\<rparr>" "rep = WriteErrorResponse [] w code msg"
  | (passed) pre r1 where "px_guardInitialized s"
      "RunPipelinePrePhases (proxy_input s ctx tool args) (px_agents st) = Return (Inr pre, r1)"
      "proxy_forward env s r path (proxy_input s ctx tool args) args pre gq (st\<lparr>px_agents := r1\<rparr>) = Return (rep, st1)"
proof (cases "px_guardInitialized s")
  case False
  with assms unconfigured show thesis by (simp add: handleWithDIFC_def)
next
  case True
  note ini = this
  show thesis
  proof (cases "RunPipelinePrePhases (proxy_input s ctx tool args) (px_agents st)")
    case Panic
    with assms ini show thesis by (simp add: handleWithDIFC_def)
  next
    case (Return x)
    obtain res r1 where x: "x = (res, r1)" by fastforce
    show thesis
    proof (cases res)
      case (Inr pre)
      with assms ini Return x passed show thesis by (simp add: handleWithDIFC_def)
    next
      case (Inl err)
      note e = assms[unfolded handleWithDIFC_def Let_def Return x Inl, simplified, simplified ini, simplified]
      show thesis
      proof (cases "px_enclave s \<noteq> None \<or> px_delegated s")
        case True
        with e have "rep = writeEnclaveDenied" "st1 = st\<lparr>px_agents := r1\<rparr>" by auto
        with stopped[of err r1] Return x Inl show thesis by (simp add: writeEnclaveDenied_def)
      next
        case False
        then have b: "bind_go (HandlePrePhaseError err r1) (\<lambda>denied. Return
            (case denied of Some (d, msg) \<Rightarrow> denyResponseAccess [] (reason (d_EvalResult d))
             | None \<Rightarrow> rejectProxyRequest 502 ''bad_gateway'' ''resource labeling failed'', st\<lparr>px_agents := r1\<rparr>)) =
            Return (rep, st1)"
          using e by simp
        then obtain denied where h: "HandlePrePhaseError err r1 = Return denied"
          by (cases "HandlePrePhaseError err r1") simp_all
        have "st1 = st\<lparr>px_agents := r1\<rparr>" and
          "rep = (case denied of Some (d, msg) \<Rightarrow> denyResponseAccess [] (reason (d_EvalResult d))
             | None \<Rightarrow> rejectProxyRequest 502 ''bad_gateway'' ''resource labeling failed'')"
          using b h by auto
        with stopped[of err r1] Return x Inl show thesis
          by (cases denied) (auto simp: denyResponseAccess_def writeDIFCForbidden_def rejectProxyRequest_def)
      qed
    qed
  qed
qed

text \<open>An enclave request is denied, refused after a lookup, or runs for its own or a public repository.\<close>

definition enclave_claims :: "'h proxy_env \<Rightarrow> enclave_config \<Rightarrow> request \<Rightarrow> claims option" where
  "enclave_claims env ec r =
     verifyAuthorizationAt (pe_sign env) (pl_claims (pe_lib env)) (es_verifier ec)
       (header_Get (rq_Header r) ''Authorization'') (pe_now env)"

definition seeded :: "'h proxy_env \<Rightarrow> enclave_config \<Rightarrow> claims \<Rightarrow> 'h proxy_state \<Rightarrow> 'h proxy_state" where
  "seeded env ec c st = st\<lparr>px_agents :=
     seedEnclaveAssignedRepositorySecrecy (es_policy ec) (EnclaveGithub.AgentID (pe_sha256 env) c) (cl_Repo c) (px_agents st)\<rparr>"

lemma seeded_simps [simp]:
  "px_sent (seeded env ec c st) = px_sent st" "px_denied (seeded env ec c st) = px_denied st"
  by (simp_all add: seeded_def)

definition enclave_run ::
  "'h proxy_env \<Rightarrow> proxy_server \<Rightarrow> request \<Rightarrow> claims \<Rightarrow> enclave_plan \<Rightarrow> 'h proxy_state \<Rightarrow> (reply \<times> 'h proxy_state) go" where
  "enclave_run env s r c plan st =
     handleWithDIFC env s \<lparr>pc_agentID = EnclaveGithub.AgentID (pe_sha256 env) c, pc_assignedRepo = cl_Repo c\<rparr> r
       (ep_fullPath plan) (ep_toolName plan) (ep_args plan) None st"

lemma handleEnclaveRequest_cases:
  assumes "handleEnclaveRequest env s ec r st = Return (rep, st1)"
  obtains (denied) "rep = writeEnclaveDenied" "st1 = st"
  | (refused) path c st2 where "enclavePath (rq_Path r) (rq_RawPath r) = Some path" "enclave_claims env ec r = Some c"
      "routeAllowedBy (planEnclaveRequestForPath r path) c" "rep = writeEnclaveDenied"
      "enclaveRepositoryIsPublic env s (plan_repo (planEnclaveRequestForPath r path)) (seeded env ec c st) = (False, st2)"
      "st1 = st2"
  | (assigned) path c where "enclavePath (rq_Path r) (rq_RawPath r) = Some path" "enclave_claims env ec r = Some c"
      "routeAllowedBy (planEnclaveRequestForPath r path) c"
      "plan_repo (planEnclaveRequestForPath r path) = cl_Repo c"
      "enclave_run env s r c (planEnclaveRequestForPath r path) (seeded env ec c st) = Return (rep, st1)"
  | (cross) path c st2 where "enclavePath (rq_Path r) (rq_RawPath r) = Some path" "enclave_claims env ec r = Some c"
      "routeAllowedBy (planEnclaveRequestForPath r path) c"
      "plan_repo (planEnclaveRequestForPath r path) \<noteq> cl_Repo c"
      "enclaveRepositoryIsPublic env s (plan_repo (planEnclaveRequestForPath r path)) (seeded env ec c st) = (True, st2)"
      "enclave_run env s r c (planEnclaveRequestForPath r path) st2 = Return (rep, st1)"
proof (cases "enclavePath (rq_Path r) (rq_RawPath r)")
  case None
  with assms denied show thesis by (simp add: handleEnclaveRequest_def)
next
  case (Some path)
  note p = this
  show thesis
  proof (cases "enclave_claims env ec r")
    case None
    with assms p denied show thesis by (simp add: handleEnclaveRequest_def enclave_claims_def)
  next
    case (Some c)
    define plan where "plan = planEnclaveRequestForPath r path"
    note c = Some[unfolded enclave_claims_def]
    note e = assms[unfolded handleEnclaveRequest_def p c option.case Let_def, folded plan_def, folded seeded_def enclave_run_def]
    show thesis
    proof (cases "ep_denial plan = enclaveDenialRequestShape \<or> \<not> routeAllowedBy plan c \<or> ep_denial plan = enclaveDenialTool")
      case True
      with e denied show thesis by simp
    next
      case False
      then have ok: "routeAllowedBy plan c" by blast
      note e2 = e[unfolded if_not_P[OF False]]
      show thesis
      proof (cases "plan_repo plan = cl_Repo c")
        case True
        with e2 have "enclave_run env s r c plan (seeded env ec c st) = Return (rep, st1)" by simp
        then show thesis using assigned[OF p Some] ok True unfolding plan_def by blast
      next
        case other: False
        obtain public st2 where v: "enclaveRepositoryIsPublic env s (plan_repo plan) (seeded env ec c st) = (public, st2)"
          by fastforce
        show thesis
        proof (cases public)
          case True
          with e2 other v have "enclave_run env s r c plan st2 = Return (rep, st1)" by simp
          then show thesis using cross[OF p Some, of st2] ok other v True unfolding plan_def by simp
        next
          case False
          with e2 other v have "rep = writeEnclaveDenied" "st1 = st2" by simp_all
          then show thesis using refused[OF p Some, of st2] ok v False unfolding plan_def by simp
        qed
      qed
    qed
  qed
qed

lemma serve_graphql_cases:
  assumes "serve_graphql env s r path st = Return (rep, st1)"
  obtains (stopped) code b where "st1 = st" "rep = WriteJSONResponse [] code b"
  | (introspection) q m res st2 where
      "MatchGraphQL (pl_graphql (pe_lib env)) q = Some m" "gm_ToolName m = ''graphql_introspection''"
      "selectReadOnlyGraphQLOperation (pl_graphql (pe_lib env)) (the (read_all (rq_Body r))) = Some q"
      "forwardAndReadBody env s ''POST'' path (Reader (Some q)) ''application/json''
         (header_Get (rq_Header r) ''Authorization'') st = (res, st2)" "st1 = st2"
  | (matched) q m where
      "MatchGraphQL (pl_graphql (pe_lib env)) q = Some m" "gm_ToolName m \<noteq> ''graphql_introspection''"
      "selectReadOnlyGraphQLOperation (pl_graphql (pe_lib env)) (the (read_all (rq_Body r))) = Some q"
      "handleWithDIFC env s no_ctx r path (gm_ToolName m) (gm_Args m)
         (Some (InjectGuardFields (pl_graphql (pe_lib env)) q (gm_ToolName m))) st = Return (rep, st1)"
proof -
  let ?gl = "pl_graphql (pe_lib env)"
  have body: thesis if "(case selectReadOnlyGraphQLOperation ?gl (the (read_all (rq_Body r))) of
      None \<Rightarrow> Return (write_denied, st)
    | Some q \<Rightarrow>
        (case MatchGraphQL ?gl q of
           None \<Rightarrow> Return (unknown_graphql, st)
         | Some m \<Rightarrow>
             (if gm_ToolName m = ''graphql_introspection'' then
                (case forwardAndReadBody env s ''POST'' path (Reader (Some q)) ''application/json''
                        (header_Get (rq_Header r) ''Authorization'') st of
                   (Inl rep, st1) \<Rightarrow> Return (rep, st1)
                 | (Inr (resp, respBody), st1) \<Rightarrow> Return (writeResponse env s r resp respBody, st1))
              else handleWithDIFC env s no_ctx r path (gm_ToolName m) (gm_Args m)
                     (Some (InjectGuardFields ?gl q (gm_ToolName m))) st))) = Return (rep, st1)"
  proof (cases "selectReadOnlyGraphQLOperation ?gl (the (read_all (rq_Body r)))")
    case None
    with that have "st1 = st" "rep = write_denied" by simp_all
    then show thesis using stopped by (simp add: write_denied_def rejectProxyRequest_def WriteErrorResponse_def)
  next
    case (Some q)
    show thesis
    proof (cases "MatchGraphQL ?gl q")
      case None
      with that Some have "st1 = st" "rep = unknown_graphql" by simp_all
      then show thesis using stopped by (simp add: unknown_graphql_def)
    next
      case m: (Some m)
      show thesis
      proof (cases "gm_ToolName m = ''graphql_introspection''")
        case True
        obtain res st2 where f: "forwardAndReadBody env s ''POST'' path (Reader (Some q)) ''application/json''
            (header_Get (rq_Header r) ''Authorization'') st = (res, st2)" by fastforce
        from that Some m True f have "st1 = st2" by (auto split: sum.splits)
        with introspection[OF m True Some f] show thesis by simp
      next
        case False
        with that Some m have "handleWithDIFC env s no_ctx r path (gm_ToolName m) (gm_Args m)
            (Some (InjectGuardFields ?gl q (gm_ToolName m))) st = Return (rep, st1)" by simp
        with matched[OF m False Some] show thesis .
      qed
    qed
  qed
  show thesis
  proof (cases "rq_Body r")
    case NilBody
    with assms show thesis by (simp add: serve_graphql_def Let_def)
  next
    case NoBody
    show thesis by (rule body) (use assms NoBody in \<open>simp only: serve_graphql_def Let_def body.case\<close>)
  next
    case (Reader x)
    show thesis
    proof (cases x)
      case None
      with assms Reader have "st1 = st" "rep = rejectProxyRequest 400 ''bad_request'' ''failed to read request body''"
        by (simp_all add: serve_graphql_def Let_def)
      then show thesis using stopped by (simp add: rejectProxyRequest_def WriteErrorResponse_def)
    next
      case (Some y)
      show thesis by (rule body) (use assms Reader Some in \<open>simp only: serve_graphql_def Let_def body.case option.case\<close>)
    qed
  qed
qed

text \<open>A request is answered at once, or served with the body the read-only check selected.\<close>

lemma ServeHTTP_cases:
  assumes "ServeHTTP env s r st = Return (rep, st1)"
  obtains (answered) "st1 = st" "rep = health_reply \<or> rep = read_only_denied"
  | (plain) "serve_admitted env s r (raw_path s r) (full_path s r) st = Return (rep, st1)"
  | (selected) b where "validateReadOnlyRequest (pe_lib env) s r (full_path s r) = Some (Some b)" "px_readOnly s"
      "serve_admitted env s (with_body b r) (raw_path s r) (full_path s r) st = Return (rep, st1)"
proof (cases "raw_path s r = ''/health'' \<or> raw_path s r = ''/healthz''")
  case True
  with assms answered show thesis by (simp add: ServeHTTP_def Let_def)
next
  case False
  define lr where "lr = (px_enclave s = None \<and> \<not> px_delegated s \<and> rq_Method r = ''GET'' \<and> raw_path s r = ''/reflect'')"
  note e = assms[unfolded ServeHTTP_def Let_def if_not_P[OF False], folded lr_def]
  show thesis
  proof (cases "px_readOnly s \<and> \<not> lr")
    case True
    note e2 = e[unfolded if_P[OF True]]
    show thesis
    proof (cases "validateReadOnlyRequest (pe_lib env) s r (full_path s r)")
      case None
      with e2 have "rep = read_only_denied" "st1 = st" by simp_all
      then show thesis using answered by blast
    next
      case (Some v)
      with e2 True show thesis by (cases v) (simp_all add: plain selected)
    qed
  next
    case False
    with e plain show thesis by (simp only: if_False)
  qed
qed

section \<open>Policies on upstream requests\<close>

lemma to_lower_Nil [simp]: "to_lower s = [] \<longleftrightarrow> s = []"
  by (cases s) simp_all

lemma plan_repo_nonempty: "routeAllowedBy p c \<Longrightarrow> plan_repo p \<noteq> []"
  by (auto simp: routeAllowedBy_def plan_repo_def FullRepo_def split: option.splits)

text \<open>
  A relation between the states before and after: closed under what handlers do to the state, it
  holds for every request.
\<close>

locale proxy_steps =
  fixes R :: "'h proxy_env \<Rightarrow> proxy_server \<Rightarrow> 'h proxy_state \<Rightarrow> 'h proxy_state \<Rightarrow> bool"
  assumes same: "R env s st st"
    and steps: "R env s st st1 \<Longrightarrow> R env s st1 st2 \<Longrightarrow> R env s st st2"
    and agents: "R env s st (st\<lparr>px_agents := r\<rparr>)"
    and store: "R env s st (st\<lparr>px_store := x\<rparr>)"
    and denials: "repo \<noteq> [] \<Longrightarrow> R env s st (st\<lparr>px_denied := cacheEnclaveVisibilityDenial t repo (px_denied st)\<rparr>)"
    and cleared: "R env s st (st\<lparr>px_denied := clearEnclaveVisibilityDenial repo (px_denied st)\<rparr>)"
    and forward: "forwardToGitHub env s meth path b ct auth st = (resp, st1) \<Longrightarrow> R env s st st1"
begin

lemma labels: "agents_only st st1 \<Longrightarrow> R env s st st1"
  using agents[of env s st "px_agents st1"] by (simp add: agents_only_def)

lemma then_labels: "R env s st st1 \<Longrightarrow> agents_only st1 st2 \<Longrightarrow> R env s st st2"
  by (rule steps[OF _ labels])

lemma forward_read:
  assumes "forwardAndReadBody env s meth path b ct auth st = (res, st1)"
  shows "R env s st st1"
  using assms by (auto simp: forwardAndReadBody_def intro: forward split: prod.splits option.splits)

lemma stream:
  assumes "streamArtifactResponse env s r path auth st = (res, st1)"
  shows "R env s st st1"
  using assms by (auto simp: streamArtifactResponse_def intro: forward split: prod.splits option.splits)

lemma enrichment:
  assumes "restBackendCaller_CallTool env s auth tool args st = (res, st1)"
  shows "R env s st st1"
proof (cases "\<exists>m apiPath. args = JObj m \<and> rest_api_path (pe_lib env) (px_enclave s \<noteq> None) tool m = Inr apiPath")
  case True
  then obtain m apiPath where m: "args = JObj m" "rest_api_path (pe_lib env) (px_enclave s \<noteq> None) tool m = Inr apiPath"
    by blast
  obtain resp st2 where f: "forwardToGitHub env s ''GET'' apiPath NilBody [] (enrichment_auth s auth) st = (resp, st2)"
    by fastforce
  have "st1 = st2"
    using assms m f by (auto simp: restBackendCaller_CallTool_def split: option.splits sum.splits)
  with forward[OF f] show ?thesis by simp
next
  case False
  then show ?thesis
    using assms by (cases args) (auto simp: restBackendCaller_CallTool_def same split: sum.splits)
qed

lemma forwarded:
  assumes "proxy_forward env s r path inp args pre gq st = Return (rep, st1)"
  shows "R env s st st1"
proof -
  let ?auth = "if px_enclave s \<noteq> None then [] else header_Get (rq_Header r) ''Authorization''"
  show ?thesis
  proof (cases "isArtifactDownload (in_ToolName inp) args")
    case True
    obtain res st2 where f: "streamArtifactResponse env s r path ?auth st = (res, st2)" by fastforce
    from assms True f have "st1 = st \<or> agents_only st2 st1"
      unfolding proxy_forward_def Let_def
      by (auto simp: bind_go_Return_iff dest: proxy_phase6_agents split: if_splits sum.splits)
    with stream[OF f] show ?thesis by (auto intro: same then_labels)
  next
    case False
    define x where "x = (case gq of
        Some q \<Rightarrow> forwardAndReadBody env s ''POST'' path (Reader (Some q)) ''application/json'' ?auth st
      | None \<Rightarrow> forwardAndReadBody env s (rq_Method r) path NilBody [] ?auth st)"
    obtain res st2 where x: "x = (res, st2)" by fastforce
    have s2: "R env s st st2"
      using x unfolding x_def by (auto intro: forward_read split: option.splits)
    have "(case res of Inl rep \<Rightarrow> Return (rep, st2)
        | Inr (resp, respBody) \<Rightarrow> proxy_answer env s r inp pre (gq \<noteq> None) resp respBody st2) = Return (rep, st1)"
      using assms False x[unfolded x_def] unfolding proxy_forward_def Let_def
      by (simp split: sum.splits)
    then show ?thesis
      using s2 by (auto dest: proxy_answer_agents intro: then_labels split: sum.splits)
  qed
qed

lemma pipeline:
  assumes "handleWithDIFC env s ctx r path tool args gq st = Return (rep, st1)"
  shows "R env s st st1"
  using assms
proof (cases rule: handleWithDIFC_cases)
  case (passed pre r1)
  from agents forwarded[OF passed(3)] show ?thesis by (rule steps)
qed (simp_all add: same agents)

lemma visibility:
  assumes "enclaveRepositoryIsPublic env s repo st = (ok, st1)" and "repo \<noteq> []"
  shows "R env s st st1"
proof -
  have look: "R env s st0 st1" if "visibility_lookup env s repo st0 = (ok, st1)" for st0
  proof -
    obtain resp st2 where f: "forwardToGitHub env s ''GET'' (''/repos/'' @ repo) NilBody [] [] st0 = (resp, st2)" by fastforce
    with that have "st1 = st2 \<or> st1 = st2\<lparr>px_denied := cacheEnclaveVisibilityDenial (pe_denied_at env) repo (px_denied st2)\<rparr>"
      by (auto simp: visibility_lookup_def split: if_splits)
    with forward[OF f] show ?thesis by (auto intro: steps denials[OF assms(2)])
  qed
  show ?thesis
  proof (cases "map_of (px_denied st) repo")
    case None
    with assms look show ?thesis by (simp add: enclaveRepositoryIsPublic_def)
  next
    case (Some u)
    show ?thesis
    proof (cases "pe_now env < u")
      case True
      with assms Some show ?thesis by (auto simp: enclaveRepositoryIsPublic_def same)
    next
      case False
      with assms Some have "visibility_lookup env s repo (st\<lparr>px_denied := clearEnclaveVisibilityDenial repo (px_denied st)\<rparr>) = (ok, st1)"
        by (simp add: enclaveRepositoryIsPublic_def)
      from cleared look[OF this] show ?thesis by (rule steps)
    qed
  qed
qed

lemma seeding: "R env s st (seeded env ec c st)"
  unfolding seeded_def by (rule agents)

lemma enclave:
  assumes "handleEnclaveRequest env s ec r st = Return (rep, st1)"
  shows "R env s st st1"
  using assms
proof (cases rule: handleEnclaveRequest_cases)
  case (refused path c st2)
  from seeding visibility[OF refused(5) plan_repo_nonempty[OF refused(3)]] show ?thesis
    unfolding refused(6) by (rule steps)
next
  case (assigned path c)
  from seeding pipeline[OF assigned(5)[unfolded enclave_run_def]] show ?thesis by (rule steps)
next
  case (cross path c st2)
  from seeding visibility[OF cross(5) plan_repo_nonempty[OF cross(3)]] have "R env s st st2" by (rule steps)
  then show ?thesis using pipeline[OF cross(6)[unfolded enclave_run_def]] by (rule steps)
qed (simp_all add: same)

lemma delegated:
  assumes "handleDelegatedRequest env s st0 r st = Return (rep, st1)"
  shows "R env s st st1"
proof (cases "plan_ok (planEnclaveRequest r)")
  case False
  with assms show ?thesis by (simp add: handleDelegatedRequest_def Let_def same)
next
  case True
  obtain res store1 where a: "AuthorizeExecutor (pe_sha env) (pe_now env) (header_Get (rq_Header r) ''Authorization'')
      (plan_repo (planEnclaveRequest r)) (ep_toolName (planEnclaveRequest r)) st0 = (res, store1)" by fastforce
  show ?thesis
  proof (cases res)
    case (Inl e)
    with assms True a have "st1 = st\<lparr>px_store := Some store1\<rparr>" by (simp add: handleDelegatedRequest_def Let_def)
    then show ?thesis by (simp add: store)
  next
    case (Inr handle)
    with assms True a have "handleWithDIFC env s \<lparr>pc_agentID = ''delegation:'' @ handle,
        pc_assignedRepo = plan_repo (planEnclaveRequest r)\<rparr> r (ep_fullPath (planEnclaveRequest r))
        (ep_toolName (planEnclaveRequest r)) (ep_args (planEnclaveRequest r)) None (st\<lparr>px_store := Some store1\<rparr>) = Return (rep, st1)"
      by (simp add: handleDelegatedRequest_def Let_def)
    from store pipeline[OF this] show ?thesis by (rule steps)
  qed
qed

lemma graphql:
  assumes "serve_graphql env s r path st = Return (rep, st1)"
  shows "R env s st st1"
  using assms
proof (cases rule: serve_graphql_cases)
  case (introspection q m res st2)
  from forward_read[OF introspection(4)] show ?thesis by (simp add: introspection(5))
next
  case (matched q m)
  from pipeline[OF matched(4)] show ?thesis .
qed (simp add: same)

lemma unrecognized:
  assumes "handleUnrecognizedPassthrough env s r raw path st = Return (rep, st1)"
  shows "R env s st st1"
proof -
  obtain res st2 where f: "forwardAndReadBody env s (rq_Method r) path NilBody [] (header_Get (rq_Header r) ''Authorization'') st
      = (res, st2)" by fastforce
  obtain ref r1 where g: "ar_GetOrCreate proxyAgentID (px_agents st2) = (ref, r1)" by fastforce
  have "agents_only st2 st1"
    using assms f g
    by (cases res) (auto simp: handleUnrecognizedPassthrough_def Let_def bind_go_Return_iff agents_only_def
        dest!: proxy_phase6_agents)
  with forward_read[OF f] show ?thesis by (rule then_labels)
qed

lemma rest:
  assumes "serve_rest env s r raw path st = Return (rep, st1)"
  shows "R env s st st1"
  using assms by (auto simp: serve_rest_def intro: unrecognized pipeline split: option.splits)

lemma unfiltered:
  assumes "proxy_passthrough env s r path st = (rep, st1)"
  shows "R env s st st1"
proof -
  obtain res st2 where f: "forwardAndReadBody env s (rq_Method r) path (rq_Body r) (header_Get (rq_Header r) ''Content-Type'')
             (header_Get (rq_Header r) ''Authorization'') st = (res, st2)" by fastforce
  have "st1 = st2" using assms f by (cases res) (auto simp: proxy_passthrough_def)
  with forward_read[OF f] show ?thesis by simp
qed

lemma open_profile:
  assumes "serve_open env s r raw path st = Return (rep, st1)"
  shows "R env s st st1"
proof (cases "rq_Method r = ''GET'' \<and> raw = ''/reflect''")
  case True
  with assms show ?thesis by (auto simp: serve_open_def same)
next
  case nr: False
  show ?thesis
  proof (cases "rq_Method r = ''GET'' \<and> isMetadataPassthroughPath raw")
    case True
    have "proxy_passthrough env s r path st = (rep, st1)"
      using assms unfolding serve_open_def if_not_P[OF nr] if_P[OF True] by simp
    then show ?thesis by (rule unfiltered)
  next
    case False
    with assms nr show ?thesis
      unfolding serve_open_def Let_def by (auto intro: graphql rest same split: if_splits)
  qed
qed

lemma admitted:
  assumes "serve_admitted env s r raw path st = Return (rep, st1)"
  shows "R env s st st1"
  using assms unfolding serve_admitted_def
  by (auto intro: enclave delegated open_profile split: option.splits if_splits)

lemma serve:
  assumes "ServeHTTP env s r st = Return (rep, st1)"
  shows "R env s st st1"
  using assms by (cases rule: ServeHTTP_cases) (auto intro: admitted same)

end

text \<open>A property of the requests that leave \<open>forwardToGitHub\<close> is one of everything that is sent.\<close>

locale upstream_policy =
  fixes P :: "proxy_lib \<Rightarrow> proxy_server \<Rightarrow> upstream_request \<Rightarrow> bool"
  assumes admits: "forward_request lib s meth path b ct auth = Some req \<Longrightarrow> P lib s req"

sublocale upstream_policy \<subseteq> sent: proxy_steps "\<lambda>env s. sends (P (pe_lib env) s)"
proof
  fix env :: "'a proxy_env" and s st st1 meth path b ct auth resp
  assume "forwardToGitHub env s meth path b ct auth st = (resp, st1)"
  then show "sends (P (pe_lib env) s) st st1"
    using admits by (auto simp: forwardToGitHub_def sends_def split: option.splits)
qed (auto intro: sends_same sends_trans)

section \<open>Two policies\<close>

definition only_reads :: "proxy_lib \<Rightarrow> proxy_server \<Rightarrow> upstream_request \<Rightarrow> bool" where
  "only_reads lib s req \<longleftrightarrow>
     (px_readOnly s \<longrightarrow>
        \<not> ur_FollowRedirects req \<and>
        (\<exists>bytes. read_all (ur_Body req) = Some bytes \<and>
           reads_only (pl_graphql lib) (ur_Method req) (ur_Path req) bytes))"

definition own_credential :: "proxy_lib \<Rightarrow> proxy_server \<Rightarrow> upstream_request \<Rightarrow> bool" where
  "own_credential lib s req \<longleftrightarrow>
     (px_enclave s \<noteq> None \<or> px_delegated s \<longrightarrow>
        header_Get (ur_Header req) ''Authorization'' = ''token '' @ px_githubToken s)"

lemma header_Get_Set_same: "header_Get (header_Set k v h) k = v"
  by (simp add: header_Get_def header_Values_def header_Set_def update_conv')

lemma header_Get_Set_other:
  "CanonicalHeaderKey k \<noteq> CanonicalHeaderKey k' \<Longrightarrow> header_Get (header_Set k v h) k' = header_Get h k'"
  by (simp add: header_Get_def header_Values_def header_Set_def update_conv')

lemma canonical_keys:
  "CanonicalHeaderKey ''Authorization'' = ''Authorization''" "CanonicalHeaderKey ''Accept'' = ''Accept''"
  "CanonicalHeaderKey ''User-Agent'' = ''User-Agent''" "CanonicalHeaderKey ''Content-Type'' = ''Content-Type''"
  by code_simp+

interpretation read_only: upstream_policy only_reads
proof
  fix lib s meth path b ct auth req
  assume f: "forward_request lib s meth path b ct auth = Some req"
  show "only_reads lib s req"
  proof (cases "px_readOnly s")
    case True
    from forward_request_reads_only[OF f True] show ?thesis unfolding only_reads_def by metis
  qed (simp add: only_reads_def)
qed

interpretation credential: upstream_policy own_credential
proof
  fix lib s meth path b ct auth req
  assume "forward_request lib s meth path b ct auth = Some req"
  then obtain b1 where q: "req = upstream_request_of lib s meth path b1 ct auth"
    by (auto simp: forward_request_def split: if_splits option.splits)
  show "own_credential lib s req"
    unfolding q own_credential_def upstream_request_of_def Let_def ApplyGitHubAPIHeaders_def upstream_auth_def
    by (auto simp: header_Get_Set_same header_Get_Set_other canonical_keys)
qed

section \<open>The cache of denied repositories\<close>

definition denials_ok :: "(string \<times> time) list \<Rightarrow> bool" where
  "denials_ok m \<longleftrightarrow> distinct (keys_of m) \<and> [] \<notin> set (keys_of m) \<and> length m \<le> maxEnclaveVisibilityDeniedCacheItems"

text \<open>The scan for the oldest entry finds one of the keys.\<close>

lemma oldest_fold:
  "[] \<notin> set (keys_of m) \<Longrightarrow>
     fst (fold (\<lambda>(k, u) (x, y). if x = [] \<or> u < y then (k, u) else (x, y)) m (a, v)) \<in> insert a (set (keys_of m)) \<and>
     (a \<noteq> [] \<or> m \<noteq> [] \<longrightarrow>
        fst (fold (\<lambda>(k, u) (x, y). if x = [] \<or> u < y then (k, u) else (x, y)) m (a, v)) \<noteq> [])"
proof (induction m arbitrary: a v)
  case (Cons p m)
  obtain k u where p: "p = (k, u)" by fastforce
  from Cons.prems p have k: "k \<noteq> []" "[] \<notin> set (keys_of m)" by auto
  show ?case
    using Cons.IH[OF k(2), of k u] Cons.IH[OF k(2), of a v] k(1) unfolding p by auto
qed simp

lemma oldest_denial_key:
  assumes "[] \<notin> set (keys_of m)" and "m \<noteq> []"
  shows "oldest_denial m \<in> set (keys_of m)" and "oldest_denial m \<noteq> []"
  using oldest_fold[OF assms(1), of "[]" 0] assms(2) unfolding oldest_denial_def by auto

lemma keys_adelete: "set (keys_of (AList.delete k m)) = set (keys_of m) - {k}"
  by (simp add: delete_keys)

lemma denials_ok_cache:
  assumes "denials_ok m" and "repo \<noteq> []"
  shows "denials_ok (cacheEnclaveVisibilityDenial now repo m)"
proof -
  define m1 where "m1 = filter (\<lambda>(k, deniedUntil). now < deniedUntil) m"
  define m2 where "m2 = (if length m1 \<ge> maxEnclaveVisibilityDeniedCacheItems
      then (if oldest_denial m1 \<noteq> [] then AList.delete (oldest_denial m1) m1 else m1) else m1)"
  have r: "cacheEnclaveVisibilityDenial now repo m = AList.update repo (now + enclaveVisibilityDeniedCacheTTL) m2"
    unfolding cacheEnclaveVisibilityDenial_def Let_def m2_def m1_def ..
  have k1: "distinct (keys_of m1)" "[] \<notin> set (keys_of m1)" "length m1 \<le> maxEnclaveVisibilityDeniedCacheItems"
    using assms(1) le_trans[OF length_filter_le] unfolding denials_ok_def m1_def
    by (auto simp: distinct_map_filter)
  have l2: "length m2 < maxEnclaveVisibilityDeniedCacheItems"
  proof (cases "length m1 \<ge> maxEnclaveVisibilityDeniedCacheItems")
    case True
    then have "m1 \<noteq> []" by (auto simp: maxEnclaveVisibilityDeniedCacheItems_def)
    from oldest_denial_key[OF k1(2) this] length_delete_present True k1(3)
    show ?thesis unfolding m2_def by fastforce
  qed (simp add: m2_def)
  have "distinct (keys_of m2)" "[] \<notin> set (keys_of m2)"
    using k1(1,2) unfolding m2_def by (simp_all add: distinct_keys_delete keys_adelete del: set_map)
  moreover have "length (AList.update repo (now + enclaveVisibilityDeniedCacheTTL) m2) \<le> maxEnclaveVisibilityDeniedCacheItems"
    using l2 length_update_le[of repo "now + enclaveVisibilityDeniedCacheTTL" m2] by simp
  ultimately show ?thesis
    using assms(2) unfolding r denials_ok_def by (simp add: distinct_keys_update)
qed

lemma denials_ok_clear: "denials_ok m \<Longrightarrow> denials_ok (clearEnclaveVisibilityDenial repo m)"
  unfolding denials_ok_def clearEnclaveVisibilityDenial_def
  by (simp add: distinct_keys_delete keys_adelete le_trans[OF length_adelete_le] del: set_map)

interpretation denial_cache: proxy_steps "\<lambda>env s st st1. denials_ok (px_denied st) \<longrightarrow> denials_ok (px_denied st1)"
  by unfold_locales (auto simp: denials_ok_cache denials_ok_clear forwardToGitHub_def split: option.splits)

section \<open>One exchange\<close>

text \<open>The history grows by at most one request, and a response comes with one.\<close>

definition one_request :: "proxy_lib \<Rightarrow> proxy_server \<Rightarrow> string \<Rightarrow> string \<Rightarrow> 'h proxy_state \<Rightarrow> 'h proxy_state \<Rightarrow> bool" where
  "one_request lib s meth path st st1 \<longleftrightarrow>
     px_sent st1 = px_sent st \<or>
     (\<exists>req b ct auth. forward_request lib s meth path b ct auth = Some req \<and> px_sent st1 = px_sent st @ [req])"

lemma forward_one:
  "forwardToGitHub env s meth path b ct auth st = (resp, st1) \<Longrightarrow> one_request (pe_lib env) s meth path st st1"
  by (auto simp: forwardToGitHub_def one_request_def split: option.splits)

lemma forward_answered:
  assumes "forwardToGitHub env s meth path b ct auth st = (Some resp, st1)"
  obtains req where "forward_request (pe_lib env) s meth path b ct auth = Some req"
    "px_sent st1 = px_sent st @ [req]" "pe_network env (px_sent st) req = Some resp"
  using assms by (auto simp: forwardToGitHub_def split: option.splits)

lemma request_shape:
  assumes "forward_request lib s meth path b ct auth = Some req"
  shows "ur_Method req = meth" and "ur_Path req = path" and "ur_URL req = upstream_url (px_githubAPIURL s) path"
  using assms by (auto simp: forward_request_def upstream_request_of_def Let_def split: if_splits option.splits)

lemma one_request_agents: "one_request lib s m p st st1 \<Longrightarrow> agents_only st1 st2 \<Longrightarrow> one_request lib s m p st st2"
proof -
  assume o: "one_request lib s m p st st1" and a: "agents_only st1 st2"
  have "px_sent st2 = px_sent st1" using arg_cong[OF a[unfolded agents_only_def], of px_sent] by simp
  with o show ?thesis by (simp add: one_request_def)
qed

lemma rest_forward_one:
  assumes "proxy_forward env s r path inp args pre None st = Return (rep, st1)"
  shows "one_request (pe_lib env) s (rq_Method r) path st st1"
proof -
  let ?auth = "if px_enclave s \<noteq> None then [] else header_Get (rq_Header r) ''Authorization''"
  obtain resp st2 where f: "forwardToGitHub env s (rq_Method r) path NilBody [] ?auth st = (resp, st2)" by fastforce
  note o = forward_one[OF f]
  show ?thesis
  proof (cases "isArtifactDownload (in_ToolName inp) args")
    case True
    with assms f have "st1 = st \<or> agents_only st2 st1"
      unfolding proxy_forward_def Let_def streamArtifactResponse_def
      by (auto simp: bind_go_Return_iff dest: proxy_phase6_agents split: if_splits option.splits)
    then show ?thesis
    proof
      assume "st1 = st" then show ?thesis by (simp add: one_request_def)
    next
      assume "agents_only st2 st1" with o show ?thesis by (rule one_request_agents)
    qed
  next
    case False
    have "(case (case resp of None \<Rightarrow> (Inl (rejectProxyRequest 502 ''bad_gateway'' ''upstream request failed''), st2)
          | Some x \<Rightarrow> (case us_Body x of
              None \<Rightarrow> (Inl (rejectProxyRequest 502 ''bad_gateway'' ''failed to read upstream response''), st2)
            | Some b \<Rightarrow> (Inr (x, b), st2))) of
        (Inl rep, st1) \<Rightarrow> Return (rep, st1)
      | (Inr (resp, b), st1) \<Rightarrow> proxy_answer env s r inp pre ((None :: string option) \<noteq> None) resp b st1) = Return (rep, st1)"
      using assms False f unfolding proxy_forward_def Let_def forwardAndReadBody_def
      by (simp only: if_False option.case prod.case)
    then have "agents_only st2 st1"
      by (auto dest: proxy_answer_agents split: option.splits sum.splits prod.splits)
    with o show ?thesis by (rule one_request_agents)
  qed
qed

lemma rest_pipeline_one:
  assumes "handleWithDIFC env s ctx r path tool args None st = Return (rep, st1)"
  shows "one_request (pe_lib env) s (rq_Method r) path st st1"
  using assms
proof (cases rule: handleWithDIFC_cases)
  case (passed pre r1)
  from rest_forward_one[OF passed(3)] show ?thesis by (simp add: one_request_def)
qed (simp_all add: one_request_def)

lemma visibility_one:
  assumes "enclaveRepositoryIsPublic env s repo st = (ok, st1)"
  shows "one_request (pe_lib env) s ''GET'' (''/repos/'' @ repo) st st1"
    and "ok \<Longrightarrow> \<exists>req resp. px_sent st1 = px_sent st @ [req] \<and> ur_Path req = ''/repos/'' @ repo \<and>
      pe_network env (px_sent st) req = Some resp \<and> says_public (pe_lib env) resp"
proof -
  have look: "one_request (pe_lib env) s ''GET'' (''/repos/'' @ repo) st0 st1 \<and>
      (ok \<longrightarrow> (\<exists>req resp. px_sent st1 = px_sent st0 @ [req] \<and> ur_Path req = ''/repos/'' @ repo \<and>
        pe_network env (px_sent st0) req = Some resp \<and> says_public (pe_lib env) resp))"
    if l: "visibility_lookup env s repo st0 = (ok, st1)" for st0
  proof -
    obtain resp st2 where f: "forwardToGitHub env s ''GET'' (''/repos/'' @ repo) NilBody [] [] st0 = (resp, st2)" by fastforce
    from l f have e: "px_sent st1 = px_sent st2" and ok: "ok \<longleftrightarrow> (\<exists>x. resp = Some x \<and> says_public (pe_lib env) x)"
      by (auto simp: visibility_lookup_def split: if_splits option.splits)
    show ?thesis
    proof (cases ok)
      case True
      with ok obtain x where x: "resp = Some x" "says_public (pe_lib env) x" by blast
      from forward_answered[OF f[unfolded x(1)]] obtain req where
        "forward_request (pe_lib env) s ''GET'' (''/repos/'' @ repo) NilBody [] [] = Some req"
        "px_sent st2 = px_sent st0 @ [req]" "pe_network env (px_sent st0) req = Some x" .
      with e x(2) forward_one[OF f] request_shape(2) show ?thesis by (auto simp: one_request_def)
    next
      case False
      with forward_one[OF f] e show ?thesis by (simp add: one_request_def)
    qed
  qed
  have "one_request (pe_lib env) s ''GET'' (''/repos/'' @ repo) st st1 \<and>
      (ok \<longrightarrow> (\<exists>req resp. px_sent st1 = px_sent st @ [req] \<and> ur_Path req = ''/repos/'' @ repo \<and>
        pe_network env (px_sent st) req = Some resp \<and> says_public (pe_lib env) resp))"
  proof (cases "map_of (px_denied st) repo")
    case None
    with assms look show ?thesis by (simp add: enclaveRepositoryIsPublic_def)
  next
    case (Some u)
    show ?thesis
    proof (cases "pe_now env < u")
      case True
      with assms Some show ?thesis by (auto simp: enclaveRepositoryIsPublic_def one_request_def)
    next
      case False
      with assms Some have "visibility_lookup env s repo (st\<lparr>px_denied := clearEnclaveVisibilityDenial repo (px_denied st)\<rparr>) = (ok, st1)"
        by (simp add: enclaveRepositoryIsPublic_def)
      from look[OF this] show ?thesis by (simp add: one_request_def)
    qed
  qed
  then show "one_request (pe_lib env) s ''GET'' (''/repos/'' @ repo) st st1"
    and "ok \<Longrightarrow> \<exists>req resp. px_sent st1 = px_sent st @ [req] \<and> ur_Path req = ''/repos/'' @ repo \<and>
      pe_network env (px_sent st) req = Some resp \<and> says_public (pe_lib env) resp" by blast+
qed

section \<open>Plans\<close>

lemma plan_route:
  assumes "routeAllowedBy (planEnclaveRequestForPath r path) c"
  obtains q rt where "rq_Method r = ''GET''" "ParseQuery (rq_RawQuery r) = Some q" "MatchEnclaveRoute path q = Inr rt"
    "er_Operation rt \<in> set (cl_Operations c)" "plan_repo (planEnclaveRequestForPath r path) = FullRepo rt"
    "ep_fullPath (planEnclaveRequestForPath r path) = path @ (if rq_RawQuery r \<noteq> [] then ''?'' @ rq_RawQuery r else [])"
proof (cases "rq_Method r \<noteq> ''GET'' \<or> hasEnclaveGETBody r")
  case True
  with assms show thesis by (simp add: planEnclaveRequestForPath_def Let_def routeAllowedBy_def)
next
  case g: False
  show thesis
  proof (cases "ParseQuery (rq_RawQuery r)")
    case None
    with assms g show thesis by (simp add: planEnclaveRequestForPath_def Let_def routeAllowedBy_def)
  next
    case (Some q)
    show thesis
    proof (cases "MatchEnclaveRoute path q")
      case (Inl e)
      with assms g Some show thesis by (simp add: planEnclaveRequestForPath_def Let_def routeAllowedBy_def)
    next
      case (Inr rt)
      obtain tool args where t: "enclaveToolAndArgs rt = (tool, args)" by fastforce
      have "tool \<noteq> []"
        using t MatchEnclaveRoute_Inr(2)[OF Inr]
        by (auto simp: enclaveToolAndArgs_def validOperations_def split: if_splits)
      then have p: "planEnclaveRequestForPath r path = \<lparr>ep_path = path,
          ep_fullPath = path @ (if rq_RawQuery r \<noteq> [] then ''?'' @ rq_RawQuery r else []), ep_route = Some rt,
          ep_toolName = tool, ep_args = args, ep_denial = enclaveDenialNone\<rparr>"
        using g Some Inr t by (simp add: planEnclaveRequestForPath_def Let_def)
      with assms that g Some Inr show thesis
        by (simp add: routeAllowedBy_def plan_repo_def claims_AllowsOperation_def)
    qed
  qed
qed

section \<open>What an enclave request sends\<close>

lemma one_request_list:
  assumes "one_request lib s m p st st1"
  obtains xs where "px_sent st1 = px_sent st @ xs" "length xs \<le> 1" "list_all (\<lambda>req. ur_Method req = m \<and> ur_Path req = p) xs"
proof (cases "px_sent st1 = px_sent st")
  case True
  then show thesis by (intro that[of "[]"]) simp_all
next
  case False
  with assms obtain req b ct auth where "forward_request lib s m p b ct auth = Some req" "px_sent st1 = px_sent st @ [req]"
    by (auto simp: one_request_def)
  with request_shape(1,2) show thesis by (intro that[of "[req]"]) simp_all
qed

lemma enclave_run_one:
  assumes "enclave_run env s r c plan st = Return (rep, st1)"
  obtains reads where "px_sent st1 = px_sent st @ reads" "length reads \<le> 1"
    "list_all (\<lambda>req. ur_Method req = rq_Method r \<and> ur_Path req = ep_fullPath plan) reads"
  using one_request_list[OF rest_pipeline_one[OF assms[unfolded enclave_run_def]]] .

lemma enclave_contact:
  assumes "handleEnclaveRequest env s ec r st = Return (rep, st1)"
  obtains (silent) "px_sent st1 = px_sent st"
  | (contact) path c q rt lookups reads where
      "enclavePath (rq_Path r) (rq_RawPath r) = Some path" "enclave_claims env ec r = Some c" "rq_Method r = ''GET''"
      "ParseQuery (rq_RawQuery r) = Some q" "MatchEnclaveRoute path q = Inr rt" "er_Operation rt \<in> set (cl_Operations c)"
      "px_sent st1 = px_sent st @ lookups @ reads" "length lookups \<le> 1" "length reads \<le> 1"
      "list_all (\<lambda>req. ur_Method req = ''GET'' \<and> ur_Path req = ''/repos/'' @ FullRepo rt) lookups"
      "list_all (\<lambda>req. ur_Method req = ''GET'' \<and>
         ur_Path req = path @ (if rq_RawQuery r \<noteq> [] then ''?'' @ rq_RawQuery r else [])) reads"
      "reads \<noteq> [] \<and> FullRepo rt \<noteq> cl_Repo c \<longrightarrow>
         (\<exists>req resp. lookups = [req] \<and> pe_network env (px_sent st) req = Some resp \<and> says_public (pe_lib env) resp)"
  using assms
proof (cases rule: handleEnclaveRequest_cases)
  case denied
  then show thesis using silent by simp
next
  case (refused path c st2)
  from plan_route[OF refused(3)] obtain q rt where p: "rq_Method r = ''GET''" "ParseQuery (rq_RawQuery r) = Some q"
    "MatchEnclaveRoute path q = Inr rt" "er_Operation rt \<in> set (cl_Operations c)"
    "plan_repo (planEnclaveRequestForPath r path) = FullRepo rt" by blast
  from one_request_list[OF visibility_one(1)[OF refused(5)]] obtain xs where
    "px_sent st2 = px_sent st @ xs" "length xs \<le> 1" "list_all (\<lambda>req. ur_Method req = ''GET'' \<and> ur_Path req = ''/repos/'' @ FullRepo rt) xs"
    unfolding p(5) by auto
  then show thesis using refused(6) by (intro contact[OF refused(1,2) p(1-4), of xs "[]"]) simp_all
next
  case (assigned path c)
  from plan_route[OF assigned(3)] obtain q rt where p: "rq_Method r = ''GET''" "ParseQuery (rq_RawQuery r) = Some q"
    "MatchEnclaveRoute path q = Inr rt" "er_Operation rt \<in> set (cl_Operations c)"
    "plan_repo (planEnclaveRequestForPath r path) = FullRepo rt"
    "ep_fullPath (planEnclaveRequestForPath r path) = path @ (if rq_RawQuery r \<noteq> [] then ''?'' @ rq_RawQuery r else [])" .
  from enclave_run_one[OF assigned(5)] obtain xs where "px_sent st1 = px_sent st @ xs" "length xs \<le> 1"
    "list_all (\<lambda>req. ur_Method req = ''GET'' \<and> ur_Path req = path @ (if rq_RawQuery r \<noteq> [] then ''?'' @ rq_RawQuery r else [])) xs"
    unfolding p(1,6) by auto
  then show thesis using assigned(4) p(5) by (intro contact[OF assigned(1,2) p(1-4), of "[]" xs]) simp_all
next
  case (cross path c st2)
  from plan_route[OF cross(3)] obtain q rt where p: "rq_Method r = ''GET''" "ParseQuery (rq_RawQuery r) = Some q"
    "MatchEnclaveRoute path q = Inr rt" "er_Operation rt \<in> set (cl_Operations c)"
    "plan_repo (planEnclaveRequestForPath r path) = FullRepo rt"
    "ep_fullPath (planEnclaveRequestForPath r path) = path @ (if rq_RawQuery r \<noteq> [] then ''?'' @ rq_RawQuery r else [])" .
  from visibility_one(2)[OF cross(5) TrueI] obtain req resp where look:
    "px_sent st2 = px_sent st @ [req]" "ur_Path req = ''/repos/'' @ FullRepo rt"
    "pe_network env (px_sent st) req = Some resp" "says_public (pe_lib env) resp" unfolding p(5) by auto
  have get: "ur_Method req = ''GET''"
  proof -
    obtain xs where xs: "px_sent st2 = px_sent (seeded env ec c st) @ xs"
      "list_all (\<lambda>req. ur_Method req = ''GET'' \<and> ur_Path req = ''/repos/'' @ plan_repo (planEnclaveRequestForPath r path)) xs"
      using one_request_list[OF visibility_one(1)[OF cross(5)]] by blast
    from xs(1) look(1) have "xs = [req]" by simp
    with xs(2) show ?thesis by simp
  qed
  from enclave_run_one[OF cross(6)] obtain xs where "px_sent st1 = px_sent st2 @ xs" "length xs \<le> 1"
    "list_all (\<lambda>req. ur_Method req = ''GET'' \<and> ur_Path req = path @ (if rq_RawQuery r \<noteq> [] then ''?'' @ rq_RawQuery r else [])) xs"
    unfolding p(1,6) by auto
  then show thesis using look get by (intro contact[OF cross(1,2) p(1-4), of "[req]" xs]) simp_all
qed

section \<open>Bodies\<close>

lemma reply_bodies [simp]:
  "rp_Body (WriteJSONResponse w n b) = b"
  "rp_Body (WriteErrorResponse w n code msg) = ErrorBody code msg"
  "rp_Body writeEnclaveDenied = ErrorBody ''enclave_access_denied'' ''enclave GitHub access denied''"
  "rp_Body (rejectProxyRequest n code msg) = ErrorBody code msg"
  "rp_Body (writeDIFCForbidden w msg) = ErrorBody ''difc_forbidden'' msg"
  "rp_Body (denyResponseAccess w msg) = ErrorBody ''difc_forbidden'' (''DIFC policy violation: '' @ msg)"
  "rp_Body (writeResponse env s r resp x) = RawBody x"
  "rp_Body (writeEmptyResponse env s r resp original) = JsonBody (empty_like original)"
  by (simp_all add: WriteJSONResponse_def WriteErrorResponse_def writeEnclaveDenied_def rejectProxyRequest_def
      writeDIFCForbidden_def denyResponseAccess_def writeResponse_def writeEmptyResponse_def)

lemma final_reply_body:
  "rp_Body (final_reply env s r resp b final) =
     (case final of None \<Rightarrow> RawBody b
      | Some v \<Rightarrow> if pl_encode (pe_lib env) v = None
                  then ErrorBody ''internal_error'' ''failed to serialize filtered response'' else JsonBody v)"
  by (simp add: final_reply_def split: option.splits)

lemma proxy_final_early:
  "proxy_final env s r resp gq data pre ld fr = Inl early \<Longrightarrow>
     (\<exists>msg. rp_Body early = ErrorBody ''difc_forbidden'' msg) \<or> rp_Body early = JsonBody (empty_like (Some data))"
  by (auto simp: proxy_final_def Let_def split: option.splits if_splits)

lemma proxy_final_original:
  "proxy_final env s r resp gq data pre ld fr = Inr None \<Longrightarrow>
     gq \<and> ld \<noteq> None \<and> (case Filtered fr of None \<Rightarrow> True | Some fil \<Rightarrow> filtered fil = [])"
  by (auto simp: proxy_final_def Let_def GetFilteredCount_def split: option.splits if_splits)

lemma proxy_final_rest:
  "proxy_final env s r resp False data pre ld fr = Inr (Some v) \<Longrightarrow>
     (ld = None \<and> IsAllowed (pre_EvalResult pre) \<and> v = data) \<or>
     (\<exists>d fil. ld = Some d \<and> Filtered fr = Some fil \<and> \<not> Blocked fr \<and>
        v = unwrapSingleObject data (rewrapSearchResponse data (case FinalResult fr of Some x \<Rightarrow> x | None \<Rightarrow> JNull))) \<or>
     (\<exists>d. ld = Some d \<and> Filtered fr = None \<and> v = (case FinalResult fr of Some x \<Rightarrow> x | None \<Rightarrow> JNull))"
  by (auto simp: proxy_final_def Let_def split: option.splits if_splits)

lemma coarse_write_body:
  "coarse_write env s r pre w resp b st = Return (rep, st1) \<Longrightarrow>
     (rp_Body rep = RawBody b \<and> IsAllowed (pre_EvalResult pre)) \<or> (\<exists>msg. rp_Body rep = ErrorBody ''difc_forbidden'' msg)"
  by (auto simp: coarse_write_def bind_go_Return_iff split: if_splits)

lemma opaque_answer_body:
  "opaque_answer env s r pre bl must resp b st = Return (rep, st1) \<Longrightarrow>
     (rp_Body rep = RawBody b \<and> IsAllowed (pre_EvalResult pre)) \<or> (\<exists>code msg. rp_Body rep = ErrorBody code msg)"
  by (auto simp: opaque_answer_def dest: coarse_write_body split: if_splits)

text \<open>What Phase 5 made of a response that Phase 4 labelled.\<close>

definition filtered_by ::
  "proxy_server \<Rightarrow> pipeline_input \<Rightarrow> pre_result \<Rightarrow> agent_registry \<Rightarrow> json \<Rightarrow> labeled_data option \<Rightarrow> filter_result \<Rightarrow> bool" where
  "filtered_by s inp pre r data ld fr \<longleftrightarrow>
     RunPipelinePhase4 inp pre data = Inr ld \<and>
     FilterAndConvertLabeledData (in_Evaluator inp) (agS (heap r ! pre_AgentLabels pre))
       (agI (heap r ! pre_AgentLabels pre)) (pre_Operation pre) ld (px_Mode s) = Return (Inr fr)"

lemma proxy_filter_raw:
  assumes "proxy_filter env s r inp pre gq resp b data st = Return (rep, st1)" and "rp_Body rep = RawBody x"
  shows "x = b \<and> (IsAllowed (pre_EvalResult pre) \<or>
    (gq \<and> (\<exists>d fr. filtered_by s inp pre (px_agents st) data (Some d) fr \<and>
       (case Filtered fr of None \<Rightarrow> True | Some fil \<Rightarrow> filtered fil = []))))"
  using assms(1)
proof (cases rule: proxy_filter_cases)
  case (filtered ld fr final)
  show ?thesis
  proof (cases final)
    case None
    from proxy_final_original[OF filtered(3)[unfolded None]] filtered assms(2) None show ?thesis
      unfolding filtered_by_def by (auto simp: final_reply_body)
  next
    case (Some v)
    with assms(2) filtered(5) show ?thesis by (simp add: final_reply_body split: if_splits)
  qed
next
  case (early ld fr)
  from proxy_final_early[OF early(3)] assms(2) show ?thesis by auto
qed (use assms(2) in auto)

lemma proxy_filter_json:
  assumes "proxy_filter env s r inp pre False resp b data st = Return (rep, st1)" and "rp_Body rep = JsonBody v"
  shows "v = empty_like (Some data) \<or>
    (\<exists>ld fr. filtered_by s inp pre (px_agents st) data ld fr \<and>
       proxy_final env s r resp False data pre ld fr = Inr (Some v))"
  using assms(1)
proof (cases rule: proxy_filter_cases)
  case (filtered ld fr final)
  show ?thesis
  proof (cases final)
    case None
    with assms(2) filtered(5) show ?thesis by (simp add: final_reply_body)
  next
    case (Some w)
    with assms(2) filtered(5) have "w = v" by (simp add: final_reply_body split: if_splits)
    with filtered(1,2,3) Some show ?thesis unfolding filtered_by_def by blast
  qed
next
  case (early ld fr)
  from proxy_final_early[OF early(3)] assms(2) show ?thesis by auto
qed (use assms(2) in auto)

lemma proxy_answer_raw:
  assumes "proxy_answer env s r inp pre gq resp b st = Return (rep, st1)" and "rp_Body rep = RawBody x"
  shows "x = b \<and> (IsAllowed (pre_EvalResult pre) \<or>
    (gq \<and> (\<exists>data d fr. pl_decode (pe_lib env) b = Some data \<and> filtered_by s inp pre (px_agents st) data (Some d) fr \<and>
       (case Filtered fr of None \<Rightarrow> True | Some fil \<Rightarrow> filtered fil = []))))"
  using assms(1)
proof (cases rule: proxy_answer_cases)
  case (coarse w)
  from coarse_write_body[OF coarse] assms(2) show ?thesis by auto
next
  case (opaque bl must)
  from opaque_answer_body[OF opaque] assms(2) show ?thesis by auto
next
  case (filtered data)
  from proxy_filter_raw[OF filtered(3) assms(2)] filtered(2) show ?thesis by blast
qed (use assms(2) in simp_all)

lemma proxy_answer_json:
  assumes "proxy_answer env s r inp pre False resp b st = Return (rep, st1)" and "rp_Body rep = JsonBody v"
  shows "\<exists>data. pl_decode (pe_lib env) b = Some data \<and>
    (v = empty_like (Some data) \<or>
     (\<exists>ld fr. filtered_by s inp pre (px_agents st) data ld fr \<and>
        proxy_final env s r resp False data pre ld fr = Inr (Some v)))"
  using assms(1)
proof (cases rule: proxy_answer_cases)
  case (coarse w)
  from coarse_write_body[OF coarse] assms(2) show ?thesis by auto
next
  case (opaque bl must)
  from opaque_answer_body[OF opaque] assms(2) show ?thesis by auto
next
  case (filtered data)
  from proxy_filter_json[OF filtered(3) assms(2)] filtered(2) show ?thesis by blast
qed (use assms(2) in simp_all)

lemma forward_agents: "forwardToGitHub env s m p b ct a st = (resp, st1) \<Longrightarrow> px_agents st1 = px_agents st"
  by (auto simp: forwardToGitHub_def split: option.splits)

lemma forward_read_agents:
  "forwardAndReadBody env s m p b ct a st = (res, st1) \<Longrightarrow> px_agents st1 = px_agents st"
  by (auto simp: forwardAndReadBody_def dest: forward_agents split: prod.splits option.splits)

lemma forward_read_answered:
  assumes "forwardAndReadBody env s m p b ct a st = (Inr (resp, body), st1)"
  obtains req where "forward_request (pe_lib env) s m p b ct a = Some req"
    "px_sent st1 = px_sent st @ [req]" "pe_network env (px_sent st) req = Some resp" "us_Body resp = Some body"
proof -
  from assms have "forwardToGitHub env s m p b ct a st = (Some resp, st1)" "us_Body resp = Some body"
    by (auto simp: forwardAndReadBody_def split: prod.splits option.splits)
  with forward_answered[of env s m p b ct a st resp st1] that show thesis by blast
qed

text \<open>A reply that is not an error is a streamed artifact or answers an upstream response.\<close>

lemma proxy_forward_cases:
  assumes "proxy_forward env s r path inp args pre gq st = Return (rep, st1)"
  obtains (refused) code msg where "rp_Body rep = ErrorBody code msg"
  | (streamed) "isArtifactDownload (in_ToolName inp) args" "IsAllowed (pre_EvalResult pre)"
      "\<exists>x. rp_Body rep = RawBody x"
  | (answered) resp b st2 req where "px_agents st2 = px_agents st" "\<not> isArtifactDownload (in_ToolName inp) args"
      "px_sent st2 = px_sent st @ [req]" "pe_network env (px_sent st) req = Some resp" "us_Body resp = Some b"
      "proxy_answer env s r inp pre (gq \<noteq> None) resp b st2 = Return (rep, st1)"
proof -
  let ?auth = "if px_enclave s \<noteq> None then [] else header_Get (rq_Header r) ''Authorization''"
  show thesis
  proof (cases "isArtifactDownload (in_ToolName inp) args")
    case True
    obtain resp st2 where f: "forwardToGitHub env s (rq_Method r) path NilBody [] ?auth st = (resp, st2)" by fastforce
    show thesis
    proof (cases "IsAllowed (pre_EvalResult pre)")
      case False
      with assms True refused show thesis by (auto simp: proxy_forward_def)
    next
      case allowed: True
      show thesis
      proof (cases resp)
        case None
        with assms True allowed f refused show thesis by (auto simp: proxy_forward_def Let_def streamArtifactResponse_def)
      next
        case (Some x)
        with assms True allowed f have "\<exists>x. rp_Body rep = RawBody x"
          by (auto simp: proxy_forward_def Let_def streamArtifactResponse_def bind_go_Return_iff)
        with streamed True allowed show thesis by blast
      qed
    qed
  next
    case False
    define x where "x = (case gq of
        Some q \<Rightarrow> forwardAndReadBody env s ''POST'' path (Reader (Some q)) ''application/json'' ?auth st
      | None \<Rightarrow> forwardAndReadBody env s (rq_Method r) path NilBody [] ?auth st)"
    obtain res st2 where x: "x = (res, st2)" by fastforce
    have ag: "px_agents st2 = px_agents st"
      using x unfolding x_def by (auto dest: forward_read_agents split: option.splits)
    have e: "(case res of Inl rep \<Rightarrow> Return (rep, st2)
        | Inr (resp, respBody) \<Rightarrow> proxy_answer env s r inp pre (gq \<noteq> None) resp respBody st2) = Return (rep, st1)"
      using assms False x[unfolded x_def] unfolding proxy_forward_def Let_def by (simp split: sum.splits)
    show thesis
    proof (cases res)
      case (Inl err)
      have "\<exists>code msg. rp_Body err = ErrorBody code msg"
        using x Inl unfolding x_def forwardAndReadBody_def by (auto split: option.splits prod.splits)
      with e Inl refused show thesis by auto
    next
      case (Inr y)
      obtain resp b where y: "y = (resp, b)" by fastforce
      obtain req where q: "px_sent st2 = px_sent st @ [req]" "pe_network env (px_sent st) req = Some resp" "us_Body resp = Some b"
        using x Inr y unfolding x_def by (cases gq) (auto elim: forward_read_answered)
      from e Inr y have "proxy_answer env s r inp pre (gq \<noteq> None) resp b st2 = Return (rep, st1)" by simp
      from answered[OF ag False q this] show thesis .
    qed
  qed
qed

lemma agents_only_sent: "agents_only st st1 \<Longrightarrow> px_sent st1 = px_sent st"
  unfolding agents_only_def by (metis proxy_state.ext_inject proxy_state.surjective proxy_state.update_convs(1))

text \<open>What a JSON reply to a REST request holds, apart from an empty value.\<close>

definition rest_outcome ::
  "proxy_server \<Rightarrow> pipeline_input \<Rightarrow> pre_result \<Rightarrow> agent_registry \<Rightarrow> json \<Rightarrow> json \<Rightarrow> bool" where
  "rest_outcome s inp pre r data v \<longleftrightarrow>
     (let allowed = item_allowed (in_Evaluator inp) (agS (heap r ! pre_AgentLabels pre)) (agI (heap r ! pre_AgentLabels pre))
            (pre_Operation pre)
      in RunPipelinePhase4 inp pre data = Inr None \<and> IsAllowed (pre_EvalResult pre) \<and> v = data \<or>
         (\<exists>d. RunPipelinePhase4 inp pre data = Inr (Some d) \<and>
            (\<forall>c. d = CollectionData c \<longrightarrow> rebuild c = None \<longrightarrow> \<not> preserve_envelope c \<longrightarrow>
               v = unwrapSingleObject data (rewrapSearchResponse data (JArr (map item_data (filter allowed (items c))))) \<and>
               (px_Mode s = EnforcementStrict \<longrightarrow> list_all allowed (items c)))))"

lemma rest_outcome_final:
  assumes "filtered_by s inp pre r data ld fr" and "proxy_final env s rq resp False data pre ld fr = Inr (Some v)"
  shows "rest_outcome s inp pre r data v"
  using proxy_final_rest[OF assms(2)]
proof (elim disjE exE conjE)
  assume "ld = None" "IsAllowed (pre_EvalResult pre)" "v = data"
  with assms(1) show ?thesis by (simp add: rest_outcome_def filtered_by_def Let_def)
next
  fix d fil
  assume d: "ld = Some d" "\<not> Blocked fr"
    "v = unwrapSingleObject data (rewrapSearchResponse data (case FinalResult fr of Some x \<Rightarrow> x | None \<Rightarrow> JNull))"
  let ?ok = "item_allowed (in_Evaluator inp) (agS (heap r ! pre_AgentLabels pre)) (agI (heap r ! pre_AgentLabels pre))
            (pre_Operation pre)"
  have "v = unwrapSingleObject data (rewrapSearchResponse data (JArr (map item_data (filter ?ok (items c))))) \<and>
      (px_Mode s = EnforcementStrict \<longrightarrow> list_all ?ok (items c))"
    if c: "d = CollectionData c" "rebuild c = None" "\<not> preserve_envelope c" for c
  proof -
    note f = assms(1)[unfolded filtered_by_def d(1) c(1), THEN conjunct2]
    from FilterAndConvert_Inr[OF f] d(2) FilterAndConvert_items[OF f c(2,3)] d(3) show ?thesis
      by (auto simp: list_all_iff split: if_splits)
  qed
  with assms(1) d(1) show ?thesis by (auto simp: rest_outcome_def filtered_by_def Let_def)
next
  fix d
  assume d: "ld = Some d" "Filtered fr = None"
  have "d \<noteq> CollectionData c" for c
    using FilterAndConvert_Inr[of _ _ _ _ c _ fr] assms(1) d by (auto simp: filtered_by_def)
  with assms(1) d(1) show ?thesis by (auto simp: rest_outcome_def filtered_by_def Let_def)
qed

text \<open>The states that served requests lead to.\<close>

inductive served :: "proxy_server \<Rightarrow> 'h proxy_state \<Rightarrow> 'h proxy_state \<Rightarrow> bool" for s st0 where
  start: "served s st0 st0"
| request: "served s st0 st \<Longrightarrow> ServeHTTP env s r st = Return (rep, st1) \<Longrightarrow> served s st0 st1"

end
