(* ===== verification/ProxyProperties.thy ===== *)
theory ProxyProperties imports ProxyFacts begin

text \<open>
  The properties of the GitHub proxy as a whole: what it sends upstream, for whom, and which part of
  an upstream response a client can see.
\<close>

section \<open>Example values\<close>

text \<open>A guard that finds every resource private, and private every item whose text starts with "secret".\<close>

definition sample_label :: "bool \<Rightarrow> labeled_resource" where
  "sample_label private =
     \<lparr>description = ''item'', secrecy = NewFlowLabel (if private then [''private''] else []), integrity = NewFlowLabel []\<rparr>"

definition sample_item :: "json \<Rightarrow> labeled_item" where
  "sample_item v =
     \<lparr>item_data = v, item_labels = Some (sample_label (case v of JStr s \<Rightarrow> prefix ''secret'' s | _ \<Rightarrow> False)), item_path = []\<rparr>"

definition sample_collection :: "json \<Rightarrow> json list \<Rightarrow> collection_labeled_data" where
  "sample_collection v xs =
     \<lparr>items = map sample_item xs, original_data = v, items_path = [], preserve_envelope = False, rebuild = None\<rparr>"

definition sample_guard :: guard where
  "sample_guard =
     \<lparr>g_Name = ''sample'', g_LabelAgent = (\<lambda>_. Inr None),
      g_LabelResource = (\<lambda>tool args. Inr (Some (sample_label (tool \<noteq> ''open'')), OperationRead)),
      g_LabelResponse = (\<lambda>tool args v. case v of JArr xs \<Rightarrow> Inr (Some (CollectionData (sample_collection v xs))) | _ \<Rightarrow> Inr None)\<rparr>"

definition sample_claims :: claims where
  "sample_claims =
     \<lparr>cl_Version = 1, cl_Audience = DefaultAudience, cl_Run = ''run'', cl_Invocation = ''i'', cl_Repo = ''a/b'',
      cl_Profile = ProfileIssuesReadV1, cl_Operations = [OperationIssuesList], cl_NotBefore = 1000, cl_Expires = 1300\<rparr>"

definition sample_policy :: enclave_policy where
  "sample_policy =
     \<lparr>ep_Version = 1, ep_Profile = ProfileIssuesReadV1, ep_Audience = DefaultAudience, ep_WorkflowRunID = ''run'',
      ep_Repositories = [\<lparr>rp_Repo = ''a/b'', rp_Sensitivity = ''internal''\<rparr>], ep_PublicMinIntegrity = ''none'',
      ep_AllowedOperations = [OperationIssuesList], ep_MaxCapabilityTTLSeconds = 600\<rparr>"

definition sample_lib :: proxy_lib where
  "sample_lib =
     \<lparr>pl_graphql = \<lparr>gl_members = (\<lambda>_. None), gl_unmarshal = (\<lambda>_. None), gl_marshal = (\<lambda>_. None), gl_parse = (\<lambda>_. None),
                    gl_lex = (\<lambda>_. None)\<rparr>,
      pl_decode = (\<lambda>_. Some (JArr [JStr ''secret'', JStr ''open''])), pl_encode = (\<lambda>_. Some ''json''),
      pl_media = (\<lambda>s. (s, False)), pl_url = (\<lambda>_. Some \<lparr>pt_Scheme = [], pt_Host = [], pt_Path = [], pt_RawPath = [], pt_rest = []\<rparr>),
      pl_escaped_path = pt_Path, pl_url_string = pt_Path, pl_equal_fold = (=), pl_int_string = (\<lambda>_. None),
      pl_int_of_float = id, pl_claims = (\<lambda>_. Some sample_claims), pl_visibility = (\<lambda>_. Some ''public'')\<rparr>"

definition sample_response :: upstream_response where
  "sample_response = \<lparr>us_StatusCode = 200, us_Header = [(''Content-Type'', [''application/json''])], us_Body = Some ''[]''\<rparr>"

text \<open>Second 1100 after the epoch; every signature is 32 zero bytes.\<close>

definition sample_env :: "string proxy_env" where
  "sample_env =
     \<lparr>pe_lib = sample_lib, pe_network = (\<lambda>_ _. Some sample_response), pe_sign = (\<lambda>_ _. replicate 32 CHR 0x00),
      pe_sha256 = (\<lambda>_. replicate 32 CHR 0x00), pe_sha = id, pe_now = time_Unix 1100, pe_denied_at = time_Unix 1101,
      pe_timestamp = []\<rparr>"

definition sample_server :: "bool \<Rightarrow> enclave_config option \<Rightarrow> proxy_server" where
  "sample_server readOnly enclave =
     \<lparr>px_guard = sample_guard, px_Evaluator = NewEvaluatorWithMode EnforcementFilter, px_Mode = EnforcementFilter,
      px_Capabilities = NewCapabilities, px_githubToken = ''secret'', px_githubAPIURL = ''https://api.github.com'',
      px_readOnly = readOnly, px_guardInitialized = True, px_enclave = enclave, px_delegated = False\<rparr>"

definition sample_enclave :: enclave_config where
  "sample_enclave = \<lparr>es_policy = sample_policy, es_verifier = \<lparr>vf_key = [], vf_policy = sample_policy\<rparr>\<rparr>"

definition sample_request :: "string \<Rightarrow> string \<Rightarrow> request" where
  "sample_request path auth =
     \<lparr>rq_Method = ''GET'', rq_Path = path, rq_RawPath = [], rq_RawQuery = [], rq_Host = ''proxy'', rq_TLS = False,
      rq_Header = [(''Authorization'', [auth])], rq_Body = NoBody, rq_ContentLength = 0, rq_TransferEncoding = []\<rparr>"

definition sample_capability :: string where
  "sample_capability = ''Bearer awf-egh1.AAAA.'' @ replicate 43 CHR ''A''"

definition sample_state :: "string proxy_state" where
  "sample_state = \<lparr>px_agents = NewAgentRegistryWithDefaults [] [], px_denied = [], px_store = None, px_sent = []\<rparr>"

text \<open>The enclave's run reads the issues of a repository that is not its own.\<close>

definition sample_cross :: request where
  "sample_cross = sample_request ''/repos/c/d/issues'' sample_capability"

definition sample_proxy :: proxy_server where
  "sample_proxy = sample_server False (Some sample_enclave)"

definition sample_plan :: enclave_plan where
  "sample_plan = planEnclaveRequestForPath sample_cross ''/repos/c/d/issues''"

lemma sample_plan_values:
  "plan_repo sample_plan = ''c/d''" "routeAllowedBy sample_plan sample_claims" "ep_denial sample_plan = enclaveDenialNone"
  "raw_path sample_proxy sample_cross = ''/repos/c/d/issues''"
  "enclavePath (rq_Path sample_cross) (rq_RawPath sample_cross) = Some ''/repos/c/d/issues''"
  "px_enclave sample_proxy = Some sample_enclave" "\<not> px_readOnly sample_proxy" "cl_Repo sample_claims = ''a/b''"
  by code_simp+

lemma sample_verified: "enclave_claims (sample_env\<lparr>pe_network := net\<rparr>) sample_enclave sample_cross = Some sample_claims"
proof -
  have "enclave_claims sample_env sample_enclave sample_cross = Some sample_claims" by code_simp
  then show ?thesis by (simp add: enclave_claims_def)
qed

lemma sample_served:
  defines "env \<equiv> \<lambda>net. sample_env\<lparr>pe_network := net\<rparr>"
  shows "ServeHTTP (env net) sample_proxy sample_cross st =
    (let (public, st2) = enclaveRepositoryIsPublic (env net) sample_proxy ''c/d'' (seeded (env net) sample_enclave sample_claims st)
     in if public then enclave_run (env net) sample_proxy sample_cross sample_claims sample_plan st2
        else Return (writeEnclaveDenied, st2))"
  using sample_plan_values sample_verified[of net]
  unfolding ServeHTTP_def serve_admitted_def handleEnclaveRequest_def enclave_claims_def Let_def seeded_def enclave_run_def
    sample_plan_def[symmetric] env_def
  by (simp add: sample_plan_def[symmetric] seeded_def[symmetric] enclave_run_def[symmetric] split: prod.splits)

definition sample_lookup :: "string proxy_state" where
  "sample_lookup = snd (forwardToGitHub sample_env sample_proxy ''GET'' ''/repos/c/d'' NilBody [] []
     (seeded sample_env sample_enclave sample_claims sample_state))"

lemma sample_public:
  "enclaveRepositoryIsPublic sample_env sample_proxy ''c/d'' (seeded sample_env sample_enclave sample_claims sample_state) =
     (True, sample_lookup)"
proof -
  have f: "fst (forwardToGitHub sample_env sample_proxy ''GET'' ''/repos/c/d'' NilBody [] []
     (seeded sample_env sample_enclave sample_claims sample_state)) = Some sample_response" by code_simp
  have "says_public (pe_lib sample_env) sample_response"
    by (simp add: says_public_def sample_response_def maxEnclaveVisibilityResponseBytes_def sample_env_def sample_lib_def)
  moreover have "map_of (px_denied (seeded sample_env sample_enclave sample_claims sample_state)) ''c/d'' = None"
    by (simp add: sample_state_def)
  ultimately show ?thesis
    using f by (simp add: enclaveRepositoryIsPublic_def visibility_lookup_def sample_lookup_def split_beta)
qed

lemma sample_cross_read:
  obtains rep st1 where "ServeHTTP sample_env sample_proxy sample_cross sample_state = Return (rep, st1)" "length (px_sent st1) = 2"
proof -
  have "case enclave_run sample_env sample_proxy sample_cross sample_claims sample_plan sample_lookup of
      Return (rep, st1) \<Rightarrow> length (px_sent st1) = 2 | Panic \<Rightarrow> False" by code_simp
  then obtain rep st1 where "enclave_run sample_env sample_proxy sample_cross sample_claims sample_plan sample_lookup =
      Return (rep, st1)" "length (px_sent st1) = 2" by (auto split: go.splits)
  with that sample_served[of "pe_network sample_env" sample_state] sample_public show thesis by simp
qed

section \<open>What leaves the proxy\<close>

text \<open>C1: In read-only mode every request that a client's request causes upstream only reads: it is a GET without
  a body on a supported path whose query carries no method override, or a POST of one GraphQL query that the
  selection admitted; redirects are not followed. The selection is checked on the body as it leaves, after the
  guard fields were injected. The reads by which a guard enriches a label are not part of the history.\<close>

theorem read_only_proxy_only_reads:
  assumes "px_readOnly s" and "ServeHTTP env s r st = Return (rep, st1)"
  shows "\<exists>xs. px_sent st1 = px_sent st @ xs \<and>
    list_all (\<lambda>req. \<not> ur_FollowRedirects req \<and>
      (\<exists>bytes. read_all (ur_Body req) = Some bytes \<and>
         reads_only (pl_graphql (pe_lib env)) (ur_Method req) (ur_Path req) bytes)) xs"
  using read_only.sent.serve[OF assms(2)] assms(1) unfolding sends_def only_reads_def by simp

lemma read_only_proxy_only_reads_witness:
  "\<exists>rep st1 req. ServeHTTP sample_env (sample_server True None) (sample_request ''/zen'' ''token x'') sample_state = Return (rep, st1) \<and>
     px_sent st1 = [req] \<and> (\<exists>bytes. read_all (ur_Body req) = Some bytes \<and>
       reads_only (pl_graphql sample_lib) (ur_Method req) (ur_Path req) bytes)"
proof -
  have "case ServeHTTP sample_env (sample_server True None) (sample_request ''/zen'' ''token x'') sample_state of
      Return (rep, st1) \<Rightarrow> length (px_sent st1) = 1 | Panic \<Rightarrow> False" by code_simp
  then obtain rep st1 where s: "ServeHTTP sample_env (sample_server True None) (sample_request ''/zen'' ''token x'') sample_state =
      Return (rep, st1)" "length (px_sent st1) = 1" by (auto split: go.splits)
  have "px_readOnly (sample_server True None)" by (simp add: sample_server_def)
  from read_only_proxy_only_reads[OF this s(1)] s(2) obtain req where "px_sent st1 = [req]"
      "\<exists>bytes. read_all (ur_Body req) = Some bytes \<and>
         reads_only (pl_graphql (pe_lib sample_env)) (ur_Method req) (ur_Path req) bytes"
    by (auto simp: sample_state_def length_Suc_conv)
  with s(1) show ?thesis by (simp add: sample_env_def)
qed



text \<open>C3: In the enclave and the delegated profile every request to the upstream carries the proxy's own token; a
  client's Authorization header is never forwarded.\<close>

theorem own_token_upstream:
  assumes "px_enclave s \<noteq> None \<or> px_delegated s" and "ServeHTTP env s r st = Return (rep, st1)"
  shows "\<exists>xs. px_sent st1 = px_sent st @ xs \<and>
    list_all (\<lambda>req. header_Get (ur_Header req) ''Authorization'' = ''token '' @ px_githubToken s) xs"
  using credential.sent.serve[OF assms(2)] assms(1) unfolding sends_def own_credential_def by (elim disjE) simp_all

lemma own_token_upstream_witness:
  "\<exists>rep st1 lookup get. ServeHTTP sample_env sample_proxy sample_cross sample_state = Return (rep, st1) \<and>
     px_sent st1 = [lookup, get] \<and> header_Get (ur_Header get) ''Authorization'' = ''token secret''"
proof -
  obtain rep st1 where s: "ServeHTTP sample_env sample_proxy sample_cross sample_state = Return (rep, st1)" "length (px_sent st1) = 2"
    by (rule sample_cross_read)
  have "px_enclave sample_proxy \<noteq> None \<or> px_delegated sample_proxy" using sample_plan_values(6) by simp
  from own_token_upstream[OF this s(1)] s show ?thesis
    by (auto simp: sample_state_def sample_proxy_def sample_server_def length_Suc_conv numeral_2_eq_2)
qed

text \<open>C37: A capability is accepted only if it is a bearer or token credential of three dotted parts whose last
  part is the signature of the first two under the verifier's key, and whose middle part decodes to claims that
  the policy admits at this time: its run, profile and audience, one of its repositories, a sorted non-empty subset of its
  operations, a validity period that contains the present and is no longer than the policy's maximum.\<close>

theorem capability_sound:
  assumes "verifyAuthorizationAt sign decode v header now = Some c" and "cl_Expires c < 2 ^ 63"
  shows "\<exists>scheme body sig payload. scheme \<in> {''Bearer '', ''token ''} \<and>
    header = scheme @ CapabilityPrefix @ ''.'' @ body @ ''.'' @ sig \<and>
    raw_url_decode sig = Some (sign (vf_key v) (CapabilityPrefix @ ''.'' @ body)) \<and>
    raw_url_decode body = Some payload \<and> decode payload = Some c \<and>
    claims_ok (vf_policy v) (time_to_unix now) c"
proof -
  obtain scheme token where h: "scheme \<in> {''Bearer '', ''token ''}" "header = scheme @ token"
    "verifyTokenAt sign decode v token now = Some c" by (rule verified_header[OF assms(1)])
  obtain body sig payload where t: "token = CapabilityPrefix @ ''.'' @ body @ ''.'' @ sig"
    "raw_url_decode sig = Some (sign (vf_key v) (CapabilityPrefix @ ''.'' @ body))"
    "raw_url_decode body = Some payload" "decode payload = Some c" "validateClaims v c now = None"
    by (rule verified_token[OF h(3)])
  from t(5) validateClaims_None[OF assms(2)] have "claims_ok (vf_policy v) (time_to_unix now) c" by simp
  with h t show ?thesis by blast
qed

lemma capability_sound_witness:
  "raw_url_decode ''AAAA'' \<noteq> None \<and> claims_ok sample_policy 1100 sample_claims"
proof -
  let ?v = "\<lparr>vf_key = [], vf_policy = sample_policy\<rparr>"
  have "verifyAuthorizationAt (\<lambda>_ _. replicate 32 CHR 0x00) (\<lambda>_. Some sample_claims) ?v sample_capability (time_Unix 1100) =
      Some sample_claims" by code_simp
  moreover have "cl_Expires sample_claims < 2 ^ 63" by (simp add: sample_claims_def)
  ultimately have "claims_ok sample_policy (time_to_unix (time_Unix 1100)) sample_claims"
    using capability_sound[of "\<lambda>_ _. replicate 32 CHR 0x00" "\<lambda>_. Some sample_claims" ?v sample_capability "time_Unix 1100" sample_claims]
    by (metis verifier.select_convs(2))
  moreover have "time_to_unix (time_Unix 1100) = 1100" "raw_url_decode ''AAAA'' \<noteq> None" by code_simp+
  ultimately show ?thesis by simp
qed

text \<open>The cache of repositories denied to the enclave stays bounded: whatever requests are served from a new
  proxy on, it never holds more than 1024 entries, and each repository at most once.\<close>

lemma denied_cache_bounded:
  assumes "served s st0 st" and "px_denied st0 = []"
  shows "length (px_denied st) \<le> 1024 \<and> distinct (map fst (px_denied st))"
proof -
  have "denials_ok (px_denied st0) \<longrightarrow> denials_ok (px_denied st)"
    using assms(1) by induction (use denial_cache.serve in blast)+
  with assms(2) show ?thesis by (simp add: denials_ok_def maxEnclaveVisibilityDeniedCacheItems_def)
qed

lemma denied_cache_bounded_example:
  "\<exists>st. served sample_proxy sample_state st \<and> length (px_denied st) = 1 \<and> distinct (map fst (px_denied st))"
proof -
  let ?env = "sample_env\<lparr>pe_network := \<lambda>_ _. None\<rparr>"
  let ?look = "enclaveRepositoryIsPublic ?env sample_proxy ''c/d'' (seeded ?env sample_enclave sample_claims sample_state)"
  have l: "\<not> fst ?look \<and> length (px_denied (snd ?look)) = 1" by code_simp
  have "ServeHTTP ?env sample_proxy sample_cross sample_state = Return (writeEnclaveDenied, snd ?look)"
    using sample_served[of "\<lambda>_ _. None" sample_state] l by (cases ?look) simp
  with served.request[OF served.start] have s: "served sample_proxy sample_state (snd ?look)" .
  have "px_denied sample_state = []" by (simp add: sample_state_def)
  from denied_cache_bounded[OF s this] s l show ?thesis by blast
qed

section \<open>What a client sees\<close>





text \<open>C38: A response with a total_count whose items stand under another key than "items" or "repositories" is rebuilt
  around the whole upstream object: if the guard labels single items, every other member of the object,
  the denied items included, is in the reply, however few items filtering left.\<close>

theorem count_envelope_keeps_denied:
  assumes "Filtered fr = Some fil" and "\<not> Blocked fr" and "FinalResult fr = Some (JArr its)"
    and "map_of m ''total_count'' \<noteq> None" and "map_of m ''items'' = None" and "map_of m ''repositories'' = None"
    and "k \<noteq> ''total_count''" and "k \<noteq> ''incomplete_results''"
  shows "\<exists>m'. proxy_final env s r resp False (JObj m) pre (Some d) fr = Inr (Some (JObj m')) \<and> map_of m' k = map_of m k"
proof -
  have "rewrapSearchResponse (JObj m) (JArr its) =
      JObj (AList.update ''incomplete_results'' (JBool False)
             (AList.update ''total_count'' (json_count (length its)) m))"
    using assms(4-6) by (auto simp: rewrapSearchResponse_def replace_first_key_def)
  then show ?thesis
    using assms by (auto simp: proxy_final_def unwrapSingleObject_def update_conv')
qed

definition sample_runs :: json_object where
  "sample_runs = [(''total_count'', JNum ''2''), (''workflow_runs'', JArr [JStr ''open'', JStr ''secret''])]"

lemma count_envelope_keeps_denied_witness:
  "\<forall>pre. \<exists>fil m'. FilterCollection (NewEvaluatorWithMode EnforcementFilter) (NewFlowLabel []) (NewFlowLabel [])
       (sample_collection JNull [JStr ''open'', JStr ''secret'']) OperationRead = Return fil \<and> length (filtered fil) = 1 \<and>
     proxy_final sample_env sample_proxy sample_cross sample_response False (JObj sample_runs) pre
       (Some (CollectionData (sample_collection JNull [JStr ''open'', JStr ''secret''])))
       \<lparr>FinalResult = Some (JArr [JStr ''open'']), Filtered = Some fil, Blocked = False\<rparr> = Inr (Some (JObj m')) \<and>
     map_of m' ''workflow_runs'' = Some (JArr [JStr ''open'', JStr ''secret''])"
proof
  fix pre :: pre_result
  let ?c = "sample_collection JNull [JStr ''open'', JStr ''secret'']"
  have "case FilterCollection (NewEvaluatorWithMode EnforcementFilter) (NewFlowLabel []) (NewFlowLabel []) ?c OperationRead of
      Return fil \<Rightarrow> length (filtered fil) = 1 | Panic \<Rightarrow> False" by code_simp
  then obtain fil where f: "FilterCollection (NewEvaluatorWithMode EnforcementFilter) (NewFlowLabel []) (NewFlowLabel []) ?c OperationRead =
      Return fil" "length (filtered fil) = 1" by (auto split: go.splits)
  have "\<exists>m'. proxy_final sample_env sample_proxy sample_cross sample_response False (JObj sample_runs) pre (Some (CollectionData ?c))
      \<lparr>FinalResult = Some (JArr [JStr ''open'']), Filtered = Some fil, Blocked = False\<rparr> = Inr (Some (JObj m')) \<and>
      map_of m' ''workflow_runs'' = map_of sample_runs ''workflow_runs''"
    by (rule count_envelope_keeps_denied[of _ fil "[JStr ''open'']"]) (simp_all add: sample_runs_def)
  with f show "\<exists>fil m'. FilterCollection (NewEvaluatorWithMode EnforcementFilter) (NewFlowLabel []) (NewFlowLabel []) ?c OperationRead =
      Return fil \<and> length (filtered fil) = 1 \<and>
    proxy_final sample_env sample_proxy sample_cross sample_response False (JObj sample_runs) pre (Some (CollectionData ?c))
      \<lparr>FinalResult = Some (JArr [JStr ''open'']), Filtered = Some fil, Blocked = False\<rparr> = Inr (Some (JObj m')) \<and>
    map_of m' ''workflow_runs'' = Some (JArr [JStr ''open'', JStr ''secret''])" by (auto simp: sample_runs_def)
qed

text \<open>Of the connections of a GraphQL response only one is filtered: once an array of nodes was replaced, the
  members that follow it in the order of the map are in the reply as the upstream sent them,
  whatever the guard said of their items.\<close>

lemma second_connection_keeps_denied:
  assumes "accessible fil \<noteq> []" and "map_of conn ''nodes'' \<noteq> None"
    and "k \<noteq> ''nodes''" and "k \<noteq> ''edges''" and "map_of others ''nodes'' = None" and "map_of others ''edges'' = None"
  shows "\<exists>conn'. rebuildGraphQLResponse (JObj [(''data'', JObj ((k, JObj conn) # others))]) fil =
      JObj [(''data'', JObj ((k, conn') # others))] \<and>
    map_of (case conn' of JObj ms \<Rightarrow> ms | _ \<Rightarrow> []) ''nodes'' = Some (JArr (map item_data (accessible fil)))"
  using assms
  by (simp add: rebuildGraphQLResponse_def GetAccessibleCount_def itemsToResult_def Let_def update_conv')

lemma second_connection_keeps_denied_example:
  "\<exists>conn'. rebuildGraphQLResponse
       (JObj [(''data'', JObj [(''a'', JObj [(''nodes'', JArr [JStr ''open'', JStr ''secret''])]),
                               (''b'', JObj [(''nodes'', JArr [JStr ''secret''])])])])
       \<lparr>accessible = [sample_item (JStr ''open'')], filtered = [], total_count = 3, filter_reason = [], f_original_data = JNull,
        f_items_path = [], f_preserve_envelope = False\<rparr> =
     JObj [(''data'', JObj [(''a'', conn'), (''b'', JObj [(''nodes'', JArr [JStr ''secret''])])])]"
  using second_connection_keeps_denied[of "\<lparr>accessible = [sample_item (JStr ''open'')], filtered = [], total_count = 3,
      filter_reason = [], f_original_data = JNull, f_items_path = [], f_preserve_envelope = False\<rparr>"
    "[(''nodes'', JArr [JStr ''open'', JStr ''secret''])]" "''a''" "[(''b'', JObj [(''nodes'', JArr [JStr ''secret''])])]"]
  by auto

section \<open>Routes and rewriting\<close>

text \<open>C39: The dispatch table by first path segment changes nothing: the route found in the bucket of the request's
  segment is the first of the whole table whose pattern matches the path without its query.\<close>

theorem route_dispatch_exact:
  "MatchRoute path = first_some (tryMatch (StripQuery path)) routes"
  by (rule MatchRoute_linear)

text \<open>Injecting guard fields only inserts text: the body stays as it is, or it becomes the same request with
  a query that contains the original one as a subsequence (with invalid UTF-8 replaced, for pull requests), so
  nothing that the client asked for is dropped or reordered.\<close>

lemma injection_only_adds:
  "InjectGuardFields gl b tool = b \<or>
   (\<exists>gql q. gl_unmarshal gl b = Some gql \<and>
      gl_marshal gl (gql\<lparr>gr_Query := q\<rparr>) = Some (InjectGuardFields gl b tool) \<and>
      (subseq (gr_Query gql) q \<or> subseq (concat (runes (gr_Query gql))) q))"
  using injectFields_inserts injectPR_inserts
  by (auto simp: InjectGuardFields_def Let_def split: option.splits if_splits)

text \<open>C40: A policy that was parsed is well formed: version, profile and audience are the known ones, the run
  identity is canonical, the repositories are legal and distinct, the operations known, sorted and distinct, the lifetime within
  bounds, the integrity level normalized; and validating it again changes nothing.\<close>

theorem enclave_policy_valid:
  assumes "ParsePolicy decode raw = Inr p"
  shows "valid_policy p \<and> policy_Validate (Some p) = (None, Some p)"
  using ParsePolicy_valid[OF assms] policy_Validate_fixpoint by blast

lemma enclave_policy_valid_witness:
  "ParsePolicy (\<lambda>_. Inr sample_policy) ''{}'' = Inr sample_policy \<and> valid_policy sample_policy"
proof -
  have p: "ParsePolicy (\<lambda>_. Inr sample_policy) ''{}'' = Inr sample_policy" by code_simp
  from enclave_policy_valid[OF p] p show ?thesis by blast
qed

end
