(* ===== verification/GatewayAuth.thy ===== *)
theory GatewayAuth imports ProxyHttp RateLimit BackendCall begin

text \<open>
  The way into the gateway: \<open>internal/auth/header.go\<close>, the authentication of
  \<open>internal/server/middleware_auth.go\<close>, the request signatures and nonces of
  \<open>internal/server/hmac.go\<close>, the session identity of \<open>session.go\<close>, and the stack that
  \<open>wrapWithMiddleware\<close> builds. SHA-256 and HMAC are arguments, as are the clock readings. A
  middleware is a function that either answers or lets the request through (None). Requests are
  served concurrently: the check and the recording of a nonce are separate steps.
\<close>

section \<open>The Authorization header\<close>

datatype auth_error = ErrMissingAuthHeader | ErrInvalidAuthHeader

definition supportedAuthSchemes :: "string list" where
  "supportedAuthSchemes = [''Bearer '', ''Agent '']"

fun strip_scheme_loop :: "string list \<Rightarrow> string \<Rightarrow> (string \<times> string) option" where
  "strip_scheme_loop [] authHeader = None"
| "strip_scheme_loop (p # ps) authHeader =
     (if prefix p authHeader then Some (trim_suffix '' '' p, trim_prefix p authHeader)
      else strip_scheme_loop ps authHeader)"

definition stripAuthScheme :: "string \<Rightarrow> (string \<times> string) option" where
  "stripAuthScheme authHeader = strip_scheme_loop supportedAuthSchemes authHeader"

definition ParseAuthHeader :: "string \<Rightarrow> auth_error + string \<times> string" where
  "ParseAuthHeader authHeader =
     (if authHeader = [] then Inl ErrMissingAuthHeader
      else
        (case stripAuthScheme authHeader of
           Some (_, v) \<Rightarrow> Inr (v, v)
         | None \<Rightarrow> Inr (authHeader, authHeader)))"

definition ValidateAgentID :: "string \<Rightarrow> string \<Rightarrow> bool" where
  "ValidateAgentID provided expected_id = (if expected_id = [] then True else provided = expected_id)"

definition ExtractAgentID :: "string \<Rightarrow> string" where
  "ExtractAgentID authHeader =
     (if authHeader = [] then ''default''
      else (case ParseAuthHeader authHeader of Inl _ \<Rightarrow> ''default'' | Inr (_, agent_id) \<Rightarrow> agent_id))"

definition ExtractSessionID :: "string \<Rightarrow> string" where
  "ExtractSessionID authHeader =
     (if authHeader = [] then []
      else
        (case stripAuthScheme authHeader of
           Some (scheme, v) \<Rightarrow> if scheme = ''Bearer'' then trim_space v else v
         | None \<Rightarrow> authHeader))"

text \<open>The loop runs over the runes; every byte of a longer encoding decodes to a rune above 0x7F.\<close>

definition control_char :: "char \<Rightarrow> bool" where
  "control_char c \<longleftrightarrow> ((of_char c :: nat) < 0x20 \<and> c \<noteq> CHR 0x09) \<or> c = CHR 0x7F"

definition IsMalformedHeader :: "string \<Rightarrow> bool" where
  "IsMalformedHeader h \<longleftrightarrow> list_ex control_char h"

definition ExtractSessionIDFromHeaders :: "string \<Rightarrow> string \<Rightarrow> string" where
  "ExtractSessionIDFromHeaders xAgentID authHeader =
     (if xAgentID \<noteq> [] then (if IsMalformedHeader xAgentID then [] else xAgentID)
      else if IsMalformedHeader authHeader then []
      else ExtractSessionID authHeader)"

definition extractSessionIDFromRequest :: "request \<Rightarrow> string" where
  "extractSessionIDFromRequest r =
     ExtractSessionIDFromHeaders (header_Get (rq_Header r) ''X-Agent-ID'') (header_Get (rq_Header r) ''Authorization'')"

definition resolveRequestIdentity :: "request \<Rightarrow> bool \<Rightarrow> string" where
  "resolveRequestIdentity r authEnabled =
     (if authEnabled then
        (let authHeader = header_Get (rq_Header r) ''Authorization''
         in if IsMalformedHeader authHeader then [] else ExtractSessionID authHeader)
      else extractSessionIDFromRequest r)"

section \<open>Authentication\<close>

text \<open>Logging apart, \<open>rejectRequest\<close> writes the error.\<close>

definition rejectRequest :: "int \<Rightarrow> string \<Rightarrow> string \<Rightarrow> reply" where
  "rejectRequest status code msg = WriteErrorResponse [] status code msg"

definition matchesAnyKey :: "string \<Rightarrow> string list \<Rightarrow> bool" where
  "matchesAnyKey authHeader keys = fold (\<lambda>key matched. matched \<or> authHeader = key) keys False"

type_synonym 's authenticator = "string \<Rightarrow> 's \<Rightarrow> bool \<times> 's"

definition authMiddlewareWithDelegation ::
  "string list \<Rightarrow> 's authenticator option \<Rightarrow> request \<Rightarrow> 's \<Rightarrow> reply option \<times> 's" where
  "authMiddlewareWithDelegation apiKeys delegatedAuthenticator r s =
     (let authHeader = header_Get (rq_Header r) ''Authorization''
      in if authHeader = [] then (Some (rejectRequest 401 ''unauthorized'' ''missing Authorization header''), s)
         else if IsMalformedHeader authHeader then
           (Some (rejectRequest 400 ''bad_request'' ''malformed Authorization header''), s)
         else if matchesAnyKey authHeader apiKeys then (None, s)
         else
           (case delegatedAuthenticator of
              None \<Rightarrow> (Some (rejectRequest 401 ''unauthorized'' ''invalid API key''), s)
            | Some executor_live \<Rightarrow>
                (let (ok, s') = executor_live authHeader s
                 in if ok then (None, s')
                    else (Some (rejectRequest 401 ''unauthorized'' ''invalid API key''), s'))))"

definition applyAuthIfConfiguredWithDelegation ::
  "string list \<Rightarrow> 's authenticator option \<Rightarrow> request \<Rightarrow> 's \<Rightarrow> reply option \<times> 's" where
  "applyAuthIfConfiguredWithDelegation apiKeys delegatedAuthenticator r s =
     (if apiKeys \<noteq> [] \<or> delegatedAuthenticator \<noteq> None
      then authMiddlewareWithDelegation apiKeys delegatedAuthenticator r s
      else (None, s))"

definition authMiddleware :: "string list \<Rightarrow> request \<Rightarrow> 's \<Rightarrow> reply option \<times> 's" where
  "authMiddleware apiKeys r s = authMiddlewareWithDelegation apiKeys None r s"

definition applyAuthIfConfigured :: "string list \<Rightarrow> request \<Rightarrow> 's \<Rightarrow> reply option \<times> 's" where
  "applyAuthIfConfigured apiKeys r s = applyAuthIfConfiguredWithDelegation apiKeys None r s"

section \<open>Signed requests\<close>

definition HMACTimestampHeader :: string where "HMACTimestampHeader = ''X-MCP-Timestamp''"
definition HMACNonceHeader :: string where "HMACNonceHeader = ''X-MCP-Nonce''"
definition HMACSignatureHeader :: string where "HMACSignatureHeader = ''X-MCP-Signature''"
definition hmacMaxAgeSecs :: int where "hmacMaxAgeSecs = 30"
definition nonceTTL :: duration where "nonceTTL = 2 * hmacMaxAgeSecs * second"

text \<open>The cache maps a nonce to its eviction deadline.\<close>

type_synonym nonce_cache = "(string \<times> time) list"

definition evictExpired :: "time \<Rightarrow> nonce_cache \<Rightarrow> nonce_cache" where
  "evictExpired now c = filter (\<lambda>(n, deadline). \<not> now > deadline) c"

definition checkAndSet :: "time \<Rightarrow> string \<Rightarrow> nonce_cache \<Rightarrow> bool \<times> nonce_cache" where
  "checkAndSet now nonce c =
     (let c1 = evictExpired now c
      in case map_of c1 nonce of
           Some _ \<Rightarrow> (False, c1)
         | None \<Rightarrow> (True, AList.update nonce (now + nonceTTL) c1))"

definition seenNonce :: "time \<Rightarrow> string \<Rightarrow> nonce_cache \<Rightarrow> bool \<times> nonce_cache" where
  "seenNonce now nonce c = (let c1 = evictExpired now c in (map_of c1 nonce \<noteq> None, c1))"

definition hmacMessage :: "(string \<Rightarrow> string) \<Rightarrow> string \<Rightarrow> string \<Rightarrow> string \<Rightarrow> string \<Rightarrow> string" where
  "hmacMessage sha timestamp nonce path body =
     timestamp @ [newline] @ nonce @ [newline] @ path @ [newline] @ hex_encode (sha body)"

definition computeHMAC ::
  "(string \<Rightarrow> string) \<Rightarrow> (string \<Rightarrow> string \<Rightarrow> string) \<Rightarrow> string \<Rightarrow> string \<Rightarrow> string \<Rightarrow> string \<Rightarrow> string \<Rightarrow> string" where
  "computeHMAC sha sign secret timestamp nonce path body =
     hex_encode (sign secret (hmacMessage sha timestamp nonce path body))"

text \<open>A reader that fails or cannot be closed is \<open>Reader None\<close>; None is the error.\<close>

definition readAndRestoreRequestBody :: "request \<Rightarrow> string option \<times> request" where
  "readAndRestoreRequestBody r =
     (case rq_Body r of
        Reader None \<Rightarrow> (None, r)
      | Reader (Some b) \<Rightarrow>
          if b = [] then (Some b, r\<lparr>rq_Body := NoBody\<rparr>) else (Some b, r\<lparr>rq_Body := Reader (Some b)\<rparr>)
      | _ \<Rightarrow> (Some [], r))"

datatype hmac_reject =
    MissingHMACHeaders | InvalidTimestamp | StaleTimestamp | ReplayPreCheck | BodyReadError | SignatureMismatch
  | ReplayPostCheck

definition rejectHMAC :: "string \<Rightarrow> reply" where
  "rejectHMAC msg = rejectRequest 401 ''unauthorized'' msg"

fun hmac_reply :: "hmac_reject \<Rightarrow> reply" where
  "hmac_reply MissingHMACHeaders = rejectHMAC ''missing HMAC signature headers''"
| "hmac_reply InvalidTimestamp = rejectHMAC ''invalid HMAC timestamp''"
| "hmac_reply StaleTimestamp = rejectHMAC ''HMAC timestamp out of acceptable window''"
| "hmac_reply ReplayPreCheck = rejectHMAC ''HMAC nonce already used (replay detected)''"
| "hmac_reply BodyReadError = rejectRequest 400 ''bad_request'' ''failed to read request body''"
| "hmac_reply SignatureMismatch = rejectHMAC ''invalid HMAC signature''"
| "hmac_reply ReplayPostCheck = rejectHMAC ''HMAC nonce already used (replay detected)''"

definition rq_timestamp :: "request \<Rightarrow> string" where
  "rq_timestamp r = header_Get (rq_Header r) HMACTimestampHeader"
definition rq_nonce :: "request \<Rightarrow> string" where
  "rq_nonce r = header_Get (rq_Header r) HMACNonceHeader"
definition rq_signature :: "request \<Rightarrow> string" where
  "rq_signature r = header_Get (rq_Header r) HMACSignatureHeader"

text \<open>
  Before the body: the headers, the age of the timestamp on the reading \<open>fresh\<close>, the nonce on the
  reading \<open>seen\<close>.
\<close>

definition stale :: "time \<Rightarrow> int \<Rightarrow> bool" where
  "stale fresh tsUnix \<longleftrightarrow>
     (let age = time_sub fresh (time_Unix tsUnix)
      in age > hmacMaxAgeSecs * second \<or> age < - (hmacMaxAgeSecs * second))"

definition hmac_admit :: "request \<Rightarrow> time \<Rightarrow> time \<Rightarrow> nonce_cache \<Rightarrow> hmac_reject option \<times> nonce_cache" where
  "hmac_admit r fresh seen c =
     (if rq_timestamp r = [] \<or> rq_nonce r = [] \<or> rq_signature r = [] then (Some MissingHMACHeaders, c)
      else
        (case atoi (rq_timestamp r) of
           None \<Rightarrow> (Some InvalidTimestamp, c)
         | Some tsUnix \<Rightarrow>
             (if stale fresh tsUnix then (Some StaleTimestamp, c)
              else
                (let (found, c1) = seenNonce seen (rq_nonce r) c
                 in (if found then Some ReplayPreCheck else None, c1)))))"

text \<open>After it: the signature, then the nonce is recorded at \<open>now\<close>.\<close>

definition signed :: "(string \<Rightarrow> string) \<Rightarrow> (string \<Rightarrow> string \<Rightarrow> string) \<Rightarrow> string \<Rightarrow> request \<Rightarrow> string \<Rightarrow> bool" where
  "signed sha sign secret r body =
     (case hex_decode (rq_signature r) of
        None \<Rightarrow> False
      | Some providedMAC \<Rightarrow>
          hmac_Verify sign secret (hmacMessage sha (rq_timestamp r) (rq_nonce r) (rq_Path r) body) providedMAC)"

definition hmac_finish ::
  "(string \<Rightarrow> string) \<Rightarrow> (string \<Rightarrow> string \<Rightarrow> string) \<Rightarrow> string \<Rightarrow> request \<Rightarrow> time \<Rightarrow> nonce_cache \<Rightarrow>
   hmac_reject option \<times> request \<times> nonce_cache" where
  "hmac_finish sha sign secret r now c =
     (case readAndRestoreRequestBody r of
        (None, r1) \<Rightarrow> (Some BodyReadError, r1, c)
      | (Some body, r1) \<Rightarrow>
          (if \<not> signed sha sign secret r body then (Some SignatureMismatch, r1, c)
           else
             (let (fresh_nonce, c1) = checkAndSet now (rq_nonce r) c
              in (if fresh_nonce then None else Some ReplayPostCheck, r1, c1))))"

text \<open>One request by itself.\<close>

record hmac_times =
  ht_fresh :: time
  ht_seen :: time
  ht_set :: time

definition hmacMiddleware ::
  "(string \<Rightarrow> string) \<Rightarrow> (string \<Rightarrow> string \<Rightarrow> string) \<Rightarrow> string \<Rightarrow> hmac_times \<Rightarrow> request \<Rightarrow> nonce_cache \<Rightarrow>
   hmac_reject option \<times> request \<times> nonce_cache" where
  "hmacMiddleware sha sign secret t r c =
     (case hmac_admit r (ht_fresh t) (ht_seen t) c of
        (Some e, c1) \<Rightarrow> (Some e, r, c1)
      | (None, c1) \<Rightarrow> hmac_finish sha sign secret r (ht_set t) c1)"

definition applyHMACIfConfigured ::
  "(string \<Rightarrow> string) \<Rightarrow> (string \<Rightarrow> string \<Rightarrow> string) \<Rightarrow> string \<Rightarrow> hmac_times \<Rightarrow> request \<Rightarrow> nonce_cache \<Rightarrow>
   hmac_reject option \<times> request \<times> nonce_cache" where
  "applyHMACIfConfigured sha sign secret t r c =
     (if secret \<noteq> [] then hmacMiddleware sha sign secret t r c else (None, r, c))"

section \<open>The stack\<close>

record gate_config =
  gc_keys :: "string list"
  gc_secret :: string
  gc_sha256 :: "string \<Rightarrow> string"
  gc_sign :: "string \<Rightarrow> string \<Rightarrow> string"
  gc_decode :: "string \<Rightarrow> json option"

record 'h gate_state =
  gs_gateway :: "'h gateway"
  gs_nonces :: nonce_cache
  gs_shutdown :: bool

record gate_times =
  gt_auth :: time
  gt_hmac :: hmac_times
  gt_delegated :: time

definition shutdown_reply :: reply where
  "shutdown_reply = WriteJSONResponse [] 503 (RawBody (''{'' @ [CHR 0x22] @ ''error'' @ [CHR 0x22] @ '':'' @ [CHR 0x22] @
     ''Gateway is shutting down'' @ [CHR 0x22] @ ''}''))"

definition rejectIfShutdown :: "'h gate_state \<Rightarrow> reply option" where
  "rejectIfShutdown s = (if gs_shutdown s then Some shutdown_reply else None)"

definition method_denied :: reply where
  "method_denied = WriteErrorResponse [] 403 ''delegation_method_denied'' ''delegated identity is not authorized for this MCP method''"

definition request_denied :: reply where
  "request_denied = WriteErrorResponse [] 403 ''delegation_method_denied'' ''delegated identity is not authorized for this MCP request''"

text \<open>The handler around \<open>rejectDelegatedNonToolMethods\<close>, which decides on the parsed body.\<close>

definition delegated_gate ::
  "(string \<Rightarrow> json option) \<Rightarrow> bool \<Rightarrow> request \<Rightarrow> reply option \<times> request" where
  "delegated_gate decode executor_live r =
     (if \<not> executor_live \<or> rq_Method r \<noteq> ''POST'' then (None, r)
      else
        (case readAndRestoreRequestBody r of
           (None, r1) \<Rightarrow> (Some request_denied, r1)
         | (Some body, r1) \<Rightarrow>
             (case parseDelegatedRequestMethods (decode body) of
                None \<Rightarrow> (Some request_denied, r1)
              | Some _ \<Rightarrow>
                  (if rejectDelegatedNonToolMethods executor_live (rq_Method r) (decode body) then (None, r1)
                   else (Some method_denied, r1)))))"

definition gate_auth ::
  "gate_config \<Rightarrow> 'h server \<Rightarrow> gate_times \<Rightarrow> request \<Rightarrow> 'h gate_state \<Rightarrow> reply option \<times> 'h gateway" where
  "gate_auth cfg sv t r s =
     (let delegatedAuthenticator =
            (if gw_store (gs_gateway s) \<noteq> None then Some (isDelegatedExecutor sv (gt_auth t)) else None)
      in applyAuthIfConfiguredWithDelegation (gc_keys cfg) delegatedAuthenticator r (gs_gateway s))"

definition wrapWithMiddleware ::
  "gate_config \<Rightarrow> 'h server \<Rightarrow> gate_times \<Rightarrow> request \<Rightarrow> 'h gate_state \<Rightarrow> reply option \<times> request \<times> 'h gate_state" where
  "wrapWithMiddleware cfg sv t r s =
     (let (denied, gw) = gate_auth cfg sv t r s;
          s1 = s\<lparr>gs_gateway := gw\<rparr>
      in case denied of
           Some rep \<Rightarrow> (Some rep, r, s1)
         | None \<Rightarrow>
             (case applyHMACIfConfigured (gc_sha256 cfg) (gc_sign cfg) (gc_secret cfg) (gt_hmac t) r (gs_nonces s1) of
                (Some e, r1, c) \<Rightarrow> (Some (hmac_reply e), r1, s1\<lparr>gs_nonces := c\<rparr>)
              | (None, r1, c) \<Rightarrow>
                  (let s2 = s1\<lparr>gs_nonces := c\<rparr>
                   in case rejectIfShutdown s2 of
                        Some rep \<Rightarrow> (Some rep, r1, s2)
                      | None \<Rightarrow>
                          (let (executor_live, gw2) = isDelegatedExecutor sv (gt_delegated t) (header_Get (rq_Header r1) ''Authorization'')
                                               (gs_gateway s2);
                               (rep, r2) = delegated_gate (gc_decode cfg) executor_live r1
                           in (rep, r2, s2\<lparr>gs_gateway := gw2\<rparr>)))))"

section \<open>Concurrent requests\<close>

text \<open>
  Requests between the two nonce steps are pending. \<open>Arrive\<close> carries the request and its two
  readings, \<open>Finish\<close> the position of a pending request and the reading at which its nonce is
  recorded. The clock does not go back; an event that would turn it back does not happen.
\<close>

record pending =
  pd_request :: request
  pd_fresh :: time
  pd_seen :: time

record hmac_gate =
  hg_now :: time
  hg_cache :: nonce_cache
  hg_pending :: "pending list"
  hg_accepted :: "(pending \<times> time) list"

datatype hmac_event = Arrive request time time | Finish nat time

definition hmac_gate0 :: hmac_gate where
  "hmac_gate0 = \<lparr>hg_now = 0, hg_cache = [], hg_pending = [], hg_accepted = []\<rparr>"

fun hmac_event_step ::
  "(string \<Rightarrow> string) \<Rightarrow> (string \<Rightarrow> string \<Rightarrow> string) \<Rightarrow> string \<Rightarrow> hmac_event \<Rightarrow> hmac_gate \<Rightarrow> hmac_gate" where
  "hmac_event_step sha sign secret (Arrive r fresh seen) g =
     (if \<not> (fresh \<le> seen \<and> hg_now g \<le> seen) then g
      else
        (case hmac_admit r fresh seen (hg_cache g) of
           (Some _, c) \<Rightarrow> g\<lparr>hg_now := seen, hg_cache := c\<rparr>
         | (None, c) \<Rightarrow>
             g\<lparr>hg_now := seen, hg_cache := c,
               hg_pending := hg_pending g @ [\<lparr>pd_request = r, pd_fresh = fresh, pd_seen = seen\<rparr>]\<rparr>))"
| "hmac_event_step sha sign secret (Finish i now) g =
     (if \<not> (i < length (hg_pending g) \<and> hg_now g \<le> now) then g
      else
        (let p = hg_pending g ! i;
             g1 = g\<lparr>hg_now := now, hg_pending := take i (hg_pending g) @ drop (Suc i) (hg_pending g)\<rparr>
         in case hmac_finish sha sign secret (pd_request p) now (hg_cache g) of
              (Some _, _, c) \<Rightarrow> g1\<lparr>hg_cache := c\<rparr>
            | (None, _, c) \<Rightarrow> g1\<lparr>hg_cache := c, hg_accepted := hg_accepted g @ [(p, now)]\<rparr>))"

definition hmac_run ::
  "(string \<Rightarrow> string) \<Rightarrow> (string \<Rightarrow> string \<Rightarrow> string) \<Rightarrow> string \<Rightarrow> hmac_event list \<Rightarrow> hmac_gate" where
  "hmac_run sha sign secret evs = fold (hmac_event_step sha sign secret) evs hmac_gate0"

end
