(* ===== verification/GatewayAuthProperties.thy ===== *)
theory GatewayAuthProperties imports GatewayAuth BackendProperties begin

text \<open>
  What the gateway's entrance guarantees: a nonce stays in the cache for its whole lifetime, so two
  accepted requests with one nonce lie more than that lifetime apart; a signature is bound to the
  timestamp, the nonce, the path and the body; nothing passes the stack unauthenticated.
\<close>

section \<open>The nonce cache\<close>

definition remembered :: "time \<Rightarrow> nonce_cache \<Rightarrow> string \<Rightarrow> time \<Rightarrow> bool" where
  "remembered now c n s \<longleftrightarrow> s + nonceTTL < now \<or> (\<exists>d. map_of c n = Some d \<and> s + nonceTTL \<le> d)"

lemma distinct_evict: "distinct (map fst c) \<Longrightarrow> distinct (map fst (evictExpired now c))"
  by (simp add: evictExpired_def distinct_map_filter)

lemma map_of_evict:
  "distinct (map fst c) \<Longrightarrow> map_of c n = Some d \<Longrightarrow> now \<le> d \<Longrightarrow> map_of (evictExpired now c) n = Some d"
  by (auto simp: evictExpired_def distinct_map_filter dest!: map_of_SomeD intro!: map_of_is_SomeI)

lemma remembered_later: "remembered now c n s \<Longrightarrow> now \<le> now' \<Longrightarrow> remembered now' c n s"
  by (auto simp: remembered_def)

lemma remembered_evict:
  assumes "distinct (map fst c)" "remembered now c n s" "now \<le> now'"
  shows "remembered now' (evictExpired now' c) n s"
  using assms map_of_evict[of c n _ now'] by (fastforce simp: remembered_def not_le)

lemma checkAndSet_keeps:
  assumes "distinct (map fst c)" "remembered now c n s" "now \<le> now'" "checkAndSet now' nonce c = (b, c')"
  shows "remembered now' c' n s" and "b \<Longrightarrow> n = nonce \<Longrightarrow> s + nonceTTL < now'"
proof -
  let ?c1 = "evictExpired now' c"
  from remembered_evict[OF assms(1-3)] consider "s + nonceTTL < now'"
    | d where "map_of ?c1 n = Some d" "s + nonceTTL \<le> d" by (auto simp: remembered_def)
  then have "remembered now' c' n s \<and> (b \<longrightarrow> n = nonce \<longrightarrow> s + nonceTTL < now')"
  proof cases
    case 2
    then show ?thesis
      using assms(4)
      by (cases "map_of ?c1 nonce"; cases "n = nonce") (simp_all add: checkAndSet_def remembered_def Let_def update_conv', auto)
  qed (simp add: remembered_def)
  then show "remembered now' c' n s" and "b \<Longrightarrow> n = nonce \<Longrightarrow> s + nonceTTL < now'" by auto
qed

lemma checkAndSet_records:
  "checkAndSet now nonce c = (True, c') \<Longrightarrow> remembered now c' nonce now"
  by (auto simp: checkAndSet_def remembered_def Let_def update_conv' split: option.splits)

lemma checkAndSet_distinct:
  "distinct (map fst c) \<Longrightarrow> checkAndSet now nonce c = (b, c') \<Longrightarrow> distinct (map fst c')"
  using distinct_evict[of c now] by (auto simp: checkAndSet_def Let_def distinct_update split: option.splits)

lemma hmac_admit_cases:
  assumes "hmac_admit r fresh seen c = (res, c')"
  obtains "c' = c" "res \<noteq> None"
  | "res = None \<longrightarrow> map_of c' (rq_nonce r) = None" "c' = evictExpired seen c"
      "\<exists>k. atoi (rq_timestamp r) = Some k \<and> \<not> stale fresh k"
proof (cases "c' = c \<and> res \<noteq> None")
  case False
  with assms show thesis
    by (intro that(2)) (auto simp: hmac_admit_def seenNonce_def Let_def split: if_splits option.splits)
qed (use that in blast)

lemma hmac_finish_cases:
  assumes "hmac_finish sha sign secret r now c = (res, r', c')"
  obtains "c' = c" "res \<noteq> None"
  | body b where "fst (readAndRestoreRequestBody r) = Some body" "signed sha sign secret r body"
      "checkAndSet now (rq_nonce r) c = (b, c')" "res = None \<longleftrightarrow> b"
  using assms by (auto simp: hmac_finish_def Let_def split: if_splits option.splits prod.splits)

section \<open>Runs of the signature check\<close>

text \<open>What is known of a pending and of an accepted request.\<close>

definition admitted :: "pending \<Rightarrow> bool" where
  "admitted p \<longleftrightarrow> pd_fresh p \<le> pd_seen p \<and>
     (\<exists>k. atoi (rq_timestamp (pd_request p)) = Some k \<and> \<not> stale (pd_fresh p) k)"

definition accepted_ok ::
  "(string \<Rightarrow> string) \<Rightarrow> (string \<Rightarrow> string \<Rightarrow> string) \<Rightarrow> string \<Rightarrow> pending \<times> time \<Rightarrow> bool" where
  "accepted_ok sha sign secret a \<longleftrightarrow> admitted (fst a) \<and> pd_seen (fst a) \<le> snd a \<and>
     (\<exists>body. fst (readAndRestoreRequestBody (pd_request (fst a))) = Some body \<and>
        signed sha sign secret (pd_request (fst a)) body)"

definition nonce_of :: "pending \<times> time \<Rightarrow> string" where
  "nonce_of a = rq_nonce (pd_request (fst a))"

text \<open>The pre-check of \<open>p\<close> came before the recording \<open>a\<close> of the same nonce, or after its lifetime.\<close>

definition apart :: "pending \<times> time \<Rightarrow> pending \<Rightarrow> bool" where
  "apart a p \<longleftrightarrow> (nonce_of a = rq_nonce (pd_request p) \<longrightarrow> pd_seen p \<le> snd a \<or> snd a + nonceTTL < pd_seen p)"

definition hmac_gate_ok ::
  "(string \<Rightarrow> string) \<Rightarrow> (string \<Rightarrow> string \<Rightarrow> string) \<Rightarrow> string \<Rightarrow> hmac_gate \<Rightarrow> bool" where
  "hmac_gate_ok sha sign secret g \<longleftrightarrow>
     distinct (map fst (hg_cache g)) \<and>
     (\<forall>p \<in> set (hg_pending g). admitted p \<and> pd_seen p \<le> hg_now g \<and> (\<forall>a \<in> set (hg_accepted g). apart a p)) \<and>
     (\<forall>a \<in> set (hg_accepted g). accepted_ok sha sign secret a \<and> snd a \<le> hg_now g \<and>
        remembered (hg_now g) (hg_cache g) (nonce_of a) (snd a)) \<and>
     sorted_wrt (\<lambda>a b. apart a (fst b) \<and> (nonce_of a = nonce_of b \<longrightarrow> snd a + nonceTTL < snd b)) (hg_accepted g)"

lemma arrive_ok:
  assumes ok: "hmac_gate_ok sha sign secret g"
  shows "hmac_gate_ok sha sign secret (hmac_event_step sha sign secret (Arrive r fresh seen) g)"
proof (cases "fresh \<le> seen \<and> hg_now g \<le> seen")
  case True
  obtain res c' where a: "hmac_admit r fresh seen (hg_cache g) = (res, c')" by fastforce
  from a have c: "distinct (map fst c')"
    and m: "\<And>n s. remembered (hg_now g) (hg_cache g) n s \<Longrightarrow> remembered seen c' n s"
    and p: "res = None \<Longrightarrow> admitted \<lparr>pd_request = r, pd_fresh = fresh, pd_seen = seen\<rparr>"
    and gone: "res = None \<Longrightarrow> map_of c' (rq_nonce r) = None"
    using ok True
    by (auto elim!: hmac_admit_cases simp: hmac_gate_ok_def admitted_def
             intro: distinct_evict remembered_evict remembered_later)
  have new: "apart a \<lparr>pd_request = r, pd_fresh = fresh, pd_seen = seen\<rparr>" if "a \<in> set (hg_accepted g)" "res = None" for a
  proof -
    have "remembered seen c' (nonce_of a) (snd a)" using m that(1) ok by (simp add: hmac_gate_ok_def)
    with gone[OF that(2)] show ?thesis by (auto simp: apart_def remembered_def)
  qed
  show ?thesis
    using ok True c m p new by (cases res) (fastforce simp: a hmac_gate_ok_def)+
qed (use ok in auto)

lemma finish_ok:
  assumes ok: "hmac_gate_ok sha sign secret g"
  shows "hmac_gate_ok sha sign secret (hmac_event_step sha sign secret (Finish i now) g)"
proof (cases "i < length (hg_pending g) \<and> hg_now g \<le> now")
  case True
  let ?p = "hg_pending g ! i"
  let ?rest = "take i (hg_pending g) @ drop (Suc i) (hg_pending g)"
  obtain res r' c' where f: "hmac_finish sha sign secret (pd_request ?p) now (hg_cache g) = (res, r', c')"
    by (metis surj_pair)
  have d: "distinct (map fst (hg_cache g))" using ok by (simp add: hmac_gate_ok_def)
  have "?p \<in> set (hg_pending g)" using True by simp
  then have p: "admitted ?p" "pd_seen ?p \<le> now"
    using ok conjunct2[OF True] by (simp_all add: hmac_gate_ok_def) fastforce
  have pend: "\<And>q. q \<in> set ?rest \<Longrightarrow> admitted q \<and> pd_seen q \<le> now \<and> (\<forall>a \<in> set (hg_accepted g). apart a q)"
    using ok True by (fastforce simp: hmac_gate_ok_def dest: in_set_takeD in_set_dropD)
  have c: "distinct (map fst c')"
    and m: "\<And>n s. remembered (hg_now g) (hg_cache g) n s \<Longrightarrow> remembered now c' n s"
    using f d True by (auto elim!: hmac_finish_cases intro: checkAndSet_distinct checkAndSet_keeps remembered_later)
  show ?thesis
  proof (cases res)
    case None
    obtain body where b: "fst (readAndRestoreRequestBody (pd_request ?p)) = Some body"
      "signed sha sign secret (pd_request ?p) body"
      "checkAndSet now (rq_nonce (pd_request ?p)) (hg_cache g) = (True, c')"
      using f None by (auto elim!: hmac_finish_cases)
    have new: "accepted_ok sha sign secret (?p, now)" using p b by (auto simp: accepted_ok_def)
    have own: "remembered now c' (nonce_of (?p, now)) now"
      using checkAndSet_records[OF b(3)] by (simp add: nonce_of_def)
    have gap: "snd a + nonceTTL < now" if "a \<in> set (hg_accepted g)" "nonce_of a = nonce_of (?p, now)" for a
      using checkAndSet_keeps(2)[OF d _ _ b(3), of "hg_now g" "nonce_of a" "snd a"] that ok True
      by (auto simp: hmac_gate_ok_def nonce_of_def)
    have later: "apart (?p, now) q" if "q \<in> set ?rest" for q using pend[OF that] by (simp add: apart_def)
    have before_p: "apart a ?p" if "a \<in> set (hg_accepted g)" for a
      using ok that \<open>?p \<in> set (hg_pending g)\<close> by (simp add: hmac_gate_ok_def)
    show ?thesis
      using ok True c m pend new own gap later before_p f None by (fastforce simp: hmac_gate_ok_def sorted_wrt_append)
  next
    case (Some e)
    then show ?thesis using ok True c m pend f by (fastforce simp: hmac_gate_ok_def)
  qed
qed (use ok in auto)

lemma hmac_run_ok: "hmac_gate_ok sha sign secret (hmac_run sha sign secret evs)"
proof (induction evs rule: rev_induct)
  case (snoc e evs)
  then show ?case using arrive_ok finish_ok by (cases e) (simp_all add: hmac_run_def)
qed (simp add: hmac_run_def hmac_gate0_def hmac_gate_ok_def)

lemma not_stale: "\<not> stale fresh k \<Longrightarrow> \<bar>fresh - time_Unix k\<bar> \<le> hmacMaxAgeSecs * second"
  by (auto simp: stale_def Let_def time_sub_def hmacMaxAgeSecs_def second_def min_duration_def max_duration_def)

text \<open>C14: A signed request can be replayed only by stalling a copy of it. In any interleaving of the
  middleware's steps, if two requests with the same timestamp and nonce are both accepted, the second
  nonce is recorded more than the nonce lifetime after the first; the second request passed the nonce check
  before the first was recorded (or more than the lifetime later), passed its freshness check while the
  window of the timestamp was open, and was held longer than the first one's distance to the start of
  that window.\<close>

theorem replay_needs_stall:
  assumes "i < j" "j < length (hg_accepted (hmac_run sha sign secret evs))"
    and "hg_accepted (hmac_run sha sign secret evs) ! i = (p, s)"
    and "hg_accepted (hmac_run sha sign secret evs) ! j = (q, t)"
    and "rq_nonce (pd_request p) = rq_nonce (pd_request q)"
    and "rq_timestamp (pd_request p) = rq_timestamp (pd_request q)"
    and "atoi (rq_timestamp (pd_request p)) = Some k"
  shows "t > s + nonceTTL \<and> (pd_seen q \<le> s \<or> s + nonceTTL < pd_seen q) \<and> pd_fresh q \<le> time_Unix k + hmacMaxAgeSecs * second \<and>
    time_Unix k - hmacMaxAgeSecs * second \<le> s \<and>
    t - pd_fresh q > s - (time_Unix k - hmacMaxAgeSecs * second)"
proof -
  let ?g = "hmac_run sha sign secret evs"
  note ok = hmac_run_ok[of sha sign secret evs]
  have "apart (p, s) q \<and> snd (p, s) + nonceTTL < snd (q, t)"
    using ok assms(1-5) sorted_wrt_nth_less[of _ "hg_accepted ?g" i j] by (fastforce simp: hmac_gate_ok_def nonce_of_def)
  then have "pd_seen q \<le> s \<or> s + nonceTTL < pd_seen q" "s + nonceTTL < t"
    using assms(5) by (auto simp: apart_def nonce_of_def)
  moreover have "(p, s) \<in> set (hg_accepted ?g)" "(q, t) \<in> set (hg_accepted ?g)"
    using assms(1-4) by (metis nth_mem order.strict_trans)+
  then have "accepted_ok sha sign secret (p, s)" "accepted_ok sha sign secret (q, t)"
    using ok by (auto simp: hmac_gate_ok_def)
  then have "\<not> stale (pd_fresh p) k" "\<not> stale (pd_fresh q) k" "pd_fresh p \<le> s"
    using assms(6,7) by (auto simp: accepted_ok_def admitted_def)
  ultimately show ?thesis
    using not_stale[of "pd_fresh p" k] not_stale[of "pd_fresh q" k]
    by (simp add: nonceTTL_def hmacMaxAgeSecs_def second_def abs_le_iff)
qed

text \<open>Two copies in flight: the second one's body ends 61 seconds after the first was accepted.\<close>

definition stalled_request :: request where
  "stalled_request =
     \<lparr>rq_Method = ''POST'', rq_Path = ''/mcp'', rq_RawPath = [], rq_RawQuery = [], rq_Host = [], rq_TLS = False,
      rq_Header = [(''X-Mcp-Timestamp'', [''1000'']), (''X-Mcp-Nonce'', [''n'']), (''X-Mcp-Signature'', [''6f6b''])],
      rq_Body = Reader (Some ''{}''), rq_ContentLength = 2, rq_TransferEncoding = []\<rparr>"

definition stalled_events :: "hmac_event list" where
  "stalled_events =
     (let t = time_Unix 1000
      in [Arrive stalled_request t t, Arrive stalled_request t (t + 1), Finish 0 (t + 2), Finish 0 (t + 61 * second)])"

lemma stalled_run:
  "hg_accepted (hmac_run (\<lambda>_. replicate 32 CHR 0x00) (\<lambda>_ _. ''ok'') ''key'' stalled_events) =
     [(\<lparr>pd_request = stalled_request, pd_fresh = time_Unix 1000, pd_seen = time_Unix 1000\<rparr>, time_Unix 1000 + 2),
      (\<lparr>pd_request = stalled_request, pd_fresh = time_Unix 1000, pd_seen = time_Unix 1000 + 1\<rparr>,
       time_Unix 1000 + 61 * second)]"
  by code_simp

lemma replay_needs_stall_witness:
  "hg_accepted (hmac_run (\<lambda>_. replicate 32 CHR 0x00) (\<lambda>_ _. ''ok'') ''key'' stalled_events) ! 1 =
     (\<lparr>pd_request = stalled_request, pd_fresh = time_Unix 1000, pd_seen = time_Unix 1000 + 1\<rparr>, time_Unix 1000 + 61 * second) \<and>
   time_Unix 1000 + 61 * second > time_Unix 1000 + 2 + nonceTTL"
proof -
  have "rq_timestamp stalled_request = ''1000''" "atoi ''1000'' = Some 1000" by code_simp+
  then show ?thesis
    using replay_needs_stall[where i = 0 and j = 1 and evs = stalled_events and sha = "\<lambda>_. replicate 32 CHR 0x00"
        and sign = "\<lambda>_ _. ''ok''" and secret = "''key''"]
    by (simp add: stalled_run)
qed

section \<open>What a signature covers\<close>

lemma line_split:
  "a @ newline # b = c @ newline # d \<Longrightarrow> newline \<notin> set a \<Longrightarrow> newline \<notin> set c \<Longrightarrow> a = c \<and> b = d"
  by (auto simp: append_eq_append_conv2 append_eq_Cons_conv Cons_eq_append_conv)

lemma hex_encode_eq: "hex_encode a = hex_encode b \<longleftrightarrow> a = b"
  by (metis hex_roundtrip option.inject)

text \<open>C16: The signed message determines what it is made of: for header values without a line break and
  a digest of fixed length, equal messages have the same timestamp, nonce, path and body digest, even
  where the path contains line breaks. A signature cannot be moved to another nonce, path or body.\<close>

theorem signed_message_binds:
  assumes "hmacMessage sha timestamp nonce path body = hmacMessage sha timestamp' nonce' path' body'"
    and "newline \<notin> set (timestamp @ nonce @ timestamp' @ nonce')"
    and "length (sha body) = 32" and "length (sha body') = 32"
  shows "timestamp = timestamp' \<and> nonce = nonce' \<and> path = path' \<and> sha body = sha body'"
proof -
  from assms(1,2) line_split[of timestamp _ timestamp'] have t: "timestamp = timestamp'"
    "nonce @ newline # path @ newline # hex_encode (sha body) = nonce' @ newline # path' @ newline # hex_encode (sha body')"
    by (auto simp: hmacMessage_def)
  with assms(2) line_split[of nonce _ nonce'] have n: "nonce = nonce'"
    "path @ newline # hex_encode (sha body) = path' @ newline # hex_encode (sha body')" by auto
  from n(2) assms(3,4) have "path = path' \<and> newline # hex_encode (sha body) = newline # hex_encode (sha body')"
    by (subst (asm) append_eq_append_conv) simp_all
  with t n show ?thesis by (simp add: hex_encode_eq)
qed

lemma signed_message_binds_witness:
  "\<exists>path. hmacMessage (\<lambda>_. replicate 32 CHR 0x00) ''1000'' ''n'' (''/a'' @ [newline]) ''{}'' =
      hmacMessage (\<lambda>_. replicate 32 CHR 0x00) ''1000'' ''n'' path ''[]'' \<and> path = ''/a'' @ [newline]"
  using signed_message_binds[of "\<lambda>_. replicate 32 CHR 0x00" "''1000''" "''n''" "''/a'' @ [newline]" "''{}''" "''1000''" "''n''"
      "''/a'' @ [newline]" "''[]''"]
  by (simp add: hmacMessage_def newline_def)

section \<open>The stack\<close>

abbreviation "auth_of r \<equiv> header_Get (rq_Header r) ''Authorization''"













section \<open>A bearer that expires on the way\<close>






end
