(* ===== verification/DelegationControl.thy ===== *)
theory DelegationControl imports ProxyServer DelegationProperties begin

text \<open>
  \<open>internal/delegation/control_handler.go\<close> and \<open>config.go\<close>: the control plane over the delegation
  store. \<open>encoding/json\<close> is given by the four decoders of \<open>control_env\<close>, which see the bytes of a
  body within the limit and fail as \<open>DecodeStrictJSON\<close> does. Other goroutines use the store between
  the operation of a request and the snapshot that persists it (\<open>ce_between\<close>), and while a
  reconciled state is written (\<open>ce_during\<close>).
\<close>

section \<open>Configuration\<close>

definition ControlPathPrefix :: string where
  "ControlPathPrefix = ''/internal/awf-enclave-mcp-control/''"

record control_deps =
  cd_Store :: "string delegation_store option"
  cd_Capability :: "string control_capability option"
  cd_StatePath :: string

definition ControlDeps :: "string delegation_runtime option \<Rightarrow> control_deps" where
  "ControlDeps c =
     (case c of
        None \<Rightarrow> \<lparr>cd_Store = None, cd_Capability = None, cd_StatePath = []\<rparr>
      | Some cfg \<Rightarrow> \<lparr>cd_Store = dr_Store cfg, cd_Capability = dr_Capability cfg, cd_StatePath = dr_StatePath cfg\<rparr>)"

section \<open>Requests\<close>

record run_entry =
  re_RunID :: string
  re_EnclaveEntryID :: string

text \<open>The store that \<open>ControlDeps\<close> points to and the file at the state path.\<close>

record control_state =
  ct_store :: "string delegation_store"
  ct_file :: "string option"

record control_env =
  ce_sha256 :: "string \<Rightarrow> string"
  ce_encode :: "persisted_state \<Rightarrow> string option"
  ce_write_ok :: bool
  ce_now :: time
  ce_handle :: "string option"
  ce_bearer :: "string option"
  ce_between :: "store_op list"
  ce_during :: "store_op list"
  ce_decode_create :: "string \<Rightarrow> request_wire option"
  ce_decode_revoke :: "string \<Rightarrow> string option"
  ce_decode_entry :: "string \<Rightarrow> run_entry option"
  ce_decode_empty :: "string \<Rightarrow> unit option"

datatype control_body =
    ControlError string string
  | NotFoundPage
  | CreatedBody identity_result
  | RevokedBody
  | RevokedCount nat
  | StatusBody store_status "string list"
  | ReconciledBody

record control_reply =
  cr_Status :: int
  cr_Body :: control_body

definition control_error :: "int \<Rightarrow> string \<Rightarrow> string \<Rightarrow> control_reply" where
  "control_error status code msg = \<lparr>cr_Status = status, cr_Body = ControlError code msg\<rparr>"

definition control_ok :: "control_body \<Rightarrow> control_reply" where
  "control_ok b = \<lparr>cr_Status = 200, cr_Body = b\<rparr>"

definition not_found :: control_reply where
  "not_found = \<lparr>cr_Status = 404, cr_Body = NotFoundPage\<rparr>"

definition maxControlBody :: nat where "maxControlBody = 64 * 1024"

definition decodeControlJSON :: "(string \<Rightarrow> 'a option) \<Rightarrow> request \<Rightarrow> 'a option" where
  "decodeControlJSON decode r =
     (case read_all (rq_Body r) of
        None \<Rightarrow> None
      | Some b \<Rightarrow> if length b > maxControlBody then None else decode b)"

definition invalid_request :: control_reply where
  "invalid_request = control_error 400 ''invalid_delegation_request'' ''invalid delegation request''"

definition persist_failed :: control_reply where
  "persist_failed = control_error 500 ''delegation_state_persist_failed'' ''delegation state persistence failed''"

text \<open>The operation has left the store \<open>s\<close>; the answer is \<open>reply\<close> when the state could be written.\<close>

definition persistState ::
  "control_env \<Rightarrow> control_reply \<Rightarrow> string delegation_store \<Rightarrow> control_state \<Rightarrow> control_reply \<times> control_state" where
  "persistState env reply s ct =
     (let s1 = fold (store_step (ce_sha256 env)) (ce_between env) s
      in case SaveState (ce_sha256 env) (ce_encode env) (ce_write_ok env) s1 (ct_file ct) of
           (Some _, f) \<Rightarrow> (persist_failed, \<lparr>ct_store = s1, ct_file = f\<rparr>)
         | (None, f) \<Rightarrow> (reply, \<lparr>ct_store = s1, ct_file = f\<rparr>))"

section \<open>The handler\<close>

definition control_create :: "control_env \<Rightarrow> request \<Rightarrow> control_state \<Rightarrow> control_reply \<times> control_state" where
  "control_create env r ct =
     (case decodeControlJSON (ce_decode_create env) r of
        None \<Rightarrow> (invalid_request, ct)
      | Some wire \<Rightarrow>
          (case ToRequest wire of
             Inl _ \<Rightarrow> (invalid_request, ct)
           | Inr req \<Rightarrow>
               (case createOrConfirmAt (ce_sha256 env) req (ce_now env) (ce_handle env) (ce_bearer env) (ct_store ct) of
                  (Inl _, s) \<Rightarrow>
                    persistState env (control_error 403 ''delegation_request_denied'' ''delegation request denied'') s ct
                | (Inr result, s) \<Rightarrow> persistState env (control_ok (CreatedBody result)) s ct)))"

definition control_revoke :: "control_env \<Rightarrow> request \<Rightarrow> control_state \<Rightarrow> control_reply \<times> control_state" where
  "control_revoke env r ct =
     (case decodeControlJSON (ce_decode_revoke env) r of
        None \<Rightarrow> (invalid_request, ct)
      | Some handle \<Rightarrow>
          persistState env (control_ok RevokedBody) (store_Revoke (ce_sha256 env) handle (ct_store ct)) ct)"

definition control_revoke_labels :: "control_env \<Rightarrow> request \<Rightarrow> control_state \<Rightarrow> control_reply \<times> control_state" where
  "control_revoke_labels env r ct =
     (case decodeControlJSON (ce_decode_entry env) r of
        None \<Rightarrow> (invalid_request, ct)
      | Some e \<Rightarrow>
          (let (revoked, s) = RevokeByLabels (ce_sha256 env) (re_RunID e) (re_EnclaveEntryID e) (ct_store ct)
           in persistState env (control_ok (RevokedCount revoked)) s ct))"

definition control_status :: "control_env \<Rightarrow> request \<Rightarrow> control_state \<Rightarrow> control_reply \<times> control_state" where
  "control_status env r ct =
     (case decodeControlJSON (ce_decode_entry env) r of
        None \<Rightarrow> (invalid_request, ct)
      | Some e \<Rightarrow>
          (if re_RunID e = [] \<or> re_EnclaveEntryID e = []
           then (control_error 400 ''delegation_status_invalid_request'' ''run_id and enclave_entry_id are required'', ct)
           else
             (let (status, s) = store_Status (ce_sha256 env) (ce_now env) (ct_store ct);
                  s1 = fold (store_step (ce_sha256 env)) (ce_between env) s
              in (control_ok (StatusBody status (LabelHandles (re_RunID e) (re_EnclaveEntryID e) s1)),
                  ct\<lparr>ct_store := s1\<rparr>))))"

definition control_reconcile :: "control_env \<Rightarrow> request \<Rightarrow> control_state \<Rightarrow> control_reply \<times> control_state" where
  "control_reconcile env r ct =
     (case decodeControlJSON (ce_decode_empty env) r of
        None \<Rightarrow> (invalid_request, ct)
      | Some _ \<Rightarrow>
          (case MarkReconciledAndSaveState (ce_sha256 env) (ce_encode env) (ce_write_ok env) (ce_during env)
                  (ct_store ct) (ct_file ct) of
             (Some _, s, f) \<Rightarrow> (persist_failed, \<lparr>ct_store = s, ct_file = f\<rparr>)
           | (None, s, f) \<Rightarrow> (control_ok ReconciledBody, \<lparr>ct_store = s, ct_file = f\<rparr>)))"

definition HandleControl ::
  "control_env \<Rightarrow> string control_capability \<Rightarrow> request \<Rightarrow> control_state \<Rightarrow> control_reply \<times> control_state" where
  "HandleControl env cap r ct =
     (if rq_Method r \<noteq> ''POST'' \<or> Authenticate (ce_sha256 env) cap (header_Get (rq_Header r) ''Authorization'') \<noteq> None
      then (control_error 403 ''delegation_access_denied'' ''delegation control access denied'', ct)
      else if rq_Path r = ControlPathPrefix @ ''create-or-confirm'' then control_create env r ct
      else if rq_Path r = ControlPathPrefix @ ''revoke'' then control_revoke env r ct
      else if rq_Path r = ControlPathPrefix @ ''revoke-by-labels'' then control_revoke_labels env r ct
      else if rq_Path r = ControlPathPrefix @ ''status'' then control_status env r ct
      else if rq_Path r = ControlPathPrefix @ ''reconcile'' then control_reconcile env r ct
      else (not_found, ct))"

text \<open>
  A nil store answers 404 and nothing has a state. A nil capability, which \<open>RuntimeConfig_Validate\<close> excludes, would
  be dereferenced: None.
\<close>

definition NewControlHTTPHandler ::
  "control_env \<Rightarrow> control_deps \<Rightarrow> request \<Rightarrow> string option \<Rightarrow>
   (control_reply \<times> string delegation_store option \<times> string option) option" where
  "NewControlHTTPHandler env deps r f =
     (case cd_Store deps of
        None \<Rightarrow> Some (not_found, None, f)
      | Some s \<Rightarrow>
          (if \<not> prefix ControlPathPrefix (rq_Path r) then Some (not_found, Some s, f)
           else
             (case cd_Capability deps of
                None \<Rightarrow>
                  (if rq_Method r \<noteq> ''POST'' \<or> strip_bearer (header_Get (rq_Header r) ''Authorization'') = []
                   then Some (control_error 403 ''delegation_access_denied'' ''delegation control access denied'', Some s, f)
                   else None)
              | Some cap \<Rightarrow>
                  (let (rep, ct) = HandleControl env cap r \<lparr>ct_store = s, ct_file = f\<rparr>
                   in Some (rep, Some (ct_store ct), ct_file ct)))))"

definition NewControlHTTPHandlerForConfig ::
  "control_env \<Rightarrow> string delegation_runtime option \<Rightarrow> request \<Rightarrow> string option \<Rightarrow>
   (control_reply \<times> string delegation_store option \<times> string option) option" where
  "NewControlHTTPHandlerForConfig env c r f = NewControlHTTPHandler env (ControlDeps c) r f"

section \<open>What the control plane guarantees\<close>

lemma HandleControl_authorized:
  assumes "HandleControl env cap r ct = (rep, ct')" and "ct' \<noteq> ct \<or> cr_Status rep = 200"
  shows "rq_Method r = ''POST'' \<and>
    Authenticate (ce_sha256 env) cap (header_Get (rq_Header r) ''Authorization'') = None \<and> prefix ControlPathPrefix (rq_Path r)"
  using assms by (auto simp: HandleControl_def control_error_def not_found_def split: if_splits)

lemma no_digest_of:
  assumes ok: "store_ok sha s" and r: "r < length (cells s)" "Revoked (cells s ! r)"
    and b: "sha (strip_bearer bearer) = sha (ExecutorBearer (cells s ! r))"
  shows "fst (Authorize sha now bearer runID backend repository tool s) \<noteq> None"
proof
  assume "fst (Authorize sha now bearer runID backend repository tool s) = None"
  then obtain q where q: "fst (store_authorize sha now bearer repository tool
      (\<lambda>i. RunID (i_core i) = runID \<and> EnclaveBackend (i_core i) = backend) s) = Inr q"
    by (auto simp: Authorize_def split: prod.splits sum.splits)
  then have "live s q" "sha (ExecutorBearer (cells s ! q)) = sha (ExecutorBearer (cells s ! r))"
    using authorize_iff[OF ok] b by simp_all
  then have "q = r" using store_okD(2)[OF ok] r(1) by (auto simp: tokens_distinct_def live_def)
  with \<open>live s q\<close> r(2) show False by (simp add: live_def)
qed

lemma revoked_handle_dead:
  assumes ok: "store_ok sha s" and r: "r < length (cells s)" "Handle (cells s ! r) = handle"
    and b: "sha (strip_bearer bearer) = sha (ExecutorBearer (cells s ! r))"
  shows "store_ok sha (fold (store_step sha) ops (store_Revoke sha handle s))"
    and "fst (Authorize sha now bearer runID backend repository tool
      (fold (store_step sha) ops (store_Revoke sha handle s))) \<noteq> None"
proof -
  let ?s1 = "store_Revoke sha handle s" and ?t = "fold (store_step sha) ops (store_Revoke sha handle s)"
  have s1: "store_ok sha ?s1" "evolves s ?s1" "\<not> live ?s1 r"
    using revoke_if_present_ok[OF ok, of handle] r by (auto simp: store_Revoke_present only_revokes_evolves)
  show t: "store_ok sha ?t" using history.run_ok[OF s1(1)] .
  have ev: "evolves s ?t" using evolves_trans[OF s1(2) run_evolves[OF s1(1)]] .
  have len: "r < length (cells ?s1)" "r < length (cells ?t)" using s1(2) ev r(1) by (auto simp: evolves_def)
  then have "Revoked (cells ?t ! r)" using evolves_live[OF run_evolves[OF s1(1)] len(1)] s1(3) by (auto simp: live_def)
  moreover have "ExecutorBearer (cells ?t ! r) = ExecutorBearer (cells s ! r)" using ev r(1) by (auto simp: evolves_def)
  ultimately show "fst (Authorize sha now bearer runID backend repository tool ?t) \<noteq> None"
    using no_digest_of[OF t len(2)] b by simp
qed

lemma persisted:
  assumes "persistState env reply s ct = (rep, ct')" and "cr_Status rep = 200"
  obtains body where "ct_store ct' = fold (store_step (ce_sha256 env)) (ce_between env) s"
    "ce_encode env (snapshot_state False (ct_store ct')) = Some body"
    "ct_file ct' = Some (state_file (ce_sha256 env) body)"
  using assms
  by (auto simp: persistState_def Let_def SaveState_def saveStateLocked_def persist_failed_def control_error_def
      split: option.splits if_splits)

text \<open>C33: An acknowledged revocation survives a restart. When the control plane has answered 200 to a
  revocation, then, whatever other goroutines did to the store before the state was written, the file that
  is now at the state path is such that a gateway that starts from it never authorizes a bearer whose digest
  is that of the revoked identity (for a codec that gives the persisted state back).\<close>

theorem acknowledged_revocation_survives_restart:
  assumes "HandleControl env cap r ct = (rep, ct')" and "cr_Status rep = 200"
    and "rq_Path r = ControlPathPrefix @ ''revoke''"
    and "decodeControlJSON (ce_decode_revoke env) r = Some handle"
    and "store_ok (ce_sha256 env) (ct_store ct)" and "i < length (cells (ct_store ct))"
    and "Handle (cells (ct_store ct) ! i) = handle"
    and "ce_sha256 env (strip_bearer bearer) = ce_sha256 env (ExecutorBearer (cells (ct_store ct) ! i))"
    and "\<forall>ps body. ce_encode env ps = Some body \<longrightarrow>
      body \<noteq> [] \<and> length (ce_sha256 env body) = 32 \<and> (\<exists>qs. decode body = Some qs \<and> same_state qs ps)"
    and "\<not> recoveryIncomplete (ct_store ct')" and "loaded_at \<le> now"
  shows "\<exists>file t. ct_file ct' = Some file \<and>
    loadStoreAt (ce_sha256 env) decode (FileContents file) (Some (st_envelope (ct_store ct')))
      (generation (ct_store ct')) loaded_at = Inr t \<and>
    fst (Authorize (ce_sha256 env) now bearer runID backend repository tool t) \<noteq> None"
proof -
  let ?sha = "ce_sha256 env"
  have "persistState env (control_ok RevokedBody) (store_Revoke ?sha handle (ct_store ct)) ct = (rep, ct')"
    using assms(1-4)
    by (auto simp: HandleControl_def control_revoke_def control_error_def ControlPathPrefix_def split: if_splits)
  then obtain body where b: "ct_store ct' = fold (store_step ?sha) (ce_between env) (store_Revoke ?sha handle (ct_store ct))"
    "ce_encode env (snapshot_state False (ct_store ct')) = Some body" "ct_file ct' = Some (state_file ?sha body)"
    using persisted assms(2) by metis
  note dead = revoked_handle_dead[OF assms(5-8), where ops = "ce_between env", folded b(1)]
  obtain qs where q: "decode body = Some qs" "same_state qs (snapshot_state False (ct_store ct'))"
    "length (?sha body) = 32" "body \<noteq> []"
    using assms(9) b(2) by blast
  obtain t where t: "loadStoreAt ?sha decode (FileContents (state_file ?sha body)) (Some (st_envelope (ct_store ct')))
      (generation (ct_store ct')) loaded_at = Inr t"
    by (rule load_of_save[where sha = ?sha and decode = decode, OF dead(1) q])
  have "fst (Authorize ?sha now bearer runID backend repository tool t) \<noteq> None"
    using restart_authorizes_same[where sha = ?sha and decode = decode, OF dead(1) q assms(11,10) t] dead(2) by blast
  with b(3) t show ?thesis by blast
qed

text \<open>The identity of the example store is revoked and its file loaded; the digest is the identity here.\<close>

definition revoked_state :: persisted_state where
  "revoked_state = snapshot_state False (store_Revoke id ''dlg_aa'' demo_live)"

definition revoke_env :: control_env where
  "revoke_env =
     \<lparr>ce_sha256 = id, ce_encode = (\<lambda>ps. if ps = revoked_state then Some (replicate 32 CHR ''x'') else None),
      ce_write_ok = True, ce_now = 2 * second, ce_handle = None, ce_bearer = None, ce_between = [], ce_during = [],
      ce_decode_create = (\<lambda>_. None), ce_decode_revoke = (\<lambda>_. Some ''dlg_aa''), ce_decode_entry = (\<lambda>_. None),
      ce_decode_empty = (\<lambda>_. Some ())\<rparr>"

definition revoke_request :: request where
  "revoke_request =
     \<lparr>rq_Method = ''POST'', rq_Path = ControlPathPrefix @ ''revoke'', rq_RawPath = [], rq_RawQuery = [], rq_Host = [],
      rq_TLS = False, rq_Header = [(''Authorization'', [''Bearer secret''])], rq_Body = Reader (Some ''{}''),
      rq_ContentLength = 2, rq_TransferEncoding = []\<rparr>"

lemma acknowledged_revocation_survives_restart_witness:
  "\<exists>rep ct' file t. HandleControl revoke_env \<lparr>expected = ''secret''\<rparr> revoke_request \<lparr>ct_store = demo_live, ct_file = None\<rparr> = (rep, ct') \<and>
     cr_Status rep = 200 \<and> ct_file ct' = Some file \<and>
     loadStoreAt id (\<lambda>_. Some revoked_state) (FileContents file) (Some (st_envelope (ct_store ct'))) (generation (ct_store ct'))
       second = Inr t \<and>
     fst (Authorize id (2 * second) ''dlgbearer_bb'' ''run'' ''github'' ''octo/repo'' ''get_file_contents'' t) \<noteq> None"
proof -
  let ?ct = "\<lparr>ct_store = demo_live, ct_file = None\<rparr>"
  let ?run = "HandleControl revoke_env \<lparr>expected = ''secret''\<rparr> revoke_request ?ct"
  have d1: "decodeControlJSON (ce_decode_revoke revoke_env) revoke_request = Some ''dlg_aa''"
    "rq_Path revoke_request = ControlPathPrefix @ ''revoke''"
    by (simp_all add: decodeControlJSON_def revoke_env_def revoke_request_def maxControlBody_def)
  have d: "0 < length (cells (ct_store ?ct))" "Handle (cells (ct_store ?ct) ! 0) = ''dlg_aa''"
    "ce_sha256 revoke_env (strip_bearer ''dlgbearer_bb'') = ce_sha256 revoke_env (ExecutorBearer (cells (ct_store ?ct) ! 0))"
    by code_simp+
  have auth: "rq_Method revoke_request = ''POST''"
    "Authenticate id \<lparr>expected = ''secret''\<rparr> (header_Get (rq_Header revoke_request) ''Authorization'') = None"
    by code_simp+
  have e: "ce_sha256 revoke_env = id" "ce_between revoke_env = []" "ce_write_ok revoke_env"
    "ce_encode revoke_env revoked_state = Some (replicate 32 CHR ''x'')"
    by (simp_all add: revoke_env_def)
  have run: "?run = (control_ok RevokedBody,
      \<lparr>ct_store = store_Revoke id ''dlg_aa'' demo_live, ct_file = Some (state_file id (replicate 32 CHR ''x''))\<rparr>)"
  proof -
    have "?run = control_revoke revoke_env revoke_request ?ct"
      using auth e(1) by (simp add: HandleControl_def d1(2))
    also have "\<dots> = persistState revoke_env (control_ok RevokedBody) (store_Revoke id ''dlg_aa'' demo_live) ?ct"
      by (simp add: control_revoke_def d1(1) e(1))
    also have "\<dots> = (control_ok RevokedBody,
        \<lparr>ct_store = store_Revoke id ''dlg_aa'' demo_live, ct_file = Some (state_file id (replicate 32 CHR ''x''))\<rparr>)"
      using e(3,4) by (simp add: persistState_def SaveState_def saveStateLocked_def e(1,2) revoked_state_def)
    finally show ?thesis .
  qed
  then obtain rep ct' where r: "?run = (rep, ct')" and ok: "cr_Status rep = 200"
    and c: "ct_store ct' = store_Revoke id ''dlg_aa'' demo_live"
    by (simp add: control_ok_def)
  have "\<not> recoveryIncomplete (store_Revoke id ''dlg_aa'' demo_live)" by code_simp
  then have open_gate: "\<not> recoveryIncomplete (ct_store ct')" by (simp add: c)
  have sha: "ce_sha256 revoke_env = id" by (simp add: revoke_env_def)
  have s: "store_ok (ce_sha256 revoke_env) (ct_store ?ct)" using demo_live_ok sha by simp
  have codec: "\<forall>ps body. ce_encode revoke_env ps = Some body \<longrightarrow>
      body \<noteq> [] \<and> length (ce_sha256 revoke_env body) = 32 \<and> (\<exists>qs. Some revoked_state = Some qs \<and> same_state qs ps)"
    by (auto simp: revoke_env_def same_state_def split: if_splits)
  from acknowledged_revocation_survives_restart[where decode = "\<lambda>_. Some revoked_state" and loaded_at = second and now = "2 * second"
        and bearer = "''dlgbearer_bb''" and runID = "''run''" and backend = "''github''" and repository = "''octo/repo''"
        and tool = "''get_file_contents''", OF r ok d1(2,1) s d codec open_gate]
  obtain f t where "ct_file ct' = Some f"
      "loadStoreAt id (\<lambda>_. Some revoked_state) (FileContents f) (Some (st_envelope (ct_store ct'))) (generation (ct_store ct'))
         second = Inr t"
      "fst (Authorize id (2 * second) ''dlgbearer_bb'' ''run'' ''github'' ''octo/repo'' ''get_file_contents'' t) \<noteq> None"
    unfolding sha by (auto simp: second_def simp del: not_None_eq)
  with r ok show ?thesis by blast
qed

end
