(* ===== verification/ConnectionPool.thy ===== *)
theory ConnectionPool imports Util begin

text \<open>
  \<open>internal/launcher/connection_pool.go\<close>: the connections of stateful backends by backend and session.
  The mutex covers each method, so each is one step; clock readings are arguments. A connection
  is an abstract value; \<open>cp_closed\<close> records on which of them the pool called \<open>Close\<close>. The goroutine
  that calls \<open>cleanupIdleConnections\<close> at every tick is the caller of that step.
\<close>

section \<open>State\<close>

type_synonym connection_key = "string \<times> string"

datatype connection_state = ConnectionStateActive | ConnectionStateIdle | ConnectionStateClosed

record 'c connection_metadata =
  cm_Connection :: 'c
  cm_CreatedAt :: time
  cm_LastUsedAt :: time
  cm_RequestCount :: nat
  cm_ErrorCount :: nat
  cm_State :: connection_state

record 'c connection_pool =
  cp_connections :: "(connection_key \<times> 'c connection_metadata) list"
  cp_idleTimeout :: duration
  cp_cleanupInterval :: duration
  cp_maxErrorCount :: int
  cp_closed :: "'c list"

record pool_config =
  po_IdleTimeout :: duration
  po_CleanupInterval :: duration
  po_MaxErrorCount :: int

definition DefaultIdleTimeout :: duration where "DefaultIdleTimeout = 6 * 3600 * second"
definition DefaultCleanupInterval :: duration where "DefaultCleanupInterval = 300 * second"
definition DefaultMaxErrorCount :: int where "DefaultMaxErrorCount = 10"

definition NewSessionConnectionPoolWithConfig :: "pool_config \<Rightarrow> 'c connection_pool" where
  "NewSessionConnectionPoolWithConfig config =
     \<lparr>cp_connections = [], cp_idleTimeout = po_IdleTimeout config, cp_cleanupInterval = po_CleanupInterval config,
      cp_maxErrorCount = po_MaxErrorCount config, cp_closed = []\<rparr>"

definition NewSessionConnectionPool :: "'c connection_pool" where
  "NewSessionConnectionPool = NewSessionConnectionPoolWithConfig
     \<lparr>po_IdleTimeout = DefaultIdleTimeout, po_CleanupInterval = DefaultCleanupInterval, po_MaxErrorCount = DefaultMaxErrorCount\<rparr>"

section \<open>Operations\<close>

definition should_remove :: "time \<Rightarrow> 'c connection_pool \<Rightarrow> 'c connection_metadata \<Rightarrow> bool" where
  "should_remove now p m \<longleftrightarrow>
     time_sub now (cm_LastUsedAt m) > cp_idleTimeout p \<or>
     int (cm_ErrorCount m) \<ge> cp_maxErrorCount p \<or>
     cm_State m = ConnectionStateClosed"

definition cleanupIdleConnections :: "time \<Rightarrow> 'c connection_pool \<Rightarrow> 'c connection_pool" where
  "cleanupIdleConnections now p =
     p\<lparr>cp_connections := filter (\<lambda>(k, m). \<not> should_remove now p m) (cp_connections p),
       cp_closed := cp_closed p @
         map (\<lambda>(k, m). cm_Connection m)
           (filter (\<lambda>(k, m). should_remove now p m \<and> cm_State m \<noteq> ConnectionStateClosed) (cp_connections p))\<rparr>"

text \<open>\<open>Stop\<close> drops every entry; it does not close the connections.\<close>

definition pool_Stop :: "'c connection_pool \<Rightarrow> 'c connection_pool" where
  "pool_Stop p = p\<lparr>cp_connections := []\<rparr>"

definition pool_Get :: "time \<Rightarrow> string \<Rightarrow> string \<Rightarrow> 'c connection_pool \<Rightarrow> 'c option \<times> 'c connection_pool" where
  "pool_Get now backendID sessionID p =
     (case map_of (cp_connections p) (backendID, sessionID) of
        None \<Rightarrow> (None, p)
      | Some m \<Rightarrow>
          (if cm_State m = ConnectionStateClosed then (None, p)
           else (Some (cm_Connection m),
                 p\<lparr>cp_connections := AList.update (backendID, sessionID)
                     (m\<lparr>cm_LastUsedAt := now, cm_RequestCount := cm_RequestCount m + 1, cm_State := ConnectionStateActive\<rparr>)
                     (cp_connections p)\<rparr>)))"

definition pool_Set :: "time \<Rightarrow> time \<Rightarrow> string \<Rightarrow> string \<Rightarrow> 'c \<Rightarrow> 'c connection_pool \<Rightarrow> 'c connection_pool" where
  "pool_Set created used backendID sessionID conn p =
     p\<lparr>cp_connections := AList.update (backendID, sessionID)
        (case map_of (cp_connections p) (backendID, sessionID) of
           Some existing \<Rightarrow> existing\<lparr>cm_Connection := conn, cm_LastUsedAt := used, cm_State := ConnectionStateActive\<rparr>
         | None \<Rightarrow> \<lparr>cm_Connection = conn, cm_CreatedAt = created, cm_LastUsedAt = used, cm_RequestCount = 0,
                    cm_ErrorCount = 0, cm_State = ConnectionStateActive\<rparr>)
        (cp_connections p)\<rparr>"

definition pool_Delete :: "string \<Rightarrow> string \<Rightarrow> 'c connection_pool \<Rightarrow> 'c connection_pool" where
  "pool_Delete backendID sessionID p =
     p\<lparr>cp_connections := AList.delete (backendID, sessionID) (cp_connections p)\<rparr>"

definition pool_Size :: "'c connection_pool \<Rightarrow> nat" where
  "pool_Size p = length (cp_connections p)"

definition pool_GetMetadata :: "string \<Rightarrow> string \<Rightarrow> 'c connection_pool \<Rightarrow> 'c connection_metadata option" where
  "pool_GetMetadata backendID sessionID p = map_of (cp_connections p) (backendID, sessionID)"

definition pool_RecordError :: "string \<Rightarrow> string \<Rightarrow> 'c connection_pool \<Rightarrow> 'c connection_pool" where
  "pool_RecordError backendID sessionID p =
     (case map_of (cp_connections p) (backendID, sessionID) of
        None \<Rightarrow> p
      | Some m \<Rightarrow>
          p\<lparr>cp_connections := AList.update (backendID, sessionID) (m\<lparr>cm_ErrorCount := cm_ErrorCount m + 1\<rparr>)
              (cp_connections p)\<rparr>)"

definition pool_List :: "'c connection_pool \<Rightarrow> connection_key list" where
  "pool_List p = map fst (cp_connections p)"

definition ConnectionKey_String :: "connection_key \<Rightarrow> string" where
  "ConnectionKey_String k = fst k @ ''/'' @ snd k"

section \<open>The invariant\<close>

text \<open>A closed connection never stays in the pool: whatever closes one removes it in the same step.\<close>

definition pool_ok :: "'c connection_pool \<Rightarrow> bool" where
  "pool_ok p \<longleftrightarrow> distinct (map fst (cp_connections p)) \<and>
     list_all (\<lambda>(k, m). cm_State m = ConnectionStateActive) (cp_connections p)"

lemma pool_ok_active:
  "pool_ok p \<Longrightarrow> map_of (cp_connections p) k = Some m \<Longrightarrow> cm_State m = ConnectionStateActive"
  by (auto simp: pool_ok_def list_all_iff dest: map_of_SomeD)

lemma list_all_update:
  assumes "list_all P xs" and "P (k, v)"
  shows "list_all P (AList.update k v xs)"
  using assms by (induction xs) auto

lemma list_all_adelete: "list_all P xs \<Longrightarrow> list_all P (AList.delete k xs)"
  by (induction xs) auto

lemma pool_ok_New [keeps]: "pool_ok (NewSessionConnectionPoolWithConfig config)"
  by (simp add: pool_ok_def NewSessionConnectionPoolWithConfig_def)

lemma pool_ok_update:
  "pool_ok p \<Longrightarrow> cm_State m = ConnectionStateActive \<Longrightarrow> pool_ok (p\<lparr>cp_connections := AList.update k m (cp_connections p)\<rparr>)"
  by (simp add: pool_ok_def list_all_update distinct_keys_update)

lemma pool_ok_cleanup [keeps]: "pool_ok p \<Longrightarrow> pool_ok (cleanupIdleConnections now p)"
  by (auto simp: pool_ok_def cleanupIdleConnections_def list_all_iff distinct_map_filter)

lemma pool_ok_Stop [keeps]: "pool_ok (pool_Stop p)"
  by (simp add: pool_ok_def pool_Stop_def)

lemma pool_ok_Get [keeps]: "pool_ok p \<Longrightarrow> pool_ok (snd (pool_Get now b s p))"
  by (auto simp: pool_Get_def pool_ok_update split: option.splits)

lemma pool_ok_Set [keeps]: "pool_ok p \<Longrightarrow> pool_ok (pool_Set created used b s c p)"
  by (auto simp: pool_Set_def pool_ok_update split: option.splits)

lemma pool_ok_Delete [keeps]: "pool_ok p \<Longrightarrow> pool_ok (pool_Delete b s p)"
  by (simp add: pool_ok_def pool_Delete_def distinct_keys_delete list_all_adelete)

lemma pool_ok_RecordError [keeps]: "pool_ok p \<Longrightarrow> pool_ok (pool_RecordError b s p)"
  by (auto simp: pool_RecordError_def pool_ok_update pool_ok_active split: option.splits)

section \<open>The pool as a map\<close>

definition pooled :: "'c connection_pool \<Rightarrow> connection_key \<Rightarrow> 'c option" where
  "pooled p k = map_option cm_Connection (map_of (cp_connections p) k)"

lemma pooled_Get:
  assumes "pool_ok p"
  shows "fst (pool_Get now b s p) = pooled p (b, s)" and "pooled (snd (pool_Get now b s p)) = pooled p"
  using assms pool_ok_active[OF assms, of "(b, s)"]
  by (auto simp: pool_Get_def pooled_def update_conv' split: option.splits)

lemma pooled_Set: "pooled (pool_Set created used b s c p) = (pooled p)((b, s) := Some c)"
  by (auto simp: pool_Set_def pooled_def update_conv' split: option.splits)

lemma pooled_Delete: "pooled (pool_Delete b s p) = (pooled p)((b, s) := None)"
  by (auto simp: pool_Delete_def pooled_def delete_conv')

lemma pooled_Stop: "pooled (pool_Stop p) = Map.empty"
  by (simp add: pool_Stop_def pooled_def fun_eq_iff)

lemma pooled_RecordError: "pooled (pool_RecordError b s p) = pooled p"
  by (auto simp: pool_RecordError_def pooled_def update_conv' split: option.splits)

lemma map_of_filter_keys:
  "distinct (map fst xs) \<Longrightarrow> map_of (filter (\<lambda>(k, m). P m) xs) k = (case map_of xs k of Some m \<Rightarrow> if P m then Some m else None | None \<Rightarrow> None)"
  by (induction xs) (auto split: option.splits simp: map_of_eq_None_iff rev_image_eqI)

lemma pooled_cleanup:
  assumes "pool_ok p"
  shows "pooled (cleanupIdleConnections now p) k =
    (case map_of (cp_connections p) k of
       Some m \<Rightarrow> if should_remove now p m then None else Some (cm_Connection m)
     | None \<Rightarrow> None)"
  using assms map_of_filter_keys[of "cp_connections p" "\<lambda>m. \<not> should_remove now p m" k]
  by (auto simp: pool_ok_def pooled_def cleanupIdleConnections_def split: option.splits)

lemma RecordError_absent: "pooled p (b, s) = None \<Longrightarrow> pool_RecordError b s p = p"
  by (auto simp: pooled_def pool_RecordError_def split: option.splits)

end
