(* ===== verification/FilePath.thy ===== *)
theory FilePath imports GoStrings begin

text \<open>
  The lexical functions of Go's \<open>path/filepath\<close> on Unix that the launcher uses. A cleaned absolute
  path is a slash and its components, none of which is empty, "." or "..".
\<close>

section \<open>Definitions\<close>

definition IsAbs :: "string \<Rightarrow> bool" where "IsAbs path \<longleftrightarrow> prefix ''/'' path"

fun clean_comps :: "bool \<Rightarrow> string list \<Rightarrow> string list \<Rightarrow> string list" where
  "clean_comps rooted acc [] = rev acc"
| "clean_comps rooted acc (c # cs) =
     (if c = [] \<or> c = ''.'' then clean_comps rooted acc cs
      else if c = ''..'' then
        (case acc of
           [] \<Rightarrow> clean_comps rooted (if rooted then [] else [''..'']) cs
         | a # acc' \<Rightarrow> if a = ''..'' then clean_comps rooted (''..'' # acc) cs else clean_comps rooted acc' cs)
      else clean_comps rooted (c # acc) cs)"

definition components :: "string \<Rightarrow> string list" where
  "components path = clean_comps (IsAbs path) [] (split_on CHR ''/'' path)"

definition abs_path :: "string list \<Rightarrow> string" where "abs_path cs = CHR ''/'' # join_with ''/'' cs"

definition Clean :: "string \<Rightarrow> string" where
  "Clean path =
     (if IsAbs path then abs_path (components path)
      else if components path = [] then ''.'' else join_with ''/'' (components path))"

definition path_Join :: "string list \<Rightarrow> string" where
  "path_Join elems =
     (case filter (\<lambda>e. e \<noteq> []) elems of [] \<Rightarrow> [] | es \<Rightarrow> Clean (join_with ''/'' es))"

definition path_Base :: "string \<Rightarrow> string" where
  "path_Base path =
     (if path = [] then ''.''
      else
        (let stripped = rev (dropWhile (\<lambda>c. c = CHR ''/'') (rev path))
         in if stripped = [] then ''/'' else List.last (split_on CHR ''/'' stripped)))"

fun drop_common :: "string list \<Rightarrow> string list \<Rightarrow> string list \<times> string list" where
  "drop_common (b # bs) (t # ts) = (if b = t then drop_common bs ts else (b # bs, t # ts))"
| "drop_common bs ts = (bs, ts)"

definition path_Rel :: "string \<Rightarrow> string \<Rightarrow> string option" where
  "path_Rel base targ =
     (if Clean base = Clean targ then Some ''.''
      else if IsAbs base \<noteq> IsAbs targ then None
      else
        (let (bs, ts) = drop_common (components base) (components targ)
         in if bs \<noteq> [] \<and> hd bs = ''..'' then None
            else Some (join_with ''/'' (replicate (length bs) ''..'' @ ts))))"

section \<open>Cleaned paths\<close>

definition comp_ok :: "string \<Rightarrow> bool" where
  "comp_ok c \<longleftrightarrow> c \<noteq> [] \<and> c \<noteq> ''.'' \<and> c \<noteq> ''..'' \<and> CHR ''/'' \<notin> set c"

lemma clean_comps_ok:
  "list_all comp_ok acc \<Longrightarrow> \<forall>c\<in>set cs. CHR ''/'' \<notin> set c \<Longrightarrow> list_all comp_ok (clean_comps True acc cs)"
  by (induction True acc cs rule: clean_comps.induct) (auto simp: comp_ok_def split: list.splits)

lemma clean_comps_id:
  "list_all comp_ok cs \<Longrightarrow> clean_comps rooted acc cs = rev acc @ cs"
  by (induction cs arbitrary: acc) (simp_all add: comp_ok_def)

lemma components_ok: "IsAbs path \<Longrightarrow> list_all comp_ok (components path)"
  unfolding components_def using clean_comps_ok[of "[]"] split_on_segments by auto

lemma components_abs_path: "list_all comp_ok cs \<Longrightarrow> components (abs_path cs) = cs"
proof (cases cs)
  case Nil
  then show ?thesis by (simp add: components_def abs_path_def IsAbs_def)
next
  case (Cons c cs')
  assume ok: "list_all comp_ok cs"
  then have "split_on CHR ''/'' (join_with ''/'' cs) = cs"
    using Cons by (intro split_on_join) (auto simp: comp_ok_def list_all_iff)
  then have "split_on CHR ''/'' (abs_path cs) = [] # cs"
    by (simp add: abs_path_def)
  with ok show ?thesis by (simp add: components_def IsAbs_def abs_path_def clean_comps_id)
qed

lemma IsAbs_abs_path [simp]: "IsAbs (abs_path cs)"
  by (simp add: IsAbs_def abs_path_def)

lemma abs_path_inject:
  "list_all comp_ok cs \<Longrightarrow> list_all comp_ok ds \<Longrightarrow> abs_path cs = abs_path ds \<longleftrightarrow> cs = ds"
  using components_abs_path by metis

lemma Clean_abs_path: "list_all comp_ok cs \<Longrightarrow> Clean (abs_path cs) = abs_path cs"
  by (simp add: Clean_def components_abs_path)

lemma Clean_abs:
  assumes "IsAbs path"
  obtains cs where "list_all comp_ok cs" "Clean path = abs_path cs"
  using components_ok[OF assms] assms that by (simp add: Clean_def)

text \<open>What is left of two component lists after their common prefix.\<close>

lemma drop_common_prefix: "prefix bs ts \<Longrightarrow> drop_common bs ts = ([], drop (length bs) ts)"
  by (induction bs ts rule: drop_common.induct) auto

lemma drop_common_not_prefix: "\<not> prefix bs ts \<Longrightarrow> fst (drop_common bs ts) \<noteq> []"
  by (induction bs ts rule: drop_common.induct) auto

lemma drop_common_suffix: "set (fst (drop_common bs ts)) \<subseteq> set bs"
  by (induction bs ts rule: drop_common.induct) auto

lemma drop_common_target: "set (snd (drop_common bs ts)) \<subseteq> set ts"
  by (induction bs ts rule: drop_common.induct) auto

end
