(* ===== verification/MountPolicy.thy ===== *)
theory MountPolicy imports FilePath EnvUtil begin

text \<open>
  \<open>internal/mountspec/mountspec.go\<close> and \<open>internal/launcher/mount_policy.go\<close>: which host paths a
  containerized backend may mount. \<open>filepath.EvalSymlinks\<close> is an argument: it resolves a path, or
  reports that it does not exist or cannot be resolved.
\<close>

section \<open>Mount declarations\<close>

record mount_spec =
  ms_Source :: string
  ms_Destination :: string
  ms_Writable :: bool

datatype mount_parse_error = InvalidFormat | EmptySource | EmptyDestination | RelativeSource | RelativeDestination
  | ConflictingOptions | EmptyOption | UnsupportedOption | ModeNotExplicit

fun mode_loop :: "bool \<Rightarrow> bool \<Rightarrow> string list \<Rightarrow> mount_parse_error + bool" where
  "mode_loop modeSet writable [] = Inr writable"
| "mode_loop modeSet writable (raw # opts) =
     (let option = trim_space raw
      in if option = ''ro'' \<or> option = ''rw'' then
           (if modeSet then Inl ConflictingOptions else mode_loop True (option = ''rw'') opts)
         else if option = [] then Inl EmptyOption
         else Inl UnsupportedOption)"

definition mountspec_Parse :: "string \<Rightarrow> mount_parse_error + mount_spec" where
  "mountspec_Parse spec =
     (let parts = split_on CHR '':'' spec
      in if length parts < 2 \<or> length parts > 3 then Inl InvalidFormat
         else if parts ! 0 = [] then Inl EmptySource
         else if parts ! 1 = [] then Inl EmptyDestination
         else if \<not> IsAbs (parts ! 0) then Inl RelativeSource
         else if \<not> IsAbs (parts ! 1) then Inl RelativeDestination
         else
           (let mount = \<lparr>ms_Source = parts ! 0, ms_Destination = parts ! 1, ms_Writable = True\<rparr>
            in if length parts = 2 then Inr mount
               else map_sum id (\<lambda>w. mount\<lparr>ms_Writable := w\<rparr>) (mode_loop False True (split_on CHR '','' (parts ! 2)))))"

definition ParseRequiredMode :: "string \<Rightarrow> mount_parse_error + mount_spec" where
  "ParseRequiredMode spec =
     (let parts = split_on CHR '':'' spec
      in if length parts \<noteq> 3 then Inl InvalidFormat
         else if parts ! 2 \<noteq> ''ro'' \<and> parts ! 2 \<noteq> ''rw'' then Inl ModeNotExplicit
         else mountspec_Parse spec)"

section \<open>Canonical paths\<close>

datatype resolve_error = NotExist | Unresolvable

type_synonym symlinks = "string \<Rightarrow> resolve_error + string"

text \<open>
  The search for the longest existing ancestor of a cleaned path: its components, the last one
  first. \<open>filepath.Dir\<close> of such a path drops the last component.
\<close>

fun resolve_ancestor :: "symlinks \<Rightarrow> string \<Rightarrow> string list \<Rightarrow> string \<Rightarrow> string option" where
  "resolve_ancestor eval cleaned rc remainder =
     (case eval (abs_path (rev rc)) of
        Inr resolved \<Rightarrow>
          Some (if remainder = [] then Clean resolved else Clean (path_Join [resolved, remainder]))
      | Inl Unresolvable \<Rightarrow> None
      | Inl NotExist \<Rightarrow>
          (case rc of
             [] \<Rightarrow> Some cleaned
           | c # rc' \<Rightarrow> resolve_ancestor eval cleaned rc' (path_Join [c, remainder])))"

declare resolve_ancestor.simps [simp del]

definition canonicalizePath :: "symlinks \<Rightarrow> string \<Rightarrow> string option" where
  "canonicalizePath eval path =
     (if \<not> IsAbs path then None
      else resolve_ancestor eval (Clean path) (rev (components path)) [])"

definition isUnderRoot :: "string \<Rightarrow> string \<Rightarrow> bool" where
  "isUnderRoot path root \<longleftrightarrow>
     path = root \<or>
     (case path_Rel root path of
        None \<Rightarrow> False
      | Some rel \<Rightarrow> rel \<noteq> ''..'' \<and> \<not> prefix ''../'' rel)"

section \<open>The policy\<close>

record mount_root =
  mr_Path :: string
  mr_Writable :: bool

fun canonicalize_loop :: "symlinks \<Rightarrow> string list \<Rightarrow> mount_root list \<Rightarrow> mount_root list" where
  "canonicalize_loop eval seen [] = []"
| "canonicalize_loop eval seen (root # roots) =
     (case canonicalizePath eval (mr_Path root) of
        None \<Rightarrow> canonicalize_loop eval seen roots
      | Some path \<Rightarrow>
          (if path = ''/'' \<or> path \<in> set seen then canonicalize_loop eval seen roots
           else root\<lparr>mr_Path := path\<rparr> # canonicalize_loop eval (path # seen) roots))"

text \<open>\<open>sort_key\<close> is stable, as \<open>sort.SliceStable\<close> is.\<close>

definition canonicalizeRoots :: "symlinks \<Rightarrow> mount_root list \<Rightarrow> mount_root list" where
  "canonicalizeRoots eval roots = sort_key (\<lambda>r. - int (length (mr_Path r))) (canonicalize_loop eval [] roots)"

definition AllowedMountRootsEnvVar :: string where "AllowedMountRootsEnvVar = ''MCP_GATEWAY_ALLOWED_MOUNT_ROOTS''"

fun mount_root_entries :: "string list \<Rightarrow> mount_root list" where
  "mount_root_entries [] = []"
| "mount_root_entries (raw # es) =
     (let entry = trim_space raw;
          writable = suffix '':rw'' entry;
          path = (if writable then trim_suffix '':rw'' entry else trim_suffix '':ro'' entry)
      in if entry = [] \<or> \<not> IsAbs path then mount_root_entries es
         else \<lparr>mr_Path = path, mr_Writable = writable\<rparr> # mount_root_entries es)"

definition parseMountRoots :: "symlinks \<Rightarrow> string \<Rightarrow> mount_root list" where
  "parseMountRoots eval raw = canonicalizeRoots eval (mount_root_entries (split_on CHR '','' raw))"

definition DefaultMountPolicy :: "symlinks \<Rightarrow> environment \<Rightarrow> string option \<Rightarrow> string \<Rightarrow> mount_root list" where
  "DefaultMountPolicy eval env cwd tempDir =
     (let raw = trim_space (GetEnvString env AllowedMountRootsEnvVar []);
          workspace = trim_space (Getenv env ''GITHUB_WORKSPACE'')
      in if raw \<noteq> [] then parseMountRoots eval raw
         else canonicalizeRoots eval
           ((if workspace \<noteq> [] then [\<lparr>mr_Path = workspace, mr_Writable = False\<rparr>] else []) @
            (case cwd of
               Some d \<Rightarrow> if d \<noteq> [] then [\<lparr>mr_Path = d, mr_Writable = False\<rparr>] else []
             | None \<Rightarrow> []) @
            [\<lparr>mr_Path = tempDir, mr_Writable = True\<rparr>]))"

datatype mount_error =
    InvalidDeclaration mount_parse_error
  | NotCanonical string
  | WriteDenied string
  | OutsideRoots string
  | BypassOption string
  | MissingDeclaration string

fun mount_roots_check :: "string \<Rightarrow> bool \<Rightarrow> string \<Rightarrow> mount_root list \<Rightarrow> mount_error option" where
  "mount_roots_check name writable source [] = Some (OutsideRoots name)"
| "mount_roots_check name writable source (root # roots) =
     (if \<not> isUnderRoot source (mr_Path root) then mount_roots_check name writable source roots
      else if writable \<and> \<not> mr_Writable root then Some (WriteDenied name)
      else None)"

definition ValidateMount :: "symlinks \<Rightarrow> mount_root list \<Rightarrow> string \<Rightarrow> mount_error option" where
  "ValidateMount eval roots spec =
     (case mountspec_Parse spec of
        Inl e \<Rightarrow> Some (InvalidDeclaration e)
      | Inr decl \<Rightarrow>
          (case canonicalizePath eval (ms_Source decl) of
             None \<Rightarrow> Some (NotCanonical (ms_Source decl))
           | Some source \<Rightarrow> mount_roots_check (ms_Source decl) (ms_Writable decl) source roots))"

definition mountBypassOptions :: "string list" where
  "mountBypassOptions = [''--mount'', ''--volumes-from'', ''--privileged'', ''--device'', ''--rootfs'']"

text \<open>The name of an option: what stands before the first \<open>=\<close>, unless that is the first character.\<close>

definition option_name :: "string \<Rightarrow> string" where
  "option_name arg = (case cut CHR ''='' arg of Some (a, b) \<Rightarrow> if a \<noteq> [] then a else arg | None \<Rightarrow> arg)"

fun ValidateContainerArgs :: "symlinks \<Rightarrow> mount_root list \<Rightarrow> string list \<Rightarrow> mount_error option" where
  "ValidateContainerArgs eval roots [] = None"
| "ValidateContainerArgs eval roots (arg # args) =
     (if option_name arg \<in> set mountBypassOptions then Some (BypassOption (option_name arg))
      else if arg = ''-v'' \<or> arg = ''--volume'' then
        (case args of
           [] \<Rightarrow> Some (MissingDeclaration arg)
         | spec # args' \<Rightarrow>
             (case ValidateMount eval roots spec of
                Some e \<Rightarrow> Some e
              | None \<Rightarrow> ValidateContainerArgs eval roots args'))
      else if prefix ''--volume='' arg then
        (case ValidateMount eval roots (trim_prefix ''--volume='' arg) of
           Some e \<Rightarrow> Some e
         | None \<Rightarrow> ValidateContainerArgs eval roots args)
      else ValidateContainerArgs eval roots args)"

section \<open>Under a root means below it\<close>

lemma join_dotdot:
  assumes "list_all comp_ok ts"
  shows "join_with ''/'' (replicate n ''..'' @ ts) = ''..'' \<longleftrightarrow> n = 1 \<and> ts = []"
    and "prefix ''../'' (join_with ''/'' (replicate n ''..'' @ ts)) \<longleftrightarrow> n > 0 \<and> n + length ts > 1"
proof -
  let ?xs = "replicate n ''..'' @ ts"
  have seg: "\<forall>x\<in>set ?xs. CHR ''/'' \<notin> set x"
  proof
    fix x assume "x \<in> set ?xs"
    then consider "x = ''..''" | "x \<in> set ts" by (metis Un_iff in_set_replicate set_append)
    then show "CHR ''/'' \<notin> set x" using assms by cases (simp_all add: comp_ok_def list_all_iff)
  qed
  have sp: "?xs \<noteq> [] \<Longrightarrow> split_on CHR ''/'' (join_with ''/'' ?xs) = ?xs"
    by (rule split_on_join[OF _ seg])
  have ok: "ts \<noteq> [] \<Longrightarrow> hd ts \<noteq> ''..''" using assms by (cases ts) (auto simp: comp_ok_def)
  show "join_with ''/'' ?xs = ''..'' \<longleftrightarrow> n = 1 \<and> ts = []"
  proof
    assume e: "join_with ''/'' ?xs = ''..''"
    then have "?xs \<noteq> []" by auto
    with sp e have x: "?xs = [''..'']" by (simp add: split_on_fresh)
    show "n = 1 \<and> ts = []"
    proof (cases n)
      case 0
      with x ok show ?thesis by auto
    next
      case (Suc k)
      with x show ?thesis by simp
    qed
  qed simp
  show "prefix ''../'' (join_with ''/'' ?xs) \<longleftrightarrow> n > 0 \<and> n + length ts > 1"
  proof
    assume "prefix ''../'' (join_with ''/'' ?xs)"
    then obtain zs where z: "join_with ''/'' ?xs = ''..'' @ CHR ''/'' # zs" by (auto simp: prefix_def)
    then have "?xs \<noteq> []" by auto
    with sp z have x: "?xs = ''..'' # split_on CHR ''/'' zs" using split_on_append[of "CHR ''/''" "''..''" zs] by simp
    have "n > 0" using x ok by (cases n) auto
    moreover have "length ?xs \<ge> 2" using arg_cong[OF x, of length] by (simp add: length_split_on)
    ultimately show "n > 0 \<and> n + length ts > 1" by simp
  next
    assume n: "n > 0 \<and> n + length ts > 1"
    then obtain k where k: "n = Suc k" by (cases n) auto
    then have "?xs = ''..'' # (replicate k ''..'' @ ts)" "replicate k ''..'' @ ts \<noteq> []" using n by auto
    then obtain y ys where "?xs = ''..'' # y # ys" by (metis neq_Nil_conv)
    then show "prefix ''../'' (join_with ''/'' ?xs)" by simp
  qed
qed

lemma isUnderRoot_iff:
  assumes ps: "list_all comp_ok ps" and rs: "list_all comp_ok rs"
  shows "isUnderRoot (abs_path ps) (abs_path rs) \<longleftrightarrow> prefix rs ps"
proof (cases "ps = rs")
  case True
  then show ?thesis by (simp add: isUnderRoot_def)
next
  case False
  then have ne: "abs_path ps \<noteq> abs_path rs" "abs_path rs \<noteq> abs_path ps" using abs_path_inject[OF ps rs] by auto
  obtain bs ts where d: "drop_common rs ps = (bs, ts)" by fastforce
  have hd: "bs = [] \<or> hd bs \<noteq> ''..''"
    using drop_common_suffix[of rs ps] d rs by (cases bs) (auto simp: comp_ok_def list_all_iff)
  have rel: "path_Rel (abs_path rs) (abs_path ps) = Some (join_with ''/'' (replicate (length bs) ''..'' @ ts))"
    using ne hd d by (simp add: path_Rel_def Clean_abs_path ps rs components_abs_path)
  have ts: "list_all comp_ok ts"
    using drop_common_target[of rs ps] d ps by (auto simp: list_all_iff)
  show ?thesis
  proof (cases "prefix rs ps")
    case True
    then have "bs = []" using drop_common_prefix[OF True] d by simp
    with True ne rel join_dotdot[OF ts, of 0] show ?thesis by (simp add: isUnderRoot_def)
  next
    case nf: False
    then have "bs \<noteq> []" using drop_common_not_prefix[OF nf] d by simp
    then have "length bs > 0" by simp
    then have "join_with ''/'' (replicate (length bs) ''..'' @ ts) = ''..'' \<or>
        prefix ''../'' (join_with ''/'' (replicate (length bs) ''..'' @ ts))"
      unfolding join_dotdot[OF ts] length_0_conv[symmetric, of ts] by linarith
    with nf ne rel show ?thesis by (auto simp: isUnderRoot_def)
  qed
qed

section \<open>Canonical roots\<close>

text \<open>What \<open>EvalSymlinks\<close> promises of an absolute path: an absolute path.\<close>

definition absolute_results :: "symlinks \<Rightarrow> bool" where
  "absolute_results eval \<longleftrightarrow> (\<forall>p q. IsAbs p \<longrightarrow> eval p = Inr q \<longrightarrow> IsAbs q)"

definition canonical :: "string \<Rightarrow> bool" where
  "canonical p \<longleftrightarrow> (\<exists>cs. list_all comp_ok cs \<and> p = abs_path cs)"

lemma canonical_Clean: "IsAbs p \<Longrightarrow> canonical (Clean p)"
  unfolding canonical_def using Clean_abs by metis

lemma IsAbs_append: "IsAbs p \<Longrightarrow> IsAbs (p @ q)"
  by (auto simp: IsAbs_def prefix_def)

lemma IsAbs_Join: "IsAbs p \<Longrightarrow> IsAbs (path_Join [p, q])"
proof -
  assume p: "IsAbs p"
  then have "p \<noteq> []" by (auto simp: IsAbs_def)
  then have "\<exists>s. path_Join [p, q] = Clean (p @ s)" by (cases "q = []") (auto simp: path_Join_def intro: exI[of _ "[]"])
  then show ?thesis using Clean_abs[OF IsAbs_append[OF p]] by (metis IsAbs_abs_path)
qed

lemma resolve_ancestor_canonical:
  assumes "absolute_results eval" and "canonical cleaned"
  shows "resolve_ancestor eval cleaned rc remainder = Some p \<Longrightarrow> canonical p"
proof (induction rc arbitrary: remainder)
  case Nil
  show ?case
  proof (cases "eval (abs_path (rev []))")
    case (Inl e)
    with Nil assms(2) show ?thesis by (cases e) (auto simp: resolve_ancestor.simps[of eval cleaned "[]"])
  next
    case (Inr resolved)
    with assms(1) have "IsAbs resolved" unfolding absolute_results_def by (metis IsAbs_abs_path)
    with Inr Nil show ?thesis
      by (auto simp: resolve_ancestor.simps[of eval cleaned "[]"] intro: canonical_Clean IsAbs_Join split: if_splits)
  qed
next
  case (Cons c rc)
  show ?case
  proof (cases "eval (abs_path (rev (c # rc)))")
    case (Inl e)
    with Cons show ?thesis by (cases e) (auto simp: resolve_ancestor.simps[of eval cleaned "c # rc"])
  next
    case (Inr resolved)
    with assms(1) have "IsAbs resolved" unfolding absolute_results_def by (metis IsAbs_abs_path)
    with Inr Cons.prems show ?thesis
      by (auto simp: resolve_ancestor.simps[of eval cleaned "c # rc"] intro: canonical_Clean IsAbs_Join split: if_splits)
  qed
qed

lemma canonicalizePath_canonical:
  "absolute_results eval \<Longrightarrow> canonicalizePath eval path = Some p \<Longrightarrow> canonical p"
  by (auto simp: canonicalizePath_def intro: resolve_ancestor_canonical canonical_Clean split: if_splits)

lemma canonicalize_loop_ok:
  "absolute_results eval \<Longrightarrow> r \<in> set (canonicalize_loop eval seen roots) \<Longrightarrow>
     canonical (mr_Path r) \<and> mr_Path r \<noteq> ''/'' \<and> mr_Path r \<notin> set seen"
proof (induction eval seen roots rule: canonicalize_loop.induct)
  case (2 eval seen root roots)
  show ?case
  proof (cases "canonicalizePath eval (mr_Path root)")
    case None
    with 2 show ?thesis by simp
  next
    case (Some path)
    with canonicalizePath_canonical[OF "2.prems"(1) Some] 2 show ?thesis by (auto split: if_splits)
  qed
qed simp

lemma canonicalizeRoots_ok:
  assumes "r \<in> set (canonicalizeRoots eval roots)" and "absolute_results eval"
  shows "canonical (mr_Path r)" and "mr_Path r \<noteq> ''/''"
  using canonicalize_loop_ok[OF assms(2)] assms(1) unfolding canonicalizeRoots_def by auto

lemma canonicalizeRoots_sorted:
  "sorted (map (\<lambda>r. - int (length (mr_Path r))) (canonicalizeRoots eval roots))"
  by (simp add: canonicalizeRoots_def)

section \<open>The closest root decides\<close>

lemma length_abs_path:
  "list_all comp_ok rs \<Longrightarrow> strict_prefix qs rs \<Longrightarrow> length (abs_path qs) < length (abs_path rs) \<or> qs = []"
proof (induction qs rs rule: list_induct2')
  case (4 q qs r rs)
  then have e: "q = r" "strict_prefix qs rs" by auto
  show ?case
  proof (cases "qs = []")
    case True
    with e obtain r1 rs1 where "rs = r1 # rs1" by (cases rs) auto
    with e True show ?thesis by (simp add: abs_path_def)
  next
    case False
    then obtain q1 qs1 where q1: "qs = q1 # qs1" by (cases qs) auto
    with e obtain r1 rs1 where "rs = r1 # rs1" by (cases rs) auto
    with 4 e q1 show ?thesis by (auto simp: abs_path_def)
  qed
qed auto

lemma mount_roots_check_None:
  "mount_roots_check name w source roots = None \<Longrightarrow>
     \<exists>bef root aft. roots = bef @ root # aft \<and> isUnderRoot source (mr_Path root) \<and> (w \<longrightarrow> mr_Writable root) \<and>
       (\<forall>r\<in>set bef. \<not> isUnderRoot source (mr_Path r))"
proof (induction roots)
  case (Cons r roots)
  show ?case
  proof (cases "isUnderRoot source (mr_Path r)")
    case True
    with Cons.prems show ?thesis by (intro exI[of _ "[]"]) (auto split: if_splits)
  next
    case False
    with Cons obtain bef root aft where "roots = bef @ root # aft" "isUnderRoot source (mr_Path root)" "w \<longrightarrow> mr_Writable root"
      "\<forall>r\<in>set bef. \<not> isUnderRoot source (mr_Path r)" by auto
    with False show ?thesis by (intro exI[of _ "r # bef"]) auto
  qed
qed simp

text \<open>Below: a path is the directory itself or inside it.\<close>

definition below :: "string \<Rightarrow> string \<Rightarrow> bool" where
  "below p dir \<longleftrightarrow> prefix (components dir) (components p)"

lemma below_isUnderRoot: "canonical p \<Longrightarrow> canonical r \<Longrightarrow> isUnderRoot p r \<longleftrightarrow> below p r"
  unfolding canonical_def below_def using isUnderRoot_iff components_abs_path by metis

lemma closest_root:
  assumes eval: "absolute_results eval" and src: "canonical source"
    and ok: "mount_roots_check name w source (canonicalizeRoots eval rs) = None"
  obtains root where "root \<in> set (canonicalizeRoots eval rs)" "below source (mr_Path root)" "w \<longrightarrow> mr_Writable root"
    "\<forall>r\<in>set (canonicalizeRoots eval rs). below source (mr_Path r) \<longrightarrow> below (mr_Path root) (mr_Path r)"
proof -
  obtain bef root aft where e: "canonicalizeRoots eval rs = bef @ root # aft" "isUnderRoot source (mr_Path root)"
    "w \<longrightarrow> mr_Writable root" "\<forall>r\<in>set bef. \<not> isUnderRoot source (mr_Path r)"
    using mount_roots_check_None[OF ok] by blast
  have can: "canonical (mr_Path r)" if "r \<in> set (canonicalizeRoots eval rs)" for r
    using canonicalizeRoots_ok(1)[OF that eval] .
  have root: "below source (mr_Path root)" using e(1,2) below_isUnderRoot[OF src can] by simp
  have least: "below (mr_Path root) (mr_Path r)"
    if r: "r \<in> set (canonicalizeRoots eval rs)" "below source (mr_Path r)" for r
  proof (rule ccontr)
    assume nb: "\<not> below (mr_Path root) (mr_Path r)"
    obtain ps where ps: "list_all comp_ok ps" "mr_Path r = abs_path ps" using can[OF r(1)] by (auto simp: canonical_def)
    have "root \<in> set (canonicalizeRoots eval rs)" using e(1) by simp
    then obtain qs where qs: "list_all comp_ok qs" "mr_Path root = abs_path qs" "qs \<noteq> []"
      using can canonicalizeRoots_ok(2)[OF _ eval] by (force simp: canonical_def abs_path_def)
    have "prefix ps (components source)" "prefix qs (components source)" "\<not> prefix ps qs"
      using r(2) root nb ps qs by (simp_all add: below_def components_abs_path)
    then have "strict_prefix qs ps" by (metis prefix_same_cases strict_prefixI)
    with length_abs_path[OF ps(1)] qs ps have longer: "length (mr_Path root) < length (mr_Path r)" by auto
    from r e(4) below_isUnderRoot[OF src can[OF r(1)]] have "r \<notin> set bef" by auto
    moreover have "r \<noteq> root" using longer by auto
    ultimately have "r \<in> set aft" using r(1) e(1) by auto
    with canonicalizeRoots_sorted[of eval rs] e(1) have "length (mr_Path r) \<le> length (mr_Path root)"
      by (auto simp: sorted_append)
    with longer show False by simp
  qed
  show thesis by (rule that[OF _ root e(3)]) (use e(1) least in auto)
qed

lemma ValidateMount_None:
  assumes "absolute_results eval" and "ValidateMount eval (canonicalizeRoots eval rs) spec = None"
  obtains decl source root where "mountspec_Parse spec = Inr decl" "canonicalizePath eval (ms_Source decl) = Some source"
    "root \<in> set (canonicalizeRoots eval rs)" "below source (mr_Path root)" "ms_Writable decl \<longrightarrow> mr_Writable root"
    "\<forall>r\<in>set (canonicalizeRoots eval rs). below source (mr_Path r) \<longrightarrow> below (mr_Path root) (mr_Path r)"
proof -
  from assms(2) obtain decl source where d: "mountspec_Parse spec = Inr decl"
    "canonicalizePath eval (ms_Source decl) = Some source"
    "mount_roots_check (ms_Source decl) (ms_Writable decl) source (canonicalizeRoots eval rs) = None"
    by (auto simp: ValidateMount_def split: sum.splits option.splits)
  from closest_root[OF assms(1) canonicalizePath_canonical[OF assms(1) d(2)] d(3)] that d show thesis by metis
qed

section \<open>The declarations among the arguments\<close>

text \<open>The declarations that the scan of a command line recognizes.\<close>

fun volume_specs :: "string list \<Rightarrow> string list" where
  "volume_specs [] = []"
| "volume_specs (arg # args) =
     (if arg = ''-v'' \<or> arg = ''--volume'' then (case args of [] \<Rightarrow> [] | spec # args' \<Rightarrow> spec # volume_specs args')
      else if prefix ''--volume='' arg then trim_prefix ''--volume='' arg # volume_specs args
      else volume_specs args)"

lemma ValidateContainerArgs_specs:
  "ValidateContainerArgs eval roots args = None \<Longrightarrow> spec \<in> set (volume_specs args) \<Longrightarrow> ValidateMount eval roots spec = None"
proof (induction eval roots args rule: ValidateContainerArgs.induct)
  case (2 eval roots arg args)
  have nb: "option_name arg \<notin> set mountBypassOptions"
    using "2.prems"(1) by (rule contrapos_pn) (simp only: ValidateContainerArgs.simps if_True option.distinct not_False_eq_True)
  note ok = "2.prems"(1)[unfolded ValidateContainerArgs.simps if_not_P[OF nb]]
  show ?case
  proof (cases "arg = ''-v'' \<or> arg = ''--volume''")
    case True
    note v = this
    show ?thesis
    proof (cases args)
      case Nil
      with "2.prems"(2) v show ?thesis by (simp only: volume_specs.simps if_True list.case list.set empty_iff)
    next
      case (Cons x xs)
      from ok[unfolded if_P[OF v] Cons list.case] have x: "ValidateMount eval roots x = None"
        "ValidateContainerArgs eval roots xs = None" by (simp_all split: option.splits)
      from "2.prems"(2)[unfolded volume_specs.simps if_P[OF v] Cons list.case] have "spec = x \<or> spec \<in> set (volume_specs xs)"
        by simp
      then show ?thesis using x "2.IH"(1)[OF nb v Cons x] by blast
    qed
  next
    case v: False
    show ?thesis
    proof (cases "prefix ''--volume='' arg")
      case True
      from ok[unfolded if_not_P[OF v] if_P[OF True]] have x: "ValidateMount eval roots (trim_prefix ''--volume='' arg) = None"
        "ValidateContainerArgs eval roots args = None" by (simp_all split: option.splits)
      from "2.prems"(2)[unfolded volume_specs.simps if_not_P[OF v] if_P[OF True]]
      have "spec = trim_prefix ''--volume='' arg \<or> spec \<in> set (volume_specs args)" by simp
      then show ?thesis using x "2.IH"(2)[OF nb v True x] by blast
    next
      case False
      show ?thesis
        using "2.IH"(3)[OF nb v False] ok[unfolded if_not_P[OF v] if_not_P[OF False]]
          "2.prems"(2)[unfolded volume_specs.simps if_not_P[OF v] if_not_P[OF False]] by blast
    qed
  qed
qed simp

lemma short_form_unchecked:
  assumes "prefix ''-v'' arg" and "length arg > 2"
  shows "ValidateContainerArgs eval roots (arg # args) = ValidateContainerArgs eval roots args"
proof -
  from assms(1) obtain rest where r: "arg = ''-v'' @ rest" by (rule prefixE)
  then have a: "arg = CHR ''-'' # CHR ''v'' # rest" "rest \<noteq> []" using assms(2) by auto
  have "\<exists>t. option_name arg = CHR ''-'' # CHR ''v'' # t"
    using a(1) by (cases "cut CHR ''='' rest") (simp_all add: option_name_def split_beta)
  then have nb: "option_name arg \<notin> set mountBypassOptions" by (auto simp: mountBypassOptions_def)
  have v: "\<not> (arg = ''-v'' \<or> arg = ''--volume'')" and p: "\<not> prefix ''--volume='' arg" using a by simp_all
  show ?thesis
    unfolding ValidateContainerArgs.simps if_not_P[OF nb] if_not_P[OF v] if_not_P[OF p] ..
qed

end
