(* ===== verification/Launcher.thy ===== *)
theory Launcher imports ConnectionPool MountPolicy begin

text \<open>
  \<open>internal/launcher/launcher.go\<close> and \<open>health_monitor.go\<close>: connections are launched on demand, one per
  HTTP backend and one per session of a stdio backend, and failed backends are restarted. The
  launcher's mutex makes each critical section one step; \<open>meanwhile\<close> arguments stand for what other
  goroutines do between two of them. What starting a process or connecting yields is an argument. An
  error is recorded as its value, not as its rendering.
\<close>

section \<open>State\<close>

record backend_config =
  bc_Type :: string
  bc_Command :: string
  bc_Args :: "string list"
  bc_Containerized :: bool
  bc_ContainerRuntimeArgs :: "string list option"
  bc_OIDC :: bool

datatype launch_error =
    LauncherClosed
  | ServerNotFound string
  | OIDCMissing string
  | HTTPConnectionFailed
  | MountRejected string mount_error
  | ConnectionFailed
  | StartupTimeout

record 'c launcher =
  la_servers :: "(string \<times> backend_config) list"
  la_connections :: "(string \<times> 'c) list"
  la_pool :: "'c connection_pool"
  la_shut :: bool
  la_startTimes :: "(string \<times> time) list"
  la_errors :: "(string \<times> launch_error) list"
  la_hasOIDC :: bool
  la_mountPolicy :: "mount_root list"
  la_closedConns :: "'c list"

text \<open>What a connection attempt yields: a connection, an error, or nothing before the timeout.\<close>

datatype 'c attempt = Connected 'c | Refused | TimedOut

definition launcher_New :: "(string \<times> backend_config) list \<Rightarrow> bool \<Rightarrow> mount_root list \<Rightarrow> 'c launcher" where
  "launcher_New servers hasOIDC policy =
     \<lparr>la_servers = servers, la_connections = [], la_pool = NewSessionConnectionPool, la_shut = False, la_startTimes = [],
      la_errors = fold (\<lambda>(serverID, cfg) m. if bc_OIDC cfg \<and> \<not> hasOIDC then AList.update serverID (OIDCMissing serverID) m else m)
        servers [],
      la_hasOIDC = hasOIDC, la_mountPolicy = policy, la_closedConns = []\<rparr>"

section \<open>Single steps\<close>

definition getServerConfig :: "'c launcher \<Rightarrow> string \<Rightarrow> launch_error + backend_config" where
  "getServerConfig l serverID =
     (if la_shut l then Inl LauncherClosed
      else (case map_of (la_servers l) serverID of None \<Rightarrow> Inl (ServerNotFound serverID) | Some cfg \<Rightarrow> Inr cfg))"

definition cached_connection :: "'c launcher \<Rightarrow> string \<Rightarrow> launch_error + 'c option" where
  "cached_connection l serverID = (if la_shut l then Inl LauncherClosed else Inr (map_of (la_connections l) serverID))"

definition session_connection :: "time \<Rightarrow> 'c launcher \<Rightarrow> string \<Rightarrow> string \<Rightarrow> (launch_error + 'c option) \<times> 'c launcher" where
  "session_connection now l serverID sessionID =
     (if la_shut l then (Inl LauncherClosed, l)
      else (let (conn, p) = pool_Get now serverID sessionID (la_pool l) in (Inr conn, l\<lparr>la_pool := p\<rparr>)))"

definition recordStart :: "time \<Rightarrow> string \<Rightarrow> 'c launcher \<Rightarrow> 'c launcher" where
  "recordStart now serverID l =
     (if la_shut l \<or> map_of (la_startTimes l) serverID \<noteq> None then l
      else l\<lparr>la_startTimes := AList.update serverID now (la_startTimes l), la_errors := AList.delete serverID (la_errors l)\<rparr>)"

definition recordError :: "string \<Rightarrow> launch_error \<Rightarrow> 'c launcher \<Rightarrow> 'c launcher" where
  "recordError serverID err l =
     (if la_shut l then l else l\<lparr>la_errors := AList.update serverID err (la_errors l)\<rparr>)"

text \<open>After a launch: the connection is stored, or closed if the launcher was shut down meanwhile.\<close>

definition publish :: "string \<Rightarrow> 'c \<Rightarrow> 'c launcher \<Rightarrow> (launch_error + 'c) \<times> 'c launcher" where
  "publish serverID conn l =
     (if la_shut l then (Inl LauncherClosed, l\<lparr>la_closedConns := la_closedConns l @ [conn]\<rparr>)
      else (Inr conn, l\<lparr>la_connections := AList.update serverID conn (la_connections l)\<rparr>))"

definition publish_session ::
  "time \<Rightarrow> string \<Rightarrow> string \<Rightarrow> 'c \<Rightarrow> 'c launcher \<Rightarrow> (launch_error + 'c) \<times> 'c launcher" where
  "publish_session now serverID sessionID conn l =
     (if la_shut l then (Inl LauncherClosed, l\<lparr>la_closedConns := la_closedConns l @ [conn]\<rparr>)
      else (Inr conn, l\<lparr>la_pool := pool_Set now now serverID sessionID conn (la_pool l)\<rparr>))"

section \<open>Launching\<close>

definition isDirectStdioCommand :: "backend_config \<Rightarrow> bool" where
  "isDirectStdioCommand cfg \<longleftrightarrow>
     \<not> bc_Containerized cfg \<and>
     to_lower (path_Base (bc_Command cfg)) \<notin> set [''docker'', ''podman'', ''nerdctl''] \<and>
     \<not> list_ex (\<lambda>arg. map lower_char arg = ''run'') (take 3 (bc_Args cfg))"

definition runtime_args :: "backend_config \<Rightarrow> string list" where
  "runtime_args cfg = (case bc_ContainerRuntimeArgs cfg of Some args \<Rightarrow> args | None \<Rightarrow> bc_Args cfg)"

definition launchStdioConnection ::
  "symlinks \<Rightarrow> string \<Rightarrow> backend_config \<Rightarrow> 'c attempt \<Rightarrow> 'c launcher \<Rightarrow> launch_error + 'c" where
  "launchStdioConnection eval serverID cfg attempt l =
     (case (if isDirectStdioCommand cfg then None
            else ValidateContainerArgs eval (la_mountPolicy l) (runtime_args cfg)) of
        Some e \<Rightarrow> Inl (MountRejected serverID e)
      | None \<Rightarrow>
          (case attempt of
             Connected conn \<Rightarrow> Inr conn
           | Refused \<Rightarrow> Inl ConnectionFailed
           | TimedOut \<Rightarrow> Inl StartupTimeout))"

definition launch_backend ::
  "symlinks \<Rightarrow> string \<Rightarrow> backend_config \<Rightarrow> 'c attempt \<Rightarrow> 'c launcher \<Rightarrow> launch_error + 'c" where
  "launch_backend eval serverID cfg attempt l =
     (if bc_Type cfg = ''http'' then
        (if bc_OIDC cfg \<and> \<not> la_hasOIDC l then Inl (OIDCMissing serverID)
         else
           (case attempt of
              Connected conn \<Rightarrow> Inr conn
            | _ \<Rightarrow> Inl HTTPConnectionFailed))
      else launchStdioConnection eval serverID cfg attempt l)"

text \<open>The function that the launch group runs: a second look, the launch, publication.\<close>

definition launch_stateless ::
  "symlinks \<Rightarrow> ('c launcher \<Rightarrow> 'c launcher) \<Rightarrow> time \<Rightarrow> string \<Rightarrow> backend_config \<Rightarrow> 'c attempt \<Rightarrow> 'c launcher \<Rightarrow>
   (launch_error + 'c) \<times> 'c launcher" where
  "launch_stateless eval meanwhile now serverID cfg attempt l =
     (case cached_connection l serverID of
        Inl e \<Rightarrow> (Inl e, l)
      | Inr (Some conn) \<Rightarrow> (Inr conn, l)
      | Inr None \<Rightarrow>
          (let res = launch_backend eval serverID cfg attempt l; l1 = meanwhile l
           in case res of
                Inl e \<Rightarrow> (Inl e, recordError serverID e l1)
              | Inr conn \<Rightarrow>
                  (case publish serverID conn l1 of
                     (Inl e, l2) \<Rightarrow> (Inl e, l2)
                   | (Inr c, l2) \<Rightarrow> (Inr c, recordStart now serverID l2))))"

definition getOrLaunchWithConfig ::
  "symlinks \<Rightarrow> ('c launcher \<Rightarrow> 'c launcher) \<Rightarrow> time \<Rightarrow> string \<Rightarrow> backend_config \<Rightarrow> 'c attempt \<Rightarrow> 'c launcher \<Rightarrow>
   (launch_error + 'c) \<times> 'c launcher" where
  "getOrLaunchWithConfig eval meanwhile now serverID cfg attempt l =
     (case cached_connection l serverID of
        Inl e \<Rightarrow> (Inl e, l)
      | Inr (Some conn) \<Rightarrow> (Inr conn, l)
      | Inr None \<Rightarrow> launch_stateless eval meanwhile now serverID cfg attempt (meanwhile l))"

definition GetOrLaunch ::
  "symlinks \<Rightarrow> ('c launcher \<Rightarrow> 'c launcher) \<Rightarrow> time \<Rightarrow> string \<Rightarrow> 'c attempt \<Rightarrow> 'c launcher \<Rightarrow>
   (launch_error + 'c) \<times> 'c launcher" where
  "GetOrLaunch eval meanwhile now serverID attempt l =
     (case getServerConfig l serverID of
        Inl e \<Rightarrow> (Inl e, l)
      | Inr cfg \<Rightarrow> getOrLaunchWithConfig eval meanwhile now serverID cfg attempt (meanwhile l))"

definition launch_session ::
  "symlinks \<Rightarrow> ('c launcher \<Rightarrow> 'c launcher) \<Rightarrow> time \<Rightarrow> string \<Rightarrow> string \<Rightarrow> backend_config \<Rightarrow> 'c attempt \<Rightarrow> 'c launcher \<Rightarrow>
   (launch_error + 'c) \<times> 'c launcher" where
  "launch_session eval meanwhile now serverID sessionID cfg attempt l =
     (case session_connection now l serverID sessionID of
        (Inl e, l1) \<Rightarrow> (Inl e, l1)
      | (Inr (Some conn), l1) \<Rightarrow> (Inr conn, l1)
      | (Inr None, l1) \<Rightarrow>
          (let res = launchStdioConnection eval serverID cfg attempt l1; l2 = meanwhile l1
           in case res of
                Inl e \<Rightarrow>
                  (Inl e, recordError serverID e (l2\<lparr>la_pool := pool_RecordError serverID sessionID (la_pool l2)\<rparr>))
              | Inr conn \<Rightarrow>
                  (case publish_session now serverID sessionID conn l2 of
                     (Inl e, l3) \<Rightarrow> (Inl e, l3)
                   | (Inr c, l3) \<Rightarrow> (Inr c, recordStart now serverID l3))))"

definition GetOrLaunchForSession ::
  "symlinks \<Rightarrow> ('c launcher \<Rightarrow> 'c launcher) \<Rightarrow> time \<Rightarrow> string \<Rightarrow> string \<Rightarrow> 'c attempt \<Rightarrow> 'c launcher \<Rightarrow>
   (launch_error + 'c) \<times> 'c launcher" where
  "GetOrLaunchForSession eval meanwhile now serverID sessionID attempt l =
     (case getServerConfig l serverID of
        Inl e \<Rightarrow> (Inl e, l)
      | Inr cfg \<Rightarrow>
          (let l0 = meanwhile l
           in if bc_Type cfg = ''http'' then getOrLaunchWithConfig eval meanwhile now serverID cfg attempt l0
              else
                (case session_connection now l0 serverID sessionID of
                   (Inl e, l1) \<Rightarrow> (Inl e, l1)
                 | (Inr (Some conn), l1) \<Rightarrow> (Inr conn, l1)
                 | (Inr None, l1) \<Rightarrow> launch_session eval meanwhile now serverID sessionID cfg attempt (meanwhile l1))))"

section \<open>Shutting down and restarting\<close>

definition ServerIDs :: "'c launcher \<Rightarrow> string list" where
  "ServerIDs l = map fst (la_servers l)"

definition launcher_Close :: "'c launcher \<Rightarrow> 'c launcher" where
  "launcher_Close l =
     (if la_shut l then l
      else l\<lparr>la_shut := True, la_connections := [], la_closedConns := la_closedConns l @ map snd (la_connections l),
             la_pool := pool_Stop (la_pool l)\<rparr>)"

definition clearServerForRestart :: "string \<Rightarrow> 'c launcher \<Rightarrow> 'c launcher" where
  "clearServerForRestart serverID l =
     l\<lparr>la_errors := AList.delete serverID (la_errors l), la_startTimes := AList.delete serverID (la_startTimes l),
       la_connections := AList.delete serverID (la_connections l),
       la_closedConns := la_closedConns l @
         (case map_of (la_connections l) serverID of Some conn \<Rightarrow> [conn] | None \<Rightarrow> [])\<rparr>"

datatype server_status = StatusError launch_error | StatusRunning time | StatusStopped

definition GetServerState :: "'c launcher \<Rightarrow> string \<Rightarrow> server_status" where
  "GetServerState l serverID =
     (case map_of (la_errors l) serverID of
        Some e \<Rightarrow> StatusError e
      | None \<Rightarrow>
          (case map_of (la_startTimes l) serverID of
             Some started \<Rightarrow> StatusRunning started
           | None \<Rightarrow> StatusStopped))"

section \<open>The health monitor\<close>

definition maxConsecutiveRestartFailures :: nat where "maxConsecutiveRestartFailures = 3"
definition DefaultHealthCheckInterval :: duration where "DefaultHealthCheckInterval = 30 * second"

type_synonym failures = "string failure_counter"

text \<open>The restarts that a check attempts are the first component of its result.\<close>

definition handleErrorState ::
  "symlinks \<Rightarrow> ('c launcher \<Rightarrow> 'c launcher) \<Rightarrow> time \<Rightarrow> string \<Rightarrow> 'c attempt \<Rightarrow> failures \<times> 'c launcher \<Rightarrow>
   bool \<times> failures \<times> 'c launcher" where
  "handleErrorState eval meanwhile now serverID attempt s =
     (let (fc, l) = s
      in if fc_Get fc serverID \<ge> maxConsecutiveRestartFailures then (False, fc, l)
         else
           (case GetOrLaunch eval meanwhile now serverID attempt (clearServerForRestart serverID l) of
              (Inl _, l1) \<Rightarrow> (True, snd (fc_Increment fc serverID), l1)
            | (Inr _, l1) \<Rightarrow> (True, snd (fc_Reset fc serverID), l1)))"

definition check_server ::
  "symlinks \<Rightarrow> ('c launcher \<Rightarrow> 'c launcher) \<Rightarrow> time \<Rightarrow> (string \<Rightarrow> 'c attempt) \<Rightarrow> string \<Rightarrow> failures \<times> 'c launcher \<Rightarrow>
   failures \<times> 'c launcher" where
  "check_server eval meanwhile now attempts serverID s =
     (case GetServerState (snd s) serverID of
        StatusError _ \<Rightarrow> snd (handleErrorState eval meanwhile now serverID (attempts serverID) s)
      | StatusRunning _ \<Rightarrow> (snd (fc_Reset (fst s) serverID), snd s)
      | StatusStopped \<Rightarrow> s)"

definition checkAll ::
  "symlinks \<Rightarrow> ('c launcher \<Rightarrow> 'c launcher) \<Rightarrow> time \<Rightarrow> (string \<Rightarrow> 'c attempt) \<Rightarrow> failures \<times> 'c launcher \<Rightarrow>
   failures \<times> 'c launcher" where
  "checkAll eval meanwhile now attempts s =
     fold (check_server eval meanwhile now attempts) (ServerIDs (snd s)) s"

section \<open>What launches keep\<close>

text \<open>
  A relation on states that is kept by the single steps, and by whatever happens meanwhile, is kept
  by every launch.
\<close>

locale launcher_steps =
  fixes R :: "'c launcher \<Rightarrow> 'c launcher \<Rightarrow> bool"
  assumes same: "R l l"
    and steps: "R l l1 \<Longrightarrow> R l1 l2 \<Longrightarrow> R l l2"
    and got: "session_connection now l serverID sessionID = (res, l1) \<Longrightarrow> R l l1"
    and started: "R l (recordStart now serverID l)"
    and failed: "R l (recordError serverID e l)"
    and counted: "R l (l\<lparr>la_pool := pool_RecordError serverID sessionID (la_pool l)\<rparr>)"
    and stored: "publish serverID conn l = (res1, l1) \<Longrightarrow> R l l1"
    and pooled: "publish_session now serverID sessionID conn l = (res1, l1) \<Longrightarrow> R l l1"
begin

lemma stateless:
  assumes mw: "\<And>l. R l (mw l)" and "launch_stateless eval mw now serverID cfg attempt l = (res, l')"
  shows "R l l'"
proof (cases "cached_connection l serverID = Inr None")
  case False
  with assms(2) have "l' = l" by (auto simp: launch_stateless_def split: sum.splits option.splits)
  with same show ?thesis by simp
next
  case True
  show ?thesis
  proof (cases "launch_backend eval serverID cfg attempt l")
    case (Inl e)
    with assms(2) True have "l' = recordError serverID e (mw l)" by (simp add: launch_stateless_def Let_def)
    with steps[OF mw failed] show ?thesis by simp
  next
    case (Inr conn)
    obtain res1 l2 where p: "publish serverID conn (mw l) = (res1, l2)" by fastforce
    with assms(2) True Inr have "l' = l2 \<or> l' = recordStart now serverID l2"
      by (auto simp: launch_stateless_def split: sum.splits)
    with steps[OF mw stored[OF p]] started show ?thesis by (auto intro: steps)
  qed
qed

lemma with_config:
  assumes mw: "\<And>l. R l (mw l)" and "getOrLaunchWithConfig eval mw now serverID cfg attempt l = (res, l')"
  shows "R l l'"
  using assms(2) stateless[OF mw] steps[OF mw]
  by (fastforce simp: getOrLaunchWithConfig_def intro: same split: sum.splits option.splits)

lemma get_or_launch:
  assumes mw: "\<And>l. R l (mw l)" and "GetOrLaunch eval mw now serverID attempt l = (res, l')"
  shows "R l l'"
  using assms(2) with_config[OF mw] steps[OF mw]
  by (fastforce simp: GetOrLaunch_def intro: same split: sum.splits)

lemma session:
  assumes mw: "\<And>l. R l (mw l)" and "launch_session eval mw now serverID sessionID cfg attempt l = (res, l')"
  shows "R l l'"
proof -
  obtain found l1 where s: "session_connection now l serverID sessionID = (found, l1)" by fastforce
  note first = got[OF s]
  show ?thesis
  proof (cases "found = Inr None")
    case False
    with assms(2) s have "l' = l1" by (auto simp: launch_session_def split: sum.splits option.splits)
    with first show ?thesis by simp
  next
    case True
    have l2: "R l (mw l1)" using first mw by (rule steps)
    show ?thesis
    proof (cases "launchStdioConnection eval serverID cfg attempt l1")
      case (Inl e)
      with assms(2) s True have "l' = recordError serverID e ((mw l1)\<lparr>la_pool := pool_RecordError serverID sessionID (la_pool (mw l1))\<rparr>)"
        by (simp add: launch_session_def Let_def)
      with steps[OF steps[OF l2 counted] failed] show ?thesis by simp
    next
      case (Inr conn)
      obtain res1 l3 where p: "publish_session now serverID sessionID conn (mw l1) = (res1, l3)" by fastforce
      with assms(2) s True Inr have "l' = l3 \<or> l' = recordStart now serverID l3"
        by (auto simp: launch_session_def split: sum.splits)
      with steps[OF l2 pooled[OF p]] started show ?thesis by (auto intro: steps)
    qed
  qed
qed

lemma for_session:
  assumes mw: "\<And>l. R l (mw l)" and "GetOrLaunchForSession eval mw now serverID sessionID attempt l = (res, l')"
  shows "R l l'"
proof (cases "getServerConfig l serverID")
  case (Inl e)
  with assms(2) show ?thesis by (simp add: GetOrLaunchForSession_def same)
next
  case (Inr cfg)
  show ?thesis
  proof (cases "bc_Type cfg = ''http''")
    case True
    with Inr assms(2) have "getOrLaunchWithConfig eval mw now serverID cfg attempt (mw l) = (res, l')"
      by (simp add: GetOrLaunchForSession_def)
    from mw with_config[OF mw this] show ?thesis by (rule steps)
  next
    case False
    obtain found l1 where s: "session_connection now (mw l) serverID sessionID = (found, l1)" by fastforce
    have first: "R l l1" using mw got[OF s] by (rule steps)
    show ?thesis
    proof (cases "found = Inr None")
      case True
      with Inr False assms(2) s have "launch_session eval mw now serverID sessionID cfg attempt (mw l1) = (res, l')"
        by (simp add: GetOrLaunchForSession_def)
      from steps[OF steps[OF first mw] session[OF mw this]] show ?thesis .
    next
      case nf: False
      with Inr False assms(2) s have "l' = l1"
        by (auto simp: GetOrLaunchForSession_def split: sum.splits option.splits)
      with first show ?thesis by simp
    qed
  qed
qed

end

text \<open>A launcher that was shut down holds nothing and stays shut.\<close>

definition closed_ok :: "'c launcher \<Rightarrow> bool" where
  "closed_ok l \<longleftrightarrow> pool_ok (la_pool l) \<and> (la_shut l \<longrightarrow> la_connections l = [] \<and> cp_connections (la_pool l) = [])"

definition stays_closed :: "'c launcher \<Rightarrow> 'c launcher \<Rightarrow> bool" where
  "stays_closed l l' \<longleftrightarrow> (closed_ok l \<longrightarrow> closed_ok l') \<and> (la_shut l \<longrightarrow> la_shut l')"

lemma closed_ok_session_connection:
  assumes "session_connection now l serverID sessionID = (res, l1)"
  shows "stays_closed l l1"
  using assms pool_ok_Get[of "la_pool l" now serverID sessionID]
  by (auto simp: stays_closed_def closed_ok_def session_connection_def split: if_splits prod.splits)

lemma closed_ok_RecordError: "stays_closed l (l\<lparr>la_pool := pool_RecordError serverID sessionID (la_pool l)\<rparr>)"
  by (auto simp: stays_closed_def closed_ok_def keeps) (simp add: pool_RecordError_def)

interpretation shutdown: launcher_steps stays_closed
proof
  fix l l1 :: "'a launcher" and now serverID sessionID res
  show "session_connection now l serverID sessionID = (res, l1) \<Longrightarrow> stays_closed l l1"
    by (rule closed_ok_session_connection)
qed (auto simp: closed_ok_RecordError, auto simp: stays_closed_def closed_ok_def recordStart_def recordError_def publish_def
       publish_session_def keeps split: if_splits)

end
