(* ===== verification/LauncherProperties.thy ===== *)
theory LauncherProperties imports Launcher begin

text \<open>
  The properties of the launcher: its pool of connections, what its launches return and keep, the
  restarts of the health monitor, and the mounts of the containers it starts.
\<close>

section \<open>The pool\<close>


section \<open>Launches\<close>

text \<open>A launch that returns a connection has stored it.\<close>

definition holds :: "'c launcher \<Rightarrow> string \<Rightarrow> string \<Rightarrow> 'c \<Rightarrow> bool" where
  "holds l serverID sessionID c \<longleftrightarrow>
     \<not> la_shut l \<and> (map_of (la_connections l) serverID = Some c \<or> pooled (la_pool l) (serverID, sessionID) = Some c)"

lemma recordStart_fields [simp]:
  "la_shut (recordStart now serverID l) = la_shut l" "la_connections (recordStart now serverID l) = la_connections l"
  "la_pool (recordStart now serverID l) = la_pool l"
  by (simp_all add: recordStart_def)

lemma holds_recordStart [simp]: "holds (recordStart now serverID' l) serverID sessionID c = holds l serverID sessionID c"
  by (simp add: holds_def)






definition sample_backend :: backend_config where
  "sample_backend = \<lparr>bc_Type = ''stdio'', bc_Command = ''docker'', bc_Args = [''run'', ''-v'', ''/tmp/x:/x''],
     bc_Containerized = True, bc_ContainerRuntimeArgs = None, bc_OIDC = False\<rparr>"

text \<open>A file system in which every path exists and none is a link.\<close>

definition sample_files :: symlinks where "sample_files = Inr"

definition sample_launcher :: "nat launcher" where
  "sample_launcher = launcher_New [(''s'', sample_backend)] False
     (canonicalizeRoots sample_files [\<lparr>mr_Path = ''/tmp'', mr_Writable = True\<rparr>])"




text \<open>C23: After a backend was started once, an error that a later launch recorded is not cleared by the launches that
  succeed after it: the backend keeps being reported as failed although it serves connections.\<close>

theorem start_error_sticks:
  assumes "getServerConfig l serverID = Inr cfg" and "bc_Type cfg \<noteq> ''http''" and "isDirectStdioCommand cfg"
    and "pooled (la_pool l) (serverID, sessionID) = None" and "pool_ok (la_pool l)"
    and "map_of (la_startTimes l) serverID = Some t" and "map_of (la_errors l) serverID = Some e"
  shows "\<exists>l'. GetOrLaunchForSession eval id now serverID sessionID (Connected c) l = (Inr c, l') \<and>
    holds l' serverID sessionID c \<and> GetServerState l' serverID = StatusError e"
proof -
  have sh: "\<not> la_shut l" using assms(1) by (auto simp: getServerConfig_def)
  have g: "pool_Get now serverID sessionID (la_pool l) = (None, la_pool l)"
    using assms(4,5) pool_ok_active[OF assms(5), of "(serverID, sessionID)"]
    by (auto simp: pool_Get_def pooled_def split: option.splits)
  have s: "session_connection now l serverID sessionID = (Inr None, l)"
    using sh g by (simp add: session_connection_def)
  show ?thesis
    using assms sh s
    by (simp add: GetOrLaunchForSession_def launch_session_def launchStdioConnection_def publish_session_def
        recordStart_def GetServerState_def holds_def pooled_Set)
qed

definition sample_failed :: "nat launcher" where
  "sample_failed = (launcher_New [(''s'', sample_backend\<lparr>bc_Command := ''tool'', bc_Args := [], bc_Containerized := False\<rparr>)] False [])
     \<lparr>la_startTimes := [(''s'', 0)], la_errors := [(''s'', StartupTimeout)]\<rparr>"

lemma start_error_sticks_witness:
  "\<exists>l'. GetOrLaunchForSession sample_files id 5 ''s'' ''a'' (Connected 7) sample_failed = (Inr 7, l') \<and>
     GetServerState l' ''s'' = StatusError StartupTimeout"
proof -
  have c: "getServerConfig sample_failed ''s'' = Inr (sample_backend\<lparr>bc_Command := ''tool'', bc_Args := [], bc_Containerized := False\<rparr>)"
    "isDirectStdioCommand (sample_backend\<lparr>bc_Command := ''tool'', bc_Args := [], bc_Containerized := False\<rparr>)"
    by code_simp+
  have p: "pooled (la_pool sample_failed) (''s'', ''a'') = None" "pool_ok (la_pool sample_failed)"
    "map_of (la_startTimes sample_failed) ''s'' = Some 0" "map_of (la_errors sample_failed) ''s'' = Some StartupTimeout"
    by (simp_all add: sample_failed_def launcher_New_def NewSessionConnectionPool_def NewSessionConnectionPoolWithConfig_def
        pooled_def pool_ok_def)
  from start_error_sticks[OF c(1) _ c(2) p, of sample_files 5 7] show ?thesis by (auto simp: sample_backend_def)
qed

section \<open>The health monitor\<close>





section \<open>Mounts\<close>

text \<open>C18: A container is started only if every mount that the scan of its arguments recognizes lies, after symbolic
  links are resolved, in an allowed root, and in the closest one, and is writable only if that root is. The file
  system root is never an allowed root.\<close>

theorem launch_mounts_confined:
  assumes "launchStdioConnection eval serverID cfg attempt l = Inr c" and "\<not> isDirectStdioCommand cfg"
    and "la_mountPolicy l = canonicalizeRoots eval roots" and "absolute_results eval"
    and "spec \<in> set (volume_specs (runtime_args cfg))"
  shows "\<exists>decl source root. mountspec_Parse spec = Inr decl \<and> canonicalizePath eval (ms_Source decl) = Some source \<and>
    root \<in> set (la_mountPolicy l) \<and> below source (mr_Path root) \<and> mr_Path root \<noteq> ''/'' \<and>
    (ms_Writable decl \<longrightarrow> mr_Writable root) \<and>
    (\<forall>r\<in>set (la_mountPolicy l). below source (mr_Path r) \<longrightarrow> below (mr_Path root) (mr_Path r))"
proof -
  have "ValidateContainerArgs eval (canonicalizeRoots eval roots) (runtime_args cfg) = None"
    using assms(1-3) by (auto simp: launchStdioConnection_def split: option.splits)
  from ValidateContainerArgs_specs[OF this assms(5)]
  have "ValidateMount eval (canonicalizeRoots eval roots) spec = None" .
  from ValidateMount_None[OF assms(4) this] show ?thesis
    using canonicalizeRoots_ok(2)[OF _ assms(4)] unfolding assms(3) by metis
qed

lemma launch_mounts_confined_witness:
  "launchStdioConnection sample_files ''s'' sample_backend (Connected 7) sample_launcher = Inr 7 \<and>
   (\<exists>decl source (root :: mount_root). mountspec_Parse ''/tmp/x:/x'' = Inr decl \<and> canonicalizePath sample_files (ms_Source decl) = Some source \<and>
      below source (mr_Path root) \<and> mr_Path root \<noteq> ''/'')"
proof -
  have l: "launchStdioConnection sample_files ''s'' sample_backend (Connected 7) sample_launcher = Inr 7"
    "\<not> isDirectStdioCommand sample_backend" "''/tmp/x:/x'' \<in> set (volume_specs (runtime_args sample_backend))"
    by code_simp+
  have p: "la_mountPolicy sample_launcher = canonicalizeRoots sample_files [\<lparr>mr_Path = ''/tmp'', mr_Writable = True\<rparr>]"
    by (simp add: sample_launcher_def launcher_New_def)
  have f: "absolute_results sample_files" by (simp add: absolute_results_def sample_files_def)
  have "\<exists>decl source (root :: mount_root). mountspec_Parse ''/tmp/x:/x'' = Inr decl \<and> canonicalizePath sample_files (ms_Source decl) = Some source \<and>
      below source (mr_Path root) \<and> mr_Path root \<noteq> ''/''"
    using launch_mounts_confined[OF l(1,2) p f l(3)] by blast
  with l(1) show ?thesis ..
qed

text \<open>C19: The short form of the volume option with its value attached, which container runtimes accept, is not
  recognized: such an argument is skipped whatever it mounts and whatever the policy allows.\<close>

theorem attached_volume_unchecked:
  assumes "spec \<noteq> []"
  shows "ValidateContainerArgs eval roots ((''-v'' @ spec) # args) = ValidateContainerArgs eval roots args"
  using assms by (intro short_form_unchecked) (cases spec, simp_all)

lemma attached_volume_unchecked_witness:
  "ValidateContainerArgs sample_files [] [''-v/etc:/etc:rw''] = None \<and>
   ValidateContainerArgs sample_files [] [''-v'', ''/etc:/etc:rw''] \<noteq> None"
proof -
  have "ValidateContainerArgs sample_files [] [''-v'' @ ''/etc:/etc:rw''] = ValidateContainerArgs sample_files [] []"
    by (rule attached_volume_unchecked) simp
  moreover have "ValidateContainerArgs sample_files [] [''-v'', ''/etc:/etc:rw''] \<noteq> None" by code_simp
  ultimately show ?thesis by simp
qed

end
