(* ===== verification/Spec2Isabelle.thy ===== *)
theory Spec2Isabelle
  imports FlowProperties PipelineProperties ServiceProperties DelegationProperties BackendProperties ProxyProperties
    GatewayAuthProperties DelegationControl LauncherProperties McpResult EnvUtil AgentPolicy
begin

text \<open>
  A verification development for the MCP gateway (Go, \<open>src/internal\<close>). The gateway sits between an
  agent and MCP backends: it labels every request and response (guards), decides on the labels
  (decentralised information flow control, DIFC), filters responses, throttles backends that
  report rate limits, and mints short-lived delegated identities for enclave executors. Its second
  front end is an HTTP proxy for the GitHub API that runs the same pipeline on REST and GraphQL.

  Conventions. A Go struct is a record, an enumeration a datatype, a map an association list with
  distinct keys in an arbitrary order, a set a distinct list, an error return a sum (\<open>Inl\<close> the
  error), and a call that may hit a nil dereference returns \<open>Panic\<close> or \<open>Return v\<close>
  (Prelude). Pointers that are shared are references into an explicit heap (agents,
  delegated identities). Methods that hold a mutex for their whole body are one step. Durations and
  instants are integers in nanoseconds, with 64-bit wrap-around written out where Go wraps
  (Util). A string is its bytes. The clock, random tokens, SHA-256, HMAC, \<open>encoding/json\<close>,
  \<open>net/url\<close>, Unicode case mapping, the GraphQL parser, the WebAssembly guard module, the
  backends and the network are arguments of the definitions that use them. Logging and
  tracing are not modelled.

  Theories, bottom up.
  Prelude, GoStrings, Util: outcomes of Go calls, association lists, the strings and strconv
  functions the code uses, \<open>internal/util\<close> collections and counters.
  Regexp, UrlQuery: a backtracking matcher with Go's leftmost-first order for the patterns of the
  source, and query strings (parsing, escaping).
  Registry, TtlCache: \<open>internal/syncutil\<close>; the locale of a map ADT and its interpretation.
  Labels, FlowLabels: \<open>internal/difc\<close> tag sets, labels, capabilities and the flow check of both
  kinds; the locales of tag stores and flow orders.
  Violations, Evaluator, AccessControl: evaluation of one access in the three modes with its
  messages, the abstract policy, and the proof that the evaluator implements it.
  JsonPointer, Resource, PathCollections, PathLabels, PathSecurity: labelled data, JSON
  pointers, path-labelled responses, rebuilding a filtered response and its noninterference.
  Agent, AgentRegistry: label objects and the registry; runs of registry operations.
  PipelineDecisions, Guards, Pipeline: coarse decisions, the noop, write-sink and WASM
  guards (locales \<open>labelling_guard\<close>, \<open>total_guard\<close> with an interpretation per guard), and
  the phases of the enforcement pipeline.
  McpResult, ToolResult: content normalisation and text extraction; raw results of tools.
  CircuitBreaker, RateLimit, Pagination, RepoSelector: the rate-limit state machine and the detection
  of rate limits, cursor pagination over an arbitrary backend, the two selector grammars.
  GuardPolicy, GuardPolicyParse, AgentPolicy, EnvUtil, GuardPayload: \<open>internal/config\<close> guard
  and agent policies (decoding, validation, normalization, resolution), environment
  lookups and expansion, the payload of \<open>label_agent\<close> in \<open>internal/guard\<close>.
  GuardInit, SessionState, DifcNotice, BackendCall, BackendFacts: \<open>internal/server\<close>: the guard of a
  server and its policy, sessions and tool-call limits, notices about withheld items, and
  \<open>callBackendTool\<close> and \<open>callBackendPrompt\<close> as a whole.
  DelegationTypes, DelegationStore, DelegationInvariant, DelegationSafety, DelegationRuns,
  DelegationRecovery, DelegationRestart: \<open>internal/delegation\<close> from the wire to the state file:
  the store, its invariant, every operation, histories, persistence and restart.
  EnclaveGithub: \<open>internal/enclavegithub\<close>: enclave policies, capabilities, routes.
  ProxyRoutes, ProxyGraphQL, ProxyRewrite, ProxyTransform: \<open>internal/proxy\<close>: the REST route table and
  its dispatch, selection of one read-only GraphQL operation, injection of guard fields,
  putting filtered items back into a response.
  ProxyHttp, ProxyHandler, ProxyServer, ProxyFacts: requests, headers and forwarding; the
  pipeline on one request, enclave and delegated requests; \<open>ServeHTTP\<close> and construction; case
  lemmas per handler, and the locales \<open>proxy_steps\<close> (a relation that the single effects
  keep is kept by every request) and \<open>upstream_policy\<close> (a property of what leaves
  \<open>forwardToGitHub\<close> holds of everything sent), interpreted for the read-only mode, the
  credentials and the cache of denied repositories.
  GatewayAuth, DelegationControl: the entrance of the gateway (\<open>internal/auth\<close>, the authentication,
  signature and shutdown middlewares of \<open>internal/server\<close>) as one stack and, for the nonce cache, as
  runs of interleaved requests; the delegation control plane with what it persists.
  FilePath, MountPolicy, ConnectionPool, Launcher: \<open>path/filepath\<close> on Unix, the host paths a container may
  mount, the pool of session connections, launching, shutdown and restarts; the locale
  \<open>launcher_steps\<close> lifts what the single steps keep to every launch, whatever runs meanwhile.
  FlowProperties, PipelineProperties, ServiceProperties, DelegationProperties, BackendProperties,
  ProxyProperties, GatewayAuthProperties, LauncherProperties (and the end of DelegationControl): the
  numbered properties with their witnesses.

  Bounds and fuel. \<open>paginate_loop\<close> is a partial function whose value None means that the loop
  does not return; with the cap the gateway uses it returns for every backend. Two walks over
  GraphQL documents, whose fragments may be cyclic, have fuel: \<open>graphqlHasRepositoryField\<close> the
  number of fragments (\<open>fragment_fuel_enough\<close>) and \<open>walk\<close> the number of fragments times parent names
  (\<open>walk_fuel_enough\<close>); more fuel gives the same result. All other loops are
  structurally recursive or have a measure.

  Not modelled: the WebAssembly runtime (wazero) and its memory; starting a process and the MCP handshake
  (a launch sees the outcome of an attempt); the MCP client and transports, TLS and HTTP listeners;
  logging sinks, tracing and OIDC; command-line flags and loading of configuration files and their JSON
  schema; the jq schema middleware (it runs gojq); calls by which a guard enriches a label
  (\<open>restBackendCaller\<close> is a definition, but the guard that calls it is a parameter). Their code is I/O
  or a thin layer over libraries.
\<close>

end
